(* ===== verification/Py_Num.thy ===== *)
theory Py_Num
  imports Complex_Main
begin

text \<open>
  Python's numbers as the program uses them. An \<open>int\<close> is unbounded, so it is HOL's
  \<open>int\<close>. A \<open>float\<close> (binary64) and a \<open>decimal.Decimal\<close> under the default context
  (28 significant digits) are both rationals that carry a bounded number of significant
  digits: every operation computes the exact rational result and rounds it once, to
  nearest with ties to even. \<open>rnd b p\<close> is that rounding, to \<open>p\<close> significant digits in
  base \<open>b\<close>; the formats are \<open>rnd 2 53\<close> and \<open>rnd 10 28\<close>. The exponent range is not
  bounded (no infinities, no subnormals): every quantity of the program (lamports,
  fractions, prices, seconds) stays far inside the binary64 range, where the two agree.

  The theory gives the rounding, the facts the component proofs rest on (it is monotone,
  it is exact on integers below \<open>b\<close> to the \<open>p\<close>, it keeps signs), and the Python
  operations built from it.
\<close>

section \<open>Significant digits\<close>

text \<open>The integer logarithm, by repeated division.\<close>

function ilog :: "int \<Rightarrow> int \<Rightarrow> int" where
  "ilog b n = (if b \<le> 1 \<or> n < b then 0 else 1 + ilog b (n div b))"
  by pat_completeness auto
termination
proof (relation "measure (\<lambda>(b, n). nat n)")
  show "wf (measure (\<lambda>(b :: int, n). nat n))" by simp
next
  fix b n :: int
  assume "\<not> (b \<le> 1 \<or> n < b)"
  then show "((b, n div b), b, n) \<in> measure (\<lambda>(b, n). nat n)"
    using int_div_less_self [of n b] by auto
qed
declare ilog.simps [simp del]

text \<open>The least \<open>k\<close> with \<open>n \<le> b ^ k\<close>.\<close>

definition clog :: "int \<Rightarrow> int \<Rightarrow> int" where
  "clog b n = (if n \<le> 1 then 0 else 1 + ilog b (n - 1))"

text \<open>The position of the leading digit of a positive rational.\<close>

definition sig_exp :: "int \<Rightarrow> rat \<Rightarrow> int" where
  "sig_exp b x = (if 1 \<le> x then ilog b \<lfloor>x\<rfloor> else - clog b \<lceil>1 / x\<rceil>)"

definition round_half_even :: "rat \<Rightarrow> int" where
  "round_half_even y =
     (let f = \<lfloor>y\<rfloor>; d = y - of_int f in
      if d < 1 / 2 then f else if 1 / 2 < d then f + 1 else if even f then f else f + 1)"

definition rnd :: "int \<Rightarrow> int \<Rightarrow> rat \<Rightarrow> rat" where
  "rnd b p x =
     (if x = 0 then 0
      else let q = of_int b powi (sig_exp b \<bar>x\<bar> + 1 - p)
           in of_int (round_half_even (x / q)) * q)"

section \<open>Properties of the rounding\<close>

lemma ilog_nonneg: "0 \<le> ilog b n"
  by (induction b n rule: ilog.induct) (subst ilog.simps, auto)

lemma ilog_bounds:
  assumes "1 < b" and "1 \<le> n"
  shows "b ^ nat (ilog b n) \<le> n \<and> n < b ^ (nat (ilog b n) + 1)"
  using assms
proof (induction b n rule: ilog.induct)
  case (1 b n)
  show ?case
  proof (cases "n < b")
    case True
    with 1 show ?thesis by (simp add: ilog.simps [of b n])
  next
    case False
    define m where "m = n div b"
    have "1 \<le> m"
      using False 1(2) unfolding m_def by (simp add: pos_imp_zdiv_pos_iff int_one_le_iff_zero_less)
    with 1 False have IH: "b ^ nat (ilog b m) \<le> m" "m < b ^ (nat (ilog b m) + 1)"
      by (auto simp: m_def)
    have step: "nat (ilog b n) = Suc (nat (ilog b m))"
      using False 1(2) ilog_nonneg [of b m] by (simp add: ilog.simps [of b n] m_def nat_add_distrib)
    have "b * m \<le> n"
      using 1(2) pos_mod_sign [of b n] mult_div_mod_eq [of b n]
      unfolding m_def by linarith
    moreover have "n < b * (m + 1)"
      using 1(2) pos_mod_bound [of b n] mult_div_mod_eq [of b n]
      unfolding m_def distrib_left by linarith
    moreover have "b * b ^ nat (ilog b m) \<le> b * m"
      using IH(1) 1(2) by simp
    moreover have "b * (m + 1) \<le> b * b ^ (nat (ilog b m) + 1)"
      using IH(2) 1(2) by (intro mult_left_mono) auto
    ultimately show ?thesis
      unfolding step by (simp only: power_Suc add_Suc Suc_eq_plus1 [symmetric]) (simp add: mult_ac)
  qed
qed


lemma sig_exp_bounds:
  assumes b: "1 < b" and x: "0 < x"
  shows "of_int b powi sig_exp b x \<le> x \<and> x < of_int b powi (sig_exp b x + 1)"
proof (cases "1 \<le> x")
  case True
  then have "1 \<le> \<lfloor>x\<rfloor>" by simp
  from ilog_bounds [OF b this]
  have "rat_of_int (b ^ nat (ilog b \<lfloor>x\<rfloor>)) \<le> of_int \<lfloor>x\<rfloor>"
    and "rat_of_int (\<lfloor>x\<rfloor> + 1) \<le> of_int (b ^ (nat (ilog b \<lfloor>x\<rfloor>) + 1))"
    by (simp_all only: of_int_le_iff) simp
  moreover have "of_int \<lfloor>x\<rfloor> \<le> x" and "x < of_int (\<lfloor>x\<rfloor> + 1)" by linarith+
  ultimately have "rat_of_int (b ^ nat (ilog b \<lfloor>x\<rfloor>)) \<le> x"
    and "x < of_int (b ^ (nat (ilog b \<lfloor>x\<rfloor>) + 1))" by linarith+
  then show ?thesis
    using True ilog_nonneg [of b "\<lfloor>x\<rfloor>"]
    by (simp add: sig_exp_def power_int_def nat_add_distrib)
next
  case False
  define n where "n = \<lceil>1 / x\<rceil>"
  define k where "k = nat (ilog b (n - 1))"
  have "1 < 1 / x" using False x by simp
  then have n: "2 \<le> n" unfolding n_def by linarith
  with ilog_bounds [OF b, of "n - 1"]
  have lo: "b ^ k \<le> n - 1" and hi: "n \<le> b ^ (k + 1)" by (auto simp: k_def)
  have "rat_of_int (b ^ k) < 1 / x"
    using lo by (simp only: n_def) linarith
  then have "x < 1 / of_int b ^ k" using b x by (simp add: field_simps)
  moreover have "1 / x \<le> rat_of_int (b ^ (k + 1))"
    using hi by (simp only: n_def) linarith
  then have "1 / of_int b ^ (k + 1) \<le> x" using b x by (simp add: field_simps)
  moreover have "sig_exp b x = - (1 + int k)"
    using False n ilog_nonneg [of b "n - 1"] by (simp add: sig_exp_def clog_def n_def [symmetric] k_def)
  ultimately show ?thesis
    using False by (auto simp: power_int_def nat_add_distrib divide_inverse power_inverse)
qed

lemma sig_exp_mono:
  assumes b: "1 < b" and x: "0 < x" and xy: "x \<le> y"
  shows "sig_exp b x \<le> sig_exp b y"
proof (rule ccontr)
  assume "\<not> ?thesis"
  then have "sig_exp b y + 1 \<le> sig_exp b x" by simp
  then have "(of_int b :: rat) powi (sig_exp b y + 1) \<le> of_int b powi sig_exp b x"
    using b by (intro power_int_increasing) auto
  moreover have "0 < y" using x xy by simp
  ultimately show False
    using sig_exp_bounds [OF b x] sig_exp_bounds [OF b \<open>0 < y\<close>] xy by linarith
qed

lemma round_half_even_of_int [simp]: "round_half_even (of_int n) = n"
  by (simp add: round_half_even_def)

lemma round_half_even_cases:
  "round_half_even y = \<lfloor>y\<rfloor> \<and> y - of_int \<lfloor>y\<rfloor> \<le> 1 / 2 \<or>
   round_half_even y = \<lfloor>y\<rfloor> + 1 \<and> 1 / 2 \<le> y - of_int \<lfloor>y\<rfloor>"
  by (auto simp: round_half_even_def Let_def)

lemma round_half_even_mono: "x \<le> y \<Longrightarrow> round_half_even x \<le> round_half_even y"
proof (cases "\<lfloor>x\<rfloor> = \<lfloor>y\<rfloor>")
  case True
  moreover assume "x \<le> y"
  ultimately show ?thesis by (auto simp: round_half_even_def Let_def)
next
  case False
  moreover assume "x \<le> y"
  ultimately have "\<lfloor>x\<rfloor> + 1 \<le> \<lfloor>y\<rfloor>" using floor_mono [of x y] by linarith
  then show ?thesis using round_half_even_cases [of x] round_half_even_cases [of y] by linarith
qed

lemma round_half_even_uminus: "round_half_even (- y) = - round_half_even y"
proof (cases "y = of_int \<lfloor>y\<rfloor>")
  case True
  then show ?thesis by (metis of_int_minus round_half_even_of_int)
next
  case False
  then have "\<lfloor>- y\<rfloor> = - \<lfloor>y\<rfloor> - 1" by linarith
  then show ?thesis by (auto simp: round_half_even_def Let_def)
qed

lemma round_half_even_near: "\<bar>of_int (round_half_even y) - y\<bar> \<le> 1 / 2"
  using round_half_even_cases [of y] by linarith

text \<open>The rounding of a positive rational stays between the powers around it.\<close>

lemma rnd_pos_bounds:
  assumes b: "1 < b" and p: "1 \<le> p" and x: "0 < x"
  shows "of_int b powi sig_exp b x \<le> rnd b p x \<and> rnd b p x \<le> of_int b powi (sig_exp b x + 1)"
proof -
  define q :: rat where "q = of_int b powi (sig_exp b x + 1 - p)"
  have q: "0 < q" using b by (simp add: q_def)
  have lo: "of_int b powi sig_exp b x = of_int (b ^ nat (p - 1)) * q"
    and hi: "of_int b powi (sig_exp b x + 1) = of_int (b ^ nat p) * q"
    using b p power_int_add [of "rat_of_int b" "p - 1" "sig_exp b x + 1 - p"]
      power_int_add [of "rat_of_int b" p "sig_exp b x + 1 - p"]
    by (simp_all add: q_def power_int_of_nat [symmetric] del: power_int_of_nat)
  from sig_exp_bounds [OF b x]
  have "of_int (b ^ nat (p - 1)) \<le> x / q" and "x / q \<le> of_int (b ^ nat p)"
    unfolding lo hi using q by (simp_all add: field_simps del: of_int_power)
  then have "b ^ nat (p - 1) \<le> round_half_even (x / q)" and "round_half_even (x / q) \<le> b ^ nat p"
    using round_half_even_mono [of _ "x / q"] round_half_even_mono [of "x / q"]
    by (metis round_half_even_of_int)+
  then have "rat_of_int (b ^ nat (p - 1)) * q \<le> of_int (round_half_even (x / q)) * q"
    and "of_int (round_half_even (x / q)) * q \<le> rat_of_int (b ^ nat p) * q"
    using q by (simp_all only: mult_le_cancel_right of_int_le_iff) simp_all
  then show ?thesis
    unfolding lo hi using x by (simp add: rnd_def q_def [symmetric] Let_def del: of_int_power)
qed


lemma rnd_0 [simp]: "rnd b p 0 = 0"
  by (simp add: rnd_def)

lemma rnd_uminus: "rnd b p (- x) = - rnd b p x"
  by (simp add: rnd_def Let_def round_half_even_uminus)

lemma rnd_pos:
  assumes "1 < b" and "1 \<le> p" and "0 < x"
  shows "0 < rnd b p x"
proof -
  have "0 < rat_of_int b powi sig_exp b x" using assms(1) by (intro zero_less_power_int) simp
  with rnd_pos_bounds [OF assms] show ?thesis by linarith
qed

lemma rnd_mono_pos:
  assumes b: "1 < b" and p: "1 \<le> p" and x: "0 < x" and xy: "x \<le> y"
  shows "rnd b p x \<le> rnd b p y"
proof (cases "sig_exp b x = sig_exp b y")
  case True
  define q :: rat where "q = of_int b powi (sig_exp b x + 1 - p)"
  have q: "0 < q" using b by (simp add: q_def)
  have "round_half_even (x / q) \<le> round_half_even (y / q)"
    using xy q by (intro round_half_even_mono divide_right_mono) auto
  then have "rat_of_int (round_half_even (x / q)) * q \<le> of_int (round_half_even (y / q)) * q"
    using q by (intro mult_right_mono) auto
  then show ?thesis
    using x xy by (simp add: rnd_def q_def True Let_def)
next
  case False
  with sig_exp_mono [OF b x xy] have "sig_exp b x + 1 \<le> sig_exp b y" by simp
  then have "(of_int b :: rat) powi (sig_exp b x + 1) \<le> of_int b powi sig_exp b y"
    using b by (intro power_int_increasing) auto
  with rnd_pos_bounds [OF b p x] rnd_pos_bounds [OF b p, of y] x xy show ?thesis by simp
qed

theorem rnd_mono:
  assumes b: "1 < b" and p: "1 \<le> p" and xy: "x \<le> y"
  shows "rnd b p x \<le> rnd b p y"
proof (cases "0 < x")
  case True
  then show ?thesis using rnd_mono_pos [OF b p _ xy] by simp
next
  case x: False
  show ?thesis
  proof (cases "y < 0")
    case True
    then show ?thesis using rnd_mono_pos [OF b p, of "- y" "- x"] xy by (simp add: rnd_uminus)
  next
    case False
    have "0 \<le> rnd b p y" using False rnd_pos [OF b p, of y] by (cases "y = 0") auto
    moreover have "0 \<le> rnd b p (- x)" using x rnd_pos [OF b p, of "- x"] by (cases "x = 0") auto
    ultimately show ?thesis by (simp add: rnd_uminus)
  qed
qed

text \<open>A number with at most \<open>p\<close> digits is its own rounding.\<close>

lemma rnd_exact_pos:
  assumes b: "1 < b" and m: "0 < m" "m < b ^ nat p" and p: "1 \<le> p"
  shows "rnd b p (of_int m * of_int b powi e) = of_int m * of_int b powi e"
proof -
  define x :: rat where "x = of_int m * of_int b powi e"
  have x: "0 < x" using b m by (simp add: x_def)
  define k where "k = e - (sig_exp b x + 1 - p)"
  have "rat_of_int m < of_int (b ^ nat p)" using m by (simp only: of_int_less_iff)
  then have "x < of_int b powi p * of_int b powi e"
    using b p by (simp add: x_def power_int_def [of _ p] mult_strict_right_mono)
  then have "x < of_int b powi (p + e)" using b by (simp add: power_int_add)
  then have "(of_int b :: rat) powi sig_exp b x < of_int b powi (p + e)"
    using sig_exp_bounds [OF b x] by linarith
  then have "sig_exp b x < p + e"
    using b power_int_increasing [of "p + e" "sig_exp b x" "rat_of_int b"] by force
  then have "0 \<le> k" by (simp add: k_def)
  have "x / of_int b powi (sig_exp b x + 1 - p) = of_int m * of_int b powi k"
    using b by (simp add: x_def k_def power_int_diff)
  also have "\<dots> = of_int (m * b ^ nat k)" using \<open>0 \<le> k\<close> by (simp add: power_int_def)
  finally have "x / of_int b powi (sig_exp b x + 1 - p) = of_int (m * b ^ nat k)" .
  then have "rnd b p x = of_int (m * b ^ nat k) * of_int b powi (sig_exp b x + 1 - p)"
    using x by (simp add: rnd_def Let_def del: of_int_mult of_int_power)
  also have "\<dots> = of_int m * (of_int b powi k * of_int b powi (sig_exp b x + 1 - p))"
    using \<open>0 \<le> k\<close> by (simp add: power_int_def [of _ k])
  also have "\<dots> = x" using b by (simp add: k_def x_def power_int_add [symmetric])
  finally show ?thesis by (simp add: x_def)
qed

lemma rnd_exact:
  assumes b: "1 < b" and m: "\<bar>m\<bar> < b ^ nat p" and p: "1 \<le> p"
  shows "rnd b p (of_int m * of_int b powi e) = of_int m * of_int b powi e"
proof -
  consider "m = 0" | "0 < m" | "0 < - m" by linarith
  then show ?thesis
  proof cases
    case 3
    with rnd_exact_pos [OF b 3 _ p, of e] m show ?thesis by (simp add: rnd_uminus)
  qed (use rnd_exact_pos [OF b _ _ p, of m e] m in auto)
qed

text \<open>So integers of at most \<open>p\<close> digits are fixed points, and bound what rounds to them.\<close>

lemma rnd_of_int: "1 < b \<Longrightarrow> 1 \<le> p \<Longrightarrow> \<bar>m\<bar> < b ^ nat p \<Longrightarrow> rnd b p (of_int m) = of_int m"
  using rnd_exact [of b m p 0] by simp

section \<open>Python floats\<close>

type_synonym pyfloat = rat
type_synonym decimal = rat

abbreviation rnd64 :: "rat \<Rightarrow> pyfloat" where
  "rnd64 \<equiv> rnd 2 53"

abbreviation rnd28 :: "rat \<Rightarrow> decimal" where
  "rnd28 \<equiv> rnd 10 28"

lemma rnd64_mono: "x \<le> y \<Longrightarrow> rnd64 x \<le> rnd64 y"
  by (rule rnd_mono) simp_all

lemma rnd28_mono: "x \<le> y \<Longrightarrow> rnd28 x \<le> rnd28 y"
  by (rule rnd_mono) simp_all

lemma rnd64_1 [simp]: "rnd64 1 = 1"
  using rnd_of_int [of 2 53 1] by simp

lemma rnd64_numeral [simp]: "numeral n < (2 :: int) ^ 53 \<Longrightarrow> rnd64 (numeral n) = numeral n"
  using rnd_of_int [of 2 53 "numeral n"] by simp

lemma rnd64_nonneg [simp]: "0 \<le> x \<Longrightarrow> 0 \<le> rnd64 x"
  using rnd64_mono [of 0 x] by simp

lemma rnd28_nonneg [simp]: "0 \<le> x \<Longrightarrow> 0 \<le> rnd28 x"
  using rnd28_mono [of 0 x] by simp

lemma rnd64_pos [simp]: "0 < x \<Longrightarrow> 0 < rnd64 x"
  by (rule rnd_pos) simp_all

lemma rnd64_le_1 [simp]: "x \<le> 1 \<Longrightarrow> rnd64 x \<le> 1"
  using rnd64_mono [of x 1] by simp

lemma rnd64_ge_of_int: "of_int n \<le> x \<Longrightarrow> \<bar>n\<bar> < 2 ^ 53 \<Longrightarrow> of_int n \<le> rnd64 x"
  using rnd64_mono [of "of_int n" x] rnd_of_int [of 2 53 n] by simp

lemma rnd64_le_of_int: "x \<le> of_int n \<Longrightarrow> \<bar>n\<bar> < 2 ^ 53 \<Longrightarrow> rnd64 x \<le> of_int n"
  using rnd64_mono [of x "of_int n"] rnd_of_int [of 2 53 n] by simp

text \<open>Float arithmetic: the exact result, rounded once.\<close>

definition fadd :: "pyfloat \<Rightarrow> pyfloat \<Rightarrow> pyfloat" where
  "fadd x y = rnd64 (x + y)"

definition fsub :: "pyfloat \<Rightarrow> pyfloat \<Rightarrow> pyfloat" where
  "fsub x y = rnd64 (x - y)"

definition fmul :: "pyfloat \<Rightarrow> pyfloat \<Rightarrow> pyfloat" where
  "fmul x y = rnd64 (x * y)"

text \<open>Division, at a nonzero divisor; where the divisor can be zero the caller's model
  has the \<open>ZeroDivisionError\<close> as a branch.\<close>

definition fdiv :: "pyfloat \<Rightarrow> pyfloat \<Rightarrow> pyfloat" where
  "fdiv x y = rnd64 (x / y)"

text \<open>\<open>float(n)\<close>, and \<open>a / b\<close> on integers, which Python rounds correctly in one step.\<close>

definition float_of_int :: "int \<Rightarrow> pyfloat" where
  "float_of_int n = rnd64 (of_int n)"

definition true_div :: "int \<Rightarrow> int \<Rightarrow> pyfloat" where
  "true_div a b = rnd64 (of_int a / of_int b)"

text \<open>\<open>int(x)\<close> truncates towards zero; \<open>round(x)\<close> is ties-to-even.\<close>

definition py_int :: "pyfloat \<Rightarrow> int" where
  "py_int x = (if 0 \<le> x then \<lfloor>x\<rfloor> else \<lceil>x\<rceil>)"

definition py_round :: "pyfloat \<Rightarrow> int" where
  "py_round x = round_half_even x"

text \<open>\<open>max(low, min(high, value))\<close>, the clamp that several modules define for themselves.\<close>

definition clamp :: "rat \<Rightarrow> rat \<Rightarrow> rat \<Rightarrow> rat" where
  "clamp low high x = max low (min high x)"

abbreviation clamp01 :: "rat \<Rightarrow> rat" where
  "clamp01 \<equiv> clamp 0 1"

lemma clamp_bounds: "lo \<le> hi \<Longrightarrow> lo \<le> clamp lo hi x \<and> clamp lo hi x \<le> hi"
  by (simp add: clamp_def)

lemma clamp01_nonneg [simp]: "0 \<le> clamp01 x"
  by (simp add: clamp_def)

lemma clamp01_le_1 [simp]: "clamp01 x \<le> 1"
  by (simp add: clamp_def)

lemma clamp_mono: "x \<le> y \<Longrightarrow> clamp lo hi x \<le> clamp lo hi y"
  by (auto simp: clamp_def)

lemma clamp_id: "lo \<le> x \<Longrightarrow> x \<le> hi \<Longrightarrow> clamp lo hi x = x"
  by (simp add: clamp_def)

lemma fadd_mono: "a \<le> b \<Longrightarrow> c \<le> d \<Longrightarrow> fadd a c \<le> fadd b d"
  by (simp add: fadd_def add_mono rnd64_mono)

lemma fsub_mono: "a \<le> b \<Longrightarrow> d \<le> c \<Longrightarrow> fsub a c \<le> fsub b d"
  by (simp add: fsub_def diff_mono rnd64_mono)

lemma fmul_mono: "0 \<le> a \<Longrightarrow> a \<le> b \<Longrightarrow> 0 \<le> c \<Longrightarrow> c \<le> d \<Longrightarrow> fmul a c \<le> fmul b d"
  by (simp add: fmul_def mult_mono rnd64_mono)

lemma fdiv_mono: "a \<le> b \<Longrightarrow> 0 < c \<Longrightarrow> fdiv a c \<le> fdiv b c"
  by (simp add: fdiv_def divide_right_mono rnd64_mono)

lemma true_div_mono: "a \<le> b \<Longrightarrow> 0 < c \<Longrightarrow> true_div a c \<le> true_div b c"
  by (simp add: true_div_def divide_right_mono rnd64_mono)

lemma true_div_nonneg [simp]: "0 \<le> a \<Longrightarrow> 0 < b \<Longrightarrow> 0 \<le> true_div a b"
  by (simp add: true_div_def)

lemma true_div_pos: "0 < a \<Longrightarrow> 0 < b \<Longrightarrow> 0 < true_div a b"
  by (simp add: true_div_def)

lemma fadd_nonneg [simp]: "0 \<le> x \<Longrightarrow> 0 \<le> y \<Longrightarrow> 0 \<le> fadd x y"
  by (simp add: fadd_def)

lemma fmul_nonneg [simp]: "0 \<le> x \<Longrightarrow> 0 \<le> y \<Longrightarrow> 0 \<le> fmul x y"
  by (simp add: fmul_def)

lemma fdiv_nonneg [simp]: "0 \<le> x \<Longrightarrow> 0 < y \<Longrightarrow> 0 \<le> fdiv x y"
  by (simp add: fdiv_def)

lemma py_int_nonneg [simp]: "0 \<le> x \<Longrightarrow> 0 \<le> py_int x"
  by (simp add: py_int_def)

lemma py_int_mono: "x \<le> y \<Longrightarrow> py_int x \<le> py_int y"
  unfolding py_int_def by (auto intro: floor_mono ceiling_mono order_trans [of _ 0])

lemma py_int_le: "0 \<le> x \<Longrightarrow> of_int (py_int x) \<le> x"
  by (simp add: py_int_def)

section \<open>Square root\<close>

text \<open>The integer square root, two bits at a time.\<close>

function isqrt :: "int \<Rightarrow> int" where
  "isqrt n =
     (if n \<le> 0 then 0
      else let r = 2 * isqrt (n div 4) in if (r + 1) * (r + 1) \<le> n then r + 1 else r)"
  by pat_completeness auto
termination
  by (relation "measure nat") auto
declare isqrt.simps [simp del]

lemma isqrt_bounds:
  "0 \<le> n \<Longrightarrow> 0 \<le> isqrt n \<and> isqrt n * isqrt n \<le> n \<and> n < (isqrt n + 1) * (isqrt n + 1)"
proof (induction n rule: isqrt.induct)
  case (1 n)
  show ?case
  proof (cases "n = 0")
    case True
    then show ?thesis by (simp add: isqrt.simps)
  next
    case False
    define m where "m = isqrt (n div 4)"
    have "0 \<le> m" "m * m \<le> n div 4" "n div 4 < (m + 1) * (m + 1)"
      using 1 False by (auto simp: m_def)
    then have "4 * (m * m) \<le> n" "n < 4 * ((m + 1) * (m + 1))" by linarith+
    moreover have "isqrt n = (if (2 * m + 1) * (2 * m + 1) \<le> n then 2 * m + 1 else 2 * m)"
      using False 1(2) by (subst isqrt.simps) (simp add: m_def Let_def)
    ultimately show ?thesis using \<open>0 \<le> m\<close> by (auto simp: algebra_simps)
  qed
qed

text \<open>
  \<open>math.sqrt\<close>, correctly rounded: the argument is scaled by a power of four until its integer
  root has more bits than the format, and half a unit stands for a nonzero rest.
\<close>

definition py_sqrt :: "pyfloat \<Rightarrow> pyfloat" where
  "py_sqrt x =
     (if x \<le> 0 then 0
      else let k = max 0 (56 - sig_exp 2 x div 2);
               y = x * 4 powi k;
               r = isqrt \<lfloor>y\<rfloor>
           in rnd64 ((of_int r + (if of_int (r * r) = y then 0 else 1 / 2)) / 2 powi k))"

lemma py_sqrt_nonneg: "0 \<le> py_sqrt x"
  using isqrt_bounds by (auto simp: py_sqrt_def Let_def intro!: rnd64_nonneg divide_nonneg_nonneg add_nonneg_nonneg)

end
