(* ===== verification/Prelude.thy ===== *)
theory Prelude
  imports Py_Num "HOL-Library.AList" "HOL-Library.Multiset" "HOL-Library.Char_ord"
    "HOL-Library.List_Lexorder"
begin

text \<open>
  What the component theories share: the Python exceptions and the state-and-exception
  monad that the stateful classes are written in, a small Hoare logic for it, Python's
  insertion-ordered dictionaries as association lists, and instants of time.
\<close>

named_theorems keeps_rules \<open>introduction rules: an action keeps a state predicate\<close>
named_theorems act_simps \<open>evaluation of the monad's combinators\<close>

text \<open>Instants and durations, in microseconds.\<close>

type_synonym time = int

section \<open>Exceptions\<close>

datatype exc =
    ValueError string
  | RuntimeError string
  | KeyError string
  | TypeError
  | ZeroDivisionError
  | OutOfRange \<comment> \<open>the \<open>ValueError\<close> or \<open>OverflowError\<close> of a date that \<open>datetime\<close> cannot hold\<close>
  | AssertionError
  | IntegrityError \<comment> \<open>\<open>sqlite3.IntegrityError\<close>: a primary key or unique index is violated\<close>
  | QueueFull
  | QueueEmpty

type_synonym 'a result = "exc + 'a"

definition rbind :: "'a result \<Rightarrow> ('a \<Rightarrow> 'b result) \<Rightarrow> 'b result" where
  "rbind r f = (case r of Inl e \<Rightarrow> Inl e | Inr x \<Rightarrow> f x)"

lemma rbind_simps [simp]: "rbind (Inl e) f = Inl e" "rbind (Inr x) f = f x"
  by (simp_all add: rbind_def)

lemma rbind_eq_Inr: "rbind r f = Inr y \<longleftrightarrow> (\<exists>x. r = Inr x \<and> f x = Inr y)"
  by (cases r) auto

section \<open>Stateful code\<close>

text \<open>
  An action reads and changes a state and returns a value or raises. As in Python, raising
  does not undo what was already written to the state; a database transaction, which does
  roll back, is \<open>txn\<close>.
\<close>

type_synonym ('s, 'a) act = "'s \<Rightarrow> 'a result \<times> 's"

definition ret :: "'a \<Rightarrow> ('s, 'a) act" where
  "ret x s = (Inr x, s)"

definition raise :: "exc \<Rightarrow> ('s, 'a) act" where
  "raise e s = (Inl e, s)"

definition bnd :: "('s, 'a) act \<Rightarrow> ('a \<Rightarrow> ('s, 'b) act) \<Rightarrow> ('s, 'b) act" where
  "bnd m f s = (case m s of (Inl e, s') \<Rightarrow> (Inl e, s') | (Inr x, s') \<Rightarrow> f x s')"

definition seq :: "('s, 'a) act \<Rightarrow> ('s, 'b) act \<Rightarrow> ('s, 'b) act" where
  "seq m k = bnd m (\<lambda>_. k)"

definition gets :: "('s \<Rightarrow> 'a) \<Rightarrow> ('s, 'a) act" where
  "gets f s = (Inr (f s), s)"

definition modify :: "('s \<Rightarrow> 's) \<Rightarrow> ('s, unit) act" where
  "modify f s = (Inr (), f s)"

definition lift :: "'a result \<Rightarrow> ('s, 'a) act" where
  "lift r s = (r, s)"

definition guard :: "bool \<Rightarrow> exc \<Rightarrow> ('s, unit) act" where
  "guard b e = (if b then ret () else raise e)"

definition when_do :: "bool \<Rightarrow> ('s, unit) act \<Rightarrow> ('s, unit) act" where
  "when_do b m = (if b then m else ret ())"

text \<open>\<open>try: m except ValueError as exc: h(str(exc))\<close>.\<close>

definition catch_value :: "('s, 'a) act \<Rightarrow> (string \<Rightarrow> ('s, 'a) act) \<Rightarrow> ('s, 'a) act" where
  "catch_value m h s = (case m s of (Inl (ValueError msg), s') \<Rightarrow> h msg s' | r \<Rightarrow> r)"

text \<open>
  \<open>with connection\<close>: commit on success; on an exception roll the tables (the part of the
  state that \<open>get\<close> and \<open>put\<close> name) back and re-raise. What Python keeps in memory stays.
\<close>

definition txn :: "('s \<Rightarrow> 't) \<Rightarrow> ('t \<Rightarrow> 's \<Rightarrow> 's) \<Rightarrow> ('s, 'a) act \<Rightarrow> ('s, 'a) act" where
  "txn get put m s =
     (case m s of (Inl e, s') \<Rightarrow> (Inl e, put (get s) s') | (Inr x, s') \<Rightarrow> (Inr x, s'))"

text \<open>A loop over a list, and one that collects the results that are present.\<close>

primrec for_each :: "'x list \<Rightarrow> ('x \<Rightarrow> ('s, unit) act) \<Rightarrow> ('s, unit) act" where
  "for_each [] f = ret ()"
| "for_each (x # xs) f = seq (f x) (for_each xs f)"

primrec collect :: "'x list \<Rightarrow> ('x \<Rightarrow> ('s, 'y option) act) \<Rightarrow> ('s, 'y list) act" where
  "collect [] f = ret []"
| "collect (x # xs) f =
     bnd (f x) (\<lambda>r. bnd (collect xs f) (\<lambda>rs. ret (case r of None \<Rightarrow> rs | Some y \<Rightarrow> y # rs)))"

text \<open>An action on a component of the state.\<close>

definition zoom :: "('t \<Rightarrow> 's) \<Rightarrow> ('s \<Rightarrow> 't \<Rightarrow> 't) \<Rightarrow> ('s, 'a) act \<Rightarrow> ('t, 'a) act" where
  "zoom get put m t = (case m (get t) of (r, s') \<Rightarrow> (r, put s' t))"

lemma act_run [act_simps]:
  "ret x s = (Inr x, s)"
  "raise e s = (Inl e, s)"
  "gets g s = (Inr (g s), s)"
  "modify u s = (Inr (), u s)"
  "lift r s = (r, s)"
  by (simp_all add: ret_def raise_def gets_def modify_def lift_def)

lemma bnd_run [act_simps]:
  "bnd (ret x) f s = f x s"
  "bnd (raise e) f1 s = (Inl e, s)"
  "bnd (gets g) f2 s = f2 (g s) s"
  "bnd (modify u) f3 s = f3 () (u s)"
  "bnd (lift r) f4 s = (case r of Inl e \<Rightarrow> (Inl e, s) | Inr x \<Rightarrow> f4 x s)"
  by (simp_all add: bnd_def act_run split: sum.splits)

lemma seq_run [act_simps]:
  "seq (ret x) k s = k s"
  "seq (raise e) k' s = (Inl e, s)"
  "seq (modify u) k'' s = k'' (u s)"
  by (simp_all add: seq_def bnd_run)

lemma bnd_eqs:
  "m s = (Inr x, s') \<Longrightarrow> bnd m f s = f x s'"
  "m s = (Inl e, s') \<Longrightarrow> bnd m f s = (Inl e, s')"
  by (simp_all add: bnd_def)

lemma bnd_InrE:
  assumes "bnd m f s = (Inr y, t)"
  obtains x s' where "m s = (Inr x, s')" "f x s' = (Inr y, t)"
  using assms by (auto simp: bnd_def split: prod.splits sum.splits)

lemma bnd_assoc: "bnd (bnd m f) g = bnd m (\<lambda>x. bnd (f x) g)"
  by (rule ext) (auto simp: bnd_def split: prod.splits sum.splits)

section \<open>Preservation\<close>

text \<open>
  \<open>keeps P m\<close>: the action leaves \<open>P\<close> true, whether it returns or raises.
\<close>

definition keeps :: "('s \<Rightarrow> bool) \<Rightarrow> ('s, 'a) act \<Rightarrow> bool" where
  "keeps P m \<longleftrightarrow> (\<forall>s. P s \<longrightarrow> P (snd (m s)))"

lemma keepsI: "(\<And>s. P s \<Longrightarrow> P (snd (m s))) \<Longrightarrow> keeps P m"
  by (simp add: keeps_def)

lemma keepsD: "keeps P m \<Longrightarrow> P s \<Longrightarrow> m s = (r, s') \<Longrightarrow> P s'"
  unfolding keeps_def by (metis snd_conv)

lemma keeps_ret [keeps_rules]: "keeps P (ret x)"
  and keeps_raise [keeps_rules]: "keeps P (raise e)"
  and keeps_gets [keeps_rules]: "keeps P (gets g)"
  and keeps_lift [keeps_rules]: "keeps P (lift r)"
  and keeps_guard [keeps_rules]: "keeps P (guard b e)"
  by (simp_all add: keeps_def act_simps guard_def)

lemma keeps_modify: "(\<And>s. P s \<Longrightarrow> P (u s)) \<Longrightarrow> keeps P (modify u)"
  by (simp add: keeps_def act_simps)

lemma keeps_bnd [keeps_rules]: "keeps P m \<Longrightarrow> (\<And>x. keeps P (f x)) \<Longrightarrow> keeps P (bnd m f)"
  by (fastforce simp: keeps_def bnd_def split: prod.splits sum.splits)

lemma keeps_seq [keeps_rules]: "keeps P m \<Longrightarrow> keeps P k \<Longrightarrow> keeps P (seq m k)"
  by (simp add: seq_def keeps_bnd)

lemma keeps_when_do [keeps_rules]: "(b \<Longrightarrow> keeps P m) \<Longrightarrow> keeps P (when_do b m)"
  by (simp add: when_do_def keeps_ret)

lemma keeps_if [keeps_rules]: "(b \<Longrightarrow> keeps P m) \<Longrightarrow> (\<not> b \<Longrightarrow> keeps P k) \<Longrightarrow> keeps P (if b then m else k)"
  by simp

lemma keeps_case_option [keeps_rules]:
  "(r = None \<Longrightarrow> keeps P m) \<Longrightarrow> (\<And>x. r = Some x \<Longrightarrow> keeps P (f x)) \<Longrightarrow>
   keeps P (case r of None \<Rightarrow> m | Some x \<Rightarrow> f x)"
  by (cases r) simp_all

lemma keeps_case_sum [keeps_rules]:
  "(\<And>e. r = Inl e \<Longrightarrow> keeps P (g e)) \<Longrightarrow> (\<And>x. r = Inr x \<Longrightarrow> keeps P (f x)) \<Longrightarrow>
   keeps P (case r of Inl e \<Rightarrow> g e | Inr x \<Rightarrow> f x)"
  by (cases r) simp_all

lemma keeps_case_prod [keeps_rules]:
  "(\<And>a b. r = (a, b) \<Longrightarrow> keeps P (f a b)) \<Longrightarrow> keeps P (case r of (a, b) \<Rightarrow> f a b)"
  by (cases r) simp_all

lemma keeps_let [keeps_rules]: "(\<And>x. x = t \<Longrightarrow> keeps P (f x)) \<Longrightarrow> keeps P (let x = t in f x)"
  by simp

lemma keeps_catch [keeps_rules]:
  "keeps P m \<Longrightarrow> (\<And>msg. keeps P (h msg)) \<Longrightarrow> keeps P (catch_value m h)"
  by (fastforce simp: keeps_def catch_value_def split: prod.splits sum.splits exc.splits)

lemma keeps_txn:
  assumes "keeps P m" and "\<And>s s'. P s \<Longrightarrow> P s' \<Longrightarrow> P (put (get s) s')"
  shows "keeps P (txn get put m)"
  using assms by (fastforce simp: keeps_def txn_def split: prod.splits sum.splits)

lemma keeps_zoom:
  assumes "\<And>t. P t \<Longrightarrow> Q (get t)" and "keeps Q m" and "\<And>s t. P t \<Longrightarrow> Q s \<Longrightarrow> P (put s t)"
  shows "keeps P (zoom get put m)"
  using assms by (fastforce simp: keeps_def zoom_def split: prod.splits)

lemma keeps_for_each [keeps_rules]: "(\<And>x. x \<in> set xs \<Longrightarrow> keeps P (f x)) \<Longrightarrow> keeps P (for_each xs f)"
  by (induction xs) (auto intro: keeps_rules)

lemma keeps_collect [keeps_rules]: "(\<And>x. x \<in> set xs \<Longrightarrow> keeps P (f x)) \<Longrightarrow> keeps P (collect xs f)"
  by (induction xs) (auto intro!: keeps_rules)

section \<open>Weakest preconditions\<close>

text \<open>
  \<open>wp m Q E s\<close>: run from \<open>s\<close>, the action returns a value that satisfies \<open>Q\<close> in the
  state it leaves, or raises an exception that satisfies \<open>E\<close> there.
\<close>

named_theorems wp_simps \<open>weakest preconditions of the combinators\<close>

definition wp ::
  "('s, 'a) act \<Rightarrow> ('a \<Rightarrow> 's \<Rightarrow> bool) \<Rightarrow> (exc \<Rightarrow> 's \<Rightarrow> bool) \<Rightarrow> 's \<Rightarrow> bool" where
  "wp m Q E s = (case m s of (Inr x, s') \<Rightarrow> Q x s' | (Inl e, s') \<Rightarrow> E e s')"

lemma wp_ret [wp_simps]: "wp (ret x) Q E s \<longleftrightarrow> Q x s"
  and wp_raise [wp_simps]: "wp (raise e) Q' E s \<longleftrightarrow> E e s"
  and wp_gets [wp_simps]: "wp (gets g) Q'' E s \<longleftrightarrow> Q'' (g s) s"
  and wp_modify [wp_simps]: "wp (modify u) R E s \<longleftrightarrow> R () (u s)"
  and wp_lift [wp_simps]: "wp (lift r) R' E s \<longleftrightarrow> (case r of Inl e \<Rightarrow> E e s | Inr x \<Rightarrow> R' x s)"
  and wp_guard [wp_simps]: "wp (guard b e) R E s \<longleftrightarrow> (if b then R () s else E e s)"
  by (simp_all add: wp_def act_simps guard_def split: sum.splits)

lemma wp_bnd [wp_simps]: "wp (bnd m f) Q E s \<longleftrightarrow> wp m (\<lambda>x. wp (f x) Q E) E s"
  by (simp add: wp_def bnd_def split: prod.splits sum.splits)

lemma wp_seq [wp_simps]: "wp (seq m k) Q E s \<longleftrightarrow> wp m (\<lambda>_. wp k Q E) E s"
  by (simp add: seq_def wp_bnd)

lemma wp_when_do [wp_simps]: "wp (when_do b m) Q E s \<longleftrightarrow> (if b then wp m Q E s else Q () s)"
  by (simp add: when_do_def wp_ret)

lemma wp_txn [wp_simps]: "wp (txn get put m) Q E s \<longleftrightarrow> wp m Q (\<lambda>e s'. E e (put (get s) s')) s"
  by (simp add: wp_def txn_def split: prod.splits sum.splits)

lemma wp_zoom [wp_simps]:
  "wp (zoom get put m) Q E t \<longleftrightarrow> wp m (\<lambda>x s. Q x (put s t)) (\<lambda>e s. E e (put s t)) (get t)"
  by (simp add: wp_def zoom_def split: prod.splits sum.splits)

lemma wp_if [wp_simps]: "wp (if b then m else k) Q E s \<longleftrightarrow> (if b then wp m Q E s else wp k Q E s)"
  by simp

lemma wp_let [wp_simps]: "wp (let x = t in f x) Q E s \<longleftrightarrow> (let x = t in wp (f x) Q E s)"
  by simp

lemma wp_case_option [wp_simps]:
  "wp (case r of None \<Rightarrow> m | Some x \<Rightarrow> f x) Q E s \<longleftrightarrow>
   (case r of None \<Rightarrow> wp m Q E s | Some x \<Rightarrow> wp (f x) Q E s)"
  by (cases r) simp_all

lemma wp_case_prod [wp_simps]:
  "wp (case r of (a, b) \<Rightarrow> f a b) Q E s \<longleftrightarrow> (case r of (a, b) \<Rightarrow> wp (f a b) Q E s)"
  by (cases r) simp_all

lemma wp_catch_value [wp_simps]:
  "wp (catch_value m h) Q E s \<longleftrightarrow>
   wp m Q (\<lambda>e s'. case e of ValueError msg \<Rightarrow> wp (h msg) Q E s' | _ \<Rightarrow> E e s') s"
  by (simp add: wp_def catch_value_def split: prod.splits sum.splits exc.splits)

lemma wp_mono:
  assumes "wp m Q E s" and "\<And>x s'. Q x s' \<Longrightarrow> Q' x s'" and "\<And>e s'. E e s' \<Longrightarrow> E' e s'"
  shows "wp m Q' E' s"
  using assms by (auto simp: wp_def split: prod.splits sum.splits)

lemma wp_InrD: "wp m Q E s \<Longrightarrow> m s = (Inr x, s') \<Longrightarrow> Q x s'"
  and wp_InlD: "wp m Q E s \<Longrightarrow> m s = (Inl e, s') \<Longrightarrow> E e s'"
  by (simp_all add: wp_def)

lemma wp_both: "wp m (\<lambda>_. P) (\<lambda>_. P) s \<longleftrightarrow> P (snd (m s))"
  by (cases "m s"; cases "fst (m s)") (auto simp: wp_def)

lemma keeps_wp: "keeps P m \<longleftrightarrow> (\<forall>s. P s \<longrightarrow> wp m (\<lambda>_. P) (\<lambda>_. P) s)"
  by (simp add: keeps_def wp_both)

lemma wp_of_keeps:
  assumes "keeps P m" and "P s" and "\<And>x s'. P s' \<Longrightarrow> Q x s'" and "\<And>e s'. P s' \<Longrightarrow> E e s'"
  shows "wp m Q E s"
  using assms(1,2) wp_mono [of m "\<lambda>_. P" "\<lambda>_. P" s Q E] assms(3,4) by (auto simp: keeps_wp)

lemma wp_for_each:
  assumes "\<And>x s. x \<in> set xs \<Longrightarrow> P s \<Longrightarrow> wp (f x) (\<lambda>_. P) (\<lambda>_. P) s"
  shows "P s \<Longrightarrow> wp (for_each xs f) (\<lambda>_. P) (\<lambda>_. P) s"
  using keeps_for_each [of xs P f] assms by (auto simp: keeps_wp)

text \<open>Nothing is written: the strongest preservation there is.\<close>

definition pure_act :: "('s, 'a) act \<Rightarrow> bool" where
  "pure_act m \<longleftrightarrow> (\<forall>s. snd (m s) = s)"

lemma pure_keeps: "pure_act m \<Longrightarrow> keeps P m"
  by (simp add: pure_act_def keeps_def)

lemma txn_InrD: "txn get put m s = (Inr x, s') \<Longrightarrow> m s = (Inr x, s')"
  by (auto simp: txn_def split: prod.splits sum.splits)

section \<open>Python dictionaries\<close>

text \<open>
  A \<open>dict\<close> keeps insertion order: it is an association list with distinct keys, written
  by \<open>AList.update\<close> (in place, or appended) and popped by \<open>AList.delete\<close>.
\<close>

type_synonym ('k, 'v) pydict = "('k \<times> 'v) list"

abbreviation dict_ok :: "('k, 'v) pydict \<Rightarrow> bool" where
  "dict_ok d \<equiv> distinct (map fst d)"

abbreviation values_of :: "('k, 'v) pydict \<Rightarrow> 'v list" where
  "values_of d \<equiv> map snd d"

text \<open>\<open>sorted(set(xs))\<close>, and the insertion order of \<open>dict.fromkeys(xs)\<close>.\<close>

definition sorted_set :: "'a :: linorder list \<Rightarrow> 'a list" where
  "sorted_set xs = sort (remdups xs)"

definition unique :: "'a list \<Rightarrow> 'a list" where
  "unique xs = rev (remdups (rev xs))"

lemma set_sorted_set [simp]: "set (sorted_set xs) = set xs"
  and distinct_sorted_set [simp]: "distinct (sorted_set xs)"
  and sorted_sorted_set [simp]: "sorted (sorted_set xs)"
  by (simp_all add: sorted_set_def)

lemma sorted_set_cong: "set xs = set ys \<Longrightarrow> sorted_set xs = sorted_set ys"
  by (rule sorted_distinct_set_unique) simp_all

lemma sorted_set_same: "sorted xs \<Longrightarrow> distinct xs \<Longrightarrow> sorted_set xs = xs"
  by (rule sorted_distinct_set_unique) simp_all

lemma set_unique [simp]: "set (unique xs) = set xs"
  and distinct_unique [simp]: "distinct (unique xs)"
  by (simp_all add: unique_def)

text \<open>The laws that clients of a keyed table use.\<close>

locale keyed_table =
  fixes lookup :: "'t \<Rightarrow> 'k \<Rightarrow> 'v option"
    and upsert :: "'k \<Rightarrow> 'v \<Rightarrow> 't \<Rightarrow> 't"
    and drop_key :: "'k \<Rightarrow> 't \<Rightarrow> 't"
    and wf :: "'t \<Rightarrow> bool"
  assumes lookup_upsert: "lookup (upsert k v t) j = (if j = k then Some v else lookup t j)"
    and lookup_drop: "wf t \<Longrightarrow> lookup (drop_key k t) j = (if j = k then None else lookup t j)"
    and wf_upsert: "wf t \<Longrightarrow> wf (upsert k v t)"
    and wf_drop: "wf t \<Longrightarrow> wf (drop_key k t)"
begin

lemma lookup_upsert_twice: "lookup (upsert k w (upsert k v t)) j = lookup (upsert k w t) j"
  by (simp add: lookup_upsert)

lemma lookup_drop_upsert:
  "wf t \<Longrightarrow> lookup t k = None \<Longrightarrow> lookup (drop_key k (upsert k v t)) j = lookup t j"
  by (simp add: lookup_upsert lookup_drop wf_upsert)

lemma lookup_same_iff: "lookup (upsert k v t) k = Some w \<longleftrightarrow> w = v"
  by (auto simp: lookup_upsert)

end

interpretation dict: keyed_table map_of AList.update AList.delete "dict_ok"
proof unfold_locales
  show "map_of (AList.update k v t) j = (if j = k then Some v else map_of t j)"
    for k :: 'k and v :: 'v and t j by (simp add: update_conv')
  show "map_of (AList.delete k t) j = (if j = k then None else map_of t j)"
    for k :: 'k and t :: "('k \<times> 'v) list" and j by (simp add: delete_conv')
  show "dict_ok t \<Longrightarrow> dict_ok (AList.update k v t)" for k :: 'k and v :: 'v and t
    by (simp add: distinct_update)
  show "dict_ok t \<Longrightarrow> dict_ok (AList.delete k t)" for k :: 'k and t :: "('k \<times> 'v) list"
    by (simp add: distinct_delete)
qed

end
