(* ===== verification/Curve_Math.thy ===== *)
theory Curve_Math
  imports Prelude
begin

text \<open>
  \<open>backend/signal_arcade/paper/curve_math.py\<close>: the integer constant-product quotes that
  every paper fill, mark and outcome is priced with. \<open>quote_buy\<close> and \<open>quote_sell\<close> are
  translated branch by branch, with the \<open>ValueError\<close> of each guard; amounts are Python
  integers, only the reported price impact is a float.
\<close>

section \<open>Model\<close>

text \<open>\<open>-(-n // d)\<close>, the value of \<open>ceil_div\<close> where the denominator is positive, as it is at
  each of its call sites (\<open>ceil_div_pos\<close>).\<close>

definition cdiv :: "int \<Rightarrow> int \<Rightarrow> int" where
  "cdiv n d = - ((- n) div d)"

definition ceil_div :: "int \<Rightarrow> int \<Rightarrow> int result" where
  "ceil_div numerator denominator =
     (if denominator \<le> 0 then Inl (ValueError ''denominator must be positive'')
      else Inr (cdiv numerator denominator))"

record curve_quote =
  cq_token_units :: int
  cq_curve_sol_lamports :: int
  cq_protocol_fee_lamports :: int
  cq_network_fee_lamports :: int
  cq_wallet_sol_lamports :: int
  cq_price_impact_fraction :: pyfloat

text \<open>\<open>int.bit_length\<close>.\<close>

definition bit_length :: "int \<Rightarrow> int" where
  "bit_length n = (if n = 0 then 0 else 1 + ilog 2 \<bar>n\<bar>)"

definition validate_reserves :: "int \<Rightarrow> int \<Rightarrow> unit result" where
  "validate_reserves token_reserves sol_reserves =
     (if token_reserves \<le> 0 \<or> sol_reserves \<le> 0 then Inl (ValueError ''reserves must be positive'')
      else if bit_length token_reserves > 127 \<or> bit_length sol_reserves > 127
        then Inl (ValueError ''reserve value is unreasonably large'')
      else Inr ())"

text \<open>
  The \<open>while curve_input > 0\<close> loop of \<open>quote_buy\<close>: \<open>Some (curve_input, protocol_fee)\<close>
  when it breaks, \<open>None\<close> when its condition fails.
\<close>

function fit_budget :: "int \<Rightarrow> int \<Rightarrow> int \<Rightarrow> (int \<times> int) option" where
  "fit_budget budget fee_bps curve_input =
     (if curve_input > 0 then
        let protocol_fee = cdiv (curve_input * fee_bps) 10000 in
        if curve_input + protocol_fee \<le> budget then Some (curve_input, protocol_fee)
        else fit_budget budget fee_bps (curve_input - 1)
      else None)"
  by pat_completeness auto
termination
  by (relation "measure (\<lambda>(b, f, c). nat c)") auto
declare fit_budget.simps [simp del]

definition quote_buy :: "int \<Rightarrow> int \<Rightarrow> int \<Rightarrow> int \<Rightarrow> int \<Rightarrow> int \<Rightarrow> curve_quote result" where
  "quote_buy virtual_token_reserves virtual_sol_reserves real_token_reserves
       wallet_trade_budget_lamports fee_bps network_fee =
     rbind (validate_reserves virtual_token_reserves virtual_sol_reserves) (\<lambda>_.
     if real_token_reserves \<le> 0 then Inl (ValueError ''no real token reserves remain'')
     else if wallet_trade_budget_lamports \<le> 0 then Inl (ValueError ''trade budget must be positive'')
     else if \<not> (0 \<le> fee_bps \<and> fee_bps \<le> 10000)
       then Inl (ValueError ''fee_bps outside supported range'')
     else
       (case fit_budget wallet_trade_budget_lamports fee_bps
               (wallet_trade_budget_lamports * 10000 div (10000 + fee_bps)) of
          None \<Rightarrow> Inl (ValueError ''trade budget is smaller than fees'')
        | Some (curve_input, protocol_fee) \<Rightarrow>
            let invariant = virtual_token_reserves * virtual_sol_reserves;
                next_sol = virtual_sol_reserves + curve_input;
                next_token = cdiv invariant next_sol;
                token_out = min real_token_reserves (virtual_token_reserves - next_token)
            in if token_out \<le> 0 then Inl (ValueError ''quote produced no token output'')
               else
                 let spot = true_div virtual_sol_reserves virtual_token_reserves;
                     execution = true_div curve_input token_out;
                     impact = (if 0 < spot then max 0 (fsub (fdiv execution spot) 1) else 1)
                 in Inr \<lparr> cq_token_units = token_out,
                          cq_curve_sol_lamports = curve_input,
                          cq_protocol_fee_lamports = protocol_fee,
                          cq_network_fee_lamports = network_fee,
                          cq_wallet_sol_lamports = curve_input + protocol_fee + network_fee,
                          cq_price_impact_fraction = min 1 impact \<rparr>))"

text \<open>\<open>fee_components or (fee_bps,)\<close>: an empty tuple is false in Python, so it falls back
  to the aggregate rate, like \<open>None\<close>.\<close>

definition effective_components :: "int list option \<Rightarrow> int \<Rightarrow> int list" where
  "effective_components fee_components fee_bps =
     (case fee_components of None \<Rightarrow> [fee_bps] | Some [] \<Rightarrow> [fee_bps] | Some ps \<Rightarrow> ps)"

definition components_inconsistent :: "int list option \<Rightarrow> int \<Rightarrow> int \<Rightarrow> bool" where
  "components_inconsistent fee_components lp_fee_bps fee_bps =
     (case fee_components of
        None \<Rightarrow> lp_fee_bps \<noteq> 0
      | Some ps \<Rightarrow> list_ex (\<lambda>part. \<not> (0 \<le> part \<and> part \<le> 10000)) ps
                  \<or> sum_list ps \<noteq> fee_bps
                  \<or> lp_fee_bps \<notin> set (0 # ps))"

definition quote_sell ::
  "int \<Rightarrow> int \<Rightarrow> int \<Rightarrow> int \<Rightarrow> int \<Rightarrow> int option \<Rightarrow> int list option \<Rightarrow> int \<Rightarrow> curve_quote result" where
  "quote_sell virtual_token_reserves virtual_sol_reserves units fee_bps network_fee
       real_quote_reserves fee_components lp_fee_bps =
     rbind (validate_reserves virtual_token_reserves virtual_sol_reserves) (\<lambda>_.
     if units \<le> 0 then Inl (ValueError ''token amount must be positive'')
     else if \<not> (0 \<le> fee_bps \<and> fee_bps \<le> 10000)
       then Inl (ValueError ''fee_bps outside supported range'')
     else if components_inconsistent fee_components lp_fee_bps fee_bps
       then Inl (ValueError ''fee components are inconsistent'')
     else
       let invariant = virtual_token_reserves * virtual_sol_reserves;
           next_token = virtual_token_reserves + units;
           next_sol = cdiv invariant next_token;
           gross = virtual_sol_reserves - next_sol
       in if gross \<le> 0 then Inl (ValueError ''quote produced no SOL output'')
          else
            rbind
              (case real_quote_reserves of
                 None \<Rightarrow> Inr ()
               | Some vault \<Rightarrow>
                   if vault < 0 \<or> bit_length vault > 127
                     then Inl (ValueError ''real quote reserves are invalid'')
                   else if gross - cdiv (gross * lp_fee_bps) 10000 > vault
                     then Inl (ValueError ''sell output exceeds real quote reserves'')
                   else Inr ())
              (\<lambda>_.
               let protocol_fee =
                     (\<Sum>part\<leftarrow>effective_components fee_components fee_bps. cdiv (gross * part) 10000);
                   wallet_received = gross - protocol_fee - network_fee
               in if wallet_received \<le> 0 then Inl (ValueError ''fees exceed sell proceeds'')
                  else
                    let spot = true_div virtual_sol_reserves virtual_token_reserves;
                        execution = true_div gross units;
                        impact = (if 0 < spot then max 0 (fsub 1 (fdiv execution spot)) else 1)
                    in Inr \<lparr> cq_token_units = units,
                             cq_curve_sol_lamports = gross,
                             cq_protocol_fee_lamports = protocol_fee,
                             cq_network_fee_lamports = network_fee,
                             cq_wallet_sol_lamports = wallet_received,
                             cq_price_impact_fraction = min 1 impact \<rparr>))"

section \<open>Ceiling division\<close>

lemma ceil_div_pos: "0 < d \<Longrightarrow> ceil_div n d = Inr (cdiv n d)"
  by (simp add: ceil_div_def)

lemma le_div_int_iff:
  assumes "0 < (d :: int)"
  shows "k \<le> n div d \<longleftrightarrow> k * d \<le> n"
proof
  assume "k \<le> n div d"
  then have "k * d \<le> n div d * d" using assms by simp
  also have "\<dots> \<le> n" using assms pos_mod_sign [of d n] div_mult_mod_eq [of n d] by linarith
  finally show "k * d \<le> n" .
next
  assume "k * d \<le> n"
  then show "k \<le> n div d" using assms zdiv_mono1 [of "k * d" n d] by simp
qed

lemma cdiv_le_iff: "0 < d \<Longrightarrow> cdiv n d \<le> k \<longleftrightarrow> n \<le> k * d"
  using le_div_int_iff [of d "- k" "- n"] unfolding cdiv_def by linarith

lemma less_cdiv_iff: "0 < d \<Longrightarrow> k < cdiv n d \<longleftrightarrow> k * d < n"
  using cdiv_le_iff [of d n k] by linarith

lemma cdiv_upper: "0 < d \<Longrightarrow> n \<le> cdiv n d * d"
  using cdiv_le_iff by blast

lemma cdiv_mono: "0 < d \<Longrightarrow> m \<le> n \<Longrightarrow> cdiv m d \<le> cdiv n d"
  by (simp add: cdiv_le_iff) (meson cdiv_upper order_trans)

lemma cdiv_nonneg: "0 < d \<Longrightarrow> 0 \<le> n \<Longrightarrow> 0 \<le> cdiv n d"
  using less_cdiv_iff [of d "-1" n] by linarith

lemma cdiv_add_le: "0 < d \<Longrightarrow> cdiv (a + b) d \<le> cdiv a d + cdiv b d"
  using cdiv_upper [of d a] cdiv_upper [of d b] by (simp add: cdiv_le_iff distrib_right)

section \<open>Buy quotes\<close>

text \<open>The starting value of the loop already fits, so it breaks at its first test.\<close>

lemma initial_guess_fits:
  assumes "0 \<le> f"
  shows "let c = B * 10000 div (10000 + f) in c + cdiv (c * f) 10000 \<le> B"
proof -
  define c where "c = B * 10000 div (10000 + f)"
  have "c * (10000 + f) \<le> B * 10000"
    using assms le_div_int_iff [of "10000 + f" c "B * 10000"] by (simp add: c_def)
  then have "c * f \<le> (B - c) * 10000" by (simp add: algebra_simps)
  then have "cdiv (c * f) 10000 \<le> B - c" by (simp add: cdiv_le_iff)
  then show ?thesis by (simp add: c_def [symmetric] Let_def)
qed

lemma fit_budget_initial:
  assumes "0 \<le> f" and "c = B * 10000 div (10000 + f)"
  shows "fit_budget B f c = (if 0 < c then Some (c, cdiv (c * f) 10000) else None)"
  using initial_guess_fits [OF assms(1), of B]
  unfolding assms(2) [symmetric] fit_budget.simps [of B f c] Let_def by simp

lemma initial_guess_maximal:
  assumes "0 \<le> f" and "B * 10000 div (10000 + f) < c"
  shows "B < c + cdiv (c * f) 10000"
proof -
  have "B * 10000 < c * (10000 + f)"
    using assms le_div_int_iff [of "10000 + f" c "B * 10000"] by linarith
  then have "(B - c) * 10000 < c * f" by (simp add: algebra_simps)
  then have "B - c < cdiv (c * f) 10000" by (simp add: less_cdiv_iff)
  then show ?thesis by simp
qed

lemma validate_reserves_ok:
  "validate_reserves t s = Inr u \<longleftrightarrow>
     0 < t \<and> 0 < s \<and> bit_length t \<le> 127 \<and> bit_length s \<le> 127"
  by (auto simp: validate_reserves_def)

text \<open>When a buy quote succeeds, and what it then is.\<close>

definition buy_input :: "int \<Rightarrow> int \<Rightarrow> int" where
  "buy_input B f = B * 10000 div (10000 + f)"

definition buy_output :: "int \<Rightarrow> int \<Rightarrow> int \<Rightarrow> int \<Rightarrow> int" where
  "buy_output vt vs rt c = min rt (vt - cdiv (vt * vs) (vs + c))"

definition buy_ok :: "int \<Rightarrow> int \<Rightarrow> int \<Rightarrow> int \<Rightarrow> int \<Rightarrow> bool" where
  "buy_ok vt vs rt B f \<longleftrightarrow>
     0 < vt \<and> 0 < vs \<and> bit_length vt \<le> 127 \<and> bit_length vs \<le> 127 \<and> 0 < rt \<and> 0 < B
     \<and> 0 \<le> f \<and> f \<le> 10000 \<and> 0 < buy_input B f \<and> 0 < buy_output vt vs rt (buy_input B f)"

definition buy_impact :: "int \<Rightarrow> int \<Rightarrow> int \<Rightarrow> int \<Rightarrow> pyfloat" where
  "buy_impact vt vs c out = min 1 (max 0 (fsub (fdiv (true_div c out) (true_div vs vt)) 1))"

lemma quote_buy_ok:
  assumes "buy_ok vt vs rt B f"
  shows "quote_buy vt vs rt B f n =
    (let c = buy_input B f; fee = cdiv (c * f) 10000; out = buy_output vt vs rt c in
     Inr \<lparr> cq_token_units = out, cq_curve_sol_lamports = c, cq_protocol_fee_lamports = fee,
           cq_network_fee_lamports = n, cq_wallet_sol_lamports = c + fee + n,
           cq_price_impact_fraction = buy_impact vt vs c out \<rparr>)"
proof -
  have ok: "0 < vt" "0 < vs" "bit_length vt \<le> 127" "bit_length vs \<le> 127" "0 < rt" "0 < B"
    "0 \<le> f" "f \<le> 10000" "0 < buy_input B f" "0 < buy_output vt vs rt (buy_input B f)"
    using assms by (auto simp: buy_ok_def)
  then have fit: "fit_budget B f (B * 10000 div (10000 + f)) =
      Some (buy_input B f, cdiv (buy_input B f * f) 10000)"
    using fit_budget_initial [of f "buy_input B f" B] by (simp add: buy_input_def)
  have v: "validate_reserves vt vs = Inr ()" using ok by (simp add: validate_reserves_def)
  have "0 < true_div vs vt" using ok by (simp add: true_div_pos)
  with ok show ?thesis
    unfolding quote_buy_def v fit buy_impact_def Let_def
    by (simp add: buy_output_def not_le [symmetric] del: not_le)
qed

lemma quote_buy_fails:
  assumes "\<not> buy_ok vt vs rt B f"
  shows "\<exists>m. quote_buy vt vs rt B f n = Inl (ValueError m)"
proof (cases "validate_reserves vt vs = Inr () \<and> 0 < rt \<and> 0 < B \<and> 0 \<le> f \<and> f \<le> 10000")
  case True
  then have v: "validate_reserves vt vs = Inr ()" and g: "0 < rt" "0 < B" "0 \<le> f" "f \<le> 10000"
    by auto
  have fit: "fit_budget B f (B * 10000 div (10000 + f)) =
      (if 0 < buy_input B f then Some (buy_input B f, cdiv (buy_input B f * f) 10000) else None)"
    using fit_budget_initial [of f "buy_input B f" B] g by (simp add: buy_input_def)
  have "\<not> (0 < buy_input B f \<and> 0 < buy_output vt vs rt (buy_input B f))"
    using assms v g by (auto simp: buy_ok_def validate_reserves_ok)
  then show ?thesis
    using g unfolding quote_buy_def v fit by (auto simp: Let_def buy_output_def)
next
  case False
  then show ?thesis
    by (auto simp: quote_buy_def validate_reserves_def split: if_splits)
qed

lemma quote_buy_InrD:
  assumes "quote_buy vt vs rt B f n = Inr q"
  shows "buy_ok vt vs rt B f"
    and "cq_curve_sol_lamports q = buy_input B f"
    and "cq_protocol_fee_lamports q = cdiv (buy_input B f * f) 10000"
    and "cq_token_units q = buy_output vt vs rt (buy_input B f)"
    and "cq_network_fee_lamports q = n"
    and "cq_wallet_sol_lamports q = cq_curve_sol_lamports q + cq_protocol_fee_lamports q + n"
    and "0 \<le> cq_price_impact_fraction q \<and> cq_price_impact_fraction q \<le> 1"
proof -
  show ok: "buy_ok vt vs rt B f" using quote_buy_fails [of vt vs rt B f n] assms by auto
  have "q = \<lparr> cq_token_units = buy_output vt vs rt (buy_input B f),
      cq_curve_sol_lamports = buy_input B f,
      cq_protocol_fee_lamports = cdiv (buy_input B f * f) 10000,
      cq_network_fee_lamports = n,
      cq_wallet_sol_lamports = buy_input B f + cdiv (buy_input B f * f) 10000 + n,
      cq_price_impact_fraction =
        buy_impact vt vs (buy_input B f) (buy_output vt vs rt (buy_input B f)) \<rparr>"
    using assms quote_buy_ok [OF ok, of n] by (simp add: Let_def)
  then show "cq_curve_sol_lamports q = buy_input B f"
    and "cq_protocol_fee_lamports q = cdiv (buy_input B f * f) 10000"
    and "cq_token_units q = buy_output vt vs rt (buy_input B f)"
    and "cq_network_fee_lamports q = n"
    and "cq_wallet_sol_lamports q = cq_curve_sol_lamports q + cq_protocol_fee_lamports q + n"
    and "0 \<le> cq_price_impact_fraction q \<and> cq_price_impact_fraction q \<le> 1"
    by (simp_all add: buy_impact_def)
qed

lemma buy_output_lt: "0 < vt \<Longrightarrow> 0 < vs \<Longrightarrow> 0 < c \<Longrightarrow> buy_output vt vs rt c < vt"
proof -
  assume pos: "0 < vt" "0 < vs" "0 < c"
  then have "0 * (vs + c) < vt * vs" by simp
  then have "0 < cdiv (vt * vs) (vs + c)" using pos less_cdiv_iff [of "vs + c" 0 "vt * vs"] by simp
  then show ?thesis by (simp add: buy_output_def)
qed

text \<open>The traded pool keeps at least the constant product: \<open>(vt - out) * (vs + c) \<ge> vt * vs\<close>.\<close>

lemma buy_output_product:
  assumes "0 < vs" and "0 < c"
  shows "vt * vs \<le> (vt - buy_output vt vs rt c) * (vs + c)"
proof -
  have "vt * vs \<le> cdiv (vt * vs) (vs + c) * (vs + c)" using assms by (simp add: cdiv_upper)
  also have "\<dots> \<le> (vt - buy_output vt vs rt c) * (vs + c)"
    using assms by (intro mult_right_mono) (auto simp: buy_output_def)
  finally show ?thesis .
qed

section \<open>Sell quotes\<close>

definition sell_gross :: "int \<Rightarrow> int \<Rightarrow> int \<Rightarrow> int" where
  "sell_gross vt vs u = vs - cdiv (vt * vs) (vt + u)"

definition sell_fee :: "int list option \<Rightarrow> int \<Rightarrow> int \<Rightarrow> int" where
  "sell_fee cs f gross = (\<Sum>part\<leftarrow>effective_components cs f. cdiv (gross * part) 10000)"

definition vault_covers :: "int option \<Rightarrow> int \<Rightarrow> int \<Rightarrow> bool" where
  "vault_covers vault lp gross =
     (case vault of None \<Rightarrow> True
      | Some r \<Rightarrow> 0 \<le> r \<and> bit_length r \<le> 127 \<and> gross - cdiv (gross * lp) 10000 \<le> r)"

definition sell_ok ::
  "int \<Rightarrow> int \<Rightarrow> int \<Rightarrow> int \<Rightarrow> int \<Rightarrow> int option \<Rightarrow> int list option \<Rightarrow> int \<Rightarrow> bool" where
  "sell_ok vt vs u f n vault cs lp \<longleftrightarrow>
     0 < vt \<and> 0 < vs \<and> bit_length vt \<le> 127 \<and> bit_length vs \<le> 127 \<and> 0 < u \<and> 0 \<le> f \<and> f \<le> 10000
     \<and> \<not> components_inconsistent cs lp f \<and> 0 < sell_gross vt vs u
     \<and> vault_covers vault lp (sell_gross vt vs u)
     \<and> 0 < sell_gross vt vs u - sell_fee cs f (sell_gross vt vs u) - n"

definition sell_impact :: "int \<Rightarrow> int \<Rightarrow> int \<Rightarrow> int \<Rightarrow> pyfloat" where
  "sell_impact vt vs u gross = min 1 (max 0 (fsub 1 (fdiv (true_div gross u) (true_div vs vt))))"

lemma quote_sell_ok:
  assumes "sell_ok vt vs u f n vault cs lp"
  shows "quote_sell vt vs u f n vault cs lp =
    (let g = sell_gross vt vs u; fee = sell_fee cs f g in
     Inr \<lparr> cq_token_units = u, cq_curve_sol_lamports = g, cq_protocol_fee_lamports = fee,
           cq_network_fee_lamports = n, cq_wallet_sol_lamports = g - fee - n,
           cq_price_impact_fraction = sell_impact vt vs u g \<rparr>)"
proof -
  have v: "validate_reserves vt vs = Inr ()" and "0 < true_div vs vt"
    using assms by (auto simp: sell_ok_def validate_reserves_def true_div_pos)
  with assms show ?thesis
    unfolding quote_sell_def v sell_impact_def Let_def
    by (cases vault) (auto simp: sell_ok_def sell_gross_def sell_fee_def vault_covers_def)
qed

lemma quote_sell_fails:
  assumes "\<not> sell_ok vt vs u f n vault cs lp"
  shows "\<exists>m. quote_sell vt vs u f n vault cs lp = Inl (ValueError m)"
proof (cases "validate_reserves vt vs = Inr () \<and> 0 < u \<and> 0 \<le> f \<and> f \<le> 10000
    \<and> \<not> components_inconsistent cs lp f")
  case True
  then have v: "validate_reserves vt vs = Inr ()" and g: "0 < u" "0 \<le> f" "f \<le> 10000"
    "\<not> components_inconsistent cs lp f" by auto
  have "\<not> (0 < sell_gross vt vs u \<and> vault_covers vault lp (sell_gross vt vs u)
     \<and> 0 < sell_gross vt vs u - sell_fee cs f (sell_gross vt vs u) - n)"
    using assms v g by (auto simp: sell_ok_def validate_reserves_ok)
  then show ?thesis
    using g unfolding quote_sell_def v
    by (cases vault) (auto simp: Let_def sell_gross_def sell_fee_def vault_covers_def)
next
  case False
  then show ?thesis
    by (auto simp: quote_sell_def validate_reserves_def split: if_splits)
qed

lemma quote_sell_InrD:
  assumes "quote_sell vt vs u f n vault cs lp = Inr q"
  shows "sell_ok vt vs u f n vault cs lp"
    and "cq_token_units q = u"
    and "cq_curve_sol_lamports q = sell_gross vt vs u"
    and "cq_protocol_fee_lamports q = sell_fee cs f (sell_gross vt vs u)"
    and "cq_network_fee_lamports q = n"
    and "cq_wallet_sol_lamports q = cq_curve_sol_lamports q - cq_protocol_fee_lamports q - n"
    and "0 \<le> cq_price_impact_fraction q \<and> cq_price_impact_fraction q \<le> 1"
proof -
  show ok: "sell_ok vt vs u f n vault cs lp"
    using quote_sell_fails [of vt vs u f n vault cs lp] assms by auto
  show "cq_token_units q = u"
    and "cq_curve_sol_lamports q = sell_gross vt vs u"
    and "cq_protocol_fee_lamports q = sell_fee cs f (sell_gross vt vs u)"
    and "cq_network_fee_lamports q = n"
    and "cq_wallet_sol_lamports q = cq_curve_sol_lamports q - cq_protocol_fee_lamports q - n"
    and "0 \<le> cq_price_impact_fraction q \<and> cq_price_impact_fraction q \<le> 1"
    using assms quote_sell_ok [OF ok] by (auto simp: Let_def sell_impact_def)
qed

lemma sell_gross_product:
  assumes "0 < vt" and "0 < u"
  shows "vt * vs \<le> (vt + u) * (vs - sell_gross vt vs u)"
  using cdiv_upper [of "vt + u" "vt * vs"] assms by (simp add: sell_gross_def mult.commute)

lemma sell_gross_lt: "0 < vt \<Longrightarrow> 0 < vs \<Longrightarrow> 0 < u \<Longrightarrow> sell_gross vt vs u < vs"
  using less_cdiv_iff [of "vt + u" 0 "vt * vs"] by (simp add: sell_gross_def)

text \<open>Rounding each component up never charges less than rounding the aggregate rate up.\<close>

lemma cdiv_sum_list_le: "cdiv (g * sum_list ps) 10000 \<le> (\<Sum>p\<leftarrow>ps. cdiv (g * p) 10000)"
proof (induction ps)
  case Nil
  show ?case by (simp add: cdiv_def)
next
  case (Cons p ps)
  then show ?case using cdiv_add_le [of 10000 "g * p" "g * sum_list ps"] by (simp add: distrib_left)
qed

lemma sum_effective_components:
  "\<not> components_inconsistent cs lp f \<Longrightarrow> sum_list (effective_components cs f) = f"
  by (auto simp: components_inconsistent_def effective_components_def split: option.splits list.splits)

lemma sell_fee_ge: "\<not> components_inconsistent cs lp f \<Longrightarrow> cdiv (g * f) 10000 \<le> sell_fee cs f g"
  using cdiv_sum_list_le [of g "effective_components cs f"]
  by (simp add: sell_fee_def sum_effective_components)

lemma sell_fee_nonneg:
  assumes "\<not> components_inconsistent cs lp f" and "0 \<le> f" and "0 \<le> g"
  shows "0 \<le> sell_fee cs f g"
  using sell_fee_ge [OF assms(1), of g] cdiv_nonneg [of 10000 "g * f"] assms by simp

section \<open>Claims\<close>

text \<open>C9: A buy quote spends as much of the trade budget as it can and never more. The curve
  input and its protocol fee (rounded up) fit in the budget, and no larger curve input would:
  the downward search of the loop finds the optimum.\<close>

theorem buy_budget_optimal:
  assumes "quote_buy vt vs rt B f n = Inr q"
  shows "0 < cq_curve_sol_lamports q
    \<and> cq_protocol_fee_lamports q = cdiv (cq_curve_sol_lamports q * f) 10000
    \<and> cq_curve_sol_lamports q + cq_protocol_fee_lamports q \<le> B
    \<and> (\<forall>c. cq_curve_sol_lamports q < c \<longrightarrow> B < c + cdiv (c * f) 10000)
    \<and> cq_wallet_sol_lamports q = cq_curve_sol_lamports q + cq_protocol_fee_lamports q + n"
proof (intro conjI)
  note d = quote_buy_InrD [OF assms]
  have f: "0 \<le> f" using d(1) by (simp add: buy_ok_def)
  show "0 < cq_curve_sol_lamports q" using d(1,2) by (simp add: buy_ok_def)
  show "cq_protocol_fee_lamports q = cdiv (cq_curve_sol_lamports q * f) 10000"
    using d(2,3) by simp
  show "cq_curve_sol_lamports q + cq_protocol_fee_lamports q \<le> B"
    using initial_guess_fits [OF f, of B] d(2,3) by (simp add: buy_input_def Let_def)
  show "\<forall>c. cq_curve_sol_lamports q < c \<longrightarrow> B < c + cdiv (c * f) 10000"
    using initial_guess_maximal [OF f, of B] d(2) by (simp add: buy_input_def)
  show "cq_wallet_sol_lamports q = cq_curve_sol_lamports q + cq_protocol_fee_lamports q + n"
    by (rule d(6))
qed

theorem buy_budget_optimal_witness:
  "\<exists>q. quote_buy 1073000000000000 30000000000 793100000000000 100000000 125 30000 = Inr q
     \<and> cq_curve_sol_lamports q + cq_protocol_fee_lamports q \<le> 100000000"
proof -
  have "buy_ok 1073000000000000 30000000000 793100000000000 100000000 125" by code_simp
  then obtain q where
    q: "quote_buy 1073000000000000 30000000000 793100000000000 100000000 125 30000 = Inr q"
    using quote_buy_ok by (metis (no_types, lifting))
  with buy_budget_optimal [OF q] show ?thesis by blast
qed

text \<open>C10: Neither quote ever pays out more than the curve holds. A buy hands over at most the
  real token reserves and fewer tokens than the virtual reserves, a sell less than the virtual
  SOL reserves, and after either trade the product of the virtual reserves has not fallen.\<close>

theorem quotes_keep_constant_product:
  "(quote_buy vt vs rt B f n = Inr q \<longrightarrow>
      0 < cq_token_units q \<and> cq_token_units q \<le> rt \<and> cq_token_units q < vt
      \<and> vt * vs \<le> (vt - cq_token_units q) * (vs + cq_curve_sol_lamports q))
   \<and> (quote_sell vt vs u f n vault cs lp = Inr r \<longrightarrow>
      0 < cq_curve_sol_lamports r \<and> cq_curve_sol_lamports r < vs
      \<and> vt * vs \<le> (vt + u) * (vs - cq_curve_sol_lamports r))"
proof (intro conjI impI)
  assume "quote_buy vt vs rt B f n = Inr q"
  note d = quote_buy_InrD [OF this]
  have pos: "0 < vt" "0 < vs" "0 < buy_input B f" using d(1) by (auto simp: buy_ok_def)
  show "0 < cq_token_units q" using d(1,4) by (simp add: buy_ok_def)
  show "cq_token_units q \<le> rt" using d(4) by (simp add: buy_output_def)
  show "cq_token_units q < vt" using buy_output_lt [OF pos, of rt] d(4) by simp
  show "vt * vs \<le> (vt - cq_token_units q) * (vs + cq_curve_sol_lamports q)"
    using buy_output_product [OF pos(2,3), of vt rt] d(2,4) by simp
next
  assume "quote_sell vt vs u f n vault cs lp = Inr r"
  note d = quote_sell_InrD [OF this]
  have pos: "0 < vt" "0 < vs" "0 < u" using d(1) by (auto simp: sell_ok_def)
  show "0 < cq_curve_sol_lamports r" using d(1,3) by (simp add: sell_ok_def)
  show "cq_curve_sol_lamports r < vs" using sell_gross_lt [OF pos] d(3) by simp
  show "vt * vs \<le> (vt + u) * (vs - cq_curve_sol_lamports r)"
    using sell_gross_product [OF pos(1,3), of vs] d(3) by simp
qed

theorem quotes_keep_constant_product_witness:
  "\<exists>q r. quote_buy 1000000 30000 900000 1000 100 5 = Inr q \<and> cq_token_units q < 1000000
     \<and> quote_sell 1000000 30000 5000 100 5 (Some 200) None 0 = Inr r
     \<and> cq_curve_sol_lamports r < 30000"
proof -
  have "buy_ok 1000000 30000 900000 1000 100" and "sell_ok 1000000 30000 5000 100 5 (Some 200) None 0"
    by code_simp+
  then obtain q r where q: "quote_buy 1000000 30000 900000 1000 100 5 = Inr q"
    and r: "quote_sell 1000000 30000 5000 100 5 (Some 200) None 0 = Inr r"
    using quote_buy_ok quote_sell_ok by (metis (no_types, lifting))
  with quotes_keep_constant_product
    [of 1000000 30000 900000 1000 100 5 q 5000 "Some 200" None 0 r] show ?thesis by auto
qed

text \<open>C12: A paper round trip cannot manufacture profit. Selling the tokens of a buy back into
  the curve it left, whatever the sell's own fee rate, fee split and liquidity check, returns
  at most the SOL that went into the curve; with non-negative network fees the wallet never
  ends with more than it paid.\<close>

theorem round_trip_never_profits:
  assumes buy: "quote_buy vt vs rt B f n = Inr q"
    and sell: "quote_sell (vt - cq_token_units q) (vs + cq_curve_sol_lamports q) (cq_token_units q)
                 f' n' vault cs lp = Inr r"
    and fees: "0 \<le> n" "0 \<le> n'"
  shows "cq_curve_sol_lamports r \<le> cq_curve_sol_lamports q
    \<and> cq_wallet_sol_lamports r \<le> cq_wallet_sol_lamports q"
proof -
  note b = quote_buy_InrD [OF buy] and s = quote_sell_InrD [OF sell]
  let ?c = "cq_curve_sol_lamports q" and ?out = "cq_token_units q"
  have pos: "0 < vt" "0 < vs" "0 < ?c" "0 \<le> f" using b(1,2) by (auto simp: buy_ok_def)
  have "vs * vt \<le> (vt - ?out) * (vs + ?c)"
    using buy_output_product [OF pos(2,3), of vt rt] b(2,4) by (simp add: mult.commute)
  then have "vs \<le> cdiv ((vt - ?out) * (vs + ?c)) vt"
    using pos less_cdiv_iff [of vt "vs - 1" "(vt - ?out) * (vs + ?c)"] by (simp add: left_diff_distrib)
  then have gross: "cq_curve_sol_lamports r \<le> ?c" using s(3) by (simp add: sell_gross_def)
  have "0 \<le> cq_protocol_fee_lamports r"
    using s(1,4) sell_fee_nonneg [of cs lp f' "cq_curve_sol_lamports r"] s(3)
    by (simp add: sell_ok_def)
  moreover have "0 \<le> cq_protocol_fee_lamports q"
    using b(2,3) pos cdiv_nonneg [of 10000 "?c * f"] by simp
  ultimately show ?thesis
    using gross b(6) s(6) fees by simp
qed

theorem round_trip_never_profits_witness:
  "\<exists>q r. quote_buy 1000000 30000 900000 1000 100 5 = Inr q
     \<and> quote_sell (1000000 - cq_token_units q) (30000 + cq_curve_sol_lamports q)
         (cq_token_units q) 100 5 None None 0 = Inr r
     \<and> cq_wallet_sol_lamports r \<le> cq_wallet_sol_lamports q"
proof -
  let ?c = "buy_input 1000 100" and ?out = "buy_output 1000000 30000 900000 (buy_input 1000 100)"
  have "buy_ok 1000000 30000 900000 1000 100" by code_simp
  then obtain q where q: "quote_buy 1000000 30000 900000 1000 100 5 = Inr q"
    using quote_buy_ok by (metis (no_types, lifting))
  have "sell_ok (1000000 - ?out) (30000 + ?c) ?out 100 5 None None 0" by code_simp
  then obtain r where
    "quote_sell (1000000 - ?out) (30000 + ?c) ?out 100 5 None None 0 = Inr r"
    using quote_sell_ok by (metis (no_types, lifting))
  then have r: "quote_sell (1000000 - cq_token_units q) (30000 + cq_curve_sol_lamports q)
      (cq_token_units q) 100 5 None None 0 = Inr r"
    using quote_buy_InrD(2,4) [OF q] by simp
  from round_trip_never_profits [OF q r] q r show ?thesis by auto
qed

text \<open>C13: A sell quote is covered by the quote vault and charges every fee in full. What leaves
  the vault (the gross proceeds less the LP fee that stays in it) is at most its real balance,
  the protocol fee is at least the aggregate rate rounded up however it is split into
  components, and the wallet receives the gross proceeds less all fees, which is positive.\<close>

theorem sell_covered_and_fully_charged:
  assumes "quote_sell vt vs u f n vault cs lp = Inr q"
  shows "(\<forall>r. vault = Some r \<longrightarrow>
           cq_curve_sol_lamports q - cdiv (cq_curve_sol_lamports q * lp) 10000 \<le> r)
    \<and> cdiv (cq_curve_sol_lamports q * f) 10000 \<le> cq_protocol_fee_lamports q
    \<and> cq_wallet_sol_lamports q = cq_curve_sol_lamports q - cq_protocol_fee_lamports q - n
    \<and> 0 < cq_wallet_sol_lamports q
    \<and> 0 \<le> cq_price_impact_fraction q \<and> cq_price_impact_fraction q \<le> 1"
  using quote_sell_InrD [OF assms] sell_fee_ge [of cs lp f "sell_gross vt vs u"]
  by (auto simp: sell_ok_def vault_covers_def)

theorem sell_covered_and_fully_charged_witness:
  "\<exists>q. quote_sell 1000000 30000 50000 125 5 (Some 1500) (Some [95, 30]) 30 = Inr q
     \<and> cq_curve_sol_lamports q - cdiv (cq_curve_sol_lamports q * 30) 10000 \<le> 1500"
proof -
  have "sell_ok 1000000 30000 50000 125 5 (Some 1500) (Some [95, 30]) 30" by code_simp
  then obtain q where
    q: "quote_sell 1000000 30000 50000 125 5 (Some 1500) (Some [95, 30]) 30 = Inr q"
    using quote_sell_ok by (metis (no_types, lifting))
  with sell_covered_and_fully_charged [OF q] show ?thesis by blast
qed

lemma fit_budget_search:
  "case fit_budget B f c of
     None \<Rightarrow> \<forall>d. 0 < d \<longrightarrow> d \<le> c \<longrightarrow> B < d + cdiv (d * f) 10000
   | Some (x, y) \<Rightarrow> 0 < x \<and> x \<le> c \<and> y = cdiv (x * f) 10000 \<and> x + y \<le> B \<and>
       (\<forall>d. x < d \<longrightarrow> d \<le> c \<longrightarrow> B < d + cdiv (d * f) 10000)"
proof (induction B f c rule: fit_budget.induct)
  case (1 B f c)
  show ?case
  proof (cases "0 < c \<and> B < c + cdiv (c * f) 10000")
    case True
    then have eq: "fit_budget B f c = fit_budget B f (c - 1)" by (subst fit_budget.simps) (simp add: Let_def)
    have top: "B < d + cdiv (d * f) 10000" if "d \<le> c" "\<not> d \<le> c - 1" for d
    proof -
      have "d = c" using that by simp
      then show ?thesis using True by simp
    qed
    show ?thesis
      using 1 [OF _ refl] True top unfolding eq by (auto split: option.splits)
  next
    case False
    then show ?thesis by (subst fit_budget.simps) (auto simp: Let_def)
  qed
qed

text \<open>C25: The downward search of \<open>quote_buy\<close> ends from every start, with the largest positive curve input
  not above the start whose fee still fits the budget, or with nothing when there is none; and from
  the first guess that \<open>quote_buy\<close> computes it ends on its first test, so the loop body never runs twice.\<close>

theorem budget_search_ends:
  "(case fit_budget B f c of
      None \<Rightarrow> \<forall>d. 0 < d \<longrightarrow> d \<le> c \<longrightarrow> B < d + cdiv (d * f) 10000
    | Some (x, y) \<Rightarrow> 0 < x \<and> x \<le> c \<and> y = cdiv (x * f) 10000 \<and> x + y \<le> B \<and>
        (\<forall>d. x < d \<longrightarrow> d \<le> c \<longrightarrow> B < d + cdiv (d * f) 10000)) \<and>
   (0 \<le> f \<longrightarrow> fit_budget B f (B * 10000 div (10000 + f)) =
      (if 0 < B * 10000 div (10000 + f)
       then Some (B * 10000 div (10000 + f), cdiv (B * 10000 div (10000 + f) * f) 10000) else None))"
  using fit_budget_search [where B = B and f = f and c = c] fit_budget_initial [OF _ refl] by blast

theorem budget_search_ends_witness:
  "fit_budget 1000 100 (1000 * 10000 div (10000 + 100)) = Some (990, 10)"
  using conjunct2 [OF budget_search_ends [where B = 1000 and f = 100]] by (simp add: cdiv_def)

end
