(* ===== verification/Models.thy ===== *)
theory Models
  imports Prelude
begin

text \<open>
  The data of \<open>backend/signal_arcade/models.py\<close> that the paper-trading core works on: the
  enumerations, feature snapshots, decisions, risk limits, orders, fill receipts and
  positions, and the policy version strings of \<open>strategy.py\<close>. Field names carry a short
  prefix per class (\<open>po_\<close> for \<open>PaperOrder\<close>, \<open>fr_\<close> for \<open>FillReceipt\<close>, and so on).
  A \<open>datetime\<close> is an instant in microseconds; a JSON value is a \<open>json\<close> tree. The records
  are stored as values, so reading a row back gives the record that was written.
\<close>

section \<open>Enumerations\<close>

datatype event_kind = EvCreate | EvTrade | EvComplete | EvMigrate | EvMarket | EvHealth
datatype side = Buy | Sell
datatype decision_action = Enter | Watch | Pass | Abstain
datatype integrity_state = Clean | Uncertain | Suspicious | Severe
datatype exit_action = Hold | Wait | Exit
datatype market_status = Active | ExitBlocked | Dormant
datatype order_status = Pending | Filled | Failed | Cancelled
datatype risk_mode = Safe | Balanced | Aggressive
datatype quote_currency = SOL | USDC
datatype challenger_skill = SkEntry | SkManipulation | SkSizing | SkExit
datatype evidence_lane = LanePolicy | LaneExecution
datatype evidence_status = EvPending | EvComplete | EvUnavailable | EvCancelled

datatype json =
    JNull | JBool bool | JInt int | JFloat pyfloat | JStr string
  | JTime time \<comment> \<open>an instant, stored as its ISO text\<close>
  | JList "json list" | JObj "(string \<times> json) list"

section \<open>Time\<close>

text \<open>\<open>timedelta.total_seconds()\<close> is microseconds over \<open>10 ** 6\<close>, one true division.\<close>

definition total_seconds :: "time \<Rightarrow> pyfloat" where
  "total_seconds d = true_div d 1000000"

definition milliseconds :: "int \<Rightarrow> time" where
  "milliseconds n = n * 1000"

lemma total_seconds_mono: "a \<le> b \<Longrightarrow> total_seconds a \<le> total_seconds b"
  by (simp add: total_seconds_def true_div_mono)

lemma total_seconds_nonneg [simp]: "0 \<le> d \<Longrightarrow> 0 \<le> total_seconds d"
  by (simp add: total_seconds_def)

lemma total_seconds_of_seconds:
  assumes "\<bar>n\<bar> < 2 ^ 53"
  shows "total_seconds (n * 1000000) = of_int n"
  using rnd_of_int [of 2 53 n] assms by (simp add: total_seconds_def true_div_def)

section \<open>Feature snapshots\<close>

datatype scalar = SFloat pyfloat | SInt int | SStr string | SBool bool

record data_value =
  dv_value :: "scalar option"
  dv_unit :: string
  dv_as_of :: time
  dv_sources :: "string list"
  dv_freshness_seconds :: pyfloat
  dv_quality :: pyfloat
  dv_missing_reason :: "string option"

record feature_snapshot =
  fs_mint :: string
  fs_symbol :: string
  fs_name :: string
  fs_venue :: string
  fs_computed_at :: time
  fs_values :: "(string \<times> data_value) list"
  fs_data_confidence :: pyfloat
  fs_hard_flags :: "string list"

text \<open>
  \<open>float(s)\<close> on a string: an optional sign, digits with an optional point, and an optional
  exponent, with surrounding blanks; anything else raises \<open>ValueError\<close>. The spellings
  of infinities and NaN and digit-group underscores, which no stored feature uses, are
  rejected here.
\<close>

definition digit_val :: "char \<Rightarrow> int option" where
  "digit_val c = (let n = of_char c :: int in if 48 \<le> n \<and> n \<le> 57 then Some (n - 48) else None)"

text \<open>The leading digits of a string: their value, their number and the rest.\<close>

fun digits_of :: "int \<Rightarrow> int \<Rightarrow> string \<Rightarrow> int \<times> int \<times> string" where
  "digits_of acc k [] = (acc, k, [])"
| "digits_of acc k (c # cs) =
     (case digit_val c of Some d \<Rightarrow> digits_of (10 * acc + d) (k + 1) cs | None \<Rightarrow> (acc, k, c # cs))"

definition py_blank :: "char \<Rightarrow> bool" where
  "py_blank c \<longleftrightarrow> (let n = of_char c :: int in n = 32 \<or> (9 \<le> n \<and> n \<le> 13) \<or> (28 \<le> n \<and> n \<le> 31) \<or> n = 133 \<or> n = 160)"

definition py_strip :: "string \<Rightarrow> string" where
  "py_strip s = rev (dropWhile py_blank (rev (dropWhile py_blank s)))"

definition sign_of :: "string \<Rightarrow> int \<times> string" where
  "sign_of s = (case s of CHR ''-'' # r \<Rightarrow> (- 1, r) | CHR ''+'' # r \<Rightarrow> (1, r) | _ \<Rightarrow> (1, s))"

definition exponent_of :: "string \<Rightarrow> int option" where
  "exponent_of s =
     (case s of
        [] \<Rightarrow> Some 0
      | c # r \<Rightarrow>
          if c = CHR ''e'' \<or> c = CHR ''E'' then
            (case sign_of r of (sg, r') \<Rightarrow>
             (case digits_of 0 0 r' of (v, k, rest) \<Rightarrow>
                if 0 < k \<and> rest = [] then Some (sg * v) else None))
          else None)"

definition float_of_string :: "string \<Rightarrow> pyfloat option" where
  "float_of_string s =
     (case sign_of (py_strip s) of (sg, s1) \<Rightarrow>
      (case digits_of 0 0 s1 of (whole, k1, s2) \<Rightarrow>
       (case (case s2 of CHR ''.'' # s3 \<Rightarrow> digits_of whole 0 s3 | _ \<Rightarrow> (whole, 0, s2)) of
          (m, k2, s4) \<Rightarrow>
          if k1 = 0 \<and> k2 = 0 then None
          else map_option (\<lambda>e. rnd64 (of_int (sg * m) * 10 powi (e - k2))) (exponent_of s4))))"

definition float_of_scalar :: "scalar \<Rightarrow> pyfloat option" where
  "float_of_scalar v =
     (case v of
        SFloat x \<Rightarrow> Some x
      | SInt n \<Rightarrow> Some (float_of_int n)
      | SBool b \<Rightarrow> Some (if b then 1 else 0)
      | SStr s \<Rightarrow> float_of_string s)"

definition is_bool_scalar :: "scalar \<Rightarrow> bool" where
  "is_bool_scalar v = (case v of SBool _ \<Rightarrow> True | _ \<Rightarrow> False)"

definition fs_number :: "feature_snapshot \<Rightarrow> string \<Rightarrow> pyfloat \<Rightarrow> pyfloat" where
  "fs_number fs key dflt =
     (case map_of (fs_values fs) key of
        None \<Rightarrow> dflt
      | Some item \<Rightarrow>
          (case dv_value item of
             None \<Rightarrow> dflt
           | Some v \<Rightarrow>
               if is_bool_scalar v then dflt
               else (case float_of_scalar v of Some x \<Rightarrow> x | None \<Rightarrow> dflt)))"

section \<open>Policy versions (\<open>strategy.py\<close>)\<close>

definition LEGACY_BASELINE_VERSION :: string where
  "LEGACY_BASELINE_VERSION = ''baseline-v1.1''"
definition PREVIOUS_BASELINE_VERSION :: string where
  "PREVIOUS_BASELINE_VERSION = ''baseline-v1.2''"
definition RECENT_BASELINE_VERSION :: string where
  "RECENT_BASELINE_VERSION = ''baseline-v1.3''"
definition CORROBORATED_BASELINE_VERSION :: string where
  "CORROBORATED_BASELINE_VERSION = ''baseline-v1.4''"
definition BASELINE_VERSION :: string where
  "BASELINE_VERSION = ''baseline-v1.5''"
definition LEGACY_INTEGRITY_POLICY_VERSION :: string where
  "LEGACY_INTEGRITY_POLICY_VERSION = ''integrity-observation-v1''"
definition PREVIOUS_INTEGRITY_POLICY_VERSION :: string where
  "PREVIOUS_INTEGRITY_POLICY_VERSION = ''integrity-gates-v1''"
definition RECENT_INTEGRITY_POLICY_VERSION :: string where
  "RECENT_INTEGRITY_POLICY_VERSION = ''integrity-gates-v2''"
definition INTEGRITY_POLICY_VERSION :: string where
  "INTEGRITY_POLICY_VERSION = ''integrity-gates-v3''"
definition LEGACY_SIZING_POLICY_VERSION :: string where
  "LEGACY_SIZING_POLICY_VERSION = ''fixed-size-v1''"
definition SIZING_POLICY_VERSION :: string where
  "SIZING_POLICY_VERSION = ''quality-size-v1''"

definition UNCERTAIN_INTEGRITY_HOLD_SCORE :: pyfloat where
  "UNCERTAIN_INTEGRITY_HOLD_SCORE = rnd64 (80 / 100)"
definition UNCERTAIN_INTEGRITY_SIZE_MULTIPLIER :: pyfloat where
  "UNCERTAIN_INTEGRITY_SIZE_MULTIPLIER = rnd64 (70 / 100)"

definition SUPPORTED_BASELINE_VERSIONS :: "string list" where
  "SUPPORTED_BASELINE_VERSIONS =
     [LEGACY_BASELINE_VERSION, PREVIOUS_BASELINE_VERSION, RECENT_BASELINE_VERSION,
      CORROBORATED_BASELINE_VERSION, BASELINE_VERSION]"

definition LEARNABLE_BASELINE_VERSIONS :: "string list" where
  "LEARNABLE_BASELINE_VERSIONS =
     [PREVIOUS_BASELINE_VERSION, RECENT_BASELINE_VERSION, CORROBORATED_BASELINE_VERSION,
      BASELINE_VERSION]"

definition integrity_policy_for_baseline :: "string \<Rightarrow> string result" where
  "integrity_policy_for_baseline v =
     (if v = LEGACY_BASELINE_VERSION then Inr LEGACY_INTEGRITY_POLICY_VERSION
      else if v = PREVIOUS_BASELINE_VERSION then Inr PREVIOUS_INTEGRITY_POLICY_VERSION
      else if v \<in> set [RECENT_BASELINE_VERSION, CORROBORATED_BASELINE_VERSION]
        then Inr RECENT_INTEGRITY_POLICY_VERSION
      else if v = BASELINE_VERSION then Inr INTEGRITY_POLICY_VERSION
      else Inl (ValueError (''unsupported baseline version: '' @ v)))"

lemmas version_defs =
  LEGACY_BASELINE_VERSION_def PREVIOUS_BASELINE_VERSION_def RECENT_BASELINE_VERSION_def
  CORROBORATED_BASELINE_VERSION_def BASELINE_VERSION_def LEGACY_INTEGRITY_POLICY_VERSION_def
  PREVIOUS_INTEGRITY_POLICY_VERSION_def RECENT_INTEGRITY_POLICY_VERSION_def
  INTEGRITY_POLICY_VERSION_def LEGACY_SIZING_POLICY_VERSION_def SIZING_POLICY_VERSION_def

lemma learnable_policy:
  "v \<in> set LEARNABLE_BASELINE_VERSIONS \<Longrightarrow> \<exists>p. integrity_policy_for_baseline v = Inr p"
  by (auto simp: LEARNABLE_BASELINE_VERSIONS_def integrity_policy_for_baseline_def)

section \<open>Decisions and assessments\<close>

record decision_score =
  sc_opportunity :: pyfloat
  sc_danger :: pyfloat
  sc_execution :: pyfloat
  sc_confidence :: pyfloat
  sc_net_edge_index :: pyfloat
  sc_composite :: int

record integrity_assessment =
  ia_policy_version :: string
  ia_state :: integrity_state
  ia_score :: pyfloat
  ia_coverage :: pyfloat
  ia_sample_count :: int
  ia_category_count :: int
  ia_categories :: "string list"
  ia_evidence :: "string list"

record sizing_assessment =
  sa_policy_version :: string
  sa_base_size_sol :: pyfloat
  sa_desired_size_sol :: pyfloat
  sa_selected_size_sol :: pyfloat
  sa_maximum_size_sol :: "pyfloat option"
  sa_account_allocation_fraction :: pyfloat
  sa_constraints :: "string list"
  sa_reasons :: "string list"

record learning_assessment =
  la_model_version :: string
  la_predicted_net_return :: pyfloat
  la_conservative_net_return :: pyfloat
  la_validation_rmse :: pyfloat
  la_applied :: bool
  la_verdict :: string

record exit_assessment =
  ea_policy_version :: string
  ea_evaluated_at :: time
  ea_action :: exit_action
  ea_reason :: string
  ea_support_score :: pyfloat
  ea_pnl_fraction :: pyfloat
  ea_peak_return_fraction :: pyfloat
  ea_drawdown_from_peak_fraction :: pyfloat
  ea_age_seconds :: pyfloat
  ea_soft_hold_seconds :: int
  ea_hard_hold_seconds :: int
  ea_evidence :: "string list"
  ea_strategy_season_id :: "string option"
  ea_strategy_participant :: "(string \<times> string) list option"

record decision =
  de_decision_id :: string
  de_mint :: string
  de_symbol :: string
  de_created_at :: time
  de_action :: decision_action
  de_risk_mode :: risk_mode
  de_score :: decision_score
  de_reasons :: "string list"
  de_blockers :: "string list"
  de_feature_snapshot :: feature_snapshot
  de_model_version :: string
  de_planned_order_size_sol :: "pyfloat option"
  de_integrity_assessment :: "integrity_assessment option"
  de_sizing_assessment :: "sizing_assessment option"
  de_learning_assessment :: "learning_assessment option"
  de_challenger_assessments :: "(string \<times> json) list"
  de_season_id :: "string option"
  de_season_profile_fingerprint :: "string option"
  de_configuration_fingerprint :: "string option"

section \<open>Risk limits\<close>

record risk_limits =
  rl_mode :: risk_mode
  rl_order_size_sol :: pyfloat
  rl_min_net_edge_index :: pyfloat
  rl_max_danger :: pyfloat
  rl_min_confidence :: pyfloat
  rl_max_price_impact :: pyfloat
  rl_max_open_positions :: int
  rl_max_exposure_fraction :: pyfloat
  rl_max_drawdown_fraction :: pyfloat
  rl_stop_loss_fraction :: pyfloat
  rl_take_profit_fraction :: pyfloat
  rl_trailing_stop_fraction :: pyfloat
  rl_minimum_hold_support :: pyfloat
  rl_migration_guard_progress :: pyfloat
  rl_max_hold_seconds :: int
  rl_hard_max_hold_seconds :: int

fun RISK_LIMITS :: "risk_mode \<Rightarrow> risk_limits" where
  "RISK_LIMITS Safe =
     \<lparr> rl_mode = Safe, rl_order_size_sol = rnd64 (1 / 100), rl_min_net_edge_index = rnd64 (4 / 100),
       rl_max_danger = rnd64 (25 / 100), rl_min_confidence = rnd64 (72 / 100),
       rl_max_price_impact = rnd64 (3 / 100), rl_max_open_positions = 2,
       rl_max_exposure_fraction = rnd64 (5 / 100), rl_max_drawdown_fraction = rnd64 (8 / 100),
       rl_stop_loss_fraction = rnd64 (8 / 100), rl_take_profit_fraction = rnd64 (15 / 100),
       rl_trailing_stop_fraction = rnd64 (6 / 100), rl_minimum_hold_support = rnd64 (62 / 100),
       rl_migration_guard_progress = rnd64 (88 / 100), rl_max_hold_seconds = 300,
       rl_hard_max_hold_seconds = 900 \<rparr>"
| "RISK_LIMITS Balanced =
     \<lparr> rl_mode = Balanced, rl_order_size_sol = rnd64 (25 / 1000),
       rl_min_net_edge_index = rnd64 (25 / 1000),
       rl_max_danger = rnd64 (38 / 100), rl_min_confidence = rnd64 (62 / 100),
       rl_max_price_impact = rnd64 (6 / 100), rl_max_open_positions = 4,
       rl_max_exposure_fraction = rnd64 (12 / 100), rl_max_drawdown_fraction = rnd64 (15 / 100),
       rl_stop_loss_fraction = rnd64 (12 / 100), rl_take_profit_fraction = rnd64 (25 / 100),
       rl_trailing_stop_fraction = rnd64 (10 / 100), rl_minimum_hold_support = rnd64 (55 / 100),
       rl_migration_guard_progress = rnd64 (92 / 100), rl_max_hold_seconds = 600,
       rl_hard_max_hold_seconds = 1800 \<rparr>"
| "RISK_LIMITS Aggressive =
     \<lparr> rl_mode = Aggressive, rl_order_size_sol = rnd64 (5 / 100),
       rl_min_net_edge_index = rnd64 (15 / 1000),
       rl_max_danger = rnd64 (50 / 100), rl_min_confidence = rnd64 (55 / 100),
       rl_max_price_impact = rnd64 (10 / 100), rl_max_open_positions = 6,
       rl_max_exposure_fraction = rnd64 (20 / 100), rl_max_drawdown_fraction = rnd64 (25 / 100),
       rl_stop_loss_fraction = rnd64 (18 / 100), rl_take_profit_fraction = rnd64 (40 / 100),
       rl_trailing_stop_fraction = rnd64 (15 / 100), rl_minimum_hold_support = rnd64 (48 / 100),
       rl_migration_guard_progress = rnd64 (95 / 100), rl_max_hold_seconds = 1200,
       rl_hard_max_hold_seconds = 3600 \<rparr>"

section \<open>Orders, fills and positions\<close>

record paper_order =
  po_order_id :: string
  po_decision_id :: "string option"
  po_mint :: string
  po_symbol :: string
  po_side :: side
  po_status :: order_status
  po_requested_sol_lamports :: int
  po_requested_token_units :: int
  po_reserved_account_minor :: int
  po_created_at :: time
  po_fill_after :: time
  po_filled_at :: "time option"
  po_failure_reason :: "string option"
  po_risk_mode_at_entry :: "risk_mode option"
  po_baseline_version_at_entry :: string
  po_exit_timing_plan :: "json option"

record reserve_snapshot =
  rs_observed_at :: time
  rs_event_id :: "string option"
  rs_signature :: "string option"
  rs_slot :: int
  rs_source :: string
  rs_venue :: string
  rs_quote_mint :: string
  rs_virtual_token_reserves :: int
  rs_virtual_quote_reserves :: int
  rs_real_token_reserves :: int
  rs_real_quote_reserves :: "int option"
  rs_fee_bps :: int

record fill_receipt =
  fr_fill_id :: string
  fr_order_id :: string
  fr_mint :: string
  fr_symbol :: string
  fr_side :: side
  fr_filled_at :: time
  fr_token_units :: int
  fr_gross_sol_lamports :: int
  fr_protocol_fee_lamports :: int
  fr_network_fee_lamports :: int
  fr_net_sol_lamports :: int
  fr_price_impact_fraction :: pyfloat
  fr_latency_ms :: int
  fr_source_event_id :: string
  fr_venue :: string
  fr_execution_model_version :: string
  fr_reserve_snapshot :: "reserve_snapshot option"
  fr_execution_fee_provenance :: "(string \<times> json) list option"
  fr_assumptions :: "string list"
  fr_account_currency :: quote_currency
  fr_account_decimals :: int
  fr_account_gross_minor :: int
  fr_account_protocol_fee_minor :: int
  fr_account_network_fee_minor :: int
  fr_account_net_minor :: int
  fr_sol_usd_price :: "decimal option"
  fr_exit_assessment :: "exit_assessment option"
  fr_position_opened_at :: "time option"
  fr_entry_risk_mode :: "risk_mode option"
  fr_peak_account_minor :: int
  fr_realized_return_fraction :: "pyfloat option"
  fr_peak_return_fraction :: "pyfloat option"

text \<open>The validator that runs after every \<open>FillReceipt\<close> is built or read.\<close>

definition migrate_legacy_sol_account_values :: "fill_receipt \<Rightarrow> fill_receipt" where
  "migrate_legacy_sol_account_values r =
     (if fr_account_currency r \<noteq> SOL \<or> fr_account_net_minor r \<noteq> 0 then r
      else r\<lparr> fr_account_gross_minor := fr_gross_sol_lamports r,
              fr_account_protocol_fee_minor := fr_protocol_fee_lamports r,
              fr_account_network_fee_minor := fr_network_fee_lamports r,
              fr_account_net_minor := fr_net_sol_lamports r \<rparr>)"

record position =
  ps_position_id :: string
  ps_mint :: string
  ps_symbol :: string
  ps_token_units :: int
  ps_entry_cost_lamports :: int
  ps_book_value_lamports :: int
  ps_opened_at :: time
  ps_entry_fill_id :: string
  ps_venue :: string
  ps_curve_address :: string
  ps_pool_address :: string
  ps_pool_base_token_account :: string
  ps_pool_quote_token_account :: string
  ps_quote_mint :: string
  ps_last_mark_lamports :: int
  ps_unrealized_pnl_lamports :: int
  ps_last_marked_at :: "time option"
  ps_mark_age_seconds :: "pyfloat option"
  ps_mark_is_stale :: bool
  ps_mark_is_executable :: bool
  ps_mark_blockers :: "string list"
  ps_market_status :: market_status
  ps_risk_mode_at_entry :: "risk_mode option"
  ps_baseline_version_at_entry :: string
  ps_exit_timing_plan :: "json option"
  ps_peak_mark_lamports :: int
  ps_peak_marked_at :: "time option"
  ps_exit_assessment :: "exit_assessment option"
  ps_integrity_warning_count :: int
  ps_integrity_warning_since :: "time option"
  ps_integrity_last_warning_at :: "time option"
  ps_integrity_last_evaluated_at :: "time option"
  ps_integrity_last_state :: integrity_state

record portfolio_snapshot =
  pf_initialized :: bool
  pf_quote_currency :: quote_currency
  pf_quote_decimals :: int
  pf_cash_lamports :: int
  pf_reserved_cash_lamports :: int
  pf_available_cash_lamports :: int
  pf_invested_value_lamports :: int
  pf_last_known_invested_value_lamports :: int
  pf_stale_invested_value_lamports :: int
  pf_stale_position_count :: int
  pf_route_blocked_invested_value_lamports :: int
  pf_route_blocked_position_count :: int
  pf_excluded_invested_value_lamports :: int
  pf_excluded_position_count :: int
  pf_starting_lamports :: int
  pf_equity_lamports :: int
  pf_peak_equity_lamports :: int
  pf_last_known_equity_lamports :: int
  pf_realized_pnl_lamports :: int
  pf_unrealized_pnl_lamports :: int
  pf_drawdown_fraction :: pyfloat
  pf_risk_halted :: bool
  pf_risk_halt_reason :: "string option"
  pf_positions :: "position list"
  pf_pending_orders :: "paper_order list"

text \<open>
  The market state of one token that the broker prices against: the fields of
  \<open>TokenState\<close> (\<open>intelligence/features.py\<close>) that the broker reads.
\<close>

record token_state =
  ts_mint :: string
  ts_venue :: string
  ts_curve_address :: string
  ts_pool_address :: string
  ts_pool_base_token_account :: string
  ts_pool_quote_token_account :: string
  ts_quote_mint :: string
  ts_last_event_at :: "time option"
  ts_last_reserve_at :: "time option"
  ts_last_reserve_slot :: int
  ts_reserve_source :: string
  ts_reserve_fee_components :: "int list option"
  ts_reserve_lp_fee_bps :: int
  ts_last_reserve_event_id :: "string option"
  ts_last_reserve_signature :: "string option"
  ts_virtual_token_reserves :: int
  ts_virtual_quote_reserves :: int
  ts_real_token_reserves :: int
  ts_real_quote_reserves :: "int option"
  ts_fee_bps :: int

text \<open>
  A learning-evidence episode (\<open>LearningEvidenceEpisode\<close>). The fields that the paper
  broker neither sets nor reads (checkpoints, size trials and the fixed defaults) are left out.
\<close>

record evidence_episode =
  ep_episode_id :: string
  ep_idempotency_key :: string
  ep_lane :: evidence_lane
  ep_status :: evidence_status
  ep_trajectory_key :: string
  ep_mint :: string
  ep_symbol :: string
  ep_created_at :: time
  ep_entry_at :: time
  ep_completed_at :: "time option"
  ep_completion_reason :: "string option"
  ep_qualification_eligible :: bool
  ep_decision_id :: "string option"
  ep_order_id :: "string option"
  ep_entry_fill_id :: "string option"
  ep_exit_fill_id :: "string option"
  ep_season_id :: "string option"
  ep_season_profile_fingerprint :: "string option"
  ep_risk_mode :: risk_mode
  ep_account_currency :: "quote_currency option"
  ep_configuration_fingerprint :: "string option"
  ep_baseline_version :: string
  ep_feature_schema_version :: string
  ep_baseline_action :: decision_action
  ep_baseline_actionable :: bool
  ep_features :: "(string \<times> pyfloat) list"
  ep_active_skill_versions :: "(string \<times> string) list"
  ep_challenger_evaluations :: "(string \<times> json) list"
  ep_token_units :: "int option"
  ep_entry_cost_lamports :: "int option"
  ep_entry_account_minor :: "int option"
  ep_entry_price_impact_fraction :: "pyfloat option"
  ep_fee_bps :: int
  ep_venue :: "string option"
  ep_quote_mint :: "string option"
  ep_entry_route_event_id :: "string option"
  ep_entry_reserve_observed_at :: "time option"
  ep_realized_return_fraction :: "pyfloat option"
  ep_realized_account_minor :: "int option"
  ep_total_fee_account_minor :: int
  ep_exit_reason :: "string option"

section \<open>Sample data\<close>

text \<open>A feature snapshot without values or flags and a position with default marks, for the
  concrete instances of the properties.\<close>

definition quiet_features :: feature_snapshot where
  "quiet_features = \<lparr> fs_mint = ''m'', fs_symbol = ''M'', fs_name = ''m'', fs_venue = ''pump_swap'',
     fs_computed_at = 0, fs_values = [], fs_data_confidence = 1, fs_hard_flags = [] \<rparr>"

definition sample_position :: position where
  "sample_position =
     \<lparr> ps_position_id = ''p'', ps_mint = ''m'', ps_symbol = ''M'', ps_token_units = 1000,
       ps_entry_cost_lamports = 100, ps_book_value_lamports = 95, ps_opened_at = 0,
       ps_entry_fill_id = ''f'', ps_venue = ''pump_curve'', ps_curve_address = [],
       ps_pool_address = [], ps_pool_base_token_account = [], ps_pool_quote_token_account = [],
       ps_quote_mint = [], ps_last_mark_lamports = 90, ps_unrealized_pnl_lamports = - 10,
       ps_last_marked_at = Some 0, ps_mark_age_seconds = Some 0, ps_mark_is_stale = False,
       ps_mark_is_executable = True, ps_mark_blockers = [], ps_market_status = Active,
       ps_risk_mode_at_entry = Some Safe, ps_baseline_version_at_entry = BASELINE_VERSION,
       ps_exit_timing_plan = None, ps_peak_mark_lamports = 90, ps_peak_marked_at = Some 0,
       ps_exit_assessment = None, ps_integrity_warning_count = 0,
       ps_integrity_warning_since = None, ps_integrity_last_warning_at = None,
       ps_integrity_last_evaluated_at = None, ps_integrity_last_state = Uncertain \<rparr>"

end
