(* ===== verification/Risk_Profiles.thy ===== *)
theory Risk_Profiles
  imports Models
begin

text \<open>
  \<open>backend/signal_arcade/risk_profiles.py\<close>: the drawdown policy of a paper season and the
  immutable profile that a season is locked to. The SHA-256 digest of the canonical JSON
  text of a payload is a parameter, \<open>digest\<close>, of the definitions that use it: only that it
  separates the payloads matters here.
\<close>

section \<open>Model\<close>

definition SEASON_PROFILE_SCHEMA_VERSION :: int where
  "SEASON_PROFILE_SCHEMA_VERSION = 1"

datatype drawdown_policy_kind = DrawdownDefault | DrawdownCustom | DrawdownDisabled

record drawdown_policy =
  dp_kind :: drawdown_policy_kind
  dp_custom_threshold_bps :: "int option"

text \<open>\<open>DrawdownPolicy()\<close>.\<close>

definition default_policy :: drawdown_policy where
  "default_policy = \<lparr> dp_kind = DrawdownDefault, dp_custom_threshold_bps = None \<rparr>"

text \<open>What building a \<open>DrawdownPolicy\<close> checks: the field's range, then \<open>validate_kind\<close>.\<close>

definition bps_in_range :: "int option \<Rightarrow> bool" where
  "bps_in_range v = (case v of None \<Rightarrow> True | Some n \<Rightarrow> 100 \<le> n \<and> n \<le> 9900)"

definition validate_kind :: "drawdown_policy \<Rightarrow> drawdown_policy result" where
  "validate_kind p =
     (if \<not> bps_in_range (dp_custom_threshold_bps p)
        then Inl (ValueError ''custom_threshold_bps out of range'')
      else if dp_kind p = DrawdownCustom \<and> dp_custom_threshold_bps p = None
        then Inl (ValueError ''custom drawdown policy requires a threshold'')
      else if dp_kind p \<noteq> DrawdownCustom \<and> dp_custom_threshold_bps p \<noteq> None
        then Inl (ValueError ''only a custom drawdown policy accepts a threshold'')
      else Inr p)"

record season_profile =
  sp_schema_version :: int
  sp_provenance :: string
  sp_risk_mode :: risk_mode
  sp_risk_policy_version :: string
  sp_baseline_version :: string
  sp_integrity_policy_version :: string
  sp_sizing_policy_version :: string
  sp_risk_limits :: risk_limits
  sp_drawdown_policy :: drawdown_policy
  sp_effective_drawdown_bps :: "int option"
  sp_profile_fingerprint :: string
  sp_learning_fingerprint :: "string option"
  sp_locked_at :: "time option"

text \<open>\<open>round(RISK_LIMITS[mode].max_drawdown_fraction * 10_000)\<close>.\<close>

definition default_drawdown_bps :: "risk_mode \<Rightarrow> int" where
  "default_drawdown_bps mode = py_round (fmul (rl_max_drawdown_fraction (RISK_LIMITS mode)) 10000)"

definition resolved_drawdown_bps :: "risk_mode \<Rightarrow> drawdown_policy \<Rightarrow> int option result" where
  "resolved_drawdown_bps mode policy =
     (if dp_kind policy = DrawdownDisabled then Inr None
      else if dp_kind policy = DrawdownCustom then
        (case dp_custom_threshold_bps policy of
           None \<Rightarrow> Inl AssertionError
         | Some n \<Rightarrow> Inr (Some n))
      else Inr (Some (default_drawdown_bps mode)))"

definition canonical_drawdown_policy :: "risk_mode \<Rightarrow> drawdown_policy \<Rightarrow> drawdown_policy" where
  "canonical_drawdown_policy mode policy =
     (if dp_kind policy = DrawdownCustom \<and>
         dp_custom_threshold_bps policy = Some (default_drawdown_bps mode)
      then default_policy else policy)"

fun risk_mode_value :: "risk_mode \<Rightarrow> string" where
  "risk_mode_value Safe = ''safe''"
| "risk_mode_value Balanced = ''balanced''"
| "risk_mode_value Aggressive = ''aggressive''"

fun kind_value :: "drawdown_policy_kind \<Rightarrow> string" where
  "kind_value DrawdownDefault = ''default''"
| "kind_value DrawdownCustom = ''custom''"
| "kind_value DrawdownDisabled = ''disabled''"

text \<open>\<open>RiskLimits.model_dump(mode="json")\<close>, in the order of the fields.\<close>

definition limits_json :: "risk_limits \<Rightarrow> json" where
  "limits_json l = JObj
     [(''mode'', JStr (risk_mode_value (rl_mode l))),
      (''order_size_sol'', JFloat (rl_order_size_sol l)),
      (''min_net_edge_index'', JFloat (rl_min_net_edge_index l)),
      (''max_danger'', JFloat (rl_max_danger l)),
      (''min_confidence'', JFloat (rl_min_confidence l)),
      (''max_price_impact'', JFloat (rl_max_price_impact l)),
      (''max_open_positions'', JInt (rl_max_open_positions l)),
      (''max_exposure_fraction'', JFloat (rl_max_exposure_fraction l)),
      (''max_drawdown_fraction'', JFloat (rl_max_drawdown_fraction l)),
      (''stop_loss_fraction'', JFloat (rl_stop_loss_fraction l)),
      (''take_profit_fraction'', JFloat (rl_take_profit_fraction l)),
      (''trailing_stop_fraction'', JFloat (rl_trailing_stop_fraction l)),
      (''minimum_hold_support'', JFloat (rl_minimum_hold_support l)),
      (''migration_guard_progress'', JFloat (rl_migration_guard_progress l)),
      (''max_hold_seconds'', JInt (rl_max_hold_seconds l)),
      (''hard_max_hold_seconds'', JInt (rl_hard_max_hold_seconds l))]"

definition fingerprint_payload :: "risk_mode \<Rightarrow> drawdown_policy \<Rightarrow> int option \<Rightarrow> json" where
  "fingerprint_payload mode policy effective_bps = JObj
     [(''schema_version'', JInt SEASON_PROFILE_SCHEMA_VERSION),
      (''risk_policy_version'', JStr ''risk-limits-v1''),
      (''baseline_version'', JStr BASELINE_VERSION),
      (''integrity_policy_version'', JStr INTEGRITY_POLICY_VERSION),
      (''sizing_policy_version'', JStr SIZING_POLICY_VERSION),
      (''risk_mode'', JStr (risk_mode_value mode)),
      (''risk_limits'', limits_json (RISK_LIMITS mode)),
      (''drawdown_policy'', JObj
         [(''kind'', JStr (kind_value (dp_kind policy))),
          (''effective_drawdown_bps'',
             case effective_bps of None \<Rightarrow> JNull | Some n \<Rightarrow> JInt n)])]"

text \<open>Building the \<open>SeasonProfile\<close> checks the ranges and lengths its fields declare.\<close>

definition profile_fields_ok :: "season_profile \<Rightarrow> bool" where
  "profile_fields_ok p \<longleftrightarrow>
     bps_in_range (sp_effective_drawdown_bps p) \<and>
     16 \<le> length (sp_profile_fingerprint p) \<and> length (sp_profile_fingerprint p) \<le> 64 \<and>
     (case sp_learning_fingerprint p of
        None \<Rightarrow> True | Some f \<Rightarrow> 8 \<le> length f \<and> length f \<le> 128)"

definition build_season_profile ::
  "(json \<Rightarrow> string) \<Rightarrow> risk_mode \<Rightarrow> drawdown_policy option \<Rightarrow> string option \<Rightarrow> time option
   \<Rightarrow> season_profile result" where
  "build_season_profile digest mode drawdown learning_fingerprint locked_at =
     (let policy = canonical_drawdown_policy mode
                     (case drawdown of None \<Rightarrow> default_policy | Some p \<Rightarrow> p)
      in rbind (resolved_drawdown_bps mode policy) (\<lambda>effective_bps.
         let profile =
               \<lparr> sp_schema_version = SEASON_PROFILE_SCHEMA_VERSION, sp_provenance = ''exact'',
                 sp_risk_mode = mode, sp_risk_policy_version = ''risk-limits-v1'',
                 sp_baseline_version = BASELINE_VERSION,
                 sp_integrity_policy_version = INTEGRITY_POLICY_VERSION,
                 sp_sizing_policy_version = SIZING_POLICY_VERSION,
                 sp_risk_limits = RISK_LIMITS mode, sp_drawdown_policy = policy,
                 sp_effective_drawdown_bps = effective_bps,
                 sp_profile_fingerprint = digest (fingerprint_payload mode policy effective_bps),
                 sp_learning_fingerprint = learning_fingerprint, sp_locked_at = locked_at \<rparr>
         in if profile_fields_ok profile then Inr profile
            else Inl (ValueError ''invalid season profile'')))"

definition upgrade_season_profile_strategy ::
  "(json \<Rightarrow> string) \<Rightarrow> season_profile \<Rightarrow> time option \<Rightarrow> season_profile result" where
  "upgrade_season_profile_strategy digest parsed locked_at =
     build_season_profile digest (sp_risk_mode parsed) (Some (sp_drawdown_policy parsed))
       (if sp_baseline_version parsed = BASELINE_VERSION
        then sp_learning_fingerprint parsed else None) locked_at"

definition season_profile_catalog :: "(json \<Rightarrow> string) \<Rightarrow> season_profile result list" where
  "season_profile_catalog digest =
     map (\<lambda>mode. build_season_profile digest mode None None None) [Safe, Balanced, Aggressive]"

section \<open>Lemmas\<close>

lemma default_drawdown_bps:
  "default_drawdown_bps Safe = 800" "default_drawdown_bps Balanced = 1500"
  "default_drawdown_bps Aggressive = 2500"
  unfolding default_drawdown_bps_def RISK_LIMITS.simps risk_limits.simps by code_simp+

lemma default_bps_in_range: "bps_in_range (Some (default_drawdown_bps mode))"
  by (cases mode) (simp_all add: bps_in_range_def default_drawdown_bps)

lemma risk_mode_value_inj: "risk_mode_value m = risk_mode_value m' \<longleftrightarrow> m = m'"
  by (cases m; cases m') simp_all

lemma kind_value_inj: "kind_value k = kind_value k' \<longleftrightarrow> k = k'"
  by (cases k; cases k') simp_all

lemma validate_kind_Inr:
  "validate_kind p = Inr p \<longleftrightarrow>
   (case dp_kind p of
      DrawdownCustom \<Rightarrow> \<exists>n. dp_custom_threshold_bps p = Some n \<and> 100 \<le> n \<and> n \<le> 9900
    | _ \<Rightarrow> dp_custom_threshold_bps p = None)"
  by (auto simp: validate_kind_def bps_in_range_def split: drawdown_policy_kind.splits option.splits)

lemma default_policy_valid: "validate_kind default_policy = Inr default_policy"
  by (simp add: default_policy_def validate_kind_Inr)

lemma canonical_valid: "validate_kind p = Inr p \<Longrightarrow>
   validate_kind (canonical_drawdown_policy mode p) = Inr (canonical_drawdown_policy mode p)"
  by (simp add: canonical_drawdown_policy_def default_policy_valid)

lemma canonical_idem:
  "canonical_drawdown_policy mode (canonical_drawdown_policy mode p) = canonical_drawdown_policy mode p"
  by (simp add: canonical_drawdown_policy_def default_policy_def)

lemma resolved_valid:
  assumes "validate_kind p = Inr p"
  obtains v where "resolved_drawdown_bps mode p = Inr v" "bps_in_range v"
    "v = None \<longleftrightarrow> dp_kind p = DrawdownDisabled"
  using assms default_bps_in_range [of mode]
  by (cases "dp_kind p") (auto simp: resolved_drawdown_bps_def validate_kind_Inr bps_in_range_def)

lemma policy_eq_iff:
  assumes "validate_kind p = Inr p" and "validate_kind q = Inr q"
  shows "p = q \<longleftrightarrow> dp_kind p = dp_kind q \<and> resolved_drawdown_bps mode p = resolved_drawdown_bps mode q"
  using assms
  by (cases p; cases q)
     (auto simp: resolved_drawdown_bps_def validate_kind_Inr split: drawdown_policy_kind.splits)

lemma fingerprint_payload_eq:
  "fingerprint_payload m p v = fingerprint_payload m' p' v' \<longleftrightarrow>
   m = m' \<and> dp_kind p = dp_kind p' \<and> v = v'"
  by (auto simp: fingerprint_payload_def risk_mode_value_inj kind_value_inj split: option.splits)

lemma canonical_resolved:
  "validate_kind p = Inr p \<Longrightarrow>
   resolved_drawdown_bps mode (canonical_drawdown_policy mode p) = resolved_drawdown_bps mode p"
  by (auto simp: canonical_drawdown_policy_def resolved_drawdown_bps_def default_policy_def)

text \<open>The payload whose digest is the fingerprint of the profile built from a policy.\<close>

definition season_payload :: "risk_mode \<Rightarrow> drawdown_policy \<Rightarrow> json" where
  "season_payload mode p =
     (let c = canonical_drawdown_policy mode p in
      case resolved_drawdown_bps mode c of Inr v \<Rightarrow> fingerprint_payload mode c v | Inl _ \<Rightarrow> JNull)"

lemma season_payload_eq:
  assumes p: "validate_kind p = Inr p" and q: "validate_kind q = Inr q"
  shows "season_payload m p = season_payload m' q \<longleftrightarrow>
         m = m' \<and> canonical_drawdown_policy m p = canonical_drawdown_policy m' q"
proof -
  obtain v where v: "resolved_drawdown_bps m p = Inr v" using resolved_valid [OF p] by metis
  obtain w where w: "resolved_drawdown_bps m' q = Inr w" using resolved_valid [OF q] by metis
  have "season_payload m p = season_payload m' q \<longleftrightarrow>
        m = m' \<and> dp_kind (canonical_drawdown_policy m p) = dp_kind (canonical_drawdown_policy m' q) \<and> v = w"
    using v w canonical_resolved [OF p, of m] canonical_resolved [OF q, of m']
    by (simp add: season_payload_def Let_def fingerprint_payload_eq)
  also have "\<dots> \<longleftrightarrow> m = m' \<and> canonical_drawdown_policy m p = canonical_drawdown_policy m' q"
    using policy_eq_iff [OF canonical_valid [OF p, of m] canonical_valid [OF q, of m], of m]
      canonical_resolved [OF p, of m] canonical_resolved [OF q, of m] v w by auto
  finally show ?thesis .
qed

definition learning_ok :: "string option \<Rightarrow> bool" where
  "learning_ok lf = (case lf of None \<Rightarrow> True | Some f \<Rightarrow> 8 \<le> length f \<and> length f \<le> 128)"

lemma build_season_profile_ok:
  assumes p: "validate_kind p = Inr p" and len: "length (digest (season_payload mode p)) = 64"
    and learn: "learning_ok lf"
  obtains prof v where
    "build_season_profile digest mode (Some p) lf stamp = Inr prof"
    "resolved_drawdown_bps mode p = Inr v" "sp_effective_drawdown_bps prof = v" "bps_in_range v"
    "v = None \<longleftrightarrow> dp_kind p = DrawdownDisabled"
    "sp_risk_mode prof = mode" "sp_drawdown_policy prof = canonical_drawdown_policy mode p"
    "sp_profile_fingerprint prof = digest (season_payload mode p)"
    "sp_learning_fingerprint prof = lf" "sp_locked_at prof = stamp"
    "sp_baseline_version prof = BASELINE_VERSION" "sp_risk_limits prof = RISK_LIMITS mode"
proof -
  obtain v where v: "resolved_drawdown_bps mode p = Inr v" "bps_in_range v"
    "v = None \<longleftrightarrow> dp_kind p = DrawdownDisabled"
    using resolved_valid [OF p] by blast
  show ?thesis
    using v canonical_resolved [OF p, of mode] learn len
    by (intro that) (auto simp: build_season_profile_def season_payload_def Let_def
        profile_fields_ok_def learning_ok_def split: option.splits)
qed

section \<open>Properties\<close>

text \<open>C18: A valid drawdown policy always builds a profile, and two profiles have the same
  fingerprint exactly when they run the same personality under the same canonical policy: a
  custom stop equal to the personality's default is the default profile, equal fingerprints
  have equal effective stops, and the learning fingerprint and the lock time are no part of
  the identity. Only a disabled policy has no stop. The digest is 64 characters long and does
  not collide on the two payloads.\<close>

theorem profile_fingerprint_identifies:
  assumes len: "length (digest (season_payload m p)) = 64" "length (digest (season_payload m' q)) = 64"
    and inj: "inj_on digest {season_payload m p, season_payload m' q}"
    and p: "validate_kind p = Inr p" and q: "validate_kind q = Inr q"
    and lf: "learning_ok lf" "learning_ok lf'"
  shows "\<exists>a b. build_season_profile digest m (Some p) lf t = Inr a
           \<and> build_season_profile digest m' (Some q) lf' t' = Inr b
           \<and> (sp_profile_fingerprint a = sp_profile_fingerprint b \<longleftrightarrow>
                m = m' \<and> canonical_drawdown_policy m p = canonical_drawdown_policy m' q)
           \<and> (sp_profile_fingerprint a = sp_profile_fingerprint b \<longrightarrow>
                sp_effective_drawdown_bps a = sp_effective_drawdown_bps b)
           \<and> (sp_effective_drawdown_bps a = None \<longleftrightarrow> dp_kind p = DrawdownDisabled)"
proof -
  obtain a v where a: "build_season_profile digest m (Some p) lf t = Inr a"
    "resolved_drawdown_bps m p = Inr v" "sp_effective_drawdown_bps a = v"
    "v = None \<longleftrightarrow> dp_kind p = DrawdownDisabled"
    "sp_profile_fingerprint a = digest (season_payload m p)"
    using build_season_profile_ok [of p digest m lf t thesis, OF p len(1) lf(1)] that
    by presburger
  obtain b w where b: "build_season_profile digest m' (Some q) lf' t' = Inr b"
    "resolved_drawdown_bps m' q = Inr w" "sp_effective_drawdown_bps b = w"
    "sp_profile_fingerprint b = digest (season_payload m' q)"
    using build_season_profile_ok [of q digest m' lf' t' thesis, OF q len(2) lf(2)] that
    by presburger
  have same: "sp_profile_fingerprint a = sp_profile_fingerprint b \<longleftrightarrow>
        m = m' \<and> canonical_drawdown_policy m p = canonical_drawdown_policy m' q"
    unfolding a(5) b(4) season_payload_eq [OF p q, symmetric] by (rule inj_on_eq_iff [OF inj]) simp_all
  have "m = m' \<and> canonical_drawdown_policy m p = canonical_drawdown_policy m' q \<longrightarrow> v = w"
    using a(2) b(2) canonical_resolved [OF p, of m] canonical_resolved [OF q, of m'] by auto
  then have "sp_profile_fingerprint a = sp_profile_fingerprint b \<longrightarrow>
      sp_effective_drawdown_bps a = sp_effective_drawdown_bps b"
    unfolding same a(3) b(3) .
  moreover have "sp_effective_drawdown_bps a = None \<longleftrightarrow> dp_kind p = DrawdownDisabled"
    unfolding a(3) by (rule a(4))
  ultimately show ?thesis using a(1) b(1) same
    by - (rule exI [of _ a], rule exI [of _ b], intro conjI)
qed

definition sample_digest :: "json \<Rightarrow> string" where
  "sample_digest j =
     (if j = season_payload Safe default_policy then replicate 64 CHR ''a'' else replicate 64 CHR ''b'')"

theorem profile_fingerprint_identifies_witness:
  "\<exists>a b. build_season_profile sample_digest Safe (Some default_policy) None None = Inr a
       \<and> build_season_profile sample_digest Balanced (Some default_policy) None None = Inr b
       \<and> sp_profile_fingerprint a \<noteq> sp_profile_fingerprint b"
proof -
  have ne: "season_payload Balanced default_policy \<noteq> season_payload Safe default_policy"
    by (simp add: season_payload_eq default_policy_valid)
  then have "inj_on sample_digest {season_payload Safe default_policy, season_payload Balanced default_policy}"
    by (simp add: sample_digest_def)
  from profile_fingerprint_identifies [of sample_digest Safe default_policy Balanced default_policy
      None None None None, OF _ _ this]
  show ?thesis by (auto simp: sample_digest_def default_policy_valid learning_ok_def ne)
qed

end
