(* ===== verification/Py_Text.thy ===== *)
theory Py_Text
  imports Prelude
begin

text \<open>
  Python's number formatting and float sums, as the policies use them: \<open>str(n)\<close> of an
  integer, the format specifications \<open>.0%\<close>, \<open>.1%\<close> and \<open>+.1%\<close>, \<open>", ".join\<close>, weighted sums
  written with \<open>+\<close> (each step rounded) and \<open>sum\<close> over floats, which from Python 3.12 on is
  compensated (Neumaier).
\<close>

section \<open>Text\<close>

definition digit_char :: "int \<Rightarrow> char" where
  "digit_char d = char_of (48 + d)"

function digits_str :: "int \<Rightarrow> string" where
  "digits_str n = (if n < 10 then [digit_char n] else digits_str (n div 10) @ [digit_char (n mod 10)])"
  by pat_completeness auto
termination
  by (relation "measure nat") auto
declare digits_str.simps [simp del]

definition str_of_int :: "int \<Rightarrow> string" where
  "str_of_int n = (if n < 0 then CHR ''-'' # digits_str (- n) else digits_str n)"

definition pad_zeros :: "nat \<Rightarrow> string \<Rightarrow> string" where
  "pad_zeros k s = replicate (k - length s) CHR ''0'' @ s"

text \<open>The fixed-point format of the exact value, ties to even.\<close>

definition fmt_fixed :: "nat \<Rightarrow> pyfloat \<Rightarrow> string" where
  "fmt_fixed k x =
     (let n = round_half_even (\<bar>x\<bar> * 10 ^ k) in
      (if x < 0 then ''-'' else []) @ digits_str (n div 10 ^ k) @
      (if k = 0 then [] else CHR ''.'' # pad_zeros k (digits_str (n mod 10 ^ k))))"

definition fmt_pct :: "nat \<Rightarrow> pyfloat \<Rightarrow> string" where
  "fmt_pct k x = fmt_fixed k (fmul x 100) @ ''%''"

definition fmt_pct_signed :: "nat \<Rightarrow> pyfloat \<Rightarrow> string" where
  "fmt_pct_signed k x = (if 0 \<le> fmul x 100 then ''+'' else []) @ fmt_pct k x"

fun join :: "string \<Rightarrow> string list \<Rightarrow> string" where
  "join sep [] = []"
| "join sep [x] = x"
| "join sep (x # y # ys) = x @ sep @ join sep (y # ys)"

text \<open>\<open>s.startswith(p)\<close>, and \<open>sub in s\<close>.\<close>

definition starts_with :: "string \<Rightarrow> string \<Rightarrow> bool" where
  "starts_with p s \<longleftrightarrow> take (length p) s = p"

fun contains :: "string \<Rightarrow> string \<Rightarrow> bool" where
  "contains sub [] = (sub = [])"
| "contains sub (c # cs) = (starts_with sub (c # cs) \<or> contains sub cs)"

section \<open>Sums\<close>

text \<open>A decimal literal \<open>n / d\<close>, read as the nearest float.\<close>

definition lit :: "int \<Rightarrow> int \<Rightarrow> pyfloat" where
  "lit n d = rnd64 (of_int n / of_int d)"

text \<open>\<open>w1 * x1 + w2 * x2 + \<dots>\<close>.\<close>

fun wsum :: "(pyfloat \<times> pyfloat) list \<Rightarrow> pyfloat" where
  "wsum [] = 0"
| "wsum ((w, x) # rest) = foldl (\<lambda>acc (v, y). fadd acc (fmul v y)) (fmul w x) rest"

fun comp_step :: "pyfloat \<times> pyfloat \<Rightarrow> pyfloat \<Rightarrow> pyfloat \<times> pyfloat" where
  "comp_step (hi, lo) x =
     (let t = fadd hi x in
      (t, fadd lo (if \<bar>x\<bar> \<le> \<bar>hi\<bar> then fadd (fsub hi t) x else fadd (fsub x t) hi)))"

fun py_sum :: "pyfloat list \<Rightarrow> pyfloat" where
  "py_sum [] = 0"
| "py_sum (x # xs) = (case foldl comp_step (x, 0) xs of (hi, lo) \<Rightarrow> fadd hi lo)"

section \<open>Lemmas\<close>

lemma lit_nonneg [simp]: "0 \<le> n \<Longrightarrow> 0 < d \<Longrightarrow> 0 \<le> lit n d"
  by (simp add: lit_def)

lemma lit_pos: "0 < n \<Longrightarrow> 0 < d \<Longrightarrow> 0 < lit n d"
  by (simp add: lit_def)

lemma lit_mono: "of_int n / of_int d \<le> (of_int m / of_int e :: rat) \<Longrightarrow> lit n d \<le> lit m e"
  by (simp add: lit_def rnd64_mono)

lemma foldl_wsum_mono:
  "a \<le> b \<Longrightarrow> list_all2 (\<lambda>(w, x) (v, y). w = v \<and> 0 \<le> w \<and> 0 \<le> x \<and> x \<le> y) xs ys \<Longrightarrow>
   foldl (\<lambda>acc (v, y). fadd acc (fmul v y)) a xs \<le> foldl (\<lambda>acc (v, y). fadd acc (fmul v y)) b ys"
proof (induction xs ys arbitrary: a b rule: list_induct2')
  case (4 x xs y ys)
  obtain w u v z where xy: "x = (w, u)" "y = (v, z)" by (cases x; cases y)
  show ?case unfolding xy foldl_Cons prod.case
    by (rule "4.IH") (use "4.prems" in \<open>auto simp: xy intro!: fadd_mono fmul_mono\<close>)
qed auto

text \<open>Raising one signal raises the score.\<close>

lemma wsum_mono:
  "list_all2 (\<lambda>(w, x) (v, y). w = v \<and> 0 \<le> w \<and> 0 \<le> x \<and> x \<le> y) xs ys \<Longrightarrow> wsum xs \<le> wsum ys"
  by (cases xs; cases ys) (auto intro!: foldl_wsum_mono fmul_mono)

lemma foldl_wsum_nonneg:
  "0 \<le> a \<Longrightarrow> list_all (\<lambda>(w, x). 0 \<le> w \<and> 0 \<le> x) xs \<Longrightarrow>
   0 \<le> foldl (\<lambda>acc (v, y). fadd acc (fmul v y)) a xs"
proof (induction xs arbitrary: a)
  case (Cons x xs)
  obtain w u where x: "x = (w, u)" by (cases x)
  show ?case unfolding x foldl_Cons prod.case
    by (rule Cons.IH) (use Cons.prems in \<open>simp_all add: x\<close>)
qed simp

lemma wsum_nonneg: "list_all (\<lambda>(w, x). 0 \<le> w \<and> 0 \<le> x) xs \<Longrightarrow> 0 \<le> wsum xs"
  by (cases xs rule: wsum.cases) (simp_all add: foldl_wsum_nonneg)

end
