(* ===== verification/Season_Strategy.thy ===== *)
theory Season_Strategy
  imports Models Py_Text
begin

text \<open>
  \<open>backend/signal_arcade/season_strategy.py\<close>: the bounded record of which policies took part
  in a paper season. A participant arrives as a dictionary of strings; \<open>parse_participant\<close> is
  the validation that \<open>StrategyParticipant\<close> does. Timestamps are instants, so the ISO parsing
  of the source is not repeated. The SHA-256 digest behind a champion's display name is a
  parameter.
\<close>

section \<open>Model\<close>

definition MAX_PARTICIPANTS :: nat where
  "MAX_PARTICIPANTS = 128"

definition SKILLS :: "string list" where
  "SKILLS = [''entry'', ''manipulation'', ''sizing'', ''exit'']"

record participant =
  pt_kind :: string
  pt_skill :: string
  pt_version :: string

record strategy_participant = participant +
  pt_first_used_at :: time

record strategy_record =
  sr_tracking_started_at :: time
  sr_complete_from_start :: bool
  sr_baseline_observed :: bool
  sr_first_baseline_at :: "time option"
  sr_skills_observed :: "string list"
  sr_ai_observed :: bool
  sr_champion_observed :: bool
  sr_unattributed_use :: bool
  sr_participants :: "strategy_participant list"
  sr_details_limited :: bool

abbreviation identity_of :: "strategy_participant \<Rightarrow> participant" where
  "identity_of p \<equiv> participant.truncate p"

text \<open>\<open>StrategyParticipant.consistent_identity\<close> and the declared field constraints.\<close>

definition participant_ok :: "participant \<Rightarrow> bool" where
  "participant_ok p \<longleftrightarrow>
     pt_kind p \<in> set [''champion'', ''learner'', ''ai_critic''] \<and>
     pt_skill p \<in> set (SKILLS @ [[]]) \<and>
     1 \<le> length (pt_version p) \<and> length (pt_version p) \<le> 512 \<and>
     (pt_kind p = ''ai_critic'' \<longleftrightarrow> pt_skill p = []) \<and> py_strip (pt_version p) \<noteq> []"

definition parse_participant :: "(string \<times> string) list \<Rightarrow> participant option" where
  "parse_participant d =
     (case (map_of d ''kind'', map_of d ''skill'', map_of d ''version'') of
        (Some k, Some s, Some v) \<Rightarrow>
          let p = \<lparr> pt_kind = k, pt_skill = s, pt_version = v \<rparr>
          in if participant_ok p then Some p else None
      | _ \<Rightarrow> None)"

text \<open>\<open>SeasonStrategyRecord.consistent_history\<close> and the declared field constraints.\<close>

definition consistent_history :: "strategy_record \<Rightarrow> bool" where
  "consistent_history r \<longleftrightarrow>
     (let ps = sr_participants r;
          skills = set (filter (\<lambda>s. s \<noteq> []) (map pt_skill ps));
          recorded = set (sr_skills_observed r);
          ai = list_ex (\<lambda>p. pt_kind p = ''ai_critic'') ps;
          champion = list_ex (\<lambda>p. pt_kind p = ''champion'') ps in
      length (sr_skills_observed r) \<le> 4 \<and> recorded \<subseteq> set SKILLS \<and>
      length ps \<le> MAX_PARTICIPANTS \<and> (\<forall>p \<in> set ps. participant_ok (identity_of p)) \<and>
      distinct (map identity_of ps) \<and> distinct (sr_skills_observed r) \<and>
      sr_baseline_observed r = (sr_first_baseline_at r \<noteq> None) \<and>
      (\<forall>p \<in> set ps. sr_tracking_started_at r \<le> pt_first_used_at p) \<and>
      (case sr_first_baseline_at r of None \<Rightarrow> True | Some t \<Rightarrow> sr_tracking_started_at r \<le> t) \<and>
      (if sr_details_limited r
       then length ps = MAX_PARTICIPANTS \<and> skills \<subseteq> recorded \<and>
            (ai \<longrightarrow> sr_ai_observed r) \<and> (champion \<longrightarrow> sr_champion_observed r)
       else skills = recorded \<and> ai = sr_ai_observed r \<and> champion = sr_champion_observed r))"

definition new_strategy_record :: "time \<Rightarrow> bool \<Rightarrow> strategy_record" where
  "new_strategy_record started_at from_start =
     \<lparr> sr_tracking_started_at = started_at, sr_complete_from_start = from_start,
       sr_baseline_observed = False, sr_first_baseline_at = None, sr_skills_observed = [],
       sr_ai_observed = False, sr_champion_observed = False, sr_unattributed_use = False,
       sr_participants = [], sr_details_limited = False \<rparr>"

text \<open>Reading a stored row: an inconsistent one reads as absent.\<close>

definition read_strategy_record :: "strategy_record option \<Rightarrow> strategy_record option" where
  "read_strategy_record raw =
     (case raw of None \<Rightarrow> None | Some r \<Rightarrow> if consistent_history r then Some r else None)"

definition participant_dict :: "string \<Rightarrow> string \<Rightarrow> string \<Rightarrow> (string \<times> string) list" where
  "participant_dict k s v = [(''kind'', k), (''skill'', s), (''version'', v)]"

text \<open>\<open>s.split("+")\<close> and \<open>s.startswith(p)\<close>.\<close>

fun split_on :: "char \<Rightarrow> string \<Rightarrow> string list" where
  "split_on c [] = [[]]"
| "split_on c (x # xs) =
     (if x = c then [] # split_on c xs
      else case split_on c xs of [] \<Rightarrow> [[x]] | w # ws \<Rightarrow> (x # w) # ws)"

fun obj_fields :: "json \<Rightarrow> (string \<times> json) list option" where
  "obj_fields (JObj fs) = Some fs"
| "obj_fields _ = None"

definition skill_participant :: "decision \<Rightarrow> string \<Rightarrow> (string \<times> string) list list" where
  "skill_participant d skill =
     (case Option.bind (map_of (de_challenger_assessments d) skill) obj_fields of
        None \<Rightarrow> []
      | Some receipt \<Rightarrow>
          (case Option.bind (map_of receipt ''parameters'') obj_fields of
             None \<Rightarrow> []
           | Some parameters \<Rightarrow>
               if map_of parameters ''applied'' = Some (JBool True) then
                 [participant_dict ''champion'' skill
                    (case map_of receipt ''artifact_version'' of
                       Some (JStr version) \<Rightarrow>
                         if map_of receipt ''skill'' = Some (JStr skill) then version else []
                     | _ \<Rightarrow> [])]
               else []))"

definition decision_participants :: "decision \<Rightarrow> (string \<times> string) list list" where
  "decision_participants d =
     (let champions = concat (map (skill_participant d) SKILLS);
          learner = (case de_learning_assessment d of
                       None \<Rightarrow> []
                     | Some legacy \<Rightarrow>
                         if la_applied legacy \<and>
                            \<not> list_ex (\<lambda>item. map_of item ''skill'' = Some ''entry'') champions
                         then [participant_dict ''learner'' ''entry'' (la_model_version legacy)]
                         else []);
          critics = map (participant_dict ''ai_critic'' [])
                      (filter (\<lambda>v. starts_with ''ai-critic-'' v \<and> length v \<le> 128)
                         (split_on CHR ''+'' (de_model_version d)))
      in champions @ learner @ critics)"

text \<open>Recording a use: \<open>None\<close> where the source returns the original object.\<close>

definition use_participant :: "time \<Rightarrow> participant \<Rightarrow> strategy_participant" where
  "use_participant at_time p = participant.extend p \<lparr> pt_first_used_at = at_time \<rparr>"

definition additions :: "strategy_record \<Rightarrow> participant list \<Rightarrow> participant list" where
  "additions r valid =
     filter (\<lambda>p. p \<notin> set (map identity_of (sr_participants r))) (unique valid)"

definition recorded_use ::
  "strategy_record \<Rightarrow> participant list \<Rightarrow> bool \<Rightarrow> bool \<Rightarrow> time \<Rightarrow> strategy_record" where
  "recorded_use r valid baseline_use unattributed at_time =
     (let known = card (set (map identity_of (sr_participants r)));
          adds = additions r valid;
          remaining = MAX_PARTICIPANTS - known in
      r\<lparr> sr_baseline_observed := sr_baseline_observed r \<or> baseline_use,
         sr_first_baseline_at :=
           (case sr_first_baseline_at r of
              Some t \<Rightarrow> Some t | None \<Rightarrow> if baseline_use then Some at_time else None),
         sr_skills_observed :=
           sorted_set (sr_skills_observed r @ filter (\<lambda>s. s \<noteq> []) (map pt_skill valid)),
         sr_ai_observed := sr_ai_observed r \<or> list_ex (\<lambda>p. pt_kind p = ''ai_critic'') valid,
         sr_champion_observed :=
           sr_champion_observed r \<or> list_ex (\<lambda>p. pt_kind p = ''champion'') valid,
         sr_details_limited := sr_details_limited r \<or> known + length adds > MAX_PARTICIPANTS,
         sr_unattributed_use := unattributed,
         sr_participants := sr_participants r @ map (use_participant at_time) (take remaining adds) \<rparr>)"

definition record_strategy_use ::
  "strategy_record \<Rightarrow> (string \<times> string) list list \<Rightarrow> time \<Rightarrow> strategy_record" where
  "record_strategy_use original participants at_time =
     (if at_time < sr_tracking_started_at original then original
      else
        let parsed = map parse_participant participants;
            valid = List.map_filter id parsed;
            unattributed = sr_unattributed_use original \<or> None \<in> set parsed;
            updated = recorded_use original valid (participants = []) unattributed at_time
        in if sr_participants updated = sr_participants original \<and>
              sr_skills_observed updated = sr_skills_observed original \<and>
              sr_ai_observed updated = sr_ai_observed original \<and>
              sr_champion_observed updated = sr_champion_observed original \<and>
              sr_baseline_observed updated = sr_baseline_observed original \<and>
              sr_details_limited updated = sr_details_limited original \<and>
              sr_unattributed_use updated = sr_unattributed_use original
           then original else updated)"

definition champion_codename :: "(string \<Rightarrow> int list) \<Rightarrow> string \<Rightarrow> string \<Rightarrow> string" where
  "champion_codename sha256 version skill =
     (let adjectives = [''Bright'', ''Calm'', ''Clear'', ''Keen'', ''Lucid'', ''Quiet'', ''Steady'', ''Violet''];
          nouns = (if skill = ''entry'' then [''Beacon'', ''Pathfinder'', ''Scout'', ''Wayfinder'']
                   else if skill = ''manipulation'' then [''Sentinel'', ''Shield'', ''Watchtower'', ''Warden'']
                   else if skill = ''sizing'' then [''Allocator'', ''Balancer'', ''Steward'', ''Surveyor'']
                   else [''Harbormaster'', ''Navigator'', ''Timekeeper'', ''Trailkeeper'']);
          digest = sha256 (skill @ '':'' @ version)
      in adjectives ! nat (digest ! 0 mod 8) @ '' '' @ nouns ! nat (digest ! 1 mod 4))"

text \<open>The \<open>status\<close> that \<open>strategy_view\<close> reports.\<close>

definition strategy_status :: "strategy_record option \<Rightarrow> string" where
  "strategy_status raw =
     (case read_strategy_record raw of
        None \<Rightarrow> ''unknown''
      | Some r \<Rightarrow>
          let assisted = sr_skills_observed r \<noteq> [] \<or> sr_ai_observed r in
          if assisted \<and> sr_baseline_observed r then ''mixed''
          else if assisted then ''assisted''
          else if \<not> sr_complete_from_start r \<or> sr_unattributed_use r then ''unknown''
          else if sr_baseline_observed r then ''baseline''
          else ''no_decisions'')"

definition participant_name :: "(string \<Rightarrow> int list) \<Rightarrow> strategy_participant \<Rightarrow> string" where
  "participant_name sha256 p =
     (if pt_kind p = ''champion'' \<and> pt_skill p \<in> set SKILLS
        then champion_codename sha256 (pt_version p) (pt_skill p)
      else if pt_kind p = ''ai_critic'' then ''Local AI critic''
      else (if pt_skill p = ''entry'' then ''Entry''
            else if pt_skill p = ''manipulation'' then ''Manipulation''
            else if pt_skill p = ''sizing'' then ''Sizing''
            else if pt_skill p = ''exit'' then ''Exit'' else []) @ '' learner'')"

definition strategy_view ::
  "(string \<Rightarrow> int list) \<Rightarrow> strategy_record option
   \<Rightarrow> string \<times> bool \<times> (strategy_participant \<times> string) list" where
  "strategy_view sha256 raw =
     (strategy_status raw,
      (case read_strategy_record raw of None \<Rightarrow> False | Some r \<Rightarrow> sr_complete_from_start r),
      (case read_strategy_record raw of
         None \<Rightarrow> [] | Some r \<Rightarrow> map (\<lambda>p. (p, participant_name sha256 p)) (sr_participants r)))"

section \<open>Lemmas\<close>

lemma identity_of_use [simp]: "identity_of (use_participant t p) = p"
  by (simp add: use_participant_def participant.defs)

lemma use_participant_sel [simp]:
  "pt_kind (use_participant t p) = pt_kind p" "pt_skill (use_participant t p) = pt_skill p"
  "pt_version (use_participant t p) = pt_version p" "pt_first_used_at (use_participant t p) = t"
  by (simp_all add: use_participant_def participant.defs)

lemma identity_of_sel [simp]:
  "pt_kind (identity_of p) = pt_kind p" "pt_skill (identity_of p) = pt_skill p"
  by (simp_all add: participant.defs)

lemma parse_participant_ok: "parse_participant d = Some p \<Longrightarrow> participant_ok p"
  by (auto simp: parse_participant_def Let_def split: option.splits if_splits)

lemma valid_parsed_ok: "p \<in> set (List.map_filter id (map parse_participant ds)) \<Longrightarrow> participant_ok p"
  by (auto simp: List.map_filter_def intro: parse_participant_ok)

lemma participant_skill: "participant_ok p \<Longrightarrow> pt_skill p \<noteq> [] \<Longrightarrow> pt_skill p \<in> set SKILLS"
  by (auto simp: participant_ok_def)

lemma skills_at_most_four:
  assumes "distinct xs" and "set xs \<subseteq> set SKILLS"
  shows "length xs \<le> 4"
proof -
  have "length xs = card (set xs)" using assms(1) by (simp add: distinct_card)
  also have "\<dots> \<le> card (set SKILLS)" by (rule card_mono) (use assms in auto)
  also have "\<dots> \<le> 4" using card_length [of SKILLS] by (simp add: SKILLS_def)
  finally show ?thesis .
qed

lemma additions_props:
  "distinct (additions r valid)" "set (additions r valid) \<subseteq> set valid"
  "set (additions r valid) \<inter> set (map identity_of (sr_participants r)) = {}"
  by (auto simp: additions_def)

lemma known_card: "distinct (map identity_of ps) \<Longrightarrow> card (set (map identity_of ps)) = length ps"
  by (metis distinct_card length_map)

lemma set_additions:
  "set (map identity_of (sr_participants r)) \<union> set (additions r valid) =
   set (map identity_of (sr_participants r)) \<union> set valid"
  by (auto simp: additions_def)

text \<open>What the retained participants say about skills, the critic and champions.\<close>

definition seen :: "(participant \<Rightarrow> bool) \<Rightarrow> strategy_participant list \<Rightarrow> bool" where
  "seen P ps \<longleftrightarrow> (\<exists>p \<in> set (map identity_of ps). P p)"

lemma list_ex_seen:
  "list_ex (\<lambda>p. pt_kind p = k) ps \<longleftrightarrow> seen (\<lambda>p. pt_kind p = k) ps"
  by (auto simp: seen_def list_ex_iff)

lemma skills_seen:
  "set (filter (\<lambda>s. s \<noteq> []) (map pt_skill ps)) = {s. s \<noteq> [] \<and> seen (\<lambda>p. pt_skill p = s) ps}"
  by (auto simp: seen_def)

lemma consistent_new: "consistent_history (new_strategy_record t c)"
  by (simp add: consistent_history_def new_strategy_record_def MAX_PARTICIPANTS_def)

lemma consistent_historyD:
  assumes "consistent_history r"
  shows "length (sr_participants r) \<le> MAX_PARTICIPANTS"
    "\<forall>p \<in> set (sr_participants r). participant_ok (identity_of p)"
    "distinct (map identity_of (sr_participants r))"
    "distinct (sr_skills_observed r)" "set (sr_skills_observed r) \<subseteq> set SKILLS"
    "sr_baseline_observed r \<longleftrightarrow> sr_first_baseline_at r \<noteq> None"
    "\<forall>p \<in> set (sr_participants r). sr_tracking_started_at r \<le> pt_first_used_at p"
    "\<And>t. sr_first_baseline_at r = Some t \<Longrightarrow> sr_tracking_started_at r \<le> t"
    "sr_details_limited r \<Longrightarrow> length (sr_participants r) = MAX_PARTICIPANTS"
    "\<And>s. s \<noteq> [] \<Longrightarrow> seen (\<lambda>p. pt_skill p = s) (sr_participants r) \<Longrightarrow> s \<in> set (sr_skills_observed r)"
    "\<And>s. \<not> sr_details_limited r \<Longrightarrow> s \<in> set (sr_skills_observed r) \<Longrightarrow>
       s \<noteq> [] \<and> seen (\<lambda>p. pt_skill p = s) (sr_participants r)"
    "seen (\<lambda>p. pt_kind p = ''ai_critic'') (sr_participants r) \<Longrightarrow> sr_ai_observed r"
    "seen (\<lambda>p. pt_kind p = ''champion'') (sr_participants r) \<Longrightarrow> sr_champion_observed r"
    "\<not> sr_details_limited r \<Longrightarrow> sr_ai_observed r \<Longrightarrow> seen (\<lambda>p. pt_kind p = ''ai_critic'') (sr_participants r)"
    "\<not> sr_details_limited r \<Longrightarrow> sr_champion_observed r \<Longrightarrow> seen (\<lambda>p. pt_kind p = ''champion'') (sr_participants r)"
  using assms unfolding consistent_history_def Let_def list_ex_seen skills_seen
  by (auto split: option.splits if_splits)

lemma consistent_historyI:
  assumes "length (sr_participants r) \<le> MAX_PARTICIPANTS"
    "\<forall>p \<in> set (sr_participants r). participant_ok (identity_of p)"
    "distinct (map identity_of (sr_participants r))"
    "distinct (sr_skills_observed r)" "set (sr_skills_observed r) \<subseteq> set SKILLS"
    "sr_baseline_observed r \<longleftrightarrow> sr_first_baseline_at r \<noteq> None"
    "\<forall>p \<in> set (sr_participants r). sr_tracking_started_at r \<le> pt_first_used_at p"
    "\<And>t. sr_first_baseline_at r = Some t \<Longrightarrow> sr_tracking_started_at r \<le> t"
    "sr_details_limited r \<Longrightarrow> length (sr_participants r) = MAX_PARTICIPANTS"
    "\<And>s. s \<noteq> [] \<Longrightarrow> seen (\<lambda>p. pt_skill p = s) (sr_participants r) \<Longrightarrow> s \<in> set (sr_skills_observed r)"
    "\<And>s. \<not> sr_details_limited r \<Longrightarrow> s \<in> set (sr_skills_observed r) \<Longrightarrow>
       s \<noteq> [] \<and> seen (\<lambda>p. pt_skill p = s) (sr_participants r)"
    "seen (\<lambda>p. pt_kind p = ''ai_critic'') (sr_participants r) \<Longrightarrow> sr_ai_observed r"
    "seen (\<lambda>p. pt_kind p = ''champion'') (sr_participants r) \<Longrightarrow> sr_champion_observed r"
    "\<not> sr_details_limited r \<Longrightarrow> sr_ai_observed r \<Longrightarrow> seen (\<lambda>p. pt_kind p = ''ai_critic'') (sr_participants r)"
    "\<not> sr_details_limited r \<Longrightarrow> sr_champion_observed r \<Longrightarrow> seen (\<lambda>p. pt_kind p = ''champion'') (sr_participants r)"
  shows "consistent_history r"
proof -
  let ?S = "{s. s \<noteq> [] \<and> seen (\<lambda>p. pt_skill p = s) (sr_participants r)}"
  have sub: "?S \<subseteq> set (sr_skills_observed r)" using assms(10) by blast
  moreover have "\<not> sr_details_limited r \<Longrightarrow> ?S = set (sr_skills_observed r)"
    using assms(11) sub by blast
  moreover have "case sr_first_baseline_at r of None \<Rightarrow> True | Some t \<Rightarrow> sr_tracking_started_at r \<le> t"
    using assms(8) by (simp split: option.split)
  moreover have "length (sr_skills_observed r) \<le> 4"
    using assms(4,5) by (rule skills_at_most_four)
  moreover note assms(12-15)
  ultimately show ?thesis
    unfolding consistent_history_def Let_def list_ex_seen skills_seen
    using assms(1-7,9) by (cases "sr_details_limited r") (simp_all, blast)
qed

definition kept :: "strategy_record \<Rightarrow> participant list \<Rightarrow> participant list" where
  "kept r valid = take (MAX_PARTICIPANTS - length (sr_participants r)) (additions r valid)"

lemma recorded_use_sel:
  assumes "consistent_history r"
  shows "sr_participants (recorded_use r valid b u t) =
           sr_participants r @ map (use_participant t) (kept r valid)"
    "sr_details_limited (recorded_use r valid b u t) \<longleftrightarrow>
       sr_details_limited r \<or> length (sr_participants r) + length (additions r valid) > MAX_PARTICIPANTS"
    "set (sr_skills_observed (recorded_use r valid b u t)) =
       set (sr_skills_observed r) \<union> {s. s \<noteq> [] \<and> (\<exists>p \<in> set valid. pt_skill p = s)}"
    "sr_ai_observed (recorded_use r valid b u t) \<longleftrightarrow>
       sr_ai_observed r \<or> (\<exists>p \<in> set valid. pt_kind p = ''ai_critic'')"
    "sr_champion_observed (recorded_use r valid b u t) \<longleftrightarrow>
       sr_champion_observed r \<or> (\<exists>p \<in> set valid. pt_kind p = ''champion'')"
  using known_card [OF consistent_historyD(3) [OF assms]]
  by (auto simp: recorded_use_def Let_def kept_def list_ex_iff)

lemma seen_recorded:
  "seen P (ps @ map (use_participant t) qs) \<longleftrightarrow> seen P ps \<or> (\<exists>q \<in> set qs. P q)"
  by (auto simp: seen_def)

lemma kept_props:
  assumes "consistent_history r"
  shows "distinct (map identity_of (sr_participants r) @ kept r valid)"
    "set (kept r valid) \<subseteq> set valid"
    "length (sr_participants r) + length (kept r valid) \<le> MAX_PARTICIPANTS"
    "sr_details_limited r \<Longrightarrow> kept r valid = []"
    "length (sr_participants r) + length (additions r valid) > MAX_PARTICIPANTS \<Longrightarrow>
       length (sr_participants r) + length (kept r valid) = MAX_PARTICIPANTS"
    "\<not> length (sr_participants r) + length (additions r valid) > MAX_PARTICIPANTS \<Longrightarrow>
       kept r valid = additions r valid"
  using consistent_historyD(1,3,9) [OF assms] additions_props [of r valid]
  by (auto simp: kept_def dest: in_set_takeD)

lemma seen_all_valid:
  assumes "kept r valid = additions r valid" and "p \<in> set valid" and "P p"
  shows "seen P (sr_participants r) \<or> (\<exists>q \<in> set (kept r valid). P q)"
proof -
  have "p \<in> set (map identity_of (sr_participants r)) \<union> set (additions r valid)"
    using assms(2) set_additions [of r valid] by blast
  then show ?thesis using assms(1,3) unfolding seen_def by (metis UnE)
qed

lemma recorded_use_consistent:
  assumes c: "consistent_history r" and ok: "\<forall>p \<in> set valid. participant_ok p"
    and t: "sr_tracking_started_at r \<le> t"
  shows "consistent_history (recorded_use r valid b u t)" (is "consistent_history ?u")
proof (rule consistent_historyI)
  note d = consistent_historyD [OF c] and k = kept_props [OF c, of valid]
    and sel = recorded_use_sel [OF c, of valid b u t]
  have frame: "sr_tracking_started_at ?u = sr_tracking_started_at r"
    by (simp add: recorded_use_def Let_def)
  show "length (sr_participants ?u) \<le> MAX_PARTICIPANTS" using k by (simp add: sel)
  show "\<forall>p \<in> set (sr_participants ?u). participant_ok (identity_of p)"
    using d(2) ok k(2) by (auto simp: sel)
  show "distinct (map identity_of (sr_participants ?u))" using k(1) by (simp add: sel comp_def)
  show "distinct (sr_skills_observed ?u)" by (simp add: recorded_use_def Let_def)
  show "set (sr_skills_observed ?u) \<subseteq> set SKILLS"
    using d(5) ok participant_skill by (auto simp: sel)
  show "sr_baseline_observed ?u \<longleftrightarrow> sr_first_baseline_at ?u \<noteq> None"
    using d(6) by (auto simp: recorded_use_def Let_def split: option.splits)
  show "\<forall>p \<in> set (sr_participants ?u). sr_tracking_started_at ?u \<le> pt_first_used_at p"
    using d(7) t by (auto simp: sel frame)
  show "sr_tracking_started_at ?u \<le> t'" if "sr_first_baseline_at ?u = Some t'" for t'
    using that d(8) t by (auto simp: recorded_use_def Let_def split: option.splits if_splits)
  show "length (sr_participants ?u) = MAX_PARTICIPANTS" if "sr_details_limited ?u"
    using that d(9) k(4,5) by (auto simp: sel)
  show "s \<in> set (sr_skills_observed ?u)"
    if "s \<noteq> []" "seen (\<lambda>p. pt_skill p = s) (sr_participants ?u)" for s
    using that d(10) k(2) by (auto simp: sel seen_recorded)
  show "s \<noteq> [] \<and> seen (\<lambda>p. pt_skill p = s) (sr_participants ?u)"
    if "\<not> sr_details_limited ?u" "s \<in> set (sr_skills_observed ?u)" for s
    using that d(11) [of s] seen_all_valid [of r valid _ "\<lambda>p. pt_skill p = s"] k(6)
    by (auto simp: sel seen_recorded)
  show "sr_ai_observed ?u" if "seen (\<lambda>p. pt_kind p = ''ai_critic'') (sr_participants ?u)"
    using that d(12) k(2) by (auto simp: sel seen_recorded)
  show "sr_champion_observed ?u" if "seen (\<lambda>p. pt_kind p = ''champion'') (sr_participants ?u)"
    using that d(13) k(2) by (auto simp: sel seen_recorded)
  show "seen (\<lambda>p. pt_kind p = ''ai_critic'') (sr_participants ?u)"
    if "\<not> sr_details_limited ?u" "sr_ai_observed ?u"
    using that d(14) seen_all_valid [of r valid _ "\<lambda>p. pt_kind p = ''ai_critic''"] k(6)
    by (auto simp: sel seen_recorded)
  show "seen (\<lambda>p. pt_kind p = ''champion'') (sr_participants ?u)"
    if "\<not> sr_details_limited ?u" "sr_champion_observed ?u"
    using that d(15) seen_all_valid [of r valid _ "\<lambda>p. pt_kind p = ''champion''"] k(6)
    by (auto simp: sel seen_recorded)
qed

lemma record_strategy_use_consistent:
  assumes "consistent_history r"
  shows "consistent_history (record_strategy_use r ps t)"
  using assms recorded_use_consistent [OF assms, of "List.map_filter id (map parse_participant ps)"]
    valid_parsed_ok [of _ ps]
  by (auto simp: record_strategy_use_def Let_def)

text \<open>Recording is a fixed point: what a use adds is not added again.\<close>

lemma recorded_no_room:
  fixes b un
  assumes c: "consistent_history r" and ok: "\<forall>p \<in> set valid. participant_ok p"
    and t: "sr_tracking_started_at r \<le> t"
  defines "u \<equiv> recorded_use r valid b un t"
  shows "kept u valid = []"
    and "\<not> sr_details_limited u \<Longrightarrow> additions u valid = []"
proof -
  have cu: "consistent_history u" unfolding u_def by (rule recorded_use_consistent [OF c ok t])
  show adds: "additions u valid = []" if "\<not> sr_details_limited u"
  proof -
    have "kept r valid = additions r valid"
      using that kept_props(6) [OF c] recorded_use_sel(2) [OF c] unfolding u_def by blast
    then have "set valid \<subseteq> set (map identity_of (sr_participants u))"
      using set_additions [of r valid] recorded_use_sel(1) [OF c, of valid b un t]
      by (auto simp: u_def comp_def)
    then show ?thesis by (auto simp: additions_def filter_empty_conv)
  qed
  show "kept u valid = []"
    using adds kept_props(4) [OF cu, of valid] by (cases "sr_details_limited u") (simp_all add: kept_def)
qed

lemma recorded_use_again:
  fixes b un
  assumes c: "consistent_history r" and ok: "\<forall>p \<in> set valid. participant_ok p"
    and t: "sr_tracking_started_at r \<le> t"
  defines "u \<equiv> recorded_use r valid b un t"
  shows "sr_participants (recorded_use u valid b un' t') = sr_participants u"
    "sr_skills_observed (recorded_use u valid b un' t') = sr_skills_observed u"
    "sr_ai_observed (recorded_use u valid b un' t') = sr_ai_observed u"
    "sr_champion_observed (recorded_use u valid b un' t') = sr_champion_observed u"
    "sr_baseline_observed (recorded_use u valid b un' t') = sr_baseline_observed u"
    "sr_details_limited (recorded_use u valid b un' t') = sr_details_limited u"
proof -
  have cu: "consistent_history u" unfolding u_def by (rule recorded_use_consistent [OF c ok t])
  note again = recorded_use_sel [OF cu, of valid b un' t']
    and once = recorded_use_sel [OF c, of valid b un t, folded u_def]
    and room = recorded_no_room [OF c ok t, of b un, folded u_def]
  show "sr_participants (recorded_use u valid b un' t') = sr_participants u"
    using room(1) by (simp add: again)
  show "sr_skills_observed (recorded_use u valid b un' t') = sr_skills_observed u"
    by (auto simp: u_def recorded_use_def Let_def intro: sorted_set_cong)
  show "sr_ai_observed (recorded_use u valid b un' t') = sr_ai_observed u"
    "sr_champion_observed (recorded_use u valid b un' t') = sr_champion_observed u"
    using once(4,5) by (auto simp: again)
  show "sr_baseline_observed (recorded_use u valid b un' t') = sr_baseline_observed u"
    by (auto simp: u_def recorded_use_def Let_def)
  show "sr_details_limited (recorded_use u valid b un' t') = sr_details_limited u"
    using room(2) consistent_historyD(1) [OF cu] by (cases "sr_details_limited u") (simp_all add: again)
qed

lemma record_strategy_use_again:
  assumes c: "consistent_history r" and t: "sr_tracking_started_at r \<le> t"
  shows "record_strategy_use (record_strategy_use r ps t) ps t' = record_strategy_use r ps t"
proof -
  define valid where "valid = List.map_filter id (map parse_participant ps)"
  define un where "un \<longleftrightarrow> sr_unattributed_use r \<or> None \<in> set (map parse_participant ps)"
  define u where "u = recorded_use r valid (ps = []) un t"
  define v where "v = record_strategy_use r ps t"
  have ok: "\<forall>p \<in> set valid. participant_ok p" using valid_parsed_ok by (auto simp: valid_def)
  have un_u: "sr_unattributed_use u = un" by (simp add: u_def recorded_use_def Let_def)
  have same: "sr_participants v = sr_participants u" "sr_skills_observed v = sr_skills_observed u"
    "sr_ai_observed v = sr_ai_observed u" "sr_champion_observed v = sr_champion_observed u"
    "sr_baseline_observed v = sr_baseline_observed u" "sr_details_limited v = sr_details_limited u"
    "sr_unattributed_use v = un"
    using t un_u unfolding v_def record_strategy_use_def Let_def
    by (auto simp: valid_def [symmetric] un_def [symmetric] u_def [symmetric] simp del: set_map)
  have fields: "sr_participants (recorded_use v valid b n t') = sr_participants (recorded_use u valid b n t')"
    "sr_skills_observed (recorded_use v valid b n t') = sr_skills_observed (recorded_use u valid b n t')"
    "sr_ai_observed (recorded_use v valid b n t') = sr_ai_observed (recorded_use u valid b n t')"
    "sr_champion_observed (recorded_use v valid b n t') = sr_champion_observed (recorded_use u valid b n t')"
    "sr_baseline_observed (recorded_use v valid b n t') = sr_baseline_observed (recorded_use u valid b n t')"
    "sr_details_limited (recorded_use v valid b n t') = sr_details_limited (recorded_use u valid b n t')"
    for b n by (simp_all add: recorded_use_def Let_def additions_def same)
  have un_v: "sr_unattributed_use (recorded_use v valid b n t') = n" for b n
    by (simp add: recorded_use_def Let_def)
  have "un \<longleftrightarrow> un \<or> None \<in> set (map parse_participant ps)" by (auto simp: un_def)
  then show ?thesis
    using recorded_use_again [OF c ok t, of "ps = []" un, folded u_def] un_v
    unfolding v_def [symmetric]
    by (subst record_strategy_use_def)
       (simp add: Let_def valid_def [symmetric] same fields un_v del: set_map)
qed

lemma record_strategy_use_mono:
  fixes ps t
  assumes c: "consistent_history r"
  defines "v \<equiv> record_strategy_use r ps t"
  shows "\<exists>new. sr_participants v = sr_participants r @ new"
    and "set (sr_skills_observed r) \<subseteq> set (sr_skills_observed v)"
    and "sr_ai_observed r \<longrightarrow> sr_ai_observed v" and "sr_champion_observed r \<longrightarrow> sr_champion_observed v"
    and "sr_baseline_observed r \<longrightarrow> sr_baseline_observed v"
    and "sr_unattributed_use r \<longrightarrow> sr_unattributed_use v"
    and "sr_details_limited r \<longrightarrow> sr_details_limited v"
    and "sr_first_baseline_at r \<noteq> None \<longrightarrow> sr_first_baseline_at v = sr_first_baseline_at r"
  unfolding v_def record_strategy_use_def Let_def
  by (auto simp: recorded_use_def Let_def)

section \<open>Properties\<close>

text \<open>C19: The season's strategy record stays consistent (so a stored row always reads back),
  never forgets a participant or a participation fact, keeps the first baseline time, holds at
  most 128 participants, and recording the same use again, at any time, changes nothing.\<close>

theorem strategy_record_durable:
  assumes "consistent_history r" and "sr_tracking_started_at r \<le> t"
  shows "let v = record_strategy_use r ps t in
           consistent_history v \<and> read_strategy_record (Some v) = Some v
           \<and> length (sr_participants v) \<le> MAX_PARTICIPANTS
           \<and> (\<exists>new. sr_participants v = sr_participants r @ new)
           \<and> set (sr_skills_observed r) \<subseteq> set (sr_skills_observed v)
           \<and> (sr_ai_observed r \<longrightarrow> sr_ai_observed v)
           \<and> (sr_baseline_observed r \<longrightarrow> sr_baseline_observed v)
           \<and> (sr_first_baseline_at r \<noteq> None \<longrightarrow> sr_first_baseline_at v = sr_first_baseline_at r)
           \<and> record_strategy_use v ps t' = v"
  using record_strategy_use_consistent [OF assms(1), of ps t]
    consistent_historyD(1) [OF record_strategy_use_consistent [OF assms(1), of ps t]]
    record_strategy_use_mono(1,2,3,5,8) [OF assms(1), of ps t]
    record_strategy_use_again [OF assms, of ps t']
  unfolding Let_def by (simp add: read_strategy_record_def)

theorem strategy_record_durable_witness:
  "let v = record_strategy_use (new_strategy_record 0 True)
             [participant_dict ''champion'' ''exit'' ''x1''] 5
   in consistent_history v \<and> record_strategy_use v [participant_dict ''champion'' ''exit'' ''x1''] 9 = v"
  using strategy_record_durable [of "new_strategy_record 0 True" 5
      "[participant_dict ''champion'' ''exit'' ''x1'']" 9]
  by (simp add: consistent_new Let_def) (simp add: new_strategy_record_def)

end
