(* ===== verification/Terminal_Evidence.thy ===== *)
theory Terminal_Evidence
  imports Models
begin

text \<open>
  \<open>backend/signal_arcade/terminal_evidence.py\<close>: when a route probe confirms that a paper
  position can no longer be sold, so that its inventory may be written off. The evidence is a
  JSON tree; reading a missing key, or a value of the wrong kind, is the exception that the
  source turns into a refusal (\<open>None\<close> in \<open>probe_times\<close> below).
\<close>

section \<open>Model\<close>

text \<open>\<open>bool(v)\<close> and \<open>int(v)\<close> on a JSON value; \<open>int\<close> raises where it gives \<open>None\<close>.\<close>

fun json_truthy :: "json \<Rightarrow> bool" where
  "json_truthy JNull = False"
| "json_truthy (JBool b) = b"
| "json_truthy (JInt n) = (n \<noteq> 0)"
| "json_truthy (JFloat x) = (x \<noteq> 0)"
| "json_truthy (JStr s) = (s \<noteq> [])"
| "json_truthy (JTime t) = True"
| "json_truthy (JList xs) = (xs \<noteq> [])"
| "json_truthy (JObj fs) = (fs \<noteq> [])"

definition int_of_string :: "string \<Rightarrow> int option" where
  "int_of_string s =
     (case sign_of (py_strip s) of (sg, r) \<Rightarrow>
      (case digits_of 0 0 r of (v, k, rest) \<Rightarrow> if 0 < k \<and> rest = [] then Some (sg * v) else None))"

fun json_int :: "json \<Rightarrow> int option" where
  "json_int (JInt n) = Some n"
| "json_int (JBool b) = Some (if b then 1 else 0)"
| "json_int (JFloat x) = Some (py_int x)"
| "json_int (JStr s) = int_of_string s"
| "json_int _ = None"

text \<open>\<open>datetime.fromisoformat(str(v))\<close>: the ISO text of an instant is a \<open>JTime\<close>.\<close>

fun json_time :: "json \<Rightarrow> time option" where
  "json_time (JTime t) = Some t"
| "json_time _ = None"

definition TERMINAL_PROBE_POLICY :: string where
  "TERMINAL_PROBE_POLICY = ''validated-route-probes-v2''"

definition TERMINAL_PROBE_MAX_AGE_SECONDS :: int where
  "TERMINAL_PROBE_MAX_AGE_SECONDS = 180"

fun json_fields :: "json \<Rightarrow> (string \<times> json) list option" where
  "json_fields (JObj fs) = Some fs"
| "json_fields _ = None"

definition probe_of :: "json \<Rightarrow> (string \<times> json) list option" where
  "probe_of evidence =
     Option.bind (json_fields evidence) (\<lambda>fs. Option.bind (map_of fs ''probe'') json_fields)"

definition probe_int :: "(string \<times> json) list \<Rightarrow> string \<Rightarrow> int option" where
  "probe_int probe k = Option.bind (map_of probe k) json_int"

definition probe_time :: "(string \<times> json) list \<Rightarrow> string \<Rightarrow> time option" where
  "probe_time probe k = Option.bind (map_of probe k) json_time"

definition valid_terminal_probe :: "json \<Rightarrow> time \<Rightarrow> bool" where
  "valid_terminal_probe evidence now =
     (case (json_fields evidence, probe_of evidence) of
        (Some fs, Some probe) \<Rightarrow>
          (case (probe_time probe ''first_observed_at'', probe_time probe ''observed_at'',
                 probe_int probe ''first_slot'', probe_int probe ''slot'') of
             (Some t0, Some t1, Some first_slot, Some last_slot) \<Rightarrow>
               map_of fs ''policy'' = Some (JStr TERMINAL_PROBE_POLICY) \<and>
               map_of fs ''global_market_healthy'' = Some (JBool True) \<and>
               map_of probe ''verified'' = Some (JBool True) \<and>
               map_of probe ''outcome'' = Some (JStr ''unavailable'') \<and>
               (case probe_int probe ''consecutive'' of None \<Rightarrow> False | Some n \<Rightarrow> 2 \<le> n) \<and>
               0 < first_slot \<and> first_slot < last_slot \<and>
               0 < total_seconds (t1 - t0) \<and>
               0 \<le> total_seconds (now - t1) \<and>
               total_seconds (now - t0) \<le> of_int TERMINAL_PROBE_MAX_AGE_SECONDS
           | _ \<Rightarrow> False)
      | _ \<Rightarrow> False)"

section \<open>Lemmas\<close>

lemma total_seconds_pos_iff: "0 < total_seconds d \<longleftrightarrow> 0 < d"
proof
  show "0 < d" if "0 < total_seconds d"
    using that total_seconds_mono [of d 0] by (force simp: total_seconds_def true_div_def)
  show "0 < total_seconds d" if "0 < d"
    using that rnd_pos [of 2 53 "of_int d / 1000000"] by (simp add: total_seconds_def true_div_def)
qed

lemma total_seconds_nonneg_iff: "0 \<le> total_seconds d \<longleftrightarrow> 0 \<le> d"
proof -
  have "total_seconds (- d) = - total_seconds d"
    by (simp add: total_seconds_def true_div_def rnd_uminus)
  then show ?thesis using total_seconds_pos_iff [of "- d"] by linarith
qed

text \<open>A limit of whole seconds decides an age as it would on exact instants.\<close>

lemma total_seconds_le_iff:
  assumes n: "0 \<le> n" "n < 2 ^ 31"
  shows "total_seconds d \<le> of_int n \<longleftrightarrow> d \<le> n * 1000000"
proof
  show "total_seconds d \<le> of_int n" if "d \<le> n * 1000000"
    using total_seconds_mono [OF that] total_seconds_of_seconds [of n] n by simp
  show "d \<le> n * 1000000" if le: "total_seconds d \<le> of_int n"
  proof (rule ccontr)
    assume "\<not> d \<le> n * 1000000"
    then have d: "n * 1000000 + 1 \<le> d" by simp
    define x :: rat where "x = of_int (n * 2 ^ 21 + 1) * of_int 2 powi (- 21)"
    have x: "x = of_int n + 1 / 2 ^ 21" by (simp add: x_def power_int_def field_simps)
    have ex: "rnd64 x = x" unfolding x_def using n by (intro rnd_exact) simp_all
    have "x \<le> of_int (n * 1000000 + 1) / 1000000" by (simp add: x field_simps)
    then have "rnd64 x \<le> total_seconds (n * 1000000 + 1)"
      by (simp add: total_seconds_def true_div_def rnd64_mono)
    then have "of_int n < total_seconds (n * 1000000 + 1)" using ex x by (auto intro: less_le_trans)
    with total_seconds_mono [OF d] le show False by linarith
  qed
qed

lemma valid_terminal_probeD:
  assumes "valid_terminal_probe evidence now"
  obtains fs probe t0 t1 where "json_fields evidence = Some fs" "probe_of evidence = Some probe"
    "probe_time probe ''first_observed_at'' = Some t0" "probe_time probe ''observed_at'' = Some t1"
    "map_of probe ''verified'' = Some (JBool True)" "map_of probe ''outcome'' = Some (JStr ''unavailable'')"
    "t0 < t1" "t1 \<le> now" "now - t0 \<le> 180 * 1000000"
    "map_of fs ''policy'' = Some (JStr TERMINAL_PROBE_POLICY)"
    "map_of fs ''global_market_healthy'' = Some (JBool True)"
    "\<exists>n \<ge> 2. probe_int probe ''consecutive'' = Some n"
  using assms unfolding valid_terminal_probe_def
  using total_seconds_le_iff [of 180]
  by (auto simp: total_seconds_pos_iff total_seconds_nonneg_iff TERMINAL_PROBE_MAX_AGE_SECONDS_def
      split: option.splits)

end
