(* ===== verification/Paper_Db.thy ===== *)
theory Paper_Db
  imports Risk_Profiles Season_Strategy Terminal_Evidence
begin

text \<open>
  The paper-trading tables of \<open>backend/signal_arcade/database.py\<close> and the operations that
  change them. A table is an insertion-ordered association list under its primary key, or a
  plain list where the key is the row number; a row is the record that its \<open>record_json\<close>
  column stores (the other columns repeat fields of it). Primary keys, unique columns and
  foreign keys raise \<open>IntegrityError\<close>; a \<open>with connection\<close> block is \<open>db_txn\<close>, which rolls
  the tables back when its body raises. The wall clock and the fresh identifiers are streams
  of an environment, read through counters of the store.
\<close>

section \<open>Tables\<close>

record ledger_entry =
  le_tx_id :: string
  le_created_at :: time
  le_account :: string
  le_debit :: int
  le_credit :: int
  le_memo :: string

record equity_point =
  eq_recorded_at :: time
  eq_equity :: int
  eq_cash :: int

record equity_rollup =
  er_open :: int
  er_high :: int
  er_low :: int
  er_close :: int
  er_close_cash :: int
  er_samples :: int

datatype season_status = Current | Completed

record paper_season =
  se_number :: int
  se_started_at :: time
  se_ended_at :: "time option"
  se_quote_currency :: quote_currency
  se_quote_decimals :: int
  se_starting_minor :: int
  se_ending_equity_minor :: "int option"
  se_last_known_ending_equity_minor :: "int option"
  se_peak_equity_minor :: int
  se_realized_pnl_minor :: int
  se_net_pnl_minor :: int
  se_total_fees_minor :: int
  se_closed_trades :: int
  se_wins :: int
  se_losses :: int
  se_break_even :: int
  se_ending_drawdown_fraction :: pyfloat
  se_open_positions :: int
  se_profile :: "season_profile option" \<comment> \<open>\<open>risk_mode\<close>, \<open>profile_fingerprint\<close>, \<open>profile_json\<close>\<close>
  se_profile_locked_at :: "time option"
  se_terminal_reason :: "string option"
  se_result_quality :: string
  se_comparable :: bool
  se_accounting_status :: string
  se_terminal_policy_version :: string
  se_boundary_type :: string
  se_meaningful_activity :: bool
  se_write_off_count :: int
  se_write_off_entry_minor :: int
  se_status :: season_status

text \<open>The dictionaries that the broker hands over at a season boundary.\<close>

record season_summary =
  ss_ending_equity_minor :: int
  ss_last_known_ending_equity_minor :: int
  ss_peak_equity_minor :: int
  ss_realized_pnl_minor :: int
  ss_net_pnl_minor :: int
  ss_total_fees_minor :: int
  ss_closed_trades :: int
  ss_wins :: int
  ss_losses :: int
  ss_break_even :: int
  ss_ending_drawdown_fraction :: pyfloat
  ss_open_positions :: int
  ss_meaningful_activity :: bool
  ss_execution_audit_issue_count :: int

record unresolved_position =
  ur_position_id :: string
  ur_entry_fill_id :: string
  ur_mint :: string
  ur_symbol :: string
  ur_token_units :: int
  ur_entry_cost_minor :: int
  ur_book_value_minor :: int
  ur_last_known_mark_minor :: int
  ur_last_marked_at :: "time option"
  ur_market_status :: market_status
  ur_mark_blockers :: "string list"
  ur_quote_currency :: quote_currency
  ur_quote_decimals :: int
  ur_retirement_reason :: string
  ur_retired_at :: time
  ur_was_executed :: bool
  ur_terminal_disposition :: string
  ur_terminal_evidence :: json

record retired_position =
  rp_season_id :: string
  rp_recorded_at :: time
  rp_record :: unresolved_position

record tables =
  tb_settings :: "(string, json) pydict"
  tb_decisions :: "(string, decision) pydict"
  tb_orders :: "(string, paper_order) pydict"
  tb_fills :: "fill_receipt list"
  tb_positions :: "(string, position) pydict"
  tb_ledger :: "ledger_entry list"
  tb_usage :: "(string \<times> string, int) pydict"
  tb_equity_points :: "equity_point list"
  tb_equity_rollups :: "(time \<times> int, equity_rollup) pydict"
  tb_episodes :: "(string, evidence_episode) pydict"
  tb_seasons :: "(string, paper_season) pydict"
  tb_strategy :: "(string, strategy_record) pydict"
  tb_unresolved :: "(string, retired_position) pydict"

text \<open>
  The store: the tables, the strategy record that \<open>Database\<close> caches in memory, and the
  numbers of clock readings and fresh identifiers taken so far.
\<close>

record store =
  st_tables :: tables
  st_strategy_cache :: "(string \<times> strategy_record) option"
  st_clock :: nat
  st_fresh :: nat

text \<open>
  What the program takes from outside: the wall clock, fresh identifiers, the local UTC
  offset, SHA-256, and pydantic's reading of a challenger's sizing receipt
  (\<open>ChallengerEvaluationReceipt.model_validate\<close>, \<open>None\<close> for a validation error).
\<close>

record sizing_receipt =
  sz_artifact_version :: string
  sz_skill :: challenger_skill
  sz_in_distribution :: bool
  sz_proposed_action :: string
  sz_baseline_actionable :: bool
  sz_parameters :: "(string \<times> scalar option) list"

record env =
  en_wall :: "nat \<Rightarrow> time" \<comment> \<open>successive \<open>datetime.now()\<close>\<close>
  en_uuid :: "nat \<Rightarrow> string" \<comment> \<open>successive \<open>uuid.uuid4().hex\<close>\<close>
  en_utc_offset :: "time \<Rightarrow> int" \<comment> \<open>the local offset that \<open>astimezone()\<close> applies\<close>
  en_sha256 :: "string \<Rightarrow> string" \<comment> \<open>\<open>hashlib.sha256\<close>, hexadecimal\<close>
  en_profile_digest :: "json \<Rightarrow> string" \<comment> \<open>the same of a canonical JSON text\<close>
  en_parse_receipt :: "json \<Rightarrow> sizing_receipt option"

type_synonym 'a db = "(store, 'a) act"

abbreviation put_tables :: "tables \<Rightarrow> store \<Rightarrow> store" where
  "put_tables t s \<equiv> s\<lparr> st_tables := t \<rparr>"

definition db_txn :: "'a db \<Rightarrow> 'a db" where
  "db_txn m = txn st_tables put_tables m"

definition on_tables :: "(tables \<Rightarrow> tables) \<Rightarrow> unit db" where
  "on_tables f = modify (\<lambda>s. s\<lparr> st_tables := f (st_tables s) \<rparr>)"

definition of_tables :: "(tables \<Rightarrow> 'a) \<Rightarrow> 'a db" where
  "of_tables f = gets (\<lambda>s. f (st_tables s))"

definition wall_now :: "env \<Rightarrow> time db" where
  "wall_now env = bnd (gets (\<lambda>s. en_wall env (st_clock s)))
     (\<lambda>t. seq (modify (\<lambda>s. s\<lparr> st_clock := st_clock s + 1 \<rparr>)) (ret t))"

definition fresh_uuid :: "env \<Rightarrow> string db" where
  "fresh_uuid env = bnd (gets (\<lambda>s. en_uuid env (st_fresh s)))
     (\<lambda>u. seq (modify (\<lambda>s. s\<lparr> st_fresh := st_fresh s + 1 \<rparr>)) (ret u))"

definition TERMINAL_POLICY_VERSION :: string where
  "TERMINAL_POLICY_VERSION = ''executable-boundary-v3''"

section \<open>Settings\<close>

definition get_setting :: "tables \<Rightarrow> string \<Rightarrow> json \<Rightarrow> json" where
  "get_setting t key dflt = (case map_of (tb_settings t) key of None \<Rightarrow> dflt | Some v \<Rightarrow> v)"

definition upsert_settings :: "(string \<times> json) list \<Rightarrow> tables \<Rightarrow> tables" where
  "upsert_settings items t =
     t\<lparr> tb_settings := fold (\<lambda>(k, v) d. AList.update k v d) items (tb_settings t) \<rparr>"

definition set_settings :: "env \<Rightarrow> (string \<times> json) list \<Rightarrow> unit db" where
  "set_settings env values =
     (if values = [] then ret ()
      else bnd (wall_now env) (\<lambda>_. db_txn (on_tables (upsert_settings values))))"

definition set_setting :: "env \<Rightarrow> string \<Rightarrow> json \<Rightarrow> unit db" where
  "set_setting env key v = set_settings env [(key, v)]"

section \<open>The ledger\<close>

type_synonym ledger_row = "string \<times> int \<times> int \<times> string"

definition row_debit :: "ledger_row \<Rightarrow> int" where
  "row_debit r = fst (snd r)"

definition row_credit :: "ledger_row \<Rightarrow> int" where
  "row_credit r = fst (snd (snd r))"

definition validated_ledger_entries :: "ledger_row list \<Rightarrow> ledger_row list result" where
  "validated_ledger_entries rows =
     (if rows = [] \<or> sum_list (map row_debit rows) \<noteq> sum_list (map row_credit rows)
        then Inl (ValueError ''ledger transaction is not balanced'')
      else if list_ex (\<lambda>r. row_debit r < 0 \<or> row_credit r < 0) rows
        then Inl (ValueError ''ledger entries cannot be negative'')
      else Inr rows)"

definition entry_of :: "string \<Rightarrow> time \<Rightarrow> ledger_row \<Rightarrow> ledger_entry" where
  "entry_of tx_id created_at r =
     \<lparr> le_tx_id = tx_id, le_created_at = created_at, le_account = fst r, le_debit = row_debit r,
       le_credit = row_credit r, le_memo = snd (snd (snd r)) \<rparr>"

text \<open>The table checks that no amount is negative.\<close>

definition insert_ledger :: "string \<Rightarrow> time \<Rightarrow> ledger_row list \<Rightarrow> unit db" where
  "insert_ledger tx_id created_at rows =
     seq (guard (\<not> list_ex (\<lambda>r. row_debit r < 0 \<or> row_credit r < 0) rows) IntegrityError)
       (on_tables (\<lambda>t. t\<lparr> tb_ledger := tb_ledger t @ map (entry_of tx_id created_at) rows \<rparr>))"

definition append_ledger :: "env \<Rightarrow> string \<Rightarrow> ledger_row list \<Rightarrow> unit db" where
  "append_ledger env tx_id entries =
     bnd (lift (validated_ledger_entries entries)) (\<lambda>rows.
     bnd (wall_now env) (\<lambda>now. db_txn (insert_ledger tx_id now rows)))"

definition ledger_balance :: "tables \<Rightarrow> string \<Rightarrow> int" where
  "ledger_balance t account =
     sum_list (map (\<lambda>e. le_debit e - le_credit e) (filter (\<lambda>e. le_account e = account) (tb_ledger t)))"

section \<open>Equity\<close>

definition insert_equity_point :: "time \<Rightarrow> int \<Rightarrow> int \<Rightarrow> unit db" where
  "insert_equity_point now equity cash =
     on_tables (\<lambda>t. t\<lparr> tb_equity_points := tb_equity_points t @
       [\<lparr> eq_recorded_at = now, eq_equity = equity, eq_cash = cash \<rparr>] \<rparr>)"

text \<open>\<open>observed_at.replace(minute=0, second=0, microsecond=0)\<close> in local time.\<close>

definition hour_bucket :: "env \<Rightarrow> time \<Rightarrow> time \<times> int" where
  "hour_bucket env t =
     (let off = en_utc_offset env t; local = t + off in (local - local mod 3600000000, off))"

definition merge_rollup :: "equity_rollup option \<Rightarrow> int \<Rightarrow> int \<Rightarrow> equity_rollup" where
  "merge_rollup old equity cash =
     (case old of
        None \<Rightarrow> \<lparr> er_open = equity, er_high = equity, er_low = equity, er_close = equity,
                  er_close_cash = cash, er_samples = 1 \<rparr>
      | Some r \<Rightarrow> r\<lparr> er_high := max (er_high r) equity, er_low := min (er_low r) equity,
                      er_close := equity, er_close_cash := cash, er_samples := er_samples r + 1 \<rparr>)"

definition record_equity :: "env \<Rightarrow> int \<Rightarrow> int \<Rightarrow> unit db" where
  "record_equity env equity cash =
     bnd (wall_now env) (\<lambda>now.
     db_txn (seq (insert_equity_point now equity cash)
       (on_tables (\<lambda>t. t\<lparr> tb_equity_rollups :=
          AList.update (hour_bucket env now)
            (merge_rollup (map_of (tb_equity_rollups t) (hour_bucket env now)) equity cash)
            (tb_equity_rollups t) \<rparr>))))"

definition max_recorded_cash :: "tables \<Rightarrow> int" where
  "max_recorded_cash t =
     fold max (map eq_cash (tb_equity_points t) @ map er_close_cash (values_of (tb_equity_rollups t))) 0"

section \<open>Provider usage\<close>

definition increment_provider_usage :: "env \<Rightarrow> string \<Rightarrow> string \<Rightarrow> int db" where
  "increment_provider_usage env provider month =
     bnd (wall_now env) (\<lambda>_.
     db_txn (bnd (of_tables (\<lambda>t. case map_of (tb_usage t) (provider, month) of None \<Rightarrow> 1 | Some n \<Rightarrow> n + 1))
       (\<lambda>calls. seq (on_tables (\<lambda>t. t\<lparr> tb_usage := AList.update (provider, month) calls (tb_usage t) \<rparr>))
         (ret calls))))"

definition provider_usage :: "tables \<Rightarrow> string \<Rightarrow> (string, int) pydict" where
  "provider_usage t month =
     map (\<lambda>((p, m), n). (p, n)) (filter (\<lambda>((p, m), n). m = month) (tb_usage t))"

section \<open>Decisions and season strategy use\<close>

text \<open>A string that is present and not empty: Python's truth of a \<open>str | None\<close>.\<close>

definition present :: "string option \<Rightarrow> bool" where
  "present v \<longleftrightarrow> v \<noteq> None \<and> v \<noteq> Some []"

definition stored_strategy :: "env \<Rightarrow> string \<Rightarrow> strategy_record option db" where
  "stored_strategy env season_id =
     bnd (of_tables (\<lambda>t. (map_of (tb_seasons t) season_id, map_of (tb_strategy t) season_id)))
       (\<lambda>(season, stored).
        if (case season of None \<Rightarrow> True | Some row \<Rightarrow> se_status row \<noteq> Current) then ret None
        else (case read_strategy_record stored of
                Some r \<Rightarrow> ret (Some r)
              | None \<Rightarrow> bnd (wall_now env) (\<lambda>now. ret (Some (new_strategy_record now False)))))"

definition current_strategy :: "env \<Rightarrow> string \<Rightarrow> strategy_record option db" where
  "current_strategy env season_id =
     bnd (gets st_strategy_cache) (\<lambda>cached.
     case cached of
       None \<Rightarrow> stored_strategy env season_id
     | Some (sid, r) \<Rightarrow> if sid = season_id then ret (Some r) else stored_strategy env season_id)"

definition record_season_strategy_use ::
  "env \<Rightarrow> string \<Rightarrow> (string \<times> string) list list \<Rightarrow> time \<Rightarrow> (string \<times> strategy_record) option db" where
  "record_season_strategy_use env season_id participants at_time =
     bnd (current_strategy env season_id) (\<lambda>original.
     case original of
       None \<Rightarrow> ret None
     | Some r \<Rightarrow>
         let updated = record_strategy_use r participants at_time in
         seq (when_do (updated \<noteq> r)
               (bnd (of_tables (\<lambda>t. season_id \<in> set (map fst (tb_seasons t)))) (\<lambda>known.
                seq (guard known IntegrityError)
                  (on_tables (\<lambda>t. t\<lparr> tb_strategy := AList.update season_id updated (tb_strategy t) \<rparr>)))))
             (ret (Some (season_id, updated))))"

definition remember_tracked :: "(string \<times> strategy_record) option \<Rightarrow> unit db" where
  "remember_tracked tracked =
     when_do (tracked \<noteq> None) (modify (\<lambda>s. s\<lparr> st_strategy_cache := tracked \<rparr>))"

definition save_decision :: "env \<Rightarrow> decision \<Rightarrow> unit db" where
  "save_decision env d =
     bnd (db_txn
       (bnd (of_tables (\<lambda>t. de_decision_id d \<in> set (map fst (tb_decisions t)))) (\<lambda>exists.
        if exists then ret None
        else seq (on_tables (\<lambda>t. t\<lparr> tb_decisions := tb_decisions t @ [(de_decision_id d, d)] \<rparr>))
          (case de_season_id d of
             None \<Rightarrow> ret None
           | Some sid \<Rightarrow>
               if sid = [] then ret None
               else record_season_strategy_use env sid (decision_participants d) (de_created_at d)))))
     remember_tracked"

definition get_decision :: "tables \<Rightarrow> string \<Rightarrow> decision option" where
  "get_decision t did = map_of (tb_decisions t) did"

section \<open>Learning evidence\<close>

definition upsert_learning_evidence_episode :: "evidence_episode \<Rightarrow> unit db" where
  "upsert_learning_evidence_episode ep =
     bnd (of_tables (\<lambda>t. List.find (\<lambda>(i, e). ep_idempotency_key e = ep_idempotency_key ep \<or>
             ep_lane e = ep_lane ep \<and> ep_trajectory_key e = ep_trajectory_key ep) (tb_episodes t)))
       (\<lambda>existing.
        seq (guard (case existing of None \<Rightarrow> True | Some (i, e) \<Rightarrow> i = ep_episode_id ep)
              (ValueError ''learning evidence idempotency key already identifies another episode''))
          (on_tables (\<lambda>t. t\<lparr> tb_episodes := AList.update (ep_episode_id ep) ep (tb_episodes t) \<rparr>)))"

text \<open>The first episode of a lane for a decision, in order of creation.\<close>

definition learning_evidence_for_decision :: "tables \<Rightarrow> string \<Rightarrow> evidence_episode option" where
  "learning_evidence_for_decision t did =
     (case sort_key ep_created_at
             (filter (\<lambda>e. ep_lane e = LanePolicy \<and> ep_decision_id e = Some did) (values_of (tb_episodes t))) of
        [] \<Rightarrow> None | e # _ \<Rightarrow> Some e)"

text \<open>\<open>ORDER BY decision_id, trajectory_key, created_at, rowid\<close>; SQL orders \<open>NULL\<close> first.\<close>

definition execution_evidence_for_entry_fill :: "tables \<Rightarrow> string \<Rightarrow> evidence_episode option" where
  "execution_evidence_for_entry_fill t fill_id =
     (case sort_key (\<lambda>e. case ep_decision_id e of None \<Rightarrow> [] | Some d \<Rightarrow> CHR '' '' # d)
             (sort_key ep_trajectory_key (sort_key ep_created_at
               (filter (\<lambda>e. ep_lane e = LaneExecution \<and> ep_entry_fill_id e = Some fill_id)
                  (values_of (tb_episodes t))))) of
        [] \<Rightarrow> None | e # _ \<Rightarrow> Some e)"

section \<open>Orders, fills and positions\<close>

text \<open>The policy episode of an order's decision, \<open>ORDER BY trajectory_key LIMIT 1\<close>.\<close>

definition policy_episode :: "tables \<Rightarrow> string \<Rightarrow> evidence_episode option" where
  "policy_episode t did =
     (case sort_key ep_trajectory_key
             (filter (\<lambda>e. ep_lane e = LanePolicy \<and> ep_decision_id e = Some did) (values_of (tb_episodes t))) of
        [] \<Rightarrow> None | e # _ \<Rightarrow> Some e)"

definition put_order :: "paper_order \<Rightarrow> tables \<Rightarrow> tables" where
  "put_order order t = t\<lparr> tb_orders := AList.update (po_order_id order) order (tb_orders t) \<rparr>"

definition save_order :: "paper_order \<Rightarrow> unit db" where
  "save_order order =
     db_txn
       (seq (on_tables (put_order order))
         (if present (po_decision_id order) then
            bnd (of_tables (\<lambda>t. policy_episode t (the (po_decision_id order)))) (\<lambda>row.
            case row of
              None \<Rightarrow> ret ()
            | Some e \<Rightarrow> upsert_learning_evidence_episode (e\<lparr> ep_order_id := Some (po_order_id order) \<rparr>))
          else ret ()))"

definition list_orders :: "tables \<Rightarrow> order_status \<Rightarrow> paper_order list" where
  "list_orders t status = sort_key po_created_at (filter (\<lambda>order. po_status order = status) (values_of (tb_orders t)))"

definition bought_mints :: "tables \<Rightarrow> string list" where
  "bought_mints t = unique (map fr_mint (filter (\<lambda>f. fr_side f = Buy) (tb_fills t)))"

text \<open>
  A fill with its order, the first buy of its mint and that buy's order, in the order the
  fills were written; the paging of the source reads the same snapshot in pieces.
\<close>

definition first_buy :: "tables \<Rightarrow> string \<Rightarrow> fill_receipt option" where
  "first_buy t mint =
     (case sort_key fr_filled_at (sort_key fr_fill_id
             (filter (\<lambda>f. fr_mint f = mint \<and> fr_side f = Buy) (tb_fills t))) of
        [] \<Rightarrow> None | f # _ \<Rightarrow> Some f)"

definition iter_fill_contexts ::
  "tables \<Rightarrow> (fill_receipt \<times> paper_order option \<times> fill_receipt option \<times> paper_order option) list" where
  "iter_fill_contexts t =
     map (\<lambda>f. let b = first_buy t (fr_mint f) in
            (f, map_of (tb_orders t) (fr_order_id f), b,
             Option.bind b (\<lambda>x. map_of (tb_orders t) (fr_order_id x)))) (tb_fills t)"

text \<open>\<open>INSERT \<dots> ON CONFLICT(position_id) DO UPDATE\<close>: a new identity for a mint that
  already has a row violates the unique column.\<close>

definition put_position :: "position \<Rightarrow> unit db" where
  "put_position p =
     bnd (of_tables (\<lambda>t. list_ex (\<lambda>(i, q). i \<noteq> ps_position_id p \<and> ps_mint q = ps_mint p) (tb_positions t) \<and>
                          ps_position_id p \<notin> set (map fst (tb_positions t)))) (\<lambda>clash.
     seq (guard (\<not> clash) IntegrityError)
       (on_tables (\<lambda>t. t\<lparr> tb_positions := AList.update (ps_position_id p) p (tb_positions t) \<rparr>)))"

definition save_position :: "env \<Rightarrow> position \<Rightarrow> unit db" where
  "save_position env p =
     bnd (db_txn
       (seq (put_position p)
         (case ps_exit_assessment p of
            None \<Rightarrow> ret None
          | Some a \<Rightarrow>
              if present (ea_strategy_season_id a) then
                record_season_strategy_use env (the (ea_strategy_season_id a))
                  (case ea_strategy_participant a of None \<Rightarrow> [] | Some q \<Rightarrow> [q]) (ea_evaluated_at a)
              else ret None)))
     remember_tracked"

definition list_positions :: "tables \<Rightarrow> position list" where
  "list_positions t = sort_key ps_opened_at (values_of (tb_positions t))"

text \<open>\<open>INSERT INTO positions\<close>, without an upsert clause.\<close>

definition insert_position :: "position \<Rightarrow> unit db" where
  "insert_position p =
     bnd (of_tables (\<lambda>t. list_ex (\<lambda>(i, q). i = ps_position_id p \<or> ps_mint q = ps_mint p) (tb_positions t)))
       (\<lambda>clash. seq (guard (\<not> clash) IntegrityError)
         (on_tables (\<lambda>t. t\<lparr> tb_positions := tb_positions t @ [(ps_position_id p, p)] \<rparr>)))"

definition require_pending_order :: "string \<Rightarrow> unit db" where
  "require_pending_order oid =
     bnd (of_tables (\<lambda>t. map_of (tb_orders t) oid)) (\<lambda>row.
     guard (case row of None \<Rightarrow> False | Some stored \<Rightarrow> po_status stored = Pending)
       (RuntimeError ''paper order is no longer pending''))"

definition update_filled_order :: "paper_order \<Rightarrow> unit db" where
  "update_filled_order order =
     on_tables (\<lambda>t. t\<lparr> tb_orders := AList.map_entry (po_order_id order) (\<lambda>_. order) (tb_orders t) \<rparr>)"

definition insert_fill :: "fill_receipt \<Rightarrow> unit db" where
  "insert_fill fill =
     bnd (of_tables (\<lambda>t. \<not> list_ex (\<lambda>f. fr_fill_id f = fr_fill_id fill \<or> fr_order_id f = fr_order_id fill) (tb_fills t)
                          \<and> fr_order_id fill \<in> set (map fst (tb_orders t)))) (\<lambda>ok.
     seq (guard ok IntegrityError)
       (on_tables (\<lambda>t. t\<lparr> tb_fills := tb_fills t @ [fill] \<rparr>)))"

definition validate_fill_commit :: "paper_order \<Rightarrow> fill_receipt \<Rightarrow> position \<Rightarrow> unit result" where
  "validate_fill_commit order fill p =
     (if po_order_id order \<noteq> fr_order_id fill \<or> po_mint order \<noteq> fr_mint fill \<or>
         po_side order \<noteq> fr_side fill \<or> po_status order \<noteq> Filled
        then Inl (ValueError ''fill commit requires its matching filled order'')
      else if po_fill_after order < po_created_at order
        then Inl (ValueError ''paper order latency boundary cannot predate creation'')
      else if po_filled_at order \<noteq> Some (fr_filled_at fill)
        then Inl (ValueError ''filled order and receipt must share one execution time'')
      else if fr_filled_at fill < po_created_at order \<or> fr_filled_at fill < po_fill_after order
        then Inl (ValueError ''fill cannot predate its order or configured latency'')
      else if (case fr_reserve_snapshot fill of None \<Rightarrow> False | Some r \<Rightarrow> rs_observed_at r > fr_filled_at fill)
        then Inl (ValueError ''fill cannot use a reserve observation from the future'')
      else if (case fr_reserve_snapshot fill of None \<Rightarrow> False | Some r \<Rightarrow> rs_venue r \<noteq> fr_venue fill)
        then Inl (ValueError ''fill venue must match its reserve snapshot'')
      else if ps_mint p \<noteq> fr_mint fill
        then Inl (ValueError ''fill position does not match its mint'')
      else if fr_side fill = Buy \<and>
              (ps_entry_fill_id p \<noteq> fr_fill_id fill \<or> ps_opened_at p \<noteq> fr_filled_at fill)
        then Inl (ValueError ''buy fill must create its matching paper position'')
      else if fr_side fill = Sell \<and> fr_filled_at fill < ps_opened_at p
        then Inl (ValueError ''sell fill cannot predate its paper position'')
      else if fr_side fill = Sell \<and> fr_position_opened_at fill \<noteq> None \<and>
              fr_position_opened_at fill \<noteq> Some (ps_opened_at p)
        then Inl (ValueError ''sell receipt must reference its paper position boundary'')
      else Inr ())"

definition upsert_optional_episode :: "evidence_episode option \<Rightarrow> unit db" where
  "upsert_optional_episode ep =
     (case ep of None \<Rightarrow> ret () | Some e \<Rightarrow> upsert_learning_evidence_episode e)"

definition commit_buy_fill ::
  "paper_order \<Rightarrow> fill_receipt \<Rightarrow> position \<Rightarrow> ledger_row list \<Rightarrow> evidence_episode option \<Rightarrow> unit db" where
  "commit_buy_fill order fill p entries episode =
     bnd (lift (validated_ledger_entries entries)) (\<lambda>rows.
     seq (lift (validate_fill_commit order fill p))
     (db_txn
       (seq (require_pending_order (po_order_id order))
       (seq (update_filled_order order)
       (seq (insert_fill fill)
       (seq (insert_ledger (fr_fill_id fill) (fr_filled_at fill) rows)
       (seq (insert_position p)
            (upsert_optional_episode episode))))))))"

definition delete_position_row :: "string \<Rightarrow> unit db" where
  "delete_position_row pid =
     bnd (of_tables (\<lambda>t. pid \<in> set (map fst (tb_positions t)))) (\<lambda>exists.
     seq (on_tables (\<lambda>t. t\<lparr> tb_positions := AList.delete pid (tb_positions t) \<rparr>))
       (guard exists (RuntimeError ''paper position disappeared during sell commit'')))"

definition commit_sell_fill ::
  "paper_order \<Rightarrow> fill_receipt \<Rightarrow> position \<Rightarrow> ledger_row list \<Rightarrow> int \<Rightarrow> evidence_episode option \<Rightarrow> unit db" where
  "commit_sell_fill order fill p entries realized episode =
     bnd (lift (validated_ledger_entries entries)) (\<lambda>rows.
     seq (lift (validate_fill_commit order fill p))
     (db_txn
       (seq (require_pending_order (po_order_id order))
       (seq (update_filled_order order)
       (seq (insert_fill fill)
       (seq (insert_ledger (fr_fill_id fill) (fr_filled_at fill) rows)
       (seq (delete_position_row (ps_position_id p))
       (seq (on_tables (upsert_settings [(''realized_pnl_lamports'', JInt realized)]))
            (upsert_optional_episode episode)))))))))"

section \<open>Seasons\<close>

definition decimals_of :: "quote_currency \<Rightarrow> int" where
  "decimals_of c = (if c = SOL then 9 else 6)"

fun currency_json :: "quote_currency \<Rightarrow> json" where
  "currency_json SOL = JStr ''SOL''"
| "currency_json USDC = JStr ''USDC''"

definition EQUITY_PEAK_BASIS :: string where
  "EQUITY_PEAK_BASIS = ''executable-route-v1''"

text \<open>\<open>SELECT season_id FROM paper_seasons WHERE status='current'\<close>.\<close>

definition current_season_row :: "tables \<Rightarrow> (string \<times> paper_season) option" where
  "current_season_row t = List.find (\<lambda>(i, r). se_status r = Current) (tb_seasons t)"

definition next_season_number :: "tables \<Rightarrow> int" where
  "next_season_number t = fold max (map se_number (values_of (tb_seasons t))) 0 + 1"

definition new_season_row ::
  "int \<Rightarrow> time \<Rightarrow> quote_currency \<Rightarrow> int \<Rightarrow> season_profile option \<Rightarrow> paper_season" where
  "new_season_row number started_at currency starting_minor profile =
     \<lparr> se_number = number, se_started_at = started_at, se_ended_at = None,
       se_quote_currency = currency, se_quote_decimals = decimals_of currency,
       se_starting_minor = starting_minor, se_ending_equity_minor = None,
       se_last_known_ending_equity_minor = None, se_peak_equity_minor = starting_minor,
       se_realized_pnl_minor = 0, se_net_pnl_minor = 0, se_total_fees_minor = 0,
       se_closed_trades = 0, se_wins = 0, se_losses = 0, se_break_even = 0,
       se_ending_drawdown_fraction = 0, se_open_positions = 0, se_profile = profile,
       se_profile_locked_at = Option.bind profile sp_locked_at, se_terminal_reason = None,
       se_result_quality = ''complete'', se_comparable = True, se_accounting_status = ''current'',
       se_terminal_policy_version = TERMINAL_POLICY_VERSION, se_boundary_type = ''open'',
       se_meaningful_activity = False, se_write_off_count = 0, se_write_off_entry_minor = 0,
       se_status = Current \<rparr>"

text \<open>The row of the new season: a taken identity violates the primary key.\<close>

definition insert_current_season ::
  "string \<Rightarrow> time \<Rightarrow> quote_currency \<Rightarrow> int \<Rightarrow> season_profile option \<Rightarrow> unit db" where
  "insert_current_season season_id started_at currency starting_minor profile =
     bnd (of_tables current_season_row) (\<lambda>active.
     case active of
       Some (sid, _) \<Rightarrow>
         if sid = season_id then ret ()
         else raise (RuntimeError ''another paper season is already active'')
     | None \<Rightarrow>
         bnd (of_tables (\<lambda>t. (season_id \<in> set (map fst (tb_seasons t)) \<or>
                               season_id \<in> set (map fst (tb_strategy t))) \<or> starting_minor < 0)) (\<lambda>bad.
         seq (guard (\<not> bad) IntegrityError)
         (seq (on_tables (\<lambda>t. t\<lparr> tb_seasons := tb_seasons t @
                 [(season_id, new_season_row (next_season_number t) started_at currency starting_minor profile)] \<rparr>))
              (on_tables (\<lambda>t. t\<lparr> tb_strategy := tb_strategy t @
                 [(season_id, new_strategy_record started_at True)] \<rparr>)))))"

definition bankroll_rows :: "int \<Rightarrow> string \<Rightarrow> ledger_row list" where
  "bankroll_rows starting_minor memo =
     [(''cash'', starting_minor, 0, memo), (''capital'', 0, starting_minor, memo)]"

definition initialize_portfolio ::
  "env \<Rightarrow> string \<Rightarrow> int \<Rightarrow> quote_currency \<Rightarrow> season_profile option \<Rightarrow> unit db" where
  "initialize_portfolio env tx_id starting_minor currency profile =
     seq (guard (starting_minor > 0) (ValueError ''starting bankroll must be positive''))
     (bnd (wall_now env) (\<lambda>now.
      db_txn
        (bnd (of_tables (\<lambda>t. (json_truthy (get_setting t ''portfolio_initialized'' (JBool False)), tb_ledger t \<noteq> [])))
          (\<lambda>(initialized, has_ledger).
          seq (guard (\<not> initialized) (ValueError ''paper portfolio is already initialized''))
          (seq (guard (\<not> has_ledger) (RuntimeError ''uninitialized portfolio contains unexpected ledger entries''))
          (seq (insert_ledger tx_id now (bankroll_rows starting_minor ''Initial virtual bankroll''))
          (seq (on_tables (upsert_settings
                  [(''portfolio_initialized'', JBool True), (''quote_currency'', currency_json currency),
                   (''starting_lamports'', JInt starting_minor), (''realized_pnl_lamports'', JInt 0),
                   (''peak_equity_lamports'', JInt starting_minor),
                   (''equity_peak_basis'', JStr EQUITY_PEAK_BASIS), (''season_id'', JStr tx_id)]))
          (seq (insert_current_season tx_id now currency starting_minor profile)
               (insert_equity_point now starting_minor starting_minor)))))))))"

definition reconfigure_unstarted_portfolio ::
  "env \<Rightarrow> string \<Rightarrow> quote_currency \<Rightarrow> int \<Rightarrow> season_profile \<Rightarrow> unit db" where
  "reconfigure_unstarted_portfolio env season_id currency starting_minor profile =
     seq (guard (starting_minor > 0) (ValueError ''starting bankroll must be positive''))
     (bnd (wall_now env) (\<lambda>now.
      db_txn
        (bnd (of_tables (\<lambda>t. (map_of (tb_seasons t) season_id,
                tb_fills t \<noteq> [] \<or> tb_orders t \<noteq> [] \<or> tb_positions t \<noteq> [] \<or> tb_decisions t \<noteq> [])))
          (\<lambda>(row, active).
          seq (guard (case row of None \<Rightarrow> False | Some r \<Rightarrow> se_status r = Current)
                 (RuntimeError ''paper season is not current''))
          (seq (guard (Option.bind row se_profile_locked_at = None)
                 (ValueError ''paper season is already active''))
          (seq (guard (\<not> active) (RuntimeError ''unstarted paper season contains unexpected activity''))
          (seq (on_tables (\<lambda>t. t\<lparr> tb_ledger := [], tb_equity_points := [], tb_equity_rollups := [] \<rparr>))
          (seq (insert_ledger season_id now (bankroll_rows starting_minor ''Initial virtual bankroll''))
          (seq (on_tables (upsert_settings
                  [(''quote_currency'', currency_json currency),
                   (''starting_lamports'', JInt starting_minor), (''realized_pnl_lamports'', JInt 0),
                   (''peak_equity_lamports'', JInt starting_minor),
                   (''equity_peak_basis'', JStr EQUITY_PEAK_BASIS),
                   (''risk_mode'', JStr (risk_mode_value (sp_risk_mode profile)))]))
          (seq (on_tables (\<lambda>t. t\<lparr> tb_seasons := AList.map_entry season_id (\<lambda>r.
                  r\<lparr> se_quote_currency := currency, se_quote_decimals := decimals_of currency,
                     se_starting_minor := starting_minor, se_peak_equity_minor := starting_minor,
                     se_profile := Some profile, se_profile_locked_at := None,
                     se_accounting_status := ''current'',
                     se_terminal_policy_version := TERMINAL_POLICY_VERSION,
                     se_boundary_type := ''open'', se_meaningful_activity := False,
                     se_write_off_count := 0, se_write_off_entry_minor := 0 \<rparr>) (tb_seasons t) \<rparr>))
               (insert_equity_point now starting_minor starting_minor)))))))))))"

definition earliest :: "time list \<Rightarrow> time option" where
  "earliest ts = (case ts of [] \<Rightarrow> None | t # r \<Rightarrow> Some (fold min r t))"

definition ensure_current_season :: "env \<Rightarrow> string \<Rightarrow> int \<Rightarrow> quote_currency \<Rightarrow> unit db" where
  "ensure_current_season env season_id starting_minor currency =
     db_txn
       (bnd (of_tables (\<lambda>t. (season_id \<in> set (map fst (tb_seasons t)),
               earliest (map eq_recorded_at (tb_equity_points t) @ map fr_filled_at (tb_fills t) @
                         map po_created_at (values_of (tb_orders t)) @
                         map de_created_at (values_of (tb_decisions t)) @
                         map le_created_at (tb_ledger t)))))
         (\<lambda>(exists, started_at).
         if exists then ret ()
         else bnd (case started_at of Some s \<Rightarrow> ret s | None \<Rightarrow> wall_now env)
                (\<lambda>s. insert_current_season season_id s currency starting_minor None)))"

definition update_current_season_profile :: "string \<Rightarrow> season_profile \<Rightarrow> unit db" where
  "update_current_season_profile season_id profile =
     db_txn
       (bnd (of_tables (\<lambda>t. map_of (tb_seasons t) season_id)) (\<lambda>row.
        seq (guard (case row of None \<Rightarrow> False | Some r \<Rightarrow> se_status r = Current)
               (RuntimeError ''paper season is not current''))
        (seq (guard (Option.bind row se_profile_locked_at = None)
               (ValueError ''paper season profile is already locked''))
             (on_tables (\<lambda>t. t\<lparr> tb_seasons := AList.map_entry season_id (\<lambda>r.
                r\<lparr> se_profile := Some profile, se_profile_locked_at := sp_locked_at profile \<rparr>)
                (tb_seasons t) \<rparr>)))))"

definition lock_current_season_profile :: "string \<Rightarrow> time \<Rightarrow> season_profile option db" where
  "lock_current_season_profile season_id locked_at =
     db_txn
       (bnd (of_tables (\<lambda>t. map_of (tb_seasons t) season_id)) (\<lambda>row.
        case row of
          None \<Rightarrow> ret None
        | Some r \<Rightarrow>
            if se_status r \<noteq> Current then ret None
            else (case se_profile r of
                    None \<Rightarrow> ret None
                  | Some parsed \<Rightarrow>
                      let effective = (case se_profile_locked_at r of Some t \<Rightarrow> t | None \<Rightarrow> locked_at);
                          profile = parsed\<lparr> sp_locked_at := Some effective \<rparr>
                      in seq (on_tables (\<lambda>t. t\<lparr> tb_seasons := AList.map_entry season_id (\<lambda>r.
                                r\<lparr> se_profile_locked_at := Some effective, se_profile := Some profile \<rparr>)
                                (tb_seasons t) \<rparr>))
                           (ret (Some profile)))))"

definition current_profile :: "tables \<Rightarrow> season_profile option" where
  "current_profile t = Option.bind (current_season_row t) (\<lambda>(i, r). se_profile r)"

section \<open>Season boundaries\<close>

definition terminal_boundary_type :: "string \<Rightarrow> string" where
  "terminal_boundary_type reason =
     (if reason = ''profile_change_manual'' then ''end_now''
      else if reason = ''profile_change_safe'' then ''finish_safely''
      else if reason \<in> set [''auto_drawdown'', ''auto_drawdown_rollover'', ''bankroll_exhausted''] then ''automatic''
      else if reason = ''manual_reset'' then ''reset''
      else ''other'')"

text \<open>\<open>str(position.get("terminal_disposition") or "unknown")\<close>.\<close>

definition disposition_of :: "unresolved_position \<Rightarrow> string" where
  "disposition_of u = (if ur_terminal_disposition u = [] then ''unknown'' else ur_terminal_disposition u)"

text \<open>
  \<open>int(v or 0)\<close> and \<open>datetime.fromisoformat(str(v or ""))\<close> of a probe's field, with \<open>None\<close> for
  the exceptions that turn the four derived numbers into a refusal.
\<close>

definition probe_int_or :: "(string \<times> json) list \<Rightarrow> string \<Rightarrow> int option" where
  "probe_int_or probe k =
     (case map_of probe k of None \<Rightarrow> Some 0 | Some v \<Rightarrow> if json_truthy v then json_int v else Some 0)"

definition write_off_confirmed :: "json \<Rightarrow> time \<Rightarrow> bool" where
  "write_off_confirmed evidence boundary_at =
     (let probe = (case probe_of evidence of None \<Rightarrow> [] | Some p \<Rightarrow> p);
          (confirmations, slot, evidence_seconds, evidence_age_seconds) =
            (case (probe_int_or probe ''consecutive'', probe_int_or probe ''slot'',
                   probe_time probe ''first_observed_at'', probe_time probe ''observed_at'') of
               (Some c, Some sl, Some a, Some b) \<Rightarrow>
                 (c, sl, total_seconds (b - a), total_seconds (boundary_at - b))
             | _ \<Rightarrow> (0, 0, - 1, - 1))
      in valid_terminal_probe evidence boundary_at \<and>
         (case json_fields evidence of
            None \<Rightarrow> False | Some fs \<Rightarrow> map_of fs ''global_market_healthy'' = Some (JBool True)) \<and>
         map_of probe ''outcome'' = Some (JStr ''unavailable'') \<and>
         2 \<le> confirmations \<and> 0 < slot \<and>
         0 < evidence_seconds \<and> evidence_seconds \<le> 180 \<and>
         0 \<le> evidence_age_seconds \<and> evidence_age_seconds \<le> 180)"

text \<open>The loop over the records, with the identities and mints seen so far.\<close>

fun check_inventory :: "time \<Rightarrow> string list \<Rightarrow> string list \<Rightarrow> unresolved_position list \<Rightarrow> unit result" where
  "check_inventory boundary_at ids mints [] = Inr ()"
| "check_inventory boundary_at ids mints (u # us) =
     (if ur_position_id u = [] \<or> ur_mint u = []
        then Inl (ValueError ''terminal paper inventory requires position and mint ids'')
      else if ur_position_id u \<in> set ids \<or> ur_mint u \<in> set mints
        then Inl (ValueError ''terminal paper inventory records must be unique'')
      else if ur_was_executed u
        then Inl (ValueError ''terminal paper inventory cannot be recorded as executed'')
      else if disposition_of u \<notin> set [''write_off'', ''unknown'']
        then Inl (ValueError ''terminal paper inventory disposition is invalid'')
      else if disposition_of u = ''write_off'' \<and> \<not> write_off_confirmed (ur_terminal_evidence u) boundary_at
        then Inl (ValueError ''terminal paper write-off requires confirmed route evidence'')
      else check_inventory boundary_at (ur_position_id u # ids) (ur_mint u # mints) us)"

definition validate_unresolved_inventory ::
  "season_summary \<Rightarrow> unresolved_position list \<Rightarrow> time \<Rightarrow> unit result" where
  "validate_unresolved_inventory summary positions boundary_at =
     (if ss_open_positions summary < 0
        then Inl (ValueError ''paper season open position count cannot be negative'')
      else if ss_open_positions summary \<noteq> int (length positions)
        then Inl (ValueError ''paper season open positions must match unresolved inventory records'')
      else check_inventory boundary_at [] [] positions)"

definition archived_row ::
  "season_summary \<Rightarrow> time \<Rightarrow> string \<Rightarrow> unresolved_position list \<Rightarrow> bool \<Rightarrow> paper_season \<Rightarrow> paper_season" where
  "archived_row summary ended_at reason terminal comparable r =
     (let write_offs = filter (\<lambda>u. ur_terminal_disposition u = ''write_off'') terminal;
          unknown = filter (\<lambda>u. ur_terminal_disposition u \<noteq> ''write_off'') terminal;
          accounting = (if unknown \<noteq> [] then ''incomplete_unknown''
                        else if write_offs \<noteq> [] then ''complete_with_writeoffs''
                        else if \<not> ss_meaningful_activity summary then ''empty''
                        else ''complete'');
          boundary = terminal_boundary_type reason in
      r\<lparr> se_ended_at := Some ended_at,
         se_ending_equity_minor := Some (ss_ending_equity_minor summary),
         se_last_known_ending_equity_minor := Some (ss_last_known_ending_equity_minor summary),
         se_peak_equity_minor := ss_peak_equity_minor summary,
         se_realized_pnl_minor := ss_realized_pnl_minor summary,
         se_net_pnl_minor := ss_net_pnl_minor summary,
         se_total_fees_minor := ss_total_fees_minor summary,
         se_closed_trades := ss_closed_trades summary + int (length write_offs),
         se_wins := ss_wins summary,
         se_losses := ss_losses summary + int (length write_offs),
         se_break_even := ss_break_even summary,
         se_ending_drawdown_fraction := max 0 (min 1 (ss_ending_drawdown_fraction summary)),
         se_open_positions := ss_open_positions summary,
         se_terminal_reason := Some reason,
         se_result_quality := (if unknown \<noteq> [] then ''unresolved'' else ''complete''),
         se_comparable := comparable \<and> boundary \<notin> set [''reset'', ''end_now''] \<and>
           ss_meaningful_activity summary \<and> accounting \<in> set [''complete'', ''complete_with_writeoffs''],
         se_accounting_status := accounting,
         se_terminal_policy_version := TERMINAL_POLICY_VERSION,
         se_boundary_type := boundary,
         se_meaningful_activity := ss_meaningful_activity summary,
         se_write_off_count := int (length write_offs),
         se_write_off_entry_minor := sum_list (map (\<lambda>u. max 0 (ur_entry_cost_minor u)) write_offs),
         se_status := Completed \<rparr>)"

definition archive_active_season ::
  "string \<Rightarrow> season_summary \<Rightarrow> time \<Rightarrow> string \<Rightarrow> unresolved_position list \<Rightarrow> bool \<Rightarrow> unit db" where
  "archive_active_season season_id summary ended_at reason terminal comparable =
     bnd (of_tables (\<lambda>t. map_of (tb_seasons t) season_id)) (\<lambda>row.
     seq (guard (case row of None \<Rightarrow> False | Some r \<Rightarrow> se_status r = Current)
            (RuntimeError ''active paper season summary row is missing''))
     (seq (on_tables (\<lambda>t. t\<lparr> tb_seasons := AList.map_entry season_id
             (archived_row summary ended_at reason terminal comparable) (tb_seasons t) \<rparr>))
          (modify (\<lambda>s. s\<lparr> st_strategy_cache := None \<rparr>))))"

definition insert_unresolved_position :: "string \<Rightarrow> time \<Rightarrow> unresolved_position \<Rightarrow> unit db" where
  "insert_unresolved_position season_id recorded_at u =
     (let rid = season_id @ '':'' @ ur_position_id u in
      seq (guard (ur_position_id u \<noteq> [] \<and> ur_mint u \<noteq> [])
            (ValueError ''unresolved paper inventory requires position and mint ids''))
      (seq (guard (\<not> ur_was_executed u)
            (ValueError ''unresolved paper inventory cannot be recorded as executed''))
      (seq (guard (disposition_of u \<in> set [''write_off'', ''unknown''])
            (ValueError ''terminal paper inventory disposition is invalid''))
      (bnd (of_tables (\<lambda>t. rid \<notin> set (map fst (tb_unresolved t)) \<and> season_id \<in> set (map fst (tb_seasons t)))) (\<lambda>ok.
      seq (guard ok IntegrityError)
        (on_tables (\<lambda>t. t\<lparr> tb_unresolved := tb_unresolved t @
           [(rid, \<lparr> rp_season_id = season_id, rp_recorded_at = recorded_at, rp_record = u \<rparr>)] \<rparr>)))))))"

definition insert_unresolved_positions :: "string \<Rightarrow> unresolved_position list \<Rightarrow> time \<Rightarrow> unit db" where
  "insert_unresolved_positions season_id positions recorded_at =
     for_each positions (insert_unresolved_position season_id recorded_at)"

text \<open>The execution episode that refers to an entry fill (\<open>LIMIT 1\<close>, unordered).\<close>

definition execution_episode_row :: "tables \<Rightarrow> string \<Rightarrow> evidence_episode option" where
  "execution_episode_row t fill_id =
     map_option snd (List.find (\<lambda>(i, e). ep_lane e = LaneExecution \<and> ep_entry_fill_id e = Some fill_id)
       (tb_episodes t))"

definition closed_episode :: "unresolved_position \<Rightarrow> time \<Rightarrow> evidence_episode \<Rightarrow> evidence_episode" where
  "closed_episode u completed_at e =
     (if disposition_of u = ''write_off'' then
        e\<lparr> ep_status := EvComplete, ep_completed_at := Some completed_at,
           ep_completion_reason := Some ''confirmed_terminal_write_off'',
           ep_realized_return_fraction := Some (- 1), ep_realized_account_minor := Some 0,
           ep_exit_reason := Some ''confirmed_untradeable_inventory'' \<rparr>
      else
        e\<lparr> ep_status := EvUnavailable, ep_completed_at := Some completed_at,
           ep_completion_reason := Some ''unresolved_season_boundary'',
           ep_exit_reason := Some (if ur_retirement_reason u = [] then ''season_boundary''
                                   else ur_retirement_reason u) \<rparr>)"

definition finalize_unresolved_evidence :: "time \<Rightarrow> unresolved_position \<Rightarrow> unit db" where
  "finalize_unresolved_evidence completed_at u =
     bnd (of_tables (\<lambda>t.
            let fid = (if ur_entry_fill_id u \<noteq> [] then ur_entry_fill_id u
                       else case map_of (tb_positions t) (ur_position_id u) of
                              None \<Rightarrow> [] | Some p \<Rightarrow> ps_entry_fill_id p)
            in if fid = [] then None else execution_episode_row t fid))
       (\<lambda>row. case row of
                None \<Rightarrow> ret ()
              | Some e \<Rightarrow> upsert_learning_evidence_episode (closed_episode u completed_at e))"

definition finalize_unresolved_execution_evidence :: "unresolved_position list \<Rightarrow> time \<Rightarrow> unit db" where
  "finalize_unresolved_execution_evidence positions recorded_at =
     for_each positions (finalize_unresolved_evidence recorded_at)"

definition clear_paper_tables :: "tables \<Rightarrow> tables" where
  "clear_paper_tables t =
     t\<lparr> tb_decisions := [], tb_fills := [], tb_orders := [], tb_positions := [], tb_ledger := [],
        tb_equity_points := [], tb_equity_rollups := [] \<rparr>"

text \<open>Archiving the active season, its unresolved inventory and their evidence, as both kinds
  of boundary do it.\<close>

definition close_season ::
  "string \<Rightarrow> season_summary \<Rightarrow> time \<Rightarrow> string \<Rightarrow> unresolved_position list \<Rightarrow> bool \<Rightarrow> unit db" where
  "close_season season_id summary now reason unresolved comparable =
     seq (lift (validate_unresolved_inventory summary unresolved now))
     (seq (archive_active_season season_id summary now reason unresolved comparable)
     (seq (insert_unresolved_positions season_id unresolved now)
          (finalize_unresolved_execution_evidence unresolved now)))"

fun json_string :: "json \<Rightarrow> string" where
  "json_string (JStr s) = s"
| "json_string _ = []"

definition reset_paper_state ::
  "env \<Rightarrow> season_summary option \<Rightarrow> string \<Rightarrow> unresolved_position list \<Rightarrow> bool \<Rightarrow> unit db" where
  "reset_paper_state env summary reason unresolved comparable =
     bnd (wall_now env) (\<lambda>now.
     db_txn
       (bnd (of_tables (\<lambda>t. (json_truthy (get_setting t ''portfolio_initialized'' (JBool False)),
                              get_setting t ''season_id'' JNull))) (\<lambda>(initialized, season_id).
        seq (when_do initialized
              (seq (guard (json_truthy season_id) (RuntimeError ''initialized paper portfolio has no season id''))
                (case summary of
                   None \<Rightarrow> raise (RuntimeError ''active paper season must be summarized before reset'')
                 | Some s \<Rightarrow> close_season (json_string season_id) s now reason unresolved comparable)))
        (seq (on_tables clear_paper_tables)
             (on_tables (upsert_settings
                [(''portfolio_initialized'', JBool False), (''starting_lamports'', JInt 0),
                 (''realized_pnl_lamports'', JInt 0), (''peak_equity_lamports'', JInt 0),
                 (''equity_peak_basis'', JNull), (''trading_enabled'', JBool False),
                 (''season_id'', JNull), (''auto_new_season_eligible_since'', JNull),
                 (''auto_new_season_paused_since'', JNull),
                 (''auto_new_season_last_observed_at'', JNull)]))))))"

definition successor_settings ::
  "int \<Rightarrow> quote_currency \<Rightarrow> string \<Rightarrow> bool \<Rightarrow> time \<Rightarrow> json \<Rightarrow> season_profile option
   \<Rightarrow> (string \<times> json) list" where
  "successor_settings starting_minor currency next_season_id next_trading_enabled now previous next_profile =
     [(''portfolio_initialized'', JBool True), (''quote_currency'', currency_json currency),
      (''starting_lamports'', JInt starting_minor), (''realized_pnl_lamports'', JInt 0),
      (''peak_equity_lamports'', JInt starting_minor),
      (''equity_peak_basis'', JStr EQUITY_PEAK_BASIS),
      (''trading_enabled'', JBool next_trading_enabled), (''season_id'', JStr next_season_id),
      (''auto_new_season_eligible_since'', JNull), (''auto_new_season_paused_since'', JNull),
      (''auto_new_season_last_observed_at'', JNull),
      (''auto_new_season_last_rollover_at'', JTime now),
      (''auto_new_season_terminal_resolution'', JNull),
      (''auto_new_season_last_from'', previous),
      (''auto_new_season_last_to'', JStr next_season_id)] @
     (case next_profile of
        None \<Rightarrow> [] | Some p \<Rightarrow> [(''risk_mode'', JStr (risk_mode_value (sp_risk_mode p)))])"

definition rollover_paper_state ::
  "season_summary \<Rightarrow> string \<Rightarrow> int \<Rightarrow> quote_currency \<Rightarrow> time \<Rightarrow> season_profile option \<Rightarrow> string
   \<Rightarrow> bool \<Rightarrow> unresolved_position list \<Rightarrow> bool \<Rightarrow> unit db" where
  "rollover_paper_state summary next_season_id starting_minor currency now next_profile reason
       next_trading_enabled unresolved comparable =
     seq (guard (starting_minor > 0) (ValueError ''starting bankroll must be positive''))
     (db_txn
       (bnd (of_tables (\<lambda>t. (json_truthy (get_setting t ''portfolio_initialized'' (JBool False)),
                              get_setting t ''season_id'' JNull))) (\<lambda>(initialized, season_id).
        seq (guard initialized (RuntimeError ''automatic rollover requires an initialized portfolio''))
        (seq (guard (json_truthy season_id) (RuntimeError ''initialized paper portfolio has no season id''))
        (seq (close_season (json_string season_id) summary now reason unresolved comparable)
        (seq (on_tables clear_paper_tables)
        (seq (insert_ledger next_season_id now (bankroll_rows starting_minor ''Automatic season bankroll''))
        (seq (on_tables (upsert_settings (successor_settings starting_minor currency next_season_id
                next_trading_enabled now season_id next_profile)))
        (seq (insert_current_season next_season_id now currency starting_minor next_profile)
             (insert_equity_point now starting_minor starting_minor))))))))))"

end
