(* ===== verification/Books.thy ===== *)
theory Books
  imports Paper_Db
begin

text \<open>
  The accounting view of the store, and one rule per database operation that says what the
  operation does to that view: \<open>books_of\<close> keeps the settings, orders, fills, positions, ledger
  and the count of identifiers, and forgets journals, evidence and clocks. The broker's
  invariants are stated on this view and proved with these rules only.
\<close>

record books =
  bo_settings :: "(string, json) pydict"
  bo_orders :: "(string, paper_order) pydict"
  bo_fills :: "fill_receipt list"
  bo_positions :: "(string, position) pydict"
  bo_ledger :: "ledger_entry list"
  bo_fresh :: nat

definition books_of :: "store \<Rightarrow> books" where
  "books_of s = \<lparr> bo_settings = tb_settings (st_tables s), bo_orders = tb_orders (st_tables s),
                  bo_fills = tb_fills (st_tables s), bo_positions = tb_positions (st_tables s),
                  bo_ledger = tb_ledger (st_tables s), bo_fresh = st_fresh s \<rparr>"

lemma books_of_sel [simp]:
  "bo_settings (books_of s) = tb_settings (st_tables s)" "bo_orders (books_of s) = tb_orders (st_tables s)"
  "bo_fills (books_of s) = tb_fills (st_tables s)" "bo_positions (books_of s) = tb_positions (st_tables s)"
  "bo_ledger (books_of s) = tb_ledger (st_tables s)" "bo_fresh (books_of s) = st_fresh s"
  by (simp_all add: books_of_def)

lemma books_eqI:
  "tb_settings (st_tables s) = bo_settings v \<Longrightarrow> tb_orders (st_tables s) = bo_orders v \<Longrightarrow>
   tb_fills (st_tables s) = bo_fills v \<Longrightarrow> tb_positions (st_tables s) = bo_positions v \<Longrightarrow>
   tb_ledger (st_tables s) = bo_ledger v \<Longrightarrow> st_fresh s = bo_fresh v \<Longrightarrow> books_of s = v"
  by (simp add: books_of_def)

section \<open>Operations that leave the books alone\<close>

text \<open>An action with the same books before and after, whether it returns or raises.\<close>

definition off_books :: "'a db \<Rightarrow> bool" where
  "off_books m \<longleftrightarrow> (\<forall>v. keeps (\<lambda>s. books_of s = v) m)"

lemma off_booksI: "(\<And>v. keeps (\<lambda>s. books_of s = v) m) \<Longrightarrow> off_books m"
  by (simp add: off_books_def)

lemma off_booksD: "off_books m \<Longrightarrow> keeps (\<lambda>s. books_of s = v) m"
  by (simp add: off_books_def)

lemma keeps_on_tables: "(\<And>s. P s \<Longrightarrow> P (s\<lparr> st_tables := f (st_tables s) \<rparr>)) \<Longrightarrow> keeps P (on_tables f)"
  unfolding on_tables_def by (rule keeps_modify)

lemma keeps_of_tables [keeps_rules]: "keeps P (of_tables f)"
  unfolding of_tables_def by (rule keeps_gets)

lemma keeps_wall_now:
  "(\<And>s n. P s \<Longrightarrow> P (s\<lparr> st_clock := n \<rparr>)) \<Longrightarrow> keeps P (wall_now env)"
  unfolding wall_now_def by (intro keeps_rules keeps_modify) simp

lemma books_of_clock [simp]: "books_of (s\<lparr> st_clock := n \<rparr>) = books_of s"
  and books_of_cache [simp]: "books_of (s\<lparr> st_strategy_cache := c \<rparr>) = books_of s"
  by (simp_all add: books_of_def)

lemma books_of_tables [simp]:
  "books_of (s\<lparr> st_tables := (st_tables s)\<lparr> tb_episodes := e \<rparr> \<rparr>) = books_of s"
  "books_of (s\<lparr> st_tables := (st_tables s)\<lparr> tb_strategy := r \<rparr> \<rparr>) = books_of s"
  "books_of (s\<lparr> st_tables := (st_tables s)\<lparr> tb_decisions := d \<rparr> \<rparr>) = books_of s"
  "books_of (s\<lparr> st_tables := (st_tables s)\<lparr> tb_seasons := q \<rparr> \<rparr>) = books_of s"
  "books_of (s\<lparr> st_tables := (st_tables s)\<lparr> tb_unresolved := u \<rparr> \<rparr>) = books_of s"
  "books_of (s\<lparr> st_tables := (st_tables s)\<lparr> tb_equity_points := p \<rparr> \<rparr>) = books_of s"
  "books_of (s\<lparr> st_tables := (st_tables s)\<lparr> tb_equity_rollups := o' \<rparr> \<rparr>) = books_of s"
  by (simp_all add: books_of_def)

lemma books_of_rollback [simp]:
  "books_of s' = books_of s \<Longrightarrow> books_of (s'\<lparr> st_tables := st_tables s \<rparr>) = books_of s"
  by (simp add: books_of_def)

lemma off_books_txn: "off_books m \<Longrightarrow> off_books (db_txn m)"
  unfolding off_books_def db_txn_def
  by (intro allI keeps_txn) (auto simp: books_of_def)

lemma off_books_bnd: "off_books m \<Longrightarrow> (\<And>x. off_books (f x)) \<Longrightarrow> off_books (bnd m f)"
  unfolding off_books_def by (auto intro: keeps_rules)

lemma off_books_seq: "off_books m \<Longrightarrow> off_books k \<Longrightarrow> off_books (seq m k)"
  unfolding off_books_def by (auto intro: keeps_rules)

lemma off_books_basic: "off_books (ret x)" "off_books (raise e)" "off_books (gets g)"
  "off_books (lift r)" "off_books (guard b e)" "off_books (of_tables h)" "off_books (wall_now env)"
  unfolding off_books_def by (auto intro: keeps_rules keeps_wall_now)

lemma off_books_on_tables:
  "(\<And>s. books_of (s\<lparr> st_tables := f (st_tables s) \<rparr>) = books_of s) \<Longrightarrow> off_books (on_tables f)"
  unfolding off_books_def by (auto intro: keeps_on_tables)

lemma off_books_cases:
  "(b \<Longrightarrow> off_books m) \<Longrightarrow> (\<not> b \<Longrightarrow> off_books k) \<Longrightarrow> off_books (if b then m else k)"
  "(b \<Longrightarrow> off_books m') \<Longrightarrow> off_books (when_do b m')"
  "(r = None \<Longrightarrow> off_books m) \<Longrightarrow> (\<And>x. r = Some x \<Longrightarrow> off_books (f x)) \<Longrightarrow>
   off_books (case r of None \<Rightarrow> m | Some x \<Rightarrow> f x)"
  "(\<And>a b. z = (a, b) \<Longrightarrow> off_books (g a b)) \<Longrightarrow> off_books (case z of (a, b) \<Rightarrow> g a b)"
  "(\<And>x. x = y \<Longrightarrow> off_books (h x)) \<Longrightarrow> off_books (let x = y in h x)"
  by (auto simp: when_do_def off_books_basic split: option.splits prod.splits)

lemma off_books_for_each: "(\<And>x. off_books (f x)) \<Longrightarrow> off_books (for_each xs f)"
  unfolding off_books_def by (auto intro: keeps_for_each)

lemma off_books_modify: "(\<And>s. books_of (u s) = books_of s) \<Longrightarrow> off_books (modify u)"
  unfolding off_books_def by (auto intro: keeps_modify)

lemmas off_books_rules =
  off_books_basic off_books_txn off_books_bnd off_books_seq off_books_cases off_books_for_each

lemma off_books_strategy:
  "off_books (stored_strategy env sid)" "off_books (current_strategy env sid)"
  "off_books (record_season_strategy_use env sid ps t)" "off_books (remember_tracked tr)"
proof -
  show s: "off_books (stored_strategy env sid)"
    unfolding stored_strategy_def by (intro off_books_rules)
  show c: "off_books (current_strategy env sid)"
    unfolding current_strategy_def by (intro off_books_rules s)
  show "off_books (record_season_strategy_use env sid ps t)"
    unfolding record_season_strategy_use_def
    by (intro off_books_rules c off_books_on_tables) simp
  show "off_books (remember_tracked tr)"
    unfolding remember_tracked_def by (intro off_books_rules off_books_modify) simp
qed

lemma off_books_save_decision: "off_books (save_decision env d)"
  unfolding save_decision_def
  by (intro off_books_rules off_books_strategy off_books_on_tables) simp_all

lemma off_books_episode:
  "off_books (upsert_learning_evidence_episode ep)" "off_books (upsert_optional_episode oep)"
proof -
  show u: "off_books (upsert_learning_evidence_episode ep)" for ep
    unfolding upsert_learning_evidence_episode_def by (intro off_books_rules off_books_on_tables) simp
  show "off_books (upsert_optional_episode oep)"
    unfolding upsert_optional_episode_def by (intro off_books_rules u)
qed

lemma off_books_record_equity: "off_books (record_equity env e c)"
  unfolding record_equity_def insert_equity_point_def
  by (intro off_books_rules off_books_on_tables) simp_all

lemma off_books_season_rows:
  "off_books (insert_current_season sid t c n p)" "off_books (insert_equity_point now e k)"
  "off_books (ensure_current_season env sid n c)" "off_books (update_current_season_profile sid q)"
  "off_books (close_season sid sm now reason us cmp)"
proof -
  show i: "off_books (insert_current_season sid t c n p)" for t p
    unfolding insert_current_season_def
    by (intro off_books_rules off_books_on_tables) simp_all
  show "off_books (insert_equity_point now e k)"
    unfolding insert_equity_point_def by (intro off_books_on_tables) simp
  show "off_books (ensure_current_season env sid n c)"
    unfolding ensure_current_season_def by (intro off_books_rules i)
  show "off_books (update_current_season_profile sid q)"
    unfolding update_current_season_profile_def by (intro off_books_rules off_books_on_tables) simp
  show "off_books (close_season sid sm now reason us cmp)"
    unfolding close_season_def archive_active_season_def insert_unresolved_positions_def
      insert_unresolved_position_def finalize_unresolved_execution_evidence_def
      finalize_unresolved_evidence_def
    by (intro off_books_rules off_books_on_tables off_books_modify off_books_episode) simp_all
qed

section \<open>Rules for the operations that write the books\<close>

lemma wp_off_books:
  assumes "off_books m" and "\<And>x s'. books_of s' = books_of s \<Longrightarrow> Q x s'"
    and "\<And>e s'. books_of s' = books_of s \<Longrightarrow> E e s'"
  shows "wp m Q E s"
  by (rule wp_of_keeps [OF off_booksD [OF assms(1), of "books_of s"]]) (use assms in auto)

lemma wp_on_tables [wp_simps]: "wp (on_tables f) Q E s \<longleftrightarrow> Q () (s\<lparr> st_tables := f (st_tables s) \<rparr>)"
  and wp_of_tables [wp_simps]: "wp (of_tables g) Q' E s \<longleftrightarrow> Q' (g (st_tables s)) s"
  by (simp_all add: on_tables_def of_tables_def wp_simps)

lemma wp_wall_now [wp_simps]:
  "wp (wall_now env) Q E s \<longleftrightarrow> Q (en_wall env (st_clock s)) (s\<lparr> st_clock := st_clock s + 1 \<rparr>)"
  by (simp add: wall_now_def wp_simps)

lemma wp_fresh_uuid:
  assumes "\<And>s'. books_of s' = (books_of s)\<lparr> bo_fresh := bo_fresh (books_of s) + 1 \<rparr> \<Longrightarrow>
             Q (en_uuid env (bo_fresh (books_of s))) s'"
  shows "wp (fresh_uuid env) Q E s"
  using assms by (simp add: fresh_uuid_def wp_simps books_of_def)

lemma wp_db_txn:
  assumes "wp m Q (\<lambda>e s'. st_fresh s' = st_fresh s) s" and "\<And>e s'. books_of s' = books_of s \<Longrightarrow> E e s'"
  shows "wp (db_txn m) Q E s"
  unfolding db_txn_def wp_txn
  by (rule wp_mono [OF assms(1)]) (auto intro!: assms(2) simp: books_of_def)

lemma wp_set_settings:
  assumes "\<And>s'. books_of s' = (books_of s)\<lparr> bo_settings :=
             fold (\<lambda>(k, v) d. AList.update k v d) items (bo_settings (books_of s)) \<rparr> \<Longrightarrow> Q () s'"
  shows "wp (set_settings env items) Q E s"
  using assms by (auto simp: set_settings_def db_txn_def wp_simps upsert_settings_def books_of_def)

lemma wp_set_setting:
  assumes "\<And>s'. books_of s' = (books_of s)\<lparr> bo_settings := AList.update k v (bo_settings (books_of s)) \<rparr> \<Longrightarrow> Q () s'"
  shows "wp (set_setting env k v) Q E s"
  unfolding set_setting_def by (rule wp_set_settings) (use assms in simp)

lemma wp_save_order:
  assumes "\<And>s'. books_of s' = (books_of s)\<lparr> bo_orders :=
             AList.update (po_order_id order) order (bo_orders (books_of s)) \<rparr> \<Longrightarrow> Q () s'"
    and "\<And>e s'. books_of s' = books_of s \<Longrightarrow> E e s'"
  shows "wp (save_order order) Q E s"
proof -
  let ?s = "s\<lparr> st_tables := put_order order (st_tables s) \<rparr>"
  have b: "books_of ?s = (books_of s)\<lparr> bo_orders := AList.update (po_order_id order) order (bo_orders (books_of s)) \<rparr>"
    by (simp add: put_order_def books_of_def)
  have "off_books (if present (po_decision_id order) then
            bnd (of_tables (\<lambda>t. policy_episode t (the (po_decision_id order)))) (\<lambda>row.
            case row of
              None \<Rightarrow> ret ()
            | Some e \<Rightarrow> upsert_learning_evidence_episode (e\<lparr> ep_order_id := Some (po_order_id order) \<rparr>))
          else ret ())" (is "off_books ?rest")
    by (intro off_books_rules off_books_episode)
  then have "wp ?rest Q (\<lambda>e s'. st_fresh s' = st_fresh s) ?s"
    by (rule wp_off_books) (use assms(1) b in \<open>auto dest: arg_cong [where f = bo_fresh]\<close>)
  then show ?thesis
    unfolding save_order_def by (intro wp_db_txn assms(2)) (simp_all add: wp_simps)
qed

lemma wp_save_position:
  assumes "\<And>s'. books_of s' = (books_of s)\<lparr> bo_positions :=
             AList.update (ps_position_id p) p (bo_positions (books_of s)) \<rparr> \<Longrightarrow>
             (ps_position_id p \<in> fst ` set (bo_positions (books_of s)) \<or>
              (\<forall>q \<in> snd ` set (bo_positions (books_of s)). ps_mint q \<noteq> ps_mint p)) \<Longrightarrow> Q () s'"
    and "\<And>e s'. books_of s' = books_of s \<Longrightarrow> E e s'"
  shows "wp (save_position env p) Q E s"
proof -
  define rest where "rest =
    (case ps_exit_assessment p of
            None \<Rightarrow> ret None
          | Some a \<Rightarrow>
              if present (ea_strategy_season_id a) then
                record_season_strategy_use env (the (ea_strategy_season_id a))
                  (case ea_strategy_participant a of None \<Rightarrow> [] | Some q \<Rightarrow> [q]) (ea_evaluated_at a)
              else ret None)"
  have off: "off_books rest" unfolding rest_def by (intro off_books_rules off_books_strategy)
  let ?s = "s\<lparr> st_tables := (st_tables s)\<lparr> tb_positions := AList.update (ps_position_id p) p (tb_positions (st_tables s)) \<rparr> \<rparr>"
  have b: "books_of ?s = (books_of s)\<lparr> bo_positions := AList.update (ps_position_id p) p (bo_positions (books_of s)) \<rparr>"
    by (simp add: books_of_def)
  show ?thesis
  proof (cases "ps_position_id p \<in> fst ` set (tb_positions (st_tables s)) \<or>
              (\<forall>q \<in> snd ` set (tb_positions (st_tables s)). ps_mint q \<noteq> ps_mint p)")
    case True
    then have q: "Q () s'" if "books_of s' = books_of ?s" for s' using assms(1) that b by simp
    have tail: "wp (remember_tracked tr) Q E s'" if "books_of s' = books_of ?s" for tr s'
      unfolding remember_tracked_def using that q by (simp add: wp_simps)
    have "\<not> (list_ex (\<lambda>(i, q). i \<noteq> ps_position_id p \<and> ps_mint q = ps_mint p) (tb_positions (st_tables s)) \<and>
              ps_position_id p \<notin> set (map fst (tb_positions (st_tables s))))"
      using True by (force simp: list_ex_iff)
    then show ?thesis
      unfolding save_position_def put_position_def rest_def [symmetric] wp_bnd
      by (intro wp_db_txn assms(2))
         (auto simp: wp_simps simp del: set_map intro!: wp_off_books [OF off] tail
           dest: arg_cong [where f = bo_fresh])
  next
    case False
    then have "list_ex (\<lambda>(i, q). i \<noteq> ps_position_id p \<and> ps_mint q = ps_mint p) (tb_positions (st_tables s)) \<and>
              ps_position_id p \<notin> set (map fst (tb_positions (st_tables s)))"
      by (force simp: list_ex_iff)
    then show ?thesis
      unfolding save_position_def put_position_def rest_def [symmetric] wp_bnd
      by (intro wp_db_txn assms(2)) (auto simp: wp_simps simp del: set_map)
  qed
qed

text \<open>What a successful commit has checked about the order and the fill.\<close>

definition commit_checked :: "books \<Rightarrow> paper_order \<Rightarrow> fill_receipt \<Rightarrow> position \<Rightarrow> ledger_row list \<Rightarrow> bool" where
  "commit_checked v order fill p rows \<longleftrightarrow>
     validated_ledger_entries rows = Inr rows \<and> validate_fill_commit order fill p = Inr () \<and>
     (\<exists>q. map_of (bo_orders v) (po_order_id order) = Some q \<and> po_status q = Pending) \<and>
     (\<forall>f \<in> set (bo_fills v). fr_fill_id f \<noteq> fr_fill_id fill \<and> fr_order_id f \<noteq> fr_order_id fill)"

lemma wp_insert_ledger [wp_simps]:
  "wp (insert_ledger tx t rows) Q E s \<longleftrightarrow>
   (if list_ex (\<lambda>r. row_debit r < 0 \<or> row_credit r < 0) rows then E IntegrityError s
    else Q () (s\<lparr> st_tables := (st_tables s)\<lparr> tb_ledger := tb_ledger (st_tables s) @ map (entry_of tx t) rows \<rparr> \<rparr>))"
  by (simp add: insert_ledger_def wp_simps)

lemma wp_insert_fill [wp_simps]:
  "wp (insert_fill fill) Q E s \<longleftrightarrow>
   (if (\<forall>f \<in> set (tb_fills (st_tables s)). fr_fill_id f \<noteq> fr_fill_id fill \<and> fr_order_id f \<noteq> fr_order_id fill)
       \<and> fr_order_id fill \<in> fst ` set (tb_orders (st_tables s))
    then Q () (s\<lparr> st_tables := (st_tables s)\<lparr> tb_fills := tb_fills (st_tables s) @ [fill] \<rparr> \<rparr>)
    else E IntegrityError s)"
  by (auto simp: insert_fill_def wp_simps list_ex_iff)

lemma wp_require_pending [wp_simps]:
  "wp (require_pending_order oid) Q E s \<longleftrightarrow>
   (if \<exists>q. map_of (tb_orders (st_tables s)) oid = Some q \<and> po_status q = Pending then Q () s
    else E (RuntimeError ''paper order is no longer pending'') s)"
  by (auto simp: require_pending_order_def wp_simps split: option.splits)

lemma wp_episode:
  assumes "\<And>s'. books_of s' = books_of s \<Longrightarrow> Q () s'" and "st_fresh s = n"
  shows "wp (upsert_optional_episode ep) Q (\<lambda>e s'. st_fresh s' = n) s"
  by (rule wp_off_books [OF off_books_episode(2)])
     (use assms(2) in \<open>auto intro: assms(1) dest: arg_cong [where f = bo_fresh]\<close>)

lemma validated_Inr: "validated_ledger_entries rows = Inr rows' \<Longrightarrow> rows' = rows"
  by (auto simp: validated_ledger_entries_def split: if_splits)

lemma wp_commit_buy_fill:
  assumes "\<And>s'. books_of s' = (books_of s)\<lparr>
        bo_orders := AList.map_entry (po_order_id order) (\<lambda>_. order) (bo_orders (books_of s)),
        bo_fills := bo_fills (books_of s) @ [fill],
        bo_ledger := bo_ledger (books_of s) @ map (entry_of (fr_fill_id fill) (fr_filled_at fill)) rows,
        bo_positions := bo_positions (books_of s) @ [(ps_position_id p, p)] \<rparr> \<Longrightarrow>
      commit_checked (books_of s) order fill p rows \<Longrightarrow>
      (\<forall>(i, q) \<in> set (bo_positions (books_of s)). i \<noteq> ps_position_id p \<and> ps_mint q \<noteq> ps_mint p) \<Longrightarrow> Q () s'"
    and "\<And>e s'. books_of s' = books_of s \<Longrightarrow> E e s'"
  shows "wp (commit_buy_fill order fill p rows ep) Q E s"
proof (cases "validated_ledger_entries rows")
  case (Inr rows')
  then have rows: "validated_ledger_entries rows = Inr rows" using validated_Inr by fastforce
  show ?thesis
  proof (cases "validate_fill_commit order fill p")
    case (Inr u)
    then have v: "validate_fill_commit order fill p = Inr ()" by simp
    show ?thesis
      unfolding commit_buy_fill_def wp_bnd wp_seq wp_lift rows v sum.case
      by (rule wp_db_txn [OF _ assms(2)])
         (auto simp: wp_simps update_filled_order_def insert_position_def list_ex_iff
           intro!: wp_episode assms(1), auto simp: books_of_def commit_checked_def rows v)
  qed (use assms(2) rows in \<open>simp add: commit_buy_fill_def wp_simps\<close>)
qed (use assms(2) in \<open>simp add: commit_buy_fill_def wp_simps\<close>)

lemma wp_commit_sell_fill:
  assumes "\<And>s'. books_of s' = (books_of s)\<lparr>
        bo_orders := AList.map_entry (po_order_id order) (\<lambda>_. order) (bo_orders (books_of s)),
        bo_fills := bo_fills (books_of s) @ [fill],
        bo_ledger := bo_ledger (books_of s) @ map (entry_of (fr_fill_id fill) (fr_filled_at fill)) rows,
        bo_positions := AList.delete (ps_position_id p) (bo_positions (books_of s)),
        bo_settings := AList.update ''realized_pnl_lamports'' (JInt realized) (bo_settings (books_of s)) \<rparr> \<Longrightarrow>
      commit_checked (books_of s) order fill p rows \<Longrightarrow>
      ps_position_id p \<in> fst ` set (bo_positions (books_of s)) \<Longrightarrow> Q () s'"
    and "\<And>e s'. books_of s' = books_of s \<Longrightarrow> E e s'"
  shows "wp (commit_sell_fill order fill p rows realized ep) Q E s"
proof (cases "validated_ledger_entries rows")
  case (Inr rows')
  then have rows: "validated_ledger_entries rows = Inr rows" using validated_Inr by fastforce
  show ?thesis
  proof (cases "validate_fill_commit order fill p")
    case (Inr u)
    then have v: "validate_fill_commit order fill p = Inr ()" by simp
    show ?thesis
      unfolding commit_sell_fill_def wp_bnd wp_seq wp_lift rows v sum.case
      by (rule wp_db_txn [OF _ assms(2)])
         (auto simp: wp_simps update_filled_order_def delete_position_row_def upsert_settings_def
           intro!: wp_episode assms(1), auto simp: books_of_def commit_checked_def rows v)
  qed (use assms(2) rows in \<open>simp add: commit_sell_fill_def wp_simps\<close>)
qed (use assms(2) in \<open>simp add: commit_sell_fill_def wp_simps\<close>)

text \<open>The settings that the accounting reads, as a season boundary leaves them.\<close>

definition season_settings :: "books \<Rightarrow> bool \<Rightarrow> int \<Rightarrow> bool" where
  "season_settings v initialized starting \<longleftrightarrow>
     map_of (bo_settings v) ''portfolio_initialized'' = Some (JBool initialized) \<and>
     map_of (bo_settings v) ''starting_lamports'' = Some (JInt starting) \<and>
     map_of (bo_settings v) ''realized_pnl_lamports'' = Some (JInt 0) \<and>
     map_of (bo_settings v) ''peak_equity_lamports'' = Some (JInt starting)"

definition season_identity :: "books \<Rightarrow> quote_currency \<Rightarrow> string \<Rightarrow> bool" where
  "season_identity v c sid \<longleftrightarrow>
     map_of (bo_settings v) ''quote_currency'' = Some (currency_json c) \<and>
     map_of (bo_settings v) ''season_id'' = Some (JStr sid)"

definition opening_ledger :: "ledger_entry list \<Rightarrow> int \<Rightarrow> bool" where
  "opening_ledger l starting \<longleftrightarrow> (\<exists>tx now memo. l = map (entry_of tx now) (bankroll_rows starting memo))"

lemmas bankroll_defs = bankroll_rows_def row_debit_def row_credit_def

lemma wp_initialize_portfolio:
  assumes "\<And>s'. n > 0 \<Longrightarrow> bo_ledger (books_of s) = [] \<Longrightarrow> opening_ledger (bo_ledger (books_of s')) n \<Longrightarrow>
      season_settings (books_of s') True n \<Longrightarrow> season_identity (books_of s') c tx \<Longrightarrow>
      bo_orders (books_of s') = bo_orders (books_of s) \<Longrightarrow>
      bo_fills (books_of s') = bo_fills (books_of s) \<Longrightarrow> bo_positions (books_of s') = bo_positions (books_of s) \<Longrightarrow>
      bo_fresh (books_of s') = bo_fresh (books_of s) \<Longrightarrow> Q () s'"
    and "\<And>e s'. books_of s' = books_of s \<Longrightarrow> E e s'"
  shows "wp (initialize_portfolio env tx n c prof) Q E s"
proof (cases "n > 0")
  case True
  define tl where "tl now = seq (insert_current_season tx now c n prof) (insert_equity_point now n n)" for now
  have off: "off_books (tl now)" for now
    unfolding tl_def by (intro off_books_rules off_books_season_rows)
  have step: "wp (tl now) Q (\<lambda>e s''. st_fresh s'' = k) s'"
    if "\<And>s''. books_of s'' = books_of s' \<Longrightarrow> Q () s''" "st_fresh s' = k" for now s' k
    by (rule wp_off_books [OF off]) (use that in \<open>auto dest: arg_cong [where f = bo_fresh]\<close>)
  show ?thesis
    unfolding initialize_portfolio_def tl_def [symmetric] wp_bnd wp_seq wp_wall_now
    using True
    by (simp add: wp_guard)
       (rule wp_db_txn, auto simp: wp_simps bankroll_defs intro!: step assms,
        auto simp: books_of_def season_settings_def season_identity_def opening_ledger_def upsert_settings_def update_conv'
          bankroll_defs entry_of_def)
qed (use assms(2) in \<open>simp add: initialize_portfolio_def wp_simps\<close>)

lemma wp_reconfigure:
  assumes "\<And>s'. n > 0 \<Longrightarrow> bo_orders (books_of s) = [] \<Longrightarrow> bo_fills (books_of s) = [] \<Longrightarrow>
      bo_positions (books_of s) = [] \<Longrightarrow> opening_ledger (bo_ledger (books_of s')) n \<Longrightarrow>
      map_of (bo_settings (books_of s')) ''portfolio_initialized'' =
        map_of (bo_settings (books_of s)) ''portfolio_initialized'' \<Longrightarrow>
      map_of (bo_settings (books_of s')) ''season_id'' = map_of (bo_settings (books_of s)) ''season_id'' \<Longrightarrow>
      map_of (bo_settings (books_of s')) ''quote_currency'' = Some (currency_json c) \<Longrightarrow>
      map_of (bo_settings (books_of s')) ''starting_lamports'' = Some (JInt n) \<Longrightarrow>
      map_of (bo_settings (books_of s')) ''realized_pnl_lamports'' = Some (JInt 0) \<Longrightarrow>
      map_of (bo_settings (books_of s')) ''peak_equity_lamports'' = Some (JInt n) \<Longrightarrow>
      bo_orders (books_of s') = [] \<Longrightarrow> bo_fills (books_of s') = [] \<Longrightarrow> bo_positions (books_of s') = [] \<Longrightarrow>
      bo_fresh (books_of s') = bo_fresh (books_of s) \<Longrightarrow> Q () s'"
    and "\<And>e s'. books_of s' = books_of s \<Longrightarrow> E e s'"
  shows "wp (reconfigure_unstarted_portfolio env sid c n prof) Q E s"
proof (cases "n > 0")
  case True
  show ?thesis
    unfolding reconfigure_unstarted_portfolio_def insert_equity_point_def wp_bnd wp_seq wp_wall_now
    using True
    by (simp add: wp_guard)
       (rule wp_db_txn, auto simp: wp_simps bankroll_defs intro!: assms,
        auto simp: books_of_def opening_ledger_def upsert_settings_def update_conv'
          bankroll_defs entry_of_def)
qed (use assms(2) in \<open>simp add: reconfigure_unstarted_portfolio_def wp_simps\<close>)

lemma wp_off_books_within:
  assumes "off_books m" and "\<And>x s'. books_of s' = books_of s \<Longrightarrow> Q x s'" and "st_fresh s = n"
  shows "wp m Q (\<lambda>e s'. st_fresh s' = n) s"
  by (rule wp_off_books [OF assms(1)])
     (use assms(3) in \<open>auto intro: assms(2) dest: arg_cong [where f = bo_fresh]\<close>)

text \<open>Clearing the paper tables forgets everything but the settings.\<close>

lemma books_of_cleared:
  "books_of (s\<lparr> st_tables := upsert_settings items (clear_paper_tables (st_tables s)) \<rparr>) =
   \<lparr> bo_settings = fold (\<lambda>(k, v) d. AList.update k v d) items (bo_settings (books_of s)),
     bo_orders = [], bo_fills = [], bo_positions = [], bo_ledger = [], bo_fresh = bo_fresh (books_of s) \<rparr>"
  by (simp add: books_of_def upsert_settings_def clear_paper_tables_def)

lemma wp_reset_paper_state:
  assumes "\<And>s'. bo_orders (books_of s') = [] \<Longrightarrow> bo_fills (books_of s') = [] \<Longrightarrow>
      bo_positions (books_of s') = [] \<Longrightarrow> bo_ledger (books_of s') = [] \<Longrightarrow>
      season_settings (books_of s') False 0 \<Longrightarrow>
      map_of (bo_settings (books_of s')) ''season_id'' = Some JNull \<Longrightarrow>
      map_of (bo_settings (books_of s')) ''quote_currency'' = map_of (bo_settings (books_of s)) ''quote_currency'' \<Longrightarrow>
      bo_fresh (books_of s') = bo_fresh (books_of s) \<Longrightarrow> Q () s'"
    and "\<And>e s'. books_of s' = books_of s \<Longrightarrow> E e s'"
  shows "wp (reset_paper_state env summary reason us cmp) Q E s"
proof -
  have off: "off_books (when_do b (seq (guard b' e) (case summary of
      None \<Rightarrow> raise e' | Some sm \<Rightarrow> close_season sid sm now reason us cmp)))" for b b' e e' sid now
    by (intro off_books_rules off_books_season_rows)
  show ?thesis
    unfolding reset_paper_state_def wp_bnd wp_wall_now
    by (rule wp_db_txn)
       (auto simp: wp_bnd wp_seq wp_of_tables wp_on_tables wp_case_prod
         intro!: wp_off_books_within [OF off] assms,
        simp_all add: books_of_cleared [unfolded upsert_settings_def] season_settings_def update_conv'
          upsert_settings_def clear_paper_tables_def books_of_def)
qed

lemma successor_season_settings:
  "season_settings \<lparr> bo_settings = fold (\<lambda>(k, v) d. AList.update k v d)
       (successor_settings n c nid te now prev prof) d,
     bo_orders = os, bo_fills = fs, bo_positions = ps, bo_ledger = l, bo_fresh = k \<rparr> True n"
  by (auto simp: season_settings_def successor_settings_def update_conv' split: option.splits)

lemma successor_season_identity:
  "season_identity \<lparr> bo_settings = fold (\<lambda>(k, v) d. AList.update k v d)
       (successor_settings n c nid te now prev prof) d,
     bo_orders = os, bo_fills = fs, bo_positions = ps, bo_ledger = l, bo_fresh = k \<rparr> c nid"
  by (auto simp: season_identity_def successor_settings_def update_conv' split: option.splits)

lemma wp_rollover_paper_state:
  assumes "\<And>s'. n > 0 \<Longrightarrow> bo_orders (books_of s') = [] \<Longrightarrow> bo_fills (books_of s') = [] \<Longrightarrow>
      bo_positions (books_of s') = [] \<Longrightarrow> opening_ledger (bo_ledger (books_of s')) n \<Longrightarrow>
      season_settings (books_of s') True n \<Longrightarrow> season_identity (books_of s') c nid \<Longrightarrow>
      bo_fresh (books_of s') = bo_fresh (books_of s) \<Longrightarrow> Q () s'"
    and "\<And>e s'. books_of s' = books_of s \<Longrightarrow> E e s'"
  shows "wp (rollover_paper_state sm nid n c now prof reason te us cmp) Q E s"
proof (cases "n > 0")
  case True
  define tl where "tl = seq (insert_current_season nid now c n prof) (insert_equity_point now n n)"
  have off: "off_books tl" "off_books (close_season sid sm now reason us cmp)" for sid
    unfolding tl_def by (intro off_books_rules off_books_season_rows)+
  have last: "Q () s'" if "books_of s' = books_of (s''\<lparr> st_tables := upsert_settings
        (successor_settings n c nid te now prev prof)
        (clear_paper_tables t\<lparr> tb_ledger := map (entry_of nid now) (bankroll_rows n memo) \<rparr>) \<rparr>)"
      "st_fresh s'' = st_fresh s" for s' s'' t prev memo
  proof -
    have eq: "books_of s' = \<lparr> bo_settings = fold (\<lambda>(k, v) d. AList.update k v d)
         (successor_settings n c nid te now prev prof) (tb_settings t), bo_orders = [], bo_fills = [],
        bo_positions = [], bo_ledger = map (entry_of nid now) (bankroll_rows n memo), bo_fresh = st_fresh s \<rparr>"
      unfolding that(1) by (simp add: books_of_def upsert_settings_def clear_paper_tables_def that(2))
    show ?thesis
      by (rule assms(1), unfold eq)
         (use True in \<open>simp_all add: successor_season_settings successor_season_identity opening_ledger_def del: books_of_sel\<close>, auto)
  qed
  have pos: "\<not> list_ex (\<lambda>r. row_debit r < 0 \<or> row_credit r < 0) (bankroll_rows n memo)" for memo
    using True by (simp add: bankroll_defs)
  have clear: "tb_ledger (clear_paper_tables t) = []" for t by (simp add: clear_paper_tables_def)
  have fresh: "books_of s' = books_of s \<Longrightarrow> st_fresh s' = st_fresh s" for s'
    by (drule arg_cong [where f = bo_fresh]) simp
  have main: "wp (seq (close_season sid sm now reason us cmp) (seq (on_tables clear_paper_tables)
      (seq (insert_ledger nid now (bankroll_rows n memo))
      (seq (on_tables (upsert_settings (successor_settings n c nid te now prev prof))) tl))))
      Q (\<lambda>e s'. st_fresh s' = st_fresh s) s" for sid memo prev
    unfolding wp_seq [of "close_season sid sm now reason us cmp"]
  proof (rule wp_off_books_within [OF off(2)])
    fix x :: unit and s1
    assume b: "books_of s1 = books_of s"
    show "wp (seq (on_tables clear_paper_tables) (seq (insert_ledger nid now (bankroll_rows n memo))
      (seq (on_tables (upsert_settings (successor_settings n c nid te now prev prof))) tl)))
      Q (\<lambda>e s'. st_fresh s' = st_fresh s) s1"
      unfolding wp_seq wp_on_tables wp_insert_ledger if_not_P [OF pos]
      by (rule wp_off_books_within [OF off(1)])
         (use last [where s'' = s1 and t = "st_tables s1"] in \<open>simp_all add: clear fresh [OF b]\<close>)
  qed simp
  show ?thesis
    unfolding rollover_paper_state_def tl_def [symmetric] wp_seq [of "guard (0 < n) _"] wp_guard if_P [OF True]
    by (rule wp_db_txn [OF _ assms(2)])
       (auto simp only: wp_bnd wp_of_tables prod.case wp_seq [of "guard _ _"] wp_guard main split: if_split)
qed (use assms(2) in \<open>simp add: rollover_paper_state_def wp_simps\<close>)

end
