(* ===== verification/Exit_Policy.thy ===== *)
theory Exit_Policy
  imports Models Py_Text
begin

text \<open>
  \<open>backend/signal_arcade/paper/exit_policy.py\<close>: the continuation support of an open
  position and the assessment that holds it, waits for a route, or exits. The order of the
  guards is the order of the source, evidence strings included.
\<close>

section \<open>Model\<close>

definition EXIT_POLICY_VERSION :: string where
  "EXIT_POLICY_VERSION = ''adaptive-exit-v1''"

definition ROUTE_BLOCKERS :: "string list" where
  "ROUTE_BLOCKERS =
     [''missing_curve_reserves'', ''stale_market_data'', ''curve_complete_route_unconfirmed'',
      ''pumpswap_route_unverified'', ''unsupported_quote_mint_v1'', ''unsupported_token_program'']"

definition available_number :: "feature_snapshot \<Rightarrow> string \<Rightarrow> pyfloat option" where
  "available_number features key =
     (case map_of (fs_values features) key of
        None \<Rightarrow> None
      | Some item \<Rightarrow>
          (case dv_value item of
             None \<Rightarrow> None
           | Some v \<Rightarrow>
               if is_bool_scalar v \<or> dv_quality item \<le> 0 then None else float_of_scalar v))"

definition or_zero :: "pyfloat option \<Rightarrow> pyfloat" where
  "or_zero v = (case v of None \<Rightarrow> 0 | Some x \<Rightarrow> x)"

definition signal :: "pyfloat option \<Rightarrow> (pyfloat \<Rightarrow> pyfloat) \<Rightarrow> pyfloat" where
  "signal v f = (case v of None \<Rightarrow> 0 | Some x \<Rightarrow> f x)"

definition economic_credit :: "feature_snapshot \<Rightarrow> string \<Rightarrow> pyfloat" where
  "economic_credit features baseline_version =
     (if baseline_version = BASELINE_VERSION then
        clamp01 (fdiv (min (or_zero (available_number features ''meaningful_volume_ratio''))
                           (or_zero (available_number features ''meaningful_wallet_ratio'')))
                      (lit 60 100))
      else 1)"

definition support_score :: "feature_snapshot \<Rightarrow> string \<Rightarrow> pyfloat" where
  "support_score features baseline_version =
     (let credit = economic_credit features baseline_version in
      clamp01 (wsum
        [(lit 22 100, signal (available_number features ''buy_ratio_5m'')
            (\<lambda>x. fmul (clamp01 (fdiv (fsub x (lit 35 100)) (lit 35 100))) credit)),
         (lit 18 100, signal (available_number features ''momentum_1m'')
            (\<lambda>x. fmul (clamp01 (fdiv (fadd x (lit 10 100)) (lit 45 100))) credit)),
         (lit 14 100, signal (available_number features ''unique_wallets_5m'')
            (\<lambda>x. fmul (clamp01 (fdiv x 20)) credit)),
         (lit 12 100, signal (available_number features ''trade_count_1m'')
            (\<lambda>x. fmul (clamp01 (fdiv x 20)) credit)),
         (lit 14 100, signal (available_number features ''drawdown_5m'')
            (\<lambda>x. fsub 1 (clamp01 (fdiv x (lit 35 100))))),
         (lit 10 100, signal (available_number features ''wallet_volume_hhi'')
            (\<lambda>x. fsub 1 (clamp01 (fdiv (fsub x (lit 8 100)) (lit 42 100))))),
         (lit 10 100, fs_data_confidence features)]))"

definition hold_support :: "feature_snapshot \<Rightarrow> string \<Rightarrow> pyfloat \<times> string list \<times> nat" where
  "hold_support features baseline_version =
     (let buy_ratio = available_number features ''buy_ratio_5m'';
          momentum = available_number features ''momentum_1m'';
          wallets = available_number features ''unique_wallets_5m'';
          trades = available_number features ''trade_count_1m'';
          drawdown = available_number features ''drawdown_5m'';
          concentration = available_number features ''wallet_volume_hhi'';
          line = (\<lambda>v f. case v of None \<Rightarrow> [] | Some x \<Rightarrow> [f x]);
          evidence =
            line buy_ratio (\<lambda>x. ''5m buy ratio '' @ fmt_pct 0 x) @
            line momentum (\<lambda>x. ''1m momentum '' @ fmt_pct_signed 1 x) @
            line drawdown (\<lambda>x. ''5m drawdown '' @ fmt_pct 1 x) @
            line wallets (\<lambda>x. str_of_int (py_int x) @ '' unique wallets in 5m'') @
            (if baseline_version = BASELINE_VERSION
             then [''economically meaningful activity credit '' @
                   fmt_pct 0 (economic_credit features baseline_version)]
             else [])
      in (support_score features baseline_version, take 5 evidence,
          length (filter (\<lambda>v. v \<noteq> None) [buy_ratio, momentum, wallets, trades, drawdown, concentration])))"

text \<open>The quantities that \<open>assess_exit\<close> derives from the position.\<close>

definition soft_hold_of :: "risk_limits \<Rightarrow> int option \<Rightarrow> int" where
  "soft_hold_of limits soft =
     (let wanted = (case soft of None \<Rightarrow> rl_max_hold_seconds limits
                    | Some n \<Rightarrow> if n = 0 then rl_max_hold_seconds limits else n)
      in max 30 (min wanted (rl_max_hold_seconds limits)))"

definition position_age :: "position \<Rightarrow> time \<Rightarrow> pyfloat" where
  "position_age p now = max 0 (total_seconds (now - ps_opened_at p))"

definition position_pnl :: "position \<Rightarrow> pyfloat" where
  "position_pnl p =
     (if ps_entry_cost_lamports p \<noteq> 0
      then true_div (ps_unrealized_pnl_lamports p) (ps_entry_cost_lamports p) else - 1)"

definition peak_mark :: "position \<Rightarrow> int" where
  "peak_mark p = max (ps_last_mark_lamports p) (ps_peak_mark_lamports p)"

definition peak_return :: "position \<Rightarrow> pyfloat" where
  "peak_return p =
     (if ps_entry_cost_lamports p \<noteq> 0
      then fsub (true_div (peak_mark p) (ps_entry_cost_lamports p)) 1 else - 1)"

definition peak_drawdown :: "position \<Rightarrow> pyfloat" where
  "peak_drawdown p =
     (if peak_mark p \<le> 0 then 0
      else clamp01 (fsub 1 (true_div (ps_last_mark_lamports p) (peak_mark p))))"

definition collapse_signals :: "feature_snapshot \<Rightarrow> nat" where
  "collapse_signals features =
     (let test = (\<lambda>v P. case v of None \<Rightarrow> False | Some x \<Rightarrow> P x) in
      length (filter id
        [test (available_number features ''buy_ratio_5m'') (\<lambda>x. x < lit 42 100),
         test (available_number features ''momentum_1m'') (\<lambda>x. x \<le> - lit 10 100),
         test (available_number features ''drawdown_5m'') (\<lambda>x. lit 18 100 \<le> x),
         test (available_number features ''wallet_volume_hhi'') (\<lambda>x. lit 45 100 \<le> x)]))"

text \<open>The action, the reason and the leading evidence line, guard by guard.\<close>

definition exit_verdict ::
  "position \<Rightarrow> feature_snapshot \<Rightarrow> time \<Rightarrow> risk_limits \<Rightarrow> int option \<Rightarrow> string option
   \<Rightarrow> exit_action \<times> string \<times> string option" where
  "exit_verdict p features now limits soft integrity_reason =
     (let soft_hold = soft_hold_of limits soft;
          age = position_age p now;
          pnl = position_pnl p;
          blockers = filter (\<lambda>b. b \<in> set (fs_hard_flags features)) ROUTE_BLOCKERS;
          (support, evidence, signals) = hold_support features (ps_baseline_version_at_entry p);
          weak = signals < 4 \<or> support < rl_minimum_hold_support limits;
          progress = available_number features ''curve_progress''
      in if blockers \<noteq> [] then
           (Wait,
            if ''stale_market_data'' \<in> set blockers then ''waiting_for_fresh_market''
            else ''exit_route_unavailable'',
            Some (join '', '' (sorted_set blockers)))
         else if ''creator_sold_recently'' \<in> set (fs_hard_flags features) then
           (Exit, ''creator_sell_exit'', None)
         else if ''mint_account_failed_safety_checks'' \<in> set (fs_hard_flags features) then
           (Exit, ''mint_safety_exit'', None)
         else if pnl \<le> - rl_stop_loss_fraction limits then (Exit, ''stop_loss'', None)
         else if fs_venue features = ''pump_curve'' \<and> progress \<noteq> None \<and>
                 rl_migration_guard_progress limits \<le> the progress then
           (Exit, ''migration_route_guard'',
            Some (''Curve progress '' @ fmt_pct 1 (the progress) @
                  '' is near the unconfirmed migration boundary''))
         else if integrity_reason \<noteq> None then
           (Exit, the integrity_reason,
            Some ''Manipulation evidence persisted across time-separated checkpoints'')
         else if rl_take_profit_fraction limits \<le> peak_return p \<and>
                 rl_trailing_stop_fraction limits \<le> peak_drawdown p then
           (Exit, ''trailing_profit'', None)
         else if of_int (rl_hard_max_hold_seconds limits) \<le> age then
           (Exit, ''absolute_time_exit'', None)
         else if 30 \<le> age \<and> lit 1 2 \<le> fs_data_confidence features \<and> 2 \<le> collapse_signals features then
           (Exit, ''signal_deterioration'', None)
         else if rl_take_profit_fraction limits \<le> pnl \<and> weak then (Exit, ''take_profit'', None)
         else if of_int soft_hold \<le> age \<and> weak then (Exit, ''time_exit'', None)
         else if of_int soft_hold \<le> age then (Hold, ''adaptive_extension'', None)
         else if rl_take_profit_fraction limits \<le> peak_return p then (Hold, ''protecting_winner'', None)
         else (Hold, ''evidence_supports_hold'', None))"

definition assess_exit ::
  "position \<Rightarrow> feature_snapshot \<Rightarrow> time \<Rightarrow> risk_limits \<Rightarrow> int option \<Rightarrow> string option
   \<Rightarrow> exit_assessment" where
  "assess_exit p features now limits soft integrity_reason =
     (case exit_verdict p features now limits soft integrity_reason of
        (action, reason, extra) \<Rightarrow>
      (case hold_support features (ps_baseline_version_at_entry p) of
         (support, evidence, signals) \<Rightarrow>
       \<lparr> ea_policy_version = EXIT_POLICY_VERSION, ea_evaluated_at = now, ea_action = action,
         ea_reason = reason, ea_support_score = support,
         ea_pnl_fraction = clamp (- 1) 10 (position_pnl p),
         ea_peak_return_fraction = clamp (- 1) 10 (peak_return p),
         ea_drawdown_from_peak_fraction = peak_drawdown p,
         ea_age_seconds = position_age p now,
         ea_soft_hold_seconds = soft_hold_of limits soft,
         ea_hard_hold_seconds = rl_hard_max_hold_seconds limits,
         ea_evidence = take 5 ((case extra of None \<Rightarrow> [] | Some e \<Rightarrow> [e]) @ evidence),
         ea_strategy_season_id = None, ea_strategy_participant = None \<rparr>))"

section \<open>Lemmas\<close>

definition route_blocked :: "feature_snapshot \<Rightarrow> bool" where
  "route_blocked features \<longleftrightarrow> set (fs_hard_flags features) \<inter> set ROUTE_BLOCKERS \<noteq> {}"

lemma route_blocked_iff:
  "filter (\<lambda>b. b \<in> set (fs_hard_flags features)) ROUTE_BLOCKERS \<noteq> [] \<longleftrightarrow> route_blocked features"
  by (auto simp: route_blocked_def filter_empty_conv)

lemma soft_hold_bounds: "30 \<le> soft_hold_of limits soft"
  "soft_hold_of limits soft \<le> max 30 (rl_max_hold_seconds limits)"
  by (simp_all add: soft_hold_of_def Let_def split: option.splits)

lemma soft_hold_le: "soft_hold_of limits soft \<le> soft_hold_of limits None"
  by (auto simp: soft_hold_of_def Let_def split: option.splits)

lemma fst_hold_support: "fst (hold_support f b) = support_score f b"
  by (simp add: hold_support_def Let_def)

lemma exit_verdict_wait: "fst (exit_verdict p f now l soft r) = Wait \<longleftrightarrow> route_blocked f"
  by (simp add: exit_verdict_def Let_def route_blocked_iff split: prod.split)

text \<open>What it takes to hold.\<close>

lemma exit_verdict_hold:
  assumes "fst (exit_verdict p f now l soft r) = Hold"
  shows "\<not> route_blocked f" "''creator_sold_recently'' \<notin> set (fs_hard_flags f)"
    "''mint_account_failed_safety_checks'' \<notin> set (fs_hard_flags f)"
    "- rl_stop_loss_fraction l < position_pnl p"
    "position_age p now < of_int (rl_hard_max_hold_seconds l)" "r = None"
    "\<not> (rl_take_profit_fraction l \<le> peak_return p \<and> rl_trailing_stop_fraction l \<le> peak_drawdown p)"
    "of_int (soft_hold_of l soft) \<le> position_age p now \<Longrightarrow>
       4 \<le> snd (snd (hold_support f (ps_baseline_version_at_entry p))) \<and>
       rl_minimum_hold_support l \<le> support_score f (ps_baseline_version_at_entry p)"
  using assms fst_hold_support [of f "ps_baseline_version_at_entry p"]
  unfolding exit_verdict_def Let_def route_blocked_iff
  by (cases "hold_support f (ps_baseline_version_at_entry p)",
      simp_all add: split_def del: not_None_eq split: if_splits)+

lemma exit_verdict_soft_mono:
  assumes "fst (exit_verdict p f now l None r) = Exit"
  shows "fst (exit_verdict p f now l soft r) = Exit"
proof -
  have "of_int (soft_hold_of l None) \<le> position_age p now \<Longrightarrow> of_int (soft_hold_of l soft) \<le> position_age p now"
    using soft_hold_le [of l soft] by (meson of_int_le_iff order_trans)
  then show ?thesis
    using assms unfolding exit_verdict_def Let_def route_blocked_iff
    by (cases "hold_support f (ps_baseline_version_at_entry p)")
       (simp del: not_None_eq split: if_splits, blast+)
qed

lemma assess_exit_action:
  "ea_action (assess_exit p f now l soft r) = fst (exit_verdict p f now l soft r)"
  by (simp add: assess_exit_def split: prod.split)

lemma assess_exit_numbers:
  "ea_support_score (assess_exit p f now l soft r) = support_score f (ps_baseline_version_at_entry p)"
  "ea_pnl_fraction (assess_exit p f now l soft r) = clamp (- 1) 10 (position_pnl p)"
  "ea_peak_return_fraction (assess_exit p f now l soft r) = clamp (- 1) 10 (peak_return p)"
  "ea_drawdown_from_peak_fraction (assess_exit p f now l soft r) = peak_drawdown p"
  "ea_age_seconds (assess_exit p f now l soft r) = position_age p now"
  "ea_soft_hold_seconds (assess_exit p f now l soft r) = soft_hold_of l soft"
  "length (ea_evidence (assess_exit p f now l soft r)) \<le> 5"
  using fst_hold_support [of f "ps_baseline_version_at_entry p"]
  by (cases "hold_support f (ps_baseline_version_at_entry p)",
      cases "exit_verdict p f now l soft r", simp add: assess_exit_def)+

section \<open>Properties\<close>


text \<open>C15: The exit policy waits exactly while a route blocker is present, so it never asks for
  an exit through a route it cannot trust; with a route, a stop-loss breach, the hard hold, a
  creator sale, a failed mint check or persistent integrity evidence always exits, and past the
  soft hold a position is kept only on at least four signals and sufficient support.\<close>

theorem exit_policy_guarantees:
  "let a = ea_action (assess_exit p f now l soft r) in
     (a = Wait \<longleftrightarrow> route_blocked f)
     \<and> (\<not> route_blocked f \<and>
          (position_pnl p \<le> - rl_stop_loss_fraction l \<or> of_int (rl_hard_max_hold_seconds l) \<le> position_age p now
           \<or> ''creator_sold_recently'' \<in> set (fs_hard_flags f)
           \<or> ''mint_account_failed_safety_checks'' \<in> set (fs_hard_flags f) \<or> r \<noteq> None)
        \<longrightarrow> a = Exit)
     \<and> (a = Hold \<and> of_int (soft_hold_of l soft) \<le> position_age p now \<longrightarrow>
          4 \<le> snd (snd (hold_support f (ps_baseline_version_at_entry p)))
          \<and> rl_minimum_hold_support l \<le> support_score f (ps_baseline_version_at_entry p))"
proof -
  define a where "a = fst (exit_verdict p f now l soft r)"
  have "a = Wait \<or> a = Hold \<or> a = Exit" by (cases a) simp_all
  moreover have "a = Wait \<longleftrightarrow> route_blocked f" by (simp add: a_def exit_verdict_wait)
  moreover note exit_verdict_hold [of p f now l soft r, folded a_def]
  ultimately show ?thesis unfolding Let_def assess_exit_action a_def [symmetric] by force
qed

theorem exit_policy_guarantees_witness:
  "ea_action (assess_exit sample_position quiet_features 0 (RISK_LIMITS Safe) None (Some ''why'')) = Exit"
  using exit_policy_guarantees [of sample_position quiet_features 0 "RISK_LIMITS Safe" None "Some ''why''"]
  by (auto simp: Let_def route_blocked_def quiet_features_def)

text \<open>C16: A learned soft hold can only bring an exit forward: whatever the policy exits
  without the learned hint it also exits with any hint.\<close>

theorem learned_hold_never_postpones:
  assumes "ea_action (assess_exit p f now l None r) = Exit"
  shows "ea_action (assess_exit p f now l soft r) = Exit
         \<and> ea_soft_hold_seconds (assess_exit p f now l soft r)
             \<le> ea_soft_hold_seconds (assess_exit p f now l None r)"
  using exit_verdict_soft_mono [of p f now l r soft] assms soft_hold_le
  by (simp add: assess_exit_action assess_exit_numbers)

theorem learned_hold_never_postpones_witness:
  "ea_action (assess_exit sample_position quiet_features 0 (RISK_LIMITS Safe) (Some 45) (Some ''why'')) = Exit"
proof -
  have "ea_action (assess_exit p quiet_features 0 (RISK_LIMITS Safe) None (Some ''why'')) = Exit" for p
    unfolding assess_exit_action exit_verdict_def Let_def route_blocked_iff
    by (simp add: route_blocked_def quiet_features_def split: prod.split)
  from learned_hold_never_postpones [OF this [of sample_position]] show ?thesis by blast
qed

end
