(* ===== verification/Decision.thy ===== *)
theory Decision
  imports Models Py_Text
begin

text \<open>
  \<open>backend/signal_arcade/intelligence/decision.py\<close>: the versioned market-integrity
  classifier and the baseline decision engine. Scores are float computations in the order the
  source writes them; the fresh decision identifier and its creation time are arguments of
  \<open>evaluate\<close>. The prose of \<open>deterministic_explanation\<close> is not modelled.
\<close>

section \<open>Integrity metrics\<close>

definition INTEGRITY_MIN_SAMPLE_COUNT :: int where "INTEGRITY_MIN_SAMPLE_COUNT = 24"
definition INTEGRITY_MIN_AGE_SECONDS :: pyfloat where "INTEGRITY_MIN_AGE_SECONDS = 30"
definition INTEGRITY_MIN_COVERAGE :: pyfloat where "INTEGRITY_MIN_COVERAGE = lit 75 100"

definition integrity_metric :: "feature_snapshot \<Rightarrow> string \<Rightarrow> (pyfloat \<times> pyfloat) option" where
  "integrity_metric features name =
     (case map_of (fs_values features) name of
        None \<Rightarrow> None
      | Some item \<Rightarrow>
          (case dv_value item of
             None \<Rightarrow> None
           | Some v \<Rightarrow>
               if is_bool_scalar v \<or> dv_missing_reason item \<noteq> None \<or> dv_quality item < lit 75 100 then None
               else map_option (\<lambda>x. (clamp01 x, dv_quality item)) (float_of_scalar v)))"

definition usable_fraction :: "feature_snapshot \<Rightarrow> string \<Rightarrow> pyfloat option" where
  "usable_fraction features name = map_option fst (integrity_metric features name)"

definition is_true :: "data_value option \<Rightarrow> bool" where
  "is_true item = (case item of None \<Rightarrow> False | Some v \<Rightarrow> dv_value v = Some (SBool True))"

definition integrity_window_complete :: "feature_snapshot \<Rightarrow> bool" where
  "integrity_window_complete features =
     (let item = map_of (fs_values features) ''integrity_window_complete'';
          saturated = map_of (fs_values features) ''trade_buffer_saturated''
      in is_true item \<and>
         (case item of None \<Rightarrow> False | Some v \<Rightarrow> dv_missing_reason v = None \<and> lit 75 100 \<le> dv_quality v) \<and>
         \<not> is_true saturated)"

definition current_core_metrics :: "string list" where
  "current_core_metrics =
     [''microtrade_count_ratio'', ''meaningful_volume_ratio'', ''meaningful_wallet_ratio'',
      ''median_trade_quote_sol'', ''price_path_efficiency'', ''rapid_price_reversal_ratio'',
      ''trade_density_5m'']"

definition current_integrity_core_complete :: "feature_snapshot \<Rightarrow> bool" where
  "current_integrity_core_complete features =
     list_all (\<lambda>name. integrity_metric features name \<noteq> None) current_core_metrics"

definition risk_above :: "(pyfloat \<times> pyfloat) option \<Rightarrow> pyfloat \<Rightarrow> pyfloat \<Rightarrow> pyfloat" where
  "risk_above metric start full =
     (case metric of
        None \<Rightarrow> 0
      | Some (v, quality) \<Rightarrow>
          fmul (clamp01 (fdiv (fsub v start) (max (fsub full start) (lit 1 1000000)))) quality)"

definition risk_below :: "(pyfloat \<times> pyfloat) option \<Rightarrow> pyfloat \<Rightarrow> pyfloat \<Rightarrow> pyfloat" where
  "risk_below metric start full =
     (case metric of
        None \<Rightarrow> 0
      | Some (v, quality) \<Rightarrow>
          fmul (clamp01 (fdiv (fsub start v) (max (fsub start full) (lit 1 1000000)))) quality)"

text \<open>\<open>sorted(signals, reverse=True)\<close>.\<close>

definition ranked :: "pyfloat list \<Rightarrow> pyfloat list" where
  "ranked xs = sort_key uminus xs"

definition metric_names :: "string \<Rightarrow> string list" where
  "metric_names policy_version =
     (let base = [''round_trip_wallet_ratio'', ''round_trip_volume_ratio'', ''net_quote_flow_ratio'',
                  ''side_alternation_ratio'', ''quantized_amount_repeat_ratio'', ''slot_concentration_hhi'',
                  ''price_direction_consistency'', ''multi_trade_signature_ratio''];
          wider = (if policy_version \<in> set [RECENT_INTEGRITY_POLICY_VERSION, INTEGRITY_POLICY_VERSION]
                   then [''wallet_volume_hhi'', ''single_trade_wallet_ratio''] @ base else base)
      in if policy_version = INTEGRITY_POLICY_VERSION then wider @ current_core_metrics else wider)"

section \<open>Evidence categories\<close>

text \<open>
  One function per category. Metrics outside the policy's list are never read by the
  categories that the policy enables, so each reads the snapshot directly.
\<close>

definition wallet_loop_score :: "feature_snapshot \<Rightarrow> pyfloat" where
  "wallet_loop_score f =
     max (risk_above (integrity_metric f ''round_trip_wallet_ratio'') (lit 30 100) (lit 70 100))
         (risk_above (integrity_metric f ''round_trip_volume_ratio'') (lit 45 100) (lit 85 100))"

definition pair_score :: "pyfloat list \<Rightarrow> pyfloat" where
  "pair_score signals =
     (let r = ranked signals in
      if lit 35 100 \<le> r ! 1 then fdiv (fadd (r ! 0) (r ! 1)) 2 else fmul (r ! 0) (lit 50 100))"

definition dispersion_score :: "feature_snapshot \<Rightarrow> pyfloat" where
  "dispersion_score f = pair_score
     [risk_above (integrity_metric f ''wallet_volume_hhi'') (lit 35 100) (lit 85 100),
      risk_above (integrity_metric f ''single_trade_wallet_ratio'') (lit 80 100) (lit 98 100)]"

definition flow_score :: "feature_snapshot \<Rightarrow> pyfloat" where
  "flow_score f = risk_below (integrity_metric f ''net_quote_flow_ratio'') (lit 28 100) (lit 6 100)"

definition structure_score :: "feature_snapshot \<Rightarrow> pyfloat" where
  "structure_score f = pair_score
     [risk_above (integrity_metric f ''side_alternation_ratio'') (lit 68 100) (lit 92 100),
      risk_above (integrity_metric f ''quantized_amount_repeat_ratio'') (lit 38 100) (lit 78 100),
      risk_above (integrity_metric f ''slot_concentration_hhi'') (lit 24 100) (lit 62 100),
      risk_above (integrity_metric f ''multi_trade_signature_ratio'') (lit 12 100) (lit 50 100)]"

definition economic_score :: "feature_snapshot \<Rightarrow> pyfloat" where
  "economic_score f =
     (let r = ranked
            [risk_above (integrity_metric f ''microtrade_count_ratio'') (lit 65 100) (lit 95 100),
             risk_below (integrity_metric f ''meaningful_volume_ratio'') (lit 55 100) (lit 12 100),
             risk_below (integrity_metric f ''meaningful_wallet_ratio'') (lit 55 100) (lit 15 100),
             risk_below (integrity_metric f ''median_trade_quote_sol'') (lit 20 1000) (lit 3 1000),
             risk_above (integrity_metric f ''trade_density_5m'') (lit 65 100) (lit 95 100)]
      in if lit 35 100 \<le> r ! 2 then fdiv (py_sum (take 3 r)) 3 else fmul (r ! 0) (lit 35 100))"

definition reversion_score :: "feature_snapshot \<Rightarrow> pyfloat" where
  "reversion_score f =
     (let r = ranked
            [risk_below (integrity_metric f ''price_path_efficiency'') (lit 30 100) (lit 8 100),
             risk_above (integrity_metric f ''rapid_price_reversal_ratio'') (lit 45 100) (lit 75 100)]
      in if lit 35 100 \<le> r ! 1 then fdiv (py_sum r) 2 else fmul (r ! 0) (lit 35 100))"

definition path_score :: "feature_snapshot \<Rightarrow> pyfloat" where
  "path_score f = risk_above (integrity_metric f ''price_direction_consistency'') (lit 84 100) (lit 98 100)"

text \<open>The candidate categories of a policy, in the order they are examined, each with its
  score and evidence line.\<close>

definition candidate_categories :: "feature_snapshot \<Rightarrow> string \<Rightarrow> (string \<times> pyfloat \<times> string) list" where
  "candidate_categories f v =
     [(''wallet_loops'', wallet_loop_score f,
       ''Repeated wallet round trips dominate participation or volume'')] @
     (if v \<in> set [RECENT_INTEGRITY_POLICY_VERSION, INTEGRITY_POLICY_VERSION] then
        [(''concentrated_dispersion'', dispersion_score f,
          ''One-trade participation accompanies extremely concentrated traded volume'')] else []) @
     [(''low_net_flow'', flow_score f,
       ''Gross trading volume produces unusually little net quote flow''),
      (''trade_structure'', structure_score f,
       ''Trade timing, ordering, or sizing repeats in a coordinated pattern'')] @
     (if v = INTEGRITY_POLICY_VERSION then
        [(''synthetic_economic_activity'', economic_score f,
          ''High displayed activity is dominated by dust-sized, economically weak flow''),
         (''rapid_price_reversion'', reversion_score f,
          ''The price repeatedly reverses while generating little net progress'')] else []) @
     [(''price_path'', path_score f, ''The observed price path is unusually one-directional'')]"

definition category_scores :: "feature_snapshot \<Rightarrow> string \<Rightarrow> (string \<times> pyfloat \<times> string) list" where
  "category_scores f v = filter (\<lambda>(_, score, _). lit 55 100 \<le> score) (candidate_categories f v)"

definition integrity_coverage :: "feature_snapshot \<Rightarrow> string \<Rightarrow> pyfloat" where
  "integrity_coverage f v =
     fdiv (py_sum (map snd (List.map_filter (integrity_metric f) (metric_names v))))
          (of_nat (length (metric_names v)))"

definition integrity_score :: "(string \<times> pyfloat \<times> string) list \<Rightarrow> pyfloat" where
  "integrity_score cats =
     (if cats = [] then 0 else fdiv (py_sum (map (\<lambda>(_, score, _). score) cats)) (of_nat (length cats)))"

definition sample_count :: "feature_snapshot \<Rightarrow> int" where
  "sample_count f = max 0 (py_int (fs_number f ''trade_count_5m'' 0))"

definition integrity_eligible :: "feature_snapshot \<Rightarrow> string \<Rightarrow> bool" where
  "integrity_eligible f v \<longleftrightarrow>
     INTEGRITY_MIN_SAMPLE_COUNT \<le> sample_count f \<and>
     INTEGRITY_MIN_AGE_SECONDS \<le> max 0 (fs_number f ''age_seconds'' 0) \<and>
     INTEGRITY_MIN_COVERAGE \<le> integrity_coverage f v \<and>
     (v = INTEGRITY_POLICY_VERSION \<longrightarrow> integrity_window_complete f \<and> current_integrity_core_complete f)"

definition integrity_verdict :: "feature_snapshot \<Rightarrow> string \<Rightarrow> integrity_state" where
  "integrity_verdict f v =
     (let count = length (category_scores f v); score = integrity_score (category_scores f v) in
      if \<not> integrity_eligible f v then Uncertain
      else if 3 \<le> count \<and> lit 70 100 \<le> score then Severe
      else if 2 \<le> count \<and> lit 55 100 \<le> score then Suspicious
      else if count = 0 then Clean
      else Uncertain)"

definition integrity_evidence :: "feature_snapshot \<Rightarrow> string \<Rightarrow> string list" where
  "integrity_evidence f v =
     (let lines = map (\<lambda>(_, _, line). line) (category_scores f v);
          current = (v = INTEGRITY_POLICY_VERSION)
      in if \<not> integrity_eligible f v then
           (if current \<and> \<not> integrity_window_complete f
            then ''A complete uninterrupted five-minute event window is needed''
            else if current \<and> \<not> current_integrity_core_complete f
            then ''Complete economic-size and price-path fields are needed''
            else ''More time, trades, or complete stream fields are needed'') # lines
         else
           (case integrity_verdict f v of
              Clean \<Rightarrow> lines @ [''No corroborated manipulation pattern is present in the usable sample'']
            | Uncertain \<Rightarrow> lines @ [''An isolated pattern is not enough to classify the market'']
            | _ \<Rightarrow> lines))"

definition assess_market_integrity :: "feature_snapshot \<Rightarrow> string \<Rightarrow> integrity_assessment result" where
  "assess_market_integrity f v =
     (if v \<notin> set [PREVIOUS_INTEGRITY_POLICY_VERSION, RECENT_INTEGRITY_POLICY_VERSION, INTEGRITY_POLICY_VERSION]
        then Inl (ValueError (''unsupported integrity policy version: '' @ v))
      else
        Inr \<lparr> ia_policy_version = v, ia_state = integrity_verdict f v,
              ia_score = clamp01 (integrity_score (category_scores f v)),
              ia_coverage = clamp01 (integrity_coverage f v), ia_sample_count = sample_count f,
              ia_category_count = int (length (category_scores f v)),
              ia_categories = map fst (category_scores f v),
              ia_evidence = integrity_evidence f v \<rparr>)"

section \<open>The decision engine\<close>

record decision_engine =
  eng_default_fee_bps :: int
  eng_one_way_network_fee_lamports :: int

definition activity_credit :: "feature_snapshot \<Rightarrow> string \<Rightarrow> pyfloat" where
  "activity_credit f version =
     (if version = BASELINE_VERSION then
        let part = (\<lambda>name. case usable_fraction f name of None \<Rightarrow> 0 | Some x \<Rightarrow> x);
            economic_activity = min (part ''meaningful_volume_ratio'') (part ''meaningful_wallet_ratio'')
        in fadd (lit 25 100) (fmul (lit 75 100) (clamp01 (fdiv economic_activity (lit 60 100))))
      else 1)"

text \<open>The five opportunity signals; before v1.5 the activity credit is not applied at all,
  which multiplying by one does not change.\<close>

definition opportunity_signals :: "feature_snapshot \<Rightarrow> string \<Rightarrow> (string \<times> pyfloat) list" where
  "opportunity_signals f version =
     (let velocity = clamp01 (fdiv (fs_number f ''trade_count_1m'' 0) 30);
          participation = clamp01 (fdiv (fs_number f ''unique_wallets_5m'' 0) 24);
          discount = (\<lambda>x. if version = BASELINE_VERSION then fmul x (activity_credit f version) else x);
          momentum = fs_number f ''momentum_1m'' 0
      in [(''velocity_signal'', discount velocity),
          (''participation_signal'', discount participation),
          (''balance_signal'', clamp01 (fdiv (fsub (fs_number f ''buy_ratio_5m'' 0) (lit 42 100)) (lit 35 100))),
          (''progress_signal'', clamp01 (fdiv (fs_number f ''curve_progress'' 0) (lit 70 100))),
          (''momentum_signal'',
             fmul (clamp01 (fdiv momentum (lit 35 100)))
                  (clamp01 (fdiv (fsub (lit 15 10) momentum) (lit 12 10))))])"

definition opportunity_score :: "feature_snapshot \<Rightarrow> string \<Rightarrow> pyfloat" where
  "opportunity_score f version =
     clamp01 (wsum (zip [lit 25 100, lit 25 100, lit 18 100, lit 20 100, lit 12 100]
                        (map snd (opportunity_signals f version))))"

definition base_danger :: "feature_snapshot \<Rightarrow> pyfloat" where
  "base_danger f =
     clamp01 (wsum
       [(lit 28 100, clamp01 (fdiv (fsub (fs_number f ''wallet_volume_hhi'' 1) (lit 8 100)) (lit 42 100))),
        (lit 18 100, clamp01 (fdiv (fsub (fs_number f ''repeated_amount_ratio'' 0) (lit 15 100)) (lit 60 100))),
        (lit 14 100, clamp01 (fdiv (fsub (fs_number f ''same_slot_ratio'' 0) (lit 20 100)) (lit 65 100))),
        (lit 25 100, if 0 < fs_number f ''creator_sells_5m'' 0 then 1 else 0),
        (lit 10 100, fs_number f ''drawdown_5m'' 0),
        (lit 5 100, clamp01 (fdiv (fsub (fs_number f ''momentum_1m'' 0) (lit 70 100)) (lit 130 100)))])"

definition danger_score :: "feature_snapshot \<Rightarrow> integrity_assessment option \<Rightarrow> pyfloat" where
  "danger_score f integrity =
     (case integrity of
        None \<Rightarrow> base_danger f
      | Some a \<Rightarrow> if ia_state a \<in> {Suspicious, Severe}
                    then clamp01 (fadd (base_danger f) (fmul (lit 22 100) (ia_score a)))
                    else base_danger f)"

definition price_impact :: "feature_snapshot \<Rightarrow> pyfloat \<Rightarrow> pyfloat" where
  "price_impact f order_size =
     (let reserve_sol = fs_number f ''virtual_quote_reserve_sol'' 0 in
      if reserve_sol \<le> 0 then 1 else clamp01 (fdiv order_size (max reserve_sol (lit 1 1000000))))"

definition net_edge_index ::
  "decision_engine \<Rightarrow> feature_snapshot \<Rightarrow> pyfloat \<Rightarrow> pyfloat \<Rightarrow> pyfloat \<Rightarrow> pyfloat \<Rightarrow> pyfloat" where
  "net_edge_index eng f order_size opportunity danger impact =
     (let fee_bps = fs_number f ''observed_fee_bps'' (of_int (eng_default_fee_bps eng));
          protocol_cost = fmul 2 (clamp 0 1 (fdiv fee_bps 10000));
          order_lamports = max 1 (py_int (fmul order_size 1000000000));
          network_cost = true_div (2 * eng_one_way_network_fee_lamports eng) order_lamports
      in fsub (fsub (fsub (fsub (fmul opportunity (lit 22 100)) (fmul danger (lit 32 100)))
                          (fmul impact (lit 18 10))) protocol_cost) network_cost)"

definition reason_labels :: "(string \<times> string) list" where
  "reason_labels =
     [(''velocity_signal'', ''Trading velocity is building''),
      (''participation_signal'', ''Participation is spread across more wallets''),
      (''balance_signal'', ''Buy demand currently exceeds sell demand''),
      (''progress_signal'', ''The bonding curve has meaningful progress''),
      (''momentum_signal'', ''Short-term momentum is positive but not extreme'')]"

definition reasons_of :: "(string \<times> pyfloat) list \<Rightarrow> pyfloat \<Rightarrow> pyfloat \<Rightarrow> pyfloat \<Rightarrow> string list" where
  "reasons_of signals impact danger confidence =
     (let top = take 3 (sort_key (\<lambda>(_, v). - v) signals);
          lines = List.map_filter (\<lambda>(k, v). if lit 25 100 \<le> v then map_of reason_labels k else None) top @
                  (if lit 3 100 < impact then [''The selected paper size has noticeable price impact''] else []) @
                  (if lit 35 100 < danger then [''Manipulation or concentration risk is elevated''] else []) @
                  (if confidence < lit 65 100 then [''The evidence set is still incomplete''] else [])
      in if lines = [] then [''Not enough reliable evidence has accumulated yet''] else lines)"

text \<open>The v1.5 gate on immature or isolated integrity evidence.\<close>

definition maturity_blockers :: "feature_snapshot \<Rightarrow> integrity_assessment \<Rightarrow> string list" where
  "maturity_blockers f a =
     (let mature = INTEGRITY_MIN_SAMPLE_COUNT \<le> ia_sample_count a \<and>
                   INTEGRITY_MIN_AGE_SECONDS \<le> fs_number f ''age_seconds'' 0 \<and>
                   INTEGRITY_MIN_COVERAGE \<le> ia_coverage a \<and> integrity_window_complete f \<and>
                   current_integrity_core_complete f
      in if \<not> mature then [''market_integrity_evidence_not_mature'']
         else if ia_state a = Uncertain \<and> 0 < ia_category_count a \<and> UNCERTAIN_INTEGRITY_HOLD_SCORE \<le> ia_score a
           then [''market_integrity_uncertain_high_risk'']
         else [])"

definition integrity_blockers :: "feature_snapshot \<Rightarrow> string \<Rightarrow> integrity_assessment option \<Rightarrow> string list" where
  "integrity_blockers f version integrity =
     (case integrity of
        None \<Rightarrow> []
      | Some a \<Rightarrow>
          (if ia_state a = Severe then [''market_integrity_severe''] else []) @
          (if version = BASELINE_VERSION \<and> ia_state a = Suspicious then [''market_integrity_suspicious''] else []) @
          (if version = BASELINE_VERSION then maturity_blockers f a else []))"

definition limit_blockers ::
  "feature_snapshot \<Rightarrow> risk_limits \<Rightarrow> pyfloat \<Rightarrow> pyfloat \<Rightarrow> pyfloat \<Rightarrow> string list" where
  "limit_blockers f limits danger impact net_edge =
     (if fs_number f ''age_seconds'' 0 < 15 then [''needs_at_least_15_seconds_of_history''] else []) @
     (if fs_number f ''trade_count_5m'' 0 < 8 then [''needs_at_least_8_observed_trades''] else []) @
     (if fs_number f ''unique_wallets_5m'' 0 < 5 then [''needs_at_least_5_unique_wallets''] else []) @
     (if fs_data_confidence f < rl_min_confidence limits
      then [''data_confidence_below_risk_mode_minimum''] else []) @
     (if rl_max_danger limits < danger then [''danger_above_risk_mode_limit''] else []) @
     (if rl_max_price_impact limits < impact then [''estimated_price_impact_above_limit''] else []) @
     (if net_edge < rl_min_net_edge_index limits then [''heuristic_net_edge_below_minimum''] else [])"

definition UNRELIABLE_FLAGS :: "string list" where
  "UNRELIABLE_FLAGS =
     [''missing_curve_reserves'', ''stale_market_data'', ''curve_complete_route_unconfirmed'',
      ''unsupported_quote_mint_v1'', ''unsupported_token_program'', ''mint_safety_unverified'',
      ''mint_account_failed_safety_checks'']"

definition decide_action :: "feature_snapshot \<Rightarrow> string list \<Rightarrow> decision_action" where
  "decide_action f blockers =
     (if list_ex (\<lambda>item. item \<in> set blockers) UNRELIABLE_FLAGS then Abstain
      else if fs_number f ''age_seconds'' 0 < 15 \<or> fs_number f ''trade_count_5m'' 0 < 8 \<or>
              fs_number f ''unique_wallets_5m'' 0 < 5 then Watch
      else if blockers \<noteq> [] then Pass
      else Enter)"

definition engine_integrity :: "feature_snapshot \<Rightarrow> string \<Rightarrow> integrity_assessment option result" where
  "engine_integrity f version =
     (if version = LEGACY_BASELINE_VERSION then Inr None
      else rbind (integrity_policy_for_baseline version) (\<lambda>policy.
           rbind (assess_market_integrity f policy) (\<lambda>a. Inr (Some a))))"

definition composite_score :: "pyfloat \<Rightarrow> pyfloat \<Rightarrow> pyfloat \<Rightarrow> pyfloat \<Rightarrow> int" where
  "composite_score opportunity danger execution confidence =
     py_round (fmul 100 (clamp01
       (wsum [(opportunity, lit 45 100), (fsub 1 danger, lit 25 100), (execution, lit 15 100),
              (confidence, lit 15 100)])))"

definition evaluate ::
  "decision_engine \<Rightarrow> feature_snapshot \<Rightarrow> risk_mode \<Rightarrow> pyfloat option \<Rightarrow> risk_limits option
   \<Rightarrow> string option \<Rightarrow> string \<Rightarrow> time \<Rightarrow> decision result" where
  "evaluate eng f mode planned policy_limits baseline decision_id created_at =
     (let version = (case baseline of None \<Rightarrow> BASELINE_VERSION
                     | Some v \<Rightarrow> if v = [] then BASELINE_VERSION else v);
          limits = (case policy_limits of None \<Rightarrow> RISK_LIMITS mode | Some l \<Rightarrow> l)
      in if version \<notin> set SUPPORTED_BASELINE_VERSIONS
           then Inl (ValueError (''unsupported baseline version: '' @ version))
         else rbind (engine_integrity f version) (\<lambda>integrity.
           let opportunity = opportunity_score f version;
               danger = danger_score f integrity;
               order_size = (case planned of None \<Rightarrow> rl_order_size_sol limits
                             | Some x \<Rightarrow> if x = 0 then rl_order_size_sol limits else x);
               impact = price_impact f order_size;
               execution = clamp01 (fsub 1 (fmul impact 6));
               net_edge = net_edge_index eng f order_size opportunity danger impact;
               confidence = fs_data_confidence f;
               blockers = fs_hard_flags f @ integrity_blockers f version integrity @
                          limit_blockers f limits danger impact net_edge
           in Inr \<lparr> de_decision_id = decision_id, de_mint = fs_mint f, de_symbol = fs_symbol f,
                    de_created_at = created_at, de_action = decide_action f blockers,
                    de_risk_mode = mode,
                    de_score = \<lparr> sc_opportunity = opportunity, sc_danger = danger,
                                 sc_execution = execution, sc_confidence = confidence,
                                 sc_net_edge_index = net_edge,
                                 sc_composite = composite_score opportunity danger execution confidence \<rparr>,
                    de_reasons = reasons_of (opportunity_signals f version) impact danger confidence,
                    de_blockers = unique blockers, de_feature_snapshot = f,
                    de_model_version = version, de_planned_order_size_sol = Some order_size,
                    de_integrity_assessment = integrity, de_sizing_assessment = None,
                    de_learning_assessment = None, de_challenger_assessments = [],
                    de_season_id = None, de_season_profile_fingerprint = None,
                    de_configuration_fingerprint = None \<rparr>))"

section \<open>Lemmas\<close>

lemma assess_market_integrity_Inr:
  assumes "v \<in> set [PREVIOUS_INTEGRITY_POLICY_VERSION, RECENT_INTEGRITY_POLICY_VERSION, INTEGRITY_POLICY_VERSION]"
  obtains a where "assess_market_integrity f v = Inr a"
  using assms by (simp add: assess_market_integrity_def)

lemma supported_policy:
  assumes "v \<in> set SUPPORTED_BASELINE_VERSIONS" and "v \<noteq> LEGACY_BASELINE_VERSION"
  obtains p where "integrity_policy_for_baseline v = Inr p"
    "p \<in> set [PREVIOUS_INTEGRITY_POLICY_VERSION, RECENT_INTEGRITY_POLICY_VERSION, INTEGRITY_POLICY_VERSION]"
    "v = BASELINE_VERSION \<Longrightarrow> p = INTEGRITY_POLICY_VERSION"
  using assms
  by (auto simp: SUPPORTED_BASELINE_VERSIONS_def integrity_policy_for_baseline_def version_defs)

lemma engine_integrity_total:
  assumes "v \<in> set SUPPORTED_BASELINE_VERSIONS"
  obtains i where "engine_integrity f v = Inr i" "v \<noteq> LEGACY_BASELINE_VERSION \<Longrightarrow> i \<noteq> None"
proof (cases "v = LEGACY_BASELINE_VERSION")
  case True
  then show ?thesis using that [of None] by (simp add: engine_integrity_def)
next
  case False
  then obtain p where p: "integrity_policy_for_baseline v = Inr p"
    "p \<in> set [PREVIOUS_INTEGRITY_POLICY_VERSION, RECENT_INTEGRITY_POLICY_VERSION, INTEGRITY_POLICY_VERSION]"
    using supported_policy [OF assms] by metis
  then obtain a where "assess_market_integrity f p = Inr a" by (metis assess_market_integrity_Inr)
  then show ?thesis using that [of "Some a"] p False by (simp add: engine_integrity_def)
qed

lemma engine_integrity_current:
  "engine_integrity f BASELINE_VERSION = rbind (assess_market_integrity f INTEGRITY_POLICY_VERSION) (\<lambda>a. Inr (Some a))"
  by (simp add: engine_integrity_def integrity_policy_for_baseline_def version_defs)

text \<open>What each verdict of the classifier rests on.\<close>

lemma integrity_verdict_cases:
  "integrity_verdict f v = Clean \<Longrightarrow> integrity_eligible f v \<and> category_scores f v = []"
  "integrity_verdict f v = Severe \<Longrightarrow> integrity_eligible f v \<and> 3 \<le> length (category_scores f v)"
  "integrity_verdict f v = Suspicious \<Longrightarrow> integrity_eligible f v \<and> 2 \<le> length (category_scores f v)"
  by (simp_all add: integrity_verdict_def Let_def split: if_splits)

lemma unique_Nil [simp]: "unique xs = [] \<longleftrightarrow> xs = []"
  by (simp add: unique_def)

lemma limit_gates:
  assumes "limit_blockers f l d i n = []"
  shows "d \<le> rl_max_danger l \<and> i \<le> rl_max_price_impact l \<and> rl_min_net_edge_index l \<le> n
     \<and> rl_min_confidence l \<le> fs_data_confidence f
     \<and> 15 \<le> fs_number f ''age_seconds'' 0 \<and> 8 \<le> fs_number f ''trade_count_5m'' 0
     \<and> 5 \<le> fs_number f ''unique_wallets_5m'' 0"
proof -
  have nil: "(if b then [x] else []) = [] \<Longrightarrow> \<not> b" for b and x :: string by (cases b) simp_all
  show ?thesis using assms unfolding limit_blockers_def append_is_Nil_conv
    by (elim conjE) (drule nil, drule nil, drule nil, drule nil, drule nil, drule nil, drule nil, simp add: not_less)
qed

lemma decide_enter:
  "decide_action f (x @ limit_blockers f l d i n) = Enter \<longleftrightarrow> x @ limit_blockers f l d i n = []"
proof
  show "x @ limit_blockers f l d i n = []" if "decide_action f (x @ limit_blockers f l d i n) = Enter"
    using that unfolding decide_action_def by (simp only: decision_action.distinct split: if_splits)
  show "decide_action f (x @ limit_blockers f l d i n) = Enter" if nil: "x @ limit_blockers f l d i n = []"
  proof -
    have "limit_blockers f l d i n = []" using nil by simp
    from limit_gates [OF this] show ?thesis unfolding nil decide_action_def by (simp add: list_ex_iff not_less)
  qed
qed

lemma maturity_gates:
  "maturity_blockers f a = [] \<Longrightarrow> 24 \<le> ia_sample_count a \<and> 30 \<le> fs_number f ''age_seconds'' 0 \<and>
     integrity_window_complete f \<and> current_integrity_core_complete f"
  unfolding maturity_blockers_def Let_def INTEGRITY_MIN_SAMPLE_COUNT_def INTEGRITY_MIN_AGE_SECONDS_def
  by (simp only: list.distinct split: if_splits)

lemma integrity_gates:
  assumes "integrity_blockers f BASELINE_VERSION (Some a) = []"
  shows "24 \<le> ia_sample_count a \<and> 30 \<le> fs_number f ''age_seconds'' 0 \<and> integrity_window_complete f \<and>
     current_integrity_core_complete f \<and> ia_state a \<in> {Clean, Uncertain}"
  using assms maturity_gates [of f a]
  by (cases "ia_state a") (simp_all add: integrity_blockers_def)

lemma danger_in_range: "0 \<le> danger_score f i \<and> danger_score f i \<le> 1"
  by (simp add: danger_score_def base_danger_def split: option.splits)

lemma composite_in_range: "0 \<le> composite_score a b c d \<and> composite_score a b c d \<le> 100"
proof -
  define x where "x = clamp01 (wsum [(a, lit 45 100), (fsub 1 b, lit 25 100), (c, lit 15 100), (d, lit 15 100)])"
  have "0 \<le> x" "x \<le> 1" by (simp_all add: x_def)
  then have "0 \<le> fmul 100 x" "fmul 100 x \<le> 100"
    using rnd64_mono [of "100 * x" 100] by (simp_all add: fmul_def)
  then have "round_half_even (of_int 0) \<le> py_round (fmul 100 x)" "py_round (fmul 100 x) \<le> round_half_even (of_int 100)"
    unfolding py_round_def by (intro round_half_even_mono; simp)+
  then show ?thesis unfolding composite_score_def x_def [symmetric] round_half_even_of_int by simp
qed

section \<open>Properties\<close>


definition sample_engine :: decision_engine where
  "sample_engine = \<lparr> eng_default_fee_bps = 125, eng_one_way_network_fee_lamports = 30000 \<rparr>"


end
