(* ===== verification/Broker.thy ===== *)
theory Broker
  imports Paper_Db Curve_Math Exit_Policy Decision
begin

text \<open>
  \<open>backend/signal_arcade/paper/broker.py\<close>: the paper broker. \<open>PaperBroker\<close> is the record
  \<open>broker\<close>: the store it writes to and what it keeps in memory (positions by mint, pending
  orders by identifier, the mints already bought, the season's profile). Each method is an
  action on that record. Objects that the source mutates in place and then saves are written
  to memory before the save, so an exception of the save leaves the same memory as in Python.
  The SOL/USD price is the decimal that \<open>Decimal(str(price))\<close> gives. The evidence observer,
  whose exceptions are swallowed, is the list of the episodes it was notified of.
\<close>

section \<open>State\<close>

text \<open>The fields of \<open>Settings\<close> (\<open>config.py\<close>) that the broker reads.\<close>

record config =
  cf_entry_latency_ms :: int
  cf_exit_latency_ms :: int
  cf_network_fee_lamports :: int
  cf_priority_fee_lamports :: int
  cf_pump_fee_bps :: int
  cf_equity_sample_seconds :: int
  cf_position_mark_stale_seconds :: int

record ctx =
  cx_env :: env
  cx_cfg :: config

record diagnostic_equity =
  dg_at :: time
  dg_season :: "string option"
  dg_currency :: quote_currency
  dg_decimals :: int
  dg_starting_minor :: int
  dg_cash_minor :: int
  dg_equity_minor :: int
  dg_realized_pnl_minor :: int
  dg_unrealized_pnl_minor :: int
  dg_excluded_positions :: int
  dg_open_positions :: int
  dg_drawdown :: pyfloat

record broker =
  bk_store :: store
  bk_initialized :: bool
  bk_quote_currency :: quote_currency
  bk_quote_decimals :: int
  bk_starting_lamports :: int
  bk_season_id :: "string option"
  bk_season_profile :: "season_profile option"
  bk_positions :: "(string, position) pydict"
  bk_pending :: "(string, paper_order) pydict"
  bk_traded_mints :: "string list"
  bk_last_equity_at :: "time option"
  bk_last_diagnostic :: "diagnostic_equity option"
  bk_notified :: "evidence_episode list"

type_synonym 'a brk = "(broker, 'a) act"

definition on_db :: "'a db \<Rightarrow> 'a brk" where
  "on_db m = zoom bk_store (\<lambda>s b. b\<lparr> bk_store := s \<rparr>) m"

abbreviation tables_of :: "broker \<Rightarrow> tables" where
  "tables_of b \<equiv> st_tables (bk_store b)"

definition LAMPORTS_PER_SOL :: int where
  "LAMPORTS_PER_SOL = 1000000000"

definition USDC_MINOR_PER_UNIT :: int where
  "USDC_MINOR_PER_UNIT = 1000000"

definition UNFILLABLE_BUY_FLAGS :: "string list" where
  "UNFILLABLE_BUY_FLAGS =
     [''missing_curve_reserves'', ''stale_market_data'', ''curve_complete_route_unconfirmed'',
      ''pumpswap_route_unverified'', ''unsupported_quote_mint_v1'', ''unsupported_token_program'',
      ''mint_safety_unverified'', ''mint_account_failed_safety_checks'']"

definition UNFILLABLE_SELL_FLAGS :: "string list" where
  "UNFILLABLE_SELL_FLAGS = ROUTE_BLOCKERS"

definition network_fee :: "ctx \<Rightarrow> int" where
  "network_fee cx = cf_network_fee_lamports (cx_cfg cx) + cf_priority_fee_lamports (cx_cfg cx)"

definition state_fee_bps :: "ctx \<Rightarrow> token_state \<Rightarrow> int" where
  "state_fee_bps cx state =
     (if ts_reserve_fee_components state \<noteq> None then ts_fee_bps state
      else if ts_fee_bps state \<noteq> 0 then ts_fee_bps state else cf_pump_fee_bps (cx_cfg cx))"

definition sol_lamports :: "pyfloat \<Rightarrow> int" where
  "sol_lamports sol = py_int (fmul sol (of_int LAMPORTS_PER_SOL))"

definition integrity_reference_size_multiplier :: "string \<Rightarrow> integrity_state \<Rightarrow> pyfloat" where
  "integrity_reference_size_multiplier baseline_version state =
     (if state = Suspicious then lit 60 100
      else if state = Severe then lit 50 100
      else if baseline_version \<in> set [CORROBORATED_BASELINE_VERSION, BASELINE_VERSION] \<and> state = Uncertain
        then UNCERTAIN_INTEGRITY_SIZE_MULTIPLIER
      else 1)"

section \<open>Account currency\<close>

datatype rounding = RoundCeiling | RoundFloor

fun to_integral :: "rounding \<Rightarrow> decimal \<Rightarrow> int" where
  "to_integral RoundCeiling x = \<lceil>x\<rceil>"
| "to_integral RoundFloor x = \<lfloor>x\<rfloor>"

definition price_usable :: "decimal option \<Rightarrow> bool" where
  "price_usable price = (case price of None \<Rightarrow> False | Some p \<Rightarrow> 0 < p \<and> p < 1000000)"

definition account_minor_from_sol :: "quote_currency \<Rightarrow> int \<Rightarrow> decimal option \<Rightarrow> rounding \<Rightarrow> int result" where
  "account_minor_from_sol currency lamports price mode =
     (if currency = SOL then Inr lamports
      else if \<not> price_usable price then Inl (ValueError ''fresh SOL/USDC conversion is unavailable'')
      else Inr (max 0 (to_integral mode
             (rnd28 (rnd28 (rnd28 (of_int lamports * the price) * of_int USDC_MINOR_PER_UNIT)
                     / of_int LAMPORTS_PER_SOL)))))"

definition sol_lamports_from_account_minor :: "quote_currency \<Rightarrow> int \<Rightarrow> decimal option \<Rightarrow> int result" where
  "sol_lamports_from_account_minor currency minor price =
     (if currency = SOL then Inr (max 0 minor)
      else if \<not> price_usable price then Inl (ValueError ''fresh SOL/USDC conversion is unavailable'')
      else Inr (max 0 (to_integral RoundFloor
             (rnd28 (rnd28 (of_int minor * of_int LAMPORTS_PER_SOL)
                     / rnd28 (the price * of_int USDC_MINOR_PER_UNIT))))))"

record account_values =
  av_gross :: int
  av_protocol :: int
  av_network :: int
  av_net :: int

definition account_fill_values ::
  "quote_currency \<Rightarrow> side \<Rightarrow> int \<Rightarrow> int \<Rightarrow> int \<Rightarrow> int \<Rightarrow> decimal option \<Rightarrow> account_values result" where
  "account_fill_values currency sd gross_sol protocol_sol network_sol wallet_sol price =
     (if sd = Buy then
        rbind (account_minor_from_sol currency wallet_sol price RoundCeiling) (\<lambda>total.
        rbind (account_minor_from_sol currency protocol_sol price RoundCeiling) (\<lambda>protocol.
        rbind (account_minor_from_sol currency network_sol price RoundCeiling) (\<lambda>network.
        Inr \<lparr> av_gross = max 0 (total - protocol - network), av_protocol = protocol,
              av_network = network, av_net = total \<rparr>)))
      else
        rbind (account_minor_from_sol currency wallet_sol price RoundFloor) (\<lambda>net.
        rbind (account_minor_from_sol currency protocol_sol price RoundCeiling) (\<lambda>protocol.
        rbind (account_minor_from_sol currency network_sol price RoundCeiling) (\<lambda>network.
        Inr \<lparr> av_gross = net + protocol + network, av_protocol = protocol,
              av_network = network, av_net = net \<rparr>))))"

definition cash_lamports :: "broker \<Rightarrow> int" where
  "cash_lamports b = ledger_balance (tables_of b) ''cash''"

definition setting_int :: "tables \<Rightarrow> string \<Rightarrow> int \<Rightarrow> int result" where
  "setting_int t key dflt =
     (case json_int (get_setting t key (JInt dflt)) of None \<Rightarrow> Inl TypeError | Some n \<Rightarrow> Inr n)"

section \<open>Limits\<close>

definition selected_mode :: "broker \<Rightarrow> risk_mode option \<Rightarrow> risk_mode" where
  "selected_mode b mode =
     (case mode of
        Some m \<Rightarrow> m
      | None \<Rightarrow> (case bk_season_profile b of Some p \<Rightarrow> sp_risk_mode p | None \<Rightarrow> Balanced))"

definition risk_limits_of :: "broker \<Rightarrow> risk_mode option \<Rightarrow> risk_limits" where
  "risk_limits_of b mode =
     (case bk_season_profile b of
        Some p \<Rightarrow> if sp_risk_mode p = selected_mode b mode then sp_risk_limits p
                  else RISK_LIMITS (selected_mode b mode)
      | None \<Rightarrow> RISK_LIMITS (selected_mode b mode))"

definition drawdown_limit_fraction :: "broker \<Rightarrow> risk_mode option \<Rightarrow> pyfloat option" where
  "drawdown_limit_fraction b mode =
     (case bk_season_profile b of
        Some p \<Rightarrow>
          if sp_risk_mode p = selected_mode b mode
          then map_option (\<lambda>bps. true_div bps 10000) (sp_effective_drawdown_bps p)
          else Some (rl_max_drawdown_fraction (risk_limits_of b (Some (selected_mode b mode))))
      | None \<Rightarrow> Some (rl_max_drawdown_fraction (risk_limits_of b (Some (selected_mode b mode)))))"

definition has_pending_for :: "broker \<Rightarrow> string \<Rightarrow> side option \<Rightarrow> bool" where
  "has_pending_for b mint sd =
     list_ex (\<lambda>order. po_mint order = mint \<and> (case sd of None \<Rightarrow> True | Some x \<Rightarrow> po_side order = x))
       (values_of (bk_pending b))"

section \<open>Valuation\<close>

text \<open>The copy of a stored position that a snapshot shows at an instant.\<close>

definition observed_position :: "ctx \<Rightarrow> time \<Rightarrow> position \<Rightarrow> position" where
  "observed_position cx now stored =
     (let age = map_option (\<lambda>t. max 0 (total_seconds (now - t))) (ps_last_marked_at stored);
          stale = ps_mark_is_stale stored \<or>
                  (case age of None \<Rightarrow> True
                   | Some a \<Rightarrow> of_int (cf_position_mark_stale_seconds (cx_cfg cx)) < a);
          blockers = ps_mark_blockers stored
      in stored\<lparr> ps_mark_age_seconds := age, ps_mark_is_stale := stale,
                 ps_mark_is_executable := \<not> stale \<and> ps_mark_is_executable stored,
                 ps_mark_blockers :=
                   (if stale \<and> ''stale_market_data'' \<notin> set blockers
                    then blockers @ [''stale_market_data''] else blockers),
                 ps_market_status :=
                   (if stale then Dormant else if ps_mark_is_executable stored then Active
                    else ExitBlocked) \<rparr>)"

definition sum_int :: "('a \<Rightarrow> int) \<Rightarrow> 'a list \<Rightarrow> int" where
  "sum_int f xs = sum_list (map f xs)"

definition drawdown_of :: "int \<Rightarrow> int \<Rightarrow> pyfloat" where
  "drawdown_of peak equity = (if peak \<le> 0 then 0 else max 0 (min 1 (fsub 1 (true_div equity peak))))"

text \<open>The peak that a snapshot starts from, written back when the basis is an older one.\<close>

definition previous_peak :: "ctx \<Rightarrow> bool \<Rightarrow> int \<Rightarrow> int brk" where
  "previous_peak cx persist equity =
     bnd (gets (\<lambda>b. (tables_of b, bk_starting_lamports b))) (\<lambda>(t, starting).
     if get_setting t ''equity_peak_basis'' JNull \<noteq> JStr EQUITY_PEAK_BASIS then
       let peak = max starting (max equity (max_recorded_cash t)) in
       seq (when_do persist
             (on_db (seq (set_setting (cx_env cx) ''peak_equity_lamports'' (JInt peak))
                         (set_setting (cx_env cx) ''equity_peak_basis'' (JStr EQUITY_PEAK_BASIS)))))
         (ret peak)
     else lift (setting_int t ''peak_equity_lamports'' starting))"

text \<open>The range constraints that \<open>PortfolioSnapshot\<close> declares.\<close>

definition portfolio_fields_ok :: "portfolio_snapshot \<Rightarrow> bool" where
  "portfolio_fields_ok p \<longleftrightarrow>
     0 \<le> pf_reserved_cash_lamports p \<and> 0 \<le> pf_available_cash_lamports p \<and>
     0 \<le> pf_invested_value_lamports p \<and> 0 \<le> pf_last_known_invested_value_lamports p \<and>
     0 \<le> pf_stale_invested_value_lamports p \<and> 0 \<le> pf_route_blocked_invested_value_lamports p \<and>
     0 \<le> pf_excluded_invested_value_lamports p \<and> 0 \<le> pf_peak_equity_lamports p \<and>
     0 \<le> pf_last_known_equity_lamports p"

text \<open>The observed positions by what can be done with them now.\<close>

definition stale_positions :: "position list \<Rightarrow> position list" where
  "stale_positions = filter ps_mark_is_stale"

definition active_positions :: "position list \<Rightarrow> position list" where
  "active_positions = filter (\<lambda>p. \<not> ps_mark_is_stale p \<and> ps_mark_is_executable p)"

definition blocked_positions :: "position list \<Rightarrow> position list" where
  "blocked_positions = filter (\<lambda>p. \<not> ps_mark_is_stale p \<and> \<not> ps_mark_is_executable p)"

definition observed_positions :: "ctx \<Rightarrow> time \<Rightarrow> broker \<Rightarrow> position list" where
  "observed_positions cx now b = map (observed_position cx now) (values_of (bk_positions b))"

definition executable_equity :: "ctx \<Rightarrow> time \<Rightarrow> broker \<Rightarrow> int" where
  "executable_equity cx now b =
     max 0 (cash_lamports b + sum_int ps_last_mark_lamports (active_positions (observed_positions cx now b)))"

definition portfolio_of :: "ctx \<Rightarrow> risk_mode option \<Rightarrow> time \<Rightarrow> broker \<Rightarrow> int \<Rightarrow> int \<Rightarrow> portfolio_snapshot" where
  "portfolio_of cx mode now b peak realized =
     (let positions = observed_positions cx now b;
          stale = stale_positions positions;
          active = active_positions positions;
          blocked = blocked_positions positions;
          cash = cash_lamports b;
          inventory_mark = sum_int ps_last_mark_lamports active;
          blocked_mark = sum_int ps_last_mark_lamports blocked;
          stale_mark = sum_int ps_last_mark_lamports stale;
          last_known = inventory_mark + blocked_mark + stale_mark;
          excluded = blocked @ stale;
          reserved = sum_int po_reserved_account_minor
                       (filter (\<lambda>order. po_side order = Buy) (values_of (bk_pending b)));
          equity = executable_equity cx now b;
          drawdown = drawdown_of peak equity;
          halted = (case drawdown_limit_fraction b mode of None \<Rightarrow> False | Some l \<Rightarrow> l \<le> drawdown)
      in \<lparr> pf_initialized = bk_initialized b, pf_quote_currency = bk_quote_currency b,
           pf_quote_decimals = bk_quote_decimals b, pf_cash_lamports = cash,
           pf_reserved_cash_lamports = reserved,
           pf_available_cash_lamports = max 0 (cash - reserved),
           pf_invested_value_lamports = inventory_mark,
           pf_last_known_invested_value_lamports = last_known,
           pf_stale_invested_value_lamports = stale_mark,
           pf_stale_position_count = int (length stale),
           pf_route_blocked_invested_value_lamports = blocked_mark,
           pf_route_blocked_position_count = int (length blocked),
           pf_excluded_invested_value_lamports = blocked_mark + stale_mark,
           pf_excluded_position_count = int (length excluded),
           pf_starting_lamports = bk_starting_lamports b, pf_equity_lamports = equity,
           pf_peak_equity_lamports = peak,
           pf_last_known_equity_lamports = max 0 (cash + last_known),
           pf_realized_pnl_lamports = realized,
           pf_unrealized_pnl_lamports =
             sum_int ps_unrealized_pnl_lamports active - sum_int ps_entry_cost_lamports excluded,
           pf_drawdown_fraction = drawdown, pf_risk_halted = halted,
           pf_risk_halt_reason =
             (if halted then Some ''portfolio_drawdown_limit_reached'' else None),
           pf_positions = positions, pf_pending_orders = values_of (bk_pending b) \<rparr>)"

definition snapshot :: "ctx \<Rightarrow> risk_mode option \<Rightarrow> bool \<Rightarrow> portfolio_snapshot brk" where
  "snapshot cx mode persist =
     bnd (on_db (wall_now (cx_env cx))) (\<lambda>now.
     bnd (gets id) (\<lambda>b.
     let equity = executable_equity cx now b in
     bnd (previous_peak cx persist equity) (\<lambda>prev.
     let peak = max prev equity in
     seq (when_do (persist \<and> peak > prev)
           (on_db (set_setting (cx_env cx) ''peak_equity_lamports'' (JInt peak))))
     (bnd (gets (\<lambda>b. setting_int (tables_of b) ''realized_pnl_lamports'' 0)) (\<lambda>r.
      bnd (lift r) (\<lambda>realized.
      let portfolio = portfolio_of cx mode now b peak realized in
      seq (guard (portfolio_fields_ok portfolio) (ValueError ''invalid portfolio snapshot''))
          (ret portfolio)))))))"

definition capacity_positions :: "portfolio_snapshot \<Rightarrow> position list" where
  "capacity_positions portfolio = filter (\<lambda>p. ps_market_status p \<noteq> Dormant) (pf_positions portfolio)"

definition pending_buys :: "broker \<Rightarrow> paper_order list" where
  "pending_buys b = filter (\<lambda>order. po_side order = Buy) (values_of (bk_pending b))"

definition pending_reservation :: "ctx \<Rightarrow> quote_currency \<Rightarrow> decimal option \<Rightarrow> paper_order \<Rightarrow> int result" where
  "pending_reservation cx currency price order =
     (if 0 < po_reserved_account_minor order then Inr (po_reserved_account_minor order)
      else account_minor_from_sol currency (po_requested_sol_lamports order + network_fee cx) price RoundCeiling)"

text \<open>\<open>sum(self._pending_reservation(order, price) for order in orders)\<close>.\<close>

fun sum_results :: "int result list \<Rightarrow> int result" where
  "sum_results [] = Inr 0"
| "sum_results (r # rs) = rbind r (\<lambda>x. rbind (sum_results rs) (\<lambda>y. Inr (x + y)))"

definition reserved_sum :: "ctx \<Rightarrow> quote_currency \<Rightarrow> decimal option \<Rightarrow> paper_order list \<Rightarrow> int result" where
  "reserved_sum cx currency price orders = sum_results (map (pending_reservation cx currency price) orders)"

end
