(* ===== verification/Broker_Entry.thy ===== *)
theory Broker_Entry
  imports Broker
begin

text \<open>
  The entry side of \<open>paper/broker.py\<close>: the size of the next order, the portfolio gate that a
  decision passes before it becomes a pending order, and the submission itself.
\<close>

text \<open>The text of an optional string that is known to be present.\<close>

definition text_of :: "string option \<Rightarrow> string" where
  "text_of v = (case v of None \<Rightarrow> [] | Some s \<Rightarrow> s)"

section \<open>Order size\<close>

abbreviation lamports_f :: pyfloat where
  "lamports_f \<equiv> of_int LAMPORTS_PER_SOL"

text \<open>\<open>int(equity * max_exposure_fraction)\<close>, and the same over the number of slots.\<close>

definition exposure_maximum :: "risk_limits \<Rightarrow> int \<Rightarrow> int" where
  "exposure_maximum limits equity = py_int (fmul (float_of_int equity) (rl_max_exposure_fraction limits))"

definition per_position_cap :: "risk_limits \<Rightarrow> int \<Rightarrow> int" where
  "per_position_cap limits equity =
     py_int (fdiv (fmul (float_of_int equity) (rl_max_exposure_fraction limits))
                  (float_of_int (rl_max_open_positions limits)))"

definition realized_bankroll :: "broker \<Rightarrow> portfolio_snapshot \<Rightarrow> int" where
  "realized_bankroll b portfolio = max 1 (bk_starting_lamports b + pf_realized_pnl_lamports portfolio)"

definition growth_factor :: "int \<Rightarrow> int \<Rightarrow> pyfloat" where
  "growth_factor realized_equity starting =
     max (lit 1 2) (min (lit 3 2) (py_sqrt (max 0 (true_div realized_equity starting))))"

definition planned_size_from_portfolio ::
  "broker \<Rightarrow> risk_limits \<Rightarrow> portfolio_snapshot \<Rightarrow> decimal option \<Rightarrow> pyfloat" where
  "planned_size_from_portfolio b limits portfolio price =
     (if \<not> bk_initialized b \<or> bk_starting_lamports b \<le> 0 then rl_order_size_sol limits
      else
        let growth = growth_factor (realized_bankroll b portfolio) (bk_starting_lamports b);
            grown = py_int (fmul (fmul (rl_order_size_sol limits) lamports_f) growth);
            account_cap = per_position_cap limits (pf_equity_lamports portfolio)
        in (case sol_lamports_from_account_minor (bk_quote_currency b) account_cap price of
              Inl e \<Rightarrow> rl_order_size_sol limits
            | Inr exposure_cap \<Rightarrow> true_div (max 1 (min grown exposure_cap)) LAMPORTS_PER_SOL))"

definition planned_order_size_sol :: "ctx \<Rightarrow> risk_mode \<Rightarrow> decimal option \<Rightarrow> pyfloat brk" where
  "planned_order_size_sol cx mode price =
     bnd (gets id) (\<lambda>b.
     let limits = risk_limits_of b (Some mode) in
     if \<not> bk_initialized b \<or> bk_starting_lamports b \<le> 0 then ret (rl_order_size_sol limits)
     else bnd (snapshot cx (Some mode) True) (\<lambda>portfolio.
          ret (planned_size_from_portfolio b limits portfolio price)))"

definition realized_account_target_sol ::
  "broker \<Rightarrow> pyfloat \<Rightarrow> decimal option \<Rightarrow> pyfloat \<Rightarrow> portfolio_snapshot \<Rightarrow> pyfloat" where
  "realized_account_target_sol b target_fraction price fallback portfolio =
     (if \<not> bk_initialized b \<or> bk_starting_lamports b \<le> 0 then fallback
      else
        let target = max 1 (py_int (fmul (float_of_int (realized_bankroll b portfolio)) target_fraction))
        in (case sol_lamports_from_account_minor (bk_quote_currency b) target price of
              Inl e \<Rightarrow> fallback
            | Inr lamports \<Rightarrow> true_div lamports LAMPORTS_PER_SOL))"

text \<open>The caps of \<open>_bounded_entry_size_sol\<close>, in the order of its dictionary.\<close>

definition account_caps :: "risk_limits \<Rightarrow> portfolio_snapshot \<Rightarrow> int \<Rightarrow> int \<Rightarrow> (string \<times> int) list" where
  "account_caps limits portfolio exposure reserved =
     [(''per_position_exposure_cap'', per_position_cap limits (pf_equity_lamports portfolio)),
      (''remaining_portfolio_exposure'',
         max 0 (exposure_maximum limits (pf_equity_lamports portfolio) - exposure)),
      (''available_cash'', max 0 (pf_cash_lamports portfolio - reserved))]"

definition size_caps ::
  "ctx \<Rightarrow> broker \<Rightarrow> decision \<Rightarrow> int \<Rightarrow> decimal option \<Rightarrow> portfolio_snapshot \<Rightarrow> int \<Rightarrow> int
   \<Rightarrow> (string \<times> int) list" where
  "size_caps cx b d desired price portfolio exposure reserved =
     (let limits = risk_limits_of b (Some (de_risk_mode d));
          reserve_sol = max 0 (fs_number (de_feature_snapshot d) ''virtual_quote_reserve_sol'' 0)
      in map (\<lambda>(name, minor).
                (name, case sol_lamports_from_account_minor (bk_quote_currency b) minor price of
                         Inl e \<Rightarrow> desired | Inr lamports \<Rightarrow> max 1 (lamports - network_fee cx)))
           (account_caps limits portfolio exposure reserved) @
         (if 0 < reserve_sol
          then [(''price_impact_cap'',
                 max 1 (py_int (fmul (fmul reserve_sol (rl_max_price_impact limits)) lamports_f)))]
          else []))"

definition bounded_entry_size_sol ::
  "ctx \<Rightarrow> broker \<Rightarrow> decision \<Rightarrow> pyfloat \<Rightarrow> decimal option \<Rightarrow> portfolio_snapshot
   \<Rightarrow> (pyfloat \<times> pyfloat \<times> string list) result" where
  "bounded_entry_size_sol cx b d desired_size price portfolio =
     (let desired = max 1 (sol_lamports desired_size);
          capacity = capacity_positions portfolio
      in rbind (reserved_sum cx (bk_quote_currency b) price (pending_buys b)) (\<lambda>reserved.
         let exposure = sum_int ps_entry_cost_lamports capacity + reserved;
             caps = size_caps cx b d desired price portfolio exposure reserved;
             maximum = Min (set (map snd caps));
             selected = min desired maximum;
             constraints = map fst (filter (\<lambda>(name, cap). cap \<le> desired \<and> cap = selected) caps)
         in Inr (true_div (max 1 selected) LAMPORTS_PER_SOL, true_div (max 1 maximum) LAMPORTS_PER_SOL,
                 if constraints = [] then [''quality_target''] else constraints)))"

definition entry_quality :: "decision \<Rightarrow> pyfloat" where
  "entry_quality d =
     clamp01 (wsum [(lit 30 100, sc_opportunity (de_score d)), (lit 25 100, sc_confidence (de_score d)),
                    (lit 20 100, sc_execution (de_score d)), (lit 25 100, fsub 1 (sc_danger (de_score d)))])"

definition baseline_of :: "decision \<Rightarrow> string" where
  "baseline_of d = hd (split_on CHR ''+'' (de_model_version d))"

definition confidence_to_scale :: "decision \<Rightarrow> pyfloat" where
  "confidence_to_scale d =
     (let scale = clamp01 (fdiv (fsub (entry_quality d) (lit 58 100)) (lit 34 100)) in
      if baseline_of d = BASELINE_VERSION then
        let f = de_feature_snapshot d;
            economic = clamp01 (min (fs_number f ''meaningful_volume_ratio'' 0)
                                    (fs_number f ''meaningful_wallet_ratio'' 0))
        in fmul scale (clamp01 (fadd (lit 1 4) economic))
      else scale)"

text \<open>The desired size and the reasons, by integrity state.\<close>

definition MIN_SIZE_SOL :: pyfloat where
  "MIN_SIZE_SOL = lit 1 1000000"

definition desired_size ::
  "broker \<Rightarrow> decision \<Rightarrow> risk_limits \<Rightarrow> portfolio_snapshot \<Rightarrow> decimal option \<Rightarrow> pyfloat
   \<Rightarrow> pyfloat \<times> string list" where
  "desired_size b d limits portfolio price base =
     (let version = baseline_of d;
          reduced = (\<lambda>state. max MIN_SIZE_SOL (fmul base (integrity_reference_size_multiplier version state)))
      in case de_integrity_assessment d of
           None \<Rightarrow> (base, [''Uncertain integrity evidence keeps the reference paper size''])
         | Some integrity \<Rightarrow>
             (case ia_state integrity of
                Uncertain \<Rightarrow>
                  (reduced Uncertain,
                   if integrity_reference_size_multiplier version Uncertain < 1
                   then [''Unresolved integrity evidence reduces the exploratory paper size'']
                   else [''Uncertain integrity evidence keeps the reference paper size''])
              | Suspicious \<Rightarrow>
                  (reduced Suspicious, [''Corroborated integrity concerns reduce the reference paper size''])
              | Severe \<Rightarrow>
                  (reduced Severe, [''Severe integrity evidence cannot size up and remains entry-blocked''])
              | Clean \<Rightarrow>
                  (let per_slot = fdiv (rl_max_exposure_fraction limits) (float_of_int (rl_max_open_positions limits));
                       target = fmul per_slot (fadd (lit 1 4) (fmul (lit 3 4) (confidence_to_scale d)))
                   in (max base (realized_account_target_sol b target price base portfolio),
                       ''Clean, mature evidence allows bounded sizing from realized bankroll'' #
                       (if version = BASELINE_VERSION
                        then [''Economically meaningful activity bounds any size increase''] else [])))))"

text \<open>The range constraints that \<open>SizingAssessment\<close> declares.\<close>

definition sizing_fields_ok :: "sizing_assessment \<Rightarrow> bool" where
  "sizing_fields_ok a \<longleftrightarrow>
     0 < sa_base_size_sol a \<and> 0 < sa_desired_size_sol a \<and> 0 < sa_selected_size_sol a \<and>
     (case sa_maximum_size_sol a of None \<Rightarrow> True | Some m \<Rightarrow> 0 < m) \<and>
     0 \<le> sa_account_allocation_fraction a \<and> sa_account_allocation_fraction a \<le> 1"

definition sizing_from_portfolio ::
  "ctx \<Rightarrow> broker \<Rightarrow> decision \<Rightarrow> decimal option \<Rightarrow> portfolio_snapshot \<Rightarrow> sizing_assessment result" where
  "sizing_from_portfolio cx b d price portfolio =
     (let limits = risk_limits_of b (Some (de_risk_mode d));
          base = planned_size_from_portfolio b limits portfolio price;
          (desired, reasons) = desired_size b d limits portfolio price base
      in rbind (bounded_entry_size_sol cx b d desired price portfolio) (\<lambda>(selected, maximum, constraints).
         let selected_minor =
               (case account_minor_from_sol (bk_quote_currency b) (max 1 (sol_lamports selected)) price RoundCeiling of
                  Inl e \<Rightarrow> 0 | Inr n \<Rightarrow> n);
             a = \<lparr> sa_policy_version = SIZING_POLICY_VERSION, sa_base_size_sol = base,
                   sa_desired_size_sol = max MIN_SIZE_SOL desired,
                   sa_selected_size_sol = max MIN_SIZE_SOL selected,
                   sa_maximum_size_sol = Some (max MIN_SIZE_SOL maximum),
                   sa_account_allocation_fraction =
                     clamp01 (true_div selected_minor (realized_bankroll b portfolio)),
                   sa_constraints = constraints, sa_reasons = reasons \<rparr>
         in if sizing_fields_ok a then Inr a else Inl (ValueError ''invalid sizing assessment'')))"

definition plan_entry_size :: "ctx \<Rightarrow> decision \<Rightarrow> decimal option \<Rightarrow> sizing_assessment brk" where
  "plan_entry_size cx d price =
     bnd (snapshot cx (Some (de_risk_mode d)) True) (\<lambda>portfolio.
     bnd (gets id) (\<lambda>b. lift (sizing_from_portfolio cx b d price portfolio)))"

text \<open>Can the cash, or a fresh bankroll, fund the next minimum entry?\<close>

definition can_fund_permitted_entry ::
  "ctx \<Rightarrow> risk_mode \<Rightarrow> decimal option \<Rightarrow> (bool option \<times> int option) brk" where
  "can_fund_permitted_entry cx mode price =
     bnd (gets bk_initialized) (\<lambda>initialized.
     if \<not> initialized then ret (None, None)
     else bnd (planned_order_size_sol cx mode price) (\<lambda>size.
          bnd (gets id) (\<lambda>b.
          case account_minor_from_sol (bk_quote_currency b) (max 1 (sol_lamports size) + network_fee cx) price RoundCeiling of
            Inl e \<Rightarrow> ret (None, None)
          | Inr required \<Rightarrow> ret (Some (required \<le> cash_lamports b), Some required))))"

definition fresh_season_can_fund_entry ::
  "ctx \<Rightarrow> broker \<Rightarrow> risk_mode \<Rightarrow> decimal option \<Rightarrow> bool option \<times> int option" where
  "fresh_season_can_fund_entry cx b mode price =
     (if \<not> bk_initialized b \<or> bk_starting_lamports b \<le> 0 then (None, None)
      else
        let limits = risk_limits_of b (Some mode);
            account_cap = per_position_cap limits (bk_starting_lamports b)
        in (case rbind (sol_lamports_from_account_minor (bk_quote_currency b) account_cap price) (\<lambda>cap.
                 account_minor_from_sol (bk_quote_currency b)
                   (max 1 (min (sol_lamports (rl_order_size_sol limits)) cap) + network_fee cx) price RoundCeiling) of
              Inl e \<Rightarrow> (None, None)
            | Inr required \<Rightarrow> (Some (required \<le> bk_starting_lamports b), Some required)))"

section \<open>The entry gate\<close>

fun scalar_number :: "scalar option \<Rightarrow> pyfloat option" where
  "scalar_number (Some (SInt n)) = Some (float_of_int n)"
| "scalar_number (Some (SFloat x)) = Some x"
| "scalar_number _ = None"

text \<open>\<open>f"{multiplier:g}"\<close> of the three multipliers that a receipt may carry.\<close>

definition MULTIPLIERS :: "(pyfloat \<times> string) list" where
  "MULTIPLIERS = [(lit 1 2, ''0.5''), (lit 3 2, ''1.5''), (2, ''2'')]"

definition parameter :: "sizing_receipt \<Rightarrow> string \<Rightarrow> scalar option" where
  "parameter r key = Option.bind (map_of (sz_parameters r) key) id"

text \<open>The multiplier of an applied sizing receipt that passes every check; \<open>None\<close> otherwise.\<close>

definition receipt_multiplier :: "decision \<Rightarrow> sizing_assessment \<Rightarrow> sizing_receipt \<Rightarrow> pyfloat option" where
  "receipt_multiplier d sizing r =
     (case (scalar_number (parameter r ''selected_multiplier''), scalar_number (parameter r ''baseline_size_sol'')) of
        (Some m, Some base) \<Rightarrow>
          (if m \<in> set (map fst MULTIPLIERS) \<and>
              \<not> (lit 1 1000000000 < \<bar>fsub base (sa_selected_size_sol sizing)\<bar>) \<and>
              sz_in_distribution r \<and> sz_baseline_actionable r \<and>
              map_of MULTIPLIERS m = Some (sz_proposed_action r) \<and>
              sz_artifact_version r \<in> set (tl (split_on CHR ''+'' (de_model_version d)))
           then Some m else None)
      | _ \<Rightarrow> None)"

text \<open>The size that the receipts support, or the blocker.\<close>

definition expected_size ::
  "env \<Rightarrow> decision \<Rightarrow> sizing_assessment \<Rightarrow> integrity_assessment \<Rightarrow> string + pyfloat" where
  "expected_size env d sizing integrity =
     (case map_of (de_challenger_assessments d) ''sizing'' of
        None \<Rightarrow> Inr (sa_selected_size_sol sizing)
      | Some JNull \<Rightarrow> Inr (sa_selected_size_sol sizing)
      | Some payload \<Rightarrow>
          (case en_parse_receipt env payload of
             None \<Rightarrow> Inl ''challenger_sizing_receipt_invalid''
           | Some r \<Rightarrow>
               if sz_skill r \<noteq> SkSizing then Inl ''challenger_sizing_receipt_invalid''
               else if parameter r ''applied'' \<noteq> Some (SBool True) then Inr (sa_selected_size_sol sizing)
               else (case receipt_multiplier d sizing r of
                       None \<Rightarrow> Inl ''challenger_sizing_receipt_invalid''
                     | Some m \<Rightarrow>
                         if 1 < m \<and> ia_state integrity \<noteq> Clean
                         then Inl ''challenger_sizing_integrity_guard_failed''
                         else Inr (fmul (sa_selected_size_sol sizing) m))))"

definition entry_strategy_receipt_blocker :: "env \<Rightarrow> decision \<Rightarrow> string option result" where
  "entry_strategy_receipt_blocker env d =
     (let version = baseline_of d in
      if version = LEGACY_BASELINE_VERSION then Inr None
      else if version \<notin> set LEARNABLE_BASELINE_VERSIONS then Inr (Some ''unsupported_baseline_version'')
      else rbind (integrity_policy_for_baseline version) (\<lambda>expected_policy.
        case (de_planned_order_size_sol d, de_sizing_assessment d, de_integrity_assessment d) of
          (Some planned, Some sizing, Some integrity) \<Rightarrow>
            if sa_policy_version sizing \<noteq> SIZING_POLICY_VERSION \<or> ia_policy_version integrity \<noteq> expected_policy
            then Inr (Some ''current_baseline_policy_version_mismatch'')
            else (case expected_size env d sizing integrity of
                    Inl blocker \<Rightarrow> Inr (Some blocker)
                  | Inr expected \<Rightarrow>
                      if 1 < \<bar>sol_lamports planned - sol_lamports expected\<bar>
                      then Inr (Some ''current_baseline_size_receipt_mismatch'') else Inr None)
        | _ \<Rightarrow> Inr (Some ''current_baseline_receipt_incomplete'')))"

text \<open>The part of \<open>_entry_assessment\<close> after its snapshot.\<close>

definition portfolio_gate ::
  "ctx \<Rightarrow> broker \<Rightarrow> decision \<Rightarrow> decimal option \<Rightarrow> portfolio_snapshot \<Rightarrow> (string + int \<times> int) result" where
  "portfolio_gate cx b d price portfolio =
     (let limits = risk_limits_of b (Some (de_risk_mode d));
          capacity = capacity_positions portfolio;
          buys = pending_buys b;
          size = (case de_planned_order_size_sol d of None \<Rightarrow> rl_order_size_sol limits
                  | Some x \<Rightarrow> if x = 0 then rl_order_size_sol limits else x);
          request = sol_lamports size
      in if rl_max_open_positions limits \<le> int (length capacity) + int (length buys)
           then Inr (Inl ''portfolio_capacity_reached'')
         else if (case drawdown_limit_fraction b (Some (de_risk_mode d)) of
                    None \<Rightarrow> False | Some l \<Rightarrow> l \<le> pf_drawdown_fraction portfolio)
           then Inr (Inl ''portfolio_drawdown_limit_reached'')
         else (case account_minor_from_sol (bk_quote_currency b) (request + network_fee cx) price RoundCeiling of
                 Inl e \<Rightarrow> Inr (Inl ''fresh_sol_usdc_conversion_unavailable'')
               | Inr required \<Rightarrow>
                   rbind (reserved_sum cx (bk_quote_currency b) price buys) (\<lambda>reserved.
                   if exposure_maximum limits (pf_equity_lamports portfolio)
                        < sum_int ps_entry_cost_lamports capacity + reserved + required
                     then Inr (Inl ''portfolio_exposure_limit_reached'')
                   else if max 0 (pf_cash_lamports portfolio - reserved) < required
                     then Inr (Inl ''unreserved_paper_cash_insufficient'')
                   else Inr (Inr (request, required)))))"

definition entry_assessment :: "ctx \<Rightarrow> decision \<Rightarrow> decimal option \<Rightarrow> (string + int \<times> int) brk" where
  "entry_assessment cx d price =
     bnd (gets id) (\<lambda>b.
     if \<not> bk_initialized b then ret (Inl ''paper_portfolio_not_initialized'')
     else if de_action d \<noteq> Enter then ret (Inl ''decision_is_not_an_entry'')
     else bnd (lift (entry_strategy_receipt_blocker (cx_env cx) d)) (\<lambda>provenance.
       case provenance of
         Some blocker \<Rightarrow> ret (Inl blocker)
       | None \<Rightarrow>
           if de_mint d \<in> set (bk_traded_mints b) then ret (Inl ''mint_already_traded_this_season'')
           else if de_mint d \<in> set (map fst (bk_positions b)) then ret (Inl ''position_already_open'')
           else if has_pending_for b (de_mint d) None then ret (Inl ''order_already_pending'')
           else bnd (snapshot cx (Some (de_risk_mode d)) True) (\<lambda>portfolio.
                lift (portfolio_gate cx b d price portfolio))))"

definition entry_blocker :: "ctx \<Rightarrow> decision \<Rightarrow> decimal option \<Rightarrow> string option brk" where
  "entry_blocker cx d price =
     bnd (entry_assessment cx d price) (\<lambda>a. ret (case a of Inl blocker \<Rightarrow> Some blocker | Inr _ \<Rightarrow> None))"

text \<open>The range constraints that \<open>PaperOrder\<close> declares.\<close>

definition order_fields_ok :: "paper_order \<Rightarrow> bool" where
  "order_fields_ok order \<longleftrightarrow>
     0 \<le> po_requested_sol_lamports order \<and> 0 \<le> po_requested_token_units order \<and>
     0 \<le> po_reserved_account_minor order"

definition buy_order :: "ctx \<Rightarrow> decision \<Rightarrow> string \<Rightarrow> int \<Rightarrow> int \<Rightarrow> json option \<Rightarrow> paper_order" where
  "buy_order cx d order_id request required plan =
     \<lparr> po_order_id = order_id, po_decision_id = Some (de_decision_id d), po_mint = de_mint d,
       po_symbol = de_symbol d, po_side = Buy, po_status = Pending,
       po_requested_sol_lamports = request, po_requested_token_units = 0,
       po_reserved_account_minor = required, po_created_at = de_created_at d,
       po_fill_after = de_created_at d + milliseconds (cf_entry_latency_ms (cx_cfg cx)),
       po_filled_at = None, po_failure_reason = None, po_risk_mode_at_entry = Some (de_risk_mode d),
       po_baseline_version_at_entry = baseline_of d, po_exit_timing_plan = plan \<rparr>"

text \<open>\<open>self.pending[order.order_id] = order\<close>, then \<open>database.save_order(order)\<close>.\<close>

definition set_pending :: "paper_order \<Rightarrow> unit brk" where
  "set_pending order =
     modify (\<lambda>b. b\<lparr> bk_pending := AList.update (po_order_id order) order (bk_pending b) \<rparr>)"

definition add_pending :: "paper_order \<Rightarrow> unit brk" where
  "add_pending order = seq (set_pending order) (on_db (save_order order))"

definition submit_decision_with_reason ::
  "ctx \<Rightarrow> decision \<Rightarrow> decimal option \<Rightarrow> json option \<Rightarrow> (paper_order option \<times> string option) brk" where
  "submit_decision_with_reason cx d price plan =
     bnd (entry_assessment cx d price) (\<lambda>a.
     case a of
       Inl blocker \<Rightarrow> ret (None, Some blocker)
     | Inr (request, required) \<Rightarrow>
         bnd (on_db (fresh_uuid (cx_env cx))) (\<lambda>order_id.
         let order = buy_order cx d order_id request required plan in
         seq (guard (order_fields_ok order) (ValueError ''invalid paper order''))
         (seq (on_db (save_decision (cx_env cx) d))
         (seq (add_pending order)
              (ret (Some order, None))))))"

definition submit_decision :: "ctx \<Rightarrow> decision \<Rightarrow> decimal option \<Rightarrow> paper_order option brk" where
  "submit_decision cx d price =
     bnd (submit_decision_with_reason cx d price None) (\<lambda>(order, _). ret order)"

section \<open>The gate at fill time\<close>

definition fill_engine :: "ctx \<Rightarrow> decision_engine" where
  "fill_engine cx = \<lparr> eng_default_fee_bps = cf_pump_fee_bps (cx_cfg cx),
                      eng_one_way_network_fee_lamports = network_fee cx \<rparr>"

text \<open>The limits that are checked again, on a fresh snapshot.\<close>

definition fill_limits_blocker ::
  "ctx \<Rightarrow> broker \<Rightarrow> paper_order \<Rightarrow> risk_mode \<Rightarrow> decimal option \<Rightarrow> portfolio_snapshot \<Rightarrow> string option" where
  "fill_limits_blocker cx b order mode price portfolio =
     (let limits = risk_limits_of b (Some mode);
          capacity = capacity_positions portfolio
      in if rl_max_open_positions limits \<le> int (length capacity) then Some ''portfolio_capacity_reached''
         else if (case drawdown_limit_fraction b (Some mode) of
                    None \<Rightarrow> False | Some l \<Rightarrow> l \<le> pf_drawdown_fraction portfolio)
           then Some ''portfolio_drawdown_limit_reached''
         else (case account_minor_from_sol (bk_quote_currency b)
                      (po_requested_sol_lamports order + network_fee cx) price RoundCeiling of
                 Inl e \<Rightarrow> Some ''fresh_sol_usdc_conversion_unavailable''
               | Inr required \<Rightarrow>
                   if exposure_maximum limits (pf_equity_lamports portfolio)
                        < sum_int ps_entry_cost_lamports capacity + required
                     then Some ''portfolio_exposure_limit_reached''
                   else if cash_lamports b < required then Some ''paper_cash_insufficient''
                   else None))"

text \<open>The decision of the refreshed evidence against the receipt of the entry.\<close>

definition refreshed_blocker :: "paper_order \<Rightarrow> decision \<Rightarrow> decision \<Rightarrow> string option" where
  "refreshed_blocker order d refreshed =
     (if de_action refreshed \<noteq> Enter then
        Some (case de_blockers refreshed of [] \<Rightarrow> ''entry_thesis_deteriorated'' | x # _ \<Rightarrow> x)
      else
        let base = (case de_sizing_assessment d of Some a \<Rightarrow> Some (sa_base_size_sol a)
                    | None \<Rightarrow> de_planned_order_size_sol d);
            state = map_option ia_state (de_integrity_assessment refreshed)
        in if base \<noteq> None \<and> state \<noteq> Some Clean \<and>
              py_int (fmul (fmul (the base)
                 (case state of None \<Rightarrow> 1
                  | Some st \<Rightarrow> integrity_reference_size_multiplier (po_baseline_version_at_entry order) st))
                 lamports_f) + 1 < po_requested_sol_lamports order
           then Some ''entry_size_no_longer_supported_by_integrity'' else None)"

text \<open>\<open>DecisionEngine.evaluate\<close> draws an identifier and a clock reading for the decision it builds.\<close>

definition thesis_blocker ::
  "ctx \<Rightarrow> paper_order \<Rightarrow> risk_mode \<Rightarrow> feature_snapshot \<Rightarrow> decision \<Rightarrow> string option brk" where
  "thesis_blocker cx order mode features d =
     bnd (lift (entry_strategy_receipt_blocker (cx_env cx) d)) (\<lambda>provenance.
     case provenance of
       Some blocker \<Rightarrow> ret (Some blocker)
     | None \<Rightarrow>
         (case de_planned_order_size_sol d of
            None \<Rightarrow> raise AssertionError
          | Some planned \<Rightarrow>
              if 1 < \<bar>po_requested_sol_lamports order - sol_lamports planned\<bar>
              then ret (Some ''pending_order_size_differs_from_entry_receipt'')
              else
                bnd (gets id) (\<lambda>b.
                let entry_mode = (case po_risk_mode_at_entry order of None \<Rightarrow> mode | Some m \<Rightarrow> m) in
                bnd (on_db (fresh_uuid (cx_env cx))) (\<lambda>did.
                bnd (on_db (wall_now (cx_env cx))) (\<lambda>at_time.
                bnd (lift (evaluate (fill_engine cx) features entry_mode
                       (Some (true_div (po_requested_sol_lamports order) LAMPORTS_PER_SOL))
                       (Some (risk_limits_of b (Some entry_mode)))
                       (Some (po_baseline_version_at_entry order)) did at_time)) (\<lambda>refreshed.
                ret (refreshed_blocker order d refreshed)))))))"

definition pending_buy_fill_blocker ::
  "ctx \<Rightarrow> paper_order \<Rightarrow> risk_mode \<Rightarrow> decimal option \<Rightarrow> feature_snapshot \<Rightarrow> string option brk" where
  "pending_buy_fill_blocker cx order mode price features =
     bnd (snapshot cx (Some mode) True) (\<lambda>portfolio.
     bnd (gets id) (\<lambda>b.
     case fill_limits_blocker cx b order mode price portfolio of
       Some blocker \<Rightarrow> ret (Some blocker)
     | None \<Rightarrow>
         if po_baseline_version_at_entry order \<in> set LEARNABLE_BASELINE_VERSIONS then
           (case (if present (po_decision_id order)
                  then get_decision (tables_of b) (text_of (po_decision_id order)) else None) of
              None \<Rightarrow> ret (Some ''entry_thesis_unavailable_at_fill'')
            | Some d \<Rightarrow> thesis_blocker cx order mode features d)
         else if po_baseline_version_at_entry order \<noteq> LEGACY_BASELINE_VERSION
           then ret (Some ''unsupported_baseline_version'')
         else ret None))"

end
