(* ===== verification/Broker_Trade.thy ===== *)
theory Broker_Trade
  imports Broker_Entry
begin

text \<open>
  The trading side of \<open>paper/broker.py\<close>: marking an open position against the newest
  reserves, scheduling its exit, filling due orders against the curve with their ledger
  entries, and failing, expiring or cancelling the orders that do not fill.
\<close>

section \<open>Marks\<close>

definition route_updated :: "token_state \<Rightarrow> position \<Rightarrow> position" where
  "route_updated state p =
     p\<lparr> ps_venue := ts_venue state, ps_curve_address := ts_curve_address state,
        ps_pool_address := ts_pool_address state,
        ps_pool_base_token_account := ts_pool_base_token_account state,
        ps_pool_quote_token_account := ts_pool_quote_token_account state,
        ps_quote_mint := ts_quote_mint state \<rparr>"

definition route_blockers :: "feature_snapshot \<Rightarrow> string list" where
  "route_blockers features =
     sorted_set (filter (\<lambda>flag. flag \<in> set UNFILLABLE_SELL_FLAGS) (fs_hard_flags features))"

definition sell_quote :: "ctx \<Rightarrow> token_state \<Rightarrow> int \<Rightarrow> curve_quote result" where
  "sell_quote cx state units =
     quote_sell (ts_virtual_token_reserves state) (ts_virtual_quote_reserves state) units
       (state_fee_bps cx state) (network_fee cx) (ts_real_quote_reserves state)
       (ts_reserve_fee_components state) (ts_reserve_lp_fee_bps state)"

definition calculation_blocker :: "quote_currency \<Rightarrow> decimal option \<Rightarrow> string \<Rightarrow> string" where
  "calculation_blocker currency price message =
     (if currency = USDC \<and> price = None then ''fresh_sol_usdc_conversion_unavailable''
      else if contains ''real quote reserves'' message then ''insufficient_real_quote_liquidity''
      else ''mark_calculation_unavailable'')"

text \<open>The position that \<open>_mark_position\<close> saves. Every exception of the two calculations is a
  \<open>ValueError\<close>.\<close>

definition marked_position ::
  "ctx \<Rightarrow> quote_currency \<Rightarrow> token_state \<Rightarrow> feature_snapshot \<Rightarrow> decimal option \<Rightarrow> time \<Rightarrow> position
   \<Rightarrow> position result" where
  "marked_position cx currency state features price marked_at stored =
     (let p = route_updated state stored;
          blockers = route_blockers features
      in if ''stale_market_data'' \<in> set blockers then
           Inr (p\<lparr> ps_mark_is_stale := True, ps_mark_is_executable := False,
                   ps_mark_blockers := blockers, ps_market_status := Dormant \<rparr>)
         else
           (case rbind (sell_quote cx state (ps_token_units p)) (\<lambda>q.
                 account_minor_from_sol currency (cq_wallet_sol_lamports q) price RoundFloor) of
              Inl (ValueError message) \<Rightarrow>
                Inr (p\<lparr> ps_mark_is_executable := False,
                        ps_mark_blockers := sorted_set (calculation_blocker currency price message # blockers),
                        ps_market_status := ExitBlocked \<rparr>)
            | Inl e \<Rightarrow> Inl e
            | Inr mark \<Rightarrow>
                let executable = (blockers = []);
                    p' = p\<lparr> ps_last_mark_lamports := mark,
                            ps_unrealized_pnl_lamports := mark - ps_entry_cost_lamports p,
                            ps_last_marked_at := Some marked_at, ps_mark_age_seconds := Some 0,
                            ps_mark_is_stale := False, ps_mark_is_executable := executable,
                            ps_mark_blockers := blockers,
                            ps_market_status := (if executable then Active else ExitBlocked) \<rparr>
                in Inr (if executable \<and> (\<not> ps_mark_is_executable stored \<or> ps_peak_mark_lamports p' < mark)
                        then p'\<lparr> ps_peak_mark_lamports := mark, ps_peak_marked_at := Some marked_at \<rparr>
                        else p')))"

text \<open>The position object under a mint, changed in memory and then saved.\<close>

definition update_position :: "ctx \<Rightarrow> string \<Rightarrow> position \<Rightarrow> unit brk" where
  "update_position cx mint p =
     seq (modify (\<lambda>b. b\<lparr> bk_positions := AList.update mint p (bk_positions b) \<rparr>))
         (on_db (save_position (cx_env cx) p))"

text \<open>\<open>marked_at or state.last_event_at or datetime.now(UTC)\<close>.\<close>

definition effective_marked_at :: "ctx \<Rightarrow> token_state \<Rightarrow> time option \<Rightarrow> time brk" where
  "effective_marked_at cx state marked_at =
     (case marked_at of
        Some t \<Rightarrow> ret t
      | None \<Rightarrow> (case ts_last_event_at state of Some t \<Rightarrow> ret t | None \<Rightarrow> on_db (wall_now (cx_env cx))))"

definition mark_out_of_order :: "time \<Rightarrow> position \<Rightarrow> bool" where
  "mark_out_of_order effective p \<longleftrightarrow>
     effective < ps_opened_at p \<or>
     (case ps_last_marked_at p of None \<Rightarrow> False | Some last_at \<Rightarrow> effective < last_at)"

definition mark_position ::
  "ctx \<Rightarrow> token_state \<Rightarrow> feature_snapshot \<Rightarrow> decimal option \<Rightarrow> time option \<Rightarrow> unit brk" where
  "mark_position cx state features price marked_at =
     bnd (gets id) (\<lambda>b.
     case map_of (bk_positions b) (ts_mint state) of
       None \<Rightarrow> ret ()
     | Some p \<Rightarrow>
         bnd (effective_marked_at cx state marked_at) (\<lambda>effective.
         if mark_out_of_order effective p then ret ()
         else bnd (lift (marked_position cx (bk_quote_currency b) state features price effective p))
                (update_position cx (ts_mint state))))"

definition reserve_observed_at :: "token_state \<Rightarrow> time option" where
  "reserve_observed_at state =
     (case ts_last_reserve_at state of Some t \<Rightarrow> Some t | None \<Rightarrow> ts_last_event_at state)"

definition mark_timestamp :: "token_state \<Rightarrow> feature_snapshot \<Rightarrow> time \<Rightarrow> time" where
  "mark_timestamp state features fallback =
     (case map_of (fs_values features) ''price_sol'' of
        Some price \<Rightarrow> dv_as_of price
      | None \<Rightarrow> (case reserve_observed_at state of Some t \<Rightarrow> t | None \<Rightarrow> fallback))"

section \<open>Exits\<close>

definition effective_exit_limits :: "position \<Rightarrow> risk_mode \<Rightarrow> risk_limits" where
  "effective_exit_limits p mode =
     (let current = RISK_LIMITS mode;
          entered = RISK_LIMITS (case ps_risk_mode_at_entry p of None \<Rightarrow> mode | Some m \<Rightarrow> m)
      in current\<lparr>
           rl_stop_loss_fraction := min (rl_stop_loss_fraction current) (rl_stop_loss_fraction entered),
           rl_take_profit_fraction := min (rl_take_profit_fraction current) (rl_take_profit_fraction entered),
           rl_trailing_stop_fraction := min (rl_trailing_stop_fraction current) (rl_trailing_stop_fraction entered),
           rl_minimum_hold_support := max (rl_minimum_hold_support current) (rl_minimum_hold_support entered),
           rl_migration_guard_progress := min (rl_migration_guard_progress current) (rl_migration_guard_progress entered),
           rl_max_hold_seconds := min (rl_max_hold_seconds current) (rl_max_hold_seconds entered),
           rl_hard_max_hold_seconds := min (rl_hard_max_hold_seconds current) (rl_hard_max_hold_seconds entered) \<rparr>)"

definition position_exit_limits :: "broker \<Rightarrow> position \<Rightarrow> risk_mode \<Rightarrow> risk_limits" where
  "position_exit_limits b p mode =
     (if bk_season_profile b \<noteq> None then risk_limits_of b (Some mode) else effective_exit_limits p mode)"

text \<open>The warning counters after one integrity assessment.\<close>

definition warned_position :: "integrity_state \<Rightarrow> time \<Rightarrow> time \<Rightarrow> position \<Rightarrow> position" where
  "warned_position state evidence_at now p =
     (let gap = map_option (\<lambda>t. total_seconds (evidence_at - t)) (ps_integrity_last_warning_at p);
          counted =
            (if state = Clean then
               p\<lparr> ps_integrity_warning_count := 0, ps_integrity_warning_since := None,
                  ps_integrity_last_warning_at := None \<rparr>
             else if state = Suspicious \<or> state = Severe then
               (if ps_integrity_warning_since p = None \<or> (case gap of None \<Rightarrow> False | Some g \<Rightarrow> 60 < g) then
                  p\<lparr> ps_integrity_warning_since := Some evidence_at, ps_integrity_warning_count := 1,
                     ps_integrity_last_warning_at := Some evidence_at \<rparr>
                else if (case gap of None \<Rightarrow> True | Some g \<Rightarrow> 5 \<le> g) then
                  p\<lparr> ps_integrity_warning_count := ps_integrity_warning_count p + 1,
                     ps_integrity_last_warning_at := Some evidence_at \<rparr>
                else p)
             else p)
      in counted\<lparr> ps_integrity_last_state := state, ps_integrity_last_evaluated_at := Some now \<rparr>)"

definition warning_reason :: "integrity_state \<Rightarrow> time \<Rightarrow> position \<Rightarrow> string option" where
  "warning_reason state now p =
     (let age = (case ps_integrity_warning_since p of None \<Rightarrow> 0 | Some t \<Rightarrow> total_seconds (now - t))
      in if state = Severe \<and> 2 \<le> ps_integrity_warning_count p \<and> 10 \<le> age
           then Some ''persistent_severe_market_integrity''
         else if state = Suspicious \<and> 3 \<le> ps_integrity_warning_count p \<and> 20 \<le> age
           then Some ''persistent_suspicious_market_integrity''
         else None)"

definition persistent_integrity_exit_reason ::
  "position \<Rightarrow> feature_snapshot \<Rightarrow> time \<Rightarrow> (position \<times> string option) result" where
  "persistent_integrity_exit_reason p features now =
     (if ps_baseline_version_at_entry p \<notin> set LEARNABLE_BASELINE_VERSIONS then Inr (p, None)
      else rbind (integrity_policy_for_baseline (ps_baseline_version_at_entry p)) (\<lambda>policy.
           rbind (assess_market_integrity features policy) (\<lambda>a.
           let evidence_at = (case map_of (fs_values features) ''trade_count_5m'' of
                                None \<Rightarrow> fs_computed_at features | Some sample \<Rightarrow> dv_as_of sample);
               p' = warned_position (ia_state a) evidence_at now p
           in Inr (p', warning_reason (ia_state a) now p'))))"

definition sell_order :: "ctx \<Rightarrow> position \<Rightarrow> string \<Rightarrow> time \<Rightarrow> string \<Rightarrow> paper_order" where
  "sell_order cx p order_id now reason =
     \<lparr> po_order_id = order_id, po_decision_id = None, po_mint = ps_mint p, po_symbol = ps_symbol p,
       po_side = Sell, po_status = Pending, po_requested_sol_lamports = 0,
       po_requested_token_units = ps_token_units p, po_reserved_account_minor = 0,
       po_created_at = now, po_fill_after = now + milliseconds (cf_exit_latency_ms (cx_cfg cx)),
       po_filled_at = None, po_failure_reason = Some (''scheduled_reason:'' @ reason),
       po_risk_mode_at_entry = ps_risk_mode_at_entry p,
       po_baseline_version_at_entry = LEGACY_BASELINE_VERSION, po_exit_timing_plan = None \<rparr>"

definition submit_sell :: "ctx \<Rightarrow> position \<Rightarrow> time \<Rightarrow> string \<Rightarrow> unit brk" where
  "submit_sell cx p now reason =
     bnd (on_db (fresh_uuid (cx_env cx))) (\<lambda>order_id.
     let order = sell_order cx p order_id now reason in
     seq (guard (order_fields_ok order) (ValueError ''invalid paper order'')) (add_pending order))"

text \<open>The assessment that is stored with the position, and the position that carries it.\<close>

definition stamped_assessment ::
  "broker \<Rightarrow> risk_limits \<Rightarrow> (string \<times> string) list option \<Rightarrow> exit_assessment \<Rightarrow> exit_assessment" where
  "stamped_assessment b limits participant a =
     a\<lparr> ea_strategy_season_id := bk_season_id b,
        ea_strategy_participant :=
          (if ea_soft_hold_seconds a < rl_max_hold_seconds limits then participant else None) \<rparr>"

definition schedule_exit_if_needed ::
  "ctx \<Rightarrow> token_state \<Rightarrow> feature_snapshot \<Rightarrow> time \<Rightarrow> risk_mode \<Rightarrow> int option
   \<Rightarrow> (string \<times> string) list option \<Rightarrow> unit brk" where
  "schedule_exit_if_needed cx state features now mode soft participant =
     bnd (gets id) (\<lambda>b.
     case map_of (bk_positions b) (ts_mint state) of
       None \<Rightarrow> ret ()
     | Some p \<Rightarrow>
         if has_pending_for b (ts_mint state) (Some Sell) \<or> now < ps_opened_at p then ret ()
         else
           let limits = position_exit_limits b p mode in
           bnd (lift (persistent_integrity_exit_reason p features now)) (\<lambda>(p', integrity_reason).
           let assessment = stamped_assessment b limits participant
                              (assess_exit p' features now limits soft integrity_reason);
               p'' = p'\<lparr> ps_exit_assessment := Some assessment \<rparr>
           in seq (update_position cx (ts_mint state) p'')
                (when_do (ea_action assessment = Exit \<and> ps_mark_is_executable p'')
                   (submit_sell cx p'' now (ea_reason assessment)))))"

section \<open>Orders that do not fill\<close>

text \<open>The order is changed in place, saved, and leaves the pending orders once saved.\<close>

definition retire_order :: "paper_order \<Rightarrow> unit brk" where
  "retire_order order =
     seq (add_pending order)
         (modify (\<lambda>b. b\<lparr> bk_pending := AList.delete (po_order_id order) (bk_pending b) \<rparr>))"

definition failed_order :: "paper_order \<Rightarrow> string \<Rightarrow> time \<Rightarrow> paper_order" where
  "failed_order order reason now =
     order\<lparr> po_status := Failed, po_failure_reason := Some (take 300 reason), po_filled_at := Some now \<rparr>"

definition fail_order :: "paper_order \<Rightarrow> string \<Rightarrow> time \<Rightarrow> unit brk" where
  "fail_order order reason now = retire_order (failed_order order reason now)"

definition cancel_order :: "time \<Rightarrow> string \<Rightarrow> paper_order \<Rightarrow> unit brk" where
  "cancel_order now reason order =
     retire_order (order\<lparr> po_status := Cancelled, po_failure_reason := Some reason,
                          po_filled_at := Some now \<rparr>)"

definition cancel_pending_orders :: "time \<Rightarrow> string \<Rightarrow> int brk" where
  "cancel_pending_orders now reason =
     bnd (gets (\<lambda>b. values_of (bk_pending b))) (\<lambda>orders.
     seq (for_each orders (cancel_order now reason)) (ret (int (length orders))))"

definition cancel_pending_buys :: "time \<Rightarrow> string \<Rightarrow> int brk" where
  "cancel_pending_buys now reason =
     bnd (gets (\<lambda>b. filter (\<lambda>order. po_side order = Buy) (values_of (bk_pending b)))) (\<lambda>orders.
     seq (for_each orders (cancel_order now reason)) (ret (int (length orders))))"

definition cancel_pending_sells :: "time \<Rightarrow> string \<Rightarrow> int brk" where
  "cancel_pending_sells now reason =
     bnd (gets (\<lambda>b. filter (\<lambda>order. po_side order = Sell) (values_of (bk_pending b)))) (\<lambda>orders.
     seq (for_each orders (cancel_order now reason)) (ret (int (length orders))))"

definition stuck :: "time \<Rightarrow> paper_order \<Rightarrow> bool" where
  "stuck now order \<longleftrightarrow> 90 < total_seconds (now - po_fill_after order)"

definition expire_stuck_orders :: "time \<Rightarrow> paper_order list brk" where
  "expire_stuck_orders now =
     (let reason = ''no_fresh_executable_market_state_within_90_seconds'' in
      bnd (gets (\<lambda>b. filter (stuck now) (values_of (bk_pending b)))) (\<lambda>orders.
      seq (for_each orders (\<lambda>order. fail_order order reason now))
          (ret (map (\<lambda>order. failed_order order reason now) orders))))"

definition schedule_profile_transition_exits :: "ctx \<Rightarrow> time \<Rightarrow> int brk" where
  "schedule_profile_transition_exits cx now =
     bnd (snapshot cx None False) (\<lambda>portfolio.
     bnd (collect (pf_positions portfolio) (\<lambda>observed.
       bnd (gets id) (\<lambda>b.
       if ps_market_status observed \<noteq> Active \<or> has_pending_for b (ps_mint observed) (Some Sell) then ret None
       else (case map_of (bk_positions b) (ps_mint observed) of
               None \<Rightarrow> ret None
             | Some p \<Rightarrow> seq (submit_sell cx p now ''manual_profile_change'') (ret (Some ()))))))
     (\<lambda>scheduled. ret (int (length scheduled))))"

section \<open>Fills\<close>

definition buy_quote :: "ctx \<Rightarrow> token_state \<Rightarrow> int \<Rightarrow> curve_quote result" where
  "buy_quote cx state budget =
     quote_buy (ts_virtual_token_reserves state) (ts_virtual_quote_reserves state)
       (ts_real_token_reserves state) budget (state_fee_bps cx state) (network_fee cx)"

text \<open>The two guarded calculations of a fill; both handlers do the same with the message.\<close>

definition fill_quote ::
  "ctx \<Rightarrow> quote_currency \<Rightarrow> paper_order \<Rightarrow> token_state \<Rightarrow> decimal option \<Rightarrow> position option
   \<Rightarrow> (curve_quote \<times> account_values) result" where
  "fill_quote cx currency order state price held =
     rbind (if po_side order = Buy then buy_quote cx state (po_requested_sol_lamports order)
            else (case held of
                    None \<Rightarrow> Inl (ValueError ''position no longer exists'')
                  | Some p \<Rightarrow> sell_quote cx state (ps_token_units p))) (\<lambda>q.
     rbind (account_fill_values currency (po_side order) (cq_curve_sol_lamports q)
              (cq_protocol_fee_lamports q) (cq_network_fee_lamports q) (cq_wallet_sol_lamports q) price) (\<lambda>v.
     Inr (q, v)))"

definition scheduled_prefix :: string where
  "scheduled_prefix = ''scheduled_reason:''"

definition fee_observed :: "token_state \<Rightarrow> bool" where
  "fee_observed state \<longleftrightarrow> ts_reserve_fee_components state \<noteq> None \<or> ts_fee_bps state \<noteq> 0"

definition fee_provenance :: "side \<Rightarrow> token_state \<Rightarrow> (string \<times> json) list" where
  "fee_provenance sd state =
     (let components = (if sd = Sell then ts_reserve_fee_components state else None) in
      [(''version'', JInt 1),
       (''rounding'', JStr (if components \<noteq> None then ''components'' else ''aggregate'')),
       (''fee_components'', case components of None \<Rightarrow> JNull | Some ps \<Rightarrow> JList (map JInt ps)),
       (''lp_fee_bps'', JInt (if sd = Sell then ts_reserve_lp_fee_bps state else 0)),
       (''source'', JStr (if fee_observed state then ''observed_event'' else ''configured_fallback''))])"

definition fill_assumptions :: "paper_order \<Rightarrow> token_state \<Rightarrow> int \<Rightarrow> string list" where
  "fill_assumptions order state fee_bps =
     (case po_failure_reason order of
        None \<Rightarrow> []
      | Some r \<Rightarrow> if po_side order = Sell \<and> starts_with scheduled_prefix r then [r] else []) @
     [''protocol_fee_bps='' @ str_of_int fee_bps,
      if fee_observed state then ''fee_source=observed_event'' else ''fee_source=configured_fallback'',
      ''filled_after_configured_latency_against_latest_observed_reserves'',
      ''constant_product_integer_rounding'']"

definition fill_reserves :: "token_state \<Rightarrow> time \<Rightarrow> int \<Rightarrow> reserve_snapshot" where
  "fill_reserves state now fee_bps =
     \<lparr> rs_observed_at = (case reserve_observed_at state of Some t \<Rightarrow> t | None \<Rightarrow> now),
       rs_event_id = ts_last_reserve_event_id state, rs_signature = ts_last_reserve_signature state,
       rs_slot = ts_last_reserve_slot state,
       rs_source = (if ts_reserve_source state = [] then ''unknown'' else ts_reserve_source state),
       rs_venue = ts_venue state, rs_quote_mint = ts_quote_mint state,
       rs_virtual_token_reserves = ts_virtual_token_reserves state,
       rs_virtual_quote_reserves = ts_virtual_quote_reserves state,
       rs_real_token_reserves = ts_real_token_reserves state,
       rs_real_quote_reserves = ts_real_quote_reserves state, rs_fee_bps = fee_bps \<rparr>"

text \<open>The return of the position against its entry cost, and of its peak mark.\<close>

definition realized_return :: "int \<Rightarrow> position option \<Rightarrow> pyfloat option" where
  "realized_return net held =
     (case held of
        None \<Rightarrow> None
      | Some p \<Rightarrow> if ps_entry_cost_lamports p = 0 then None
                  else Some (clamp (- 1) 10 (true_div (net - ps_entry_cost_lamports p) (ps_entry_cost_lamports p))))"

definition peak_return_of :: "position option \<Rightarrow> pyfloat option" where
  "peak_return_of held =
     (case held of
        None \<Rightarrow> None
      | Some p \<Rightarrow> if ps_entry_cost_lamports p = 0 then None
                  else Some (clamp (- 1) 10 (fsub (true_div (ps_peak_mark_lamports p) (ps_entry_cost_lamports p)) 1)))"

definition manual_profile_exit :: "paper_order \<Rightarrow> bool" where
  "manual_profile_exit order \<longleftrightarrow>
     po_side order = Sell \<and> po_failure_reason order = Some (scheduled_prefix @ ''manual_profile_change'')"

definition fill_receipt_of ::
  "ctx \<Rightarrow> broker \<Rightarrow> string \<Rightarrow> paper_order \<Rightarrow> token_state \<Rightarrow> string \<Rightarrow> time \<Rightarrow> decimal option
   \<Rightarrow> position option \<Rightarrow> curve_quote \<Rightarrow> account_values \<Rightarrow> fill_receipt" where
  "fill_receipt_of cx b fill_id order state source_event_id now price held q v =
     migrate_legacy_sol_account_values
     \<lparr> fr_fill_id = fill_id, fr_order_id = po_order_id order, fr_mint = po_mint order,
       fr_symbol = po_symbol order, fr_side = po_side order, fr_filled_at = now,
       fr_token_units = cq_token_units q, fr_gross_sol_lamports = cq_curve_sol_lamports q,
       fr_protocol_fee_lamports = cq_protocol_fee_lamports q,
       fr_network_fee_lamports = cq_network_fee_lamports q,
       fr_net_sol_lamports = cq_wallet_sol_lamports q,
       fr_price_impact_fraction = cq_price_impact_fraction q,
       fr_latency_ms = max 0 (py_int (fmul (total_seconds (now - po_created_at order)) 1000)),
       fr_source_event_id = source_event_id, fr_venue = ts_venue state,
       fr_execution_model_version = ''constant-product-v1'',
       fr_reserve_snapshot = Some (fill_reserves state now (state_fee_bps cx state)),
       fr_execution_fee_provenance = Some (fee_provenance (po_side order) state),
       fr_assumptions = fill_assumptions order state (state_fee_bps cx state),
       fr_account_currency = bk_quote_currency b, fr_account_decimals = bk_quote_decimals b,
       fr_account_gross_minor = av_gross v, fr_account_protocol_fee_minor = av_protocol v,
       fr_account_network_fee_minor = av_network v, fr_account_net_minor = av_net v,
       fr_sol_usd_price = (if bk_quote_currency b = USDC then price else None),
       fr_exit_assessment = (if manual_profile_exit order then None else Option.bind held ps_exit_assessment),
       fr_position_opened_at = map_option ps_opened_at held,
       fr_entry_risk_mode = Option.bind held ps_risk_mode_at_entry,
       fr_peak_account_minor = (case held of None \<Rightarrow> 0 | Some p \<Rightarrow> ps_peak_mark_lamports p),
       fr_realized_return_fraction = realized_return (av_net v) held,
       fr_peak_return_fraction = peak_return_of held \<rparr>"

text \<open>The range constraints that \<open>FillReceipt\<close>, its reserve snapshot, \<open>Position\<close> and
  \<open>LearningEvidenceEpisode\<close> declare.\<close>

definition reserves_fields_ok :: "reserve_snapshot \<Rightarrow> bool" where
  "reserves_fields_ok r \<longleftrightarrow>
     0 \<le> rs_slot r \<and> 0 \<le> rs_virtual_token_reserves r \<and> 0 \<le> rs_virtual_quote_reserves r \<and>
     0 \<le> rs_real_token_reserves r \<and>
     (case rs_real_quote_reserves r of None \<Rightarrow> True | Some n \<Rightarrow> 0 \<le> n) \<and>
     0 \<le> rs_fee_bps r \<and> rs_fee_bps r \<le> 10000"

definition receipt_fields_ok :: "fill_receipt \<Rightarrow> bool" where
  "receipt_fields_ok r \<longleftrightarrow>
     0 \<le> fr_token_units r \<and> 0 \<le> fr_gross_sol_lamports r \<and> 0 \<le> fr_protocol_fee_lamports r \<and>
     0 \<le> fr_network_fee_lamports r \<and> 0 \<le> fr_net_sol_lamports r \<and>
     0 \<le> fr_price_impact_fraction r \<and> fr_price_impact_fraction r \<le> 1 \<and> 0 \<le> fr_latency_ms r \<and>
     (case fr_reserve_snapshot r of None \<Rightarrow> True | Some s \<Rightarrow> reserves_fields_ok s) \<and>
     0 \<le> fr_account_decimals r \<and> fr_account_decimals r \<le> 18 \<and>
     0 \<le> fr_account_gross_minor r \<and> 0 \<le> fr_account_protocol_fee_minor r \<and>
     0 \<le> fr_account_network_fee_minor r \<and> 0 \<le> fr_account_net_minor r \<and>
     (case fr_sol_usd_price r of None \<Rightarrow> True | Some x \<Rightarrow> 0 < x) \<and> 0 \<le> fr_peak_account_minor r"

definition position_fields_ok :: "position \<Rightarrow> bool" where
  "position_fields_ok p \<longleftrightarrow>
     0 \<le> ps_token_units p \<and> 0 \<le> ps_entry_cost_lamports p \<and> 0 \<le> ps_book_value_lamports p"

definition episode_fields_ok :: "evidence_episode \<Rightarrow> bool" where
  "episode_fields_ok e \<longleftrightarrow>
     (case ep_token_units e of None \<Rightarrow> True | Some n \<Rightarrow> 0 < n) \<and>
     (case ep_entry_cost_lamports e of None \<Rightarrow> True | Some n \<Rightarrow> 0 < n) \<and>
     (case ep_entry_account_minor e of None \<Rightarrow> True | Some n \<Rightarrow> 0 \<le> n) \<and>
     (case ep_entry_price_impact_fraction e of None \<Rightarrow> True | Some x \<Rightarrow> 0 \<le> x \<and> x \<le> 1) \<and>
     0 \<le> ep_fee_bps e \<and> ep_fee_bps e \<le> 10000 \<and> 0 \<le> ep_total_fee_account_minor e"

definition notify_evidence_observer :: "evidence_episode option \<Rightarrow> unit brk" where
  "notify_evidence_observer episode =
     (case episode of
        None \<Rightarrow> ret ()
      | Some e \<Rightarrow> modify (\<lambda>b. b\<lparr> bk_notified := bk_notified b @ [e] \<rparr>))"

text \<open>\<open>policy.x if policy is not None else decision.y if decision is not None else z\<close>.\<close>

definition from_evidence :: "('p \<Rightarrow> 'a) \<Rightarrow> ('d \<Rightarrow> 'a) \<Rightarrow> 'a \<Rightarrow> 'p option \<Rightarrow> 'd option \<Rightarrow> 'a" where
  "from_evidence f g z policy d =
     (case policy of Some e \<Rightarrow> f e | None \<Rightarrow> (case d of Some x \<Rightarrow> g x | None \<Rightarrow> z))"

definition trajectory_key :: "env \<Rightarrow> string option \<Rightarrow> string \<Rightarrow> string \<Rightarrow> string \<Rightarrow> string" where
  "trajectory_key env season_id mint baseline schema =
     en_sha256 env (join [CHR 0x0A]
       [''learning-evidence-v2'', ''execution'',
        if present season_id then text_of season_id else ''unseasoned'', mint, baseline, schema])"

definition execution_episode_for_buy ::
  "ctx \<Rightarrow> broker \<Rightarrow> paper_order \<Rightarrow> fill_receipt \<Rightarrow> token_state \<Rightarrow> evidence_episode" where
  "execution_episode_for_buy cx b order receipt state =
     (let known = present (po_decision_id order);
          did = text_of (po_decision_id order);
          d = (if known then get_decision (tables_of b) did else None);
          policy = (if known then learning_evidence_for_decision (tables_of b) did else None);
          season_id = from_evidence ep_season_id de_season_id (bk_season_id b) policy d;
          baseline = (case policy of Some e \<Rightarrow> ep_baseline_version e | None \<Rightarrow> po_baseline_version_at_entry order);
          schema = (case policy of Some e \<Rightarrow> ep_feature_schema_version e | None \<Rightarrow> ''execution-evidence-v1'')
      in \<lparr> ep_episode_id = ''execution-'' @ fr_fill_id receipt,
           ep_idempotency_key = ''execution:'' @ fr_fill_id receipt,
           ep_lane = LaneExecution, ep_status = EvPending,
           ep_trajectory_key = trajectory_key (cx_env cx) season_id (po_mint order) baseline schema,
           ep_mint = po_mint order, ep_symbol = po_symbol order, ep_created_at = fr_filled_at receipt,
           ep_entry_at = fr_filled_at receipt, ep_completed_at = None, ep_completion_reason = None,
           ep_qualification_eligible = False, ep_decision_id = po_decision_id order,
           ep_order_id = Some (po_order_id order), ep_entry_fill_id = Some (fr_fill_id receipt),
           ep_exit_fill_id = None, ep_season_id = season_id,
           ep_season_profile_fingerprint =
             from_evidence ep_season_profile_fingerprint de_season_profile_fingerprint
               (map_option sp_profile_fingerprint (bk_season_profile b)) policy d,
           ep_risk_mode = (case po_risk_mode_at_entry order of Some m \<Rightarrow> m
                           | None \<Rightarrow> from_evidence ep_risk_mode de_risk_mode Balanced policy d),
           ep_account_currency = Some (fr_account_currency receipt),
           ep_configuration_fingerprint =
             from_evidence ep_configuration_fingerprint de_configuration_fingerprint None policy d,
           ep_baseline_version = baseline, ep_feature_schema_version = schema,
           ep_baseline_action = from_evidence ep_baseline_action de_action Enter policy d,
           ep_baseline_actionable = True,
           ep_features = (case policy of Some e \<Rightarrow> ep_features e | None \<Rightarrow> []),
           ep_active_skill_versions = (case policy of Some e \<Rightarrow> ep_active_skill_versions e | None \<Rightarrow> []),
           ep_challenger_evaluations = (case policy of Some e \<Rightarrow> ep_challenger_evaluations e | None \<Rightarrow> []),
           ep_token_units = Some (fr_token_units receipt),
           ep_entry_cost_lamports = Some (fr_net_sol_lamports receipt),
           ep_entry_account_minor = Some (fr_account_net_minor receipt),
           ep_entry_price_impact_fraction = Some (fr_price_impact_fraction receipt),
           ep_fee_bps = state_fee_bps cx state, ep_venue = Some (fr_venue receipt),
           ep_quote_mint = Some (ts_quote_mint state),
           ep_entry_route_event_id = Some (fr_source_event_id receipt),
           ep_entry_reserve_observed_at = reserve_observed_at state,
           ep_realized_return_fraction = None, ep_realized_account_minor = None,
           ep_total_fee_account_minor =
             fr_account_protocol_fee_minor receipt + fr_account_network_fee_minor receipt,
           ep_exit_reason = None \<rparr>)"

definition inventory_account :: "string \<Rightarrow> string" where
  "inventory_account mint = ''inventory:'' @ mint"

definition buy_entries :: "string \<Rightarrow> fill_receipt \<Rightarrow> ledger_row list" where
  "buy_entries mint receipt =
     [(inventory_account mint, fr_account_net_minor receipt - fr_account_network_fee_minor receipt, 0,
       ''Virtual token inventory''),
      (''network_expense'', fr_account_network_fee_minor receipt, 0, ''Simulated network fee''),
      (''cash'', 0, fr_account_net_minor receipt, ''Paper buy cash outflow'')]"

definition opened_position :: "string \<Rightarrow> paper_order \<Rightarrow> fill_receipt \<Rightarrow> token_state \<Rightarrow> position" where
  "opened_position position_id order receipt state =
     \<lparr> ps_position_id = position_id, ps_mint = po_mint order, ps_symbol = po_symbol order,
       ps_token_units = fr_token_units receipt, ps_entry_cost_lamports = fr_account_net_minor receipt,
       ps_book_value_lamports = fr_account_net_minor receipt - fr_account_network_fee_minor receipt,
       ps_opened_at = fr_filled_at receipt, ps_entry_fill_id = fr_fill_id receipt,
       ps_venue = ts_venue state, ps_curve_address = ts_curve_address state,
       ps_pool_address = ts_pool_address state,
       ps_pool_base_token_account = ts_pool_base_token_account state,
       ps_pool_quote_token_account = ts_pool_quote_token_account state,
       ps_quote_mint = ts_quote_mint state, ps_last_mark_lamports = 0, ps_unrealized_pnl_lamports = 0,
       ps_last_marked_at = None, ps_mark_age_seconds = None, ps_mark_is_stale = True,
       ps_mark_is_executable = False, ps_mark_blockers = [], ps_market_status = Dormant,
       ps_risk_mode_at_entry = po_risk_mode_at_entry order,
       ps_baseline_version_at_entry = po_baseline_version_at_entry order,
       ps_exit_timing_plan = po_exit_timing_plan order, ps_peak_mark_lamports = 0,
       ps_peak_marked_at = None, ps_exit_assessment = None, ps_integrity_warning_count = 0,
       ps_integrity_warning_since = None, ps_integrity_last_warning_at = None,
       ps_integrity_last_evaluated_at = None, ps_integrity_last_state = Uncertain \<rparr>"

definition account_buy :: "ctx \<Rightarrow> paper_order \<Rightarrow> fill_receipt \<Rightarrow> token_state \<Rightarrow> unit brk" where
  "account_buy cx order receipt state =
     bnd (on_db (fresh_uuid (cx_env cx))) (\<lambda>position_id.
     let p = opened_position position_id order receipt state in
     seq (guard (position_fields_ok p) (ValueError ''invalid position''))
     (bnd (gets (\<lambda>b. execution_episode_for_buy cx b order receipt state)) (\<lambda>episode.
     seq (guard (episode_fields_ok episode) (ValueError ''invalid evidence episode''))
     (seq (on_db (commit_buy_fill order receipt p (buy_entries (po_mint order) receipt) (Some episode)))
     (seq (modify (\<lambda>b. b\<lparr> bk_positions := AList.update (po_mint order) p (bk_positions b),
                          bk_traded_mints := (if po_mint order \<in> set (bk_traded_mints b)
                            then bk_traded_mints b else bk_traded_mints b @ [po_mint order]) \<rparr>))
          (notify_evidence_observer (Some episode)))))))"

definition sell_entries :: "string \<Rightarrow> fill_receipt \<Rightarrow> position \<Rightarrow> ledger_row list" where
  "sell_entries mint receipt p =
     (let gross = fr_account_gross_minor receipt; book = ps_book_value_lamports p in
      [(''cash'', fr_account_net_minor receipt, 0, ''Paper sell cash inflow''),
       (''exit_expense'', fr_account_protocol_fee_minor receipt + fr_account_network_fee_minor receipt, 0,
        ''Protocol and network fees''),
       (inventory_account mint, 0, book, ''Close virtual token inventory''),
       if book \<le> gross then (''realized_gain'', 0, gross - book, ''Realized paper gain'')
       else (''realized_loss'', book - gross, 0, ''Realized paper loss'')])"

definition sell_exit_reason :: "fill_receipt \<Rightarrow> string" where
  "sell_exit_reason receipt =
     (case fr_exit_assessment receipt of
        Some a \<Rightarrow> ea_reason a
      | None \<Rightarrow> (case List.find (starts_with scheduled_prefix) (fr_assumptions receipt) of
                   Some a \<Rightarrow> drop (length scheduled_prefix) a
                 | None \<Rightarrow> ''paper_exit_filled''))"

definition completed_episode :: "fill_receipt \<Rightarrow> evidence_episode \<Rightarrow> evidence_episode" where
  "completed_episode receipt e =
     e\<lparr> ep_status := EvComplete, ep_completed_at := Some (fr_filled_at receipt),
        ep_completion_reason := Some ''paper_exit_filled'',
        ep_exit_fill_id := Some (fr_fill_id receipt),
        ep_realized_return_fraction := fr_realized_return_fraction receipt,
        ep_realized_account_minor := Some (fr_account_net_minor receipt),
        ep_total_fee_account_minor := ep_total_fee_account_minor e +
          fr_account_protocol_fee_minor receipt + fr_account_network_fee_minor receipt,
        ep_exit_reason := Some (sell_exit_reason receipt) \<rparr>"

definition account_sell :: "paper_order \<Rightarrow> fill_receipt \<Rightarrow> unit brk" where
  "account_sell order receipt =
     bnd (gets id) (\<lambda>b.
     case map_of (bk_positions b) (po_mint order) of
       None \<Rightarrow> raise (KeyError (po_mint order))
     | Some p \<Rightarrow>
         bnd (lift (setting_int (tables_of b) ''realized_pnl_lamports'' 0)) (\<lambda>previous.
         let running = previous + (fr_account_net_minor receipt - ps_entry_cost_lamports p);
             episode = map_option (completed_episode receipt)
                         (execution_evidence_for_entry_fill (tables_of b) (ps_entry_fill_id p))
         in seq (on_db (commit_sell_fill order receipt p (sell_entries (po_mint order) receipt p) running episode))
           (seq (modify (\<lambda>b. b\<lparr> bk_positions := AList.delete (po_mint order) (bk_positions b) \<rparr>))
                (notify_evidence_observer episode))))"

text \<open>A fill that has its receipt: the accounting, the first mark of an entry.\<close>

definition settle_fill ::
  "ctx \<Rightarrow> paper_order \<Rightarrow> token_state \<Rightarrow> feature_snapshot \<Rightarrow> time \<Rightarrow> decimal option \<Rightarrow> fill_receipt
   \<Rightarrow> fill_receipt option brk" where
  "settle_fill cx order state features now price receipt =
     (let filled = order\<lparr> po_status := Filled, po_filled_at := Some now \<rparr> in
      seq (guard (receipt_fields_ok receipt) (ValueError ''invalid fill receipt''))
      (seq (if po_side order = Buy then
              seq (account_buy cx filled receipt state) (mark_position cx state features price (Some now))
            else account_sell filled receipt)
      (seq (modify (\<lambda>b. b\<lparr> bk_pending := AList.delete (po_order_id order) (bk_pending b) \<rparr>))
           (ret (Some receipt)))))"

definition execute_fill ::
  "ctx \<Rightarrow> paper_order \<Rightarrow> token_state \<Rightarrow> feature_snapshot \<Rightarrow> string \<Rightarrow> time \<Rightarrow> decimal option
   \<Rightarrow> position option \<Rightarrow> curve_quote \<Rightarrow> account_values \<Rightarrow> fill_receipt option brk" where
  "execute_fill cx order state features source_event_id now price held q v =
     bnd (on_db (fresh_uuid (cx_env cx))) (\<lambda>fill_id.
     bnd (gets (\<lambda>b. fill_receipt_of cx b fill_id order state source_event_id now price held q v))
       (settle_fill cx order state features now price))"

definition fill ::
  "ctx \<Rightarrow> paper_order \<Rightarrow> token_state \<Rightarrow> feature_snapshot \<Rightarrow> string \<Rightarrow> time \<Rightarrow> decimal option
   \<Rightarrow> fill_receipt option brk" where
  "fill cx order state features source_event_id now price =
     (if now < po_created_at order \<or> now < po_fill_after order then ret None
      else
        bnd (gets id) (\<lambda>b.
        let held = (if po_side order = Sell then map_of (bk_positions b) (po_mint order) else None) in
        if (case held of None \<Rightarrow> False | Some p \<Rightarrow> now < ps_opened_at p) then ret None
        else
          (case fill_quote cx (bk_quote_currency b) order state price held of
             Inl (ValueError message) \<Rightarrow> seq (fail_order order message now) (ret None)
           | Inl e \<Rightarrow> raise e
           | Inr (q, v) \<Rightarrow>
               if po_side order = Buy \<and> cash_lamports b < av_net v
               then seq (fail_order order ''virtual cash changed before the order filled'' now) (ret None)
               else execute_fill cx order state features source_event_id now price held q v)))"

section \<open>Equity samples\<close>

definition broker_record_equity :: "ctx \<Rightarrow> time \<Rightarrow> bool \<Rightarrow> unit brk" where
  "broker_record_equity cx now force =
     bnd (gets bk_last_equity_at) (\<lambda>last_at.
     if \<not> force \<and> (case last_at of None \<Rightarrow> False
                     | Some t \<Rightarrow> total_seconds (now - t) < of_int (cf_equity_sample_seconds (cx_cfg cx)))
     then ret ()
     else
       bnd (snapshot cx None True) (\<lambda>portfolio.
       seq (on_db (record_equity (cx_env cx) (pf_equity_lamports portfolio) (pf_cash_lamports portfolio)))
         (modify (\<lambda>b. b\<lparr> bk_last_equity_at := Some now,
            bk_last_diagnostic := Some
             \<lparr> dg_at = now, dg_season = bk_season_id b, dg_currency = pf_quote_currency portfolio,
               dg_decimals = pf_quote_decimals portfolio,
               dg_starting_minor = pf_starting_lamports portfolio,
               dg_cash_minor = pf_cash_lamports portfolio,
               dg_equity_minor = pf_equity_lamports portfolio,
               dg_realized_pnl_minor = pf_realized_pnl_lamports portfolio,
               dg_unrealized_pnl_minor = pf_unrealized_pnl_lamports portfolio,
               dg_excluded_positions = pf_excluded_position_count portfolio,
               dg_open_positions = int (length (pf_positions portfolio)),
               dg_drawdown = pf_drawdown_fraction portfolio \<rparr> \<rparr>))))"

section \<open>Market updates\<close>

definition unfillable_flags :: "side \<Rightarrow> string list" where
  "unfillable_flags sd = (if sd = Buy then UNFILLABLE_BUY_FLAGS else UNFILLABLE_SELL_FLAGS)"

definition fill_due_order ::
  "ctx \<Rightarrow> token_state \<Rightarrow> feature_snapshot \<Rightarrow> string \<Rightarrow> time \<Rightarrow> risk_mode \<Rightarrow> decimal option
   \<Rightarrow> paper_order \<Rightarrow> fill_receipt option brk" where
  "fill_due_order cx state features source_event_id now mode price order =
     bnd (gets id) (\<lambda>b.
     if po_mint order \<noteq> ts_mint state \<or> now < po_created_at order \<or> now < po_fill_after order then ret None
     else if po_side order = Sell \<and>
             (case map_of (bk_positions b) (po_mint order) of None \<Rightarrow> False | Some p \<Rightarrow> now < ps_opened_at p)
       then ret None
     else if list_ex (\<lambda>flag. flag \<in> set (unfillable_flags (po_side order))) (fs_hard_flags features) then ret None
     else
       bnd (if po_side order = Buy then pending_buy_fill_blocker cx order mode price features else ret None) (\<lambda>blocker.
       if present blocker then seq (fail_order order (''fill_rejected:'' @ text_of blocker) now) (ret None)
       else fill cx order state features source_event_id now price))"

definition fill_due_orders ::
  "ctx \<Rightarrow> token_state \<Rightarrow> feature_snapshot \<Rightarrow> string \<Rightarrow> time \<Rightarrow> risk_mode \<Rightarrow> decimal option \<Rightarrow> bool
   \<Rightarrow> fill_receipt list brk" where
  "fill_due_orders cx state features source_event_id now mode price with_equity =
     (if (case reserve_observed_at state of None \<Rightarrow> False | Some t \<Rightarrow> now < t) then ret []
      else
        bnd (gets (\<lambda>b. values_of (bk_pending b))) (\<lambda>orders.
        bnd (collect orders (fill_due_order cx state features source_event_id now mode price)) (\<lambda>receipts.
        seq (when_do with_equity (broker_record_equity cx now (receipts \<noteq> []))) (ret receipts))))"

definition process_due_orders ::
  "ctx \<Rightarrow> token_state \<Rightarrow> feature_snapshot \<Rightarrow> string \<Rightarrow> time \<Rightarrow> risk_mode \<Rightarrow> decimal option \<Rightarrow> bool
   \<Rightarrow> fill_receipt list brk" where
  "process_due_orders cx state features source_event_id now mode price with_equity =
     (if (case reserve_observed_at state of None \<Rightarrow> False | Some t \<Rightarrow> now < t) then ret []
      else seq (mark_position cx state features price (Some (mark_timestamp state features now)))
             (fill_due_orders cx state features source_event_id now mode price with_equity))"

definition reassess_position ::
  "ctx \<Rightarrow> token_state \<Rightarrow> feature_snapshot \<Rightarrow> time \<Rightarrow> risk_mode \<Rightarrow> decimal option \<Rightarrow> int option
   \<Rightarrow> (string \<times> string) list option \<Rightarrow> unit brk" where
  "reassess_position cx state features now mode price soft participant =
     seq (mark_position cx state features price (Some (mark_timestamp state features now)))
         (schedule_exit_if_needed cx state features now mode soft participant)"

definition on_market_state ::
  "ctx \<Rightarrow> token_state \<Rightarrow> feature_snapshot \<Rightarrow> event_kind \<Rightarrow> string \<Rightarrow> time \<Rightarrow> risk_mode \<Rightarrow> decimal option
   \<Rightarrow> int option \<Rightarrow> (string \<times> string) list option \<Rightarrow> fill_receipt list brk" where
  "on_market_state cx state features kind source_event_id now mode price soft participant =
     (if kind \<noteq> EvTrade then ret []
      else
        seq (mark_position cx state features price (Some (mark_timestamp state features now)))
        (seq (schedule_exit_if_needed cx state features now mode soft participant)
        (bnd (fill_due_orders cx state features source_event_id now mode price False) (\<lambda>receipts.
         seq (expire_stuck_orders now)
        (seq (broker_record_equity cx now (receipts \<noteq> [])) (ret receipts))))))"

definition observe_market_state ::
  "ctx \<Rightarrow> token_state \<Rightarrow> feature_snapshot \<Rightarrow> time \<Rightarrow> decimal option \<Rightarrow> unit brk" where
  "observe_market_state cx state features now price =
     seq (mark_position cx state features price (Some (mark_timestamp state features now)))
         (broker_record_equity cx now False)"

definition reassess_and_process_due_orders ::
  "ctx \<Rightarrow> token_state \<Rightarrow> feature_snapshot \<Rightarrow> string \<Rightarrow> time \<Rightarrow> risk_mode \<Rightarrow> decimal option
   \<Rightarrow> int option \<Rightarrow> (string \<times> string) list option \<Rightarrow> fill_receipt list brk" where
  "reassess_and_process_due_orders cx state features source_event_id now mode price soft participant =
     seq (reassess_position cx state features now mode price soft participant)
         (fill_due_orders cx state features source_event_id now mode price True)"

end
