(* ===== verification/Broker_Season.thy ===== *)
theory Broker_Season
  imports Broker_Trade
begin

text \<open>
  The season side of \<open>paper/broker.py\<close>: the audit of the fill chronology, the summary of a
  season, opening, editing, resetting and rolling over a season, and the constructor, which
  rebuilds the broker's memory from the database after a restart.
\<close>

section \<open>Chronology\<close>

definition fill_chronology_reason ::
  "fill_receipt \<Rightarrow> paper_order option \<Rightarrow> fill_receipt option \<Rightarrow> string option" where
  "fill_chronology_reason f order entry =
     (case order of
        None \<Rightarrow> Some ''matching paper order is unavailable''
      | Some ord \<Rightarrow>
          if po_mint ord \<noteq> fr_mint f \<or> po_side ord \<noteq> fr_side f
            then Some ''fill does not match its paper order''
          else if po_status ord \<noteq> Filled then Some ''paper order is not recorded as filled''
          else if po_fill_after ord < po_created_at ord
            then Some ''paper order latency boundary predates creation''
          else if po_filled_at ord \<noteq> Some (fr_filled_at f)
            then Some ''filled order and receipt disagree on execution time''
          else if fr_filled_at f < po_created_at ord then Some ''fill predates its paper order''
          else if fr_filled_at f < po_fill_after ord then Some ''fill predates configured execution latency''
          else if (case fr_reserve_snapshot f of None \<Rightarrow> False | Some r \<Rightarrow> fr_filled_at f < rs_observed_at r)
            then Some ''fill uses a reserve observation from the future''
          else if (case fr_reserve_snapshot f of None \<Rightarrow> False | Some r \<Rightarrow> rs_venue r \<noteq> fr_venue f)
            then Some ''fill venue does not match its reserve observation''
          else if fr_side f = Sell then
            (case entry of
               None \<Rightarrow> Some ''sell has no preceding current-season buy''
             | Some e \<Rightarrow>
                 let opened_at = (case fr_position_opened_at f of None \<Rightarrow> fr_filled_at e | Some t \<Rightarrow> t) in
                 if fr_position_opened_at f \<noteq> None \<and> fr_position_opened_at f \<noteq> Some (fr_filled_at e)
                   then Some ''sell does not reference its entry boundary''
                 else if fr_filled_at f < opened_at then Some ''sell predates its paper position''
                 else if fr_filled_at f < fr_filled_at e then Some ''sell predates its entry fill''
                 else None)
          else None)"

record chronology_issue =
  ci_fill_id :: string
  ci_order_id :: string
  ci_mint :: string
  ci_side :: side
  ci_reason :: string

definition issue_of :: "fill_receipt \<Rightarrow> string \<Rightarrow> chronology_issue" where
  "issue_of f reason = \<lparr> ci_fill_id = fr_fill_id f, ci_order_id = fr_order_id f, ci_mint = fr_mint f,
                         ci_side = fr_side f, ci_reason = reason \<rparr>"

definition issue_list :: "(fill_receipt \<times> string option) list \<Rightarrow> chronology_issue list" where
  "issue_list xs = concat (map (\<lambda>(f, reason). case reason of None \<Rightarrow> [] | Some r \<Rightarrow> [issue_of f r]) xs)"

text \<open>With the season's own fills, or with a list of fills.\<close>

definition chronology_issues :: "tables \<Rightarrow> fill_receipt list option \<Rightarrow> chronology_issue list" where
  "chronology_issues t fills =
     (case fills of
        None \<Rightarrow> issue_list (map (\<lambda>(f, order, entry, _). (f, fill_chronology_reason f order entry))
                  (iter_fill_contexts t))
      | Some given \<Rightarrow>
          let ordered = sort_key fr_filled_at (sort_key fr_fill_id given);
              entry_of_mint = (\<lambda>mint. List.find (\<lambda>f. fr_side f = Buy \<and> fr_mint f = mint) ordered)
          in issue_list (map (\<lambda>f. (f, fill_chronology_reason f (map_of (tb_orders t) (fr_order_id f))
                                      (entry_of_mint (fr_mint f)))) ordered))"

section \<open>The season's summary\<close>

text \<open>The totals that the scan of the fills accumulates.\<close>

record fill_totals =
  ft_fees :: int
  ft_closed :: int
  ft_wins :: int
  ft_losses :: int
  ft_break_even :: int
  ft_issues :: int
  ft_has_buy :: bool

definition no_totals :: fill_totals where
  "no_totals = \<lparr> ft_fees = 0, ft_closed = 0, ft_wins = 0, ft_losses = 0, ft_break_even = 0,
                 ft_issues = 0, ft_has_buy = False \<rparr>"

definition bit :: "bool \<Rightarrow> int" where
  "bit x = (if x then 1 else 0)"

definition add_fill ::
  "fill_receipt \<times> paper_order option \<times> fill_receipt option \<times> paper_order option \<Rightarrow> fill_totals \<Rightarrow> fill_totals" where
  "add_fill context_of_fill acc =
     (case context_of_fill of (f, order, entry, entry_order) \<Rightarrow>
      let reason = fill_chronology_reason f order entry;
          acc' = acc\<lparr> ft_fees := ft_fees acc + (fr_account_protocol_fee_minor f + fr_account_network_fee_minor f),
                      ft_has_buy := ft_has_buy acc \<or> fr_side f = Buy,
                      ft_issues := ft_issues acc + bit (reason \<noteq> None) \<rparr>
      in (case entry of
            None \<Rightarrow> acc'
          | Some e \<Rightarrow>
              if fr_side f = Sell \<and> reason = None \<and> fill_chronology_reason e entry_order (Some e) = None then
                let pnl = fr_account_net_minor f - fr_account_net_minor e in
                acc'\<lparr> ft_closed := ft_closed acc' + 1, ft_wins := ft_wins acc' + bit (0 < pnl),
                      ft_losses := ft_losses acc' + bit (pnl < 0),
                      ft_break_even := ft_break_even acc' + bit (pnl = 0) \<rparr>
              else acc'))"

definition fill_totals_of :: "tables \<Rightarrow> fill_totals" where
  "fill_totals_of t = fold add_fill (iter_fill_contexts t) no_totals"

definition season_summary_of :: "ctx \<Rightarrow> season_summary brk" where
  "season_summary_of cx =
     bnd (snapshot cx None False) (\<lambda>portfolio.
     bnd (gets id) (\<lambda>b.
     let totals = fill_totals_of (tables_of b) in
     bnd (lift (setting_int (tables_of b) ''peak_equity_lamports'' 0)) (\<lambda>peak.
     ret \<lparr> ss_ending_equity_minor = pf_equity_lamports portfolio,
           ss_last_known_ending_equity_minor = pf_last_known_equity_lamports portfolio,
           ss_peak_equity_minor = max (bk_starting_lamports b) (max (pf_equity_lamports portfolio) peak),
           ss_realized_pnl_minor = pf_realized_pnl_lamports portfolio,
           ss_net_pnl_minor = pf_equity_lamports portfolio - bk_starting_lamports b,
           ss_total_fees_minor = ft_fees totals, ss_closed_trades = ft_closed totals,
           ss_wins = ft_wins totals, ss_losses = ft_losses totals,
           ss_break_even = ft_break_even totals,
           ss_ending_drawdown_fraction = pf_drawdown_fraction portfolio,
           ss_open_positions = int (length (pf_positions portfolio)),
           ss_meaningful_activity = (ft_has_buy totals \<or> pf_positions portfolio \<noteq> [] \<or> ft_closed totals \<noteq> 0),
           ss_execution_audit_issue_count = ft_issues totals \<rparr>)))"

text \<open>
  The dispositions that the caller knows: by mint, the terminal disposition and the evidence.
\<close>

type_synonym dispositions = "(string \<times> string option \<times> (string \<times> json) list) list"

definition unresolved_record ::
  "broker \<Rightarrow> time \<Rightarrow> string \<Rightarrow> dispositions \<Rightarrow> position \<Rightarrow> unresolved_position" where
  "unresolved_record b now reason dispositions p =
     (let known = map_of dispositions (ps_mint p) in
      \<lparr> ur_position_id = ps_position_id p, ur_entry_fill_id = ps_entry_fill_id p, ur_mint = ps_mint p,
        ur_symbol = ps_symbol p, ur_token_units = ps_token_units p,
        ur_entry_cost_minor = ps_entry_cost_lamports p, ur_book_value_minor = ps_book_value_lamports p,
        ur_last_known_mark_minor = ps_last_mark_lamports p, ur_last_marked_at = ps_last_marked_at p,
        ur_market_status = ps_market_status p, ur_mark_blockers = ps_mark_blockers p,
        ur_quote_currency = bk_quote_currency b, ur_quote_decimals = bk_quote_decimals b,
        ur_retirement_reason = reason, ur_retired_at = now, ur_was_executed = False,
        ur_terminal_disposition =
          (case Option.bind known fst of None \<Rightarrow> ''unknown'' | Some x \<Rightarrow> x),
        ur_terminal_evidence = JObj (case known of None \<Rightarrow> [] | Some (_, e) \<Rightarrow> e) \<rparr>)"

definition unresolved_position_records ::
  "ctx \<Rightarrow> time \<Rightarrow> string \<Rightarrow> dispositions \<Rightarrow> unresolved_position list brk" where
  "unresolved_position_records cx now reason dispositions =
     bnd (snapshot cx None False) (\<lambda>portfolio.
     gets (\<lambda>b. map (unresolved_record b now reason dispositions) (pf_positions portfolio)))"

definition refresh_unresolved_evidence :: "unresolved_position list \<Rightarrow> unit brk" where
  "refresh_unresolved_evidence unresolved =
     for_each unresolved (\<lambda>u.
       if ur_entry_fill_id u = [] then ret ()
       else bnd (gets (\<lambda>b. execution_evidence_for_entry_fill (tables_of b) (ur_entry_fill_id u)))
              notify_evidence_observer)"

section \<open>Season boundaries\<close>

definition initialize ::
  "ctx \<Rightarrow> quote_currency \<Rightarrow> int \<Rightarrow> season_profile option \<Rightarrow> unit brk" where
  "initialize cx currency starting_minor profile =
     bnd (gets bk_initialized) (\<lambda>initialized.
     seq (guard (\<not> initialized) (ValueError ''paper portfolio is already initialized''))
     (seq (guard (0 < starting_minor) (ValueError ''starting bankroll must be positive''))
     (bnd (on_db (fresh_uuid (cx_env cx))) (\<lambda>hex.
      let season_id = ''season-'' @ hex in
      seq (on_db (initialize_portfolio (cx_env cx) season_id starting_minor currency profile))
      (bnd (on_db (wall_now (cx_env cx))) (\<lambda>now.
       modify (\<lambda>b. b\<lparr> bk_quote_currency := currency, bk_quote_decimals := decimals_of currency,
                       bk_starting_lamports := starting_minor, bk_initialized := True,
                       bk_season_id := Some season_id, bk_season_profile := profile,
                       bk_last_equity_at := Some now \<rparr>)))))))"

definition reconfigure_unstarted ::
  "ctx \<Rightarrow> quote_currency \<Rightarrow> int \<Rightarrow> season_profile \<Rightarrow> unit brk" where
  "reconfigure_unstarted cx currency starting_minor profile =
     bnd (gets id) (\<lambda>b.
     seq (guard (bk_initialized b \<and> present (bk_season_id b))
            (ValueError ''create a paper bankroll before editing it''))
     (seq (guard (case bk_season_profile b of None \<Rightarrow> False | Some p \<Rightarrow> sp_locked_at p = None)
            (ValueError ''paper season is already active''))
     (seq (guard (bk_positions b = [] \<and> bk_pending b = [])
            (RuntimeError ''unstarted paper season contains unexpected inventory''))
     (seq (on_db (reconfigure_unstarted_portfolio (cx_env cx) (text_of (bk_season_id b)) currency
                    starting_minor profile))
     (bnd (on_db (wall_now (cx_env cx))) (\<lambda>now.
      modify (\<lambda>b. b\<lparr> bk_quote_currency := currency, bk_quote_decimals := decimals_of currency,
                      bk_starting_lamports := starting_minor, bk_season_profile := Some profile,
                      bk_last_equity_at := Some now \<rparr>)))))))"

definition reset :: "ctx \<Rightarrow> unit brk" where
  "reset cx =
     bnd (gets bk_initialized) (\<lambda>initialized.
     bnd (if initialized then bnd (season_summary_of cx) (\<lambda>s. ret (Some s)) else ret None) (\<lambda>summary.
     bnd (on_db (wall_now (cx_env cx))) (\<lambda>now.
     bnd (if initialized then unresolved_position_records cx now ''manual_reset'' [] else ret []) (\<lambda>unresolved.
     bnd (gets (\<lambda>b. if initialized then chronology_issues (tables_of b) None else [])) (\<lambda>issues.
     seq (on_db (reset_paper_state (cx_env cx) summary ''manual_reset'' unresolved
                   (unresolved = [] \<and> issues = [])))
     (seq (refresh_unresolved_evidence unresolved)
          (modify (\<lambda>b. b\<lparr> bk_positions := [], bk_pending := [], bk_traded_mints := [],
                          bk_starting_lamports := 0, bk_initialized := False, bk_season_id := None,
                          bk_season_profile := None, bk_last_equity_at := None \<rparr>))))))))"

text \<open>The profile of the successor: the given one, or the current one on the newest strategy.\<close>

definition successor_profile ::
  "ctx \<Rightarrow> broker \<Rightarrow> time \<Rightarrow> season_profile option \<Rightarrow> bool \<Rightarrow> season_profile option result" where
  "successor_profile cx b now next_profile next_running =
     (let stamp = (if next_running then Some now else None) in
      rbind (case next_profile of
               Some p \<Rightarrow> Inr (Some p)
             | None \<Rightarrow> (case bk_season_profile b of
                          None \<Rightarrow> Inr None
                        | Some current \<Rightarrow>
                            rbind (upgrade_season_profile_strategy (en_profile_digest (cx_env cx)) current stamp)
                              (\<lambda>p. Inr (Some p))))
        (\<lambda>resolved. Inr (map_option (\<lambda>p. p\<lparr> sp_locked_at := stamp \<rparr>) resolved)))"

definition rollover ::
  "ctx \<Rightarrow> time \<Rightarrow> season_profile option \<Rightarrow> quote_currency option \<Rightarrow> int option \<Rightarrow> string \<Rightarrow> bool \<Rightarrow> bool
   \<Rightarrow> dispositions \<Rightarrow> (string \<times> string) brk" where
  "rollover cx now next_profile next_currency next_starting reason next_running comparable dispositions =
     bnd (gets id) (\<lambda>b.
     seq (guard (bk_initialized b \<and> present (bk_season_id b))
            (RuntimeError ''automatic rollover requires an initialized paper season''))
     (seq (guard (bk_pending b = [])
            (RuntimeError ''automatic rollover cannot discard pending paper orders''))
     (bnd (on_db (fresh_uuid (cx_env cx))) (\<lambda>hex.
      let next_season_id = ''season-'' @ hex;
          currency = (case next_currency of None \<Rightarrow> bk_quote_currency b | Some c \<Rightarrow> c);
          starting = (case next_starting of None \<Rightarrow> bk_starting_lamports b | Some n \<Rightarrow> n) in
      seq (guard (0 < starting) (ValueError ''starting bankroll must be positive''))
      (bnd (lift (successor_profile cx b now next_profile next_running)) (\<lambda>profile.
       bnd (season_summary_of cx) (\<lambda>summary.
       bnd (gets (\<lambda>b. chronology_issues (tables_of b) None)) (\<lambda>issues.
       bnd (unresolved_position_records cx now reason dispositions) (\<lambda>unresolved.
       seq (on_db (rollover_paper_state summary next_season_id starting currency now profile reason
                     next_running unresolved (comparable \<and> issues = [])))
       (seq (refresh_unresolved_evidence unresolved)
       (seq (modify (\<lambda>b. b\<lparr> bk_positions := [], bk_pending := [], bk_traded_mints := [],
                            bk_quote_currency := currency, bk_quote_decimals := decimals_of currency,
                            bk_starting_lamports := starting, bk_season_id := Some next_season_id,
                            bk_season_profile := profile, bk_last_equity_at := Some now \<rparr>))
            (ret (text_of (bk_season_id b), next_season_id)))))))))))))"

section \<open>The constructor\<close>

definition currency_of_json :: "json \<Rightarrow> quote_currency result" where
  "currency_of_json v =
     (if v = JStr ''SOL'' then Inr SOL else if v = JStr ''USDC'' then Inr USDC
      else Inl (ValueError ''is not a valid QuoteCurrency''))"

text \<open>The season identity, given to an initialized database of a release that had none.\<close>

definition load_season_id :: "ctx \<Rightarrow> bool \<Rightarrow> string option db" where
  "load_season_id cx initialized =
     bnd (of_tables (\<lambda>t. get_setting t ''season_id'' JNull)) (\<lambda>stored.
     if initialized \<and> \<not> json_truthy stored then
       bnd (fresh_uuid (cx_env cx)) (\<lambda>hex.
       seq (set_setting (cx_env cx) ''season_id'' (JStr (''legacy-season-'' @ hex)))
           (ret (Some (''legacy-season-'' @ hex))))
     else ret (if json_truthy stored then Some (json_string stored) else None))"

definition load_profile :: "ctx \<Rightarrow> string option \<Rightarrow> season_profile option \<Rightarrow> season_profile option db" where
  "load_profile cx season_id stored =
     (case stored of
        None \<Rightarrow> ret None
      | Some p \<Rightarrow>
          if sp_locked_at p = None \<and> sp_baseline_version p \<noteq> BASELINE_VERSION then
            bnd (lift (upgrade_season_profile_strategy (en_profile_digest (cx_env cx)) p None)) (\<lambda>upgraded.
            seq (guard (season_id \<noteq> None) AssertionError)
            (seq (update_current_season_profile (text_of season_id) upgraded)
                 (ret (Some upgraded))))
          else ret (Some p))"

definition load :: "ctx \<Rightarrow> broker db" where
  "load cx =
     bnd (of_tables id) (\<lambda>t.
     let initialized = json_truthy (get_setting t ''portfolio_initialized'' (JBool False)) in
     bnd (lift (currency_of_json (get_setting t ''quote_currency'' (JStr ''SOL'')))) (\<lambda>currency.
     bnd (lift (setting_int t ''starting_lamports'' 0)) (\<lambda>starting.
     bnd (load_season_id cx initialized) (\<lambda>season_id.
     seq (when_do (initialized \<and> present season_id)
           (ensure_current_season (cx_env cx) (text_of season_id) starting currency))
     (bnd (of_tables (\<lambda>t. if initialized then current_profile t else None)) (\<lambda>stored.
      bnd (load_profile cx season_id stored) (\<lambda>profile.
      gets (\<lambda>s. let t = st_tables s in
        \<lparr> bk_store = s, bk_initialized = initialized, bk_quote_currency = currency,
          bk_quote_decimals = decimals_of currency, bk_starting_lamports = starting,
          bk_season_id = season_id, bk_season_profile = profile,
          bk_positions = fold (\<lambda>p d. AList.update (ps_mint p) p d) (list_positions t) [],
          bk_pending = fold (\<lambda>order d. AList.update (po_order_id order) order d) (list_orders t Pending) [],
          bk_traded_mints = bought_mints t, bk_last_equity_at = None, bk_last_diagnostic = None,
          bk_notified = [] \<rparr>))))))))"

end
