(* ===== verification/Broker_Accounts.thy ===== *)
theory Broker_Accounts
  imports Broker_Season Books
begin

text \<open>
  The accounting of the paper broker. \<open>account_view\<close> is what the broker's state says about
  money: the ledger, the holdings in the database and in memory, the starting bankroll and the
  realized result. Every operation either leaves that view alone (\<open>quiet\<close>) or changes it by
  one of the steps of an abstract account: opening and closing a season, a buy, a sell.
\<close>

section \<open>The abstract account\<close>

record holding =
  ho_position_id :: string
  ho_mint :: string
  ho_units :: int
  ho_entry_cost :: int
  ho_book :: int
  ho_opened_at :: time
  ho_entry_fill :: string

record account =
  ac_starting :: int
  ac_cash :: int
  ac_realized :: int
  ac_held :: "holding set"

definition held_cost :: "holding set \<Rightarrow> int" where
  "held_cost H = sum ho_entry_cost H"

definition closed_account :: account where
  "closed_account = \<lparr> ac_starting = 0, ac_cash = 0, ac_realized = 0, ac_held = {} \<rparr>"

inductive account_step :: "account \<Rightarrow> account \<Rightarrow> bool" where
  open_season: "0 < n \<Longrightarrow>
     account_step a \<lparr> ac_starting = n, ac_cash = n, ac_realized = 0, ac_held = {} \<rparr>"
| close_season: "account_step a closed_account"
| buy: "ho_mint h \<notin> ho_mint ` ac_held a \<Longrightarrow> 0 \<le> ho_entry_cost h \<Longrightarrow> ho_entry_cost h \<le> ac_cash a \<Longrightarrow>
     account_step a (a\<lparr> ac_cash := ac_cash a - ho_entry_cost h, ac_held := insert h (ac_held a) \<rparr>)"
| sell: "h \<in> ac_held a \<Longrightarrow> 0 \<le> proceeds \<Longrightarrow>
     account_step a (a\<lparr> ac_cash := ac_cash a + proceeds,
                        ac_realized := ac_realized a + (proceeds - ho_entry_cost h),
                        ac_held := ac_held a - {h} \<rparr>)"

definition account_sound :: "account \<Rightarrow> bool" where
  "account_sound a \<longleftrightarrow>
     0 \<le> ac_cash a \<and> finite (ac_held a) \<and> inj_on ho_mint (ac_held a) \<and>
     (\<forall>h \<in> ac_held a. 0 \<le> ho_entry_cost h) \<and>
     ac_cash a + held_cost (ac_held a) = ac_starting a + ac_realized a"

text \<open>A state machine whose steps keep an invariant keeps it along every run.\<close>

locale guarded_machine =
  fixes step :: "'s \<Rightarrow> 's \<Rightarrow> bool"
    and inv :: "'s \<Rightarrow> bool"
  assumes step_inv: "step s t \<Longrightarrow> inv s \<Longrightarrow> inv t"
begin

lemma run_inv: "step\<^sup>*\<^sup>* s t \<Longrightarrow> inv s \<Longrightarrow> inv t"
  by (induction rule: rtranclp_induct) (auto intro: step_inv)

end

lemma map_of_NoneD: "map_of d k = None \<Longrightarrow> k \<notin> fst ` set d"
  by (simp add: map_of_eq_None_iff)

lemma held_cost_simps:
  "held_cost {} = 0"
  "finite H \<Longrightarrow> h \<notin> H \<Longrightarrow> held_cost (insert h H) = ho_entry_cost h + held_cost H"
  "finite H \<Longrightarrow> h \<in> H \<Longrightarrow> held_cost (H - {h}) = held_cost H - ho_entry_cost h"
  by (simp_all add: held_cost_def sum_diff1)

lemma set_delete: "dict_ok d \<Longrightarrow> set (AList.delete m d) = {x \<in> set d. fst x \<noteq> m}"
  by (auto simp: AList.delete_eq)

lemma delete_value:
  assumes "dict_ok d" and "\<forall>(k, v) \<in> set d. f v = k" and "v \<in> snd ` set d" and "f v = k"
  shows "snd ` set (AList.delete k d) = snd ` set d - {v}"
proof -
  obtain k' where v: "(k', v) \<in> set d" using assms(3) by auto
  then have "k' = k" using assms(2,4) by auto
  then have "x \<noteq> v \<longleftrightarrow> j \<noteq> k" if "(j, x) \<in> set d" for j x
    using that v assms(2,4) eq_key_imp_eq_value [OF assms(1), of k x v] by auto
  then show ?thesis unfolding set_delete [OF assms(1)] by force
qed

interpretation paper_account: guarded_machine account_step account_sound
proof unfold_locales
  show "account_sound t" if "account_step s t" "account_sound s" for s t
    using that
  proof cases
    case (buy h)
    then have "h \<notin> ac_held s" by auto
    then show ?thesis
      using that(2) buy by (auto simp: account_sound_def held_cost_simps)
  next
    case (sell h proceeds)
    then show ?thesis
      using that(2) by (auto simp: account_sound_def held_cost_simps inj_on_diff)
  qed (auto simp: account_sound_def closed_account_def held_cost_simps)
qed

section \<open>The view of the broker\<close>

definition holding_of :: "position \<Rightarrow> holding" where
  "holding_of p =
     \<lparr> ho_position_id = ps_position_id p, ho_mint = ps_mint p, ho_units = ps_token_units p,
       ho_entry_cost = ps_entry_cost_lamports p, ho_book = ps_book_value_lamports p,
       ho_opened_at = ps_opened_at p, ho_entry_fill = ps_entry_fill_id p \<rparr>"

definition holdings :: "(string, position) pydict \<Rightarrow> (string \<times> holding) list" where
  "holdings d = map (\<lambda>(k, p). (k, holding_of p)) d"

definition setting_num :: "(string, json) pydict \<Rightarrow> string \<Rightarrow> int option" where
  "setting_num d key = (case map_of d key of None \<Rightarrow> Some 0 | Some v \<Rightarrow> json_int v)"

record account_view =
  vw_ledger :: "ledger_entry list"
  vw_rows :: "(string \<times> holding) list"
  vw_memory :: "(string \<times> holding) list"
  vw_starting :: "int option"
  vw_realized :: "int option"

definition view_of :: "books \<Rightarrow> (string, position) pydict \<Rightarrow> account_view" where
  "view_of v d = \<lparr> vw_ledger = bo_ledger v, vw_rows = holdings (bo_positions v), vw_memory = holdings d,
                   vw_starting = setting_num (bo_settings v) ''starting_lamports'',
                   vw_realized = setting_num (bo_settings v) ''realized_pnl_lamports'' \<rparr>"

definition account_view_of :: "broker \<Rightarrow> account_view" where
  "account_view_of b = view_of (books_of (bk_store b)) (bk_positions b)"

definition account_balance :: "ledger_entry list \<Rightarrow> string \<Rightarrow> int" where
  "account_balance l a = sum_list (map (\<lambda>e. le_debit e - le_credit e) (filter (\<lambda>e. le_account e = a) l))"

definition ledger_sound :: "ledger_entry list \<Rightarrow> bool" where
  "ledger_sound l \<longleftrightarrow> (\<forall>e \<in> set l. 0 \<le> le_debit e \<and> 0 \<le> le_credit e) \<and>
     sum_list (map le_debit l) = sum_list (map le_credit l)"

definition inventory_value :: "(string \<times> holding) list \<Rightarrow> string \<Rightarrow> int" where
  "inventory_value d m = (case map_of d m of None \<Rightarrow> 0 | Some h \<Rightarrow> ho_book h)"

text \<open>
  What holds of a view: the ledger is balanced and its amounts are not negative; the rows of
  the database and the positions in memory are the same holdings, one per mint; each mint's
  inventory account carries the book value of its open position, or nothing; cash is what the
  bankroll and the realized result leave after paying for what is held, and is not negative.
\<close>

definition view_ok :: "account_view \<Rightarrow> bool" where
  "view_ok w \<longleftrightarrow>
     ledger_sound (vw_ledger w) \<and>
     dict_ok (vw_rows w) \<and> (\<forall>(i, h) \<in> set (vw_rows w). ho_position_id h = i) \<and>
     inj_on ho_mint (snd ` set (vw_rows w)) \<and>
     dict_ok (vw_memory w) \<and> (\<forall>(m, h) \<in> set (vw_memory w). ho_mint h = m \<and> 0 \<le> ho_entry_cost h) \<and>
     snd ` set (vw_memory w) = snd ` set (vw_rows w) \<and>
     (\<forall>m. account_balance (vw_ledger w) (inventory_account m) = inventory_value (vw_memory w) m) \<and>
     (vw_ledger w = [] \<longrightarrow> vw_memory w = []) \<and>
     0 \<le> account_balance (vw_ledger w) ''cash'' \<and>
     (\<exists>starting realized. vw_starting w = Some starting \<and> vw_realized w = Some realized \<and>
        account_balance (vw_ledger w) ''cash'' + held_cost (snd ` set (vw_memory w)) = starting + realized)"

definition account_of_view :: "account_view \<Rightarrow> account" where
  "account_of_view w =
     \<lparr> ac_starting = the (vw_starting w), ac_cash = account_balance (vw_ledger w) ''cash'',
       ac_realized = the (vw_realized w), ac_held = snd ` set (vw_memory w) \<rparr>"

definition account_of :: "broker \<Rightarrow> account" where
  "account_of b = account_of_view (account_view_of b)"

definition books_sound :: "broker \<Rightarrow> bool" where
  "books_sound b \<longleftrightarrow> view_ok (account_view_of b)"

lemma cash_is_balance: "cash_lamports b = account_balance (bo_ledger (books_of (bk_store b))) ''cash''"
  by (simp add: cash_lamports_def ledger_balance_def account_balance_def)

lemma sound_account:
  assumes "books_sound b"
  shows "account_sound (account_of b)"
proof -
  let ?w = "account_view_of b"
  have ok: "view_ok ?w" using assms by (simp add: books_sound_def)
  then have "\<forall>h \<in> snd ` set (vw_memory ?w). 0 \<le> ho_entry_cost h" and "inj_on ho_mint (snd ` set (vw_memory ?w))"
    by (force simp: view_ok_def, simp add: view_ok_def)
  moreover have "0 \<le> account_balance (vw_ledger ?w) ''cash''"
    and "account_balance (vw_ledger ?w) ''cash'' + held_cost (snd ` set (vw_memory ?w)) = the (vw_starting ?w) + the (vw_realized ?w)"
    using ok by (auto simp: view_ok_def)
  ultimately show ?thesis
    unfolding account_sound_def account_of_def account_of_view_def by simp
qed

section \<open>Quiet actions\<close>

text \<open>An action that leaves a sound view as it is, whether it returns or raises.\<close>

definition quiet :: "'a brk \<Rightarrow> bool" where
  "quiet m \<longleftrightarrow> (\<forall>w. view_ok w \<longrightarrow> keeps (\<lambda>b. account_view_of b = w) m)"

lemma quietD: "quiet m \<Longrightarrow> view_ok w \<Longrightarrow> keeps (\<lambda>b. account_view_of b = w) m"
  by (simp add: quiet_def)

lemma quietI_wp:
  "(\<And>b. view_ok (account_view_of b) \<Longrightarrow>
      wp m (\<lambda>_ b'. account_view_of b' = account_view_of b) (\<lambda>_ b'. account_view_of b' = account_view_of b) b) \<Longrightarrow>
   quiet m"
  by (auto simp: quiet_def keeps_wp)

lemma wp_quiet:
  assumes "quiet m" and "books_sound b"
    and "\<And>x b'. account_view_of b' = account_view_of b \<Longrightarrow> Q x b'"
    and "\<And>e b'. account_view_of b' = account_view_of b \<Longrightarrow> E e b'"
  shows "wp m Q E b"
  by (rule wp_of_keeps [OF quietD [OF assms(1)]])
     (use assms in \<open>auto simp: books_sound_def\<close>)

lemma quiet_basic: "quiet (ret x)" "quiet (raise e)" "quiet (gets g)" "quiet (lift r)" "quiet (guard c e)"
  by (auto simp: quiet_def intro: keeps_rules)

lemma quiet_bnd: "quiet m \<Longrightarrow> (\<And>x. quiet (f x)) \<Longrightarrow> quiet (bnd m f)"
  and quiet_seq: "quiet m \<Longrightarrow> quiet k \<Longrightarrow> quiet (seq m k)"
  by (auto simp: quiet_def intro: keeps_rules)

lemma quiet_cases:
  "(c \<Longrightarrow> quiet m) \<Longrightarrow> (\<not> c \<Longrightarrow> quiet k) \<Longrightarrow> quiet (if c then m else k)"
  "(c \<Longrightarrow> quiet m') \<Longrightarrow> quiet (when_do c m')"
  "(r = None \<Longrightarrow> quiet m) \<Longrightarrow> (\<And>x. r = Some x \<Longrightarrow> quiet (f x)) \<Longrightarrow>
   quiet (case r of None \<Rightarrow> m | Some x \<Rightarrow> f x)"
  "(\<And>a b. z = (a, b) \<Longrightarrow> quiet (g a b)) \<Longrightarrow> quiet (case z of (a, b) \<Rightarrow> g a b)"
  "(\<And>x. x = y \<Longrightarrow> quiet (h x)) \<Longrightarrow> quiet (let x = y in h x)"
  "(\<And>x. u = Inl x \<Longrightarrow> quiet (p x)) \<Longrightarrow> (\<And>x. u = Inr x \<Longrightarrow> quiet (q x)) \<Longrightarrow>
   quiet (case u of Inl x \<Rightarrow> p x | Inr x \<Rightarrow> q x)"
  by (auto simp: when_do_def quiet_basic split: option.splits prod.splits sum.splits)

lemma quiet_loops:
  "(\<And>x. quiet (f x)) \<Longrightarrow> quiet (for_each xs f)"
  "(\<And>x. quiet (g x)) \<Longrightarrow> quiet (collect xs g)"
  by (auto simp: quiet_def intro: keeps_rules)

lemma quiet_modify: "(\<And>b. account_view_of (u b) = account_view_of b) \<Longrightarrow> quiet (modify u)"
  by (auto simp: quiet_def intro: keeps_modify)

lemmas quiet_rules = quiet_basic quiet_bnd quiet_seq quiet_cases quiet_loops

lemma account_view_store [simp]:
  "account_view_of (b\<lparr> bk_store := s \<rparr>) = view_of (books_of s) (bk_positions b)"
  "account_view_of (b\<lparr> bk_pending := o' \<rparr>) = account_view_of b"
  "account_view_of (b\<lparr> bk_notified := n \<rparr>) = account_view_of b"
  "account_view_of (b\<lparr> bk_last_equity_at := t, bk_last_diagnostic := d \<rparr>) = account_view_of b"
  by (simp_all add: account_view_of_def)

lemma view_of_same:
  "bo_ledger v = bo_ledger u \<Longrightarrow> bo_positions v = bo_positions u \<Longrightarrow> bo_settings v = bo_settings u \<Longrightarrow>
   view_of v d = view_of u d"
  by (simp add: view_of_def)

lemma quiet_on_db:
  assumes "\<And>s. wp m (\<lambda>_ s'. view_of (books_of s') = view_of (books_of s))
                 (\<lambda>_ s'. view_of (books_of s') = view_of (books_of s)) s"
  shows "quiet (on_db m)"
  by (rule quietI_wp, simp add: on_db_def wp_zoom, rule wp_mono [OF assms])
     (simp_all add: account_view_of_def)

lemma quiet_off_books: "off_books m \<Longrightarrow> quiet (on_db m)"
  by (rule quiet_on_db, rule wp_off_books) simp_all

lemma quiet_fresh_uuid: "quiet (on_db (fresh_uuid env))"
  by (rule quiet_on_db, rule wp_fresh_uuid) (simp add: view_of_def fun_eq_iff)

lemma quiet_save_order: "quiet (on_db (save_order order))"
  by (rule quiet_on_db, rule wp_save_order) (simp_all add: view_of_def fun_eq_iff)

lemma quiet_set_setting:
  "k \<noteq> ''starting_lamports'' \<Longrightarrow> k \<noteq> ''realized_pnl_lamports'' \<Longrightarrow> quiet (on_db (set_setting env k v))"
  by (rule quiet_on_db, rule wp_set_setting) (simp add: view_of_def setting_num_def update_conv' fun_eq_iff)

lemma on_db_seq: "on_db (seq m k) = seq (on_db m) (on_db k)"
  by (rule ext) (auto simp: on_db_def zoom_def seq_def bnd_def split: prod.splits sum.splits)

lemma quiet_wall_now: "quiet (on_db (wall_now env))"
  by (rule quiet_off_books) (rule off_books_basic)

lemma quiet_pending: "quiet (add_pending order)" "quiet (retire_order order)" "quiet (fail_order order r now)"
  "quiet (cancel_order now r order)"
proof -
  show a: "quiet (add_pending order)" for order
    unfolding add_pending_def set_pending_def by (intro quiet_rules quiet_modify quiet_save_order) simp
  show r: "quiet (retire_order order)" for order
    unfolding retire_order_def by (intro quiet_rules quiet_modify a) simp
  show "quiet (fail_order order r now)" "quiet (cancel_order now r order)"
    unfolding fail_order_def cancel_order_def by (rule r)+
qed

lemma quiet_snapshot: "quiet (snapshot cx mode persist)"
  unfolding snapshot_def previous_peak_def on_db_seq
  by (intro quiet_rules quiet_wall_now quiet_set_setting) simp_all

lemma quiet_entry: "quiet (entry_assessment cx d price)" "quiet (submit_decision_with_reason cx d price plan)"
  "quiet (planned_order_size_sol cx mode price)"
proof -
  show e: "quiet (entry_assessment cx d price)"
    unfolding entry_assessment_def by (intro quiet_rules quiet_snapshot)
  show "quiet (submit_decision_with_reason cx d price plan)"
    unfolding submit_decision_with_reason_def
    by (intro quiet_rules e quiet_fresh_uuid quiet_pending quiet_off_books off_books_save_decision)
  show "quiet (planned_order_size_sol cx mode price)"
    unfolding planned_order_size_sol_def by (intro quiet_rules quiet_snapshot)
qed

lemma quiet_fill_blocker: "quiet (pending_buy_fill_blocker cx order mode price features)"
  unfolding pending_buy_fill_blocker_def thesis_blocker_def
  by (intro quiet_rules quiet_snapshot quiet_fresh_uuid quiet_wall_now)

lemma quiet_record_equity: "quiet (broker_record_equity cx now force)"
  unfolding broker_record_equity_def
  by (intro quiet_rules quiet_snapshot quiet_modify quiet_off_books off_books_record_equity) simp

lemma quiet_notify: "quiet (notify_evidence_observer ep)"
  unfolding notify_evidence_observer_def by (intro quiet_rules quiet_modify) simp

lemma quiet_submit_sell: "quiet (submit_sell cx p now reason)"
  unfolding submit_sell_def by (intro quiet_rules quiet_fresh_uuid quiet_pending)

section \<open>Marks and assessments keep the holdings\<close>

lemma map_of_holdings [simp]: "map_of (holdings d) k = map_option holding_of (map_of d k)"
  by (induction d) (auto simp: holdings_def)

lemma holdings_keys [simp]: "map fst (holdings d) = map fst d" "fst ` set (holdings d) = fst ` set d"
  by (auto simp: holdings_def image_iff split: prod.splits) force+

lemma holdings_append [simp]: "holdings (d @ e) = holdings d @ holdings e" "holdings [] = []"
  "holdings ((k, p) # d) = (k, holding_of p) # holdings d"
  by (simp_all add: holdings_def)

lemma holdings_delete [simp]: "holdings (AList.delete k d) = AList.delete k (holdings d)"
  by (induction d) (auto simp: holdings_def)

lemma holdings_update_same:
  "map_of d k = Some q \<Longrightarrow> holding_of p = holding_of q \<Longrightarrow> holdings (AList.update k p d) = holdings d"
  by (induction d) (auto split: if_splits)

lemma update_absent: "map_of d k = None \<Longrightarrow> AList.update k p d = d @ [(k, p)]"
  by (induction d) (auto split: if_splits)

lemma memory_row:
  assumes "view_ok (view_of v d)" and "map_of d m = Some p"
  obtains q where "map_of (bo_positions v) (ps_position_id p) = Some q" "holding_of q = holding_of p" "ps_mint p = m"
proof -
  let ?w = "view_of v d"
  have mem: "(m, holding_of p) \<in> set (vw_memory ?w)"
    using map_of_SomeD [of "holdings d" m "holding_of p"] assms(2) by (simp add: view_of_def)
  then have "holding_of p \<in> snd ` set (vw_rows ?w)" and mint: "ho_mint (holding_of p) = m"
    using assms(1) unfolding view_ok_def by (metis (no_types) image_eqI snd_conv, fastforce)
  then obtain i where i: "(i, holding_of p) \<in> set (vw_rows ?w)" by auto
  then have "i = ps_position_id p" using assms(1) by (fastforce simp: view_ok_def holding_of_def)
  moreover have "dict_ok (vw_rows ?w)" using assms(1) by (simp add: view_ok_def)
  ultimately have "map_of (holdings (bo_positions v)) (ps_position_id p) = Some (holding_of p)"
    using i map_of_is_SomeI [of "vw_rows ?w"] by (simp add: view_of_def)
  then obtain q where "map_of (bo_positions v) (ps_position_id p) = Some q" "holding_of q = holding_of p"
    by auto
  then show ?thesis using that mint by (simp add: holding_of_def)
qed

lemma holding_of_id: "holding_of p = holding_of q \<Longrightarrow> ps_position_id p = ps_position_id q"
  by (simp add: holding_of_def)

lemma wp_update_position:
  assumes "view_ok (account_view_of b)" and "map_of (bk_positions b) m = Some stored"
    and "holding_of p = holding_of stored"
  shows "wp (update_position cx m p) (\<lambda>_ b'. account_view_of b' = account_view_of b)
           (\<lambda>_ b'. account_view_of b' = account_view_of b) b"
proof -
  obtain q where q: "map_of (bo_positions (books_of (bk_store b))) (ps_position_id p) = Some q"
      "holding_of q = holding_of p"
    using memory_row [OF assms(1) [unfolded account_view_of_def] assms(2)] assms(3) holding_of_id [OF assms(3)]
    by metis
  have mem: "holdings (AList.update m p (bk_positions b)) = holdings (bk_positions b)"
    by (rule holdings_update_same [OF assms(2,3)])
  have row: "holdings (AList.update (ps_position_id p) p (bo_positions (books_of (bk_store b)))) =
      holdings (bo_positions (books_of (bk_store b)))"
    by (rule holdings_update_same [OF q(1)]) (simp add: q(2))
  show ?thesis
    unfolding update_position_def on_db_def wp_seq wp_modify wp_zoom
    by (rule wp_save_position) (use mem row in \<open>simp_all add: account_view_of_def view_of_def\<close>)
qed

lemma holding_route_updated [simp]: "holding_of (route_updated state p) = holding_of p"
  by (simp add: holding_of_def route_updated_def)

lemma holding_marked:
  "marked_position cx c state features price t p = Inr p' \<Longrightarrow> holding_of p' = holding_of p"
  unfolding marked_position_def Let_def
  by (auto simp: holding_of_def route_updated_def split: if_splits sum.splits exc.splits)

lemma holding_warned [simp]: "holding_of (warned_position st t now p) = holding_of p"
  by (simp add: holding_of_def warned_position_def Let_def split: option.splits)

lemma holding_integrity:
  "persistent_integrity_exit_reason p features now = Inr (p', r) \<Longrightarrow> holding_of p' = holding_of p"
  unfolding persistent_integrity_exit_reason_def Let_def
  by (auto split: if_splits simp: rbind_eq_Inr)

lemma wp_effective_marked_at:
  assumes "\<And>t b'. account_view_of b' = account_view_of b \<Longrightarrow> bk_positions b' = bk_positions b \<Longrightarrow> Q t b'"
  shows "wp (effective_marked_at cx state marked_at) Q E b"
  using assms by (auto simp: effective_marked_at_def on_db_def wp_simps account_view_of_def split: option.split)

lemma quiet_mark: "quiet (mark_position cx state features price marked_at)"
proof (rule quietI_wp)
  fix b
  assume ok: "view_ok (account_view_of b)"
  let ?same = "\<lambda>_ b'. account_view_of b' = account_view_of b"
  have upd: "wp (if mark_out_of_order t p then ret () else
        bnd (lift (marked_position cx c state features price t p)) (update_position cx (ts_mint state)))
      ?same ?same b'"
    if "map_of (bk_positions b) (ts_mint state) = Some p" "account_view_of b' = account_view_of b"
       "bk_positions b' = bk_positions b" for c t p b'
    using wp_update_position [of b' "ts_mint state" p] ok that
    by (auto simp: wp_simps split: sum.splits dest: holding_marked)
  show "wp (mark_position cx state features price marked_at) ?same ?same b"
    unfolding mark_position_def wp_bnd wp_gets wp_case_option
    by (auto simp: wp_ret split: option.split intro!: wp_effective_marked_at upd)
qed

lemma quiet_schedule_exit: "quiet (schedule_exit_if_needed cx state features now mode soft participant)"
proof (rule quietI_wp)
  fix b
  assume ok: "view_ok (account_view_of b)"
  let ?same = "\<lambda>_ b'. account_view_of b' = account_view_of b"
  have sell: "wp (when_do c (submit_sell cx p now reason)) ?same ?same b'"
    if "account_view_of b' = account_view_of b" for c p reason b'
    by (rule wp_quiet [of _ b']) (use that ok in \<open>auto intro: quiet_cases quiet_submit_sell simp: books_sound_def\<close>)
  have upd: "wp (seq (update_position cx (ts_mint state) p') (when_do c (submit_sell cx p' now reason))) ?same ?same b"
    if "map_of (bk_positions b) (ts_mint state) = Some p" "holding_of p' = holding_of p" for p p' c reason
    unfolding wp_seq by (rule wp_mono [OF wp_update_position [OF ok that]]) (simp_all add: sell)
  have set_assessment: "holding_of (p\<lparr> ps_exit_assessment := a \<rparr>) = holding_of p" for p a
    by (simp add: holding_of_def)
  show "wp (schedule_exit_if_needed cx state features now mode soft participant) ?same ?same b"
    unfolding schedule_exit_if_needed_def Let_def wp_bnd wp_gets wp_case_option wp_if wp_lift
    by (auto simp: wp_ret wp_case_prod set_assessment split: option.split sum.split intro!: upd
        dest: holding_integrity)
qed

section \<open>Posting to the ledger\<close>

definition posting :: "ledger_row list \<Rightarrow> string \<Rightarrow> int" where
  "posting rows a = sum_list (map (\<lambda>r. row_debit r - row_credit r) (filter (\<lambda>r. fst r = a) rows))"

lemma account_balance_append [simp]: "account_balance (l @ k) a = account_balance l a + account_balance k a"
  and account_balance_Nil [simp]: "account_balance [] a = 0"
  by (simp_all add: account_balance_def)

lemma account_balance_posted: "account_balance (map (entry_of tx t) rows) a = posting rows a"
  by (induction rows) (auto simp: account_balance_def posting_def entry_of_def)

lemma ledger_sound_Nil [simp]: "ledger_sound []"
  by (simp add: ledger_sound_def)

lemma ledger_sound_post:
  assumes "validated_ledger_entries rows = Inr rows" and "ledger_sound l"
  shows "ledger_sound (l @ map (entry_of tx t) rows)"
proof -
  have "sum_list (map row_debit rows) = sum_list (map row_credit rows)"
    and "\<forall>r \<in> set rows. 0 \<le> row_debit r \<and> 0 \<le> row_credit r"
    using assms(1) by (auto simp: validated_ledger_entries_def list_ex_iff not_less split: if_splits)
  then show ?thesis
    using assms(2) by (auto simp: ledger_sound_def entry_of_def comp_def)
qed

lemma inventory_account_simps [simp]:
  "inventory_account m = inventory_account m' \<longleftrightarrow> m = m'"
  "inventory_account m \<noteq> ''cash''" "''cash'' \<noteq> inventory_account m"
  "inventory_account m \<noteq> ''network_expense''" "inventory_account m \<noteq> ''exit_expense''"
  "inventory_account m \<noteq> ''realized_gain''" "inventory_account m \<noteq> ''realized_loss''"
  "inventory_account m \<noteq> ''capital''"
  "''network_expense'' \<noteq> inventory_account m" "''exit_expense'' \<noteq> inventory_account m"
  "''realized_gain'' \<noteq> inventory_account m" "''realized_loss'' \<noteq> inventory_account m"
  "''capital'' \<noteq> inventory_account m"
  by (simp_all add: inventory_account_def)

lemmas row_defs = row_debit_def row_credit_def

lemma posting_buy:
  "posting (buy_entries m r) ''cash'' = - fr_account_net_minor r"
  "posting (buy_entries m r) (inventory_account m') =
     (if m' = m then fr_account_net_minor r - fr_account_network_fee_minor r else 0)"
  by (simp_all add: posting_def buy_entries_def row_defs)

lemma posting_sell:
  "posting (sell_entries m r p) ''cash'' = fr_account_net_minor r"
  "posting (sell_entries m r p) (inventory_account m') = (if m' = m then - ps_book_value_lamports p else 0)"
  by (simp_all add: posting_def sell_entries_def row_defs Let_def)

lemma posting_bankroll:
  "posting (bankroll_rows n memo) ''cash'' = n"
  "posting (bankroll_rows n memo) (inventory_account m) = 0"
  by (simp_all add: posting_def bankroll_rows_def row_defs)

section \<open>Steps of the view\<close>

lemma view_memory_mint:
  assumes "view_ok w" and "\<forall>(i, h) \<in> set (vw_rows w). ho_mint h \<noteq> m"
  shows "map_of (vw_memory w) m = None"
proof (rule ccontr)
  assume "map_of (vw_memory w) m \<noteq> None"
  then obtain h where h: "(m, h) \<in> set (vw_memory w)" by (auto dest: map_of_SomeD)
  then have "h \<in> snd ` set (vw_rows w)" "ho_mint h = m"
    using assms(1) unfolding view_ok_def by (metis (no_types) image_eqI snd_conv, fastforce)
  then show False using assms(2) by fastforce
qed

lemma view_buy:
  assumes ok: "view_ok w" and rows: "validated_ledger_entries rows = Inr rows"
    and new: "\<forall>(i, q) \<in> set (vw_rows w). i \<noteq> ho_position_id h \<and> ho_mint q \<noteq> ho_mint h"
    and cost: "0 \<le> ho_entry_cost h" "ho_entry_cost h \<le> account_balance (vw_ledger w) ''cash''"
    and cash: "posting rows ''cash'' = - ho_entry_cost h"
    and inv: "\<And>m. posting rows (inventory_account m) = (if m = ho_mint h then ho_book h else 0)"
    and w': "w' = w\<lparr> vw_ledger := vw_ledger w @ map (entry_of tx t) rows,
                    vw_rows := vw_rows w @ [(ho_position_id h, h)], vw_memory := vw_memory w @ [(ho_mint h, h)] \<rparr>"
  shows "view_ok w' \<and> account_step (account_of_view w) (account_of_view w')"
proof
  have none: "map_of (vw_memory w) (ho_mint h) = None"
    by (rule view_memory_mint [OF ok]) (use new in auto)
  have ne: "rows \<noteq> []" using rows by (auto simp: validated_ledger_entries_def)
  have "ho_mint h \<notin> ho_mint ` snd ` set (vw_rows w)" using new by auto
  moreover have same: "snd ` set (vw_memory w) = snd ` set (vw_rows w)" using ok by (simp add: view_ok_def)
  ultimately have fresh: "ho_mint h \<notin> ho_mint ` snd ` set (vw_memory w)" by argo
  then have absent: "h \<notin> snd ` set (vw_memory w)" by auto
  have "account_balance (vw_ledger w) (inventory_account m) = inventory_value (vw_memory w) m" for m
    using ok by (simp add: view_ok_def)
  then have "\<forall>m. account_balance (vw_ledger w') (inventory_account m) = inventory_value (vw_memory w') m"
    using none by (auto simp: w' account_balance_posted inv inventory_value_def map_add_def split: option.split)
  moreover have "inj_on ho_mint (snd ` set (vw_rows w'))"
  proof -
    have "inj_on ho_mint (snd ` set (vw_rows w))" using ok by (simp add: view_ok_def)
    moreover have "ho_mint h \<notin> ho_mint ` (snd ` set (vw_rows w) - {h})" using new by force
    ultimately show ?thesis by (simp add: w')
  qed
  moreover have "snd ` set (vw_memory w') = snd ` set (vw_rows w')"
    using ok by (simp add: view_ok_def w')
  moreover have "dict_ok (vw_rows w')" "dict_ok (vw_memory w')"
  proof -
    have "dict_ok (vw_rows w)" "dict_ok (vw_memory w)" using ok by (simp_all add: view_ok_def)
    then show "dict_ok (vw_rows w')" "dict_ok (vw_memory w')"
      using new map_of_NoneD [OF none] by (auto simp: w')
  qed
  moreover have "ledger_sound (vw_ledger w')"
    using ok by (simp add: view_ok_def w' ledger_sound_post [OF rows])
  moreover have "0 \<le> account_balance (vw_ledger w') ''cash''" "vw_ledger w' \<noteq> []"
    using cost ne by (simp_all add: w' account_balance_posted cash)
  moreover have "\<forall>(i, q) \<in> set (vw_rows w'). ho_position_id q = i"
    "\<forall>(m, q) \<in> set (vw_memory w'). ho_mint q = m \<and> 0 \<le> ho_entry_cost q"
    using ok cost by (auto simp: w' view_ok_def)
  moreover have "\<exists>starting realized. vw_starting w' = Some starting \<and> vw_realized w' = Some realized \<and>
      account_balance (vw_ledger w') ''cash'' + held_cost (snd ` set (vw_memory w')) = starting + realized"
    using ok absent by (auto simp: w' view_ok_def account_balance_posted cash held_cost_simps)
  ultimately show "view_ok w'"
    unfolding view_ok_def by blast
  show "account_step (account_of_view w) (account_of_view w')"
    using account_step.buy [of h "account_of_view w"] fresh cost
    by (simp add: account_of_view_def w' account_balance_posted cash)
qed

lemma view_sell:
  assumes ok: "view_ok w" and rows: "validated_ledger_entries rows = Inr rows"
    and held: "map_of (vw_memory w) m = Some h"
    and proceeds: "0 \<le> proceeds" and cash: "posting rows ''cash'' = proceeds"
    and inv: "\<And>k. posting rows (inventory_account k) = (if k = m then - ho_book h else 0)"
    and realized: "vw_realized w = Some realized"
    and w': "w' = w\<lparr> vw_ledger := vw_ledger w @ map (entry_of tx t) rows,
                    vw_rows := AList.delete (ho_position_id h) (vw_rows w),
                    vw_memory := AList.delete m (vw_memory w),
                    vw_realized := Some (realized + (proceeds - ho_entry_cost h)) \<rparr>"
  shows "view_ok w' \<and> account_step (account_of_view w) (account_of_view w')"
proof
  have d: "dict_ok (vw_memory w)" "dict_ok (vw_rows w)" using ok by (simp_all add: view_ok_def)
  have ne: "rows \<noteq> []" using rows by (auto simp: validated_ledger_entries_def)
  have mem: "(m, h) \<in> set (vw_memory w)" using held by (rule map_of_SomeD)
  have mem': "h \<in> snd ` set (vw_memory w)" using image_eqI [OF _ mem, of h snd] by simp
  have keys: "\<forall>(k, q) \<in> set (vw_memory w). ho_mint q = k" "\<forall>(i, q) \<in> set (vw_rows w). ho_position_id q = i"
    and inj: "inj_on ho_mint (snd ` set (vw_rows w))"
    and same: "snd ` set (vw_memory w) = snd ` set (vw_rows w)"
    using ok by (auto simp: view_ok_def)
  have hm: "ho_mint h = m" "h \<in> snd ` set (vw_rows w)" using mem keys(1) same by (auto, metis image_eqI snd_conv)
  have gone: "snd ` set (AList.delete m (vw_memory w)) = snd ` set (vw_memory w) - {h}"
    using hm(1) mem' by (intro delete_value [OF d(1), where f = ho_mint] keys(1)) simp_all
  have gone': "snd ` set (AList.delete (ho_position_id h) (vw_rows w)) = snd ` set (vw_rows w) - {h}"
    using hm(2) by (intro delete_value [OF d(2), where f = ho_position_id] keys(2)) auto
  have "\<forall>k. account_balance (vw_ledger w') (inventory_account k) = inventory_value (vw_memory w') k"
    using ok held by (auto simp: view_ok_def w' account_balance_posted inv inventory_value_def
        delete_conv' split: option.splits)
  moreover have "snd ` set (vw_memory w') = snd ` set (vw_rows w')" using same by (simp add: w' gone gone')
  moreover have "inj_on ho_mint (snd ` set (vw_rows w'))"
    unfolding w' by (simp add: gone' inj_on_subset [OF inj])
  moreover have "ledger_sound (vw_ledger w')"
    using ok by (simp add: view_ok_def w' ledger_sound_post [OF rows])
  moreover have "0 \<le> account_balance (vw_ledger w') ''cash''"
    using ok proceeds by (simp add: view_ok_def w' account_balance_posted cash)
  moreover have "\<forall>(i, q) \<in> set (vw_rows w'). ho_position_id q = i"
    "\<forall>(k, q) \<in> set (vw_memory w'). ho_mint q = k \<and> 0 \<le> ho_entry_cost q"
    using ok by (auto simp: w' view_ok_def set_delete)
  moreover have "dict_ok (vw_rows w')" "dict_ok (vw_memory w')" "vw_ledger w' \<noteq> []"
    using d ne by (simp_all add: w' distinct_delete)
  moreover have "\<exists>starting realized. vw_starting w' = Some starting \<and> vw_realized w' = Some realized \<and>
      account_balance (vw_ledger w') ''cash'' + held_cost (snd ` set (vw_memory w')) = starting + realized"
    using ok realized by (auto simp: w' view_ok_def account_balance_posted cash gone held_cost_simps hm(2) mem')
  ultimately show "view_ok w'"
    unfolding view_ok_def by blast
  show "account_step (account_of_view w) (account_of_view w')"
    using account_step.sell [of h "account_of_view w" proceeds] mem' proceeds realized
    by (simp add: account_of_view_def w' account_balance_posted cash gone)
qed

lemma view_opened:
  assumes "0 < n" and "opening_ledger (vw_ledger w') n" and "vw_rows w' = []" and "vw_memory w' = []"
    and "vw_starting w' = Some n" and "vw_realized w' = Some 0"
  shows "view_ok w' \<and> account_step a (account_of_view w')"
proof -
  obtain tx now memo where l: "vw_ledger w' = map (entry_of tx now) (bankroll_rows n memo)"
    using assms(2) by (auto simp: opening_ledger_def)
  have bal: "account_balance (vw_ledger w') ''cash'' = n"
    "account_balance (vw_ledger w') (inventory_account m) = 0" for m
    by (simp_all add: l account_balance_posted posting_bankroll)
  have "ledger_sound (vw_ledger w')"
    using assms(1) by (auto simp: l ledger_sound_def bankroll_rows_def entry_of_def row_defs)
  then have "view_ok w'"
    using assms bal by (auto simp: view_ok_def inventory_value_def held_cost_simps)
  moreover have "account_of_view w' = \<lparr> ac_starting = n, ac_cash = n, ac_realized = 0, ac_held = {} \<rparr>"
    using assms bal by (simp add: account_of_view_def)
  ultimately show ?thesis using account_step.open_season [OF assms(1)] by simp
qed

lemma view_closed:
  assumes "vw_ledger w' = []" "vw_rows w' = []" "vw_memory w' = []" "vw_starting w' = Some 0" "vw_realized w' = Some 0"
  shows "view_ok w' \<and> account_step a (account_of_view w')"
  using assms account_step.close_season [of a]
  by (simp add: view_ok_def account_of_view_def closed_account_def inventory_value_def held_cost_simps)

section \<open>The operations that move money\<close>

text \<open>The books are sound and the account was reached by steps of the abstract account.\<close>

definition lawful :: "account \<Rightarrow> broker \<Rightarrow> bool" where
  "lawful a b \<longleftrightarrow> books_sound b \<and> account_step\<^sup>*\<^sup>* a (account_of b)"

lemma lawful_refl: "books_sound b \<Longrightarrow> lawful (account_of b) b"
  by (simp add: lawful_def)

lemma lawful_same: "lawful a b \<Longrightarrow> account_view_of b' = account_view_of b \<Longrightarrow> lawful a b'"
  by (simp add: lawful_def books_sound_def account_of_def)

lemma lawful_sound: "lawful a b \<Longrightarrow> books_sound b"
  by (simp add: lawful_def)

lemma lawful_step:
  "lawful a b \<Longrightarrow> view_ok (account_view_of b') \<and> account_step (account_of b) (account_of b') \<Longrightarrow> lawful a b'"
  unfolding lawful_def books_sound_def by (metis rtranclp.rtrancl_into_rtrancl)

lemma quiet_lawful: "quiet m \<Longrightarrow> keeps (lawful a) m"
  unfolding keeps_wp
  by (intro allI impI wp_quiet) (auto intro: lawful_same lawful_sound)

lemma wp_quiet_lawful:
  assumes "quiet m" and "lawful a b" and "\<And>x b'. account_view_of b' = account_view_of b \<Longrightarrow> Q x b'"
  shows "wp m Q (\<lambda>_. lawful a) b"
  by (rule wp_quiet [OF assms(1) lawful_sound [OF assms(2)]]) (auto intro: assms(3) lawful_same [OF assms(2)])

lemma wp_account_buy:
  assumes law: "lawful a b"
    and net: "0 \<le> fr_account_net_minor r" "fr_account_net_minor r \<le> cash_lamports b"
  shows "wp (account_buy cx order r state) (\<lambda>_. lawful a) (\<lambda>_. lawful a) b"
  unfolding account_buy_def wp_bnd [of "on_db (fresh_uuid (cx_env cx))"]
proof (rule wp_quiet_lawful [OF quiet_fresh_uuid law])
  fix pid b1
  assume same: "account_view_of b1 = account_view_of b"
  define p where "p = opened_position pid order r state"
  define rows where "rows = buy_entries (po_mint order) r"
  define ep where "ep = execution_episode_for_buy cx b1 order r state"
  let ?v = "books_of (bk_store b1)"
  have law1: "lawful a b1" by (rule lawful_same [OF law same])
  have ok: "view_ok (view_of ?v (bk_positions b1))"
    using lawful_sound [OF law1] by (simp add: books_sound_def account_view_of_def)
  have cash: "fr_account_net_minor r \<le> account_balance (bo_ledger ?v) ''cash''"
    using net(2) arg_cong [OF same, of vw_ledger] by (simp add: cash_is_balance account_view_of_def view_of_def)
  have p: "ps_position_id p = pid" "ps_mint p = po_mint order" by (simp_all add: p_def opened_position_def)
  have post: "lawful a b2"
    if books: "books_of (bk_store b2) = ?v\<lparr>
        bo_orders := AList.map_entry (po_order_id order) (\<lambda>_. order) (bo_orders ?v), bo_fills := bo_fills ?v @ [r],
        bo_ledger := bo_ledger ?v @ map (entry_of (fr_fill_id r) (fr_filled_at r)) rows,
        bo_positions := bo_positions ?v @ [(ps_position_id p, p)] \<rparr>"
      and memory: "bk_positions b2 = AList.update (po_mint order) p (bk_positions b1)"
      and checked: "commit_checked ?v order r p rows"
      and new: "\<forall>(i, q) \<in> set (bo_positions ?v). i \<noteq> ps_position_id p \<and> ps_mint q \<noteq> ps_mint p" for b2
  proof -
    have new': "\<forall>(i, q) \<in> set (holdings (bo_positions ?v)). i \<noteq> ho_position_id (holding_of p) \<and> ho_mint q \<noteq> ho_mint (holding_of p)"
      using new by (auto simp: holdings_def holding_of_def)
    have none: "map_of (bk_positions b1) (po_mint order) = None"
      using view_memory_mint [OF ok, of "po_mint order"] new' by (auto simp: view_of_def holding_of_def p)
    let ?w' = "view_of (books_of (bk_store b2)) (bk_positions b2)"
    have "view_ok ?w' \<and> account_step (account_of_view (view_of ?v (bk_positions b1))) (account_of_view ?w')"
    proof (rule view_buy [OF ok, where h = "holding_of p" and rows = rows and tx = "fr_fill_id r" and t = "fr_filled_at r"])
      show "validated_ledger_entries rows = Inr rows" using checked by (simp add: commit_checked_def)
      show "posting rows (inventory_account m) = (if m = ho_mint (holding_of p) then ho_book (holding_of p) else 0)" for m
        by (simp add: rows_def posting_buy holding_of_def p_def opened_position_def)
    qed (use new' net(1) cash none in
        \<open>simp_all add: view_of_def books memory rows_def posting_buy p_def opened_position_def holding_of_def update_absent\<close>)
    then show ?thesis
      by (intro lawful_step [OF law1]) (simp add: account_of_def account_view_of_def)
  qed
  have undo: "books_of s' = ?v \<Longrightarrow> lawful a (b1\<lparr> bk_store := s' \<rparr>)" for s'
    by (rule lawful_same [OF law1]) (simp add: account_view_of_def)
  show "wp (let p = opened_position pid order r state in
     seq (guard (position_fields_ok p) (ValueError ''invalid position''))
     (bnd (gets (\<lambda>b. execution_episode_for_buy cx b order r state)) (\<lambda>episode.
     seq (guard (episode_fields_ok episode) (ValueError ''invalid evidence episode''))
     (seq (on_db (commit_buy_fill order r p (buy_entries (po_mint order) r) (Some episode)))
     (seq (modify (\<lambda>b. b\<lparr> bk_positions := AList.update (po_mint order) p (bk_positions b),
                          bk_traded_mints := (if po_mint order \<in> set (bk_traded_mints b)
                            then bk_traded_mints b else bk_traded_mints b @ [po_mint order]) \<rparr>))
          (notify_evidence_observer (Some episode))))))) (\<lambda>_. lawful a) (\<lambda>_. lawful a) b1"
    unfolding Let_def p_def [symmetric] rows_def [symmetric] wp_seq wp_guard wp_bnd wp_gets ep_def [symmetric]
      on_db_def wp_zoom notify_evidence_observer_def option.case wp_modify
    by (auto intro!: law1 wp_commit_buy_fill undo intro: post simp del: books_of_sel)
qed

lemma setting_int_num:
  "setting_int t key 0 = (case setting_num (tb_settings t) key of None \<Rightarrow> Inl TypeError | Some n \<Rightarrow> Inr n)"
  by (simp add: setting_int_def setting_num_def get_setting_def split: option.split)

lemma wp_account_sell:
  assumes law: "lawful a b" and net: "0 \<le> fr_account_net_minor r"
  shows "wp (account_sell order r) (\<lambda>_. lawful a) (\<lambda>_. lawful a) b"
proof (cases "map_of (bk_positions b) (po_mint order)")
  case None
  then show ?thesis using law by (simp add: account_sell_def wp_simps)
next
  case (Some p)
  let ?v = "books_of (bk_store b)"
  let ?m = "po_mint order"
  define rows where "rows = sell_entries ?m r p"
  have ok: "view_ok (view_of ?v (bk_positions b))"
    using lawful_sound [OF law] by (simp add: books_sound_def account_view_of_def)
  then obtain realized where realized: "setting_num (bo_settings ?v) ''realized_pnl_lamports'' = Some realized"
    by (auto simp: view_ok_def view_of_def)
  define running where "running = realized + (fr_account_net_minor r - ps_entry_cost_lamports p)"
  define ep where "ep = map_option (completed_episode r)
      (execution_evidence_for_entry_fill (tables_of b) (ps_entry_fill_id p))"
  have post: "lawful a b2"
    if books: "books_of (bk_store b2) = ?v\<lparr>
        bo_orders := AList.map_entry (po_order_id order) (\<lambda>_. order) (bo_orders ?v), bo_fills := bo_fills ?v @ [r],
        bo_ledger := bo_ledger ?v @ map (entry_of (fr_fill_id r) (fr_filled_at r)) rows,
        bo_positions := AList.delete (ps_position_id p) (bo_positions ?v),
        bo_settings := AList.update ''realized_pnl_lamports'' (JInt running) (bo_settings ?v) \<rparr>"
      and memory: "bk_positions b2 = AList.delete ?m (bk_positions b)"
      and checked: "commit_checked ?v order r p rows" for b2
  proof -
    let ?w' = "view_of (books_of (bk_store b2)) (bk_positions b2)"
    have "view_ok ?w' \<and> account_step (account_of_view (view_of ?v (bk_positions b))) (account_of_view ?w')"
    proof (rule view_sell [OF ok, where m = ?m and h = "holding_of p" and rows = rows and tx = "fr_fill_id r"
          and t = "fr_filled_at r" and proceeds = "fr_account_net_minor r" and realized = realized])
      show "validated_ledger_entries rows = Inr rows" using checked by (simp add: commit_checked_def)
      show "posting rows (inventory_account k) = (if k = ?m then - ho_book (holding_of p) else 0)" for k
        by (simp add: rows_def posting_sell holding_of_def)
    qed (use net realized Some in
        \<open>simp_all add: view_of_def books memory rows_def posting_sell holding_of_def running_def
          setting_num_def update_conv'\<close>)
    then show ?thesis
      by (intro lawful_step [OF law]) (simp add: account_of_def account_view_of_def)
  qed
  have undo: "books_of s' = ?v \<Longrightarrow> lawful a (b\<lparr> bk_store := s' \<rparr>)" for s'
    by (rule lawful_same [OF law]) (simp add: account_view_of_def)
  have tail: "wp (notify_evidence_observer ep) (\<lambda>_. lawful a) (\<lambda>_. lawful a) b2" if "lawful a b2" for b2
    using quiet_lawful [OF quiet_notify] that by (simp add: keeps_wp)
  have int: "setting_int (tables_of b) ''realized_pnl_lamports'' 0 = Inr realized"
    using realized by (simp add: setting_int_num)
  show ?thesis
    unfolding account_sell_def wp_bnd wp_gets id_apply Some option.case int wp_lift sum.case Let_def
      rows_def [symmetric] running_def [symmetric] ep_def [symmetric] wp_seq on_db_def
      wp_zoom wp_modify
    by (auto intro!: wp_commit_sell_fill undo tail intro: post simp del: books_of_sel)
qed

lemma buy_net_account:
  assumes "account_fill_values c Buy g pr nw wl price = Inr v"
  shows "c = SOL \<Longrightarrow> av_net v = wl"
  using assms by (auto simp: account_fill_values_def account_minor_from_sol_def)

lemma receipt_net:
  assumes "fill_quote cx (bk_quote_currency b) order state price held = Inr (q, v)"
  shows "fr_account_net_minor (fill_receipt_of cx b fid order state ev now price held q v) = av_net v"
  using assms
  by (auto simp: fill_quote_def rbind_eq_Inr fill_receipt_of_def migrate_legacy_sol_account_values_def
      account_fill_values_def account_minor_from_sol_def split: if_splits)

lemma keeps_lawful_fail: "keeps (lawful a) (seq (fail_order order m now) (ret x))"
  by (intro quiet_lawful quiet_rules quiet_pending)

lemma wp_settle_fill:
  assumes law: "lawful a b" and cash: "po_side order = Buy \<Longrightarrow> fr_account_net_minor r \<le> cash_lamports b"
  shows "wp (settle_fill cx order state features now price r) (\<lambda>_. lawful a) (\<lambda>_. lawful a) b"
proof (cases "receipt_fields_ok r")
  case True
  then have pos: "0 \<le> fr_account_net_minor r" by (simp add: receipt_fields_ok_def)
  define pop :: "fill_receipt option brk" where "pop = seq (modify (\<lambda>b. b\<lparr> bk_pending := AList.delete (po_order_id order) (bk_pending b) \<rparr>))
      (ret (Some r))"
  have pop: "lawful a b2 \<Longrightarrow> wp pop (\<lambda>_. lawful a) (\<lambda>_. lawful a) b2" for b2
    by (auto simp: pop_def wp_simps intro: lawful_same)
  have mark: "lawful a b2 \<Longrightarrow> wp (mark_position cx state features price (Some now))
      (\<lambda>_. wp pop (\<lambda>_. lawful a) (\<lambda>_. lawful a)) (\<lambda>_. lawful a) b2" for b2
    by (rule wp_of_keeps [OF quiet_lawful [OF quiet_mark]]) (simp_all add: pop)
  have sell: "wp (account_sell x r) (\<lambda>_. wp pop (\<lambda>_. lawful a) (\<lambda>_. lawful a)) (\<lambda>_. lawful a) b" for x
    by (rule wp_mono [OF wp_account_sell [OF law pos]]) (simp_all add: pop)
  have buy: "wp (account_buy cx x r state) (\<lambda>_. wp (mark_position cx state features price (Some now))
      (\<lambda>_. wp pop (\<lambda>_. lawful a) (\<lambda>_. lawful a)) (\<lambda>_. lawful a)) (\<lambda>_. lawful a) b" if "po_side order = Buy" for x
    by (rule wp_mono [OF wp_account_buy [OF law pos cash [OF that]]]) (simp_all add: mark)
  show ?thesis
    unfolding settle_fill_def Let_def pop_def [symmetric] wp_seq wp_guard wp_if
    using True buy sell by simp
qed (use law in \<open>simp add: settle_fill_def Let_def wp_seq wp_guard\<close>)

lemma wp_execute_fill:
  assumes law: "lawful a b" and q: "fill_quote cx (bk_quote_currency b) order state price held = Inr (q, v)"
    and cash: "po_side order = Buy \<Longrightarrow> av_net v \<le> cash_lamports b"
  shows "wp (execute_fill cx order state features ev now price held q v) (\<lambda>_. lawful a) (\<lambda>_. lawful a) b"
  unfolding execute_fill_def wp_bnd wp_gets on_db_def wp_zoom
proof (rule wp_fresh_uuid)
  fix s'
  assume books: "books_of s' = (books_of (bk_store b))\<lparr> bo_fresh := bo_fresh (books_of (bk_store b)) + 1 \<rparr>"
  have same: "account_view_of (b\<lparr> bk_store := s' \<rparr>) = account_view_of b"
    by (simp add: account_view_of_def books view_of_def)
  have "cash_lamports (b\<lparr> bk_store := s' \<rparr>) = cash_lamports b"
    using arg_cong [OF same, of vw_ledger] by (simp add: cash_is_balance account_view_of_def view_of_def)
  then show "wp (settle_fill cx order state features now price
      (fill_receipt_of cx (b\<lparr> bk_store := s' \<rparr>) (en_uuid (cx_env cx) (bo_fresh (books_of (bk_store b)))) order
        state ev now price held q v)) (\<lambda>_. lawful a) (\<lambda>_. lawful a) (b\<lparr> bk_store := s' \<rparr>)"
    using receipt_net [of cx "b\<lparr> bk_store := s' \<rparr>" order state price held q v] q cash
    by (intro wp_settle_fill lawful_same [OF law same]) simp
qed

lemma keeps_fill: "keeps (lawful a) (fill cx order state features ev now price)"
  unfolding keeps_wp
proof (intro allI impI)
  fix b
  assume law: "lawful a b"
  have fail: "wp (seq (fail_order order m now) (ret x)) (\<lambda>_. lawful a) (\<lambda>_. lawful a) b" for m and x :: "fill_receipt option"
    using keeps_lawful_fail [of a order m now x] law unfolding keeps_wp by blast
  show "wp (fill cx order state features ev now price) (\<lambda>_. lawful a) (\<lambda>_. lawful a) b"
    unfolding fill_def Let_def wp_if wp_bnd wp_gets
    by (auto simp: wp_ret wp_raise law intro!: fail wp_execute_fill [OF law] split: sum.splits exc.splits option.splits if_splits)
qed

section \<open>Every operation\<close>

lemma keeps_fill_due_order: "keeps (lawful a) (fill_due_order cx state features ev now mode price order)"
  unfolding fill_due_order_def
  by (intro keeps_rules keeps_fill quiet_lawful quiet_fill_blocker keeps_lawful_fail) (intro quiet_lawful quiet_basic)+

lemma keeps_fill_due_orders: "keeps (lawful a) (fill_due_orders cx state features ev now mode price eq)"
  unfolding fill_due_orders_def
  by (intro keeps_rules keeps_fill_due_order quiet_lawful quiet_record_equity)

lemma keeps_market:
  "keeps (lawful a) (process_due_orders cx state features ev now mode price eq)"
  "keeps (lawful a) (reassess_position cx state features now mode price soft part)"
  "keeps (lawful a) (reassess_and_process_due_orders cx state features ev now mode price soft part)"
  "keeps (lawful a) (observe_market_state cx state features now price)"
  "keeps (lawful a) (expire_stuck_orders now)"
  "keeps (lawful a) (on_market_state cx state features kind ev now mode price soft part)"
proof -
  note q = quiet_lawful [OF quiet_mark] quiet_lawful [OF quiet_schedule_exit] quiet_lawful [OF quiet_record_equity]
    keeps_fill_due_orders
  show "keeps (lawful a) (process_due_orders cx state features ev now mode price eq)"
    unfolding process_due_orders_def by (intro keeps_rules q)
  show r: "keeps (lawful a) (reassess_position cx state features now mode price soft part)"
    unfolding reassess_position_def by (intro keeps_rules q)
  show "keeps (lawful a) (reassess_and_process_due_orders cx state features ev now mode price soft part)"
    unfolding reassess_and_process_due_orders_def by (intro keeps_rules q r)
  show "keeps (lawful a) (observe_market_state cx state features now price)"
    unfolding observe_market_state_def by (intro keeps_rules q)
  show e: "keeps (lawful a) (expire_stuck_orders now)"
    unfolding expire_stuck_orders_def by (intro quiet_lawful quiet_rules quiet_pending)
  show "keeps (lawful a) (on_market_state cx state features kind ev now mode price soft part)"
    unfolding on_market_state_def by (intro keeps_rules q e)
qed

lemma quiet_cancels:
  "quiet (cancel_pending_orders now r)" "quiet (cancel_pending_buys now r)" "quiet (cancel_pending_sells now r)"
  "quiet (schedule_profile_transition_exits cx now)"
  unfolding cancel_pending_orders_def cancel_pending_buys_def cancel_pending_sells_def
    schedule_profile_transition_exits_def
  by (intro quiet_rules quiet_pending quiet_snapshot quiet_submit_sell)+

lemma quiet_season_reads:
  "quiet (season_summary_of cx)" "quiet (unresolved_position_records cx now reason ds)"
  unfolding season_summary_of_def unresolved_position_records_def
  by (intro quiet_rules quiet_snapshot)+

lemma wp_refresh:
  "(\<And>n. Q () (b\<lparr> bk_notified := n \<rparr>)) \<Longrightarrow> wp (refresh_unresolved_evidence us) Q E b"
  unfolding refresh_unresolved_evidence_def
proof (induction us arbitrary: b)
  case Nil
  then show ?case using Nil [of "bk_notified b"] by (simp add: wp_simps)
next
  case (Cons u us)
  show ?case
    by (auto simp: wp_simps notify_evidence_observer_def split: option.split intro!: Cons.IH)
       (use Cons.prems [of "n :: evidence_episode list" for n] in auto)
qed

lemma season_settings_num:
  "season_settings v i n \<Longrightarrow> setting_num (bo_settings v) ''starting_lamports'' = Some n"
  "season_settings v i n \<Longrightarrow> setting_num (bo_settings v) ''realized_pnl_lamports'' = Some 0"
  by (simp_all add: season_settings_def setting_num_def)

lemma empty_books:
  assumes "books_sound b" and "bo_ledger (books_of (bk_store b)) = []"
  shows "bk_positions b = []" and "bo_positions (books_of (bk_store b)) = []"
  using assms by (auto simp: books_sound_def account_view_of_def view_of_def view_ok_def holdings_def)

text \<open>A state with a fresh season, or without one, is lawful whatever came before.\<close>

lemma lawful_opened:
  assumes "lawful a b" and "0 < n" and "opening_ledger (bo_ledger (books_of (bk_store b'))) n"
    and "bo_positions (books_of (bk_store b')) = []" and "bk_positions b' = []"
    and "setting_num (bo_settings (books_of (bk_store b'))) ''starting_lamports'' = Some n"
    and "setting_num (bo_settings (books_of (bk_store b'))) ''realized_pnl_lamports'' = Some 0"
  shows "lawful a b'"
  using view_opened [of n "account_view_of b'" "account_of b"] assms
  by (intro lawful_step [OF assms(1)])
     (simp add: account_of_def account_view_of_def view_of_def del: books_of_sel)

lemma lawful_closed:
  assumes "lawful a b" and "bo_ledger (books_of (bk_store b')) = []"
    and "bo_positions (books_of (bk_store b')) = []" and "bk_positions b' = []"
    and "season_settings (books_of (bk_store b')) i 0"
  shows "lawful a b'"
  using view_closed [of "account_view_of b'" "account_of b"] assms season_settings_num [OF assms(5)]
  by (intro lawful_step [OF assms(1)])
     (simp add: account_of_def account_view_of_def view_of_def del: books_of_sel)

lemma lawful_store: "lawful a b \<Longrightarrow> books_of s' = books_of (bk_store b) \<Longrightarrow> lawful a (b\<lparr> bk_store := s' \<rparr>)"
  by (erule lawful_same) (simp add: account_view_of_def)

lemma keeps_initialize: "keeps (lawful a) (initialize cx currency n profile)"
  unfolding keeps_wp
proof (intro allI impI)
  fix b
  assume law: "lawful a b"
  let ?L = "\<lambda>_. lawful a"
  have wall: "wp (on_db (wall_now (cx_env cx))) (\<lambda>now. wp (modify (u now)) ?L ?L) ?L b2"
    if "\<And>now s'. books_of s' = books_of (bk_store b2) \<Longrightarrow> lawful a (u now (b2\<lparr> bk_store := s' \<rparr>))" for u b2
    using that by (simp add: on_db_def wp_simps)
  have main: "wp (on_db (initialize_portfolio (cx_env cx) sid n currency profile))
      (\<lambda>_. wp (bnd (on_db (wall_now (cx_env cx))) (\<lambda>now.
         modify (\<lambda>b. b\<lparr> bk_quote_currency := currency, bk_quote_decimals := decimals_of currency,
           bk_starting_lamports := n, bk_initialized := True, bk_season_id := Some sid,
           bk_season_profile := profile, bk_last_equity_at := Some now \<rparr>))) ?L ?L) ?L b1"
    if law1: "lawful a b1" for b1 sid
    unfolding on_db_def [of "initialize_portfolio _ _ _ _ _"] wp_zoom wp_bnd
    by (rule wp_initialize_portfolio, rule wall, rule lawful_opened [OF law1])
       (use empty_books [OF lawful_sound [OF law1]] lawful_store [OF law1] in
         \<open>simp_all add: season_settings_num del: books_of_sel\<close>)
  have first: "wp (on_db (fresh_uuid (cx_env cx))) Q ?L b" if "\<And>x b'. lawful a b' \<Longrightarrow> Q x b'" for Q
    by (rule wp_quiet_lawful [OF quiet_fresh_uuid law]) (rule that, erule lawful_same [OF law])
  show "wp (initialize cx currency n profile) ?L ?L b"
    unfolding initialize_def Let_def wp_bnd [of "gets bk_initialized"] wp_gets wp_seq [of "guard _ _"] wp_guard
      wp_bnd [of "on_db (fresh_uuid (cx_env cx))"] wp_seq [of "on_db (initialize_portfolio _ _ _ _ _)"]
    using law by (auto intro!: first main simp del: books_of_sel)
qed

lemma keeps_reconfigure: "keeps (lawful a) (reconfigure_unstarted cx currency n profile)"
  unfolding keeps_wp
proof (intro allI impI)
  fix b
  assume law: "lawful a b"
  let ?L = "\<lambda>_. lawful a"
  have main: "wp (reconfigure_unstarted_portfolio (cx_env cx) sid currency n profile)
      (\<lambda>x s. \<forall>k dc pr now. lawful a (b\<lparr> bk_store := s\<lparr> st_clock := k \<rparr>, bk_quote_currency := currency,
           bk_quote_decimals := dc, bk_starting_lamports := n, bk_season_profile := pr,
           bk_last_equity_at := Some now \<rparr>))
      (\<lambda>e s. lawful a (b\<lparr> bk_store := s \<rparr>)) (bk_store b)" if "bk_positions b = []" for sid
    by (rule wp_reconfigure, intro allI, rule lawful_opened [OF law])
       (use that lawful_store [OF law] in \<open>simp_all add: setting_num_def del: books_of_sel\<close>)
  show "wp (reconfigure_unstarted cx currency n profile) ?L ?L b"
    unfolding reconfigure_unstarted_def
    using law by (auto simp: wp_simps on_db_def simp del: books_of_sel intro!: wp_mono [OF main])
qed

lemma keeps_reset: "keeps (lawful a) (reset cx)"
  unfolding keeps_wp
proof (intro allI impI)
  fix b
  assume law: "lawful a b"
  let ?L = "\<lambda>_. lawful a"
  define clear where "clear = modify (\<lambda>b. b\<lparr> bk_positions := [], bk_pending := [], bk_traded_mints := [],
      bk_starting_lamports := 0, bk_initialized := False, bk_season_id := None,
      bk_season_profile := None, bk_last_equity_at := None \<rparr> :: broker)"
  have main: "wp (seq (on_db (reset_paper_state (cx_env cx) summary reason us cmp))
      (seq (refresh_unresolved_evidence us) clear)) ?L ?L b1" if law1: "lawful a b1" for b1 summary reason us cmp
    unfolding wp_seq on_db_def wp_zoom
    by (rule wp_reset_paper_state, rule wp_refresh, unfold clear_def wp_modify, rule lawful_closed [OF law1])
       (use lawful_store [OF law1] in \<open>simp_all del: books_of_sel\<close>)
  have "keeps (lawful a) (reset cx)"
    unfolding reset_def clear_def [symmetric]
    by (intro keeps_bnd keeps_if keeps_gets keeps_ret quiet_lawful [OF quiet_wall_now]
        quiet_lawful [OF quiet_season_reads(1)] quiet_lawful [OF quiet_season_reads(2)])
       (simp add: keeps_wp main)
  then show "wp (reset cx) ?L ?L b" using law by (simp add: keeps_wp)
qed

lemma keeps_rollover:
  "keeps (lawful a) (rollover cx now profile currency starting reason running cmp ds)"
proof -
  let ?L = "\<lambda>_. lawful a"
  define clear where "clear c n sid pr = modify (\<lambda>b. b\<lparr> bk_positions := [], bk_pending := [], bk_traded_mints := [],
      bk_quote_currency := c, bk_quote_decimals := decimals_of c, bk_starting_lamports := n,
      bk_season_id := Some sid, bk_season_profile := pr, bk_last_equity_at := Some now \<rparr> :: broker)" for c n sid pr
  have main: "keeps (lawful a) (seq (on_db (rollover_paper_state sm sid n c now pr reason running us cmp'))
      (seq (refresh_unresolved_evidence us) (seq (clear c n sid pr) (ret x))))"
    for sm sid n c pr us cmp' and x :: "string \<times> string"
    unfolding keeps_wp wp_seq on_db_def wp_zoom
    by (intro allI impI, rule wp_rollover_paper_state, rule wp_refresh, unfold clear_def wp_modify wp_ret,
        erule lawful_opened)
       (simp_all add: season_settings_num lawful_store del: books_of_sel)
  show ?thesis
    unfolding rollover_def Let_def clear_def [symmetric]
    by (intro keeps_bnd keeps_seq keeps_gets keeps_guard keeps_lift quiet_lawful [OF quiet_fresh_uuid]
        quiet_lawful [OF quiet_season_reads(1)] quiet_lawful [OF quiet_season_reads(2)] main)
qed

section \<open>Restart\<close>

lemma fold_update_distinct:
  "distinct (map key xs) \<Longrightarrow> (\<forall>x \<in> set xs. key x \<notin> fst ` set d) \<Longrightarrow>
   fold (\<lambda>x d. AList.update (key x) x d) xs d = d @ map (\<lambda>x. (key x, x)) xs"
proof (induction xs arbitrary: d)
  case (Cons x xs)
  have "AList.update (key x) x d = d @ [(key x, x)]"
    by (rule update_absent) (use Cons.prems in \<open>simp add: map_of_eq_None_iff\<close>)
  moreover have "key y \<noteq> key x" if "y \<in> set xs" for y
  proof
    assume "key y = key x"
    then have "key x \<in> key ` set xs" using that by (metis image_eqI)
    then show False using Cons.prems(1) by simp
  qed
  ultimately show ?case using Cons by simp
qed simp

lemma rows_distinct_mints:
  assumes "view_ok (view_of v d)"
  shows "distinct (map (ps_mint \<circ> snd) (bo_positions v))"
proof -
  let ?rows = "holdings (bo_positions v)"
  have rows: "dict_ok ?rows" "\<forall>(i, h) \<in> set ?rows. ho_position_id h = i" "inj_on ho_mint (snd ` set ?rows)"
    using assms by (simp_all add: view_ok_def view_of_def)
  have "map (ho_position_id \<circ> snd) ?rows = map fst ?rows"
    by (rule map_cong) (use rows(2) in \<open>auto simp del: holdings_keys\<close>)
  then have "distinct (map ho_position_id (map snd ?rows))" using rows(1) by simp
  then have "distinct (map snd ?rows)" by (simp only: distinct_map)
  then have "distinct (map ho_mint (map snd ?rows))" using rows(3) by (simp add: distinct_map comp_inj_on)
  moreover have "map ho_mint (map snd ?rows) = map (ps_mint \<circ> snd) (bo_positions v)"
    by (auto simp: holdings_def holding_of_def)
  ultimately show ?thesis by simp
qed

definition loaded_positions :: "tables \<Rightarrow> (string, position) pydict" where
  "loaded_positions t = fold (\<lambda>p d. AList.update (ps_mint p) p d) (list_positions t) []"

lemma loaded_positions:
  assumes "distinct (map (ps_mint \<circ> snd) (tb_positions t))"
  shows "loaded_positions t = map (\<lambda>p. (ps_mint p, p)) (list_positions t)"
proof -
  have "mset (map ps_mint (list_positions t)) = mset (map (ps_mint \<circ> snd) (tb_positions t))"
    by (simp add: list_positions_def image_mset.compositionality comp_def)
  then have "distinct (map ps_mint (list_positions t))"
    using assms mset_eq_imp_distinct_iff by blast
  then show ?thesis by (simp add: loaded_positions_def fold_update_distinct [of ps_mint])
qed

lemma view_reloaded:
  assumes ok: "view_ok (view_of v d)" and v: "bo_positions v = tb_positions t"
  shows "view_ok (view_of v (loaded_positions t)) \<and>
    account_of_view (view_of v (loaded_positions t)) = account_of_view (view_of v d)"
proof -
  let ?w = "view_of v d" and ?w' = "view_of v (loaded_positions t)"
  have dm: "distinct (map (ps_mint \<circ> snd) (tb_positions t))"
    using rows_distinct_mints [OF ok] by (simp add: v)
  have mem: "vw_memory ?w' = map (\<lambda>p. (ps_mint p, holding_of p)) (list_positions t)"
    by (auto simp: view_of_def loaded_positions [OF dm] holdings_def)
  have "mset (map ps_mint (list_positions t)) = mset (map (ps_mint \<circ> snd) (tb_positions t))"
    by (simp add: list_positions_def image_mset.compositionality comp_def)
  then have d': "dict_ok (vw_memory ?w')"
    using dm mset_eq_imp_distinct_iff by (fastforce simp: mem comp_def)
  have vals': "snd ` set (vw_memory ?w') = snd ` set (vw_rows ?w)"
    unfolding mem by (simp add: view_of_def holdings_def v list_positions_def image_comp comp_def case_prod_beta)
  then have vals: "snd ` set (vw_memory ?w') = snd ` set (vw_memory ?w)"
    using ok by (simp add: view_ok_def)
  have keys: "\<forall>(m, h) \<in> set (vw_memory ?w). ho_mint h = m \<and> 0 \<le> ho_entry_cost h" and dw: "dict_ok (vw_memory ?w)"
    using ok by (simp_all add: view_ok_def)
  have keys': "\<forall>(m, h) \<in> set (vw_memory ?w'). ho_mint h = m \<and> 0 \<le> ho_entry_cost h"
  proof clarify
    fix m h
    assume "(m, h) \<in> set (vw_memory ?w')"
    moreover from this have "h \<in> snd ` set (vw_memory ?w)" using vals by force
    ultimately show "ho_mint h = m \<and> 0 \<le> ho_entry_cost h" using keys by (auto simp: mem holding_of_def)
  qed
  have "set x = (\<lambda>h. (ho_mint h, h)) ` snd ` set x" if "\<forall>(m, h) \<in> set x. ho_mint h = m \<and> 0 \<le> ho_entry_cost h"
    for x :: "(string \<times> holding) list" using that by force
  from this [OF keys] this [OF keys'] vals have set_eq: "set (vw_memory ?w') = set (vw_memory ?w)" by simp
  then have look: "map_of (vw_memory ?w') = map_of (vw_memory ?w)"
    using map_of_inject_set [OF d' dw] by simp
  have rest: "vw_ledger ?w' = vw_ledger ?w" "vw_rows ?w' = vw_rows ?w" "vw_starting ?w' = vw_starting ?w"
    "vw_realized ?w' = vw_realized ?w" by (simp_all add: view_of_def)
  have "vw_memory ?w' = [] \<longleftrightarrow> vw_memory ?w = []" using set_eq by (metis set_empty)
  then have "view_ok ?w'"
    using ok d' keys' vals unfolding view_ok_def rest inventory_value_def look vals by blast
  then show ?thesis using vals by (simp add: account_of_view_def rest)
qed

lemma wp_load_rest:
  assumes "\<And>x s'. (bo_positions (books_of s') = bo_positions (books_of s) \<and> bo_ledger (books_of s') = bo_ledger (books_of s) \<and>
       (\<forall>k. k \<noteq> ''season_id'' \<longrightarrow> map_of (bo_settings (books_of s')) k = map_of (bo_settings (books_of s)) k)) \<Longrightarrow> Q x s'"
    and "\<And>e s'. E e s'"
  shows "wp (load_season_id cx initialized) Q E s"
proof -
  have tail: "wp (seq (set_setting (cx_env cx) ''season_id'' (JStr x)) (ret y)) Q E s1"
    if "books_of s1 = (books_of s)\<lparr> bo_fresh := n \<rparr>" for x y s1 n
    unfolding wp_seq by (rule wp_set_setting) (use that assms(1) in \<open>auto simp: wp_ret update_conv' simp del: books_of_sel\<close>)
  show ?thesis
    unfolding load_season_id_def wp_bnd wp_of_tables wp_if wp_ret
    using assms(1) by (auto intro!: wp_fresh_uuid tail simp del: books_of_sel)
qed

lemma off_books_load_profile: "off_books (load_profile cx sid stored)"
  unfolding load_profile_def by (intro off_books_rules off_books_season_rows)

lemma wp_load:
  assumes sound: "books_sound b"
  shows "wp (load cx) (\<lambda>b' _. books_sound b' \<and> account_of b' = account_of b) (\<lambda>_ _. True) (bk_store b)"
proof -
  let ?Q = "\<lambda>b' _. books_sound b' \<and> account_of b' = account_of b" and ?E = "\<lambda>(_ :: exc) (_ :: store). True"
  let ?same = "\<lambda>s'. bo_positions (books_of s') = bo_positions (books_of (bk_store b)) \<and>
    bo_ledger (books_of s') = bo_ledger (books_of (bk_store b)) \<and>
    (\<forall>k. k \<noteq> ''season_id'' \<longrightarrow> map_of (bo_settings (books_of s')) k = map_of (bo_settings (books_of (bk_store b))) k)"
  have fin: "?Q b' x" if "?same (bk_store b')" "bk_positions b' = loaded_positions (tables_of b')" for b' and x :: store
  proof -
    have v: "view_of (books_of (bk_store b')) d = view_of (books_of (bk_store b)) d" for d
      using that(1) by (simp add: view_of_def setting_num_def del: books_of_sel)
    have ok: "view_ok (view_of (books_of (bk_store b')) (bk_positions b))"
      using sound by (simp add: v books_sound_def account_view_of_def)
    show ?thesis
      using view_reloaded [OF ok, of "tables_of b'"] that(2)
      by (simp add: books_sound_def account_of_def account_view_of_def v [of "bk_positions b"])
  qed
  define tl where "tl initialized currency starting season_id =
     bnd (of_tables (\<lambda>t. if initialized then current_profile t else None)) (\<lambda>stored.
      bnd (load_profile cx season_id stored) (\<lambda>profile.
      gets (\<lambda>s. let t = st_tables s in
        \<lparr> bk_store = s, bk_initialized = initialized, bk_quote_currency = currency,
          bk_quote_decimals = decimals_of currency, bk_starting_lamports = starting,
          bk_season_id = season_id, bk_season_profile = profile,
          bk_positions = fold (\<lambda>p d. AList.update (ps_mint p) p d) (list_positions t) [],
          bk_pending = fold (\<lambda>order d. AList.update (po_order_id order) order d) (list_orders t Pending) [],
          bk_traded_mints = bought_mints t, bk_last_equity_at = None, bk_last_diagnostic = None,
          bk_notified = [] \<rparr>)))" for initialized currency starting season_id
  have tl: "wp (tl i c n sid) ?Q ?E s1" if same: "?same s1" for i c n sid s1
    unfolding tl_def wp_bnd wp_of_tables
    by (rule wp_off_books [OF off_books_load_profile], unfold wp_gets Let_def, rule fin)
       (use same in \<open>simp_all add: loaded_positions_def del: books_of_sel\<close>)
  have ensure: "wp (when_do cnd (ensure_current_season env x n c)) (\<lambda>_. wp (tl i c n sid) ?Q ?E) ?E s1"
    if same: "?same s1" for cnd env x n c i sid s1
    by (rule wp_off_books, intro off_books_rules off_books_season_rows, rule tl)
       (use same in \<open>simp_all del: books_of_sel\<close>)
  show ?thesis
    unfolding load_def Let_def wp_bnd [of "of_tables id"] wp_of_tables wp_bnd [of "lift _"] wp_lift
      wp_bnd [of "load_season_id _ _"]
    unfolding tl_def [symmetric, unfolded Let_def] wp_seq [of "when_do _ _"]
    by (auto split: sum.split simp del: books_of_sel intro!: wp_load_rest ensure)
qed

end
