(* ===== verification/Broker_Runs.thy ===== *)
theory Broker_Runs
  imports Broker_Accounts
begin

text \<open>
  Runs of the paper broker: any sequence of its public operations, each returning or raising,
  with restarts from the database in between.
\<close>

section \<open>Steps\<close>

text \<open>One call of a public operation, or a restart; the flag says whether it returned.\<close>

inductive broker_call :: "ctx \<Rightarrow> bool \<Rightarrow> broker \<Rightarrow> broker \<Rightarrow> bool" for cx where
  entry_blocker: "entry_blocker cx d price b = (r, b') \<Longrightarrow> broker_call cx (\<not> isl r) b b'"
| submit: "submit_decision_with_reason cx d price plan b = (r, b') \<Longrightarrow> broker_call cx (\<not> isl r) b b'"
| plan: "plan_entry_size cx d price b = (r, b') \<Longrightarrow> broker_call cx (\<not> isl r) b b'"
| planned: "planned_order_size_sol cx mode price b = (r, b') \<Longrightarrow> broker_call cx (\<not> isl r) b b'"
| can_fund: "can_fund_permitted_entry cx mode price b = (r, b') \<Longrightarrow> broker_call cx (\<not> isl r) b b'"
| market: "on_market_state cx state features kind ev now mode price soft part b = (r, b') \<Longrightarrow> broker_call cx (\<not> isl r) b b'"
| due: "process_due_orders cx state features ev now mode price eq b = (r, b') \<Longrightarrow> broker_call cx (\<not> isl r) b b'"
| observe: "observe_market_state cx state features now price b = (r, b') \<Longrightarrow> broker_call cx (\<not> isl r) b b'"
| reassess: "reassess_position cx state features now mode price soft part b = (r, b') \<Longrightarrow> broker_call cx (\<not> isl r) b b'"
| reassess_due:
    "reassess_and_process_due_orders cx state features ev now mode price soft part b = (r, b') \<Longrightarrow> broker_call cx (\<not> isl r) b b'"
| cancel_all: "cancel_pending_orders now reason b = (r, b') \<Longrightarrow> broker_call cx (\<not> isl r) b b'"
| cancel_buys: "cancel_pending_buys now reason b = (r, b') \<Longrightarrow> broker_call cx (\<not> isl r) b b'"
| cancel_sells: "cancel_pending_sells now reason b = (r, b') \<Longrightarrow> broker_call cx (\<not> isl r) b b'"
| expire: "expire_stuck_orders now b = (r, b') \<Longrightarrow> broker_call cx (\<not> isl r) b b'"
| exits: "schedule_profile_transition_exits cx now b = (r, b') \<Longrightarrow> broker_call cx (\<not> isl r) b b'"
| view: "snapshot cx omode persist b = (r, b') \<Longrightarrow> broker_call cx (\<not> isl r) b b'"
| summary: "season_summary_of cx b = (r, b') \<Longrightarrow> broker_call cx (\<not> isl r) b b'"
| unresolved: "unresolved_position_records cx now reason ds b = (r, b') \<Longrightarrow> broker_call cx (\<not> isl r) b b'"
| initialize: "initialize cx currency n profile b = (r, b') \<Longrightarrow> broker_call cx (\<not> isl r) b b'"
| reconfigure: "reconfigure_unstarted cx currency n prof b = (r, b') \<Longrightarrow> broker_call cx (\<not> isl r) b b'"
| reset: "reset cx b = (r, b') \<Longrightarrow> broker_call cx (\<not> isl r) b b'"
| rollover: "rollover cx now profile ocurrency starting reason running cmp ds b = (r, b') \<Longrightarrow> broker_call cx (\<not> isl r) b b'"
| restart: "load cx (bk_store b) = (Inr b', s) \<Longrightarrow> broker_call cx True b b'"

definition broker_step :: "ctx \<Rightarrow> broker \<Rightarrow> broker \<Rightarrow> bool" where
  "broker_step cx b b' \<longleftrightarrow> (\<exists>returned. broker_call cx returned b b')"

lemma broker_stepI: "broker_call cx returned b b' \<Longrightarrow> broker_step cx b b'"
  by (auto simp: broker_step_def)

lemma quiet_reads:
  "quiet (entry_blocker cx d price)" "quiet (plan_entry_size cx d price)"
  "quiet (can_fund_permitted_entry cx mode price)"
  unfolding entry_blocker_def plan_entry_size_def can_fund_permitted_entry_def
  by (intro quiet_rules quiet_entry quiet_snapshot)+

lemmas lawful_operations =
  keeps_market keeps_initialize keeps_reconfigure keeps_reset keeps_rollover
  quiet_reads [THEN quiet_lawful] quiet_entry [THEN quiet_lawful] quiet_cancels [THEN quiet_lawful]
  quiet_snapshot [THEN quiet_lawful] quiet_season_reads [THEN quiet_lawful]

lemma call_lawful: "broker_call cx returned b b' \<Longrightarrow> lawful a b \<Longrightarrow> lawful a b'"
proof (induction rule: broker_call.induct)
  case (restart b b' s)
  then have "books_sound b'" "account_of b' = account_of b"
    using wp_InrD [OF wp_load [OF lawful_sound]] by blast+
  then show ?case using restart.prems by (simp add: lawful_def)
qed (rule keepsD, rule lawful_operations, assumption, assumption)+

interpretation broker_run: guarded_machine "broker_step cx" "lawful a" for cx a
  by unfold_locales (auto simp: broker_step_def dest: call_lawful)

section \<open>Sample states\<close>

text \<open>A new database, and the outside world of the concrete instances.\<close>

definition empty_tables :: tables where
  "empty_tables = \<lparr> tb_settings = [], tb_decisions = [], tb_orders = [], tb_fills = [], tb_positions = [],
     tb_ledger = [], tb_usage = [], tb_equity_points = [], tb_equity_rollups = [], tb_episodes = [],
     tb_seasons = [], tb_strategy = [], tb_unresolved = [] \<rparr>"

definition empty_store :: store where
  "empty_store = \<lparr> st_tables = empty_tables, st_strategy_cache = None, st_clock = 0, st_fresh = 0 \<rparr>"

definition sample_ctx :: ctx where
  "sample_ctx =
     \<lparr> cx_env = \<lparr> en_wall = (\<lambda>n. int n * 1000000), en_uuid = (\<lambda>n. replicate n CHR ''u''),
                   en_utc_offset = (\<lambda>_. 0), en_sha256 = id, en_profile_digest = (\<lambda>_. replicate 64 CHR ''0''),
                   en_parse_receipt = (\<lambda>_. None) \<rparr>,
        cx_cfg = \<lparr> cf_entry_latency_ms = 1200, cf_exit_latency_ms = 900, cf_network_fee_lamports = 5000,
                   cf_priority_fee_lamports = 25000, cf_pump_fee_bps = 125, cf_equity_sample_seconds = 30,
                   cf_position_mark_stale_seconds = 90 \<rparr> \<rparr>"

definition new_broker :: broker where
  "new_broker =
     \<lparr> bk_store = empty_store, bk_initialized = False, bk_quote_currency = SOL, bk_quote_decimals = 9,
       bk_starting_lamports = 0, bk_season_id = None, bk_season_profile = None, bk_positions = [],
       bk_pending = [], bk_traded_mints = [], bk_last_equity_at = None, bk_last_diagnostic = None,
       bk_notified = [] \<rparr>"

lemma load_empty: "load cx empty_store = (Inr new_broker, empty_store)"
  by (simp add: new_broker_def load_def act_simps of_tables_def on_tables_def when_do_def empty_store_def
      empty_tables_def get_setting_def setting_int_def currency_of_json_def load_season_id_def
      load_profile_def decimals_of_def list_positions_def list_orders_def bought_mints_def unique_def
      present_def Let_def bnd_assoc seq_def)

lemma new_books_sound: "books_sound new_broker"
  unfolding books_sound_def account_view_of_def new_broker_def view_ok_def view_of_def
  by (simp add: empty_store_def empty_tables_def inventory_value_def setting_num_def held_cost_simps)

lemma sample_initialize: "fst (initialize sample_ctx SOL 1000000000 None new_broker) = Inr ()"
proof -
  have "wp (initialize sample_ctx SOL 1000000000 None) (\<lambda>x _. x = ()) (\<lambda>_ _. False) new_broker"
    by (simp add: initialize_def wp_simps on_db_def fresh_uuid_def initialize_portfolio_def db_txn_def
        insert_current_season_def insert_equity_point_def new_broker_def empty_store_def empty_tables_def
        get_setting_def bankroll_rows_def row_defs current_season_row_def upsert_settings_def Let_def)
  then show ?thesis by (auto simp: wp_def split: prod.splits sum.splits)
qed

section \<open>Properties\<close>

lemma run_lawful: "(broker_step cx)\<^sup>*\<^sup>* b b' \<Longrightarrow> books_sound b \<Longrightarrow> lawful (account_of b) b'"
  using broker_run.run_inv lawful_refl by blast

lemma books_soundD:
  assumes "books_sound b"
  shows "(\<forall>e \<in> set (tb_ledger (tables_of b)). 0 \<le> le_debit e \<and> 0 \<le> le_credit e) \<and>
    sum_list (map le_debit (tb_ledger (tables_of b))) = sum_list (map le_credit (tb_ledger (tables_of b))) \<and>
    0 \<le> cash_lamports b \<and>
    (\<forall>m. ledger_balance (tables_of b) (inventory_account m) =
       (case map_of (bk_positions b) m of None \<Rightarrow> 0 | Some p \<Rightarrow> ps_book_value_lamports p)) \<and>
    holding_of ` set (values_of (bk_positions b)) = holding_of ` set (values_of (tb_positions (tables_of b))) \<and>
    (\<exists>starting realized. setting_int (tables_of b) ''starting_lamports'' 0 = Inr starting \<and>
       setting_int (tables_of b) ''realized_pnl_lamports'' 0 = Inr realized \<and>
       cash_lamports b + sum ps_entry_cost_lamports (set (values_of (bk_positions b))) = starting + realized)"
proof -
  let ?w = "account_view_of b"
  have ok: "view_ok ?w" using assms by (simp add: books_sound_def)
  have inv: "\<forall>m. account_balance (vw_ledger ?w) (inventory_account m) = inventory_value (vw_memory ?w) m"
    and mem: "dict_ok (vw_memory ?w)" "\<forall>(m, h) \<in> set (vw_memory ?w). ho_mint h = m \<and> 0 \<le> ho_entry_cost h"
    and same: "snd ` set (vw_memory ?w) = snd ` set (vw_rows ?w)"
    and cash: "0 \<le> account_balance (vw_ledger ?w) ''cash''"
    and led: "ledger_sound (vw_ledger ?w)"
    using ok by (simp_all add: view_ok_def)
  obtain starting realized where st: "vw_starting ?w = Some starting" "vw_realized ?w = Some realized"
      "account_balance (vw_ledger ?w) ''cash'' + held_cost (snd ` set (vw_memory ?w)) = starting + realized"
    using ok by (auto simp: view_ok_def)
  have bal: "account_balance (vw_ledger ?w) a = ledger_balance (tables_of b) a" for a
    by (simp add: account_view_of_def view_of_def account_balance_def ledger_balance_def)
  have vals: "snd ` set (vw_memory ?w) = holding_of ` set (values_of (bk_positions b))"
    "snd ` set (vw_rows ?w) = holding_of ` set (values_of (tb_positions (tables_of b)))"
    by (simp_all add: account_view_of_def view_of_def holdings_def image_comp comp_def case_prod_beta)
  have ho_cost: "ho_entry_cost (holding_of p) = ps_entry_cost_lamports p" for p by (simp add: holding_of_def)
  have "inj_on holding_of (set (values_of (bk_positions b)))"
  proof (rule inj_onI)
    fix p q
    assume "p \<in> set (values_of (bk_positions b))" "q \<in> set (values_of (bk_positions b))" "holding_of p = holding_of q"
    then obtain k j where k: "(k, p) \<in> set (bk_positions b)" "(j, q) \<in> set (bk_positions b)" by auto
    then have "(k, holding_of p) \<in> set (vw_memory ?w)" "(j, holding_of q) \<in> set (vw_memory ?w)"
      by (auto simp: account_view_of_def view_of_def holdings_def intro: rev_image_eqI)
    then have "ho_mint (holding_of p) = k" "ho_mint (holding_of q) = j" using mem(2) by auto
    then have "k = j" using \<open>holding_of p = holding_of q\<close> by simp
    moreover have "dict_ok (bk_positions b)" using mem(1) by (simp add: account_view_of_def view_of_def)
    ultimately show "p = q" using k eq_key_imp_eq_value by fast
  qed
  then have cost: "held_cost (snd ` set (vw_memory ?w)) = sum ps_entry_cost_lamports (set (values_of (bk_positions b)))"
    unfolding vals held_cost_def by (simp add: sum.reindex ho_cost)
  have sets: "setting_int (tables_of b) ''starting_lamports'' 0 = Inr starting"
    "setting_int (tables_of b) ''realized_pnl_lamports'' 0 = Inr realized"
    using st(1,2) by (simp_all add: setting_int_num account_view_of_def view_of_def)
  have inv': "\<forall>m. ledger_balance (tables_of b) (inventory_account m) =
       (case map_of (bk_positions b) m of None \<Rightarrow> 0 | Some p \<Rightarrow> ps_book_value_lamports p)"
    using inv [unfolded bal]
    by (simp add: inventory_value_def account_view_of_def view_of_def holding_of_def option.case_eq_if option.map_sel)
  have led': "vw_ledger ?w = tb_ledger (tables_of b)" by (simp add: account_view_of_def view_of_def)
  have holds: "holding_of ` set (values_of (bk_positions b)) = holding_of ` set (values_of (tb_positions (tables_of b)))"
    using same unfolding vals .
  have cash': "account_balance (vw_ledger ?w) ''cash'' = cash_lamports b"
    unfolding bal by (simp add: cash_lamports_def)
  have "\<exists>starting realized. setting_int (tables_of b) ''starting_lamports'' 0 = Inr starting \<and>
       setting_int (tables_of b) ''realized_pnl_lamports'' 0 = Inr realized \<and>
       cash_lamports b + sum ps_entry_cost_lamports (set (values_of (bk_positions b))) = starting + realized"
    using sets st(3) unfolding cash' cost by blast
  then show ?thesis
    using led [unfolded led' ledger_sound_def] cash [unfolded cash'] inv' holds by blast
qed

text \<open>C2: Along every run of the broker's public operations from a new database, whether they return
  or raise, and across restarts, the books stay sound: ledger amounts are not negative and
  debits equal credits, cash is not negative, every mint's inventory account carries exactly the
  book value of its open position, memory and database hold the same positions, and cash plus the
  cost of what is held equals the starting bankroll plus the realized result.\<close>

theorem books_stay_balanced:
  assumes "load cx' empty_store = (Inr b0, s0)" and "(broker_step cx)\<^sup>*\<^sup>* b0 b"
  shows "(\<forall>e \<in> set (tb_ledger (tables_of b)). 0 \<le> le_debit e \<and> 0 \<le> le_credit e) \<and>
    sum_list (map le_debit (tb_ledger (tables_of b))) = sum_list (map le_credit (tb_ledger (tables_of b))) \<and>
    0 \<le> cash_lamports b \<and>
    (\<forall>m. ledger_balance (tables_of b) (inventory_account m) =
       (case map_of (bk_positions b) m of None \<Rightarrow> 0 | Some p \<Rightarrow> ps_book_value_lamports p)) \<and>
    holding_of ` set (values_of (bk_positions b)) = holding_of ` set (values_of (tb_positions (tables_of b))) \<and>
    (\<exists>starting realized. setting_int (tables_of b) ''starting_lamports'' 0 = Inr starting \<and>
       setting_int (tables_of b) ''realized_pnl_lamports'' 0 = Inr realized \<and>
       cash_lamports b + sum ps_entry_cost_lamports (set (values_of (bk_positions b))) = starting + realized)"
  by (rule books_soundD, rule lawful_sound, rule run_lawful)
     (use assms new_books_sound in \<open>simp_all add: load_empty\<close>)

theorem books_stay_balanced_witness:
  "0 \<le> cash_lamports (snd (initialize sample_ctx SOL 1000000000 None new_broker)) \<and>
   fst (initialize sample_ctx SOL 1000000000 None new_broker) = Inr ()"
proof -
  have "(broker_step sample_ctx)\<^sup>*\<^sup>* new_broker (snd (initialize sample_ctx SOL 1000000000 None new_broker))"
    by (rule r_into_rtranclp, rule broker_stepI, rule broker_call.initialize, rule surjective_pairing)
  from books_stay_balanced [OF load_empty this] show ?thesis using sample_initialize by blast
qed

text \<open>C4: The broker implements the abstract paper account: from sound books, every run of its public
  operations is a run of account steps (a season opens or closes, a buy paid from cash for a mint
  that is not held, a sale of a held position), and the account's own invariant holds at the end.\<close>

theorem broker_implements_account:
  assumes "(broker_step cx)\<^sup>*\<^sup>* b b'" and "books_sound b"
  shows "account_step\<^sup>*\<^sup>* (account_of b) (account_of b') \<and> account_sound (account_of b') \<and> books_sound b'"
  using run_lawful [OF assms] sound_account by (simp add: lawful_def)

theorem broker_implements_account_witness:
  "account_step\<^sup>*\<^sup>* (account_of new_broker) (account_of (snd (initialize sample_ctx SOL 1000000000 None new_broker)))"
proof -
  have "(broker_step sample_ctx)\<^sup>*\<^sup>* new_broker (snd (initialize sample_ctx SOL 1000000000 None new_broker))"
    by (rule r_into_rtranclp, rule broker_stepI, rule broker_call.initialize, rule surjective_pairing)
  from broker_implements_account [OF this new_books_sound] show ?thesis by blast
qed

end
