(* ===== verification/Broker_Orders.thy ===== *)
theory Broker_Orders
  imports Broker_Runs
begin

text \<open>
  The life of paper orders: what memory and database say about pending orders, positions and
  bought mints along runs whose operations return. \<open>calm\<close> actions leave all of it alone; the
  others submit, retire or fill one order at a time.
\<close>

section \<open>What orders depend on\<close>

definition order_row :: "(string, paper_order) pydict \<Rightarrow> string \<Rightarrow> paper_order option" where
  "order_row d i = (case map_of d i of None \<Rightarrow> None | Some q \<Rightarrow> if po_status q = Pending then Some q else None)"

definition season_keys :: "string list" where
  "season_keys = [''portfolio_initialized'', ''quote_currency'', ''starting_lamports'', ''season_id'',
                  ''realized_pnl_lamports'']"

text \<open>The two states agree on everything that the invariants below speak of, except that
  identifiers may have been drawn.\<close>

definition same :: "broker \<Rightarrow> broker \<Rightarrow> bool" where
  "same b b' \<longleftrightarrow>
     (let v = books_of (bk_store b); v' = books_of (bk_store b') in
      bo_orders v' = bo_orders v \<and> bo_fills v' = bo_fills v \<and> bo_positions v' = bo_positions v \<and>
      bo_ledger v' = bo_ledger v \<and> bo_fresh v \<le> bo_fresh v' \<and>
      (\<forall>k \<in> set season_keys. map_of (bo_settings v') k = map_of (bo_settings v) k) \<and>
      bk_positions b' = bk_positions b \<and> bk_pending b' = bk_pending b \<and>
      bk_traded_mints b' = bk_traded_mints b \<and> bk_initialized b' = bk_initialized b \<and>
      bk_quote_currency b' = bk_quote_currency b \<and> bk_starting_lamports b' = bk_starting_lamports b \<and>
      bk_season_id b' = bk_season_id b)"

lemma same_refl [simp]: "same b b"
  by (simp add: same_def)

lemma same_trans [trans]: "same a b \<Longrightarrow> same b c \<Longrightarrow> same a c"
  by (auto simp: same_def Let_def)

lemma same_view: "same b b' \<Longrightarrow> account_view_of b' = account_view_of b"
  by (simp add: same_def account_view_of_def view_of_def setting_num_def season_keys_def Let_def del: books_of_sel)

text \<open>Actions that, when they return, leave it as it was.\<close>

definition calm :: "'a brk \<Rightarrow> bool" where
  "calm m \<longleftrightarrow> (\<forall>b x b'. m b = (Inr x, b') \<longrightarrow> same b b')"

lemma calmD: "calm m \<Longrightarrow> m b = (Inr x, b') \<Longrightarrow> same b b'"
  by (auto simp: calm_def)

lemma wp_calm: "calm m \<Longrightarrow> (\<And>x b'. same b b' \<Longrightarrow> Q x b') \<Longrightarrow> wp m Q (\<lambda>_ _. True) b"
  by (auto simp: calm_def wp_def split: prod.split sum.split)

lemma calmI_wp:
  assumes "\<And>b. wp m (\<lambda>_. same b) (\<lambda>_ _. True) b"
  shows "calm m"
  unfolding calm_def
proof (intro allI impI)
  fix b x b'
  assume "m b = (Inr x, b')"
  then show "same b b'" using assms [of b] by (simp add: wp_def)
qed

lemma calm_basic: "calm (ret x)" "calm (raise e)" "calm (gets g)" "calm (lift r)" "calm (guard c e)"
  by (auto simp: calm_def act_simps guard_def split: if_splits)

lemma calm_bnd:
  assumes "calm m" and "\<And>x. calm (f x)"
  shows "calm (bnd m f)"
  unfolding calm_def
proof (intro allI impI)
  fix b y b'
  assume "bnd m f b = (Inr y, b')"
  then obtain x b1 where "m b = (Inr x, b1)" "f x b1 = (Inr y, b')" by (rule bnd_InrE)
  then show "same b b'" using same_trans [OF calmD [OF assms(1)] calmD [OF assms(2)]] by blast
qed

lemma calm_seq: "calm m \<Longrightarrow> calm k \<Longrightarrow> calm (seq m k)"
  by (simp add: seq_def calm_bnd)

lemma calm_cases:
  "(c \<Longrightarrow> calm m) \<Longrightarrow> (\<not> c \<Longrightarrow> calm k) \<Longrightarrow> calm (if c then m else k)"
  "(c \<Longrightarrow> calm m') \<Longrightarrow> calm (when_do c m')"
  "(r = None \<Longrightarrow> calm m) \<Longrightarrow> (\<And>x. r = Some x \<Longrightarrow> calm (f x)) \<Longrightarrow>
   calm (case r of None \<Rightarrow> m | Some x \<Rightarrow> f x)"
  "(\<And>a b. z = (a, b) \<Longrightarrow> calm (g a b)) \<Longrightarrow> calm (case z of (a, b) \<Rightarrow> g a b)"
  "(\<And>x. x = y \<Longrightarrow> calm (h x)) \<Longrightarrow> calm (let x = y in h x)"
  "(\<And>x. u = Inl x \<Longrightarrow> calm (p x)) \<Longrightarrow> (\<And>x. u = Inr x \<Longrightarrow> calm (q x)) \<Longrightarrow>
   calm (case u of Inl x \<Rightarrow> p x | Inr x \<Rightarrow> q x)"
  by (auto simp: when_do_def calm_basic split: option.splits prod.splits sum.splits)

lemma calm_modify: "(\<And>b. same b (u b)) \<Longrightarrow> calm (modify u)"
  by (auto simp: calm_def act_simps)

lemmas calm_rules = calm_basic calm_bnd calm_seq calm_cases

lemma calm_on_db:
  assumes "\<And>s. wp m (\<lambda>_ s'. \<forall>b. bk_store b = s \<longrightarrow> same b (b\<lparr> bk_store := s' \<rparr>)) (\<lambda>_ _. True) s"
  shows "calm (on_db m)"
  by (rule calmI_wp, simp add: on_db_def wp_zoom, rule wp_mono [OF assms]) auto

lemma calm_off_books: "off_books m \<Longrightarrow> calm (on_db m)"
  by (rule calm_on_db, rule wp_off_books) (auto simp: same_def)

lemma calm_fresh_uuid: "calm (on_db (fresh_uuid env))"
  by (rule calm_on_db, rule wp_fresh_uuid) (simp add: same_def)

lemma calm_set_setting: "k \<notin> set season_keys \<Longrightarrow> calm (on_db (set_setting env k v))"
  by (rule calm_on_db, rule wp_set_setting) (auto simp: same_def update_conv' Let_def)

lemma calm_wall_now: "calm (on_db (wall_now env))"
  by (rule calm_off_books) (rule off_books_basic)

lemma calm_snapshot: "calm (snapshot cx mode persist)"
  unfolding snapshot_def previous_peak_def on_db_seq
  by (intro calm_rules calm_wall_now calm_set_setting) (simp_all add: season_keys_def)

lemma calm_fill_blocker: "calm (pending_buy_fill_blocker cx order mode price features)"
  unfolding pending_buy_fill_blocker_def thesis_blocker_def
  by (intro calm_rules calm_snapshot calm_fresh_uuid calm_wall_now)

lemma calm_record_equity: "calm (broker_record_equity cx now force)"
  unfolding broker_record_equity_def
  by (intro calm_rules calm_snapshot calm_modify calm_off_books off_books_record_equity) (simp add: same_def)

lemma calm_notify: "calm (notify_evidence_observer ep)"
  unfolding notify_evidence_observer_def by (intro calm_rules calm_modify) (simp add: same_def)

lemma calm_reads:
  "calm (entry_blocker cx d price)" "calm (plan_entry_size cx d price)"
  "calm (can_fund_permitted_entry cx mode price)" "calm (planned_order_size_sol cx mode price)"
  "calm (season_summary_of cx)" "calm (unresolved_position_records cx now reason ds)"
  unfolding entry_blocker_def entry_assessment_def plan_entry_size_def can_fund_permitted_entry_def
    planned_order_size_sol_def season_summary_of_def unresolved_position_records_def
  by (intro calm_rules calm_snapshot)+

section \<open>Actions that keep an invariant when they return\<close>

text \<open>Started where \<open>I\<close> holds, the action either raises or ends where \<open>I\<close> holds, in a state
  that is related to the first by \<open>F\<close>.\<close>

definition upholds :: "('s \<Rightarrow> bool) \<Rightarrow> ('s \<Rightarrow> 's \<Rightarrow> bool) \<Rightarrow> ('s, 'a) act \<Rightarrow> bool" where
  "upholds I F m \<longleftrightarrow> (\<forall>s. I s \<longrightarrow> wp m (\<lambda>_ s'. I s' \<and> F s s') (\<lambda>_ _. True) s)"

lemma upholdsD: "upholds I F m \<Longrightarrow> I s \<Longrightarrow> wp m (\<lambda>_ s'. I s' \<and> F s s') (\<lambda>_ _. True) s"
  by (simp add: upholds_def)

lemma wp_conj:
  "wp m Q E s \<Longrightarrow> wp m Q' (\<lambda>_ _. True) s \<Longrightarrow> wp m (\<lambda>x s'. Q x s' \<and> Q' x s') E s"
  by (auto simp: wp_def split: prod.splits sum.splits)

lemma wp_any: "(\<And>x s'. Q x s') \<Longrightarrow> wp m Q (\<lambda>_ _. True) s"
  by (auto simp: wp_def split: prod.splits sum.splits)

locale frame =
  fixes F :: "'s \<Rightarrow> 's \<Rightarrow> bool"
  assumes F_refl: "F s s"
    and F_trans: "F s t \<Longrightarrow> F t u \<Longrightarrow> F s u"
begin

lemma upholds_basic:
  "upholds I F (ret x)" "upholds I F (raise e)" "upholds I F (gets g)" "upholds I F (lift r)" "upholds I F (guard c e)"
  by (auto simp: upholds_def wp_simps F_refl split: sum.split)

lemma upholds_bnd:
  assumes "upholds I F m" and "\<And>x. upholds I F (f x)"
  shows "upholds I F (bnd m f)"
  unfolding upholds_def wp_bnd
proof (intro allI impI)
  fix s
  assume "I s"
  then show "wp m (\<lambda>x. wp (f x) (\<lambda>_ s'. I s' \<and> F s s') (\<lambda>_ _. True)) (\<lambda>_ _. True) s"
    by (intro wp_mono [OF upholdsD [OF assms(1)]]) (auto intro: F_trans elim!: wp_mono [OF upholdsD [OF assms(2)]])
qed

lemma upholds_seq: "upholds I F m \<Longrightarrow> upholds I F k \<Longrightarrow> upholds I F (seq m k)"
  by (simp add: seq_def upholds_bnd)

lemma upholds_cases:
  "(c \<Longrightarrow> upholds I F m) \<Longrightarrow> (\<not> c \<Longrightarrow> upholds I F k) \<Longrightarrow> upholds I F (if c then m else k)"
  "(c \<Longrightarrow> upholds I F m') \<Longrightarrow> upholds I F (when_do c m')"
  by (auto simp: when_do_def upholds_basic)

lemma upholds_loops:
  "(\<And>x. upholds I F (f x)) \<Longrightarrow> upholds I F (for_each xs f)"
  "(\<And>x. upholds I F (g x)) \<Longrightarrow> upholds I F (collect xs g)"
  by (induction xs) (auto intro: upholds_basic upholds_bnd upholds_seq)

lemmas upholds_rules = upholds_basic upholds_bnd upholds_seq upholds_cases upholds_loops

end

section \<open>The invariant\<close>

text \<open>A fill agrees with its own order row, and a sell with a buy of its mint.\<close>

definition fill_clean :: "(string, paper_order) pydict \<Rightarrow> fill_receipt list \<Rightarrow> fill_receipt \<Rightarrow> bool" where
  "fill_clean orders fills f \<longleftrightarrow>
     (\<exists>q. map_of orders (fr_order_id f) = Some q \<and> po_mint q = fr_mint f \<and> po_side q = fr_side f \<and>
        po_status q = Filled \<and> po_created_at q \<le> po_fill_after q \<and> po_filled_at q = Some (fr_filled_at f) \<and>
        po_created_at q \<le> fr_filled_at f \<and> po_fill_after q \<le> fr_filled_at f) \<and>
     (case fr_reserve_snapshot f of None \<Rightarrow> True
      | Some r \<Rightarrow> rs_observed_at r \<le> fr_filled_at f \<and> rs_venue r = fr_venue f) \<and>
     (fr_side f = Sell \<longrightarrow> (\<exists>e \<in> set fills. fr_side e = Buy \<and> fr_mint e = fr_mint f \<and>
        fr_position_opened_at f = Some (fr_filled_at e) \<and> fr_filled_at e \<le> fr_filled_at f))"

definition bought :: "fill_receipt list \<Rightarrow> string list" where
  "bought fills = map fr_mint (filter (\<lambda>f. fr_side f = Buy) fills)"

definition orders_ok :: "ctx \<Rightarrow> (string, paper_order) pydict \<Rightarrow> nat \<Rightarrow> bool" where
  "orders_ok cx orders n \<longleftrightarrow> dict_ok orders \<and>
     (\<forall>(i, q) \<in> set orders. po_order_id q = i \<and> i \<in> en_uuid (cx_env cx) ` {..<n})"

definition positions_ok :: "(string, position) pydict \<Rightarrow> fill_receipt list \<Rightarrow> (string, position) pydict \<Rightarrow> bool" where
  "positions_ok rows fills d \<longleftrightarrow> snd ` set d = snd ` set rows \<and>
     (\<forall>p \<in> snd ` set d. \<exists>e \<in> set fills. fr_side e = Buy \<and> fr_mint e = ps_mint p \<and> fr_filled_at e = ps_opened_at p)"

definition fills_ok :: "(string, paper_order) pydict \<Rightarrow> fill_receipt list \<Rightarrow> bool" where
  "fills_ok orders fills \<longleftrightarrow> distinct (bought fills) \<and> (\<forall>f \<in> set fills. fill_clean orders fills f)"

definition settings_match :: "(string, json) pydict \<Rightarrow> broker \<Rightarrow> bool" where
  "settings_match d b \<longleftrightarrow>
     (case map_of d ''portfolio_initialized'' of None \<Rightarrow> False | Some v \<Rightarrow> json_truthy v) = bk_initialized b \<and>
     currency_of_json (case map_of d ''quote_currency'' of None \<Rightarrow> JStr ''SOL'' | Some v \<Rightarrow> v) = Inr (bk_quote_currency b) \<and>
     setting_num d ''starting_lamports'' = Some (bk_starting_lamports b) \<and>
     (case map_of d ''season_id'' of None \<Rightarrow> None | Some v \<Rightarrow> if json_truthy v then Some (json_string v) else None)
       = bk_season_id b \<and>
     (bk_initialized b \<longrightarrow> present (bk_season_id b))"

text \<open>Everything but the books and the pending orders: order rows sit under their own
  identifiers, all of them drawn; memory holds the stored positions; every position was opened by
  a recorded buy; each mint was bought at most once; every fill passes the audit; memory repeats
  the settings.\<close>

definition core :: "ctx \<Rightarrow> books \<Rightarrow> broker \<Rightarrow> bool" where
  "core cx v b \<longleftrightarrow>
     orders_ok cx (bo_orders v) (bo_fresh v) \<and>
     positions_ok (bo_positions v) (bo_fills v) (bk_positions b) \<and>
     fills_ok (bo_orders v) (bo_fills v) \<and> set (bk_traded_mints b) = set (bought (bo_fills v)) \<and>
     settings_match (bo_settings v) b"

abbreviation books_in :: "broker \<Rightarrow> books" where
  "books_in b \<equiv> books_of (bk_store b)"

definition filed :: "ctx \<Rightarrow> broker \<Rightarrow> bool" where
  "filed cx b \<longleftrightarrow> books_sound b \<and> core cx (books_in b) b"

text \<open>Memory's pending orders are the pending rows; a pending buy is for a mint that was neither
  bought nor is held, a pending sell for one that is held, and no mint has two pending orders.\<close>

definition gate_open :: "broker \<Rightarrow> paper_order \<Rightarrow> bool" where
  "gate_open b order \<longleftrightarrow>
     (if po_side order = Buy then po_mint order \<notin> set (bk_traded_mints b) \<and> po_mint order \<notin> fst ` set (bk_positions b)
      else po_mint order \<in> fst ` set (bk_positions b))"

definition pending_ok :: "(string, paper_order) pydict \<Rightarrow> broker \<Rightarrow> bool" where
  "pending_ok orders b \<longleftrightarrow>
     dict_ok (bk_pending b) \<and> (\<forall>i. map_of (bk_pending b) i = order_row orders i) \<and>
     (\<forall>q \<in> snd ` set (bk_pending b). gate_open b q) \<and> distinct (map (po_mint \<circ> snd) (bk_pending b))"

definition orderly :: "ctx \<Rightarrow> broker \<Rightarrow> bool" where
  "orderly cx b \<longleftrightarrow> filed cx b \<and> pending_ok (bo_orders (books_in b)) b"

text \<open>What the pending orders depend on.\<close>

definition orders_kept :: "broker \<Rightarrow> broker \<Rightarrow> bool" where
  "orders_kept b b' \<longleftrightarrow>
     bo_orders (books_in b') = bo_orders (books_in b) \<and> bk_pending b' = bk_pending b \<and>
     bk_traded_mints b' = bk_traded_mints b \<and> fst ` set (bk_positions b') = fst ` set (bk_positions b)"

interpretation kept: frame orders_kept
  by unfold_locales (auto simp: orders_kept_def)

interpretation free: frame "\<lambda>_ _. True"
  by unfold_locales simp_all

lemma orders_ok_more: "orders_ok cx d n \<Longrightarrow> n \<le> k \<Longrightarrow> orders_ok cx d k"
  by (fastforce simp: orders_ok_def)

lemma settings_match_cong:
  "(\<forall>k \<in> set season_keys. map_of d' k = map_of d k) \<Longrightarrow> bk_initialized b' = bk_initialized b \<Longrightarrow>
   bk_quote_currency b' = bk_quote_currency b \<Longrightarrow> bk_starting_lamports b' = bk_starting_lamports b \<Longrightarrow>
   bk_season_id b' = bk_season_id b \<Longrightarrow> settings_match d' b' = settings_match d b"
  by (simp add: settings_match_def season_keys_def setting_num_def)

lemma core_cong:
  "bk_positions b' = bk_positions b \<Longrightarrow> set (bk_traded_mints b') = set (bk_traded_mints b) \<Longrightarrow>
   bk_initialized b' = bk_initialized b \<Longrightarrow>
   bk_quote_currency b' = bk_quote_currency b \<Longrightarrow> bk_starting_lamports b' = bk_starting_lamports b \<Longrightarrow>
   bk_season_id b' = bk_season_id b \<Longrightarrow> core cx v b' = core cx v b"
  using settings_match_cong [of "bo_settings v" "bo_settings v" b' b] by (simp add: core_def)

lemma gate_open_cong:
  "bk_traded_mints b' = bk_traded_mints b \<Longrightarrow> fst ` set (bk_positions b') = fst ` set (bk_positions b) \<Longrightarrow>
   gate_open b' q = gate_open b q"
  by (simp add: gate_open_def)

lemma pending_ok_kept: "orders_kept b b' \<Longrightarrow> pending_ok (bo_orders (books_in b)) b \<Longrightarrow> pending_ok (bo_orders (books_in b')) b'"
  using gate_open_cong [of b' b] by (simp add: pending_ok_def orders_kept_def del: books_of_sel)

lemma same_filed:
  assumes "same b b'" and "filed cx b"
  shows "filed cx b'" and "orders_kept b b'"
proof -
  let ?v = "books_in b" and ?v' = "books_in b'"
  have eqs: "bo_orders ?v' = bo_orders ?v" "bo_fills ?v' = bo_fills ?v" "bo_positions ?v' = bo_positions ?v"
    "bk_positions b' = bk_positions b" "bk_traded_mints b' = bk_traded_mints b" and fresh: "bo_fresh ?v \<le> bo_fresh ?v'"
    and pend: "bk_pending b' = bk_pending b"
    using assms(1) by (simp_all add: same_def Let_def del: books_of_sel)
  have "settings_match (bo_settings ?v') b' = settings_match (bo_settings ?v) b"
    by (rule settings_match_cong) (use assms(1) in \<open>simp_all add: same_def Let_def del: books_of_sel\<close>)
  then have "core cx ?v' b'"
    using assms(2) orders_ok_more [OF _ fresh] unfolding filed_def core_def eqs by simp
  moreover have "books_sound b'"
    using assms(2) same_view [OF assms(1)] by (simp add: filed_def books_sound_def)
  ultimately show "filed cx b'" by (simp add: filed_def)
  show "orders_kept b b'" by (simp add: orders_kept_def eqs pend del: books_of_sel)
qed

lemma calm_upholds: "calm m \<Longrightarrow> upholds (filed cx) orders_kept m"
  unfolding upholds_def by (auto intro!: wp_calm intro: same_filed)

lemma upholds_orderly:
  assumes m: "upholds (filed cx) orders_kept m"
  shows "upholds (orderly cx) orders_kept m"
  unfolding upholds_def
proof (intro allI impI)
  fix b
  assume b: "orderly cx b"
  show "wp m (\<lambda>_ s'. orderly cx s' \<and> orders_kept b s') (\<lambda>_ _. True) b"
  proof (rule wp_mono)
    show "wp m (\<lambda>_ s'. filed cx s' \<and> orders_kept b s') (\<lambda>_ _. True) b"
      by (rule upholdsD [OF m]) (use b in \<open>simp add: orderly_def\<close>)
    show "orderly cx s' \<and> orders_kept b s'" if "filed cx s' \<and> orders_kept b s'" for s'
      using that pending_ok_kept [of b s'] b by (simp add: orderly_def del: books_of_sel)
  qed simp
qed

lemma upholds_free: "upholds I F m \<Longrightarrow> upholds I (\<lambda>_ _. True) m"
  unfolding upholds_def by (auto elim!: wp_mono)

lemma calm_orderly: "calm m \<Longrightarrow> upholds (orderly cx) (\<lambda>_ _. True) m"
  by (rule upholds_free, rule upholds_orderly, rule calm_upholds)

text \<open>The books are kept by every operation; what remains is the rest.\<close>

lemma sound_of_lawful: "(\<And>a. keeps (lawful a) m) \<Longrightarrow> keeps books_sound m"
  by (rule keepsI) (meson keeps_def lawful_refl lawful_sound)

lemma sound_of_quiet: "quiet m \<Longrightarrow> keeps books_sound m"
  by (rule sound_of_lawful, rule quiet_lawful)

lemma wp_sound: "keeps books_sound m \<Longrightarrow> books_sound b \<Longrightarrow> wp m (\<lambda>_. books_sound) (\<lambda>_ _. True) b"
  by (rule wp_of_keeps) simp_all


section \<open>Submitting and retiring an order\<close>

lemma set_update: "dict_ok d \<Longrightarrow> set (AList.update k p d) = insert (k, p) {x \<in> set d. fst x \<noteq> k}"
proof (induction d)
  case (Cons x d)
  then show ?case by (cases x) (force simp: image_iff)
qed simp

lemma order_row_update:
  "order_row (AList.update i q d) j = (if j = i then (if po_status q = Pending then Some q else None) else order_row d j)"
  by (simp add: order_row_def update_conv')

text \<open>Writing one order row that no fill refers to keeps everything but the pending orders.\<close>

lemma core_write_order:
  assumes "core cx v b" and "po_order_id q \<in> en_uuid (cx_env cx) ` {..<bo_fresh v}"
    and "\<And>r. map_of (bo_orders v) (po_order_id q) = Some r \<Longrightarrow> po_status r \<noteq> Filled"
  shows "core cx (v\<lparr> bo_orders := AList.update (po_order_id q) q (bo_orders v) \<rparr>) b"
proof -
  let ?d = "AList.update (po_order_id q) q (bo_orders v)"
  have ok: "dict_ok (bo_orders v)" "\<forall>(i, r) \<in> set (bo_orders v). po_order_id r = i \<and> i \<in> en_uuid (cx_env cx) ` {..<bo_fresh v}"
    using assms(1) by (simp_all add: core_def orders_ok_def)
  have "orders_ok cx ?d (bo_fresh v)"
    using ok assms(2) by (auto simp: orders_ok_def distinct_update set_update)
  moreover have "fill_clean ?d (bo_fills v) f" if "fill_clean (bo_orders v) (bo_fills v) f" for f
    using that assms(3) by (auto simp: fill_clean_def update_conv')
  ultimately show ?thesis
    using assms(1) by (simp add: core_def fills_ok_def)
qed

lemma pending_lookup:
  assumes "pending_ok d b" and "map_of (bk_pending b) i = Some q"
  shows "map_of d i = Some q" and "po_status q = Pending"
  using assms by (auto simp: pending_ok_def order_row_def split: option.splits if_splits)

lemma pending_id:
  assumes "orders_ok cx d n" and "pending_ok d b" and "map_of (bk_pending b) i = Some q"
  shows "po_order_id q = i" and "i \<in> en_uuid (cx_env cx) ` {..<n}"
  using map_of_SomeD [OF pending_lookup(1) [OF assms(2,3)]] assms(1) by (auto simp: orders_ok_def)

lemma has_pending_iff:
  "has_pending_for b m None \<longleftrightarrow> m \<in> po_mint ` snd ` set (bk_pending b)"
  "has_pending_for b m (Some sd) \<longleftrightarrow> (\<exists>q \<in> snd ` set (bk_pending b). po_mint q = m \<and> po_side q = sd)"
  by (auto simp: has_pending_for_def list_ex_iff)

lemma pending_added:
  assumes p: "pending_ok d b" and none: "map_of d (po_order_id q) = None" and pend: "po_status q = Pending"
    and gate: "gate_open b q" and alone: "\<not> has_pending_for b (po_mint q) None"
    and b': "bk_pending b' = AList.update (po_order_id q) q (bk_pending b)"
    and same: "\<And>r. gate_open b' r = gate_open b r"
  shows "pending_ok (AList.update (po_order_id q) q d) b'"
proof -
  have absent: "map_of (bk_pending b) (po_order_id q) = None"
    using p none by (simp add: pending_ok_def order_row_def)
  have vals: "snd ` set (bk_pending b') = insert q (snd ` set (bk_pending b))"
    using absent by (simp add: b' update_absent)
  show ?thesis
    unfolding pending_ok_def vals
  proof (intro conjI)
    show "dict_ok (bk_pending b')" using p by (simp add: pending_ok_def distinct_update b')
    show "\<forall>i. map_of (bk_pending b') i = order_row (AList.update (po_order_id q) q d) i"
      using p pend by (simp add: pending_ok_def order_row_update update_conv' b')
    show "\<forall>r \<in> insert q (snd ` set (bk_pending b)). gate_open b' r"
      using p gate by (simp add: pending_ok_def same)
    show "distinct (map (po_mint \<circ> snd) (bk_pending b'))"
      using p alone absent by (force simp: pending_ok_def has_pending_iff b' update_absent)
  qed
qed

text \<open>An order leaves the pending orders once its row is no longer pending.\<close>

lemma pending_popped:
  assumes p: "pending_ok d b" and q: "map_of (bk_pending b) i = Some q"
    and rows: "\<And>j. order_row d' j = (if j = i then None else order_row d j)"
    and b': "bk_pending b' = AList.delete i (bk_pending b)"
    and same: "\<And>r. po_mint r \<noteq> po_mint q \<Longrightarrow> gate_open b' r = gate_open b r"
  shows "pending_ok d' b'"
proof -
  have dict: "dict_ok (bk_pending b)" using p by (simp add: pending_ok_def)
  have one: "inj_on (po_mint \<circ> snd) (set (bk_pending b))" using p by (simp add: pending_ok_def distinct_map)
  have sub: "r \<in> snd ` set (bk_pending b) \<and> po_mint r \<noteq> po_mint q" if r: "r \<in> snd ` set (bk_pending b')" for r
  proof -
    obtain j where j: "(j, r) \<in> set (bk_pending b)" "j \<noteq> i"
      using r unfolding b' set_delete [OF dict] by auto
    then show ?thesis using inj_onD [OF one, of "(j, r)" "(i, q)"] map_of_SomeD [OF q] by force
  qed
  show ?thesis
    unfolding pending_ok_def
  proof (intro conjI)
    show "dict_ok (bk_pending b')" using dict by (simp add: b' distinct_delete)
    show "\<forall>j. map_of (bk_pending b') j = order_row d' j"
      using p by (simp add: b' rows delete_conv' pending_ok_def)
    show "\<forall>r \<in> snd ` set (bk_pending b'). gate_open b' r"
      using sub same p unfolding pending_ok_def by blast
    show "distinct (map (po_mint \<circ> snd) (bk_pending b'))"
      using p by (simp add: b' AList.delete_eq pending_ok_def distinct_map_filter)
  qed
qed

lemma wp_add_pending:
  assumes ord: "orderly cx b" and drawn: "po_order_id q \<in> en_uuid (cx_env cx) ` {..<bo_fresh (books_in b)}"
    and new: "map_of (bo_orders (books_in b)) (po_order_id q) = None" and pend: "po_status q = Pending"
    and gate: "gate_open b q" and alone: "\<not> has_pending_for b (po_mint q) None"
  shows "wp (add_pending q) (\<lambda>_. orderly cx) (\<lambda>_ _. True) b"
proof -
  let ?v = "books_in b"
  have p: "pending_ok (bo_orders ?v) b" and c: "core cx ?v b" and s: "books_sound b"
    using ord by (simp_all add: orderly_def filed_def)
  have core: "core cx (?v\<lparr> bo_orders := AList.update (po_order_id q) q (bo_orders ?v) \<rparr>) b"
    by (rule core_write_order [OF c drawn]) (use new in simp)
  have post: "core cx (books_in b') b' \<and> pending_ok (bo_orders (books_in b')) b'"
    if "books_in b' = ?v\<lparr> bo_orders := AList.update (po_order_id q) q (bo_orders ?v) \<rparr>"
      "b' = b\<lparr> bk_pending := AList.update (po_order_id q) q (bk_pending b), bk_store := s' \<rparr>" for b' s'
  proof
    show "core cx (books_in b') b'" using core core_cong [of b' b] that by simp
    have "pending_ok (AList.update (po_order_id q) q (bo_orders ?v)) b'"
      by (rule pending_added [OF p new pend gate alone]) (simp_all add: that(2) gate_open_def)
    then show "pending_ok (bo_orders (books_in b')) b'" by (simp add: that(1) del: books_of_sel)
  qed
  have "wp (add_pending q) (\<lambda>_ b'. core cx (books_in b') b' \<and> pending_ok (bo_orders (books_in b')) b') (\<lambda>_ _. True) b"
    unfolding add_pending_def set_pending_def wp_seq wp_modify on_db_def wp_zoom
    by (intro wp_save_order TrueI, rule post) (simp_all del: books_of_sel)
  from wp_conj [OF wp_sound [OF sound_of_quiet [OF quiet_pending(1)] s] this]
  show ?thesis by (rule wp_mono) (simp_all add: orderly_def filed_def)
qed

text \<open>Handling one pending order: the other pending orders stay.\<close>

definition handled :: "string \<Rightarrow> broker \<Rightarrow> broker \<Rightarrow> bool" where
  "handled i b b' \<longleftrightarrow> (\<forall>j. j \<noteq> i \<longrightarrow> map_of (bk_pending b') j = map_of (bk_pending b) j)"

lemma orderlyD:
  assumes "orderly cx b"
  shows "books_sound b" and "core cx (books_in b) b" and "pending_ok (bo_orders (books_in b)) b"
    and "orders_ok cx (bo_orders (books_in b)) (bo_fresh (books_in b))"
  using assms by (simp_all add: orderly_def filed_def core_def)

lemma wp_retire_order:
  assumes ord: "orderly cx b" and q: "map_of (bk_pending b) (po_order_id q') = Some q"
    and status: "po_status q' \<noteq> Pending"
  shows "wp (retire_order q') (\<lambda>_ b'. orderly cx b' \<and> handled (po_order_id q') b b') (\<lambda>_ _. True) b"
proof -
  let ?v = "books_in b" and ?i = "po_order_id q'"
  note o = orderlyD [OF ord]
  note row = pending_lookup [OF o(3) q] and id = pending_id [OF o(4,3) q]
  have core: "core cx (?v\<lparr> bo_orders := AList.update ?i q' (bo_orders ?v) \<rparr>) b"
    by (rule core_write_order [OF o(2) id(2)]) (use row in simp)
  have post: "(core cx (books_in b') b' \<and> pending_ok (bo_orders (books_in b')) b') \<and> handled ?i b b'"
    if "books_in b' = ?v\<lparr> bo_orders := AList.update ?i q' (bo_orders ?v) \<rparr>"
      "b' = b\<lparr> bk_store := s', bk_pending := AList.delete ?i (AList.update ?i q' (bk_pending b)) \<rparr>" for b' s'
  proof (intro conjI)
    have pend: "bk_pending b' = AList.delete ?i (bk_pending b)" by (simp add: that(2) delete_update_same)
    show "core cx (books_in b') b'" using core core_cong [of b' b] that by simp
    have "pending_ok (AList.update ?i q' (bo_orders ?v)) b'"
      by (rule pending_popped [OF o(3) q _ pend]) (use status in \<open>simp_all add: order_row_update that(2) gate_open_def\<close>)
    then show "pending_ok (bo_orders (books_in b')) b'" by (simp add: that(1) del: books_of_sel)
    show "handled ?i b b'" by (simp add: handled_def pend delete_conv')
  qed
  have "wp (retire_order q') (\<lambda>_ b'. (core cx (books_in b') b' \<and> pending_ok (bo_orders (books_in b')) b') \<and> handled ?i b b') (\<lambda>_ _. True) b"
    unfolding retire_order_def add_pending_def set_pending_def wp_seq wp_modify on_db_def wp_zoom
    by (intro wp_save_order TrueI, rule post) (simp_all del: books_of_sel)
  from wp_conj [OF wp_sound [OF sound_of_quiet [OF quiet_pending(2)] o(1)] this]
  show ?thesis by (rule wp_mono) (simp_all add: orderly_def filed_def)
qed

text \<open>A loop over pending orders that were read before it started.\<close>

definition captured :: "paper_order list \<Rightarrow> broker \<Rightarrow> bool" where
  "captured orders b \<longleftrightarrow> distinct (map po_order_id orders) \<and>
     (\<forall>q \<in> set orders. map_of (bk_pending b) (po_order_id q) = Some q)"

lemma captured_pending:
  assumes "orderly cx b"
  shows "captured (filter P (values_of (bk_pending b))) b"
proof -
  note o = orderlyD [OF assms]
  have dict: "dict_ok (bk_pending b)" using o(3) by (simp add: pending_ok_def)
  have id: "po_order_id q = i" if "(i, q) \<in> set (bk_pending b)" for i q
    using pending_id(1) [OF o(4,3)] that dict by simp
  then have "map po_order_id (values_of (bk_pending b)) = map fst (bk_pending b)" by auto
  then have "distinct (map po_order_id (values_of (bk_pending b)))" using dict by argo
  then show ?thesis
    using id dict by (auto simp: captured_def intro: distinct_map_filter)
qed

lemma captured_Cons:
  "captured (q # qs) b \<Longrightarrow> map_of (bk_pending b) (po_order_id q) = Some q"
  "captured (q # qs) b \<Longrightarrow> handled (po_order_id q) b b' \<Longrightarrow> captured qs b'"
  by (auto simp: captured_def handled_def) (metis imageI)

definition handles :: "ctx \<Rightarrow> paper_order \<Rightarrow> 'a brk \<Rightarrow> bool" where
  "handles cx q m \<longleftrightarrow> (\<forall>b. orderly cx b \<longrightarrow> map_of (bk_pending b) (po_order_id q) = Some q \<longrightarrow>
     wp m (\<lambda>_ b'. orderly cx b' \<and> handled (po_order_id q) b b') (\<lambda>_ _. True) b)"

lemma handlesD:
  "handles cx q m \<Longrightarrow> orderly cx b \<Longrightarrow> captured (q # qs) b \<Longrightarrow>
   wp m (\<lambda>_ b'. orderly cx b' \<and> captured qs b') (\<lambda>_ _. True) b"
  by (erule wp_mono [OF handles_def [THEN iffD1, rule_format]]) (auto intro: captured_Cons)

lemma wp_handle_each:
  assumes "\<And>q. handles cx q (f q)"
  shows "orderly cx b \<Longrightarrow> captured qs b \<Longrightarrow> wp (for_each qs f) (\<lambda>_. orderly cx) (\<lambda>_ _. True) b"
proof (induction qs arbitrary: b)
  case (Cons q qs)
  show ?case
    unfolding for_each.simps wp_seq
    by (rule wp_mono [OF handlesD [OF assms Cons.prems]]) (simp_all add: Cons.IH)
qed (simp add: wp_simps)

lemma wp_handle_collect:
  assumes "\<And>q. handles cx q (f q)"
  shows "orderly cx b \<Longrightarrow> captured qs b \<Longrightarrow> wp (collect qs f) (\<lambda>_. orderly cx) (\<lambda>_ _. True) b"
proof (induction qs arbitrary: b)
  case (Cons q qs)
  show ?case
    unfolding collect.simps wp_bnd wp_ret
    by (rule wp_mono [OF handlesD [OF assms Cons.prems]]) (simp_all add: Cons.IH)
qed (simp add: wp_simps)

lemma handles_retire:
  "handles cx q (fail_order q r now)" "handles cx q (cancel_order now r q)"
proof -
  have "handles cx q (retire_order q')" if "po_order_id q' = po_order_id q" "po_status q' \<noteq> Pending" for q'
    using wp_retire_order [of cx _ q' q] that by (simp add: handles_def)
  then show "handles cx q (fail_order q r now)" "handles cx q (cancel_order now r q)"
    by (simp_all add: fail_order_def failed_order_def cancel_order_def)
qed

lemma tidy_cancels:
  "upholds (orderly cx) (\<lambda>_ _. True) (cancel_pending_orders now r)"
  "upholds (orderly cx) (\<lambda>_ _. True) (cancel_pending_buys now r)"
  "upholds (orderly cx) (\<lambda>_ _. True) (cancel_pending_sells now r)"
  "upholds (orderly cx) (\<lambda>_ _. True) (expire_stuck_orders now)"
proof -
  have loop: "wp (seq (for_each (filter P (values_of (bk_pending b))) f) (ret x)) (\<lambda>_. orderly cx) (\<lambda>_ _. True) b"
    if "orderly cx b" "\<And>q. handles cx q (f q)" for P f b and x :: 'x
    unfolding wp_seq wp_ret by (rule wp_handle_each [OF that(2,1) captured_pending [OF that(1)]])
  have all: "wp (seq (for_each (values_of (bk_pending b)) f) (ret x)) (\<lambda>_. orderly cx) (\<lambda>_ _. True) b"
    if "orderly cx b" "\<And>q. handles cx q (f q)" for f b and x :: 'x
    using loop [OF that, of "\<lambda>_. True"] by simp
  show "upholds (orderly cx) (\<lambda>_ _. True) (cancel_pending_orders now r)"
    "upholds (orderly cx) (\<lambda>_ _. True) (cancel_pending_buys now r)"
    "upholds (orderly cx) (\<lambda>_ _. True) (cancel_pending_sells now r)"
    "upholds (orderly cx) (\<lambda>_ _. True) (expire_stuck_orders now)"
    unfolding cancel_pending_orders_def cancel_pending_buys_def cancel_pending_sells_def expire_stuck_orders_def
      upholds_def Let_def wp_bnd wp_gets
    by (simp_all add: loop all handles_retire)
qed

section \<open>Marks and new orders\<close>

lemma update_value:
  assumes "dict_ok d" and "map_of d k = Some v" and "\<forall>(k, v) \<in> set d. f v = k"
  shows "snd ` set (AList.update k p d) = insert p (snd ` set d - {v})"
proof -
  have "(k, v) \<in> set d" using assms(2) by (rule map_of_SomeD)
  then have v: "f v = k" using assms(3) by auto
  have "x \<noteq> v \<longleftrightarrow> j \<noteq> k" if "(j, x) \<in> set d" for j x
    using that \<open>(k, v) \<in> set d\<close> v assms(3) eq_key_imp_eq_value [OF assms(1), of k x v] by auto
  then show ?thesis unfolding set_update [OF assms(1)] by force
qed

lemma sound_keys:
  assumes "books_sound b"
  shows "dict_ok (bk_positions b)" "\<forall>(m, p) \<in> set (bk_positions b). ps_mint p = m"
    and "dict_ok (bo_positions (books_in b))" "\<forall>(i, p) \<in> set (bo_positions (books_in b)). ps_position_id p = i"
proof -
  let ?w = "view_of (books_in b) (bk_positions b)"
  have ok: "view_ok ?w" using assms by (simp add: books_sound_def account_view_of_def)
  have "dict_ok (vw_memory ?w)" "dict_ok (vw_rows ?w)" using ok by (simp_all add: view_ok_def)
  then show "dict_ok (bk_positions b)" "dict_ok (bo_positions (books_in b))" by (simp_all add: view_of_def)
  have "\<forall>(m, h) \<in> set (holdings (bk_positions b)). ho_mint h = m"
    "\<forall>(i, h) \<in> set (holdings (bo_positions (books_in b))). ho_position_id h = i"
    using ok by (auto simp: view_ok_def view_of_def)
  then show "\<forall>(m, p) \<in> set (bk_positions b). ps_mint p = m"
    "\<forall>(i, p) \<in> set (bo_positions (books_in b)). ps_position_id p = i"
    by (force simp: holdings_def holding_of_def)+
qed

lemma stored_row:
  assumes "books_sound b" and "positions_ok (bo_positions (books_in b)) fills (bk_positions b)"
    and "map_of (bk_positions b) m = Some p"
  shows "map_of (bo_positions (books_in b)) (ps_position_id p) = Some p"
proof -
  note k = sound_keys [OF assms(1)]
  have "p \<in> snd ` set (bo_positions (books_in b))"
    using assms(2) map_of_SomeD [OF assms(3)] by (force simp: positions_ok_def)
  then obtain i where "(i, p) \<in> set (bo_positions (books_in b))" by auto
  then show ?thesis using k(3,4) by (auto intro: map_of_is_SomeI)
qed

lemma keys_update:
  assumes "map_of d k = Some v"
  shows "fst ` set (AList.update k p d) = fst ` set d"
proof -
  have "map fst (AList.update k p d) = map fst d"
    using assms by (induction d) (auto split: if_splits)
  then show ?thesis by (metis set_map)
qed

lemma positions_updated:
  assumes "books_sound b" and ok: "positions_ok (bo_positions (books_in b)) fills (bk_positions b)"
    and "map_of (bk_positions b) m = Some stored" and h: "holding_of p = holding_of stored"
  shows "positions_ok (AList.update (ps_position_id p) p (bo_positions (books_in b))) fills
           (AList.update m p (bk_positions b))"
proof -
  let ?d = "bk_positions b" and ?r = "bo_positions (books_in b)"
  note k = sound_keys [OF assms(1)]
  have id: "ps_position_id p = ps_position_id stored" by (rule holding_of_id [OF h])
  have d': "snd ` set (AList.update m p ?d) = insert p (snd ` set ?d - {stored})"
    by (rule update_value [OF k(1) assms(3) k(2)])
  have r': "snd ` set (AList.update (ps_position_id p) p ?r) = insert p (snd ` set ?r - {stored})"
    unfolding id by (rule update_value [OF k(3) stored_row [OF assms(1-3)] k(4)])
  have "snd ` set ?d = snd ` set ?r"
    and opened: "\<forall>q \<in> snd ` set ?d. \<exists>e \<in> set fills. fr_side e = Buy \<and> fr_mint e = ps_mint q \<and> fr_filled_at e = ps_opened_at q"
    using ok unfolding positions_ok_def by blast+
  moreover have "stored \<in> snd ` set ?d" using map_of_SomeD [OF assms(3)] by force
  then have "\<exists>e \<in> set fills. fr_side e = Buy \<and> fr_mint e = ps_mint p \<and> fr_filled_at e = ps_opened_at p"
    using bspec [OF opened] h by (simp add: holding_of_def)
  ultimately show ?thesis unfolding positions_ok_def d' r' by auto
qed

lemma wp_update_filed:
  assumes f: "filed cx b" and m: "map_of (bk_positions b) m = Some stored" and h: "holding_of p = holding_of stored"
  shows "wp (update_position cx m p) (\<lambda>_ b'. (filed cx b' \<and> orders_kept b b') \<and> map_of (bk_positions b') m = Some p)
           (\<lambda>_ _. True) b"
proof -
  let ?v = "books_in b"
  have s: "books_sound b" and c: "core cx ?v b" using f by (simp_all add: filed_def)
  have pos: "positions_ok (AList.update (ps_position_id p) p (bo_positions ?v)) (bo_fills ?v) (AList.update m p (bk_positions b))"
    by (rule positions_updated [OF s _ m h]) (use c in \<open>simp add: core_def\<close>)
  have post: "core cx (books_in b') b' \<and> orders_kept b b' \<and> map_of (bk_positions b') m = Some p"
    if "books_in b' = ?v\<lparr> bo_positions := AList.update (ps_position_id p) p (bo_positions ?v) \<rparr>"
      "b' = b\<lparr> bk_positions := AList.update m p (bk_positions b), bk_store := s' \<rparr>" for b' s'
  proof (intro conjI)
    have mem: "bk_positions b' = AList.update m p (bk_positions b)" "bk_traded_mints b' = bk_traded_mints b"
      "bk_pending b' = bk_pending b" by (simp_all add: that(2))
    have "settings_match (bo_settings ?v) b' = settings_match (bo_settings ?v) b"
      by (rule settings_match_cong) (simp_all add: that(2))
    then show "core cx (books_in b') b'" using c pos by (simp add: core_def that(1) mem del: books_of_sel)
    show "orders_kept b b'" using keys_update [OF m] by (simp add: orders_kept_def that(1) mem del: books_of_sel)
    show "map_of (bk_positions b') m = Some p" by (simp add: that(2) update_conv')
  qed
  have "wp (update_position cx m p) (\<lambda>_ b'. core cx (books_in b') b' \<and> orders_kept b b' \<and> map_of (bk_positions b') m = Some p)
      (\<lambda>_ _. True) b"
    unfolding update_position_def wp_seq wp_modify on_db_def wp_zoom
    by (intro wp_save_position TrueI, rule post) (simp_all del: books_of_sel)
  moreover have "wp (update_position cx m p) (\<lambda>_. books_sound) (\<lambda>_ _. True) b"
    by (rule wp_mono [OF wp_update_position [OF s [unfolded books_sound_def] m h]]) (use s in \<open>simp_all add: books_sound_def\<close>)
  ultimately have "wp (update_position cx m p) (\<lambda>_ b'. (core cx (books_in b') b' \<and> orders_kept b b' \<and>
      map_of (bk_positions b') m = Some p) \<and> books_sound b') (\<lambda>_ _. True) b"
    by (rule wp_conj)
  then show ?thesis by (rule wp_mono) (simp_all add: filed_def)
qed

lemma filed_clock: "filed cx (b\<lparr> bk_store := bk_store b\<lparr> st_clock := n \<rparr> \<rparr>) = filed cx b"
  using core_cong [of "b\<lparr> bk_store := bk_store b\<lparr> st_clock := n \<rparr> \<rparr>" b cx "books_in b"]
  by (simp add: filed_def books_sound_def account_view_of_def)

lemma wp_effective_filed:
  assumes "filed cx b" and "\<And>t b'. filed cx b' \<Longrightarrow> orders_kept b b' \<Longrightarrow> bk_positions b' = bk_positions b \<Longrightarrow> Q t b'"
  shows "wp (effective_marked_at cx state marked_at) Q E b"
proof -
  have "orders_kept b (b\<lparr> bk_store := bk_store b\<lparr> st_clock := n \<rparr> \<rparr>)" for n by (simp add: orders_kept_def)
  then show ?thesis
    using assms kept.F_refl by (auto simp: effective_marked_at_def on_db_def wp_simps filed_clock split: option.split)
qed

lemma mark_upholds: "upholds (filed cx) orders_kept (mark_position cx state features price marked_at)"
  unfolding upholds_def
proof (intro allI impI)
  fix b
  assume f: "filed cx b"
  let ?Q = "\<lambda>_ b'. filed cx b' \<and> orders_kept b b'" and ?E = "\<lambda>_ _. True"
  have upd: "wp (if mark_out_of_order t p then ret () else
        bnd (lift (marked_position cx c state features price t p)) (update_position cx (ts_mint state))) ?Q ?E b'"
    if "map_of (bk_positions b) (ts_mint state) = Some p" "filed cx b'" "orders_kept b b'"
       "bk_positions b' = bk_positions b" for c t p b'
  proof -
    have "wp (update_position cx (ts_mint state) p') ?Q ?E b'"
      if "marked_position cx c state features price t p = Inr p'" for p'
      by (rule wp_mono [OF wp_update_filed [OF \<open>filed cx b'\<close> _ holding_marked [OF that]]])
         (use \<open>orders_kept b b'\<close> \<open>map_of (bk_positions b) _ = _\<close> \<open>bk_positions b' = _\<close> in \<open>auto intro: kept.F_trans\<close>)
    then show ?thesis using that by (auto simp: wp_if wp_ret wp_bnd wp_lift split: sum.split)
  qed
  show "wp (mark_position cx state features price marked_at) ?Q ?E b"
    unfolding mark_position_def wp_bnd wp_gets wp_case_option
    by (auto simp: wp_ret f kept.F_refl split: option.split intro!: wp_effective_filed [OF f] upd [unfolded wp_bnd])
qed

text \<open>Drawn identifiers are new: \<open>uuid4\<close> does not repeat.\<close>

abbreviation uuids_differ :: "ctx \<Rightarrow> bool" where
  "uuids_differ cx \<equiv> inj (en_uuid (cx_env cx))"

lemma same_orderly: "same b b' \<Longrightarrow> orderly cx b \<Longrightarrow> orderly cx b'"
  unfolding orderly_def using same_filed pending_ok_kept by blast

lemma wp_fresh_orderly:
  assumes "uuids_differ cx" and "orderly cx b"
    and "\<And>i b'. orderly cx b' \<Longrightarrow> same b b' \<Longrightarrow> i \<in> en_uuid (cx_env cx) ` {..<bo_fresh (books_in b')} \<Longrightarrow>
           map_of (bo_orders (books_in b')) i = None \<Longrightarrow> Q i b'"
  shows "wp (on_db (fresh_uuid (cx_env cx))) Q E b"
  unfolding on_db_def wp_zoom
proof (rule wp_fresh_uuid)
  fix s'
  let ?v = "books_in b" and ?b = "b\<lparr> bk_store := s' \<rparr>" and ?i = "en_uuid (cx_env cx) (bo_fresh (books_in b))"
  assume v: "books_of s' = ?v\<lparr> bo_fresh := bo_fresh ?v + 1 \<rparr>"
  have same: "same b ?b" by (simp add: same_def Let_def v)
  have "?i \<notin> en_uuid (cx_env cx) ` {..<bo_fresh ?v}" using assms(1) by (auto dest: injD)
  then have "map_of (bo_orders ?v) ?i = None"
    using orderlyD(4) [OF assms(2)] by (auto simp: orders_ok_def map_of_eq_None_iff)
  then show "Q ?i ?b"
    using v by (intro assms(3) same_orderly [OF same assms(2)] same) simp_all
qed

lemma wp_entry_assessment:
  "wp (entry_assessment cx d price) (\<lambda>a b'. same b b' \<and> ((\<exists>x. a = Inr x) \<longrightarrow>
      de_mint d \<notin> set (bk_traded_mints b) \<and> de_mint d \<notin> fst ` set (bk_positions b) \<and> \<not> has_pending_for b (de_mint d) None))
    (\<lambda>_ _. True) b"
  unfolding entry_assessment_def wp_bnd wp_gets wp_if wp_case_option
  by (auto simp: wp_simps split: sum.split option.split intro!: wp_calm [OF calm_snapshot])

lemma wp_calm_upholds: "calm m \<Longrightarrow> orderly cx b \<Longrightarrow> (\<And>x b'. orderly cx b' \<Longrightarrow> same b b' \<Longrightarrow> Q x b') \<Longrightarrow> wp m Q (\<lambda>_ _. True) b"
  by (rule wp_calm) (auto intro: same_orderly)

lemma gate_same: "same b b' \<Longrightarrow> gate_open b' q = gate_open b q" "same b b' \<Longrightarrow> has_pending_for b' m sd = has_pending_for b m sd"
  by (simp_all add: same_def Let_def gate_open_def has_pending_for_def)

lemma same_memory: "same b b' \<Longrightarrow> bk_positions b' = bk_positions b" "same b b' \<Longrightarrow> bk_traded_mints b' = bk_traded_mints b"
  by (simp_all add: same_def Let_def)

lemma upholds_iff: "upholds I (\<lambda>_ _. True) m \<longleftrightarrow> (\<forall>s. I s \<longrightarrow> wp m (\<lambda>_. I) (\<lambda>_ _. True) s)"
  by (simp add: upholds_def)

lemma wp_add_later:
  assumes "orderly cx b'" and "same b b'" and "po_order_id q \<in> en_uuid (cx_env cx) ` {..<bo_fresh (books_in b)}"
    and "map_of (bo_orders (books_in b)) (po_order_id q) = None" and "po_status q = Pending"
    and "gate_open b q" and "\<not> has_pending_for b (po_mint q) None"
  shows "wp (add_pending q) (\<lambda>_. orderly cx) (\<lambda>_ _. True) b'"
proof (rule wp_add_pending [OF assms(1)])
  have "bo_orders (books_in b') = bo_orders (books_in b)" "bo_fresh (books_in b) \<le> bo_fresh (books_in b')"
    using assms(2) by (simp_all add: same_def Let_def del: books_of_sel)
  then show "po_order_id q \<in> en_uuid (cx_env cx) ` {..<bo_fresh (books_in b')}"
    "map_of (bo_orders (books_in b')) (po_order_id q) = None"
    using assms(3,4) by (auto simp del: books_of_sel)
qed (use assms in \<open>simp_all add: gate_same [OF assms(2)]\<close>)

lemma submit_upholds:
  assumes "uuids_differ cx"
  shows "upholds (orderly cx) (\<lambda>_ _. True) (submit_decision_with_reason cx d price plan)"
  unfolding upholds_iff submit_decision_with_reason_def wp_bnd [of "entry_assessment cx d price"]
proof (intro allI impI, rule wp_mono [OF wp_entry_assessment], elim conjE)
  fix b b1 and a :: "string + int \<times> int"
  assume b: "orderly cx b" "same b b1"
    and gate: "(\<exists>x. a = Inr x) \<longrightarrow> de_mint d \<notin> set (bk_traded_mints b) \<and> de_mint d \<notin> fst ` set (bk_positions b) \<and>
      \<not> has_pending_for b (de_mint d) None"
  have b1: "orderly cx b1" by (rule same_orderly [OF b(2,1)])
  let ?T = "\<lambda>_. orderly cx" and ?E = "\<lambda>_ _. True"
  show "wp (case a of Inl blocker \<Rightarrow> ret (None, Some blocker) | Inr (request, required) \<Rightarrow>
         bnd (on_db (fresh_uuid (cx_env cx))) (\<lambda>order_id.
         let order = buy_order cx d order_id request required plan in
         seq (guard (order_fields_ok order) (ValueError ''invalid paper order''))
         (seq (on_db (save_decision (cx_env cx) d)) (seq (add_pending order) (ret (Some order, None)))))) ?T ?E b1"
  proof (cases a)
    case (Inr x)
    obtain request required where x: "x = (request, required)" by force
    have g: "de_mint d \<notin> set (bk_traded_mints b1)" "de_mint d \<notin> fst ` set (bk_positions b1)"
      "\<not> has_pending_for b1 (de_mint d) None"
      using gate Inr b(2) gate_same(2) [OF b(2)] by (auto simp: same_def Let_def)
    show ?thesis
      unfolding Inr sum.case x prod.case wp_bnd Let_def wp_seq wp_guard wp_ret
    proof (rule wp_fresh_orderly [OF assms b1])
      fix i b2
      assume b2: "orderly cx b2" "same b1 b2" "i \<in> en_uuid (cx_env cx) ` {..<bo_fresh (books_in b2)}"
        "map_of (bo_orders (books_in b2)) i = None"
      let ?q = "buy_order cx d i request required plan"
      have "gate_open b2 ?q" "\<not> has_pending_for b2 (po_mint ?q) None"
        using g by (simp_all add: gate_same(2) [OF b2(2)] same_memory [OF b2(2)] buy_order_def gate_open_def)
      then have "wp (on_db (save_decision (cx_env cx) d)) (\<lambda>_. wp (add_pending ?q) ?T ?E) ?E b2"
        using b2(3,4) by (intro wp_calm_upholds [OF calm_off_books [OF off_books_save_decision] b2(1)] wp_add_later)
          (simp_all add: buy_order_def del: books_of_sel)
      then show "if order_fields_ok ?q then wp (on_db (save_decision (cx_env cx) d)) (\<lambda>_. wp (add_pending ?q) ?T ?E) ?E b2
          else True" by simp
    qed
  qed (use b1 in \<open>simp add: wp_ret\<close>)
qed simp

text \<open>A sell is scheduled for a held mint without a pending sell, so without any pending order.\<close>

lemma submit_sell_orderly:
  assumes "uuids_differ cx" and "orderly cx b" and "ps_mint p \<in> fst ` set (bk_positions b)"
    and "\<not> has_pending_for b (ps_mint p) (Some Sell)"
  shows "wp (submit_sell cx p now reason) (\<lambda>_. orderly cx) (\<lambda>_ _. True) b"
  unfolding submit_sell_def wp_bnd Let_def wp_seq wp_guard
proof (rule wp_fresh_orderly [OF assms(1,2)])
  fix i b2
  assume b2: "orderly cx b2" "same b b2" "i \<in> en_uuid (cx_env cx) ` {..<bo_fresh (books_in b2)}"
    "map_of (bo_orders (books_in b2)) i = None"
  let ?q = "sell_order cx p i now reason"
  have "\<not> has_pending_for b (ps_mint p) None"
  proof
    assume "has_pending_for b (ps_mint p) None"
    then obtain q where q: "q \<in> snd ` set (bk_pending b)" "po_mint q = ps_mint p"
      unfolding has_pending_iff by (metis imageE)
    then have "po_side q \<noteq> Sell" using assms(4) by (auto simp: has_pending_iff)
    then have "po_side q = Buy" by (cases "po_side q") simp_all
    moreover have "gate_open b q" using orderlyD(3) [OF assms(2)] q(1) by (auto simp: pending_ok_def)
    ultimately show False using q(2) assms(3) by (simp add: gate_open_def)
  qed
  then have "wp (add_pending ?q) (\<lambda>_. orderly cx) (\<lambda>_ _. True) b2"
    using b2 assms(3) by (intro wp_add_pending)
      (simp_all add: sell_order_def gate_same(2) [OF b2(2)] gate_open_def same_memory [OF b2(2)] del: books_of_sel)
  then show "if order_fields_ok ?q then wp (add_pending ?q) (\<lambda>_. orderly cx) (\<lambda>_ _. True) b2 else True" by simp
qed

lemma schedule_upholds:
  assumes "uuids_differ cx"
  shows "upholds (orderly cx) (\<lambda>_ _. True) (schedule_exit_if_needed cx state features now mode soft participant)"
  unfolding upholds_iff
proof (intro allI impI)
  fix b
  assume b: "orderly cx b"
  let ?m = "ts_mint state"
  have upd: "wp (seq (update_position cx ?m p') (when_do c (submit_sell cx p' now reason))) (\<lambda>_. orderly cx) (\<lambda>_ _. True) b"
    if m: "map_of (bk_positions b) ?m = Some p" and h: "holding_of p' = holding_of p"
      and sell: "\<not> has_pending_for b ?m (Some Sell)" for p p' c reason
    unfolding wp_seq
  proof (rule wp_mono [OF wp_update_filed [OF _ m h]])
    fix b'
    assume "(filed cx b' \<and> orders_kept b b') \<and> map_of (bk_positions b') ?m = Some p'"
    then have b': "filed cx b'" "orders_kept b b'" "map_of (bk_positions b') ?m = Some p'" by blast+
    have o': "orderly cx b'"
      using b' pending_ok_kept [OF b'(2) orderlyD(3) [OF b]] by (simp add: orderly_def)
    have "ps_mint p' = ?m" "ps_mint p' \<in> fst ` set (bk_positions b')"
      using sound_keys(2) [OF orderlyD(1) [OF o']] map_of_SomeD [OF b'(3)] by force+
    moreover have "\<not> has_pending_for b' ?m (Some Sell)"
      using sell b'(2) by (simp add: has_pending_for_def orders_kept_def)
    ultimately show "wp (when_do c (submit_sell cx p' now reason)) (\<lambda>_. orderly cx) (\<lambda>_ _. True) b'"
      using o' by (simp add: wp_when_do submit_sell_orderly [OF assms o'])
  qed (use b in \<open>simp_all add: orderly_def\<close>)
  have set_assessment: "holding_of (p\<lparr> ps_exit_assessment := a \<rparr>) = holding_of p" for p a
    by (simp add: holding_of_def)
  show "wp (schedule_exit_if_needed cx state features now mode soft participant) (\<lambda>_. orderly cx) (\<lambda>_ _. True) b"
    unfolding schedule_exit_if_needed_def Let_def wp_bnd wp_gets wp_case_option wp_if wp_lift
    by (auto simp: wp_ret wp_case_prod set_assessment b split: option.split sum.split intro!: upd
        dest: holding_integrity)
qed

lemma exits_upholds:
  assumes "uuids_differ cx"
  shows "upholds (orderly cx) (\<lambda>_ _. True) (schedule_profile_transition_exits cx now)"
proof -
  have one: "upholds (orderly cx) (\<lambda>_ _. True) (bnd (gets id) (\<lambda>b.
       if ps_market_status observed \<noteq> Active \<or> has_pending_for b (ps_mint observed) (Some Sell) then ret None
       else (case map_of (bk_positions b) (ps_mint observed) of
               None \<Rightarrow> ret None
             | Some p \<Rightarrow> seq (submit_sell cx p now ''manual_profile_change'') (ret (Some ())))))" for observed
    unfolding upholds_iff wp_bnd wp_gets wp_if wp_case_option wp_seq wp_ret id_apply
  proof (intro allI impI)
    fix b
    assume b: "orderly cx b"
    have "wp (submit_sell cx p now ''manual_profile_change'') (\<lambda>_. orderly cx) (\<lambda>_ _. True) b"
      if "map_of (bk_positions b) (ps_mint observed) = Some p" "\<not> has_pending_for b (ps_mint observed) (Some Sell)" for p
    proof -
      have "ps_mint p = ps_mint observed" "ps_mint p \<in> fst ` set (bk_positions b)"
        using sound_keys(2) [OF orderlyD(1) [OF b]] map_of_SomeD [OF that(1)] by force+
      then show ?thesis using submit_sell_orderly [OF assms b] that(2) by simp
    qed
    then show "if ps_market_status observed \<noteq> Active \<or> has_pending_for b (ps_mint observed) (Some Sell) then orderly cx b
        else case map_of (bk_positions b) (ps_mint observed) of None \<Rightarrow> orderly cx b
          | Some p \<Rightarrow> wp (submit_sell cx p now ''manual_profile_change'') (\<lambda>_. orderly cx) (\<lambda>_ _. True) b"
      using b by (simp split: option.split)
  qed
  show ?thesis
    unfolding schedule_profile_transition_exits_def
    by (rule free.upholds_bnd [OF calm_orderly [OF calm_snapshot]
          free.upholds_bnd [OF free.upholds_loops(2) [OF one] free.upholds_basic(1)]])
qed

end
