(* ===== verification/Broker_Recovery.thy ===== *)
theory Broker_Recovery
  imports Broker_Orders
begin

text \<open>
  Fills, season boundaries and restarts keep the order book of \<open>Broker_Orders\<close> in order; so every
  run whose calls return does. From that: no mint is bought twice, the audit of the fills finds
  nothing, and the constructor rebuilds from the database what memory held.
\<close>

section \<open>Fills\<close>

lemma map_of_map_entry: "map_of (AList.map_entry i f d) j = (if j = i then map_option f (map_of d i) else map_of d j)"
  by (induction d) auto

lemma order_row_filled:
  "map_of d i = Some q \<Longrightarrow> po_status q' \<noteq> Pending \<Longrightarrow>
   order_row (AList.map_entry i (\<lambda>_. q') d) j = (if j = i then None else order_row d j)"
  by (simp add: order_row_def map_of_map_entry)

lemma orders_ok_filled:
  assumes "orders_ok cx d n" and "po_order_id q = i"
  shows "orders_ok cx (AList.map_entry i (\<lambda>_. q) d) n"
proof -
  have "map fst (AList.map_entry i (\<lambda>_. q) d) = map fst d" by (induction d) auto
  moreover have "\<forall>x \<in> set (AList.map_entry i (\<lambda>_. q) d). (x \<in> set d \<or> x = (i, q)) \<and> fst x \<in> fst ` set d"
    by (induction d) auto
  ultimately show ?thesis
    using assms unfolding orders_ok_def by fastforce
qed

text \<open>A checked commit: the receipt agrees with the filled order, which was pending.\<close>

lemma checked_clean:
  assumes "commit_checked v q f p rows"
    and sell: "fr_side f = Sell \<Longrightarrow> \<exists>e \<in> set fills. fr_side e = Buy \<and> fr_mint e = fr_mint f \<and>
        fr_position_opened_at f = Some (fr_filled_at e) \<and> fr_filled_at e \<le> fr_filled_at f"
  shows "fill_clean (AList.map_entry (po_order_id q) (\<lambda>_. q) (bo_orders v)) fills f"
proof -
  have "map_of (AList.map_entry (po_order_id q) (\<lambda>_. q) (bo_orders v)) (po_order_id q) = Some q"
    using assms(1) by (auto simp: commit_checked_def map_of_map_entry)
  then show ?thesis
    using assms(1) sell
    by (auto simp: fill_clean_def commit_checked_def validate_fill_commit_def not_less split: if_splits option.splits)
qed

lemma fills_ok_filled:
  assumes ok: "fills_ok (bo_orders v) (bo_fills v)" and checked: "commit_checked v q f p rows"
    and new: "fr_side f = Buy \<Longrightarrow> fr_mint f \<notin> set (bought (bo_fills v))"
    and sell: "fr_side f = Sell \<Longrightarrow> \<exists>e \<in> set (bo_fills v). fr_side e = Buy \<and> fr_mint e = fr_mint f \<and>
        fr_position_opened_at f = Some (fr_filled_at e) \<and> fr_filled_at e \<le> fr_filled_at f"
  shows "fills_ok (AList.map_entry (po_order_id q) (\<lambda>_. q) (bo_orders v)) (bo_fills v @ [f])"
proof -
  let ?d = "AList.map_entry (po_order_id q) (\<lambda>_. q) (bo_orders v)"
  have "fill_clean ?d (bo_fills v @ [f]) g" if "g \<in> set (bo_fills v)" for g
  proof -
    have "fill_clean (bo_orders v) (bo_fills v) g" using ok that by (simp add: fills_ok_def)
    moreover have "fr_order_id g \<noteq> po_order_id q"
      using that checked by (auto simp: commit_checked_def validate_fill_commit_def split: if_splits)
    ultimately show ?thesis by (auto simp: fill_clean_def map_of_map_entry)
  qed
  moreover have "fill_clean ?d (bo_fills v @ [f]) f"
    by (rule checked_clean [OF checked]) (use sell in auto)
  ultimately show ?thesis using ok new by (auto simp: fills_ok_def bought_def)
qed

text \<open>What a settled order leaves: its row is filled, and the gate of every other mint is as before.\<close>

definition settled :: "paper_order \<Rightarrow> broker \<Rightarrow> broker \<Rightarrow> bool" where
  "settled q b b' \<longleftrightarrow>
     bo_orders (books_in b') = AList.map_entry (po_order_id q) (\<lambda>_. q) (bo_orders (books_in b)) \<and>
     bk_pending b' = bk_pending b \<and> (\<forall>r. po_mint r \<noteq> po_mint q \<longrightarrow> gate_open b' r = gate_open b r)"

lemma settled_kept: "settled q b b' \<Longrightarrow> orders_kept b' b'' \<Longrightarrow> settled q b b''"
  using gate_open_cong [of b'' b'] by (simp add: settled_def orders_kept_def del: books_of_sel)

lemma notify_core:
  assumes "\<And>n. Q () (b\<lparr> bk_notified := n \<rparr>)"
  shows "wp (notify_evidence_observer ep) Q E b"
  using assms [of "bk_notified b"] assms
  by (auto simp: notify_evidence_observer_def wp_simps split: option.split)

lemma core_bought:
  assumes c: "core cx v b" and checked: "commit_checked v q r p rows"
    and v': "v' = v\<lparr> bo_orders := AList.map_entry (po_order_id q) (\<lambda>_. q) (bo_orders v), bo_fills := bo_fills v @ [r],
        bo_ledger := l, bo_positions := bo_positions v @ [(ps_position_id p, p)] \<rparr>"
    and b': "bk_positions b' = bk_positions b @ [(m, p)]" "set (bk_traded_mints b') = insert (fr_mint r) (set (bk_traded_mints b))"
    and mem: "bk_initialized b' = bk_initialized b" "bk_quote_currency b' = bk_quote_currency b"
      "bk_starting_lamports b' = bk_starting_lamports b" "bk_season_id b' = bk_season_id b"
    and side: "po_side q = Buy" and new: "fr_mint r \<notin> set (bk_traded_mints b)"
    and p: "ps_mint p = fr_mint r" "ps_opened_at p = fr_filled_at r"
  shows "core cx v' b'"
proof -
  have "po_side q = fr_side r" using checked by (auto simp: commit_checked_def validate_fill_commit_def split: if_splits)
  then have buy: "fr_side r = Buy" using side by simp
  have traded: "set (bk_traded_mints b) = set (bought (bo_fills v))" using c by (simp add: core_def)
  have "orders_ok cx (bo_orders v') (bo_fresh v')"
    using orders_ok_filled [of cx "bo_orders v" "bo_fresh v" q] c by (simp add: core_def v')
  moreover have "fills_ok (bo_orders v') (bo_fills v')"
    using fills_ok_filled [OF _ checked] c buy new traded by (simp add: v' core_def)
  moreover have "positions_ok (bo_positions v') (bo_fills v') (bk_positions b')"
  proof -
    have "snd ` set (bk_positions b) = snd ` set (bo_positions v)"
      and "\<forall>x \<in> snd ` set (bk_positions b). \<exists>e \<in> set (bo_fills v). fr_side e = Buy \<and> fr_mint e = ps_mint x \<and> fr_filled_at e = ps_opened_at x"
      using c unfolding core_def positions_ok_def by blast+
    moreover have "snd ` set (bk_positions b') = insert p (snd ` set (bk_positions b))"
      "snd ` set (bo_positions v') = insert p (snd ` set (bo_positions v))" by (simp_all add: b' v')
    moreover have "set (bo_fills v') = insert r (set (bo_fills v))" by (simp add: v')
    ultimately show ?thesis using p buy unfolding positions_ok_def by auto
  qed
  moreover have "settings_match (bo_settings v') b'"
    using c settings_match_cong [of "bo_settings v" "bo_settings v" b' b] mem by (simp add: core_def v')
  moreover have "set (bk_traded_mints b') = set (bought (bo_fills v'))"
    using traded buy by (auto simp: b' v' bought_def)
  ultimately show ?thesis by (simp add: core_def)
qed

lemma wp_buy_settled:
  assumes f: "filed cx b" and side: "po_side q = Buy" and mint: "po_mint q = fr_mint r"
    and new: "po_mint q \<notin> set (bk_traded_mints b)" "po_mint q \<notin> fst ` set (bk_positions b)"
    and net: "0 \<le> fr_account_net_minor r" "fr_account_net_minor r \<le> cash_lamports b"
  shows "wp (account_buy cx q r state) (\<lambda>_ b'. filed cx b' \<and> settled q b b') (\<lambda>_ _. True) b"
proof -
  let ?T = "\<lambda>_ b'. core cx (books_in b') b' \<and> settled q b b'" and ?E = "\<lambda>_ _. True"
  have s: "books_sound b" and c: "core cx (books_in b) b" using f by (simp_all add: filed_def)
  have "wp (account_buy cx q r state) ?T ?E b"
    unfolding account_buy_def wp_bnd [of "on_db (fresh_uuid (cx_env cx))"]
  proof (rule wp_calm [OF calm_fresh_uuid])
    fix pid b1
    assume same: "same b b1"
    define p where "p = opened_position pid q r state"
    define rows where "rows = buy_entries (po_mint q) r"
    define ep where "ep = execution_episode_for_buy cx b1 q r state"
    let ?v = "books_in b1"
    have c1: "core cx ?v b1" using same_filed(1) [OF same f] by (simp add: filed_def)
    note kept = same_filed(2) [OF same f] and memory = same_memory [OF same]
    have p: "ps_mint p = po_mint q" "ps_opened_at p = fr_filled_at r" by (simp_all add: p_def opened_position_def)
    have none: "map_of (bk_positions b1) (po_mint q) = None" using new(2) by (simp add: memory map_of_eq_None_iff)
    have post: "core cx (books_in b2) b2 \<and> settled q b b2"
      if books: "books_in b2 = ?v\<lparr>
          bo_orders := AList.map_entry (po_order_id q) (\<lambda>_. q) (bo_orders ?v), bo_fills := bo_fills ?v @ [r],
          bo_ledger := l, bo_positions := bo_positions ?v @ [(ps_position_id p, p)] \<rparr>"
        and checked: "commit_checked ?v q r p rows"
        and b2: "bk_positions b2 = AList.update (po_mint q) p (bk_positions b1)"
          "bk_traded_mints b2 = (if po_mint q \<in> set (bk_traded_mints b1) then bk_traded_mints b1 else bk_traded_mints b1 @ [po_mint q])"
          "bk_pending b2 = bk_pending b1" "bk_initialized b2 = bk_initialized b1"
          "bk_quote_currency b2 = bk_quote_currency b1" "bk_starting_lamports b2 = bk_starting_lamports b1"
          "bk_season_id b2 = bk_season_id b1" for b2 l
    proof
      have mem: "bk_positions b2 = bk_positions b1 @ [(po_mint q, p)]"
        "set (bk_traded_mints b2) = insert (fr_mint r) (set (bk_traded_mints b1))"
        using none by (auto simp: b2 update_absent mint)
      show "core cx (books_in b2) b2"
        by (rule core_bought [OF c1 checked books mem(1,2) b2(4-7) side])
           (use new(1) p mint in \<open>simp_all add: memory\<close>)
      have "gate_open b2 x = gate_open b x" if "po_mint x \<noteq> po_mint q" for x
        using that mem(1,2) by (auto simp: gate_open_def memory mint)
      then show "settled q b b2"
        using kept by (simp add: settled_def books b2(3) orders_kept_def del: books_of_sel)
    qed
    show "wp (let p = opened_position pid q r state in
       seq (guard (position_fields_ok p) (ValueError ''invalid position''))
       (bnd (gets (\<lambda>b. execution_episode_for_buy cx b q r state)) (\<lambda>episode.
       seq (guard (episode_fields_ok episode) (ValueError ''invalid evidence episode''))
       (seq (on_db (commit_buy_fill q r p (buy_entries (po_mint q) r) (Some episode)))
       (seq (modify (\<lambda>b. b\<lparr> bk_positions := AList.update (po_mint q) p (bk_positions b),
                            bk_traded_mints := (if po_mint q \<in> set (bk_traded_mints b)
                              then bk_traded_mints b else bk_traded_mints b @ [po_mint q]) \<rparr>))
            (notify_evidence_observer (Some episode))))))) ?T ?E b1"
      unfolding Let_def p_def [symmetric] rows_def [symmetric] wp_seq wp_guard wp_bnd wp_gets ep_def [symmetric]
        on_db_def wp_zoom wp_modify
      by (intro if_bool_eq_conj [THEN iffD2] conjI impI TrueI, rule wp_commit_buy_fill, rule notify_core, rule post)
         (simp_all del: books_of_sel)
  qed
  moreover have "wp (account_buy cx q r state) (\<lambda>_. books_sound) ?E b"
    by (rule wp_mono [OF wp_account_buy [OF lawful_refl [OF s] net]]) (auto dest: lawful_sound)
  ultimately have "wp (account_buy cx q r state) (\<lambda>_ b'. (core cx (books_in b') b' \<and> settled q b b') \<and> books_sound b') ?E b"
    by (rule wp_conj)
  then show ?thesis by (rule wp_mono) (simp_all add: filed_def)
qed

lemma core_sold:
  assumes f: "filed cx b" and checked: "commit_checked v q r p rows" and v: "v = books_in b"
    and v': "v' = v\<lparr> bo_orders := AList.map_entry (po_order_id q) (\<lambda>_. q) (bo_orders v), bo_fills := bo_fills v @ [r],
        bo_ledger := l, bo_positions := AList.delete (ps_position_id p) (bo_positions v),
        bo_settings := AList.update ''realized_pnl_lamports'' x (bo_settings v) \<rparr>"
    and b': "bk_positions b' = AList.delete m (bk_positions b)" "bk_traded_mints b' = bk_traded_mints b"
    and mem: "bk_initialized b' = bk_initialized b" "bk_quote_currency b' = bk_quote_currency b"
      "bk_starting_lamports b' = bk_starting_lamports b" "bk_season_id b' = bk_season_id b"
    and side: "po_side q = Sell" and held: "map_of (bk_positions b) m = Some p" and mint: "po_mint q = m"
    and opened: "fr_position_opened_at r = Some (ps_opened_at p)" "ps_opened_at p \<le> fr_filled_at r"
  shows "core cx v' b'"
proof -
  have s: "books_sound b" and c: "core cx v b" using f v by (simp_all add: filed_def)
  note k = sound_keys [OF s]
  have r: "fr_side r = Sell" "fr_mint r = m"
    using checked side mint by (auto simp: commit_checked_def validate_fill_commit_def split: if_splits)
  have in': "p \<in> snd ` set (bk_positions b)" and p: "ps_mint p = m"
    using map_of_SomeD [OF held] k(2) by force+
  have pos: "positions_ok (bo_positions v) (bo_fills v) (bk_positions b)" using c by (simp add: core_def)
  then have vals: "snd ` set (bk_positions b) = snd ` set (bo_positions v)"
    and buys: "\<forall>y \<in> snd ` set (bk_positions b). \<exists>e \<in> set (bo_fills v). fr_side e = Buy \<and> fr_mint e = ps_mint y \<and> fr_filled_at e = ps_opened_at y"
    unfolding positions_ok_def by blast+
  have "orders_ok cx (bo_orders v') (bo_fresh v')"
    using orders_ok_filled [of cx "bo_orders v" "bo_fresh v" q] c by (simp add: core_def v')
  moreover have "fills_ok (bo_orders v') (bo_fills v')"
  proof -
    obtain e where "e \<in> set (bo_fills v)" "fr_side e = Buy" "fr_mint e = m" "fr_filled_at e = ps_opened_at p"
      using bspec [OF buys in'] p by auto
    then have "\<exists>e \<in> set (bo_fills v). fr_side e = Buy \<and> fr_mint e = fr_mint r \<and>
        fr_position_opened_at r = Some (fr_filled_at e) \<and> fr_filled_at e \<le> fr_filled_at r"
      using opened r by auto
    then show ?thesis using fills_ok_filled [OF _ checked] c r(1) by (simp add: v' core_def)
  qed
  moreover have "positions_ok (bo_positions v') (bo_fills v') (bk_positions b')"
  proof -
    have a: "snd ` set (bk_positions b') = snd ` set (bk_positions b) - {p}"
      unfolding b' by (rule delete_value [OF k(1,2) in' p])
    have d: "snd ` set (bo_positions v') = snd ` set (bo_positions v) - {p}"
      using delete_value [OF k(3,4) _ refl, of p] in' vals by (simp add: v' v)
    have e: "set (bo_fills v') = insert r (set (bo_fills v))" by (simp add: v')
    show ?thesis unfolding positions_ok_def a d e using vals buys by auto
  qed
  moreover have "settings_match (bo_settings v') b'"
  proof -
    have "settings_match (bo_settings v') b' = settings_match (bo_settings v) b"
      by (simp add: settings_match_def v' mem update_conv' setting_num_def)
    then show ?thesis using c by (simp add: core_def)
  qed
  moreover have "set (bk_traded_mints b') = set (bought (bo_fills v'))"
    using c r(1) by (simp add: b' v' bought_def core_def)
  ultimately show ?thesis by (simp add: core_def)
qed

lemma wp_sell_settled:
  assumes f: "filed cx b" and side: "po_side q = Sell" and held: "map_of (bk_positions b) (po_mint q) = Some p"
    and opened: "fr_position_opened_at r = Some (ps_opened_at p)" "ps_opened_at p \<le> fr_filled_at r"
    and net: "0 \<le> fr_account_net_minor r"
  shows "wp (account_sell q r) (\<lambda>_ b'. filed cx b' \<and> settled q b b') (\<lambda>_ _. True) b"
proof -
  let ?T = "\<lambda>_ b'. core cx (books_in b') b' \<and> settled q b b'" and ?E = "\<lambda>_ _. True"
  let ?v = "books_in b" and ?m = "po_mint q"
  have s: "books_sound b" using f by (simp add: filed_def)
  define rows where "rows = sell_entries ?m r p"
  define ep where "ep = map_option (completed_episode r)
      (execution_evidence_for_entry_fill (tables_of b) (ps_entry_fill_id p))"
  have post: "core cx (books_in b2) b2 \<and> settled q b b2"
    if books: "books_in b2 = ?v\<lparr>
        bo_orders := AList.map_entry (po_order_id q) (\<lambda>_. q) (bo_orders ?v), bo_fills := bo_fills ?v @ [r],
        bo_ledger := l, bo_positions := AList.delete (ps_position_id p) (bo_positions ?v),
        bo_settings := AList.update ''realized_pnl_lamports'' x (bo_settings ?v) \<rparr>"
      and checked: "commit_checked ?v q r p rows"
      and b2: "bk_positions b2 = AList.delete ?m (bk_positions b)" "bk_traded_mints b2 = bk_traded_mints b"
        "bk_pending b2 = bk_pending b" "bk_initialized b2 = bk_initialized b"
        "bk_quote_currency b2 = bk_quote_currency b" "bk_starting_lamports b2 = bk_starting_lamports b"
        "bk_season_id b2 = bk_season_id b" for b2 l x
  proof
    show "core cx (books_in b2) b2"
      by (rule core_sold [OF f checked refl books b2(1,2,4-7) side held refl opened])
    have "fst ` set (bk_positions b2) = fst ` set (bk_positions b) - {?m}"
      using set_delete [OF sound_keys(1) [OF s], of ?m] by (force simp: b2(1))
    then have "gate_open b2 y = gate_open b y" if "po_mint y \<noteq> ?m" for y
      using that by (auto simp: gate_open_def b2(2))
    then show "settled q b b2" by (simp add: settled_def books b2(3) del: books_of_sel)
  qed
  have "wp (account_sell q r) ?T ?E b"
    unfolding account_sell_def wp_bnd wp_gets id_apply held option.case Let_def
      rows_def [symmetric] ep_def [symmetric] wp_lift wp_seq on_db_def wp_zoom wp_modify
    by (simp split: sum.split del: books_of_sel, intro allI impI, rule wp_commit_sell_fill, rule notify_core, rule post)
       (simp_all del: books_of_sel)
  moreover have "wp (account_sell q r) (\<lambda>_. books_sound) ?E b"
    by (rule wp_mono [OF wp_account_sell [OF lawful_refl [OF s] net]]) (auto dest: lawful_sound)
  ultimately have "wp (account_sell q r) (\<lambda>_ b'. (core cx (books_in b') b' \<and> settled q b b') \<and> books_sound b') ?E b"
    by (rule wp_conj)
  then show ?thesis by (rule wp_mono) (simp_all add: filed_def)
qed

lemma filed_pending: "filed cx (b\<lparr> bk_pending := d \<rparr>) = filed cx b"
  using core_cong [of "b\<lparr> bk_pending := d \<rparr>" b cx "books_in b"]
  by (simp add: filed_def books_sound_def account_view_of_def)

lemma gate_pending: "gate_open (b\<lparr> bk_pending := d \<rparr>) r = gate_open b r"
  by (simp add: gate_open_def)

lemma settled_popped:
  assumes b: "orderly cx b" and q: "map_of (bk_pending b) (po_order_id f) = Some q" and mint: "po_mint f = po_mint q"
    and status: "po_status f = Filled" and b': "filed cx b'" "settled f b b'"
    and b2: "b2 = b'\<lparr> bk_pending := AList.delete (po_order_id f) (bk_pending b') \<rparr>"
  shows "orderly cx b2 \<and> handled (po_order_id f) b b2"
proof -
  have pend: "bk_pending b2 = AList.delete (po_order_id f) (bk_pending b)" and store: "books_in b2 = books_in b'"
    using b'(2) by (simp_all add: b2 settled_def)
  note o = orderlyD [OF b]
  have "pending_ok (bo_orders (books_in b2)) b2"
  proof (rule pending_popped [OF o(3) q _ pend])
    show "order_row (bo_orders (books_in b2)) j = (if j = po_order_id f then None else order_row (bo_orders (books_in b)) j)" for j
      using b'(2) order_row_filled [OF pending_lookup(1) [OF o(3) q], of f] status
      by (simp add: store settled_def del: books_of_sel)
    show "gate_open b2 r = gate_open b r" if "po_mint r \<noteq> po_mint q" for r
      using b'(2) that by (simp add: b2 gate_pending settled_def mint)
  qed
  moreover have "filed cx b2" unfolding b2 filed_pending by (rule b'(1))
  ultimately show ?thesis by (simp add: orderly_def handled_def pend delete_conv')
qed

lemma wp_settle_handled:
  assumes b: "orderly cx b" and q: "map_of (bk_pending b) (po_order_id order) = Some order"
    and r: "fr_mint r = po_mint order" "fr_filled_at r = now"
    and cash: "po_side order = Buy \<Longrightarrow> fr_account_net_minor r \<le> cash_lamports b"
    and sell: "\<And>p. po_side order = Sell \<Longrightarrow> map_of (bk_positions b) (po_mint order) = Some p \<Longrightarrow>
      fr_position_opened_at r = Some (ps_opened_at p) \<and> ps_opened_at p \<le> now"
  shows "wp (settle_fill cx order state features now price r)
    (\<lambda>_ b'. orderly cx b' \<and> handled (po_order_id order) b b') (\<lambda>_ _. True) b"
proof (cases "receipt_fields_ok r")
  case True
  then have pos: "0 \<le> fr_account_net_minor r" by (simp add: receipt_fields_ok_def)
  let ?f = "order\<lparr> po_status := Filled, po_filled_at := Some now \<rparr>"
  let ?T = "\<lambda>_ b'. orderly cx b' \<and> handled (po_order_id order) b b'" and ?E = "\<lambda>_ _. True"
  have f: "filed cx b" using b by (simp add: orderly_def)
  have gate: "gate_open b order"
    using orderlyD(3) [OF b] map_of_SomeD [OF q] by (force simp: pending_ok_def)
  define pop :: "fill_receipt option brk" where "pop = seq (modify (\<lambda>b. b\<lparr> bk_pending := AList.delete (po_order_id order) (bk_pending b) \<rparr>))
      (ret (Some r))"
  have pop: "wp pop ?T ?E b'" if "filed cx b' \<and> settled ?f b b'" for b'
    using settled_popped [OF b, of ?f order b'] q that by (simp add: pop_def wp_simps)
  have mark: "wp (mark_position cx state features price (Some now)) (\<lambda>_. wp pop ?T ?E) ?E b'"
    if "filed cx b' \<and> settled ?f b b'" for b'
    by (rule wp_mono [OF upholdsD [OF mark_upholds]]) (use that in \<open>auto intro: pop settled_kept\<close>)
  have side: "po_side order = Buy \<or> po_side order = Sell" by (cases "po_side order") simp_all
  have buy: "wp (account_buy cx ?f r state) (\<lambda>_. wp (mark_position cx state features price (Some now))
      (\<lambda>_. wp pop ?T ?E) ?E) ?E b" if "po_side order = Buy"
    by (rule wp_mono [OF wp_buy_settled [OF f]])
       (use that gate r(1) cash pos in \<open>simp_all add: gate_open_def mark\<close>)
  have sold: "wp (account_sell ?f r) (\<lambda>_. wp pop ?T ?E) ?E b" if sd: "po_side order = Sell"
  proof -
    obtain p where p: "map_of (bk_positions b) (po_mint order) = Some p"
      using gate sd by (cases "map_of (bk_positions b) (po_mint order)") (auto simp: gate_open_def map_of_eq_None_iff)
    show ?thesis
      by (rule wp_mono [OF wp_sell_settled [OF f, of ?f p]]) (use sd p sell [OF sd p] r pos in \<open>auto intro: pop\<close>)
  qed
  show ?thesis
    unfolding settle_fill_def Let_def pop_def [symmetric] wp_seq wp_guard wp_if
    using True buy sold side by auto
qed (simp add: settle_fill_def Let_def wp_seq wp_guard)

lemma wp_ret_fun: "wp (ret x) Q E = Q x"
  by (rule ext) (simp add: wp_ret)

lemma receipt_facts:
  "fr_mint (fill_receipt_of cx b i order state ev now price held q v) = po_mint order"
  "fr_filled_at (fill_receipt_of cx b i order state ev now price held q v) = now"
  "fr_position_opened_at (fill_receipt_of cx b i order state ev now price held q v) = map_option ps_opened_at held"
  by (simp_all add: fill_receipt_of_def migrate_legacy_sol_account_values_def)

lemma handles_fill: "handles cx order (fill cx order state features ev now price)"
  unfolding handles_def
proof (intro allI impI)
  fix b
  assume b: "orderly cx b" and q: "map_of (bk_pending b) (po_order_id order) = Some order"
  let ?T = "\<lambda>_ b'. orderly cx b' \<and> handled (po_order_id order) b b'" and ?E = "\<lambda>_ _. True"
  have stay: "?T x b" for x :: "fill_receipt option" using b by (simp add: handled_def)
  have fail: "wp (seq (fail_order order m now) (ret x)) ?T ?E b" for m and x :: "fill_receipt option"
    using handles_retire(1) [of cx order m now] b q by (simp add: wp_seq wp_ret_fun handles_def)
  define held where "held = (if po_side order = Sell then map_of (bk_positions b) (po_mint order) else None)"
  have exec: "wp (execute_fill cx order state features ev now price held qt v) ?T ?E b"
    if quote: "fill_quote cx (bk_quote_currency b) order state price held = Inr (qt, v)"
      and cash: "\<not> (po_side order = Buy \<and> cash_lamports b < av_net v)"
      and time: "\<not> (case held of None \<Rightarrow> False | Some p \<Rightarrow> now < ps_opened_at p)" for qt v
    unfolding execute_fill_def wp_bnd wp_gets
  proof (rule wp_calm [OF calm_fresh_uuid])
    fix i b1
    assume same: "same b b1"
    have b1: "orderly cx b1" by (rule same_orderly [OF same b])
    have mem: "bk_positions b1 = bk_positions b" "bk_pending b1 = bk_pending b" "bk_quote_currency b1 = bk_quote_currency b"
      "cash_lamports b1 = cash_lamports b"
      using same by (simp_all add: same_def Let_def cash_is_balance)
    have T: "handled (po_order_id order) b1 b' \<longleftrightarrow> handled (po_order_id order) b b'" for b' by (simp add: handled_def mem)
    let ?r = "fill_receipt_of cx b1 i order state ev now price held qt v"
    have "wp (settle_fill cx order state features now price ?r)
        (\<lambda>_ b'. orderly cx b' \<and> handled (po_order_id order) b1 b') ?E b1"
    proof (rule wp_settle_handled [OF b1])
      show "map_of (bk_pending b1) (po_order_id order) = Some order" using q by (simp add: mem)
      show "fr_account_net_minor ?r \<le> cash_lamports b1" if "po_side order = Buy"
        using receipt_net [of cx b1 order state price held qt v] quote cash that by (simp add: mem)
      show "fr_position_opened_at ?r = Some (ps_opened_at p) \<and> ps_opened_at p \<le> now"
        if "po_side order = Sell" "map_of (bk_positions b1) (po_mint order) = Some p" for p
        using that time by (simp add: receipt_facts held_def mem)
    qed (simp_all add: receipt_facts)
    then show "wp (settle_fill cx order state features now price ?r) ?T ?E b1" unfolding T .
  qed
  show "wp (fill cx order state features ev now price) ?T ?E b"
    unfolding fill_def Let_def wp_if wp_bnd wp_gets id_apply held_def [symmetric]
    by (auto simp: wp_ret wp_raise stay intro!: fail exec split: sum.splits exc.splits)
qed

lemma handles_due: "handles cx order (fill_due_order cx state features ev now mode price order)"
  unfolding handles_def
proof (intro allI impI)
  fix b
  assume b: "orderly cx b" and q: "map_of (bk_pending b) (po_order_id order) = Some order"
  let ?T = "\<lambda>_ b'. orderly cx b' \<and> handled (po_order_id order) b b'" and ?E = "\<lambda>_ _. True"
  have stay: "?T x b" for x :: "fill_receipt option" using b by (simp add: handled_def)
  define tl where "tl blocker = (if present blocker then seq (fail_order order (''fill_rejected:'' @ text_of blocker) now) (ret None)
       else fill cx order state features ev now price)" for blocker
  have tail: "wp (tl blocker) ?T ?E b'" if same: "same b b'" for blocker b'
  proof -
    have b': "orderly cx b'" by (rule same_orderly [OF same b])
    have mem: "bk_pending b' = bk_pending b" using same by (simp add: same_def Let_def)
    have q': "map_of (bk_pending b') (po_order_id order) = Some order" using q mem by simp
    have T: "handled (po_order_id order) b' = handled (po_order_id order) b" by (simp add: handled_def mem fun_eq_iff)
    have "wp (fill cx order state features ev now price) ?T ?E b'"
      using handles_fill [of cx order, unfolded handles_def, rule_format, OF b' q'] unfolding T .
    moreover have "wp (seq (fail_order order (''fill_rejected:'' @ text_of blocker) now) (ret None :: fill_receipt option brk)) ?T ?E b'"
      using handles_retire(1) [of cx order, unfolded handles_def, rule_format, OF b' q'] unfolding T wp_seq wp_ret_fun .
    ultimately show ?thesis unfolding tl_def wp_if by argo
  qed
  show "wp (fill_due_order cx state features ev now mode price order) ?T ?E b"
    unfolding fill_due_order_def tl_def [symmetric] wp_bnd [of "gets id"] wp_gets wp_if wp_ret id_apply
      wp_bnd [of "if po_side order = Buy then _ else _"]
    by (auto simp: stay split: option.split intro!: wp_calm [OF calm_fill_blocker] tail same_refl)
qed

lemma fill_due_upholds: "upholds (orderly cx) (\<lambda>_ _. True) (fill_due_orders cx state features ev now mode price with_equity)"
proof -
  have loop: "upholds (orderly cx) (\<lambda>_ _. True)
      (bnd (gets (\<lambda>b. values_of (bk_pending b))) (\<lambda>orders. collect orders (fill_due_order cx state features ev now mode price)))"
    unfolding upholds_iff wp_bnd wp_gets
  proof (intro allI impI)
    fix b
    assume b: "orderly cx b"
    show "wp (collect (values_of (bk_pending b)) (fill_due_order cx state features ev now mode price)) (\<lambda>_. orderly cx) (\<lambda>_ _. True) b"
      using wp_handle_collect [OF handles_due b] captured_pending [OF b, of "\<lambda>_. True"] by simp
  qed
  show ?thesis
    unfolding fill_due_orders_def bnd_assoc [symmetric]
    by (rule free.upholds_cases(1) [OF free.upholds_basic(1) free.upholds_bnd [OF loop]])
       (intro free.upholds_rules calm_orderly calm_record_equity)
qed

lemma mark_orderly: "upholds (orderly cx) (\<lambda>_ _. True) (mark_position cx state features price marked_at)"
  by (rule upholds_free, rule upholds_orderly, rule mark_upholds)

lemma market_upholds:
  assumes "uuids_differ cx"
  shows "upholds (orderly cx) (\<lambda>_ _. True) (process_due_orders cx state features ev now mode price eq)"
    and "upholds (orderly cx) (\<lambda>_ _. True) (reassess_position cx state features now mode price soft part)"
    and "upholds (orderly cx) (\<lambda>_ _. True) (reassess_and_process_due_orders cx state features ev now mode price soft part)"
    and "upholds (orderly cx) (\<lambda>_ _. True) (observe_market_state cx state features now price)"
    and "upholds (orderly cx) (\<lambda>_ _. True) (on_market_state cx state features kind ev now mode price soft part)"
proof -
  note u = mark_orderly schedule_upholds [OF assms] fill_due_upholds tidy_cancels(4) calm_orderly [OF calm_record_equity]
  show "upholds (orderly cx) (\<lambda>_ _. True) (process_due_orders cx state features ev now mode price eq)"
    unfolding process_due_orders_def by (intro free.upholds_rules u)
  show r: "upholds (orderly cx) (\<lambda>_ _. True) (reassess_position cx state features now mode price soft part)"
    unfolding reassess_position_def by (intro free.upholds_rules u)
  show "upholds (orderly cx) (\<lambda>_ _. True) (reassess_and_process_due_orders cx state features ev now mode price soft part)"
    unfolding reassess_and_process_due_orders_def by (intro free.upholds_rules u r)
  show "upholds (orderly cx) (\<lambda>_ _. True) (observe_market_state cx state features now price)"
    unfolding observe_market_state_def by (intro free.upholds_rules u)
  show "upholds (orderly cx) (\<lambda>_ _. True) (on_market_state cx state features kind ev now mode price soft part)"
    unfolding on_market_state_def by (intro free.upholds_rules u)
qed

section \<open>Season boundaries\<close>

definition tidy :: "ctx \<Rightarrow> broker \<Rightarrow> bool" where
  "tidy cx b \<longleftrightarrow> core cx (books_in b) b \<and> pending_ok (bo_orders (books_in b)) b"

lemma upholds_sound:
  assumes "\<And>a. keeps (lawful a) m" and "\<And>b. orderly cx b \<Longrightarrow> wp m (\<lambda>_. tidy cx) (\<lambda>_ _. True) b"
  shows "upholds (orderly cx) (\<lambda>_ _. True) m"
  unfolding upholds_iff
proof (intro allI impI)
  fix b
  assume b: "orderly cx b"
  have "wp m (\<lambda>_ b'. tidy cx b' \<and> books_sound b') (\<lambda>_ _. True) b"
    by (rule wp_conj [OF assms(2) [OF b] wp_sound [OF sound_of_lawful [OF assms(1)] orderlyD(1) [OF b]]])
  then show "wp m (\<lambda>_. orderly cx) (\<lambda>_ _. True) b"
    by (rule wp_mono) (simp_all add: tidy_def orderly_def filed_def)
qed

lemma tidy_empty:
  assumes "bo_orders (books_in b) = []" "bo_fills (books_in b) = []" "bo_positions (books_in b) = []"
    and "bk_positions b = []" "bk_pending b = []" "bk_traded_mints b = []" and "settings_match (bo_settings (books_in b)) b"
  shows "tidy cx b"
  using assms by (simp add: tidy_def core_def orders_ok_def positions_ok_def fills_ok_def bought_def pending_ok_def
      order_row_def del: books_of_sel)

lemma currency_roundtrip [simp]: "currency_of_json (currency_json c) = Inr c"
  by (cases c) (simp_all add: currency_of_json_def)

lemma match_opened:
  assumes "map_of d ''portfolio_initialized'' = Some (JBool True)" and "map_of d ''quote_currency'' = Some (currency_json c)"
    and "map_of d ''starting_lamports'' = Some (JInt n)" and "map_of d ''season_id'' = Some (JStr sid)" and "sid \<noteq> []"
    and "bk_initialized b" and "bk_quote_currency b = c" and "bk_starting_lamports b = n" and "bk_season_id b = Some sid"
  shows "settings_match d b"
  using assms by (simp add: settings_match_def setting_num_def present_def)

lemma initialize_upholds: "upholds (orderly cx) (\<lambda>_ _. True) (initialize cx currency n profile)"
proof (rule upholds_sound [OF keeps_initialize])
  fix b
  assume b: "orderly cx b"
  let ?T = "\<lambda>_. tidy cx" and ?E = "\<lambda>_ _. True"
  have main: "wp (on_db (initialize_portfolio (cx_env cx) sid n currency profile))
      (\<lambda>_. wp (on_db (wall_now (cx_env cx))) (\<lambda>now.
         wp (modify (\<lambda>b. b\<lparr> bk_quote_currency := currency, bk_quote_decimals := decimals_of currency,
           bk_starting_lamports := n, bk_initialized := True, bk_season_id := Some sid,
           bk_season_profile := profile, bk_last_equity_at := Some now \<rparr>)) ?T ?E) ?E) ?E b1"
    if b1: "orderly cx b1" and sid: "sid \<noteq> []" for b1 sid
    unfolding on_db_def wp_zoom
  proof (rule wp_initialize_portfolio)
    fix s'
    let ?v = "books_in b1"
    assume s': "season_settings (books_of s') True n" "season_identity (books_of s') currency sid"
      "bo_orders (books_of s') = bo_orders ?v" "bo_fills (books_of s') = bo_fills ?v"
      "bo_positions (books_of s') = bo_positions ?v" "bo_fresh (books_of s') = bo_fresh ?v"
    have t: "tidy cx b2" if "books_in b2 = books_of s'" "bk_positions b2 = bk_positions b1" "bk_pending b2 = bk_pending b1"
      "bk_traded_mints b2 = bk_traded_mints b1" "bk_initialized b2" "bk_quote_currency b2 = currency"
      "bk_starting_lamports b2 = n" "bk_season_id b2 = Some sid" for b2
    proof -
      have "settings_match (bo_settings (books_in b2)) b2"
        using s'(1,2) that sid by (intro match_opened) (simp_all add: season_settings_def season_identity_def del: books_of_sel)
      moreover have "pending_ok (bo_orders ?v) b2"
        using orderlyD(3) [OF b1] that(2-4) by (simp add: pending_ok_def gate_open_def)
      ultimately show ?thesis
        using orderlyD(2) [OF b1] that(1-4) s'(3-) by (simp add: tidy_def core_def del: books_of_sel)
    qed
    show "wp (wall_now (cx_env cx)) (\<lambda>now s. wp (modify (\<lambda>b. b\<lparr> bk_quote_currency := currency, bk_quote_decimals := decimals_of currency,
           bk_starting_lamports := n, bk_initialized := True, bk_season_id := Some sid,
           bk_season_profile := profile, bk_last_equity_at := Some now \<rparr>)) ?T ?E (b1\<lparr> bk_store := s', bk_store := s \<rparr>))
         (\<lambda>e s. True) (bk_store (b1\<lparr> bk_store := s' \<rparr>))"
      unfolding wp_wall_now wp_modify by (rule t) simp_all
  qed simp
  show "wp (initialize cx currency n profile) ?T ?E b"
    unfolding initialize_def Let_def wp_bnd [of "gets bk_initialized"] wp_gets wp_seq wp_guard wp_bnd
    by (simp del: books_of_sel, intro impI wp_calm [OF calm_fresh_uuid] main) (auto intro: same_orderly [OF _ b])
qed

lemma reconfigure_upholds: "upholds (orderly cx) (\<lambda>_ _. True) (reconfigure_unstarted cx currency n profile)"
proof (rule upholds_sound [OF keeps_reconfigure])
  fix b
  assume b: "orderly cx b"
  let ?T = "\<lambda>_. tidy cx" and ?E = "\<lambda>_ _. True"
  let ?v = "books_in b"
  define finish where "finish now = modify (\<lambda>b. b\<lparr> bk_quote_currency := currency, bk_quote_decimals := decimals_of currency,
      bk_starting_lamports := n, bk_season_profile := Some profile, bk_last_equity_at := Some now \<rparr> :: broker)" for now
  have match: "settings_match (bo_settings ?v) b" and traded: "set (bk_traded_mints b) = set (bought (bo_fills ?v))"
    using orderlyD(2) [OF b] by (simp_all add: core_def)
  have main: "wp (on_db (reconfigure_unstarted_portfolio (cx_env cx) sid currency n profile))
      (\<lambda>_. wp (on_db (wall_now (cx_env cx))) (\<lambda>now. wp (finish now) ?T ?E) ?E) ?E b"
    if empty: "bk_positions b = []" "bk_pending b = []" for sid
    unfolding on_db_def wp_zoom
  proof (rule wp_reconfigure)
    fix s'
    assume old: "bo_fills ?v = []"
      and same: "map_of (bo_settings (books_of s')) ''portfolio_initialized'' = map_of (bo_settings ?v) ''portfolio_initialized''"
        "map_of (bo_settings (books_of s')) ''season_id'' = map_of (bo_settings ?v) ''season_id''"
      and new: "map_of (bo_settings (books_of s')) ''quote_currency'' = Some (currency_json currency)"
        "map_of (bo_settings (books_of s')) ''starting_lamports'' = Some (JInt n)"
      and rows: "bo_orders (books_of s') = []" "bo_fills (books_of s') = []" "bo_positions (books_of s') = []"
    have t: "tidy cx b2" if "books_in b2 = books_of s'" "bk_positions b2 = bk_positions b" "bk_pending b2 = bk_pending b"
      "bk_traded_mints b2 = bk_traded_mints b" "bk_initialized b2 = bk_initialized b" "bk_quote_currency b2 = currency"
      "bk_starting_lamports b2 = n" "bk_season_id b2 = bk_season_id b" for b2
    proof (rule tidy_empty)
      show "settings_match (bo_settings (books_in b2)) b2"
        using match by (simp add: settings_match_def that same new setting_num_def del: books_of_sel)
    qed (use that rows empty old traded in \<open>simp_all add: bought_def del: books_of_sel\<close>)
    show "wp (wall_now (cx_env cx)) (\<lambda>now s. wp (finish now) ?T ?E (b\<lparr> bk_store := s', bk_store := s \<rparr>))
         (\<lambda>e s. True) (bk_store (b\<lparr> bk_store := s' \<rparr>))"
      unfolding wp_wall_now finish_def wp_modify by (rule t) simp_all
  qed simp
  show "wp (reconfigure_unstarted cx currency n profile) ?T ?E b"
    unfolding reconfigure_unstarted_def wp_bnd wp_gets wp_seq wp_guard id_apply finish_def [symmetric]
    by (simp add: main del: books_of_sel)
qed

lemma reset_upholds: "upholds (orderly cx) (\<lambda>_ _. True) (reset cx)"
proof (rule upholds_sound [OF keeps_reset])
  fix b
  assume b: "orderly cx b"
  let ?T = "\<lambda>_. tidy cx" and ?E = "\<lambda>_ _. True"
  define clear where "clear = modify (\<lambda>b. b\<lparr> bk_positions := [], bk_pending := [], bk_traded_mints := [],
      bk_starting_lamports := 0, bk_initialized := False, bk_season_id := None,
      bk_season_profile := None, bk_last_equity_at := None \<rparr> :: broker)"
  have main: "wp (seq (on_db (reset_paper_state (cx_env cx) summary reason us cmp))
      (seq (refresh_unresolved_evidence us) clear)) ?T ?E b1" if b1: "orderly cx b1" for b1 summary reason us cmp
  proof -
    let ?v = "books_in b1"
    have match: "settings_match (bo_settings ?v) b1" using orderlyD(2) [OF b1] by (simp add: core_def)
    show ?thesis
      unfolding wp_seq on_db_def wp_zoom
    proof (rule wp_reset_paper_state, rule wp_refresh)
      fix s' m
      assume rows: "bo_orders (books_of s') = []" "bo_fills (books_of s') = []" "bo_positions (books_of s') = []"
        and new: "season_settings (books_of s') False 0" "map_of (bo_settings (books_of s')) ''season_id'' = Some JNull"
          "map_of (bo_settings (books_of s')) ''quote_currency'' = map_of (bo_settings ?v) ''quote_currency''"
      have t: "tidy cx b2" if "books_in b2 = books_of s'" "bk_positions b2 = []" "bk_pending b2 = []" "bk_traded_mints b2 = []"
        "\<not> bk_initialized b2" "bk_quote_currency b2 = bk_quote_currency b1" "bk_starting_lamports b2 = 0" "bk_season_id b2 = None" for b2
      proof (rule tidy_empty)
        show "settings_match (bo_settings (books_in b2)) b2"
          using match new by (simp add: settings_match_def that season_settings_def setting_num_def del: books_of_sel)
      qed (use that rows in \<open>simp_all del: books_of_sel\<close>)
      show "wp clear ?T ?E (b1\<lparr> bk_store := s', bk_notified := m \<rparr>)"
        unfolding clear_def wp_modify by (rule t) simp_all
    qed simp
  qed
  show "wp (reset cx) ?T ?E b"
    unfolding reset_def clear_def [symmetric] wp_bnd [of "gets bk_initialized"] wp_gets
      wp_bnd [of "if bk_initialized b then _ else _"] wp_bnd [of "on_db (wall_now (cx_env cx))"] 
    by (auto simp: wp_simps simp del: books_of_sel intro!: wp_calm_upholds [OF calm_reads(5)] wp_calm_upholds [OF calm_reads(6)]
       wp_calm_upholds [OF calm_wall_now] main [unfolded wp_seq [of "on_db m" for m]] b)
qed

lemma rollover_upholds:
  "upholds (orderly cx) (\<lambda>_ _. True) (rollover cx now profile currency starting reason running cmp ds)"
proof (rule upholds_sound [OF keeps_rollover])
  fix b
  assume b: "orderly cx b"
  let ?T = "\<lambda>_. tidy cx" and ?E = "\<lambda>_ _. True"
  define clear where "clear c n sid pr = modify (\<lambda>b. b\<lparr> bk_positions := [], bk_pending := [], bk_traded_mints := [],
      bk_quote_currency := c, bk_quote_decimals := decimals_of c, bk_starting_lamports := n,
      bk_season_id := Some sid, bk_season_profile := pr, bk_last_equity_at := Some now \<rparr> :: broker)" for c n sid pr
  have main: "wp (on_db (rollover_paper_state sm sid n c now pr reason running us cmp'))
      (\<lambda>_. wp (seq (refresh_unresolved_evidence us) (seq (clear c n sid pr) (ret x))) ?T ?E) ?E b1"
    if init: "bk_initialized b1" and sid: "sid \<noteq> []" for b1 sm sid n c pr us cmp' and x :: "string \<times> string"
    unfolding wp_seq wp_ret_fun on_db_def wp_zoom
  proof (rule wp_rollover_paper_state, rule wp_refresh)
    fix s' m
    assume rows: "bo_orders (books_of s') = []" "bo_fills (books_of s') = []" "bo_positions (books_of s') = []"
      and new: "season_settings (books_of s') True n" "season_identity (books_of s') c sid"
    have t: "tidy cx b2" if "books_in b2 = books_of s'" "bk_positions b2 = []" "bk_pending b2 = []" "bk_traded_mints b2 = []"
      "bk_initialized b2" "bk_quote_currency b2 = c" "bk_starting_lamports b2 = n" "bk_season_id b2 = Some sid" for b2
    proof (rule tidy_empty)
      show "settings_match (bo_settings (books_in b2)) b2"
        using new that sid by (intro match_opened) (simp_all add: season_settings_def season_identity_def del: books_of_sel)
    qed (use that rows in \<open>simp_all del: books_of_sel\<close>)
    show "wp (clear c n sid pr) ?T ?E (b1\<lparr> bk_store := s', bk_notified := m \<rparr>)"
      unfolding clear_def wp_modify by (rule t) (simp_all add: init)
  qed simp
  have init: "same b0 b' \<Longrightarrow> bk_initialized b' = bk_initialized b0" for b0 b' by (simp add: same_def Let_def)
  show "wp (rollover cx now profile currency starting reason running cmp ds) ?T ?E b"
    unfolding rollover_def Let_def clear_def [symmetric]
    by (auto simp: wp_bnd wp_gets wp_seq [of "guard c e" for c e] wp_guard wp_lift wp_seq [of "on_db m" for m]
          simp del: books_of_sel split: sum.split
          intro!: wp_calm [OF calm_fresh_uuid] wp_calm [OF calm_reads(5)] wp_calm [OF calm_reads(6)] main
          dest!: init)
qed

section \<open>Restart\<close>

text \<open>What a restart gives back: positions, pending orders and bought mints up to their order in
  the dictionary, and the season's settings.\<close>

definition recovered :: "broker \<Rightarrow> broker \<Rightarrow> bool" where
  "recovered b b' \<longleftrightarrow>
     map_of (bk_positions b') = map_of (bk_positions b) \<and> map_of (bk_pending b') = map_of (bk_pending b) \<and>
     set (bk_traded_mints b') = set (bk_traded_mints b) \<and> bk_initialized b' = bk_initialized b \<and>
     bk_quote_currency b' = bk_quote_currency b \<and> bk_starting_lamports b' = bk_starting_lamports b \<and>
     bk_season_id b' = bk_season_id b"

lemma fold_update_values:
  assumes "distinct (map key xs)"
  shows "fold (\<lambda>x d. AList.update (key x) x d) xs [] = map (\<lambda>x. (key x, x)) xs"
  using fold_update_distinct [OF assms, of "[]"] by simp

lemma map_of_keyed:
  assumes "distinct (map key xs)"
  shows "map_of (map (\<lambda>x. (key x, x)) xs) i = Some x \<longleftrightarrow> x \<in> set xs \<and> key x = i"
  using assms by (subst map_of_eq_Some_iff) (auto simp: comp_def)

lemma map_of_eqI: "(\<And>i x. map_of d i = Some x \<longleftrightarrow> map_of d' i = Some x) \<Longrightarrow> map_of d = map_of d'"
  by (rule ext) (metis not_Some_eq)

lemma dict_by_value:
  assumes "dict_ok d" and "\<forall>(k, v) \<in> set d. key v = k"
  shows "map_of d i = Some x \<longleftrightarrow> x \<in> snd ` set d \<and> key x = i"
  using assms by (force simp: map_of_eq_Some_iff)

lemma distinct_list_positions:
  assumes "books_sound b" and "bo_positions (books_in b) = tb_positions t"
  shows "distinct (map ps_mint (list_positions t))"
proof -
  have "distinct (map (ps_mint \<circ> snd) (tb_positions t))"
    using rows_distinct_mints [of "books_in b" "bk_positions b"] assms by (simp add: books_sound_def account_view_of_def)
  moreover have "mset (map ps_mint (list_positions t)) = mset (map (ps_mint \<circ> snd) (tb_positions t))"
    by (simp add: list_positions_def image_mset.compositionality comp_def)
  ultimately show ?thesis by (metis mset_eq_imp_distinct_iff)
qed

lemma positions_recovered:
  assumes b: "orderly cx b" and t: "bo_positions (books_in b) = tb_positions t"
  shows "map_of (fold (\<lambda>p d. AList.update (ps_mint p) p d) (list_positions t) []) = map_of (bk_positions b)"
proof (rule map_of_eqI)
  fix i x
  note d = distinct_list_positions [OF orderlyD(1) [OF b] t] and k = sound_keys [OF orderlyD(1) [OF b]]
  have "snd ` set (bk_positions b) = set (list_positions t)"
    using orderlyD(2) [OF b] unfolding core_def positions_ok_def t by (simp add: list_positions_def)
  then show "map_of (fold (\<lambda>p d. AList.update (ps_mint p) p d) (list_positions t) []) i = Some x
      \<longleftrightarrow> map_of (bk_positions b) i = Some x"
    unfolding fold_update_values [OF d] map_of_keyed [OF d] dict_by_value [OF k(1,2)] by simp
qed

lemma pending_recovered:
  assumes b: "orderly cx b" and t: "bo_orders (books_in b) = tb_orders t"
  shows "map_of (fold (\<lambda>q d. AList.update (po_order_id q) q d) (list_orders t Pending) []) = map_of (bk_pending b)"
    and "distinct (map po_order_id (list_orders t Pending))"
proof -
  note o = orderlyD [OF b]
  have dict: "dict_ok (tb_orders t)" and ids: "\<forall>(i, q) \<in> set (tb_orders t). po_order_id q = i"
    using o(4) unfolding t orders_ok_def by auto
  have "map po_order_id (values_of (tb_orders t)) = map fst (tb_orders t)" using ids by auto
  then have "distinct (map po_order_id (values_of (tb_orders t)))" using dict by argo
  then have "distinct (map po_order_id (filter (\<lambda>q. po_status q = Pending) (values_of (tb_orders t))))"
    by (rule distinct_map_filter)
  moreover have "mset (map po_order_id (list_orders t Pending)) =
      mset (map po_order_id (filter (\<lambda>q. po_status q = Pending) (values_of (tb_orders t))))"
    by (simp add: list_orders_def)
  ultimately show d: "distinct (map po_order_id (list_orders t Pending))" by (metis mset_eq_imp_distinct_iff)
  show "map_of (fold (\<lambda>q d. AList.update (po_order_id q) q d) (list_orders t Pending) []) = map_of (bk_pending b)"
  proof (rule map_of_eqI)
    fix i x
    have "map_of (bk_pending b) i = order_row (tb_orders t) i" using o(3) unfolding t pending_ok_def by blast
    then have "map_of (bk_pending b) i = Some x \<longleftrightarrow> map_of (tb_orders t) i = Some x \<and> po_status x = Pending"
      by (auto simp: order_row_def split: option.split)
    also have "\<dots> \<longleftrightarrow> x \<in> set (list_orders t Pending) \<and> po_order_id x = i"
      unfolding dict_by_value [OF dict ids] by (auto simp: list_orders_def)
    finally show "map_of (fold (\<lambda>q d. AList.update (po_order_id q) q d) (list_orders t Pending) []) i = Some x
        \<longleftrightarrow> map_of (bk_pending b) i = Some x"
      unfolding fold_update_values [OF d] map_of_keyed [OF d] by simp
  qed
qed

lemma dict_same:
  assumes "dict_ok d" and "dict_ok d'" and "map_of d' = map_of d"
  shows "set d' = set d" and "mset d' = mset d"
proof -
  show s: "set d' = set d" using map_of_inject_set [OF assms(2,1)] assms(3) by simp
  show "mset d' = mset d"
    using s assms(1,2) by (subst set_eq_iff_mset_eq_distinct [symmetric]) (simp_all add: distinct_map)
qed

lemma tidy_recovered:
  assumes b: "orderly cx b" and r: "recovered b b'" and v: "books_in b' = books_in b"
    and dicts: "dict_ok (bk_positions b')" "dict_ok (bk_pending b')"
  shows "tidy cx b'"
proof -
  note o = orderlyD [OF b]
  have pos: "set (bk_positions b') = set (bk_positions b)"
    using dict_same(1) [OF sound_keys(1) [OF o(1)] dicts(1)] r by (simp add: recovered_def)
  have "dict_ok (bk_pending b)" using o(3) by (simp add: pending_ok_def)
  note pend = dict_same [OF this dicts(2)]
  have gate: "gate_open b' q = gate_open b q" for q using r by (simp add: gate_open_def pos recovered_def)
  have "positions_ok rows fills (bk_positions b') = positions_ok rows fills (bk_positions b)" for rows fills
    by (simp add: positions_ok_def pos)
  then have "core cx (books_in b') b'"
    using o(2) r settings_match_cong [of "bo_settings (books_in b)" "bo_settings (books_in b)" b' b]
    by (simp add: core_def v recovered_def del: books_of_sel)
  moreover have "mset (map (po_mint \<circ> snd) (bk_pending b')) = mset (map (po_mint \<circ> snd) (bk_pending b))"
    using pend(2) r unfolding recovered_def mset_map by simp
  then have "distinct (map (po_mint \<circ> snd) (bk_pending b')) = distinct (map (po_mint \<circ> snd) (bk_pending b))"
    by (rule mset_eq_imp_distinct_iff)
  then have "pending_ok (bo_orders (books_in b')) b'"
    using o(3) r pend(1) by (simp add: pending_ok_def v gate dicts(2) recovered_def del: books_of_sel)
  ultimately show ?thesis by (simp add: tidy_def)
qed

text \<open>What the constructor reads first: the settings as memory had them, and the season as it is.\<close>

lemma load_reads:
  assumes "orderly cx b"
  shows "json_truthy (get_setting (tables_of b) ''portfolio_initialized'' (JBool False)) = bk_initialized b"
    and "currency_of_json (get_setting (tables_of b) ''quote_currency'' (JStr ''SOL'')) = Inr (bk_quote_currency b)"
    and "setting_int (tables_of b) ''starting_lamports'' 0 = Inr (bk_starting_lamports b)"
    and "wp (load_season_id cx (bk_initialized b)) Q E (bk_store b) \<longleftrightarrow> Q (bk_season_id b) (bk_store b)"
proof -
  have match: "settings_match (bo_settings (books_in b)) b" using orderlyD(2) [OF assms] by (simp add: core_def)
  then show "json_truthy (get_setting (tables_of b) ''portfolio_initialized'' (JBool False)) = bk_initialized b"
    and "currency_of_json (get_setting (tables_of b) ''quote_currency'' (JStr ''SOL'')) = Inr (bk_quote_currency b)"
    and "setting_int (tables_of b) ''starting_lamports'' 0 = Inr (bk_starting_lamports b)"
    by (auto simp: settings_match_def get_setting_def setting_int_num split: option.splits)
  have sid: "(if json_truthy (get_setting (tables_of b) ''season_id'' JNull)
        then Some (json_string (get_setting (tables_of b) ''season_id'' JNull)) else None) = bk_season_id b"
    and known: "bk_initialized b \<longrightarrow> present (bk_season_id b)"
    using match by (auto simp: settings_match_def get_setting_def split: option.splits)
  have known': "\<not> (bk_initialized b \<and> \<not> json_truthy (get_setting (tables_of b) ''season_id'' JNull))"
    using known sid by (auto simp: present_def split: if_splits)
  have "load_season_id cx (bk_initialized b) (bk_store b) = (Inr (bk_season_id b), bk_store b)"
    unfolding load_season_id_def of_tables_def bnd_run if_not_P [OF known'] act_run sid ..
  then show "wp (load_season_id cx (bk_initialized b)) Q E (bk_store b) \<longleftrightarrow> Q (bk_season_id b) (bk_store b)"
    by (simp add: wp_def)
qed

text \<open>The rebuild after the settings were read.\<close>

lemma wp_load_recovers:
  assumes b: "orderly cx b"
  shows "wp (load cx) (\<lambda>b' s. s = bk_store b' \<and> books_in b' = books_in b \<and> recovered b b' \<and> tidy cx b')
           (\<lambda>_ _. True) (bk_store b)"
proof -
  let ?Q = "\<lambda>b' s. s = bk_store b' \<and> books_in b' = books_in b \<and> recovered b b' \<and> tidy cx b'"
    and ?E = "\<lambda>(_ :: exc) (_ :: store). True"
  let ?v = "books_in b"
  note o = orderlyD [OF b]
  have traded: "set (bk_traded_mints b) = set (bought (bo_fills ?v))" using o(2) by (simp add: core_def)
  define final where "final profile s = (let t = st_tables s in
        \<lparr> bk_store = s, bk_initialized = bk_initialized b, bk_quote_currency = bk_quote_currency b,
          bk_quote_decimals = decimals_of (bk_quote_currency b), bk_starting_lamports = bk_starting_lamports b,
          bk_season_id = bk_season_id b, bk_season_profile = profile,
          bk_positions = fold (\<lambda>p d. AList.update (ps_mint p) p d) (list_positions t) [],
          bk_pending = fold (\<lambda>order d. AList.update (po_order_id order) order d) (list_orders t Pending) [],
          bk_traded_mints = bought_mints t, bk_last_equity_at = None, bk_last_diagnostic = None,
          bk_notified = [] \<rparr>)" for profile s
  have fin: "?Q (final profile s) s" if v: "books_of s = ?v" for profile s
  proof -
    let ?t = "st_tables s"
    have eqs: "bo_positions ?v = tb_positions ?t" "bo_orders ?v = tb_orders ?t" "bo_fills ?v = tb_fills ?t"
      unfolding v [symmetric] by simp_all
    note dp = distinct_list_positions [OF o(1) eqs(1)] and dq = pending_recovered [OF b eqs(2)]
    have r: "recovered b (final profile s)"
      using traded positions_recovered [OF b eqs(1)] dq(1)
        eqs(3) by (simp add: recovered_def final_def Let_def bought_mints_def bought_def)
    have store: "bk_store (final profile s) = s" by (simp add: final_def Let_def)
    have "tidy cx (final profile s)"
      by (rule tidy_recovered [OF b r])
         (simp_all add: v store, simp_all add: final_def Let_def fold_update_values [OF dp] fold_update_values [OF dq(2)] comp_def dp dq(2))
    then show ?thesis using v r store by simp
  qed
  have "wp (seq (when_do c (ensure_current_season env x n cu))
      (bnd (of_tables h) (\<lambda>stored. bnd (load_profile cx y stored) (\<lambda>profile. gets (final profile))))) ?Q ?E (bk_store b)"
    for c env x n cu h y
    unfolding wp_seq
  proof (rule wp_off_books)
    show "off_books (when_do c (ensure_current_season env x n cu))" by (intro off_books_rules off_books_season_rows)
    fix u :: unit and s1
    assume s1: "books_of s1 = ?v"
    show "wp (bnd (of_tables h) (\<lambda>stored. bnd (load_profile cx y stored) (\<lambda>profile. gets (final profile)))) ?Q ?E s1"
      unfolding wp_bnd wp_of_tables
      by (rule wp_off_books [OF off_books_load_profile], unfold wp_gets, rule fin) (simp_all add: s1)
  qed simp
  note rest = this [unfolded final_def Let_def]
  show ?thesis
    unfolding load_def Let_def wp_bnd [of "of_tables id"] wp_of_tables wp_bnd [of "lift r" for r] wp_lift id_apply
      load_reads(1-3) [OF b] sum.case wp_bnd [of "load_season_id c i" for c i] load_reads(4) [OF b]
    by (rule rest)
qed

section \<open>Returning runs\<close>

lemma upholds_call:
  assumes "upholds (orderly cx) (\<lambda>_ _. True) m" and "m b = (r, b')" and "\<not> isl r" and "orderly cx b"
  shows "orderly cx b'"
proof -
  obtain x where "r = Inr x" using assms(3) by (cases r) simp_all
  then show ?thesis
    using wp_InrD [OF upholdsD [OF assms(1,4)]] assms(2) by blast
qed

lemmas upholding_operations =
  submit_upholds calm_reads [THEN calm_orderly] market_upholds tidy_cancels exits_upholds
  calm_snapshot [THEN calm_orderly] initialize_upholds reconfigure_upholds reset_upholds rollover_upholds

lemma call_orderly:
  assumes "uuids_differ cx"
  shows "broker_call cx returned b b' \<Longrightarrow> returned \<Longrightarrow> orderly cx b \<Longrightarrow> orderly cx b'"
proof (induction rule: broker_call.induct)
  case (restart b b' s)
  then have "tidy cx b'" using wp_InrD [OF wp_load_recovers] by blast
  moreover have "books_sound b'" using restart wp_InrD [OF wp_load [OF orderlyD(1)]] by blast
  ultimately show ?case by (simp add: tidy_def orderly_def filed_def)
qed (rule upholds_call, rule upholding_operations, (rule assms)?, assumption+)+

interpretation returning_run: guarded_machine "broker_call cx True" "\<lambda>b. uuids_differ cx \<longrightarrow> orderly cx b" for cx
  by unfold_locales (blast intro: call_orderly)

lemma new_orderly: "orderly cx new_broker"
proof -
  have "settings_match (bo_settings (books_in new_broker)) new_broker"
    by (simp add: settings_match_def new_broker_def empty_store_def empty_tables_def currency_of_json_def setting_num_def)
  then have "tidy cx new_broker"
    by (intro tidy_empty) (simp_all add: new_broker_def empty_store_def empty_tables_def)
  then show ?thesis using new_books_sound by (simp add: tidy_def orderly_def filed_def)
qed

lemma run_orderly:
  assumes "load cx empty_store = (Inr b0, s0)" and "uuids_differ cx" and "(broker_call cx True)\<^sup>*\<^sup>* b0 b"
  shows "orderly cx b"
  using returning_run.run_inv [OF assms(3)] assms(1,2) new_orderly by (simp add: load_empty)

lemma one_buy:
  assumes "distinct (bought fills)" and "e \<in> set fills" and "fr_side e = Buy" and "fr_mint e = m"
  shows "filter (\<lambda>f. fr_mint f = m \<and> fr_side f = Buy) fills = [e]"
  using assms
proof (induction fills)
  case (Cons f fs)
  show ?case
  proof (cases "f = e")
    case True
    then have "m \<notin> set (bought fs)" using Cons.prems by (simp add: bought_def)
    then have "filter (\<lambda>f. fr_mint f = m \<and> fr_side f = Buy) fs = []"
      by (auto simp: filter_empty_conv bought_def)
    then show ?thesis using True Cons.prems by simp
  next
    case False
    then have e: "e \<in> set fs" using Cons.prems by simp
    then have "m \<in> set (bought fs)" using Cons.prems by (auto simp: bought_def)
    then have "\<not> (fr_mint f = m \<and> fr_side f = Buy)" using Cons.prems(1) by (auto simp: bought_def)
    moreover have "distinct (bought fs)" using Cons.prems(1) by (simp add: bought_def split: if_splits)
    ultimately show ?thesis using Cons.IH e Cons.prems(3,4) by simp
  qed
qed simp

lemma clean_reason:
  assumes ok: "fills_ok (tb_orders t) (tb_fills t)" and f: "f \<in> set (tb_fills t)"
  shows "fill_chronology_reason f (map_of (tb_orders t) (fr_order_id f)) (first_buy t (fr_mint f)) = None"
proof -
  have c: "fill_clean (tb_orders t) (tb_fills t) f" and d: "distinct (bought (tb_fills t))"
    using ok f by (auto simp: fills_ok_def)
  have entry: "first_buy t (fr_mint f) = Some e" if "e \<in> set (tb_fills t)" "fr_side e = Buy" "fr_mint e = fr_mint f" for e
    by (simp add: first_buy_def one_buy [OF d that])
  obtain q where q: "map_of (tb_orders t) (fr_order_id f) = Some q" "po_mint q = fr_mint f" "po_side q = fr_side f"
      "po_status q = Filled" "po_created_at q \<le> po_fill_after q" "po_filled_at q = Some (fr_filled_at f)"
      "po_created_at q \<le> fr_filled_at f" "po_fill_after q \<le> fr_filled_at f"
    using c unfolding fill_clean_def by blast
  have reserve: "\<not> (case fr_reserve_snapshot f of None \<Rightarrow> False | Some r \<Rightarrow> fr_filled_at f < rs_observed_at r)"
    "\<not> (case fr_reserve_snapshot f of None \<Rightarrow> False | Some r \<Rightarrow> rs_venue r \<noteq> fr_venue f)"
    using c by (auto simp: fill_clean_def split: option.splits)
  have sell: "\<exists>e. first_buy t (fr_mint f) = Some e \<and> fr_position_opened_at f = Some (fr_filled_at e) \<and> fr_filled_at e \<le> fr_filled_at f"
    if "fr_side f = Sell" using c that entry unfolding fill_clean_def by blast
  show ?thesis
  proof (cases "fr_side f = Sell")
    case True
    then obtain e where "first_buy t (fr_mint f) = Some e" "fr_position_opened_at f = Some (fr_filled_at e)"
        "fr_filled_at e \<le> fr_filled_at f" using sell by blast
    then show ?thesis using q reserve True by (simp add: fill_chronology_reason_def not_less)
  qed (use q reserve in \<open>simp add: fill_chronology_reason_def not_less\<close>)
qed

text \<open>The outside world of the concrete instances draws different identifiers.\<close>

lemma sample_uuids: "uuids_differ sample_ctx"
  by (simp add: sample_ctx_def inj_def)

lemma sample_run:
  "(broker_call sample_ctx True)\<^sup>*\<^sup>* new_broker (snd (initialize sample_ctx SOL 1000000000 None new_broker))"
proof -
  have "broker_call sample_ctx (\<not> isl (fst (initialize sample_ctx SOL 1000000000 None new_broker))) new_broker
      (snd (initialize sample_ctx SOL 1000000000 None new_broker))"
    by (rule broker_call.initialize, rule surjective_pairing)
  then show ?thesis by (simp add: sample_initialize)
qed

text \<open>A restart returns when the season is on record and its profile needs no upgrade.\<close>

definition restartable :: "broker \<Rightarrow> bool" where
  "restartable b \<longleftrightarrow>
     (bk_initialized b \<longrightarrow> text_of (bk_season_id b) \<in> set (map fst (tb_seasons (tables_of b))) \<and>
       (case current_profile (tables_of b) of None \<Rightarrow> True
        | Some p \<Rightarrow> sp_locked_at p \<noteq> None \<or> sp_baseline_version p = BASELINE_VERSION))"

lemma load_returns:
  assumes b: "orderly cx b" and r: "restartable b"
  shows "\<exists>b'. load cx (bk_store b) = (Inr b', bk_store b)"
proof -
  have "wp (load cx) (\<lambda>_ s. s = bk_store b) (\<lambda>_ _. False) (bk_store b)"
    unfolding load_def Let_def wp_bnd [of "of_tables id"] wp_of_tables wp_bnd [of "lift r" for r] wp_lift id_apply
      load_reads(1-3) [OF b] sum.case wp_bnd [of "load_season_id c i" for c i] load_reads(4) [OF b]
    using r by (auto simp: wp_simps restartable_def text_of_def ensure_current_season_def db_txn_def load_profile_def
        split: option.splits)
  then show ?thesis by (auto simp: wp_def split: prod.splits sum.splits)
qed

lemma sample_recorded:
  "restartable (snd (initialize sample_ctx SOL 1000000000 None new_broker))"
proof -
  have "wp (initialize sample_ctx SOL 1000000000 None) (\<lambda>_. restartable) (\<lambda>_ _. False) new_broker"
    by (simp add: initialize_def wp_simps on_db_def fresh_uuid_def initialize_portfolio_def db_txn_def
        insert_current_season_def insert_equity_point_def new_broker_def empty_store_def empty_tables_def
        get_setting_def bankroll_rows_def row_defs current_season_row_def upsert_settings_def Let_def
        restartable_def current_profile_def new_season_row_def text_of_def sample_ctx_def)
  then show ?thesis by (auto simp: wp_def split: prod.splits sum.splits)
qed

section \<open>Properties\<close>

text \<open>C7: Along every run of the broker's public operations from a new database in which the calls
  return, restarts included, no mint is bought twice in a season, no mint has two pending
  orders, a pending buy is for a mint that was neither bought nor is held, and a pending sell is
  for a held position. \<open>uuid4\<close> is assumed not to repeat.\<close>

theorem orders_stay_exclusive:
  assumes "load cx empty_store = (Inr b0, s0)" and "inj (en_uuid (cx_env cx))" and "(broker_call cx True)\<^sup>*\<^sup>* b0 b"
  shows "distinct (map fr_mint (filter (\<lambda>f. fr_side f = Buy) (tb_fills (tables_of b)))) \<and>
    distinct (map (po_mint \<circ> snd) (bk_pending b)) \<and>
    (\<forall>q \<in> set (values_of (bk_pending b)).
       if po_side q = Buy
       then po_mint q \<notin> set (bk_traded_mints b) \<and> map_of (bk_positions b) (po_mint q) = None
       else map_of (bk_positions b) (po_mint q) \<noteq> None) \<and>
    set (bk_traded_mints b) = fr_mint ` {f \<in> set (tb_fills (tables_of b)). fr_side f = Buy}"
proof -
  note o = orderlyD [OF run_orderly [OF assms]]
  show ?thesis
    using o(2,3) by (auto simp: core_def fills_ok_def bought_def pending_ok_def gate_open_def map_of_eq_None_iff)
qed

theorem orders_stay_exclusive_witness:
  "distinct (map (po_mint \<circ> snd) (bk_pending (snd (initialize sample_ctx SOL 1000000000 None new_broker))))"
  using orders_stay_exclusive [OF load_empty sample_uuids sample_run] by blast

text \<open>C8: Along every returning run from a new database the season's fills pass the audit of their
  chronology: every fill has its own filled order, does not predate it or its latency, uses no
  reserves from the future, and every sale has its entry.\<close>

theorem fills_pass_chronology:
  assumes "load cx empty_store = (Inr b0, s0)" and "inj (en_uuid (cx_env cx))" and "(broker_call cx True)\<^sup>*\<^sup>* b0 b"
  shows "chronology_issues (tables_of b) None = []"
proof -
  have "fills_ok (tb_orders (tables_of b)) (tb_fills (tables_of b))"
    using orderlyD(2) [OF run_orderly [OF assms]] by (simp add: core_def)
  then show ?thesis
    by (auto simp: chronology_issues_def issue_list_def iter_fill_contexts_def Let_def clean_reason)
qed

theorem fills_pass_chronology_witness:
  "chronology_issues (tables_of (snd (initialize sample_ctx SOL 1000000000 None new_broker))) None = []"
  by (rule fills_pass_chronology [OF load_empty sample_uuids sample_run])

text \<open>C5: Crash recovery is a round trip: after any returning run from a new database, if the season is
  on record and its profile needs no upgrade, the constructor returns from the stored database
  without writing to it, and rebuilds the same positions by mint, the same pending orders, the
  same bought mints and the same season settings that memory held.\<close>

theorem restart_recovers_memory:
  assumes "load cx empty_store = (Inr b0, s0)" and "inj (en_uuid (cx_env cx))" and "(broker_call cx True)\<^sup>*\<^sup>* b0 b"
    and "restartable b"
  shows "\<exists>b'. load cx (bk_store b) = (Inr b', bk_store b) \<and> bk_store b' = bk_store b \<and>
    map_of (bk_positions b') = map_of (bk_positions b) \<and> map_of (bk_pending b') = map_of (bk_pending b) \<and>
    set (bk_traded_mints b') = set (bk_traded_mints b) \<and> bk_initialized b' = bk_initialized b \<and>
    bk_quote_currency b' = bk_quote_currency b \<and> bk_starting_lamports b' = bk_starting_lamports b \<and>
    bk_season_id b' = bk_season_id b"
proof -
  note b = run_orderly [OF assms(1-3)]
  obtain b' where l: "load cx (bk_store b) = (Inr b', bk_store b)" using load_returns [OF b assms(4)] by blast
  then have "bk_store b = bk_store b'" "recovered b b'" using wp_InrD [OF wp_load_recovers [OF b] l] by simp_all
  then show ?thesis using l by (auto simp: recovered_def)
qed

theorem restart_recovers_memory_witness:
  "\<exists>b'. load sample_ctx (bk_store (snd (initialize sample_ctx SOL 1000000000 None new_broker))) =
     (Inr b', bk_store (snd (initialize sample_ctx SOL 1000000000 None new_broker))) \<and>
     map_of (bk_positions b') = map_of (bk_positions (snd (initialize sample_ctx SOL 1000000000 None new_broker)))"
  using restart_recovers_memory [OF load_empty sample_uuids sample_run sample_recorded] by blast

end
