(* ===== verification/Broker_Laws.thy ===== *)
theory Broker_Laws
  imports Broker_Recovery
begin

text \<open>
  What single operations of the paper broker promise: the snapshot's ranges and its stored peak,
  the cancelling and expiry of pending orders, the failure of a settlement, and the price of a
  round trip through curve, fees and account currency together.
\<close>

section \<open>Snapshots\<close>

lemma drawdown_range: "0 \<le> drawdown_of peak equity \<and> drawdown_of peak equity \<le> 1"
  by (simp add: drawdown_of_def)

lemma setting_int_books:
  "setting_int (st_tables s) key dflt =
     (case json_int (case map_of (bo_settings (books_of s)) key of None \<Rightarrow> JInt dflt | Some v \<Rightarrow> v) of
        None \<Rightarrow> Inl TypeError | Some n \<Rightarrow> Inr n)"
  by (simp add: setting_int_def get_setting_def)

definition peak_stored :: "broker \<Rightarrow> int \<Rightarrow> bool" where
  "peak_stored b peak \<longleftrightarrow> setting_int (tables_of b) ''peak_equity_lamports'' (bk_starting_lamports b) = Inr peak"

lemma wp_previous_peak:
  "wp (previous_peak cx persist equity) (\<lambda>prev b'. bk_positions b' = bk_positions b \<and> (persist \<longrightarrow> peak_stored b' prev))
     (\<lambda>_ _. True) b"
proof -
  have "wp (set_setting env ''peak_equity_lamports'' (JInt n))
      (\<lambda>_. wp (set_setting env ''equity_peak_basis'' v) (\<lambda>_ s'. setting_int (st_tables s') ''peak_equity_lamports'' d = Inr n) (\<lambda>_ _. True))
      (\<lambda>_ _. True) s" for env n v d s
    by (rule wp_set_setting, rule wp_set_setting) (simp add: setting_int_books update_conv' del: books_of_sel)
  then show ?thesis
    by (auto simp: previous_peak_def wp_simps on_db_def Let_def peak_stored_def split: sum.split)
qed

lemma calm_peak: "calm (previous_peak cx persist equity)"
  unfolding previous_peak_def on_db_seq by (intro calm_rules calm_set_setting) (simp_all add: season_keys_def)

lemma wp_wall_on: "wp (on_db (wall_now env)) Q E b \<longleftrightarrow>
    Q (en_wall env (st_clock (bk_store b))) (b\<lparr> bk_store := bk_store b\<lparr> st_clock := st_clock (bk_store b) + 1 \<rparr> \<rparr>)"
  by (simp add: on_db_def wp_zoom wp_wall_now)

lemma wp_snapshot:
  "wp (snapshot cx mode persist) (\<lambda>p b'. \<exists>now s1 peak realized.
       p = portfolio_of cx mode now (b\<lparr> bk_store := s1 \<rparr>) peak realized \<and>
       executable_equity cx now (b\<lparr> bk_store := s1 \<rparr>) \<le> peak \<and> portfolio_fields_ok p \<and> (persist \<longrightarrow> peak_stored b' peak))
     (\<lambda>_ _. True) b"
proof -
  let ?Q = "\<lambda>p b'. \<exists>now s1 peak realized. p = portfolio_of cx mode now (b\<lparr> bk_store := s1 \<rparr>) peak realized \<and>
       executable_equity cx now (b\<lparr> bk_store := s1 \<rparr>) \<le> peak \<and> portfolio_fields_ok p \<and> (persist \<longrightarrow> peak_stored b' peak)"
  have last: "wp (bnd (gets (\<lambda>b. setting_int (tables_of b) ''realized_pnl_lamports'' 0)) (\<lambda>r. bnd (lift r) (\<lambda>realized.
      let portfolio = portfolio_of cx mode now (b\<lparr> bk_store := s1 \<rparr>) peak realized in
      seq (guard (portfolio_fields_ok portfolio) e) (ret portfolio)))) ?Q (\<lambda>_ _. True) b2"
    if "executable_equity cx now (b\<lparr> bk_store := s1 \<rparr>) \<le> peak" "persist \<longrightarrow> peak_stored b2 peak" for now peak b2 e s1
    using that by (auto simp: wp_simps Let_def split: sum.split)
  have raised: "wp (when_do (persist \<and> prev < max prev equity)
        (on_db (set_setting env ''peak_equity_lamports'' (JInt (max prev equity)))))
      (\<lambda>_. Q) (\<lambda>_ _. True) b2"
    if "persist \<longrightarrow> peak_stored b2 prev" "\<And>b'. persist \<longrightarrow> peak_stored b' (max prev equity) \<Longrightarrow> Q b'" for prev equity env b2 Q
  proof (cases "persist \<and> prev < equity")
    case True
    then show ?thesis
      by (simp add: wp_when_do on_db_def wp_zoom)
         (rule wp_set_setting, rule that(2), simp add: peak_stored_def setting_int_books update_conv' del: books_of_sel)
  next
    case False
    then show ?thesis using that by (auto simp: wp_when_do max_def)
  qed
  show ?thesis
    unfolding snapshot_def Let_def wp_bnd [of "on_db m" for m] wp_bnd [of "gets id"] wp_wall_on wp_gets [of id] id_apply wp_bnd [of "previous_peak c p e" for c p e] wp_seq [of "when_do c m" for c m]
    by (rule wp_mono [OF wp_previous_peak], elim conjE, rule raised, assumption, rule last [unfolded Let_def]) simp_all
qed

lemma limit_store: "drawdown_limit_fraction (b\<lparr> bk_store := s1 \<rparr>) mode = drawdown_limit_fraction b mode"
proof -
  have profile: "bk_season_profile (b\<lparr> bk_store := s1 \<rparr>) = bk_season_profile b" by simp
  show ?thesis unfolding drawdown_limit_fraction_def risk_limits_of_def selected_mode_def profile ..
qed


lemma portfolio_fields:
  assumes "p = portfolio_of cx mode now b peak realized"
  shows "pf_equity_lamports p = executable_equity cx now b" "pf_peak_equity_lamports p = peak"
    "pf_drawdown_fraction p = drawdown_of peak (executable_equity cx now b)"
    "pf_last_known_equity_lamports p = max 0 (pf_cash_lamports p + pf_invested_value_lamports p + pf_excluded_invested_value_lamports p)"
    "pf_equity_lamports p = max 0 (pf_cash_lamports p + pf_invested_value_lamports p)"
    "pf_risk_halted p \<longleftrightarrow> (\<exists>l. drawdown_limit_fraction b mode = Some l \<and> l \<le> pf_drawdown_fraction p)"
  unfolding assms portfolio_of_def Let_def executable_equity_def
  by simp_all (cases "drawdown_limit_fraction b mode", simp_all)


lemma empty_portfolio_ok:
  assumes "bk_positions b = []" and "bk_pending b = []" and "0 \<le> peak"
  shows "portfolio_fields_ok (portfolio_of cx mode now b peak realized)"
  unfolding portfolio_fields_ok_def portfolio_of_def Let_def
  by (simp add: assms observed_positions_def active_positions_def stale_positions_def blocked_positions_def sum_int_def)

lemma sample_snapshot_wp: "wp (snapshot sample_ctx None True) (\<lambda>_ _. True) (\<lambda>_ _. False) new_broker"
    unfolding snapshot_def Let_def previous_peak_def on_db_def wp_simps
    by (auto simp: wp_simps empty_portfolio_ok setting_int_def get_setting_def new_broker_def empty_store_def
        empty_tables_def set_setting_def set_settings_def db_txn_def upsert_settings_def
        simp del: books_of_sel split: sum.split option.split)

lemma sample_snapshot: "\<exists>p b'. snapshot sample_ctx None True new_broker = (Inr p, b')"
  using sample_snapshot_wp by (auto simp: wp_def split: prod.splits sum.splits)


section \<open>Cancelling and expiry\<close>

text \<open>A loop that retires captured orders removes exactly those, and records each as it was changed.\<close>

lemma wp_retire_exact:
  "wp (retire_order q) (\<lambda>_ b'. bk_pending b' = AList.delete (po_order_id q) (bk_pending b) \<and>
      bo_orders (books_in b') = AList.update (po_order_id q) q (bo_orders (books_in b)) \<and>
      bo_ledger (books_in b') = bo_ledger (books_in b) \<and> bk_positions b' = bk_positions b) (\<lambda>_ _. True) b"
  unfolding retire_order_def add_pending_def set_pending_def wp_seq wp_modify on_db_def wp_zoom
  by (intro wp_save_order TrueI) (simp_all add: delete_update_same del: books_of_sel)

definition retired :: "(paper_order \<Rightarrow> paper_order) \<Rightarrow> paper_order list \<Rightarrow> broker \<Rightarrow> broker \<Rightarrow> bool" where
  "retired g qs b b' \<longleftrightarrow>
     (\<forall>i. map_of (bk_pending b') i = (if i \<in> po_order_id ` set qs then None else map_of (bk_pending b) i)) \<and>
     (\<forall>q \<in> set qs. map_of (bo_orders (books_in b')) (po_order_id q) = Some (g q)) \<and>
     (\<forall>i. i \<notin> po_order_id ` set qs \<longrightarrow> map_of (bo_orders (books_in b')) i = map_of (bo_orders (books_in b)) i) \<and>
     bo_ledger (books_in b') = bo_ledger (books_in b) \<and> bk_positions b' = bk_positions b"

lemma wp_retire_loop:
  assumes "\<And>q. po_order_id (g q) = po_order_id q"
  shows "distinct (map po_order_id qs) \<Longrightarrow>
    wp (for_each qs (\<lambda>q. retire_order (g q))) (\<lambda>_. retired g qs b) (\<lambda>_ _. True) b"
proof (induction qs arbitrary: b)
  case Nil
  show ?case by (simp add: wp_ret retired_def)
next
  case (Cons q qs)
  have step: "retired g (q # qs) b b2"
    if b1: "bk_pending b1 = AList.delete (po_order_id (g q)) (bk_pending b)"
        "bo_orders (books_in b1) = AList.update (po_order_id (g q)) (g q) (bo_orders (books_in b))"
        "bo_ledger (books_in b1) = bo_ledger (books_in b)" "bk_positions b1 = bk_positions b"
      and b2: "retired g qs b1 b2" for b1 b2
  proof -
    have q: "po_order_id q \<notin> po_order_id ` set qs" using Cons.prems by simp
    then show ?thesis
      using b2 unfolding retired_def b1 assms by (auto simp: delete_conv' update_conv' simp del: books_of_sel)
  qed
  show ?case
    unfolding for_each.simps wp_seq
    by (rule wp_mono [OF wp_retire_exact]) (use Cons in \<open>auto intro!: wp_mono [OF Cons.IH] step simp del: books_of_sel\<close>)
qed

lemma wp_retire_filtered:
  assumes b: "orderly cx b" and id: "\<And>q. po_order_id (g q) = po_order_id q"
  shows "wp (for_each (filter P (values_of (bk_pending b))) (\<lambda>q. retire_order (g q)))
    (\<lambda>_ b'. (\<forall>i. map_of (bk_pending b') i =
          (case map_of (bk_pending b) i of None \<Rightarrow> None | Some q \<Rightarrow> if P q then None else Some q)) \<and>
        (\<forall>i q. map_of (bk_pending b) i = Some q \<longrightarrow> P q \<longrightarrow> map_of (bo_orders (books_in b')) i = Some (g q)) \<and>
        bo_ledger (books_in b') = bo_ledger (books_in b) \<and> bk_positions b' = bk_positions b)
    (\<lambda>_ _. True) b"
proof (rule wp_mono [OF wp_retire_loop [OF id]])
  let ?qs = "filter P (values_of (bk_pending b))"
  note o = orderlyD [OF b]
  have c: "captured ?qs b" by (rule captured_pending [OF b])
  then show "distinct (map po_order_id ?qs)" by (simp add: captured_def)
  have mem: "q \<in> set ?qs \<and> po_order_id q = i" if "map_of (bk_pending b) i = Some q" "P q" for i q
  proof
    have "q \<in> snd ` set (bk_pending b)" by (rule image_eqI [OF _ map_of_SomeD [OF that(1)]]) simp
    then show "q \<in> set ?qs" using that(2) by simp
    show "po_order_id q = i" by (rule pending_id(1) [OF o(4,3) that(1)])
  qed
  have held: "map_of (bk_pending b) (po_order_id q) = Some q \<and> P q" if "q \<in> set ?qs" for q
    using c that unfolding captured_def by auto
  have ids: "i \<in> po_order_id ` set ?qs \<longleftrightarrow> (\<exists>q. map_of (bk_pending b) i = Some q \<and> P q)" for i
    using mem held unfolding image_iff by blast
  fix b'
  assume r: "retired g ?qs b b'"
  have "map_of (bk_pending b') i = (case map_of (bk_pending b) i of None \<Rightarrow> None | Some q \<Rightarrow> if P q then None else Some q)" for i
    using r ids [of i] unfolding retired_def by (cases "map_of (bk_pending b) i") simp_all
  moreover have "map_of (bo_orders (books_in b')) i = Some (g q)" if "map_of (bk_pending b) i = Some q" "P q" for i q
    using r mem [OF that] unfolding retired_def by blast
  ultimately show "(\<forall>i. map_of (bk_pending b') i =
        (case map_of (bk_pending b) i of None \<Rightarrow> None | Some q \<Rightarrow> if P q then None else Some q)) \<and>
      (\<forall>i q. map_of (bk_pending b) i = Some q \<longrightarrow> P q \<longrightarrow> map_of (bo_orders (books_in b')) i = Some (g q)) \<and>
      bo_ledger (books_in b') = bo_ledger (books_in b) \<and> bk_positions b' = bk_positions b"
    using r unfolding retired_def by blast
qed simp

text \<open>C23: Withdrawing the pending buys cancels exactly them: after any returning run, when
  \<open>cancel_pending_buys\<close> returns, every pending buy has left memory and its row is the same order
  marked as cancelled with the reason and the time, every pending sell is still pending as it was,
  no ledger entry and no position has changed, and the count is the number of buys there were.\<close>

theorem cancel_buys_cancels_exactly_buys:
  assumes "load cx empty_store = (Inr b0, s0)" and "inj (en_uuid (cx_env cx))" and "(broker_call cx True)\<^sup>*\<^sup>* b0 b"
    and "cancel_pending_buys now reason b = (Inr n, b')"
  shows "(\<forall>i. map_of (bk_pending b') i =
        (case map_of (bk_pending b) i of None \<Rightarrow> None | Some q \<Rightarrow> if po_side q = Buy then None else Some q)) \<and>
      (\<forall>i q. map_of (bk_pending b) i = Some q \<longrightarrow> po_side q = Buy \<longrightarrow>
         map_of (tb_orders (tables_of b')) i = Some (q\<lparr> po_status := Cancelled, po_failure_reason := Some reason,
                                                        po_filled_at := Some now \<rparr>)) \<and>
      tb_ledger (tables_of b') = tb_ledger (tables_of b) \<and> bk_positions b' = bk_positions b \<and>
      n = int (length (filter (\<lambda>q. po_side q = Buy) (values_of (bk_pending b))))"
proof -
  let ?g = "\<lambda>q. q\<lparr> po_status := Cancelled, po_failure_reason := Some reason, po_filled_at := Some now \<rparr>"
  let ?buys = "filter (\<lambda>q. po_side q = Buy) (values_of (bk_pending b))"
  obtain u :: unit where "for_each ?buys (\<lambda>q. retire_order (?g q)) b = (Inr u, b')" and n: "n = int (length ?buys)"
    using assms(4)
    by (auto simp: cancel_pending_buys_def cancel_order_def [abs_def] act_simps seq_def bnd_def
        split: prod.splits sum.splits)
  from wp_InrD [OF wp_retire_filtered [OF run_orderly [OF assms(1-3)], where g = ?g] this(1)] n
  show ?thesis by simp
qed

theorem cancel_buys_cancels_exactly_buys_witness:
  "cancel_pending_buys 7 ''stop'' new_broker = (Inr 0, new_broker) \<and>
   (\<forall>i. map_of (bk_pending new_broker) i = (case map_of (bk_pending new_broker) i of None \<Rightarrow> None
      | Some q \<Rightarrow> if po_side q = Buy then None else Some q))"
proof -
  have c: "cancel_pending_buys 7 ''stop'' new_broker = (Inr 0, new_broker)"
    by (simp add: cancel_pending_buys_def act_simps new_broker_def seq_def)
  then show ?thesis
    using cancel_buys_cancels_exactly_buys [OF load_empty sample_uuids rtranclp.rtrancl_refl c] by blast
qed

lemma wp_expire:
  assumes "orderly cx b"
  shows "wp (expire_stuck_orders now) (\<lambda>_ b'. orderly cx b' \<and> (\<forall>i q. map_of (bk_pending b') i = Some q \<longrightarrow> \<not> stuck now q))
    (\<lambda>_ _. True) b"
proof (rule wp_conj)
  show "wp (expire_stuck_orders now) (\<lambda>_. orderly cx) (\<lambda>_ _. True) b"
    using tidy_cancels(4) assms by (simp add: upholds_iff)
  show "wp (expire_stuck_orders now) (\<lambda>_ b'. \<forall>i q. map_of (bk_pending b') i = Some q \<longrightarrow> \<not> stuck now q) (\<lambda>_ _. True) b"
    unfolding expire_stuck_orders_def Let_def wp_bnd wp_gets wp_seq wp_ret_fun fail_order_def
    by (rule wp_mono [OF wp_retire_filtered [OF assms]]) (auto simp: failed_order_def split: option.splits if_splits)
qed

text \<open>C22: No order waits for ever: whenever a processed trade event returns, no order that is still
  pending is more than 90 seconds past its fill time; one that was has been failed and recorded.\<close>

theorem trade_events_leave_no_stuck_order:
  assumes "load cx empty_store = (Inr b0, s0)" and "inj (en_uuid (cx_env cx))" and "(broker_call cx True)\<^sup>*\<^sup>* b0 b"
    and "on_market_state cx state features EvTrade event now mode price soft participant b = (Inr fills, b')"
  shows "\<forall>q \<in> set (values_of (bk_pending b')). total_seconds (now - po_fill_after q) \<le> 90"
proof -
  let ?Q = "\<lambda>_ b'. orderly cx b' \<and> (\<forall>i q. map_of (bk_pending b') i = Some q \<longrightarrow> \<not> stuck now q)"
  have equity: "wp (seq (broker_record_equity cx now c) (ret x)) ?Q (\<lambda>_ _. True) b1"
    if "?Q u b1" for b1 u c and x :: "fill_receipt list"
    unfolding wp_seq wp_ret_fun
    by (rule wp_calm [OF calm_record_equity]) (use that same_orderly in \<open>auto simp: same_def Let_def\<close>)
  have step: "wp m R (\<lambda>_ _. True) b1"
    if "upholds (orderly cx) (\<lambda>_ _. True) m" "orderly cx b1" "\<And>x b'. orderly cx b' \<Longrightarrow> R x b'" for m :: "'x brk" and R b1
    by (rule wp_mono [OF upholdsD [OF that(1,2)]]) (use that(3) in auto)
  have "wp (on_market_state cx state features EvTrade event now mode price soft participant) ?Q (\<lambda>_ _. True) b"
    unfolding on_market_state_def if_not_P [OF not_not [THEN iffD2, OF refl]] wp_seq [of "mark_position c s f p t" for c s f p t]
      wp_seq [of "schedule_exit_if_needed c s f n m so pa" for c s f n m so pa] wp_bnd [of "fill_due_orders c s f e n m p w" for c s f e n m p w]
      wp_seq [of "expire_stuck_orders n" for n]
    by (rule step [OF mark_orderly run_orderly [OF assms(1-3)]], rule step [OF schedule_upholds [OF assms(2)]], assumption,
        rule step [OF fill_due_upholds], assumption, rule wp_mono [OF wp_expire], assumption, rule equity) simp_all
  from wp_InrD [OF this assms(4)] have b': "orderly cx b'" and old: "\<forall>i q. map_of (bk_pending b') i = Some q \<longrightarrow> \<not> stuck now q"
    by blast+
  have "dict_ok (bk_pending b')" using orderlyD(3) [OF b'] by (simp add: pending_ok_def)
  then show ?thesis using old by (fastforce simp: stuck_def)
qed

lemma sample_market:
  "\<exists>fills b'. on_market_state sample_ctx state features EvTrade event now mode None None None new_broker = (Inr fills, b')"
proof -
  have stored: "wp (on_db (record_equity env x y)) (\<lambda>_ _. True) (\<lambda>_ _. False) b" for env x y b
    by (simp add: on_db_def wp_simps record_equity_def db_txn_def insert_equity_point_def)
  have "wp (broker_record_equity sample_ctx now c) (\<lambda>_ _. True) (\<lambda>_ _. False) new_broker" for c
    unfolding broker_record_equity_def wp_bnd wp_gets
    by (simp add: new_broker_def [THEN arg_cong, of bk_last_equity_at] wp_bnd wp_seq wp_modify
        wp_mono [OF sample_snapshot_wp] wp_mono [OF stored])
  moreover have pos: "bk_positions new_broker = []" "bk_pending new_broker = []" by (simp_all add: new_broker_def)
  ultimately have "wp (on_market_state sample_ctx state features EvTrade event now mode None None None) (\<lambda>_ _. True) (\<lambda>_ _. False) new_broker"
    unfolding on_market_state_def mark_position_def schedule_exit_if_needed_def fill_due_orders_def expire_stuck_orders_def Let_def
    by (simp add: wp_simps wp_ret_fun pos split: option.split)
  then show ?thesis by (auto simp: wp_def split: prod.splits sum.splits)
qed

theorem trade_events_leave_no_stuck_order_witness:
  "\<forall>state features. \<exists>fills b'. on_market_state sample_ctx state features EvTrade ''e'' 5 Balanced None None None new_broker = (Inr fills, b') \<and>
     (\<forall>q \<in> set (values_of (bk_pending b')). total_seconds (5 - po_fill_after q) \<le> 90)"
proof (intro allI)
  fix state features
  obtain fills b' where m: "on_market_state sample_ctx state features EvTrade ''e'' 5 Balanced None None None new_broker = (Inr fills, b')"
    using sample_market by blast
  then show "\<exists>fills b'. on_market_state sample_ctx state features EvTrade ''e'' 5 Balanced None None None new_broker = (Inr fills, b') \<and>
     (\<forall>q \<in> set (values_of (bk_pending b')). total_seconds (5 - po_fill_after q) \<le> 90)"
    using trade_events_leave_no_stuck_order [OF load_empty sample_uuids rtranclp.rtrancl_refl m] by blast
qed

section \<open>Settlements that fail\<close>

lemma wp_txn_undone: "wp (db_txn m) (\<lambda>_ _. True) (\<lambda>e s'. st_tables s' = st_tables s) s"
  unfolding db_txn_def wp_txn by (auto simp: wp_def split: prod.splits sum.splits)

lemma commits_undone:
  "wp (commit_buy_fill order f p rows ep) (\<lambda>_ _. True) (\<lambda>e s'. st_tables s' = st_tables s) s"
  "wp (commit_sell_fill order f p rows realized ep) (\<lambda>_ _. True) (\<lambda>e s'. st_tables s' = st_tables s) s"
  unfolding commit_buy_fill_def commit_sell_fill_def
  by (auto simp: wp_bnd wp_seq wp_lift wp_txn_undone split: sum.split)

text \<open>The two states agree on the tables and on what memory holds of the trading.\<close>

definition untouched :: "broker \<Rightarrow> broker \<Rightarrow> bool" where
  "untouched b b' \<longleftrightarrow> tables_of b' = tables_of b \<and> bk_positions b' = bk_positions b \<and> bk_pending b' = bk_pending b \<and>
     bk_traded_mints b' = bk_traded_mints b"

lemma wp_commit_undone:
  assumes "wp m (\<lambda>_ _. True) (\<lambda>e s'. st_tables s' = st_tables (bk_store b1)) (bk_store b1)" and "untouched b b1"
    and "\<And>x b'. Q x b'"
  shows "wp (on_db m) Q (\<lambda>_. untouched b) b1"
  unfolding on_db_def wp_zoom by (rule wp_mono [OF assms(1)]) (use assms in \<open>auto simp: untouched_def\<close>)

lemma buy_undone: "wp (account_buy cx order receipt state) (\<lambda>_ _. True) (\<lambda>_. untouched b) b"
proof -
  have notify: "wp (notify_evidence_observer ep) (\<lambda>_ _. True) E b1" for ep b1 E
    by (rule notify_core) simp
  have fresh: "wp (on_db (fresh_uuid env)) Q (\<lambda>_. untouched b) b" if "\<And>x b1. untouched b b1 \<Longrightarrow> Q x b1" for env Q
    using that by (simp add: on_db_def fresh_uuid_def wp_simps untouched_def)
  show ?thesis
    unfolding account_buy_def Let_def wp_bnd [of "on_db m" for m]
    by (rule fresh) (auto simp: wp_bnd wp_seq wp_guard wp_gets wp_modify notify intro!: wp_commit_undone commits_undone)
qed

lemma sell_undone: "wp (account_sell order receipt) (\<lambda>_ _. True) (\<lambda>_. untouched b) b"
proof -
  have notify: "wp (notify_evidence_observer ep) (\<lambda>_ _. True) E b1" for ep b1 E
    by (rule notify_core) simp
  have self: "untouched b b" by (simp add: untouched_def)
  show ?thesis
    unfolding account_sell_def Let_def
    by (auto simp: wp_bnd wp_seq wp_gets wp_lift wp_raise wp_modify notify self split: option.split sum.split
        intro!: wp_commit_undone commits_undone)
qed

text \<open>C21: A settlement that raises leaves no trace: when recording a buy or a sell raises, for whatever
  reason, every table is as it was before the call, and so are the positions, the pending orders and
  the bought mints in memory.\<close>

theorem failed_settlement_leaves_no_trace:
  assumes "account_buy cx order receipt state b = (Inl e, b') \<or> account_sell order receipt b = (Inl e, b')"
  shows "tables_of b' = tables_of b \<and> bk_positions b' = bk_positions b \<and> bk_pending b' = bk_pending b \<and>
    bk_traded_mints b' = bk_traded_mints b"
  using assms wp_InlD [OF buy_undone] wp_InlD [OF sell_undone] unfolding untouched_def by blast

text \<open>A sell of a mint that is not held raises.\<close>

theorem failed_settlement_leaves_no_trace_witness:
  "\<forall>order receipt. fst (account_sell order receipt new_broker) = Inl (KeyError (po_mint order)) \<and>
     tables_of (snd (account_sell order receipt new_broker)) = empty_tables"
proof (intro allI)
  fix order receipt
  have s: "account_sell order receipt new_broker = (Inl (KeyError (po_mint order)), new_broker)"
    by (simp add: account_sell_def act_simps new_broker_def)
  have "tables_of (snd (account_sell order receipt new_broker)) = tables_of new_broker"
    using failed_settlement_leaves_no_trace [of undefined order receipt undefined new_broker "KeyError (po_mint order)" new_broker] s by simp
  then show "fst (account_sell order receipt new_broker) = Inl (KeyError (po_mint order)) \<and>
     tables_of (snd (account_sell order receipt new_broker)) = empty_tables"
    using s by (simp add: new_broker_def empty_store_def)
qed

section \<open>Round trips through the account currency\<close>

text \<open>Selling what a buy bought at the same reserves: the curve pays back no more than it took.\<close>

lemma same_curve_gross:
  assumes buy: "quote_buy vt vs rt B f n = Inr q" and sell: "quote_sell vt vs (cq_token_units q) f' n' vault cs lp = Inr r"
  shows "cq_curve_sol_lamports r \<le> cq_curve_sol_lamports q"
proof -
  note b = quote_buy_InrD [OF buy] and s = quote_sell_InrD [OF sell]
  let ?c = "cq_curve_sol_lamports q" and ?u = "cq_token_units q"
  let ?g = "sell_gross vt vs ?u"
  have pos: "0 < vt" "0 < vs" "0 < ?c" "0 < ?u" using b(1,2) s(1) by (auto simp: buy_ok_def sell_ok_def)
  have "vt * vs \<le> (vt - ?u) * (vs + ?c)"
    using buy_output_product [OF pos(2,3), of vt rt] b(2,4) by simp
  then have "vs * ?u \<le> ?c * (vt - ?u)" by (simp add: algebra_simps)
  also have "\<dots> \<le> ?c * (vt + ?u)" using pos by (simp add: mult_left_mono)
  finally have "vs * ?u \<le> ?c * (vt + ?u)" .
  moreover have "?g * (vt + ?u) \<le> vs * ?u"
    using sell_gross_product [OF pos(1,4), of vs] by (simp add: algebra_simps)
  ultimately have "?g * (vt + ?u) \<le> ?c * (vt + ?u)" by linarith
  then have "?g \<le> ?c" using pos by simp
  then show ?thesis using s by simp
qed

lemma conversion_mono:
  assumes "account_minor_from_sol c x price RoundFloor = Inr a" and "account_minor_from_sol c y price RoundCeiling = Inr d"
    and "x \<le> y"
  shows "a \<le> d"
proof (cases "c = SOL")
  case False
  let ?v = "\<lambda>l. rnd28 (rnd28 (rnd28 (of_int l * the price) * of_int USDC_MINOR_PER_UNIT) / of_int LAMPORTS_PER_SOL)"
  have price: "0 \<le> the price" using assms(1) False by (auto simp: account_minor_from_sol_def price_usable_def split: if_splits option.splits)
  have "(of_int x :: rat) * the price \<le> of_int y * the price" using assms(3) price by (simp add: mult_right_mono)
  from rnd28_mono [OF this] have "?v x \<le> ?v y"
    by (intro rnd28_mono divide_right_mono) (simp_all add: USDC_MINOR_PER_UNIT_def LAMPORTS_PER_SOL_def)
  then have "\<lfloor>?v x\<rfloor> \<le> \<lceil>?v y\<rceil>" by linarith
  then show ?thesis using assms(1,2) False by (auto simp: account_minor_from_sol_def split: if_splits)
qed (use assms in \<open>auto simp: account_minor_from_sol_def\<close>)

text \<open>C20: A paper round trip cannot manufacture account money: selling the tokens of a buy at the reserves
  and the price it was filled at credits at most what the buy was charged, in SOL or in USDC, whatever
  the fees, the split of the sell fee and the rounding of the conversion.\<close>

theorem paper_round_trip_never_profits:
  assumes "fill_quote cx currency buy state price held = Inr (q, v)" and "po_side buy = Buy"
    and "fill_quote cx currency sell state price (Some p) = Inr (q', v')" and "po_side sell = Sell"
    and "ps_token_units p = cq_token_units q" and "0 \<le> network_fee cx"
  shows "av_net v' \<le> av_net v"
proof -
  have b: "buy_quote cx state (po_requested_sol_lamports buy) = Inr q"
    and bv: "account_minor_from_sol currency (cq_wallet_sol_lamports q) price RoundCeiling = Inr (av_net v)"
    using assms(1,2) by (auto simp: fill_quote_def account_fill_values_def rbind_eq_Inr)
  have s: "sell_quote cx state (cq_token_units q) = Inr q'"
    and sv: "account_minor_from_sol currency (cq_wallet_sol_lamports q') price RoundFloor = Inr (av_net v')"
    using assms(3-5) by (auto simp: fill_quote_def account_fill_values_def rbind_eq_Inr)
  note bd = quote_buy_InrD [OF b [unfolded buy_quote_def]] and sd = quote_sell_InrD [OF s [unfolded sell_quote_def]]
  have "cq_curve_sol_lamports q' \<le> cq_curve_sol_lamports q"
    by (rule same_curve_gross [OF b [unfolded buy_quote_def] s [unfolded sell_quote_def]])
  moreover have "0 \<le> cq_protocol_fee_lamports q"
    using bd by (auto simp: buy_ok_def intro!: cdiv_nonneg)
  moreover have "0 \<le> cq_protocol_fee_lamports q'"
    using sd sell_fee_nonneg by (auto simp: sell_ok_def)
  ultimately have "cq_wallet_sol_lamports q' \<le> cq_wallet_sol_lamports q"
    using bd sd assms(6) by simp
  then show ?thesis by (rule conversion_mono [OF sv bv])
qed

definition sample_curve :: token_state where
  "sample_curve =
     \<lparr> ts_mint = ''m'', ts_venue = ''pump'', ts_curve_address = [], ts_pool_address = [],
       ts_pool_base_token_account = [], ts_pool_quote_token_account = [], ts_quote_mint = [],
       ts_last_event_at = None, ts_last_reserve_at = None, ts_last_reserve_slot = 0, ts_reserve_source = [],
       ts_reserve_fee_components = None, ts_reserve_lp_fee_bps = 0, ts_last_reserve_event_id = None,
       ts_last_reserve_signature = None, ts_virtual_token_reserves = 1073000000000000,
       ts_virtual_quote_reserves = 30000000000, ts_real_token_reserves = 793100000000000,
       ts_real_quote_reserves = None, ts_fee_bps = 125 \<rparr>"

definition sample_order :: "side \<Rightarrow> paper_order" where
  "sample_order sd =
     \<lparr> po_order_id = ''o'', po_decision_id = None, po_mint = ''m'', po_symbol = ''M'', po_side = sd,
       po_status = Pending, po_requested_sol_lamports = 100000000, po_requested_token_units = 0,
       po_reserved_account_minor = 0, po_created_at = 0, po_fill_after = 0, po_filled_at = None,
       po_failure_reason = None, po_risk_mode_at_entry = None, po_baseline_version_at_entry = LEGACY_BASELINE_VERSION,
       po_exit_timing_plan = None \<rparr>"

lemma sample_fees [simp]: "network_fee sample_ctx = 30000" "state_fee_bps sample_ctx sample_curve = 125"
  by (simp_all add: network_fee_def state_fee_bps_def sample_ctx_def sample_curve_def)

lemma sample_quotes:
  "\<exists>q. buy_quote sample_ctx sample_curve 100000000 = Inr q \<and> (\<exists>r. sell_quote sample_ctx sample_curve (cq_token_units q) = Inr r)"
proof -
  let ?vt = "1073000000000000 :: int" and ?vs = "30000000000 :: int" and ?rt = "793100000000000 :: int"
  have b: "buy_ok ?vt ?vs ?rt 100000000 125" by code_simp
  have s: "sell_ok ?vt ?vs (buy_output ?vt ?vs ?rt (buy_input 100000000 125)) 125 30000 None None 0" by code_simp
  obtain q where q: "quote_buy ?vt ?vs ?rt 100000000 125 30000 = Inr q"
    using quote_buy_ok [OF b] by metis
  then have "cq_token_units q = buy_output ?vt ?vs ?rt (buy_input 100000000 125)"
    using quote_buy_InrD by simp
  then obtain r where "quote_sell ?vt ?vs (cq_token_units q) 125 30000 None None 0 = Inr r"
    using quote_sell_ok [OF s] by metis
  with q show ?thesis
    unfolding buy_quote_def sell_quote_def sample_fees by (auto simp: sample_curve_def)
qed

text \<open>The position that the sample buy opens.\<close>

definition sample_position :: "curve_quote \<Rightarrow> account_values \<Rightarrow> position" where
  "sample_position q v =
     opened_position ''p'' (sample_order Buy)
       (fill_receipt_of sample_ctx new_broker ''f'' (sample_order Buy) sample_curve ''e'' 0 None None q v) sample_curve"

theorem paper_round_trip_never_profits_witness:
  "\<exists>q v q' v'. fill_quote sample_ctx SOL (sample_order Buy) sample_curve None None = Inr (q, v) \<and>
     fill_quote sample_ctx SOL (sample_order Sell) sample_curve None (Some (sample_position q v)) = Inr (q', v') \<and>
     av_net v' \<le> av_net v"
proof -
  obtain q r where q: "buy_quote sample_ctx sample_curve 100000000 = Inr q"
      and r: "sell_quote sample_ctx sample_curve (cq_token_units q) = Inr r" using sample_quotes by blast
  then obtain v where b: "fill_quote sample_ctx SOL (sample_order Buy) sample_curve None None = Inr (q, v)"
    by (simp add: fill_quote_def sample_order_def account_fill_values_def account_minor_from_sol_def)
  have units: "ps_token_units (sample_position q v) = cq_token_units q"
    by (simp add: sample_position_def opened_position_def fill_receipt_of_def migrate_legacy_sol_account_values_def)
  obtain v' where s: "fill_quote sample_ctx SOL (sample_order Sell) sample_curve None (Some (sample_position q v)) = Inr (r, v')"
    using r units by (simp add: fill_quote_def sample_order_def account_fill_values_def account_minor_from_sol_def)
  have "av_net v' \<le> av_net v"
    by (rule paper_round_trip_never_profits [OF b _ s _ units]) (simp_all add: sample_order_def)
  with b s show ?thesis by blast
qed

end
