(* ===== verification/Receipt_Audit.thy ===== *)
theory Receipt_Audit
  imports Broker_Laws
begin

text \<open>
  \<open>backend/signal_arcade/paper/receipt_audit.py\<close>: the replay of a stored fill receipt against
  its order. \<open>fee_quote_replay_status\<close> recomputes the quote from the receipt's own reserves and
  fee recipe and compares the five amounts. The recipe is the JSON object of the receipt's
  \<open>execution_fee_provenance\<close>; the checks on the Python types of its members are checks on the
  constructor (\<open>type(x) is int\<close> is \<open>JInt\<close>, which a JSON boolean is not). The theorem joins
  the audit to the broker: whatever \<open>fill\<close> records, the audit reproduces.
\<close>

datatype replay_status = Unavailable | InvalidInputs | Matched | Mismatch

definition recipe_keys :: "string list" where
  "recipe_keys = [''version'', ''rounding'', ''fee_components'', ''lp_fee_bps'', ''source'']"

definition rate_of :: "json \<Rightarrow> int option" where
  "rate_of v = (case v of JInt n \<Rightarrow> if 0 \<le> n \<and> n \<le> 10000 then Some n else None | _ \<Rightarrow> None)"

text \<open>The fee components of the recipe: \<open>None\<close> when they are not acceptable, and otherwise
  the argument that the replay passes to \<open>quote_sell\<close>.\<close>

definition recipe_parts :: "side \<Rightarrow> json \<Rightarrow> json \<Rightarrow> int \<Rightarrow> int list option option" where
  "recipe_parts sd parts rounding lp =
     (case parts of
        JNull \<Rightarrow> if rounding \<noteq> JStr ''aggregate'' \<or> lp \<noteq> 0 then None else Some None
      | JList ps \<Rightarrow>
          if sd \<noteq> Sell \<or> rounding \<noteq> JStr ''components'' \<or> 16 < length ps \<or>
             list_ex (\<lambda>p. rate_of p = None) ps
          then None else Some (Some (map (\<lambda>p. the (rate_of p)) ps))
      | _ \<Rightarrow> None)"

definition replay_quote ::
  "fill_receipt \<Rightarrow> paper_order \<Rightarrow> reserve_snapshot \<Rightarrow> int list option \<Rightarrow> int \<Rightarrow> curve_quote result" where
  "replay_quote receipt order reserve parts lp =
     (if fr_side receipt = Buy then
        quote_buy (rs_virtual_token_reserves reserve) (rs_virtual_quote_reserves reserve)
          (rs_real_token_reserves reserve) (po_requested_sol_lamports order) (rs_fee_bps reserve)
          (fr_network_fee_lamports receipt)
      else
        quote_sell (rs_virtual_token_reserves reserve) (rs_virtual_quote_reserves reserve)
          (fr_token_units receipt) (rs_fee_bps reserve) (fr_network_fee_lamports receipt)
          (rs_real_quote_reserves reserve) parts lp)"

definition amounts_match :: "curve_quote \<Rightarrow> fill_receipt \<Rightarrow> bool" where
  "amounts_match q receipt \<longleftrightarrow>
     cq_token_units q = fr_token_units receipt \<and>
     cq_curve_sol_lamports q = fr_gross_sol_lamports receipt \<and>
     cq_protocol_fee_lamports q = fr_protocol_fee_lamports receipt \<and>
     cq_network_fee_lamports q = fr_network_fee_lamports receipt \<and>
     cq_wallet_sol_lamports q = fr_net_sol_lamports receipt"

definition fee_quote_replay_status :: "fill_receipt \<Rightarrow> paper_order option \<Rightarrow> replay_status result" where
  "fee_quote_replay_status receipt order =
     (case (fr_execution_fee_provenance receipt, fr_reserve_snapshot receipt, order) of
        (Some recipe, Some reserve, Some order) \<Rightarrow>
          if map_of recipe ''version'' \<noteq> Some (JInt 1) then Inr Unavailable
          else if set (map fst recipe) \<noteq> set recipe_keys \<or>
             the (map_of recipe ''source'') \<notin> {JStr ''observed_event'', JStr ''configured_fallback''} \<or>
             po_order_id order \<noteq> fr_order_id receipt \<or> po_mint order \<noteq> fr_mint receipt \<or>
             po_side order \<noteq> fr_side receipt
          then Inr InvalidInputs
          else
            (case rate_of (the (map_of recipe ''lp_fee_bps'')) of
               None \<Rightarrow> Inr InvalidInputs
             | Some lp \<Rightarrow>
                 (case recipe_parts (fr_side receipt) (the (map_of recipe ''fee_components''))
                         (the (map_of recipe ''rounding'')) lp of
                    None \<Rightarrow> Inr InvalidInputs
                  | Some parts \<Rightarrow>
                      (case replay_quote receipt order reserve parts lp of
                         Inl (ValueError _) \<Rightarrow> Inr InvalidInputs
                       | Inl e \<Rightarrow> Inl e
                       | Inr q \<Rightarrow> Inr (if amounts_match q receipt then Matched else Mismatch))))
      | _ \<Rightarrow> Inr Unavailable)"

section \<open>What the broker records replays\<close>

lemma recipe_of_fill:
  "map_of (fee_provenance sd state) ''version'' = Some (JInt 1)"
  "set (map fst (fee_provenance sd state)) = set recipe_keys"
  "the (map_of (fee_provenance sd state) ''source'') \<in> {JStr ''observed_event'', JStr ''configured_fallback''}"
  "the (map_of (fee_provenance sd state) ''lp_fee_bps'') = JInt (if sd = Sell then ts_reserve_lp_fee_bps state else 0)"
  by (auto simp: fee_provenance_def recipe_keys_def Let_def)

lemma recipe_parts_aggregate:
  "sd \<noteq> Sell \<or> ts_reserve_fee_components state = None \<Longrightarrow>
   recipe_parts sd (the (map_of (fee_provenance sd state) ''fee_components''))
     (the (map_of (fee_provenance sd state) ''rounding'')) 0 = Some None"
  by (auto simp: fee_provenance_def recipe_parts_def Let_def)

lemma recipe_parts_components:
  assumes "ts_reserve_fee_components state = Some ps" and "length ps \<le> 16" and "\<forall>p \<in> set ps. 0 \<le> p \<and> p \<le> 10000"
  shows "recipe_parts Sell (the (map_of (fee_provenance Sell state) ''fee_components''))
     (the (map_of (fee_provenance Sell state) ''rounding'')) lp = Some (Some ps)"
proof -
  have "map (\<lambda>p. the (rate_of p)) (map JInt ps) = ps" "\<not> list_ex (\<lambda>p. rate_of p = None) (map JInt ps)"
    using assms(3) by (auto simp: rate_of_def map_idI list_ex_iff)
  then show ?thesis using assms(1,2) by (simp add: fee_provenance_def recipe_parts_def Let_def)
qed

text \<open>The recipe of a sale whose quote succeeded gives back the arguments of the quote.\<close>

lemma sale_recipe:
  assumes "sell_quote cx state units = Inr q"
    and "\<forall>ps. ts_reserve_fee_components state = Some ps \<longrightarrow> length ps \<le> 16"
  shows "rate_of (JInt (ts_reserve_lp_fee_bps state)) = Some (ts_reserve_lp_fee_bps state) \<and>
    recipe_parts Sell (the (map_of (fee_provenance Sell state) ''fee_components''))
      (the (map_of (fee_provenance Sell state) ''rounding'')) (ts_reserve_lp_fee_bps state) =
      Some (ts_reserve_fee_components state)"
proof -
  have c: "\<not> components_inconsistent (ts_reserve_fee_components state) (ts_reserve_lp_fee_bps state) (state_fee_bps cx state)"
    using quote_sell_InrD(1) [OF assms(1) [unfolded sell_quote_def]] by (simp add: sell_ok_def)
  show ?thesis
  proof (cases "ts_reserve_fee_components state")
    case None
    then show ?thesis using c recipe_parts_aggregate [of Sell state] by (simp add: components_inconsistent_def rate_of_def)
  next
    case (Some ps)
    then have "\<forall>p \<in> set ps. 0 \<le> p \<and> p \<le> 10000" and "ts_reserve_lp_fee_bps state \<in> set (0 # ps)"
      using c by (auto simp: components_inconsistent_def list_ex_iff)
    then show ?thesis using recipe_parts_components [OF Some] assms(2) Some by (auto simp: rate_of_def)
  qed
qed

lemma receipt_fields:
  assumes "r = fill_receipt_of cx b fill_id order state source_event_id now price held q v"
  shows "fr_order_id r = po_order_id order" "fr_mint r = po_mint order" "fr_side r = po_side order"
    "fr_token_units r = cq_token_units q" "fr_gross_sol_lamports r = cq_curve_sol_lamports q"
    "fr_protocol_fee_lamports r = cq_protocol_fee_lamports q" "fr_network_fee_lamports r = cq_network_fee_lamports q"
    "fr_net_sol_lamports r = cq_wallet_sol_lamports q"
    "fr_reserve_snapshot r = Some (fill_reserves state now (state_fee_bps cx state))"
    "fr_execution_fee_provenance r = Some (fee_provenance (po_side order) state)"
  by (simp_all add: assms fill_receipt_of_def migrate_legacy_sol_account_values_def)

lemma receipt_replays:
  assumes q: "fill_quote cx currency order state price held = Inr (q, v)"
    and r: "r = fill_receipt_of cx b fill_id order state source_event_id now price held q v"
    and few: "\<forall>ps. ts_reserve_fee_components state = Some ps \<longrightarrow> length ps \<le> 16"
  shows "fee_quote_replay_status r (Some order) = Inr Matched"
proof (cases "po_side order")
  case Buy
  have b: "buy_quote cx state (po_requested_sol_lamports order) = Inr q"
    using q Buy by (auto simp: fill_quote_def rbind_eq_Inr)
  have n: "cq_network_fee_lamports q = network_fee cx" using quote_buy_InrD(5) [OF b [unfolded buy_quote_def]] .
  have "replay_quote r order (fill_reserves state now (state_fee_bps cx state)) None 0 = Inr q"
    using b by (simp add: replay_quote_def receipt_fields [OF r] Buy n fill_reserves_def buy_quote_def)
  then show ?thesis
    using recipe_of_fill [of Buy state] recipe_parts_aggregate [of Buy state]
    by (simp add: fee_quote_replay_status_def receipt_fields [OF r] Buy amounts_match_def rate_of_def)
next
  case Sell
  obtain u where s: "sell_quote cx state u = Inr q"
    using q Sell by (auto simp: fill_quote_def rbind_eq_Inr split: option.splits)
  note f = quote_sell_InrD(2,5) [OF s [unfolded sell_quote_def]] and c = sale_recipe [OF s few]
  have "replay_quote r order (fill_reserves state now (state_fee_bps cx state))
      (ts_reserve_fee_components state) (ts_reserve_lp_fee_bps state) = Inr q"
    using s by (simp add: replay_quote_def receipt_fields [OF r] Sell f fill_reserves_def sell_quote_def)
  then show ?thesis
    using recipe_of_fill [of Sell state] c
    by (simp add: fee_quote_replay_status_def receipt_fields [OF r] Sell amounts_match_def)
qed

text \<open>The receipt that \<open>fill\<close> returns is the one it built from its quote.\<close>

lemma fill_returns_receipt:
  assumes "fill cx order state features source_event_id now price b = (Inr (Some r), b')"
  shows "\<exists>held q v fill_id b1. fill_quote cx (bk_quote_currency b) order state price held = Inr (q, v) \<and>
    r = fill_receipt_of cx b1 fill_id order state source_event_id now price held q v"
proof -
  let ?held = "if po_side order = Sell then map_of (bk_positions b) (po_mint order) else None"
  have settle: "(\<exists>x. settle_fill cx order state features now price rc b1 = (Inr (Some r), x)) \<Longrightarrow> r = rc" for rc b1
    by (auto simp: settle_fill_def bnd_def seq_def act_simps Let_def split: prod.splits sum.splits if_splits)
  show ?thesis
  proof (cases "fill_quote cx (bk_quote_currency b) order state price ?held")
    case (Inr qv)
    obtain q v where qv: "qv = (q, v)" by (cases qv)
    have "execute_fill cx order state features source_event_id now price ?held q v b = (Inr (Some r), b')"
      using assms Inr unfolding fill_def qv
      by (auto simp: bnd_run act_run fail_order_def seq_def bnd_def Let_def split: if_splits prod.splits sum.splits)
    then obtain b1 fill_id where "r = fill_receipt_of cx b1 fill_id order state source_event_id now price ?held q v"
      unfolding execute_fill_def by (auto elim!: bnd_InrE simp: act_run dest!: settle [OF exI])
    then show ?thesis using Inr qv by blast
  next
    case (Inl e)
    then show ?thesis using assms unfolding fill_def
      by (cases e) (auto simp: bnd_run act_run seq_def bnd_def Let_def split: if_splits prod.splits sum.splits)
  qed
qed

text \<open>A change of the recorded amounts that are no input of the replay turns a match into a mismatch.\<close>

lemma changed_amounts:
  assumes "fee_quote_replay_status r (Some order) = Inr Matched"
    and "(gross, fee, net) \<noteq> (fr_gross_sol_lamports r, fr_protocol_fee_lamports r, fr_net_sol_lamports r)"
  shows "fee_quote_replay_status (r\<lparr> fr_gross_sol_lamports := gross, fr_protocol_fee_lamports := fee,
     fr_net_sol_lamports := net \<rparr>) (Some order) = Inr Mismatch"
proof -
  let ?r = "r\<lparr> fr_gross_sol_lamports := gross, fr_protocol_fee_lamports := fee, fr_net_sol_lamports := net \<rparr>"
  obtain recipe where 1: "fr_execution_fee_provenance r = Some recipe"
    using assms(1) by (cases "fr_execution_fee_provenance r") (simp_all add: fee_quote_replay_status_def)
  obtain reserve where 2: "fr_reserve_snapshot r = Some reserve"
    using assms(1) 1 by (cases "fr_reserve_snapshot r") (simp_all add: fee_quote_replay_status_def)
  obtain lp where 3: "rate_of (the (map_of recipe ''lp_fee_bps'')) = Some lp"
    using assms(1) 1 2 by (cases "rate_of (the (map_of recipe ''lp_fee_bps''))")
      (simp_all add: fee_quote_replay_status_def split: if_splits)
  obtain parts where 4: "recipe_parts (fr_side r) (the (map_of recipe ''fee_components'')) (the (map_of recipe ''rounding'')) lp = Some parts"
    using assms(1) 1 2 3
    by (cases "recipe_parts (fr_side r) (the (map_of recipe ''fee_components'')) (the (map_of recipe ''rounding'')) lp")
      (simp_all add: fee_quote_replay_status_def split: if_splits)
  obtain q where 5: "replay_quote r order reserve parts lp = Inr q" and m: "amounts_match q r"
    using assms(1) 1 2 3 4
    by (cases "replay_quote r order reserve parts lp")
      (simp_all add: fee_quote_replay_status_def split: if_splits exc.splits)
  have "replay_quote ?r order reserve parts lp = Inr q" using 5 by (simp add: replay_quote_def split: if_splits)
  moreover have "\<not> amounts_match q ?r" using m assms(2) by (auto simp: amounts_match_def)
  ultimately show ?thesis
    using assms(1) 1 2 3 4 by (simp add: fee_quote_replay_status_def split: if_splits)
qed

text \<open>C26: Whatever the broker fills, the audit reproduces: the receipt that \<open>fill\<close> returns replays against
  its order as matched, for buys and sells, aggregate and split fees, as long as the observed fee
  schedule has at most the sixteen components the audit accepts; and no receipt with another gross
  amount, fee or net amount passes.\<close>

theorem fills_replay_as_matched:
  assumes "fill cx order state features source_event_id now price b = (Inr (Some r), b')"
    and "\<forall>ps. ts_reserve_fee_components state = Some ps \<longrightarrow> length ps \<le> 16"
  shows "fee_quote_replay_status r (Some order) = Inr Matched \<and>
    (\<forall>gross fee net. (gross, fee, net) \<noteq> (fr_gross_sol_lamports r, fr_protocol_fee_lamports r, fr_net_sol_lamports r) \<longrightarrow>
       fee_quote_replay_status (r\<lparr> fr_gross_sol_lamports := gross, fr_protocol_fee_lamports := fee,
          fr_net_sol_lamports := net \<rparr>) (Some order) = Inr Mismatch)"
proof -
  obtain held q v fill_id b1 where "fill_quote cx (bk_quote_currency b) order state price held = Inr (q, v)"
    and "r = fill_receipt_of cx b1 fill_id order state source_event_id now price held q v"
    using fill_returns_receipt [OF assms(1)] by blast
  then have m: "fee_quote_replay_status r (Some order) = Inr Matched"
    by (rule receipt_replays) (rule assms(2))
  then show ?thesis using changed_amounts by blast
qed


text \<open>A broker that holds one position and has one pending sale of it.\<close>

definition holding :: position where
  "holding =
     (opened_position ''p'' (sample_order Buy)
       (fill_receipt_of sample_ctx new_broker ''f'' (sample_order Buy) sample_curve ''e'' 0 None None
          \<lparr> cq_token_units = 1000000000000, cq_curve_sol_lamports = 28000000, cq_protocol_fee_lamports = 350000,
            cq_network_fee_lamports = 30000, cq_wallet_sol_lamports = 28380000, cq_price_impact_fraction = 0 \<rparr>
          \<lparr> av_gross = 28000000, av_protocol = 350000, av_network = 30000, av_net = 28380000 \<rparr>) sample_curve)"

definition sample_seller :: broker where
  "sample_seller =
     new_broker\<lparr> bk_positions := [(''m'', holding)],
       bk_store := empty_store\<lparr> st_tables := empty_tables\<lparr> tb_orders := [(''o'', sample_order Sell)],
                                                     tb_positions := [(''p'', holding)] \<rparr> \<rparr> \<rparr>"

definition sample_features :: feature_snapshot where
  "sample_features =
     \<lparr> fs_mint = ''m'', fs_symbol = ''M'', fs_name = ''M'', fs_venue = ''pump'', fs_computed_at = 0, fs_values = [],
       fs_data_confidence = 1, fs_hard_flags = [] \<rparr>"

text \<open>The quote of its sale, by the closed form of \<open>quote_sell\<close>.\<close>

lemma sample_sale_quote:
  "\<exists>q. sell_quote sample_ctx sample_curve 1000000000000 = Inr q \<and> cq_token_units q = 1000000000000 \<and>
     cq_curve_sol_lamports q = 27932960 \<and> cq_protocol_fee_lamports q = 349162 \<and> cq_network_fee_lamports q = 30000 \<and>
     cq_wallet_sol_lamports q = 27553798 \<and> 0 \<le> cq_price_impact_fraction q \<and> cq_price_impact_fraction q \<le> 1"
proof -
  have ok: "sell_ok 1073000000000000 30000000000 1000000000000 125 30000 None None 0" by code_simp
  have g: "sell_gross 1073000000000000 30000000000 1000000000000 = 27932960" by code_simp
  have fee: "sell_fee None 125 27932960 = 349162" by code_simp
  obtain q where q: "quote_sell 1073000000000000 30000000000 1000000000000 125 30000 None None 0 = Inr q"
    using quote_sell_ok [OF ok] by metis
  then have "sell_quote sample_ctx sample_curve 1000000000000 = Inr q"
    unfolding sell_quote_def sample_fees by (simp add: sample_curve_def)
  then show ?thesis using quote_sell_InrD [OF q] g fee by simp
qed


lemma holding_fields [simp]: "ps_token_units holding = 1000000000000" "ps_entry_cost_lamports holding = 28380000"
  "ps_book_value_lamports holding = 28350000" "ps_position_id holding = ''p''" "ps_opened_at holding = 0"
  "ps_mint holding = ''m''" "ps_peak_mark_lamports holding = 0" "ps_entry_fill_id holding = ''f''"
  by (simp_all add: holding_def opened_position_def fill_receipt_of_def migrate_legacy_sol_account_values_def sample_order_def new_broker_def)

lemma sample_curve_fields [simp]:
  "ts_last_reserve_slot sample_curve = 0" "ts_virtual_token_reserves sample_curve = 1073000000000000"
  "ts_virtual_quote_reserves sample_curve = 30000000000" "ts_real_token_reserves sample_curve = 793100000000000"
  "ts_real_quote_reserves sample_curve = None" "ts_venue sample_curve = ''pump''"
  "ts_last_reserve_at sample_curve = None" "ts_last_event_at sample_curve = None"
  "ts_reserve_fee_components sample_curve = None"
  by (simp_all add: sample_curve_def)

lemma sample_sale:
  "\<exists>r b'. fill sample_ctx (sample_order Sell) sample_curve sample_features ''e'' 5 None sample_seller = (Inr (Some r), b')"
proof -
  let ?o = "sample_order Sell" and ?b = "sample_seller"
  obtain q where q: "sell_quote sample_ctx sample_curve 1000000000000 = Inr q" "cq_token_units q = 1000000000000"
      "cq_curve_sol_lamports q = 27932960" "cq_protocol_fee_lamports q = 349162" "cq_network_fee_lamports q = 30000"
      "cq_wallet_sol_lamports q = 27553798" "0 \<le> cq_price_impact_fraction q" "cq_price_impact_fraction q \<le> 1"
    using sample_sale_quote by blast
  let ?v = "\<lparr> av_gross = 27932960, av_protocol = 349162, av_network = 30000, av_net = 27553798 \<rparr>"
  have fq: "fill_quote sample_ctx SOL ?o sample_curve None (Some holding) = Inr (q, ?v)"
    using q by (simp add: fill_quote_def sample_order_def account_fill_values_def account_minor_from_sol_def)
  define r where "r = fill_receipt_of sample_ctx sample_seller [] ?o sample_curve ''e'' 5 None (Some holding) q ?v"
  have ok: "receipt_fields_ok r"
    using q by (simp add: r_def receipt_fields_ok_def fill_receipt_of_def migrate_legacy_sol_account_values_def
        fill_reserves_def reserves_fields_ok_def sample_seller_def new_broker_def sample_order_def)
  have f: "fr_order_id r = ''o''" "fr_mint r = ''m''" "fr_side r = Sell" "fr_filled_at r = 5" "fr_fill_id r = []"
    "fr_account_net_minor r = 27553798" "fr_account_gross_minor r = 27932960" "fr_account_protocol_fee_minor r = 349162"
    "fr_account_network_fee_minor r = 30000" "fr_venue r = ''pump''" "fr_position_opened_at r = Some 0" "fr_token_units r = 1000000000000"
    "fr_reserve_snapshot r = Some (fill_reserves sample_curve 5 125)"
    using q by (simp_all add: r_def fill_receipt_of_def migrate_legacy_sol_account_values_def sample_seller_def new_broker_def sample_order_def)
  define o' where "o' = ?o\<lparr> po_status := Filled, po_filled_at := Some 5 \<rparr>"
  define rows where "rows = sell_entries ''m'' r holding"
  have rows: "validated_ledger_entries rows = Inr rows" "list_ex (\<lambda>r. row_debit r < 0 \<or> row_credit r < 0) rows = False"
    unfolding rows_def by (simp_all add: sell_entries_def f validated_ledger_entries_def row_debit_def row_credit_def)
  have valid: "validate_fill_commit o' r holding = Inr ()"
    by (simp add: o'_def validate_fill_commit_def f sample_order_def fill_reserves_def reserve_observed_at_def)
  have commit: "wp (commit_sell_fill o' r holding rows n None) (\<lambda>_ _. True) (\<lambda>_ _. False) s"
    if "st_tables s = st_tables (bk_store ?b)" for n s
    unfolding commit_sell_fill_def rows valid wp_simps db_txn_def
    using that
    by (simp add: wp_simps rows f upsert_optional_episode_def o'_def sample_order_def sample_seller_def empty_tables_def
       require_pending_order_def update_filled_order_def insert_fill_def insert_ledger_def delete_position_row_def
       on_tables_def of_tables_def)
  have sold: "wp (account_sell o' r) (\<lambda>_ _. True) (\<lambda>_ _. False) b"
    if "bk_positions b = [(''m'', holding)]" "st_tables (bk_store b) = st_tables (bk_store ?b)" for b
  proof -
    have "po_mint o' = ''m''" by (simp add: o'_def sample_order_def)
    moreover have "execution_evidence_for_entry_fill (tables_of b) ''f'' = None"
      and "setting_int (tables_of b) ''realized_pnl_lamports'' 0 = Inr 0"
      using that(2) by (simp_all add: execution_evidence_for_entry_fill_def setting_int_def get_setting_def
          sample_seller_def empty_tables_def)
    ultimately show ?thesis
      unfolding account_sell_def on_db_def
      by (simp add: wp_simps that rows_def [symmetric] Let_def notify_evidence_observer_def wp_mono [OF commit])
  qed
  have settled: "wp (settle_fill sample_ctx ?o sample_curve sample_features 5 None r) (\<lambda>x _. x = Some r) (\<lambda>_ _. False) b"
    if "bk_positions b = [(''m'', holding)]" "st_tables (bk_store b) = st_tables (bk_store ?b)" for b
    unfolding settle_fill_def using that
    by (simp add: wp_simps ok Let_def sample_order_def o'_def [unfolded sample_order_def, simplified, symmetric] wp_mono [OF sold])
  have r': "fill_receipt_of sample_ctx b (en_uuid (cx_env sample_ctx) 0) ?o sample_curve ''e'' 5 None (Some holding) q ?v = r"
    if "bk_quote_currency b = SOL" "bk_quote_decimals b = 9" for b
    using that by (simp add: r_def fill_receipt_of_def sample_seller_def new_broker_def sample_ctx_def)
  have "wp (execute_fill sample_ctx ?o sample_curve sample_features ''e'' 5 None (Some holding) q ?v) (\<lambda>x _. x \<noteq> None) (\<lambda>_ _. False) ?b"
    unfolding execute_fill_def on_db_def fresh_uuid_def wp_simps
    by (simp add: sample_seller_def new_broker_def empty_store_def r' [simplified] wp_mono [OF settled])
  moreover have "fill sample_ctx ?o sample_curve sample_features ''e'' 5 None ?b =
      execute_fill sample_ctx ?o sample_curve sample_features ''e'' 5 None (Some holding) q ?v ?b"
    using fq by (simp add: fill_def act_simps sample_seller_def new_broker_def sample_order_def)
  ultimately show ?thesis by (auto simp: wp_def split: prod.splits sum.splits)
qed

theorem fills_replay_as_matched_witness:
  "\<exists>r b'. fill sample_ctx (sample_order Sell) sample_curve sample_features ''e'' 5 None sample_seller = (Inr (Some r), b') \<and>
     fee_quote_replay_status r (Some (sample_order Sell)) = Inr Matched"
proof -
  obtain r b' where r: "fill sample_ctx (sample_order Sell) sample_curve sample_features ''e'' 5 None sample_seller = (Inr (Some r), b')"
    using sample_sale by blast
  have "fee_quote_replay_status r (Some (sample_order Sell)) = Inr Matched"
    using fills_replay_as_matched [OF r] by simp
  with r show ?thesis by blast
qed

end
