(* ===== verification/Heapq.thy ===== *)
theory Heapq
  imports Prelude
begin

text \<open>
  Python's \<open>heapq\<close> on a list, as the event queue uses it. The functions follow CPython:
  \<open>heappush\<close> appends and moves the new element up, \<open>heappop\<close> puts the last element at the root,
  sinks it to a leaf along the smaller children and moves it up again, \<open>heapify\<close> repairs the inner
  nodes from the last to the first. CPython carries the moving element in a variable and writes it
  once at the end; exchanging it with its neighbour at every step gives the same list. Elements
  are compared by a key; the program's keys end in a sequence number that no two rows share.

  The interface that the queue's proofs use is the locale \<open>priority_list\<close>: the multiset of the
  elements is kept, and what is removed is minimal.
\<close>

section \<open>The algorithm\<close>

definition parent :: "nat \<Rightarrow> nat" where
  "parent i = (i - 1) div 2"

definition swap :: "'a list \<Rightarrow> nat \<Rightarrow> nat \<Rightarrow> 'a list" where
  "swap h i j = h[i := h ! j, j := h ! i]"

text \<open>\<open>_siftdown(heap, startpos, pos)\<close>.\<close>

function bubble_up :: "('a \<Rightarrow> 'k :: linorder) \<Rightarrow> 'a list \<Rightarrow> nat \<Rightarrow> nat \<Rightarrow> 'a list" where
  "bubble_up key h start pos =
     (if start < pos \<and> key (h ! pos) < key (h ! parent pos)
      then bubble_up key (swap h pos (parent pos)) start (parent pos) else h)"
  by pat_completeness auto
termination
  by (relation "measure (\<lambda>(key, h, start, pos). pos)") (auto simp: parent_def)
declare bubble_up.simps [simp del]

text \<open>The loop of \<open>_siftup\<close>: move the element at \<open>pos\<close> down to a leaf.\<close>

definition smaller_child :: "('a \<Rightarrow> 'k :: linorder) \<Rightarrow> 'a list \<Rightarrow> nat \<Rightarrow> nat" where
  "smaller_child key h pos =
     (if 2 * pos + 2 < length h \<and> \<not> key (h ! (2 * pos + 1)) < key (h ! (2 * pos + 2))
      then 2 * pos + 2 else 2 * pos + 1)"

lemma length_swap [simp]: "length (swap h i j) = length h"
  by (simp add: swap_def)

function sink :: "('a \<Rightarrow> 'k :: linorder) \<Rightarrow> 'a list \<Rightarrow> nat \<Rightarrow> 'a list \<times> nat" where
  "sink key h pos =
     (if 2 * pos + 1 < length h
      then sink key (swap h pos (smaller_child key h pos)) (smaller_child key h pos) else (h, pos))"
  by pat_completeness auto
termination
  by (relation "measure (\<lambda>(key, h, pos). length h - pos)") (auto simp: smaller_child_def)
declare sink.simps [simp del]

definition siftup :: "('a \<Rightarrow> 'k :: linorder) \<Rightarrow> 'a list \<Rightarrow> nat \<Rightarrow> 'a list" where
  "siftup key h pos = (case sink key h pos of (h', q) \<Rightarrow> bubble_up key h' pos q)"

definition heappush :: "('a \<Rightarrow> 'k :: linorder) \<Rightarrow> 'a list \<Rightarrow> 'a \<Rightarrow> 'a list" where
  "heappush key h x = bubble_up key (h @ [x]) 0 (length h)"

text \<open>On an empty list \<open>heappop\<close> raises \<open>IndexError\<close>; the queue never calls it then.\<close>

fun heappop :: "('a \<Rightarrow> 'k :: linorder) \<Rightarrow> 'a list \<Rightarrow> ('a \<times> 'a list) option" where
  "heappop key [] = None"
| "heappop key [x] = Some (x, [])"
| "heappop key (x # y # ys) = Some (x, siftup key (last (y # ys) # butlast (y # ys)) 0)"

definition heapify :: "('a \<Rightarrow> 'k :: linorder) \<Rightarrow> 'a list \<Rightarrow> 'a list" where
  "heapify key h = fold (\<lambda>i h. siftup key h i) (rev [0..<length h div 2]) h"

section \<open>Nothing is lost\<close>

lemma mset_swap [simp]: "i < length h \<Longrightarrow> j < length h \<Longrightarrow> mset (swap h i j) = mset h"
  by (simp add: swap_def mset_swap)

lemma parent_le: "parent i \<le> i"
  by (simp add: parent_def)

lemma parent_less: "0 < i \<Longrightarrow> parent i < i"
  by (auto simp: parent_def)

lemma bubble_up_length [simp]: "length (bubble_up key h s p) = length h"
  by (induction key h s p rule: bubble_up.induct) (subst bubble_up.simps, simp)

lemma bubble_up_mset: "p < length h \<Longrightarrow> mset (bubble_up key h s p) = mset h"
proof (induction key h s p rule: bubble_up.induct)
  case (1 key h s p)
  then show ?case using parent_le [of p] by (subst bubble_up.simps) auto
qed

lemma smaller_child_bounds:
  "2 * p + 1 < length h \<Longrightarrow> p < smaller_child key h p \<and> smaller_child key h p < length h \<and>
     parent (smaller_child key h p) = p"
  by (auto simp: smaller_child_def parent_def)

lemma sink_mset: "p < length h \<Longrightarrow>
   mset (fst (sink key h p)) = mset h \<and> length (fst (sink key h p)) = length h \<and> snd (sink key h p) < length h"
proof (induction key h p rule: sink.induct)
  case (1 key h p)
  then show ?case using smaller_child_bounds [of p h key] by (subst (1 2 3) sink.simps) auto
qed

lemma siftup_mset:
  assumes "p < length h"
  shows "mset (siftup key h p) = mset h" and "length (siftup key h p) = length h"
  using sink_mset [OF assms, of key] bubble_up_mset [of "snd (sink key h p)" "fst (sink key h p)" key p]
  by (simp_all add: siftup_def split_beta)

lemma heappush_mset: "mset (heappush key h x) = add_mset x (mset h)"
  by (simp add: heappush_def bubble_up_mset)

lemma heapify_mset: "mset (heapify key h) = mset h"
proof -
  have "mset (fold (\<lambda>i h. siftup key h i) is h) = mset h \<and> length (fold (\<lambda>i h. siftup key h i) is h) = length h"
    if "\<forall>i \<in> set is. i < length h" for "is" :: "nat list"
    using that by (induction "is" arbitrary: h) (auto simp: siftup_mset)
  moreover have "\<forall>i \<in> set (rev [0..<length h div 2]). i < length h" by auto
  ultimately show ?thesis by (simp add: heapify_def)
qed

lemma heappop_mset: "heappop key h = Some (x, h') \<Longrightarrow> mset h = add_mset x (mset h')"
proof (induction key h rule: heappop.induct)
  case (3 key x y ys)
  define l where "l = y # ys"
  have "butlast l @ [last l] = l" by (rule append_butlast_last_id) (simp add: l_def)
  moreover have "mset (last l # butlast l) = mset (butlast l @ [last l])" by simp
  ultimately have "mset (last l # butlast l) = mset l" by (simp only:)
  with 3 show ?case by (auto simp: siftup_mset l_def)
qed simp_all

section \<open>The heap order\<close>

text \<open>
  Above \<open>s\<close> every element is at least its parent. \<open>loose s p\<close> exempts the position \<open>p\<close> in both
  directions but keeps its children above its parent; \<open>rising s p\<close> exempts only its parent.
\<close>

definition heap_from :: "('a \<Rightarrow> 'k :: linorder) \<Rightarrow> nat \<Rightarrow> 'a list \<Rightarrow> bool" where
  "heap_from key s h \<longleftrightarrow> (\<forall>i < length h. 0 < i \<longrightarrow> s \<le> parent i \<longrightarrow> key (h ! parent i) \<le> key (h ! i))"

definition loose :: "('a \<Rightarrow> 'k :: linorder) \<Rightarrow> nat \<Rightarrow> nat \<Rightarrow> 'a list \<Rightarrow> bool" where
  "loose key s p h \<longleftrightarrow>
     (\<forall>i < length h. 0 < i \<longrightarrow> s \<le> parent i \<longrightarrow> i \<noteq> p \<longrightarrow> parent i \<noteq> p \<longrightarrow> key (h ! parent i) \<le> key (h ! i)) \<and>
     (\<forall>i < length h. 0 < i \<longrightarrow> 0 < p \<longrightarrow> parent i = p \<longrightarrow> s \<le> parent p \<longrightarrow> key (h ! parent p) \<le> key (h ! i))"

definition rising :: "('a \<Rightarrow> 'k :: linorder) \<Rightarrow> nat \<Rightarrow> nat \<Rightarrow> 'a list \<Rightarrow> bool" where
  "rising key s p h \<longleftrightarrow> loose key s p h \<and> (\<forall>i < length h. 0 < i \<longrightarrow> parent i = p \<longrightarrow> key (h ! p) \<le> key (h ! i))"

lemma parent_cases: "0 < i \<Longrightarrow> parent i = p \<longleftrightarrow> i = 2 * p + 1 \<or> i = 2 * p + 2"
  by (auto simp: parent_def)

lemma swap_nth: "i < length h \<Longrightarrow> j < length h \<Longrightarrow> n < length h \<Longrightarrow>
  swap h i j ! n = (if n = j then h ! i else if n = i then h ! j else h ! n)"
  by (auto simp: swap_def nth_list_update)

text \<open>One step down keeps \<open>loose\<close>; one step up keeps \<open>rising\<close>.\<close>

lemma sink_step:
  assumes l: "loose key s p h" and p: "2 * p + 1 < length h" and s: "s \<le> p"
  defines "c \<equiv> smaller_child key h p"
  shows "loose key s c (swap h p c)"
proof -
  have c: "p < c" "c < length h" "parent c = p" "c = 2 * p + 1 \<or> c = 2 * p + 2"
    using smaller_child_bounds [OF p, of key] by (auto simp: c_def smaller_child_def)
  have least: "key (h ! c) \<le> key (h ! i)" if "i < length h" "0 < i" "parent i = p" for i
    using that p by (auto simp: parent_cases c_def smaller_child_def)
  have n: "swap h p c ! i = (if i = c then h ! p else if i = p then h ! c else h ! i)" if "i < length h" for i
    using swap_nth [of p h c i] c that by simp
  show ?thesis
    unfolding loose_def
  proof (intro conjI allI impI)
    fix i assume i: "i < length (swap h p c)" "0 < i" "s \<le> parent i" "i \<noteq> c" "parent i \<noteq> c"
    have j: "parent i < length h" using parent_le [of i] i(1) by simp
    show "key (swap h p c ! parent i) \<le> key (swap h p c ! i)"
    proof (cases "parent i = p")
      case True
      then show ?thesis using i j least [of i] n [of i] n [of p] c parent_less [of i] by auto
    next
      case False
      then show ?thesis using i j n [of i] n [of "parent i"] l c unfolding loose_def by (cases "i = p") auto
    qed
  next
    fix i assume i: "i < length (swap h p c)" "0 < i" "0 < c" "parent i = c" "s \<le> parent c"
    then have "i \<noteq> p" "i \<noteq> c" using parent_less [of i] c by auto
    then show "key (swap h p c ! parent c) \<le> key (swap h p c ! i)"
      using i n [of i] n [of p] l c unfolding loose_def by auto
  qed
qed

lemma sink_loose: "loose key s p h \<Longrightarrow> s \<le> p \<Longrightarrow> p < length h \<Longrightarrow> rising key s (snd (sink key h p)) (fst (sink key h p))"
proof (induction "length h - p" arbitrary: h p rule: less_induct)
  case less
  show ?case
  proof (cases "2 * p + 1 < length h")
    case True
    let ?c = "smaller_child key h p"
    have c: "p < ?c" "?c < length h" using smaller_child_bounds [OF True] by blast+
    then have "rising key s (snd (sink key (swap h p ?c) ?c)) (fst (sink key (swap h p ?c) ?c))"
      using less.prems sink_step [OF less.prems(1) True less.prems(2)] by (intro less.hyps) auto
    then show ?thesis using True by (simp add: sink.simps [of key h p])
  next
    case False
    then show ?thesis using less.prems by (auto simp: sink.simps [of key h p] rising_def parent_cases)
  qed
qed

lemma bubble_step:
  assumes r: "rising key s p h" and p: "p < length h" "s < p" "s \<le> parent p" and less: "key (h ! p) < key (h ! parent p)"
  shows "rising key s (parent p) (swap h p (parent p))"
proof -
  let ?q = "parent p"
  have q: "?q < p" using p(2) by (simp add: parent_less)
  have n: "swap h p ?q ! i = (if i = ?q then h ! p else if i = p then h ! ?q else h ! i)" if "i < length h" for i
    using swap_nth [of p h ?q i] q p that by simp
  have ord: "key (h ! parent i) \<le> key (h ! i)" if "i < length h" "0 < i" "s \<le> parent i" "i \<noteq> p" for i
    using r that by (cases "parent i = p") (auto simp: rising_def loose_def)
  have up: "key (h ! ?q) \<le> key (h ! i)" if "i < length h" "0 < i" "parent i = p" for i
    using r that p unfolding rising_def loose_def by (metis gr_implies_not_zero not_gr_zero)
  show ?thesis
    unfolding rising_def loose_def
  proof (intro conjI allI impI)
    fix i assume i: "i < length (swap h p ?q)" "0 < i" "s \<le> parent i" "i \<noteq> ?q" "parent i \<noteq> ?q"
    have j: "parent i < length h" using parent_le [of i] i(1) by simp
    have "i \<noteq> p" using i(5) by blast
    then show "key (swap h p ?q ! parent i) \<le> key (swap h p ?q ! i)"
      using i j n [of i] n [of "parent i"] ord [of i] up [of i] by auto
  next
    fix i assume i: "i < length (swap h p ?q)" "0 < i" "0 < ?q" "parent i = ?q" "s \<le> parent ?q"
    have "key (h ! parent ?q) \<le> key (h ! ?q)" using ord [of ?q] i q p by simp
    moreover have "key (h ! ?q) \<le> key (h ! i)" if "i \<noteq> p" using ord [of i] i that p by simp
    moreover have "parent ?q \<noteq> p" "parent ?q \<noteq> ?q" "i \<noteq> ?q" using parent_less [of ?q] parent_less [of i] i q by auto
    ultimately show "key (swap h p ?q ! parent ?q) \<le> key (swap h p ?q ! i)"
      using i n [of i] n [of "parent ?q"] parent_le [of ?q] q p by (auto intro: order_trans)
  next
    fix i assume i: "i < length (swap h p ?q)" "0 < i" "parent i = ?q"
    have "key (h ! ?q) \<le> key (h ! i)" if "i \<noteq> p" using ord [of i] i that p by simp
    moreover have "i \<noteq> ?q" using parent_less [of i] i by auto
    ultimately show "key (swap h p ?q ! ?q) \<le> key (swap h p ?q ! i)"
      using i n [of i] n [of ?q] q p less by (auto intro: order_trans [OF less_imp_le [OF less]])
  qed
qed

text \<open>\<open>p\<close> lies below \<open>s\<close>: its chain of parents meets \<open>s\<close>.\<close>

definition below :: "nat \<Rightarrow> nat \<Rightarrow> bool" where
  "below s p \<longleftrightarrow> (\<exists>k. (parent ^^ k) p = s)"

lemma below_parent: "below s p \<Longrightarrow> p \<noteq> s \<Longrightarrow> below s (parent p)"
  unfolding below_def by (metis funpow_0 funpow_simps_right(2) not0_implies_Suc o_apply)

lemma below_le: "below s p \<Longrightarrow> s \<le> p"
proof -
  have "(parent ^^ k) p \<le> p" for k
    by (induction k) (auto intro: order_trans [OF parent_le])
  then show "below s p \<Longrightarrow> s \<le> p" by (auto simp: below_def)
qed

lemma below_child: "below s p \<Longrightarrow> parent c = p \<Longrightarrow> below s c"
  unfolding below_def by (metis funpow_simps_right(2) o_apply)

lemma bubble_up_heap: "rising key s p h \<Longrightarrow> below s p \<Longrightarrow> p < length h \<Longrightarrow> heap_from key s (bubble_up key h s p)"
proof (induction p arbitrary: h rule: less_induct)
  case (less p)
  show ?case
  proof (cases "s < p \<and> key (h ! p) < key (h ! parent p)")
    case True
    have q: "below s (parent p)" using below_parent [OF less.prems(2)] True by simp
    have "heap_from key s (bubble_up key (swap h p (parent p)) s (parent p))"
      using True parent_less [of p] parent_le [of p] q less.prems
      by (intro less.IH bubble_step below_le) auto
    then show ?thesis using True by (simp add: bubble_up.simps [of key h s p])
  next
    case False
    have "key (h ! parent i) \<le> key (h ! i)" if i: "i < length h" "0 < i" "s \<le> parent i" for i
    proof (cases "i = p")
      case True
      then have "s < p" using i parent_less [of p] by simp
      then show ?thesis using False True by auto
    next
      case ne: False
      then show ?thesis using less.prems(1) i by (cases "parent i = p") (auto simp: rising_def loose_def)
    qed
    moreover have "bubble_up key h s p = h" by (subst bubble_up.simps) (rule if_not_P [OF False])
    ultimately show ?thesis by (simp add: heap_from_def)
  qed
qed

lemma sink_below: "below s p \<Longrightarrow> below s (snd (sink key h p))"
proof (induction "length h - p" arbitrary: h p rule: less_induct)
  case less
  show ?case
  proof (cases "2 * p + 1 < length h")
    case True
    let ?c = "smaller_child key h p"
    have c: "p < ?c" "?c < length h" "parent ?c = p" using smaller_child_bounds [OF True, of key] by blast+
    then have "below s (snd (sink key (swap h p ?c) ?c))"
      using below_child [OF less.prems c(3)] by (intro less.hyps) auto
    then show ?thesis using True by (simp add: sink.simps [of key h p])
  qed (use less.prems in \<open>simp add: sink.simps [of key h p]\<close>)
qed

lemma siftup_heap:
  assumes "loose key s s h" and "s < length h"
  shows "heap_from key s (siftup key h s)"
proof -
  have "below s s" by (auto simp: below_def intro: exI [of _ 0])
  then show ?thesis
    using assms sink_loose [of key s s h] sink_below [of s s key h] sink_mset [of s h key]
    by (auto simp: siftup_def split_beta intro: bubble_up_heap)
qed

lemma heap_root:
  assumes "heap_from key 0 h" and "i < length h"
  shows "key (h ! 0) \<le> key (h ! i)"
  using assms(2)
proof (induction i rule: less_induct)
  case (less i)
  show ?case
  proof (cases "i = 0")
    case False
    then have "key (h ! parent i) \<le> key (h ! i)" "key (h ! 0) \<le> key (h ! parent i)"
      using assms(1) less parent_less [of i] by (auto simp: heap_from_def)
    then show ?thesis by simp
  qed simp
qed

lemma heappush_heap: "heap_from key 0 h \<Longrightarrow> heap_from key 0 (heappush key h x)"
proof -
  assume h: "heap_from key 0 h"
  have "(parent ^^ k) n = 0" if "n \<le> k" for n k
    using that
  proof (induction k arbitrary: n)
    case (Suc k)
    have "parent n \<le> k" using Suc.prems parent_less [of n] by (cases "n = 0") (auto simp: parent_def)
    then show ?case using Suc.IH [of "parent n"] by (simp add: funpow_swap1)
  qed simp
  then have "below 0 (length h)" unfolding below_def by blast
  moreover have "rising key 0 (length h) (h @ [x])"
  proof -
    have ne: "parent i \<noteq> length h" if "i < length (h @ [x])" "0 < i" for i
      using parent_less [OF that(2)] that(1) by simp
    show ?thesis
      using h ne by (auto simp: rising_def loose_def heap_from_def nth_append less_Suc_eq dest: parent_less)
  qed
  ultimately show ?thesis unfolding heappush_def by (intro bubble_up_heap) simp_all
qed

lemma heappop_heap:
  assumes "heap_from key 0 h" and "heappop key h = Some (x, h')"
  shows "heap_from key 0 h' \<and> (\<forall>y \<in> set h. key x \<le> key y) \<and> x = h ! 0"
proof (cases h)
  case (Cons z zs)
  have least: "\<forall>y \<in> set h. key (h ! 0) \<le> key y"
    using heap_root [OF assms(1)] by (metis in_set_conv_nth)
  show ?thesis
  proof (cases zs)
    case Nil
    then show ?thesis using assms(2) Cons by (auto simp: heap_from_def)
  next
    case (Cons y ys)
    let ?l = "last zs # butlast zs"
    have x: "x = h ! 0" and h': "h' = siftup key ?l 0"
      using assms(2) Cons \<open>h = z # zs\<close> by simp_all
    have n: "?l ! i = h ! i" if "i < length ?l" "0 < i" for i
      using that \<open>h = z # zs\<close> by (cases i) (simp_all add: nth_butlast)
    have "loose key 0 0 ?l"
      unfolding loose_def
    proof (intro conjI allI impI)
      fix i assume i: "i < length ?l" "0 < i" "i \<noteq> 0" "parent i \<noteq> 0"
      then have "parent i < length ?l" using parent_less [of i] by simp
      moreover have "length ?l < length h" using \<open>h = z # zs\<close> Cons by simp
      ultimately show "key (?l ! parent i) \<le> key (?l ! i)"
        using i n [of i] n [of "parent i"] assms(1) by (simp add: heap_from_def)
    qed simp
    then show ?thesis using siftup_heap [of key 0 ?l] least x h' by simp
  qed
qed (use assms(2) in simp)

lemma heapify_heap: "heap_from key 0 (heapify key h)"
proof -
  have "heap_from key 0 (fold (\<lambda>i h. siftup key h i) (rev [0..<m]) h)" if "m \<le> length h" "heap_from key m h" for m and h :: "'a list"
    using that
  proof (induction m arbitrary: h)
    case (Suc m)
    have "loose key m m h"
      using Suc.prems(2) parent_less [of m] by (auto simp: loose_def heap_from_def Suc_le_eq)
    then have "heap_from key m (siftup key h m)" using Suc.prems(1) by (intro siftup_heap) simp_all
    then show ?case using Suc siftup_mset(2) [of m h key] by simp
  qed simp
  moreover have "heap_from key (length h div 2) h" by (auto simp: heap_from_def parent_def)
  ultimately show ?thesis unfolding heapify_def by simp
qed

section \<open>The interface\<close>

text \<open>What a user of the heap may rely on: the elements are kept, and a removal gives a least one.\<close>

locale priority_list =
  fixes key :: "'a \<Rightarrow> 'k :: linorder"
    and push :: "'a list \<Rightarrow> 'a \<Rightarrow> 'a list"
    and pop :: "'a list \<Rightarrow> ('a \<times> 'a list) option"
    and repair :: "'a list \<Rightarrow> 'a list"
    and ordered :: "'a list \<Rightarrow> bool"
  assumes ordered_Nil: "ordered []"
    and push_ordered: "ordered h \<Longrightarrow> ordered (push h x)"
    and push_mset: "mset (push h x) = add_mset x (mset h)"
    and pop_None: "pop h = None \<longleftrightarrow> h = []"
    and pop_ordered: "ordered h \<Longrightarrow> pop h = Some (x, h') \<Longrightarrow> ordered h'"
    and pop_head: "ordered h \<Longrightarrow> pop h = Some (x, h') \<Longrightarrow> x = h ! 0"
    and pop_mset: "pop h = Some (x, h') \<Longrightarrow> mset h = add_mset x (mset h')"
    and pop_least: "ordered h \<Longrightarrow> pop h = Some (x, h') \<Longrightarrow> y \<in> set h \<Longrightarrow> key x \<le> key y"
    and repair_ordered: "ordered (repair h)"
    and repair_mset: "mset (repair h) = mset h"
begin

lemma push_set [simp]: "set (push h x) = insert x (set h)"
  using push_mset [of h x] by (metis set_mset_add_mset_insert set_mset_mset)

lemma push_length [simp]: "length (push h x) = Suc (length h)"
  using push_mset [of h x] by (metis size_add_mset size_mset)

lemma repair_set [simp]: "set (repair h) = set h"
  using repair_mset [of h] by (metis set_mset_mset)

lemma repair_length [simp]: "length (repair h) = length h"
  using repair_mset [of h] by (metis size_mset)

lemma pop_set: "pop h = Some (x, h') \<Longrightarrow> set h = insert x (set h')"
  using pop_mset [of h x h'] by (metis set_mset_add_mset_insert set_mset_mset)

lemma pop_length: "pop h = Some (x, h') \<Longrightarrow> length h = Suc (length h')"
  using pop_mset [of h x h'] by (metis size_add_mset size_mset)

lemma head_least: "ordered h \<Longrightarrow> y \<in> set h \<Longrightarrow> key (h ! 0) \<le> key y"
proof -
  assume h: "ordered h" and y: "y \<in> set h"
  then have "pop h \<noteq> None" using pop_None [of h] by auto
  then obtain x h' where p: "pop h = Some (x, h')" by auto
  show ?thesis using pop_least [OF h p y] pop_head [OF h p] by simp
qed

lemma pop_SomeD:
  assumes "ordered h" and "h \<noteq> []"
  shows "\<exists>h'. pop h = Some (h ! 0, h')"
proof -
  obtain x h' where p: "pop h = Some (x, h')" using pop_None [of h] assms(2) by auto
  then show ?thesis using pop_head [OF assms(1) p] by blast
qed

text \<open>Any measure that identifies the elements is permuted, not changed.\<close>

lemma push_image: "mset (map f (push h x)) = add_mset (f x) (mset (map f h))"
  using push_mset [of h x] by simp

lemma repair_image: "mset (map f (repair h)) = mset (map f h)"
  using repair_mset [of h] by simp

lemma pop_image: "pop h = Some (x, h') \<Longrightarrow> mset (map f h) = add_mset (f x) (mset (map f h'))"
  using pop_mset [of h x h'] by simp

end

interpretation heapq: priority_list key "heappush key" "heappop key" "heapify key" "heap_from key 0"
  for key :: "'a \<Rightarrow> 'k :: linorder"
proof
  show "heappop key h = None \<longleftrightarrow> h = []" for h by (cases "(key, h)" rule: heappop.cases) simp_all
qed (simp_all add: heap_from_def [of key 0 "[]"] heappush_heap heappush_mset heapify_heap heapify_mset
       heappop_mset heappop_heap [THEN conjunct1] heappop_heap [THEN conjunct2, THEN conjunct1, rule_format]
       heappop_heap [THEN conjunct2, THEN conjunct2])

end
