(* ===== verification/Market_Event.thy ===== *)
theory Market_Event
  imports Terminal_Evidence Py_Text
begin

text \<open>
  \<open>MarketEvent\<close> (\<open>models.py\<close>) and the reading of its JSON payload: \<open>_value\<close>, \<open>_number\<close> and
  \<open>_bounded_display_text\<close> of \<open>intelligence/features.py\<close>. A payload comes from a decoded chain
  event, whose providers use several spellings of a key. A character is a Latin-1 code point.

  \<open>platform\<close> holds what Python leaves to the machine or to its printer and what no theorem
  needs to know: \<open>math.log10\<close> (the C library's, not correctly rounded) and \<open>str\<close> of a
  float, list or object.
\<close>

section \<open>Model\<close>

record platform =
  pl_log10 :: "int \<Rightarrow> pyfloat"
  pl_text :: "json \<Rightarrow> string"

record market_event =
  me_event_id :: string
  me_source :: string
  me_kind :: event_kind
  me_mint :: "string option"
  me_signature :: "string option"
  me_slot :: "int option"
  me_block_time :: "time option"
  me_received_at :: time
  me_schema_version :: int
  me_payload :: "(string \<times> json) list"

text \<open>\<open>_value\<close>: the first key that is present with another value than \<open>None\<close>.\<close>

fun payload_value :: "(string \<times> json) list \<Rightarrow> string list \<Rightarrow> json option" where
  "payload_value payload [] = None"
| "payload_value payload (key # keys) =
     (case map_of payload key of
        None \<Rightarrow> payload_value payload keys
      | Some JNull \<Rightarrow> payload_value payload keys
      | Some v \<Rightarrow> Some v)"

text \<open>\<open>_number\<close>: \<open>int\<close> of that value, or the default.\<close>

definition payload_number :: "(string \<times> json) list \<Rightarrow> string list \<Rightarrow> int \<Rightarrow> int" where
  "payload_number payload keys dflt =
     (case payload_value payload keys of
        None \<Rightarrow> dflt
      | Some v \<Rightarrow> (case json_int v of None \<Rightarrow> dflt | Some n \<Rightarrow> n))"

text \<open>\<open>isinstance(v, str)\<close>, and \<open>str(v)\<close>.\<close>

definition json_str :: "json option \<Rightarrow> string option" where
  "json_str v = (case v of Some (JStr s) \<Rightarrow> Some s | _ \<Rightarrow> None)"

fun py_str :: "platform \<Rightarrow> json \<Rightarrow> string" where
  "py_str pl (JStr s) = s"
| "py_str pl JNull = ''None''"
| "py_str pl (JBool b) = (if b then ''True'' else ''False'')"
| "py_str pl (JInt n) = str_of_int n"
| "py_str pl v = pl_text pl v"

text \<open>\<open>s.lower()\<close>, \<open>c.isprintable()\<close> and \<open>" ".join(s.split())\<close>.\<close>

definition lower_char :: "char \<Rightarrow> char" where
  "lower_char c =
     (let n = of_char c :: int in
      if (65 \<le> n \<and> n \<le> 90) \<or> (192 \<le> n \<and> n \<le> 222 \<and> n \<noteq> 215) then char_of (n + 32) else c)"

definition py_lower :: "string \<Rightarrow> string" where
  "py_lower s = map lower_char s"

definition printable :: "char \<Rightarrow> bool" where
  "printable c \<longleftrightarrow>
     (let n = of_char c :: int in (32 \<le> n \<and> n \<le> 126) \<or> (161 \<le> n \<and> n \<noteq> 173))"

fun squeeze :: "string \<Rightarrow> string" where
  "squeeze (a # b # s) = (if a = CHR '' '' \<and> b = CHR '' '' then squeeze (b # s) else a # squeeze (b # s))"
| "squeeze s = s"

definition trim_blanks :: "string \<Rightarrow> string" where
  "trim_blanks s = rev (dropWhile (\<lambda>c. c = CHR '' '') (rev (dropWhile (\<lambda>c. c = CHR '' '') s)))"

definition bounded_display_text :: "json option \<Rightarrow> nat \<Rightarrow> string option" where
  "bounded_display_text v limit =
     (case json_str v of
        None \<Rightarrow> None
      | Some s \<Rightarrow>
          (let t = take limit (squeeze (trim_blanks (filter printable s))) in
           if t = [] then None else Some t))"

section \<open>Lemmas\<close>

lemma payload_value_empty [simp]: "payload_value [] keys = None"
  by (induction keys) simp_all

lemma payload_number_empty [simp]: "payload_number [] keys dflt = dflt"
  by (simp add: payload_number_def)

lemma bounded_display_text_length:
  "bounded_display_text v limit = Some s \<Longrightarrow> s \<noteq> [] \<and> length s \<le> limit"
  by (auto simp: bounded_display_text_def Let_def split: option.splits if_splits)

end
