(* ===== verification/Event_Queue.thy ===== *)
theory Event_Queue
  imports Heapq Market_Event "HOL-Library.Product_Lexorder"
begin

text \<open>
  \<open>backend/signal_arcade/event_queue.py\<close>: the bounded priority queue with a season boundary, over
  \<open>asyncio.PriorityQueue\<close>, and the admission of an event by \<open>Orchestrator.enqueue_event\<close>
  (\<open>orchestrator.py\<close>), which is its only producer.

  The queue is the record \<open>queue\<close>. An operation that raises leaves the queue as it was, so it is a
  function to \<open>result\<close>. A coroutine runs without interruption between two \<open>await\<close>s: \<open>put\<close> is
  \<open>put_attempt\<close>, which either returns or goes to sleep on a new future, and the steps that follow
  when the future is resolved (\<open>put_attempt\<close> again) or the task is cancelled (\<open>put_cancelled\<close>).
  Futures are numbered; \<open>eq_futures\<close> gives the state of each; the cancellation of a sleeping task and
  its \<open>except\<close> block are one step. The lock of the class has no effect
  inside one event loop. \<open>intake\<close> adds the counters of the orchestrator and the sleeping producers,
  and \<open>intake_step\<close> has every call that the program makes.
\<close>

section \<open>State\<close>

text \<open>\<open>QueuedEvent\<close> is (priority, sequence, event); a row of the heap has the boundary flag in front.\<close>

type_synonym item = "int \<times> int \<times> market_event"
type_synonym row = "int \<times> int \<times> int \<times> market_event"

datatype future_state = FPending | FResolved | FCancelled

record queue =
  eq_maxsize :: int
  eq_boundary :: "int option"
  eq_pending :: "int set"
  eq_dequeued :: "int list"
  eq_rows :: "row list"
  eq_unfinished :: int
  eq_putters :: "nat list"
  eq_getters :: "nat list"
  eq_futures :: "nat \<Rightarrow> future_state"
  eq_next_future :: nat

fun row_key :: "row \<Rightarrow> int \<times> int \<times> int" where
  "row_key (later, priority, sequence, event) = (later, priority, sequence)"

fun row_later :: "row \<Rightarrow> int" where
  "row_later (later, priority, sequence, event) = later"

fun row_seq :: "row \<Rightarrow> int" where
  "row_seq (later, priority, sequence, event) = sequence"

fun row_priority :: "row \<Rightarrow> int" where
  "row_priority (later, priority, sequence, event) = priority"

fun row_item :: "row \<Rightarrow> item" where
  "row_item (later, priority, sequence, event) = (priority, sequence, event)"

definition new_queue :: "int \<Rightarrow> queue" where
  "new_queue maxsize =
     \<lparr> eq_maxsize = maxsize, eq_boundary = None, eq_pending = {}, eq_dequeued = [], eq_rows = [],
       eq_unfinished = 0, eq_putters = [], eq_getters = [], eq_futures = (\<lambda>_. FPending), eq_next_future = 0 \<rparr>"

section \<open>Operations\<close>

text \<open>\<open>_wakeup_next\<close>: drop finished waiters, resolve the first that still waits.\<close>

fun wakeup_next :: "nat list \<Rightarrow> (nat \<Rightarrow> future_state) \<Rightarrow> nat list \<times> (nat \<Rightarrow> future_state)" where
  "wakeup_next [] fs = ([], fs)"
| "wakeup_next (w # ws) fs = (if fs w \<noteq> FPending then wakeup_next ws fs else (ws, fs(w := FResolved)))"

definition wake_putter :: "queue \<Rightarrow> queue" where
  "wake_putter q =
     (case wakeup_next (eq_putters q) (eq_futures q) of
        (ws, fs) \<Rightarrow> q\<lparr> eq_putters := ws, eq_futures := fs \<rparr>)"

definition wake_getter :: "queue \<Rightarrow> queue" where
  "wake_getter q =
     (case wakeup_next (eq_getters q) (eq_futures q) of
        (ws, fs) \<Rightarrow> q\<lparr> eq_getters := ws, eq_futures := fs \<rparr>)"

text \<open>\<open>asyncio.Queue.qsize\<close> and \<open>full\<close>.\<close>

definition qsize :: "queue \<Rightarrow> int" where
  "qsize q = int (length (eq_rows q))"

definition full :: "queue \<Rightarrow> bool" where
  "full q \<longleftrightarrow> 0 < eq_maxsize q \<and> eq_maxsize q \<le> qsize q"

definition admit :: "int \<Rightarrow> queue \<Rightarrow> queue" where
  "admit sequence q = q\<lparr> eq_pending := insert sequence (eq_pending q) \<rparr>"

definition boundary_active :: "queue \<Rightarrow> bool" where
  "boundary_active q \<longleftrightarrow> eq_boundary q \<noteq> None"

definition has_admitted_work :: "queue \<Rightarrow> bool" where
  "has_admitted_work q \<longleftrightarrow> eq_pending q \<noteq> {}"

definition has_dequeued_work :: "queue \<Rightarrow> bool" where
  "has_dequeued_work q \<longleftrightarrow> eq_dequeued q \<noteq> []"

definition forget :: "int \<Rightarrow> queue \<Rightarrow> queue" where
  "forget sequence q = q\<lparr> eq_pending := eq_pending q - {sequence} \<rparr>"

text \<open>\<open>int(self.boundary is not None and sequence > self.boundary)\<close>.\<close>

definition later_flag :: "int option \<Rightarrow> int \<Rightarrow> int" where
  "later_flag boundary sequence =
     (case boundary of None \<Rightarrow> 0 | Some b \<Rightarrow> if b < sequence then 1 else 0)"

definition put_row :: "item \<Rightarrow> queue \<Rightarrow> queue" where
  "put_row item q =
     (case item of (priority, sequence, event) \<Rightarrow>
        q\<lparr> eq_pending := insert sequence (eq_pending q),
           eq_rows := heappush row_key (eq_rows q)
                        (later_flag (eq_boundary q) sequence, priority, sequence, event) \<rparr>)"

text \<open>The producers admitted before the boundary that still wait for capacity.\<close>

definition owed :: "queue \<Rightarrow> int \<Rightarrow> int set" where
  "owed q b = {s \<in> eq_pending q. s \<le> b \<and> s \<notin> row_seq ` set (eq_rows q) \<union> set (eq_dequeued q)}"

definition reserved_capacity :: "item \<Rightarrow> queue \<Rightarrow> bool" where
  "reserved_capacity item q \<longleftrightarrow>
     (case eq_boundary q of
        None \<Rightarrow> False
      | Some b \<Rightarrow> b < fst (snd item) \<and> 0 < eq_maxsize q \<and>
                  max 0 (eq_maxsize q - int (card (owed q b))) \<le> qsize q)"

definition put_nowait :: "item \<Rightarrow> queue \<Rightarrow> queue result" where
  "put_nowait item q =
     (if reserved_capacity item q \<or> full q then Inl QueueFull
      else let q' = put_row item q
           in Inr (wake_getter (q'\<lparr> eq_unfinished := eq_unfinished q' + 1 \<rparr>)))"

text \<open>One turn of the loop of \<open>put\<close>: \<open>None\<close> when it returns, the future when it goes to sleep.\<close>

definition put_attempt :: "item \<Rightarrow> queue \<Rightarrow> nat option \<times> queue" where
  "put_attempt item q =
     (case put_nowait item q of
        Inr q' \<Rightarrow> (None, q')
      | Inl _ \<Rightarrow>
          let q1 = (if \<not> full q then wake_putter q else q);
              putter = eq_next_future q1
          in (Some putter,
              q1\<lparr> eq_futures := (eq_futures q1)(putter := FPending), eq_next_future := putter + 1,
                  eq_putters := eq_putters q1 @ [putter] \<rparr>))"

text \<open>The \<open>except BaseException\<close> block of \<open>put\<close>, for the producer asleep on \<open>putter\<close>.\<close>

definition cancel_future :: "nat \<Rightarrow> queue \<Rightarrow> queue" where
  "cancel_future f q =
     (if eq_futures q f = FPending then q\<lparr> eq_futures := (eq_futures q)(f := FCancelled) \<rparr> else q)"

definition put_cancelled :: "nat \<Rightarrow> queue \<Rightarrow> queue" where
  "put_cancelled putter q =
     (let q1 = cancel_future putter q;
          q2 = q1\<lparr> eq_putters := remove1 putter (eq_putters q1) \<rparr>
      in if \<not> full q2 \<and> eq_futures q2 putter \<noteq> FCancelled then wake_putter q2 else q2)"

definition queue_empty :: "queue \<Rightarrow> bool" where
  "queue_empty q \<longleftrightarrow> eq_rows q = [] \<or> row_later (eq_rows q ! 0) \<noteq> 0"

text \<open>\<open>asyncio.Queue.get_nowait\<close> with the class's \<open>_get\<close>.\<close>

definition get_nowait :: "queue \<Rightarrow> (item \<times> queue) result" where
  "get_nowait q =
     (if queue_empty q then Inl QueueEmpty
      else (case heappop row_key (eq_rows q) of
              None \<Rightarrow> Inl QueueEmpty
            | Some (row, rows) \<Rightarrow>
                Inr (row_item row,
                     wake_putter (q\<lparr> eq_rows := rows, eq_dequeued := eq_dequeued q @ [row_seq row] \<rparr>))))"

definition get_nowait_before :: "int \<Rightarrow> queue \<Rightarrow> (item \<times> queue) result" where
  "get_nowait_before priority q =
     (if queue_empty q \<or> priority \<le> row_priority (eq_rows q ! 0) then Inl QueueEmpty else get_nowait q)"

definition has_ready_before :: "int \<Rightarrow> queue \<Rightarrow> bool" where
  "has_ready_before priority q \<longleftrightarrow> \<not> queue_empty q \<and> row_priority (eq_rows q ! 0) < priority"

text \<open>The rest of a batch in \<open>_event_worker_loop\<close>: take rows until there are \<open>n\<close> or none is ready.\<close>

fun take_batch :: "nat \<Rightarrow> queue \<Rightarrow> item list \<times> queue" where
  "take_batch 0 q = ([], q)"
| "take_batch (Suc n) q =
     (case get_nowait q of
        Inl _ \<Rightarrow> ([], q)
      | Inr (item, q') \<Rightarrow> (case take_batch n q' of (batch, q'') \<Rightarrow> (item # batch, q'')))"

text \<open>A worker that finds nothing to take sleeps as a getter (\<open>asyncio.Queue.get\<close>).\<close>

definition get_sleep :: "queue \<Rightarrow> queue" where
  "get_sleep q =
     (let getter = eq_next_future q
      in q\<lparr> eq_futures := (eq_futures q)(getter := FPending), eq_next_future := getter + 1,
            eq_getters := eq_getters q @ [getter] \<rparr>)"

definition promoted :: "string \<Rightarrow> row \<Rightarrow> bool" where
  "promoted mint row \<longleftrightarrow> (case row of (later, priority, sequence, event) \<Rightarrow> 0 < priority \<and> me_mint event = Some mint)"

definition promote_row :: "string \<Rightarrow> row \<Rightarrow> row" where
  "promote_row mint row =
     (if promoted mint row
      then (case row of (later, priority, sequence, event) \<Rightarrow> (later, 0, sequence, event)) else row)"

definition promote_mint :: "string \<Rightarrow> queue \<Rightarrow> int \<times> queue" where
  "promote_mint mint q =
     (let changed = int (length (filter (promoted mint) (eq_rows q)));
          rows = map (promote_row mint) (eq_rows q)
      in (changed, q\<lparr> eq_rows := (if changed \<noteq> 0 then heapify row_key rows else rows) \<rparr>))"

text \<open>\<open>asyncio.Queue.task_done\<close>, and the class's own.\<close>

definition unfinished_done :: "queue \<Rightarrow> queue result" where
  "unfinished_done q =
     (if eq_unfinished q \<le> 0 then Inl (ValueError ''task_done() called too many times'')
      else Inr (q\<lparr> eq_unfinished := eq_unfinished q - 1 \<rparr>))"

definition task_done :: "queue \<Rightarrow> queue result" where
  "task_done q =
     rbind (unfinished_done q) (\<lambda>q'.
       Inr (case eq_dequeued q' of
              [] \<Rightarrow> q'
            | s # rest \<Rightarrow> q'\<lparr> eq_pending := eq_pending q' - {s}, eq_dequeued := rest \<rparr>))"

definition clear_later :: "row \<Rightarrow> row" where
  "clear_later row = (case row of (later, rest) \<Rightarrow> (0, rest))"

definition begin_boundary :: "int \<Rightarrow> queue \<Rightarrow> queue" where
  "begin_boundary sequence q =
     (if eq_boundary q \<noteq> None then q
      else q\<lparr> eq_boundary := Some (Max (insert sequence (eq_pending q))),
              eq_rows := heapify row_key (map clear_later (eq_rows q)) \<rparr>)"

definition boundary_ready :: "queue \<Rightarrow> bool" where
  "boundary_ready q \<longleftrightarrow>
     (case eq_boundary q of None \<Rightarrow> False | Some b \<Rightarrow> \<not> (\<exists>s \<in> eq_pending q. s \<le> b))"

definition end_boundary :: "queue \<Rightarrow> queue" where
  "end_boundary q =
     wake_putter (wake_getter
       (q\<lparr> eq_rows := heapify row_key (map clear_later (eq_rows q)), eq_boundary := None \<rparr>))"

text \<open>\<open>while self._putters: self._wakeup_next(self._putters)\<close>.\<close>

fun resolve_all :: "nat list \<Rightarrow> (nat \<Rightarrow> future_state) \<Rightarrow> nat \<Rightarrow> future_state" where
  "resolve_all [] fs = fs"
| "resolve_all (w # ws) fs = resolve_all ws (if fs w \<noteq> FPending then fs else fs(w := FResolved))"

text \<open>\<open>super().task_done()\<close> once per discarded row.\<close>

fun done_times :: "nat \<Rightarrow> queue \<Rightarrow> queue result" where
  "done_times 0 q = Inr q"
| "done_times (Suc n) q = rbind (unfinished_done q) (done_times n)"

definition discard_queued :: "queue \<Rightarrow> queue result" where
  "discard_queued q =
     rbind (done_times (length (eq_rows q))
              (q\<lparr> eq_pending := eq_pending q - row_seq ` set (eq_rows q), eq_rows := [], eq_boundary := None \<rparr>))
       (\<lambda>q'. Inr (q'\<lparr> eq_putters := [], eq_futures := resolve_all (eq_putters q') (eq_futures q') \<rparr>))"

section \<open>Admission by the orchestrator\<close>

text \<open>The counters of the orchestrator, and the producers asleep in \<open>put\<close> with their futures.\<close>

record intake =
  in_queue :: queue
  in_sequence :: int
  in_enqueued :: int
  in_dropped :: int
  in_waiting :: "(nat \<times> item) list"

definition frame_seq :: "nat \<times> item \<Rightarrow> int" where
  "frame_seq frame = fst (snd (snd frame))"

definition new_intake :: "int \<Rightarrow> intake" where
  "new_intake maxsize =
     \<lparr> in_queue = new_queue maxsize, in_sequence = 0, in_enqueued = 0, in_dropped = 0, in_waiting = [] \<rparr>"

text \<open>\<open>await self.event_queue.put(queued)\<close> up to its return or its first sleep.\<close>

definition put_or_sleep :: "item \<Rightarrow> intake \<Rightarrow> intake" where
  "put_or_sleep item i =
     (case put_attempt item (in_queue i) of
        (None, q) \<Rightarrow> i\<lparr> in_queue := q, in_enqueued := in_enqueued i + 1 \<rparr>
      | (Some f, q) \<Rightarrow> i\<lparr> in_queue := q, in_waiting := in_waiting i @ [(f, item)] \<rparr>)"

definition shed :: "int \<Rightarrow> intake \<Rightarrow> intake" where
  "shed sequence i =
     i\<lparr> in_dropped := in_dropped i + 1, in_queue := forget sequence (in_queue i) \<rparr>"

definition enqueue_event :: "int \<Rightarrow> market_event \<Rightarrow> intake \<Rightarrow> intake" where
  "enqueue_event priority event i =
     (let sequence = in_sequence i + 1;
          queued = (priority, sequence, event);
          i' = i\<lparr> in_sequence := sequence, in_queue := admit sequence (in_queue i) \<rparr>
      in case put_nowait queued (in_queue i') of
           Inr q \<Rightarrow> i'\<lparr> in_queue := q, in_enqueued := in_enqueued i' + 1 \<rparr>
         | Inl _ \<Rightarrow> if priority = 0 then put_or_sleep queued i' else shed sequence i')"

definition drop_frame :: "nat \<Rightarrow> (nat \<times> item) list \<Rightarrow> (nat \<times> item) list" where
  "drop_frame f frames = filter (\<lambda>frame. fst frame \<noteq> f) frames"

text \<open>A sleeping producer goes on when its future is resolved, or is cancelled.\<close>

definition resume_put :: "nat \<Rightarrow> item \<Rightarrow> intake \<Rightarrow> intake" where
  "resume_put f item i = put_or_sleep item (i\<lparr> in_waiting := drop_frame f (in_waiting i) \<rparr>)"

definition cancel_put :: "nat \<Rightarrow> item \<Rightarrow> intake \<Rightarrow> intake" where
  "cancel_put f item i =
     i\<lparr> in_waiting := drop_frame f (in_waiting i),
        in_queue := forget (fst (snd item)) (put_cancelled f (in_queue i)) \<rparr>"

inductive intake_step :: "intake \<Rightarrow> intake \<Rightarrow> bool" where
  enqueue: "intake_step i (enqueue_event priority event i)"
| resume: "(f, item) \<in> set (in_waiting i) \<Longrightarrow> eq_futures (in_queue i) f = FResolved \<Longrightarrow>
     intake_step i (resume_put f item i)"
| cancel: "(f, item) \<in> set (in_waiting i) \<Longrightarrow> intake_step i (cancel_put f item i)"
| take: "get_nowait (in_queue i) = Inr (item, q) \<Longrightarrow> intake_step i (i\<lparr> in_queue := q \<rparr>)"
| take_before: "get_nowait_before priority (in_queue i) = Inr (item, q) \<Longrightarrow> intake_step i (i\<lparr> in_queue := q \<rparr>)"
| sleep: "queue_empty (in_queue i) \<Longrightarrow> intake_step i (i\<lparr> in_queue := get_sleep (in_queue i) \<rparr>)"
| finish: "has_dequeued_work (in_queue i) \<Longrightarrow> task_done (in_queue i) = Inr q \<Longrightarrow> intake_step i (i\<lparr> in_queue := q \<rparr>)"
| promote: "promote_mint mint (in_queue i) = (n, q) \<Longrightarrow> intake_step i (i\<lparr> in_queue := q \<rparr>)"
| begin_season: "intake_step i (i\<lparr> in_queue := begin_boundary (in_sequence i) (in_queue i) \<rparr>)"
| end_season: "boundary_ready (in_queue i) \<Longrightarrow> intake_step i (i\<lparr> in_queue := end_boundary (in_queue i) \<rparr>)"
| switch_source: "discard_queued (in_queue i) = Inr q \<Longrightarrow> intake_step i (i\<lparr> in_queue := q \<rparr>)"

inductive intake_reachable :: "int \<Rightarrow> intake \<Rightarrow> bool" for maxsize where
  start: "intake_reachable maxsize (new_intake maxsize)"
| step: "intake_reachable maxsize i \<Longrightarrow> intake_step i j \<Longrightarrow> intake_reachable maxsize j"

end
