(* ===== verification/Event_Intake.thy ===== *)
theory Event_Intake
  imports Event_Queue
begin

text \<open>
  The proofs about the season event queue of \<open>Event_Queue\<close>: the invariant of the intake, kept by every
  call (the heap is in order, the boundary flags are right, every event is in one place, no wake-up
  is lost, places owed to old producers are free), and what follows from it: accounting, order
  of service, respect of the season boundary and freedom from stalls.
\<close>

section \<open>Waking\<close>

lemma wakeup_next_cases:
  assumes "wakeup_next ps fs = (ws, fs')"
  shows "(\<exists>us p. ps = us @ p # ws \<and> (\<forall>u \<in> set us. fs u \<noteq> FPending) \<and> fs p = FPending \<and> fs' = fs(p := FResolved)) \<or>
    ((\<forall>u \<in> set ps. fs u \<noteq> FPending) \<and> ws = [] \<and> fs' = fs)"
  using assms
proof (induction ps fs rule: wakeup_next.induct)
  case (2 p ps fs)
  show ?case
  proof (cases "fs p = FPending")
    case True
    then have "p # ps = [] @ p # ws \<and> fs' = fs(p := FResolved)" using 2(2) by simp
    then show ?thesis using True by (metis empty_iff list.set(1))
  next
    case False
    then have "wakeup_next ps fs = (ws, fs')" using 2(2) by simp
    from 2(1) [OF False this] False show ?thesis
      by (elim disjE exE) (metis append_Cons set_ConsD, simp)
  qed
qed simp

text \<open>
  The sleeping producers \<open>F\<close>: each pending future is in the deque, each future is its own, and
  as long as one producer sleeps, there are at most as many free places as woken producers.
\<close>

definition wake_ok :: "nat list \<Rightarrow> nat list \<Rightarrow> (nat \<Rightarrow> future_state) \<Rightarrow> nat \<Rightarrow> nat list \<Rightarrow> int \<Rightarrow> bool" where
  "wake_ok ps gs fs n F room \<longleftrightarrow>
     distinct ps \<and> distinct F \<and> set ps = {f \<in> set F. fs f = FPending} \<and>
     (\<forall>f \<in> set F \<union> set gs. f < n) \<and> set gs \<inter> set F = {} \<and>
     (\<forall>f \<in> set F. fs f = FPending \<or> fs f = FResolved) \<and>
     ((\<exists>f \<in> set F. fs f = FPending) \<longrightarrow> room \<le> int (card {f \<in> set F. fs f = FResolved}))"

lemma wake_ok_room: "wake_ok ps gs fs n F room \<Longrightarrow> room' \<le> room \<Longrightarrow> wake_ok ps gs fs n F room'"
  by (auto simp: wake_ok_def)

lemma wake_ok_cong:
  assumes "\<And>f. f \<in> set F \<Longrightarrow> fs' f = fs f"
  shows "wake_ok ps gs fs' n F room \<longleftrightarrow> wake_ok ps gs fs n F room"
proof -
  have "{f \<in> set F. fs' f = x} = {f \<in> set F. fs f = x}" for x using assms by auto
  then show ?thesis using assms by (auto simp: wake_ok_def)
qed

text \<open>Waking a producer pays for one more free place; waking a getter changes nothing here.\<close>

lemma wake_ok_putter:
  assumes ok: "wake_ok ps gs fs n F room" and w: "wakeup_next ps fs = (ws, fs')"
  shows "wake_ok ws gs fs' n F (room + 1)"
  using wakeup_next_cases [OF w]
proof (elim disjE exE conjE)
  fix us p assume ps: "ps = us @ p # ws" and us: "\<forall>u \<in> set us. fs u \<noteq> FPending" and p: "fs p = FPending" "fs' = fs(p := FResolved)"
  have pF: "p \<in> set F" using ok ps by (auto simp: wake_ok_def)
  have "{f \<in> set F. fs' f = FResolved} = insert p {f \<in> set F. fs f = FResolved}" using p pF by auto
  then have "int (card {f \<in> set F. fs' f = FResolved}) = int (card {f \<in> set F. fs f = FResolved}) + 1"
    using p by (simp add: card_insert_if)
  moreover have "room \<le> int (card {f \<in> set F. fs f = FResolved})" using ok p pF by (auto simp: wake_ok_def)
  moreover have "us = []" using us ok ps by (cases us) (auto simp: wake_ok_def)
  moreover have "set ws = {f \<in> set F. fs f = FPending} - {p}" using ok ps \<open>us = []\<close> by (auto simp: wake_ok_def)
  then have "set ws = {f \<in> set F. fs' f = FPending}" using p by auto
  moreover have "fs' f = FPending \<or> fs' f = FResolved" if "f \<in> set F" for f
    using ok p that by (auto simp: wake_ok_def)
  ultimately show ?thesis using ok ps by (auto simp: wake_ok_def)
next
  assume "\<forall>u \<in> set ps. fs u \<noteq> FPending" "ws = []" "fs' = fs"
  then show ?thesis using ok by (auto simp: wake_ok_def)
qed

lemma wake_ok_getter:
  assumes ok: "wake_ok ps gs fs n F room" and w: "wakeup_next gs fs = (ws, fs')"
  shows "wake_ok ps ws fs' n F room"
  using wakeup_next_cases [OF w]
proof (elim disjE exE conjE)
  fix us p assume gs: "gs = us @ p # ws" and p: "fs p = FPending" "fs' = fs(p := FResolved)"
  have "p \<notin> set F" using ok gs by (auto simp: wake_ok_def)
  then have "fs' f = fs f" if "f \<in> set F" for f using that p by auto
  then have "wake_ok ps gs fs' n F room" using ok wake_ok_cong [of F fs' fs] by blast
  moreover have "set ws \<subseteq> set gs" using gs by auto
  ultimately show ?thesis unfolding wake_ok_def by blast
next
  assume "ws = []" "fs' = fs"
  then show ?thesis using ok by (auto simp: wake_ok_def)
qed

text \<open>A producer leaves; a woken one may give up its place.\<close>

lemma wake_ok_leave:
  assumes ok: "wake_ok ps gs fs n F room" and f: "f \<in> set F"
    and F': "distinct F'" "set F' = set F - {f}"
  shows "wake_ok (remove1 f ps) gs fs n F' (if fs f = FResolved then room - 1 else room)"
proof -
  let ?A = "{g \<in> set F. fs g = FResolved}"
  have A': "{g \<in> set F'. fs g = FResolved} = ?A - {f}" using F' by auto
  have n: "int (card (?A - {f})) = int (card ?A) - (if fs f = FResolved then 1 else 0)"
  proof (cases "fs f = FResolved")
    case True
    then have "card ?A = Suc (card (?A - {f}))" using f by (intro card.remove) auto
    then show ?thesis using True by simp
  qed simp
  have "set (remove1 f ps) = {g \<in> set F'. fs g = FPending}"
    using ok F' by (auto simp: wake_ok_def)
  moreover have "(\<exists>g \<in> set F'. fs g = FPending) \<longrightarrow>
      (if fs f = FResolved then room - 1 else room) \<le> int (card {g \<in> set F'. fs g = FResolved})"
  proof
    assume "\<exists>g \<in> set F'. fs g = FPending"
    then have "\<exists>g \<in> set F. fs g = FPending" using F' by blast
    then have "room \<le> int (card ?A)" using ok by (simp add: wake_ok_def)
    then show "(if fs f = FResolved then room - 1 else room) \<le> int (card {g \<in> set F'. fs g = FResolved})"
      unfolding A' n by simp
  qed
  moreover have "distinct (remove1 f ps)" using ok by (simp add: wake_ok_def)
  moreover have "\<forall>g \<in> set F' \<union> set gs. g < n" "set gs \<inter> set F' = {}" "\<forall>g \<in> set F'. fs g = FPending \<or> fs g = FResolved"
    using ok F' unfolding wake_ok_def by blast+
  ultimately show ?thesis using F'(1) unfolding wake_ok_def by blast
qed

text \<open>A producer falls asleep on a new future.\<close>

lemma wake_ok_sleep:
  assumes ok: "wake_ok ps gs fs n F room" and "room' \<le> int (card {f \<in> set F. fs f = FResolved})"
  shows "wake_ok (ps @ [n]) gs (fs(n := FPending)) (n + 1) (F @ [n]) room'"
proof -
  have n: "n \<notin> set F" "n \<notin> set gs" "n \<notin> set ps" using ok by (auto simp: wake_ok_def)
  then have "{f \<in> set (F @ [n]). (fs(n := FPending)) f = FResolved} = {f \<in> set F. fs f = FResolved}" by auto
  then show ?thesis using ok n assms(2) by (auto simp: wake_ok_def less_Suc_eq)
qed

section \<open>The invariant\<close>

abbreviation wakes :: "queue \<Rightarrow> nat list \<Rightarrow> int \<Rightarrow> bool" where
  "wakes q F room \<equiv> wake_ok (eq_putters q) (eq_getters q) (eq_futures q) (eq_next_future q) F room"

definition rows_sound :: "queue \<Rightarrow> bool" where
  "rows_sound q \<longleftrightarrow>
     heap_from row_key 0 (eq_rows q) \<and>
     (\<forall>r \<in> set (eq_rows q). row_later r = later_flag (eq_boundary q) (row_seq r))"

text \<open>Every admitted event is in exactly one place; \<open>extra\<close> is one between two places.\<close>

definition places :: "intake \<Rightarrow> int list" where
  "places i = map row_seq (eq_rows (in_queue i)) @ eq_dequeued (in_queue i) @ map frame_seq (in_waiting i)"

definition accounted :: "int list \<Rightarrow> intake \<Rightarrow> bool" where
  "accounted extra i \<longleftrightarrow>
     distinct (extra @ places i) \<and> eq_pending (in_queue i) = set (extra @ places i) \<and>
     (\<forall>s \<in> set (extra @ places i). s \<le> in_sequence i) \<and>
     (\<forall>b. eq_boundary (in_queue i) = Some b \<longrightarrow> b \<le> in_sequence i) \<and>
     eq_unfinished (in_queue i) = qsize (in_queue i) + int (length (eq_dequeued (in_queue i)))"

definition parked :: "queue \<Rightarrow> bool" where
  "parked q \<longleftrightarrow> (\<exists>r \<in> set (eq_rows q). row_later r \<noteq> 0)"

definition capacity_ok :: "intake \<Rightarrow> bool" where
  "capacity_ok i \<longleftrightarrow>
     (let q = in_queue i in
      if 0 < eq_maxsize q then
        qsize q \<le> eq_maxsize q \<and>
        (\<forall>b. eq_boundary q = Some b \<longrightarrow> parked q \<longrightarrow> qsize q + int (card (owed q b)) \<le> eq_maxsize q)
      else in_waiting i = [])"

definition room :: "queue \<Rightarrow> int" where
  "room q = eq_maxsize q - qsize q"

definition sound :: "intake \<Rightarrow> bool" where
  "sound i \<longleftrightarrow>
     rows_sound (in_queue i) \<and> accounted [] i \<and> capacity_ok i \<and>
     wakes (in_queue i) (map fst (in_waiting i)) (room (in_queue i))"

lemma wake_fields [simp]:
  "eq_rows (wake_putter q) = eq_rows q" "eq_pending (wake_putter q) = eq_pending q"
  "eq_dequeued (wake_putter q) = eq_dequeued q" "eq_boundary (wake_putter q) = eq_boundary q"
  "eq_maxsize (wake_putter q) = eq_maxsize q" "eq_unfinished (wake_putter q) = eq_unfinished q"
  "eq_next_future (wake_putter q) = eq_next_future q" "eq_getters (wake_putter q) = eq_getters q"
  "eq_rows (wake_getter q) = eq_rows q" "eq_pending (wake_getter q) = eq_pending q"
  "eq_dequeued (wake_getter q) = eq_dequeued q" "eq_boundary (wake_getter q) = eq_boundary q"
  "eq_maxsize (wake_getter q) = eq_maxsize q" "eq_unfinished (wake_getter q) = eq_unfinished q"
  "eq_next_future (wake_getter q) = eq_next_future q" "eq_putters (wake_getter q) = eq_putters q"
  by (simp_all add: wake_putter_def wake_getter_def split: prod.split)

lemma wakes_putter: "wakes q F n \<Longrightarrow> wakes (wake_putter q) F (n + 1)"
  by (auto simp: wake_putter_def split: prod.split elim: wake_ok_putter)

lemma wakes_getter: "wakes q F n \<Longrightarrow> wakes (wake_getter q) F n"
  by (auto simp: wake_getter_def split: prod.split elim: wake_ok_getter)

lemma qsize_wake [simp]: "qsize (wake_putter q) = qsize q" "qsize (wake_getter q) = qsize q"
  by (simp_all add: qsize_def)

lemma qsize_nonneg [simp]: "0 \<le> qsize q"
  by (simp add: qsize_def)

lemma owed_wake [simp]: "owed (wake_putter q) b = owed q b" "owed (wake_getter q) b = owed q b"
  by (simp_all add: owed_def)

lemma parked_wake [simp]: "parked (wake_putter q) = parked q" "parked (wake_getter q) = parked q"
  by (simp_all add: parked_def)

lemma owed_frames:
  assumes "accounted extra i"
  shows "owed (in_queue i) b = {s \<in> set extra \<union> frame_seq ` set (in_waiting i). s \<le> b}"
  using assms by (auto simp: accounted_def owed_def places_def)

lemma capacity_shrinks:
  assumes "capacity_ok i" and "eq_maxsize (in_queue j) = eq_maxsize (in_queue i)"
    and "qsize (in_queue j) \<le> qsize (in_queue i)"
    and "\<And>b. eq_boundary (in_queue j) = Some b \<Longrightarrow> parked (in_queue j) \<Longrightarrow>
      eq_boundary (in_queue i) = Some b \<and> parked (in_queue i) \<and> card (owed (in_queue j) b) \<le> card (owed (in_queue i) b)"
    and "in_waiting i = [] \<Longrightarrow> in_waiting j = []"
  shows "capacity_ok j"
proof (cases "0 < eq_maxsize (in_queue i)")
  case True
  have "qsize (in_queue j) + int (card (owed (in_queue j) b)) \<le> eq_maxsize (in_queue j)"
    if "eq_boundary (in_queue j) = Some b" "parked (in_queue j)" for b
  proof -
    have "qsize (in_queue i) + int (card (owed (in_queue i) b)) \<le> eq_maxsize (in_queue i)"
      using assms(1) assms(4) [OF that] True by (simp add: capacity_ok_def Let_def)
    then show ?thesis using assms(2,3) assms(4) [OF that] by linarith
  qed
  then show ?thesis using assms(1-3) True by (simp add: capacity_ok_def Let_def)
qed (use assms in \<open>simp add: capacity_ok_def Let_def\<close>)

lemma finite_owed: "accounted extra i \<Longrightarrow> finite (owed (in_queue i) b)"
  by (simp add: owed_frames)

lemma accounted_permuted:
  assumes "accounted extra i" and "mset (extra' @ places j) = mset (extra @ places i)"
    and "eq_pending (in_queue j) = eq_pending (in_queue i)" and "in_sequence j = in_sequence i"
    and "\<forall>b. eq_boundary (in_queue j) = Some b \<longrightarrow> b \<le> in_sequence i"
    and "eq_unfinished (in_queue j) = qsize (in_queue j) + int (length (eq_dequeued (in_queue j)))"
  shows "accounted extra' j"
  using assms mset_eq_imp_distinct_iff [OF assms(2)] mset_eq_setD [OF assms(2)]
  unfolding accounted_def by simp

lemmas rows_mset = heapq.push_mset heapq.repair_mset

lemma put_nowait_Inr:
  assumes "put_nowait (priority, s, event) q = Inr q'"
  shows "\<not> reserved_capacity (priority, s, event) q \<and> \<not> full q \<and>
    q' = wake_getter (q\<lparr> eq_pending := insert s (eq_pending q),
      eq_rows := heappush row_key (eq_rows q) (later_flag (eq_boundary q) s, priority, s, event),
      eq_unfinished := eq_unfinished q + 1 \<rparr>)"
  using assms by (simp add: put_nowait_def Let_def put_row_def split: if_splits)

lemma card_owed:
  assumes "finite A" and "s \<notin> A" and "s \<le> (b :: int)"
  shows "card {x \<in> insert s A. x \<le> b} = Suc (card {x \<in> A. x \<le> b})"
proof -
  have "{x \<in> insert s A. x \<le> b} = insert s {x \<in> A. x \<le> b}" using assms(3) by auto
  then show ?thesis using assms(1,2) by simp
qed

section \<open>Putting\<close>

text \<open>A put that succeeds places the item in transit in the heap.\<close>

lemma put_nowait_sound:
  assumes q: "put_nowait (priority, s, event) (in_queue i) = Inr q'"
    and rows: "rows_sound (in_queue i)" and acc: "accounted [s] i" and cap: "capacity_ok i"
    and wk: "wakes (in_queue i) (map fst (in_waiting i)) (room (in_queue i) - 1)"
  shows "sound (i\<lparr> in_queue := q', in_enqueued := n \<rparr>)"
proof -
  let ?q = "in_queue i" and ?row = "(later_flag (eq_boundary (in_queue i)) s, priority, s, event)"
  define q1 where q1: "q1 = ?q\<lparr> eq_pending := insert s (eq_pending ?q), eq_rows := heappush row_key (eq_rows ?q) ?row,
                      eq_unfinished := eq_unfinished ?q + 1 \<rparr>"
  have q': "q' = wake_getter q1" and free: "\<not> reserved_capacity (priority, s, event) ?q" "\<not> full ?q"
    using put_nowait_Inr [OF q] by (simp_all add: q1)
  have size: "qsize q1 = qsize ?q + 1" by (simp add: q1 qsize_def)
  have pend: "eq_pending q1 = eq_pending ?q" using acc by (auto simp: q1 accounted_def)
  have "rows_sound q'" using rows heapq.push_ordered [of row_key "eq_rows ?q" ?row] by (auto simp: rows_sound_def q' q1)
  moreover have acc': "accounted [] (i\<lparr> in_queue := q', in_enqueued := n \<rparr>)"
    using acc pend size
    by (intro accounted_permuted [OF acc]) (auto simp: q' q1 places_def rows_mset accounted_def qsize_def)
  moreover have "capacity_ok (i\<lparr> in_queue := q', in_enqueued := n \<rparr>)"
  proof (cases "0 < eq_maxsize ?q")
    case True
    have "qsize ?q + 1 + int (card (owed q1 b)) \<le> eq_maxsize ?q" if b: "eq_boundary ?q = Some b" and p: "parked q1" for b
    proof -
      have o: "owed ?q b = {x \<in> insert s (frame_seq ` set (in_waiting i)). x \<le> b}"
        and o1: "owed q1 b = {x \<in> frame_seq ` set (in_waiting i). x \<le> b}"
        using owed_frames [OF acc, of b] owed_frames [OF acc', of b] by (simp_all add: q')
      show ?thesis
      proof (cases "s \<le> b")
        case True
        have "s \<notin> frame_seq ` set (in_waiting i)" using acc by (auto simp: accounted_def places_def)
        then have "card (owed ?q b) = Suc (card (owed q1 b))" using True unfolding o o1 by (intro card_owed) simp_all
        moreover have "parked ?q" using p True by (auto simp: parked_def q1 later_flag_def b)
        ultimately show ?thesis using cap b \<open>0 < eq_maxsize ?q\<close> by (auto simp: capacity_ok_def Let_def)
      next
        case False
        then have "owed ?q b = owed q1 b" unfolding o o1 by auto
        then show ?thesis using free(1) False True b by (auto simp: reserved_capacity_def)
      qed
    qed
    then show ?thesis using True free(2) size by (auto simp: capacity_ok_def Let_def q' q1 full_def)
  next
    case False
    then show ?thesis using cap by (simp add: capacity_ok_def Let_def q' q1)
  qed
  moreover have "wakes q' (map fst (in_waiting i)) (room q')"
  proof -
    have "room q1 = room ?q - 1" using size by (simp add: room_def) (simp add: q1)
    then have "wakes q1 (map fst (in_waiting i)) (room q1)" using wk by (simp add: q1)
    then show ?thesis using wakes_getter [of q1] by (simp add: q' room_def)
  qed
  ultimately show ?thesis by (simp add: sound_def)
qed

text \<open>A put that finds no place goes to sleep, after handing a wake-up on if there is a place that it
  may not take.\<close>

lemma reserved_room:
  assumes acc: "accounted [fst (snd item)] i" and res: "reserved_capacity item (in_queue i)"
  shows "room (in_queue i) \<le> int (length (in_waiting i))"
proof -
  obtain b where b: "eq_boundary (in_queue i) = Some b" "b < fst (snd item)"
    "max 0 (eq_maxsize (in_queue i) - int (card (owed (in_queue i) b))) \<le> qsize (in_queue i)"
    using res by (auto simp: reserved_capacity_def split: option.splits)
  have "owed (in_queue i) b \<subseteq> frame_seq ` set (in_waiting i)" using b(2) by (auto simp: owed_frames [OF acc])
  then have "card (owed (in_queue i) b) \<le> length (in_waiting i)"
    by (rule order_trans [OF card_mono [OF finite_imageI [OF finite_set]]])
      (rule order_trans [OF card_image_le [OF finite_set] card_length])
  then show ?thesis using b(3) by (simp add: room_def)
qed

lemma all_woken:
  assumes "wakes q F n" and "\<not> (\<exists>f \<in> set F. eq_futures q f = FPending)"
  shows "card {f \<in> set F. eq_futures q f = FResolved} = length F"
proof -
  have "{f \<in> set F. eq_futures q f = FResolved} = set F" using assms by (auto simp: wake_ok_def)
  then show ?thesis using assms(1) by (simp add: wake_ok_def distinct_card)
qed

lemma put_attempt_sleeps:
  assumes "put_nowait item q = Inl e"
  defines "q1 \<equiv> if \<not> full q then wake_putter q else q"
  shows "put_attempt item q = (Some (eq_next_future q),
    q1\<lparr> eq_futures := (eq_futures q1)(eq_next_future q := FPending), eq_next_future := eq_next_future q + 1,
        eq_putters := eq_putters q1 @ [eq_next_future q] \<rparr>)"
  using assms by (simp add: put_attempt_def Let_def)

lemma sleep_sound:
  assumes fails: "put_nowait item (in_queue i) = Inl e"
    and rows: "rows_sound (in_queue i)" and acc: "accounted [fst (snd item)] i" and cap: "capacity_ok i"
    and wk: "wakes (in_queue i) (map fst (in_waiting i)) (room (in_queue i) - 1)"
  shows "sound (put_or_sleep item i)"
proof -
  let ?q = "in_queue i" and ?F = "map fst (in_waiting i)" and ?n = "eq_next_future (in_queue i)"
  define q1 where "q1 = (if \<not> full ?q then wake_putter ?q else ?q)"
  define q2 where "q2 = q1\<lparr> eq_futures := (eq_futures q1)(?n := FPending), eq_next_future := ?n + 1,
        eq_putters := eq_putters q1 @ [?n] \<rparr>"
  have j: "put_or_sleep item i = i\<lparr> in_queue := q2, in_waiting := in_waiting i @ [(?n, item)] \<rparr>"
    using put_attempt_sleeps [OF fails] by (simp add: put_or_sleep_def q1_def q2_def)
  have same: "eq_rows q2 = eq_rows ?q" "eq_pending q2 = eq_pending ?q" "eq_dequeued q2 = eq_dequeued ?q"
    "eq_boundary q2 = eq_boundary ?q" "eq_maxsize q2 = eq_maxsize ?q" "eq_unfinished q2 = eq_unfinished ?q"
    "qsize q2 = qsize ?q"
    by (simp_all add: q1_def q2_def qsize_def)
  have blocked: "reserved_capacity item ?q \<or> full ?q" using fails by (auto simp: put_nowait_def Let_def split: if_splits)
  have one: "wakes q1 ?F (if full ?q then room ?q - 1 else room ?q)" using wk wakes_putter [OF wk] by (simp add: q1_def)
  have pay: "room ?q \<le> int (card {f \<in> set ?F. eq_futures q1 f = FResolved})"
  proof (cases "full ?q")
    case True
    then have "room ?q \<le> 0" by (simp add: full_def room_def)
    then show ?thesis by simp
  next
    case False
    show ?thesis
    proof (cases "\<exists>f \<in> set ?F. eq_futures q1 f = FPending")
      case True
      then show ?thesis using one False by (simp add: wake_ok_def)
    next
      case no: False
      then show ?thesis using all_woken [OF one no] reserved_room [OF acc] blocked False by simp
    qed
  qed
  have "wakes q2 (?F @ [?n]) (room ?q)"
    using wake_ok_sleep [OF one pay] by (simp add: q2_def q1_def split: if_splits)
  moreover have "rows_sound q2" using rows by (simp add: rows_sound_def same)
  moreover have "accounted [] (put_or_sleep item i)"
    using acc by (intro accounted_permuted [OF acc]) (auto simp: j same places_def frame_seq_def accounted_def qsize_def)
  moreover have "capacity_ok (put_or_sleep item i)"
  proof -
    have "0 < eq_maxsize ?q" using blocked by (auto simp: full_def reserved_capacity_def split: option.splits)
    moreover have "owed q2 b = owed ?q b" "parked q2 = parked ?q" for b by (simp_all add: owed_def parked_def same)
    ultimately show ?thesis using cap by (simp add: j capacity_ok_def Let_def same)
  qed
  ultimately show ?thesis by (simp add: sound_def j room_def same)
qed

lemma put_or_sleep_sound:
  assumes "rows_sound (in_queue i)" and "accounted [fst (snd item)] i" and "capacity_ok i"
    and "wakes (in_queue i) (map fst (in_waiting i)) (room (in_queue i) - 1)"
  shows "sound (put_or_sleep item i)"
proof (cases "put_nowait item (in_queue i)")
  case (Inl e)
  then show ?thesis using sleep_sound assms by blast
next
  case (Inr q)
  obtain p s e where item: "item = (p, s, e)" by (cases item)
  then have "sound (i\<lparr> in_queue := q, in_enqueued := in_enqueued i + 1 \<rparr>)"
    using put_nowait_sound [of p s e i q "in_enqueued i + 1"] Inr assms by simp
  then show ?thesis using Inr by (simp add: put_or_sleep_def put_attempt_def)
qed

lemma enqueue_sound:
  assumes i: "sound i"
  shows "sound (enqueue_event priority event i)"
proof -
  let ?s = "in_sequence i + 1"
  define i' where "i' = i\<lparr> in_sequence := ?s, in_queue := admit ?s (in_queue i) \<rparr>"
  have fresh: "?s \<notin> set (places i)" using i by (auto simp: sound_def accounted_def)
  have q: "eq_rows (in_queue i') = eq_rows (in_queue i)" "eq_boundary (in_queue i') = eq_boundary (in_queue i)"
    "eq_maxsize (in_queue i') = eq_maxsize (in_queue i)" "qsize (in_queue i') = qsize (in_queue i)"
    "in_waiting i' = in_waiting i"
    by (simp_all add: i'_def admit_def qsize_def)
  have rows: "rows_sound (in_queue i')" using i by (simp add: sound_def rows_sound_def q)
  have places: "places i' = places i" by (simp add: places_def i'_def admit_def)
  have a: "distinct (places i)" "eq_pending (in_queue i) = set (places i)"
    "\<And>x. x \<in> set (places i) \<Longrightarrow> x \<le> in_sequence i" "\<And>b. eq_boundary (in_queue i) = Some b \<Longrightarrow> b \<le> in_sequence i"
    "eq_unfinished (in_queue i) = qsize (in_queue i) + int (length (eq_dequeued (in_queue i)))"
    using i by (auto simp: sound_def accounted_def)
  have acc: "accounted [?s] i'"
    unfolding accounted_def places using a(1,2,5) fresh
    by (auto simp: i'_def admit_def qsize_def dest!: a(3,4))
  have owed: "owed (in_queue i') b = owed (in_queue i) b" if "eq_boundary (in_queue i) = Some b" for b
  proof -
    have "b \<le> in_sequence i" using i that by (simp add: sound_def accounted_def)
    then show ?thesis by (auto simp: i'_def admit_def owed_def)
  qed
  have cap: "capacity_ok i'" using i owed by (auto simp: sound_def capacity_ok_def Let_def q parked_def)
  have wk: "wakes (in_queue i') (map fst (in_waiting i')) (room (in_queue i') - 1)"
    using i by (auto simp: sound_def q room_def i'_def admit_def qsize_def elim: wake_ok_room)
  note put = put_or_sleep_sound [OF rows _ cap wk, of "(priority, ?s, event)", simplified, OF acc]
  show ?thesis
  proof (cases "put_nowait (priority, ?s, event) (in_queue i')")
    case (Inr q)
    then have "enqueue_event priority event i = put_or_sleep (priority, ?s, event) i'"
      by (simp add: enqueue_event_def Let_def i'_def put_or_sleep_def put_attempt_def)
    then show ?thesis using put by simp
  next
    case (Inl e)
    have "places (shed ?s i') = places i" "eq_pending (in_queue (shed ?s i')) = eq_pending (in_queue i)"
      using fresh a(2) by (auto simp: places_def shed_def forget_def i'_def admit_def)
    moreover from this(2) have "sound (shed ?s i') \<longleftrightarrow> rows_sound (in_queue i) \<and> accounted [] (shed ?s i') \<and> capacity_ok i \<and>
        wakes (in_queue i) (map fst (in_waiting i)) (room (in_queue i))"
      by (simp add: sound_def rows_sound_def capacity_ok_def Let_def shed_def forget_def i'_def admit_def
          qsize_def room_def parked_def owed_def)
    ultimately have "sound (shed ?s i')"
      using i a by (auto simp: sound_def accounted_def shed_def forget_def i'_def admit_def qsize_def dest!: a(3,4))
    then show ?thesis using Inl put by (cases "priority = 0") (simp_all add: enqueue_event_def Let_def i'_def)
  qed
qed

section \<open>Every call keeps the invariant\<close>

lemma drop_frame_fst [simp]: "map fst (drop_frame f ws) = filter (\<lambda>g. g \<noteq> f) (map fst ws)"
  by (simp add: drop_frame_def filter_map o_def)

text \<open>Taking a frame out of a list of frames with different futures leaves its item in transit.\<close>

lemma mset_drop_frame:
  assumes "distinct (map fst ws)" and "(f, item) \<in> set ws"
  shows "mset (map frame_seq ws) = add_mset (fst (snd item)) (mset (map frame_seq (drop_frame f ws)))"
  using assms
proof (induction ws)
  case (Cons w ws)
  show ?case
  proof (cases "w = (f, item)")
    case True
    then have "drop_frame f ws = ws" using Cons.prems(1) by (auto simp: drop_frame_def intro!: filter_True)
    then show ?thesis using True by (simp add: drop_frame_def frame_seq_def)
  next
    case False
    then have "(f, item) \<in> set ws" and "fst w \<noteq> f" using Cons.prems by (auto simp: rev_image_eqI)
    then show ?thesis using Cons by (simp add: drop_frame_def)
  qed
qed simp

lemma leave_transit:
  assumes i: "sound i" and f: "(f, item) \<in> set (in_waiting i)"
  defines "j \<equiv> i\<lparr> in_waiting := drop_frame f (in_waiting i) \<rparr>"
  shows "accounted [fst (snd item)] j" and "capacity_ok j"
proof -
  have "distinct (map fst (in_waiting i))" using i by (simp add: sound_def wake_ok_def)
  note m = mset_drop_frame [OF this f]
  have q: "in_queue j = in_queue i" "in_sequence j = in_sequence i" by (simp_all add: j_def)
  have "mset ([fst (snd item)] @ places j) = mset ([] @ places i)"
    using m by (simp add: places_def j_def)
  moreover have "accounted [] i" using i by (simp add: sound_def)
  ultimately show "accounted [fst (snd item)] j"
    using accounted_permuted [of "[]" i "[fst (snd item)]" j] by (simp add: q accounted_def)
  show "capacity_ok j" using i by (auto simp: sound_def capacity_ok_def Let_def j_def drop_frame_def)
qed

lemma wakes_drop:
  assumes i: "sound i" and f: "(f, item) \<in> set (in_waiting i)"
  shows "wake_ok (remove1 f (eq_putters (in_queue i))) (eq_getters (in_queue i)) (eq_futures (in_queue i))
    (eq_next_future (in_queue i)) (map fst (drop_frame f (in_waiting i)))
    (if eq_futures (in_queue i) f = FResolved then room (in_queue i) - 1 else room (in_queue i))"
proof -
  have "distinct (map fst (in_waiting i))" using i by (simp add: sound_def wake_ok_def)
  then show ?thesis
    using i f by (intro wake_ok_leave [of _ _ _ _ "map fst (in_waiting i)"]) (auto simp: sound_def rev_image_eqI)
qed

lemma resume_sound:
  assumes i: "sound i" and f: "(f, item) \<in> set (in_waiting i)" "eq_futures (in_queue i) f = FResolved"
  shows "sound (resume_put f item i)"
proof -
  let ?j = "i\<lparr> in_waiting := drop_frame f (in_waiting i) \<rparr>"
  have "f \<notin> set (eq_putters (in_queue i))" using i f(2) by (auto simp: sound_def wake_ok_def)
  then have "wakes (in_queue i) (map fst (in_waiting ?j)) (room (in_queue i) - 1)"
    using wakes_drop [OF i f(1)] f(2) by (simp add: remove1_idem)
  then show ?thesis
    using i leave_transit [OF i f(1)] unfolding resume_put_def by (intro put_or_sleep_sound) (simp_all add: sound_def)
qed

lemma forget_transit:
  assumes "accounted [s] j"
  shows "accounted [] (j\<lparr> in_queue := forget s (in_queue j) \<rparr>)"
proof -
  have "places (j\<lparr> in_queue := forget s (in_queue j) \<rparr>) = places j" by (simp add: places_def forget_def)
  then show ?thesis using assms by (auto simp: accounted_def forget_def qsize_def)
qed

lemma cancel_sound:
  assumes i: "sound i" and f: "(f, item) \<in> set (in_waiting i)"
  shows "sound (cancel_put f item i)"
proof -
  let ?q = "in_queue i" and ?j = "i\<lparr> in_waiting := drop_frame f (in_waiting i) \<rparr>"
  let ?F = "map fst (drop_frame f (in_waiting i))" and ?q' = "put_cancelled f (in_queue i)"
  have state: "eq_futures ?q f = FPending \<or> eq_futures ?q f = FResolved"
  proof -
    have "f \<in> set (map fst (in_waiting i))" using imageI [OF f, of fst] by simp
    moreover have "wakes ?q (map fst (in_waiting i)) (room ?q)" using i by (simp add: sound_def)
    ultimately show ?thesis unfolding wake_ok_def by blast
  qed
  have same: "eq_rows ?q' = eq_rows ?q" "eq_pending ?q' = eq_pending ?q" "eq_dequeued ?q' = eq_dequeued ?q"
    "eq_boundary ?q' = eq_boundary ?q" "eq_maxsize ?q' = eq_maxsize ?q" "eq_unfinished ?q' = eq_unfinished ?q"
    by (simp_all add: put_cancelled_def cancel_future_def Let_def)
  have wk: "wakes ?q' ?F (room ?q)"
  proof (cases "eq_futures ?q f = FPending")
    case True
    have agree: "((eq_futures ?q)(f := FCancelled)) g = eq_futures ?q g" if "g \<in> set ?F" for g using that by auto
    have "?q' = ?q\<lparr> eq_futures := (eq_futures ?q)(f := FCancelled), eq_putters := remove1 f (eq_putters ?q) \<rparr>"
      using True by (simp add: put_cancelled_def cancel_future_def Let_def)
    then show ?thesis
      using wakes_drop [OF i f] True wake_ok_cong [of ?F "(eq_futures ?q)(f := FCancelled)" "eq_futures ?q", OF agree]
      by simp
  next
    case False
    then have r: "eq_futures ?q f = FResolved" using state by blast
    let ?q2 = "?q\<lparr> eq_putters := remove1 f (eq_putters ?q) \<rparr>"
    have w: "wakes ?q2 ?F (room ?q - 1)" using wakes_drop [OF i f] r by simp
    have eq: "?q' = (if \<not> full ?q then wake_putter ?q2 else ?q2)"
      using r by (simp add: put_cancelled_def cancel_future_def Let_def full_def qsize_def)
    show ?thesis
    proof (cases "full ?q")
      case True
      then have "room ?q \<le> 0" by (simp add: full_def room_def)
      then have "room ?q \<le> int n" for n by simp
      then show ?thesis using w True unfolding eq wake_ok_def by simp
    next
      case False
      then show ?thesis using wakes_putter [OF w] by (simp add: eq)
    qed
  qed
  have acc: "accounted [fst (snd item)] (i\<lparr> in_queue := ?q', in_waiting := drop_frame f (in_waiting i) \<rparr>)"
    using leave_transit(1) [OF i f] by (simp add: accounted_def places_def same qsize_def)
  have "capacity_ok (cancel_put f item i)"
  proof -
    have "owed (forget s ?q') b \<subseteq> owed ?q b" for s b by (auto simp: owed_def forget_def same)
    moreover have "finite (owed ?q b)" for b using i finite_owed by (auto simp: sound_def)
    ultimately have c: "card (owed (forget s ?q') b) \<le> card (owed ?q b)" for s b by (intro card_mono)
    have p: "parked (forget s ?q') = parked ?q" "qsize (forget s ?q') = qsize ?q" for s
      by (simp_all add: parked_def qsize_def forget_def same)
    have e: "eq_maxsize (forget s ?q') = eq_maxsize ?q" "eq_boundary (forget s ?q') = eq_boundary ?q" for s
      by (simp_all add: forget_def same)
    have "capacity_ok i" using i by (simp add: sound_def)
    then show ?thesis
      by (rule capacity_shrinks) (use c p e in \<open>simp_all add: cancel_put_def drop_frame_def\<close>)
  qed
  moreover have "accounted [] (cancel_put f item i)" using forget_transit [OF acc] by (simp add: cancel_put_def)
  moreover have "rows_sound (in_queue (cancel_put f item i))"
    using i by (simp add: sound_def rows_sound_def cancel_put_def forget_def same)
  ultimately show ?thesis using wk by (simp add: sound_def cancel_put_def forget_def room_def qsize_def same)
qed

text \<open>The shape that the calls of the worker share: the heap is permuted or shrinks.\<close>

lemma get_nowait_Inr:
  assumes q: "get_nowait q = Inr (item, q')" and ordered: "heap_from row_key 0 (eq_rows q)"
  shows "\<exists>row rows. heappop row_key (eq_rows q) = Some (row, rows) \<and> row = eq_rows q ! 0 \<and> row_later row = 0 \<and>
    item = row_item row \<and> q' = wake_putter (q\<lparr> eq_rows := rows, eq_dequeued := eq_dequeued q @ [row_seq row] \<rparr>)"
proof -
  have ne: "\<not> queue_empty q" using q by (auto simp: get_nowait_def)
  then obtain rows where pop: "heappop row_key (eq_rows q) = Some (eq_rows q ! 0, rows)"
    using heapq.pop_SomeD [OF ordered] by (auto simp: queue_empty_def)
  then show ?thesis using q ne by (simp add: get_nowait_def queue_empty_def)
qed

lemma take_sound:
  assumes i: "sound i" and q: "get_nowait (in_queue i) = Inr (item, q)"
  shows "sound (i\<lparr> in_queue := q \<rparr>)"
proof -
  let ?q = "in_queue i"
  have ordered: "heap_from row_key 0 (eq_rows ?q)" using i by (simp add: sound_def rows_sound_def)
  obtain row rows where pop: "heappop row_key (eq_rows ?q) = Some (row, rows)" and q': "q = wake_putter (?q\<lparr> eq_rows := rows, eq_dequeued := eq_dequeued ?q @ [row_seq row] \<rparr>)"
    using get_nowait_Inr [OF q ordered] by blast
  note m = heapq.pop_mset [OF pop] and st = heapq.pop_set [OF pop] and ln = heapq.pop_length [OF pop]
  have size: "qsize q + 1 = qsize ?q" using ln by (simp add: q' qsize_def)
  have "rows_sound q" using i heapq.pop_ordered [OF ordered pop] st by (simp add: sound_def rows_sound_def q')
  moreover have acc: "accounted [] (i\<lparr> in_queue := q \<rparr>)"
  proof (rule accounted_permuted [of "[]" i])
    show "accounted [] i" using i by (simp add: sound_def)
    then show "eq_unfinished (in_queue (i\<lparr> in_queue := q \<rparr>)) =
        qsize (in_queue (i\<lparr> in_queue := q \<rparr>)) + int (length (eq_dequeued (in_queue (i\<lparr> in_queue := q \<rparr>))))"
      and "\<forall>b. eq_boundary (in_queue (i\<lparr> in_queue := q \<rparr>)) = Some b \<longrightarrow> b \<le> in_sequence i"
      using size by (simp_all add: accounted_def q')
  qed (simp_all add: places_def q' m)
  moreover have "capacity_ok (i\<lparr> in_queue := q \<rparr>)"
  proof -
    have o: "owed q b = owed ?q b" for b using i owed_frames [OF acc] owed_frames [of "[]" i] by (simp add: sound_def)
    have p: "parked q \<Longrightarrow> parked ?q" using st by (auto simp: parked_def q')
    have same: "eq_maxsize q = eq_maxsize ?q" "eq_boundary q = eq_boundary ?q" by (simp_all add: q')
    have "capacity_ok i" using i by (simp add: sound_def)
    then show ?thesis
      by (rule capacity_shrinks) (use o p same size in auto)
  qed
  moreover have "wakes q (map fst (in_waiting i)) (room q)"
  proof -
    have "wakes (?q\<lparr> eq_rows := rows, eq_dequeued := eq_dequeued ?q @ [row_seq row] \<rparr>) (map fst (in_waiting i)) (room ?q)"
      using i by (simp add: sound_def)
    from wakes_putter [OF this] have "wakes q (map fst (in_waiting i)) (room ?q + 1)" by (simp add: q')
    moreover have "eq_maxsize q = eq_maxsize ?q" by (simp add: q')
    then have "room q = room ?q + 1" using size by (simp add: room_def)
    ultimately show ?thesis by (simp only:)
  qed
  ultimately show ?thesis by (simp add: sound_def)
qed

lemma take_before_sound:
  "sound i \<Longrightarrow> get_nowait_before n (in_queue i) = Inr (item, q) \<Longrightarrow> sound (i\<lparr> in_queue := q \<rparr>)"
  by (auto simp: get_nowait_before_def split: if_splits intro: take_sound)

lemma get_sleep_sound: "sound i \<Longrightarrow> sound (i\<lparr> in_queue := get_sleep (in_queue i) \<rparr>)"
proof -
  assume i: "sound i"
  let ?q = "in_queue i"
  have "wakes ?q (map fst (in_waiting i)) (room ?q)" using i by (simp add: sound_def)
  then have "wake_ok (eq_putters ?q) (eq_getters ?q @ [eq_next_future ?q])
      ((eq_futures ?q)(eq_next_future ?q := FPending)) (eq_next_future ?q + 1) (map fst (in_waiting i)) (room ?q)"
  proof -
    assume w: "wakes ?q (map fst (in_waiting i)) (room ?q)"
    have n: "f < eq_next_future ?q" if "f \<in> set (map fst (in_waiting i)) \<union> set (eq_getters ?q)" for f
      using w that unfolding wake_ok_def by blast
    have "((eq_futures ?q)(eq_next_future ?q := FPending)) f = eq_futures ?q f" if "f \<in> set (map fst (in_waiting i))" for f
      using n [of f] that by auto
    moreover have "wake_ok (eq_putters ?q) (eq_getters ?q @ [eq_next_future ?q]) (eq_futures ?q) (eq_next_future ?q + 1)
        (map fst (in_waiting i)) (room ?q)"
      using w n unfolding wake_ok_def by (fastforce simp: less_Suc_eq simp del: set_map)
    ultimately show ?thesis using wake_ok_cong by blast
  qed
  then have "wakes (get_sleep ?q) (map fst (in_waiting i)) (room ?q)" by (simp add: get_sleep_def Let_def)
  moreover have "qsize (get_sleep ?q) = qsize ?q" "owed (get_sleep ?q) b = owed ?q b" "parked (get_sleep ?q) = parked ?q"
    "room (get_sleep ?q) = room ?q" for b
    by (simp_all add: get_sleep_def Let_def qsize_def owed_def parked_def room_def)
  moreover have "eq_rows (get_sleep ?q) = eq_rows ?q" "eq_pending (get_sleep ?q) = eq_pending ?q"
    "eq_dequeued (get_sleep ?q) = eq_dequeued ?q" "eq_boundary (get_sleep ?q) = eq_boundary ?q"
    "eq_maxsize (get_sleep ?q) = eq_maxsize ?q" "eq_unfinished (get_sleep ?q) = eq_unfinished ?q"
    by (simp_all add: get_sleep_def Let_def)
  ultimately show ?thesis
    using i by (simp add: sound_def rows_sound_def accounted_def places_def capacity_ok_def Let_def cong: if_cong)
qed

lemma finish_sound:
  assumes i: "sound i" and d: "has_dequeued_work (in_queue i)" and q: "task_done (in_queue i) = Inr q"
  shows "sound (i\<lparr> in_queue := q \<rparr>)"
proof -
  let ?q = "in_queue i"
  obtain s rest where dq: "eq_dequeued ?q = s # rest" using d by (cases "eq_dequeued ?q") (auto simp: has_dequeued_work_def)
  have q': "q = ?q\<lparr> eq_unfinished := eq_unfinished ?q - 1, eq_pending := eq_pending ?q - {s}, eq_dequeued := rest \<rparr>"
    using q dq by (auto simp: task_done_def unfinished_done_def split: if_splits)
  have acc: "accounted [] (i\<lparr> in_queue := q \<rparr>)"
    using i by (auto simp: sound_def accounted_def places_def q' dq qsize_def)
  have o: "owed q b = owed ?q b" for b using i owed_frames [OF acc] owed_frames [of "[]" i] by (simp add: sound_def)
  have "capacity_ok i" using i by (simp add: sound_def)
  then have "capacity_ok (i\<lparr> in_queue := q \<rparr>)"
    by (rule capacity_shrinks) (use o in \<open>simp_all add: q' parked_def qsize_def\<close>)
  then show ?thesis using i acc by (simp add: sound_def rows_sound_def q' room_def qsize_def)
qed

lemma promote_row_fields [simp]: "row_seq (promote_row mint r) = row_seq r" "row_later (promote_row mint r) = row_later r"
  by (cases r, simp add: promote_row_def)+

text \<open>A call that rearranges or rewrites rows without touching their sequences.\<close>

lemma rewrite_sound:
  assumes i: "sound i" and rows: "mset (map row_seq rows) = mset (map row_seq (eq_rows (in_queue i)))"
    and sound: "rows_sound ((in_queue i)\<lparr> eq_rows := rows, eq_boundary := b \<rparr>)"
    and b: "\<forall>n. b = Some n \<longrightarrow> n \<le> in_sequence i"
    and parked: "(\<exists>r \<in> set rows. row_later r \<noteq> 0) \<Longrightarrow> b = eq_boundary (in_queue i) \<and> parked (in_queue i)"
  shows "sound (i\<lparr> in_queue := (in_queue i)\<lparr> eq_rows := rows, eq_boundary := b \<rparr> \<rparr>)" (is "sound ?j")
proof -
  let ?q = "in_queue i"
  have size: "qsize (in_queue ?j) = qsize ?q" using mset_eq_length [OF rows] by (simp add: qsize_def)
  have seqs: "row_seq ` set rows = row_seq ` set (eq_rows ?q)" using mset_eq_setD [OF rows] by simp
  have "accounted [] ?j"
  proof (rule accounted_permuted [of "[]" i])
    show a: "accounted [] i" using i by (simp add: sound_def)
    show "mset ([] @ places ?j) = mset ([] @ places i)" using rows by (simp add: places_def)
    show "eq_unfinished (in_queue ?j) = qsize (in_queue ?j) + int (length (eq_dequeued (in_queue ?j)))"
      unfolding size using a by (simp add: accounted_def)
  qed (use b in simp_all)
  moreover have "capacity_ok ?j"
  proof -
    have "capacity_ok i" using i by (simp add: sound_def)
    then show ?thesis
      by (rule capacity_shrinks) (use size parked seqs in \<open>auto simp: parked_def owed_def\<close>)
  qed
  moreover have "wakes (in_queue ?j) (map fst (in_waiting ?j)) (room (in_queue ?j))"
  proof -
    have "room (in_queue ?j) = room ?q" using size by (simp add: room_def)
    then show ?thesis using i by (simp add: sound_def)
  qed
  ultimately show ?thesis using sound by (simp add: sound_def)
qed

lemma promote_sound:
  assumes i: "sound i" and q: "promote_mint mint (in_queue i) = (n, q)"
  shows "sound (i\<lparr> in_queue := q \<rparr>)"
proof -
  let ?q = "in_queue i" and ?rows = "map (promote_row mint) (eq_rows (in_queue i))"
  define rows where "rows = (if n \<noteq> 0 then heapify row_key ?rows else ?rows)"
  have q': "q = ?q\<lparr> eq_rows := rows, eq_boundary := eq_boundary ?q \<rparr>"
    using q by (auto simp: promote_mint_def Let_def rows_def)
  have m: "mset rows = mset ?rows" by (simp add: rows_def rows_mset)
  have st: "set rows = set ?rows" using mset_eq_setD [OF m] .
  have same: "?rows = eq_rows ?q" if "n = 0"
  proof -
    have "filter (promoted mint) (eq_rows ?q) = []" using q that by (simp add: promote_mint_def Let_def)
    then have "promote_row mint r = r" if "r \<in> set (eq_rows ?q)" for r
      using that by (simp add: promote_row_def filter_empty_conv)
    then show ?thesis by (simp add: map_idI)
  qed
  have "heap_from row_key 0 rows"
    using same i heapq.repair_ordered [of row_key ?rows] by (simp add: rows_def sound_def rows_sound_def)
  then have "rows_sound (?q\<lparr> eq_rows := rows, eq_boundary := eq_boundary ?q \<rparr>)"
    using i by (auto simp: sound_def rows_sound_def st)
  moreover have "mset (map row_seq rows) = mset (map row_seq (eq_rows ?q))"
    by (simp add: m multiset.map_comp o_def)
  ultimately show ?thesis
    unfolding q' using i by (intro rewrite_sound) (auto simp: st parked_def sound_def accounted_def)
qed

lemma clear_later_fields [simp]: "row_seq (clear_later r) = row_seq r" "row_later (clear_later r) = 0"
  by (cases r, simp add: clear_later_def)+

lemma clear_sound:
  assumes i: "sound i" and b: "\<And>n. b = Some n \<Longrightarrow> n \<le> in_sequence i \<and> (\<forall>s \<in> eq_pending (in_queue i). s \<le> n)"
  shows "sound (i\<lparr> in_queue := (in_queue i)\<lparr> eq_rows := heapify row_key (map clear_later (eq_rows (in_queue i))), eq_boundary := b \<rparr> \<rparr>)"
proof (rule rewrite_sound [OF i])
  let ?rows = "heapify row_key (map clear_later (eq_rows (in_queue i)))"
  have flag: "later_flag b (row_seq r) = 0" if "r \<in> set (eq_rows (in_queue i))" for r
  proof -
    have "row_seq r \<in> eq_pending (in_queue i)" using i that by (auto simp: sound_def accounted_def places_def)
    then show ?thesis using b by (cases b) (auto simp: later_flag_def not_less)
  qed
  show "mset (map row_seq ?rows) = mset (map row_seq (eq_rows (in_queue i)))"
    by (simp add: rows_mset multiset.map_comp o_def)
  show "rows_sound ((in_queue i)\<lparr> eq_rows := ?rows, eq_boundary := b \<rparr>)"
    using flag heapq.repair_ordered by (auto simp: rows_sound_def)
qed (use b in auto)

lemma begin_sound: "sound i \<Longrightarrow> sound (i\<lparr> in_queue := begin_boundary (in_sequence i) (in_queue i) \<rparr>)"
proof -
  assume i: "sound i"
  let ?q = "in_queue i" and ?b = "Max (insert (in_sequence i) (eq_pending (in_queue i)))"
  have p: "finite (eq_pending ?q)" "\<forall>s \<in> eq_pending ?q. s \<le> in_sequence i"
    using i by (auto simp: sound_def accounted_def)
  show ?thesis
  proof (cases "eq_boundary ?q = None")
    case True
    then have "begin_boundary (in_sequence i) ?q = ?q\<lparr> eq_rows := heapify row_key (map clear_later (eq_rows ?q)), eq_boundary := Some ?b \<rparr>"
      by (simp add: begin_boundary_def)
    then show ?thesis using clear_sound [OF i, of "Some ?b"] p by simp
  next
    case False
    then show ?thesis using i by (simp add: begin_boundary_def)
  qed
qed

lemma sound_rewoken:
  assumes "sound (i\<lparr> in_queue := q \<rparr>)"
  shows "sound (i\<lparr> in_queue := wake_putter (wake_getter q) \<rparr>)"
proof -
  have wk: "wakes q (map fst (in_waiting i)) (room q)" using assms by (simp add: sound_def)
  have "room (wake_putter (wake_getter q)) \<le> room q + 1" by (simp add: room_def)
  then have "wakes (wake_putter (wake_getter q)) (map fst (in_waiting i)) (room (wake_putter (wake_getter q)))"
    using wake_ok_room [OF wakes_putter [OF wakes_getter [OF wk]]] by simp
  then show ?thesis
    using assms by (simp add: sound_def rows_sound_def accounted_def places_def capacity_ok_def Let_def cong: if_cong)
qed

lemma end_sound: "sound i \<Longrightarrow> sound (i\<lparr> in_queue := end_boundary (in_queue i) \<rparr>)"
  unfolding end_boundary_def using clear_sound [of i None] by (intro sound_rewoken) simp

lemma done_times: "done_times n q = (if int n \<le> eq_unfinished q then Inr (q\<lparr> eq_unfinished := eq_unfinished q - int n \<rparr>)
    else Inl (ValueError ''task_done() called too many times''))" if "0 \<le> eq_unfinished q"
  using that by (induction n arbitrary: q) (auto simp: unfinished_done_def)

lemma resolve_all: "resolve_all ws fs f = (if f \<in> set ws \<and> fs f = FPending then FResolved else fs f)"
  by (induction ws fs arbitrary: f rule: resolve_all.induct) auto

lemma discard_sound:
  assumes i: "sound i" and q: "discard_queued (in_queue i) = Inr q"
  shows "sound (i\<lparr> in_queue := q \<rparr>)"
proof -
  let ?q = "in_queue i"
  let ?fs = "resolve_all (eq_putters ?q) (eq_futures ?q)"
  have a: "accounted [] i" and w: "wakes ?q (map fst (in_waiting i)) (room ?q)" using i by (simp_all add: sound_def)
  have u: "eq_unfinished ?q = int (length (eq_rows ?q)) + int (length (eq_dequeued ?q))"
    using a by (simp add: accounted_def qsize_def)
  have q': "q = ?q\<lparr> eq_pending := eq_pending ?q - row_seq ` set (eq_rows ?q), eq_rows := [], eq_boundary := None,
      eq_unfinished := int (length (eq_dequeued ?q)), eq_putters := [], eq_futures := ?fs \<rparr>"
    using q u by (simp add: discard_queued_def done_times split: if_splits)
  have "accounted [] (i\<lparr> in_queue := q \<rparr>)"
    using a by (auto simp: accounted_def places_def q' qsize_def)
  moreover have "?fs f = FResolved" if "f \<in> set (map fst (in_waiting i))" for f
    using w that unfolding wake_ok_def by (auto simp: resolve_all)
  then have "wakes q (map fst (in_waiting i)) (room q)"
    using w unfolding wake_ok_def by (auto simp: q')
  moreover have "capacity_ok (i\<lparr> in_queue := q \<rparr>)"
    using i by (simp add: sound_def capacity_ok_def Let_def q' qsize_def)
  ultimately show ?thesis by (simp add: sound_def rows_sound_def q' heapq.ordered_Nil)
qed

lemma step_sound: "intake_step i j \<Longrightarrow> sound i \<Longrightarrow> sound j"
  by (induction rule: intake_step.induct)
    (simp_all add: enqueue_sound resume_sound cancel_sound take_sound take_before_sound get_sleep_sound finish_sound
      promote_sound begin_sound end_sound discard_sound)

lemma reachable_sound: "intake_reachable maxsize i \<Longrightarrow> sound i"
proof (induction rule: intake_reachable.induct)
  case start
  show ?case
    by (auto simp: sound_def new_intake_def new_queue_def rows_sound_def heapq.ordered_Nil accounted_def places_def
        qsize_def capacity_ok_def wake_ok_def parked_def)
qed (rule step_sound)

section \<open>What the queue guarantees\<close>

definition ready_rows :: "queue \<Rightarrow> row list" where
  "ready_rows q = filter (\<lambda>r. row_later r = 0) (eq_rows q)"

text \<open>The place of an item in the order of service.\<close>

definition urgency :: "item \<Rightarrow> int \<times> int" where
  "urgency item = (fst item, fst (snd item))"

lemma urgency_row [simp]: "urgency (row_item r) = (row_priority r, row_seq r)"
  by (cases r) (simp add: urgency_def)

lemma row_key_le: "row_key r \<le> row_key r' \<Longrightarrow> row_later r' = 0 \<Longrightarrow> 0 \<le> row_later r \<Longrightarrow>
    row_later r = 0 \<and> urgency (row_item r) \<le> urgency (row_item r')"
  by (cases r; cases r') (auto simp: less_eq_prod_def urgency_def)

lemma flag_range: "rows_sound q \<Longrightarrow> r \<in> set (eq_rows q) \<Longrightarrow> row_later r = 0 \<or> row_later r = 1"
  by (auto simp: rows_sound_def later_flag_def split: option.splits)

lemma flag_boundary: "rows_sound q \<Longrightarrow> r \<in> set (eq_rows q) \<Longrightarrow>
    row_later r = 0 \<longleftrightarrow> (\<forall>b. eq_boundary q = Some b \<longrightarrow> row_seq r \<le> b)"
  by (auto simp: rows_sound_def later_flag_def split: option.splits)

lemma queue_empty_iff:
  assumes q: "rows_sound q"
  shows "queue_empty q \<longleftrightarrow> ready_rows q = []"
proof (cases "eq_rows q = []")
  case False
  have ordered: "heap_from row_key 0 (eq_rows q)" using q by (simp add: rows_sound_def)
  have h: "eq_rows q ! 0 \<in> set (eq_rows q)" using False by (cases "eq_rows q") auto
  have "row_later (eq_rows q ! 0) = 0" if r: "r \<in> set (eq_rows q)" "row_later r = 0" for r
    using row_key_le [OF heapq.head_least [OF ordered r(1)] r(2)] flag_range [OF q h] by auto
  then show ?thesis using False h by (auto simp: queue_empty_def ready_rows_def filter_empty_conv)
qed (simp add: queue_empty_def ready_rows_def)

text \<open>One successful get: the most urgent ready row goes, the others stay.\<close>

lemma get_ready:
  assumes q: "rows_sound q" and g: "get_nowait q = Inr (item, q')"
  shows "\<exists>row. item = row_item row \<and> row \<in> set (ready_rows q) \<and> rows_sound q' \<and>
    mset (ready_rows q) = add_mset row (mset (ready_rows q')) \<and>
    (\<forall>r \<in> set (ready_rows q). urgency item \<le> urgency (row_item r))"
proof -
  have ordered: "heap_from row_key 0 (eq_rows q)" using q by (simp add: rows_sound_def)
  obtain row rows where pop: "heappop row_key (eq_rows q) = Some (row, rows)" and l: "row_later row = 0" and item: "item = row_item row"
    and q': "q' = wake_putter (q\<lparr> eq_rows := rows, eq_dequeued := eq_dequeued q @ [row_seq row] \<rparr>)"
    using get_nowait_Inr [OF g ordered] by blast
  note st = heapq.pop_set [OF pop] and m = heapq.pop_mset [OF pop]
  have "rows_sound q'" using q heapq.pop_ordered [OF ordered pop] st by (simp add: rows_sound_def q')
  moreover have "mset (ready_rows q) = add_mset row (mset (ready_rows q'))"
    using m l by (simp add: ready_rows_def q')
  moreover have "urgency item \<le> urgency (row_item r)" if "r \<in> set (ready_rows q)" for r
    using that row_key_le [OF heapq.pop_least [OF ordered pop, of r]] l by (auto simp: ready_rows_def item)
  moreover have "row \<in> set (ready_rows q)" using st l by (simp add: ready_rows_def)
  ultimately show ?thesis using item by blast
qed

text \<open>The counters of the orchestrator; a cancelled producer is the only one counted nowhere.\<close>

definition counted :: "int \<Rightarrow> intake \<Rightarrow> bool" where
  "counted maxsize i \<longleftrightarrow>
     eq_maxsize (in_queue i) = maxsize \<and>
     in_enqueued i + in_dropped i + int (length (in_waiting i)) \<le> in_sequence i"

lemma put_nowait_maxsize: "put_nowait item q = Inr q' \<Longrightarrow> eq_maxsize q' = eq_maxsize q"
  by (cases item) (auto dest: put_nowait_Inr)

lemma put_or_sleep_counted:
  assumes "eq_maxsize (in_queue i) = maxsize" and "in_enqueued i + in_dropped i + int (length (in_waiting i)) + 1 \<le> in_sequence i"
  shows "counted maxsize (put_or_sleep item i)"
proof (cases "put_nowait item (in_queue i)")
  case (Inl e)
  then show ?thesis using assms put_attempt_sleeps [OF Inl] by (simp add: put_or_sleep_def counted_def)
next
  case (Inr q)
  then show ?thesis using assms put_nowait_maxsize [OF Inr] by (simp add: put_or_sleep_def put_attempt_def counted_def)
qed

lemma enqueue_counted:
  assumes "counted maxsize i"
  shows "counted maxsize (enqueue_event priority event i)"
proof -
  let ?s = "in_sequence i + 1"
  define i' where "i' = i\<lparr> in_sequence := ?s, in_queue := admit ?s (in_queue i) \<rparr>"
  have m: "eq_maxsize (in_queue i') = maxsize"
    and c: "in_enqueued i' + in_dropped i' + int (length (in_waiting i')) + 1 \<le> in_sequence i'"
    using assms by (simp_all add: i'_def admit_def counted_def)
  note p = put_or_sleep_counted [OF m c, of "(priority, ?s, event)"]
  show ?thesis
  proof (cases "put_nowait (priority, ?s, event) (in_queue i')")
    case (Inr q)
    then have "enqueue_event priority event i = put_or_sleep (priority, ?s, event) i'"
      by (simp add: enqueue_event_def Let_def i'_def put_or_sleep_def put_attempt_def)
    then show ?thesis using p by simp
  next
    case (Inl e)
    have "counted maxsize (shed ?s i')" using m c by (simp add: counted_def shed_def forget_def)
    then show ?thesis using Inl p by (cases "priority = 0") (simp_all add: enqueue_event_def Let_def i'_def)
  qed
qed

lemma drop_frame_length:
  assumes "(f, item) \<in> set ws"
  shows "length (drop_frame f ws) + 1 \<le> length ws"
proof -
  have "length (drop_frame f ws) < length ws"
    unfolding drop_frame_def by (rule length_filter_less [OF assms]) simp
  then show ?thesis by simp
qed

lemma resume_counted: "counted maxsize i \<Longrightarrow> (f, item) \<in> set (in_waiting i) \<Longrightarrow> counted maxsize (resume_put f item i)"
  unfolding resume_put_def using drop_frame_length [of f item "in_waiting i"]
  by (intro put_or_sleep_counted) (auto simp: counted_def)

lemma cancel_counted: "counted maxsize i \<Longrightarrow> (f, item) \<in> set (in_waiting i) \<Longrightarrow> counted maxsize (cancel_put f item i)"
  using drop_frame_length [of f item "in_waiting i"]
  by (auto simp: counted_def cancel_put_def forget_def put_cancelled_def cancel_future_def Let_def)

lemma queue_step_counted:
  "counted maxsize i \<Longrightarrow> eq_maxsize q = eq_maxsize (in_queue i) \<Longrightarrow> counted maxsize (i\<lparr> in_queue := q \<rparr>)"
  by (simp add: counted_def)

lemma get_nowait_maxsize: "get_nowait q = Inr (item, q') \<Longrightarrow> eq_maxsize q' = eq_maxsize q"
  by (auto simp: get_nowait_def split: if_splits option.splits)

lemma done_times_maxsize: "done_times n q = Inr q' \<Longrightarrow> eq_maxsize q' = eq_maxsize q"
  by (induction n arbitrary: q) (auto simp: unfinished_done_def rbind_eq_Inr split: if_splits)

lemma step_counted: "intake_step i j \<Longrightarrow> counted maxsize i \<Longrightarrow> counted maxsize j"
proof (induction rule: intake_step.induct)
  case (switch_source i q)
  then have "eq_maxsize q = eq_maxsize (in_queue i)"
    by (auto simp: discard_queued_def rbind_eq_Inr dest!: done_times_maxsize)
  then show ?case using switch_source by (intro queue_step_counted)
qed (auto intro!: queue_step_counted enqueue_counted resume_counted cancel_counted
    simp: get_nowait_before_def get_sleep_def Let_def task_done_def unfinished_done_def promote_mint_def
      begin_boundary_def end_boundary_def
    dest: get_nowait_maxsize split: if_splits list.splits)

lemma reachable_counted: "intake_reachable maxsize i \<Longrightarrow> counted maxsize i"
proof (induction rule: intake_reachable.induct)
  case start
  show ?case by (simp add: counted_def new_intake_def new_queue_def)
qed (rule step_counted)



text \<open>The batch that a worker takes, one get after the other.\<close>

lemma take_batch_ready:
  assumes "rows_sound q0" and "take_batch n q0 = (batch, q)"
  shows "mset (map row_item (ready_rows q0)) = mset batch + mset (map row_item (ready_rows q)) \<and>
    sorted (map urgency batch) \<and> (\<forall>x \<in> set batch. \<forall>y \<in> set (map row_item (ready_rows q)). urgency x \<le> urgency y) \<and>
    length batch = min n (length (ready_rows q0))"
  using assms
proof (induction n arbitrary: q0 batch)
  case (Suc n)
  show ?case
  proof (cases "get_nowait q0")
    case (Inl e)
    then have "ready_rows q0 = []"
      using queue_empty_iff [OF Suc.prems(1)] Suc.prems(1) heapq.pop_None
      by (auto simp: get_nowait_def queue_empty_def split: if_splits option.splits)
    then show ?thesis using Suc.prems(2) Inl by simp
  next
    case (Inr x)
    obtain item q1 where x: "x = (item, q1)" by (cases x)
    obtain rest where rest: "take_batch n q1 = (rest, q)" and batch: "batch = item # rest"
      using Suc.prems(2) Inr x by (auto split: prod.splits)
    obtain row where row: "item = row_item row" "rows_sound q1" "mset (ready_rows q0) = mset (row # ready_rows q1)"
      and least: "\<forall>r \<in> set (ready_rows q0). urgency item \<le> urgency (row_item r)"
    proof -
      have "get_nowait q0 = Inr (item, q1)" using Inr x by simp
      from get_ready [OF Suc.prems(1) this] show ?thesis using that by (elim exE conjE) simp
    qed
    note IH = Suc.IH [OF row(2) rest]
    have sub: "set (ready_rows q1) \<subseteq> set (ready_rows q0)" using mset_eq_setD [OF row(3)] by auto
    have len: "length (ready_rows q0) = Suc (length (ready_rows q1))" using mset_eq_length [OF row(3)] by simp
    have "mset (map row_item (ready_rows q1)) = mset (rest @ map row_item (ready_rows q))" using IH by simp
    then have eq: "set (map row_item (ready_rows q1)) = set (rest @ map row_item (ready_rows q))" by (rule mset_eq_setD)
    have after: "urgency item \<le> urgency y" if "y \<in> set (rest @ map row_item (ready_rows q))" for y
    proof -
      have "y \<in> row_item ` set (ready_rows q1)" using that unfolding eq [symmetric] by simp
      then show ?thesis using least sub by blast
    qed
    have "mset (map row_item (ready_rows q0)) = mset batch + mset (map row_item (ready_rows q))"
      using IH row(1,3) by (simp add: batch)
    moreover have "sorted (map urgency batch)" using IH after by (simp add: batch)
    moreover have "\<forall>x \<in> set batch. \<forall>y \<in> set (map row_item (ready_rows q)). urgency x \<le> urgency y"
      using IH after by (simp add: batch del: urgency_row)
    moreover have "length batch = min (Suc n) (length (ready_rows q0))" using IH len by (simp add: batch)
    ultimately show ?thesis by blast
  qed
qed simp

text \<open>C29: What a worker takes as one batch is what is most urgent: at most \<open>n\<close> rows in the order of priority
  and then of sequence, each at or before the season boundary, none less urgent than a ready row that
  stays; fewer than \<open>n\<close> only when no ready row is left; and nothing is lost or duplicated.\<close>

theorem batch_is_most_urgent:
  assumes "intake_reachable maxsize i" and "take_batch n (in_queue i) = (batch, q)"
  shows "sorted (map urgency batch) \<and>
    mset (map row_item (ready_rows (in_queue i))) = mset batch + mset (map row_item (ready_rows q)) \<and>
    (\<forall>x \<in> set batch. \<forall>y \<in> set (map row_item (ready_rows q)). urgency x \<le> urgency y) \<and>
    (\<forall>x \<in> set batch. \<forall>b. eq_boundary (in_queue i) = Some b \<longrightarrow> snd (urgency x) \<le> b) \<and>
    length batch = min n (length (ready_rows (in_queue i)))"
proof -
  have q: "rows_sound (in_queue i)" using reachable_sound [OF assms(1)] by (simp add: sound_def)
  note t = take_batch_ready [OF q assms(2)]
  have "snd (urgency x) \<le> b" if "x \<in> set batch" "eq_boundary (in_queue i) = Some b" for x b
  proof -
    have "mset (map row_item (ready_rows (in_queue i))) = mset (batch @ map row_item (ready_rows q))" using t by simp
    from mset_eq_setD [OF this] that(1) have "x \<in> row_item ` set (ready_rows (in_queue i))" by simp
    then obtain r where r: "r \<in> set (ready_rows (in_queue i))" "x = row_item r" by blast
    then have "row_seq r \<le> b" using flag_boundary [OF q, of r] that(2) by (simp add: ready_rows_def)
    then show ?thesis using r(2) by simp
  qed
  then show ?thesis using t by blast
qed

text \<open>A queue of capacity two that holds an event of priority 1 and a later one of priority 0.\<close>

definition two_events :: "intake" where
  "two_events = enqueue_event 0 undefined (enqueue_event 1 undefined (new_intake 2))"

lemma two_events_reachable: "intake_reachable 2 two_events"
  unfolding two_events_def
  by (rule intake_reachable.step [OF intake_reachable.step [OF intake_reachable.start intake_step.enqueue] intake_step.enqueue])

lemmas queue_simps = enqueue_event_def new_intake_def new_queue_def admit_def put_nowait_def reserved_capacity_def
  full_def qsize_def put_row_def heappush_def bubble_up.simps swap_def parent_def wake_getter_def wake_putter_def
  Let_def later_flag_def get_nowait_def queue_empty_def siftup_def sink.simps ready_rows_def

theorem batch_is_most_urgent_witness:
  "\<exists>q. take_batch 2 (in_queue two_events) = ([(0, 2, undefined), (1, 1, undefined)], q) \<and> sorted [(0 :: int, 2 :: int), (1, 1)]"
proof -
  obtain q where t: "take_batch 2 (in_queue two_events) = ([(0, 2, undefined), (1, 1, undefined)], q)"
    by (simp add: two_events_def queue_simps numeral_2_eq_2)
  from batch_is_most_urgent [OF two_events_reachable this] have "sorted [(0 :: int, 2 :: int), (1, 1)]"
    by (simp add: urgency_def)
  with t show ?thesis by blast
qed

text \<open>C27: The intake never stalls. While a producer waits, there are at most as many free places as woken
  producers; so as long as somebody waits, or a season boundary is not yet drained, one of these
  holds: a woken producer is about to run, a row is ready for the worker, a batch is in progress, or
  the boundary is ready to be ended. A woken producer from before the boundary succeeds at once
  unless the queue is full.\<close>

theorem intake_never_stalls:
  assumes "intake_reachable maxsize i"
    and "in_waiting i \<noteq> [] \<or> boundary_active (in_queue i)"
  shows "((\<exists>f \<in> set (map fst (in_waiting i)). eq_futures (in_queue i) f = FPending) \<longrightarrow>
      maxsize - qsize (in_queue i) \<le> int (card {f \<in> set (map fst (in_waiting i)). eq_futures (in_queue i) f = FResolved})) \<and>
    ((\<exists>f \<in> set (map fst (in_waiting i)). eq_futures (in_queue i) f = FResolved) \<or>
     \<not> queue_empty (in_queue i) \<or> has_dequeued_work (in_queue i) \<or> boundary_ready (in_queue i)) \<and>
    (\<forall>p s e b. eq_boundary (in_queue i) = Some b \<longrightarrow> s \<le> b \<longrightarrow> \<not> full (in_queue i) \<longrightarrow>
       (\<exists>q. put_nowait (p, s, e) (in_queue i) = Inr q))"
proof (intro conjI)
  let ?q = "in_queue i" and ?F = "set (map fst (in_waiting i))"
  have s: "rows_sound ?q" "accounted [] i" "capacity_ok i" "wakes ?q (map fst (in_waiting i)) (room ?q)"
    using reachable_sound [OF assms(1)] by (simp_all add: sound_def)
  have m: "eq_maxsize ?q = maxsize" using reachable_counted [OF assms(1)] by (simp add: counted_def)
  show wake: "(\<exists>f \<in> ?F. eq_futures ?q f = FPending) \<longrightarrow> maxsize - qsize ?q \<le> int (card {f \<in> ?F. eq_futures ?q f = FResolved})"
    using s(4) m by (simp add: wake_ok_def room_def)
  show "\<forall>p s e b. eq_boundary ?q = Some b \<longrightarrow> s \<le> b \<longrightarrow> \<not> full ?q \<longrightarrow> (\<exists>q. put_nowait (p, s, e) ?q = Inr q)"
    by (auto simp: put_nowait_def reserved_capacity_def Let_def)
  show "(\<exists>f \<in> ?F. eq_futures ?q f = FResolved) \<or> \<not> queue_empty ?q \<or> has_dequeued_work ?q \<or> boundary_ready ?q"
  proof (rule ccontr)
    assume "\<not> ?thesis"
    then have asleep: "\<forall>f \<in> ?F. eq_futures ?q f \<noteq> FResolved" and none: "ready_rows ?q = []"
      and idle: "eq_dequeued ?q = []" and open_: "\<not> boundary_ready ?q"
      using queue_empty_iff [OF s(1)] by (auto simp: has_dequeued_work_def)
    have "{f \<in> ?F. eq_futures ?q f = FResolved} = {}" using asleep by blast
    then have "card {f \<in> ?F. eq_futures ?q f = FResolved} = 0" by (simp only: card.empty)
    then have crowded: "maxsize \<le> qsize ?q" if "\<exists>f \<in> ?F. eq_futures ?q f = FPending" using wake that by linarith
    have later: "row_later r \<noteq> 0" if "r \<in> set (eq_rows ?q)" for r
      using none that by (auto simp: ready_rows_def filter_empty_conv)
    have rows: "eq_rows ?q \<noteq> []" "0 < maxsize" if w: "in_waiting i \<noteq> []"
    proof -
      show "0 < maxsize" using s(3) w m by (auto simp: capacity_ok_def Let_def split: if_splits)
      obtain f where f: "f \<in> ?F" using w by (cases "in_waiting i") auto
      then have "eq_futures ?q f = FPending" using s(4) asleep unfolding wake_ok_def by blast
      then have "maxsize \<le> qsize ?q" using crowded f by blast
      then show "eq_rows ?q \<noteq> []" using \<open>0 < maxsize\<close> by (auto simp: qsize_def)
    qed
    have "boundary_active ?q"
    proof (cases "in_waiting i = []")
      case False
      then obtain r where "r \<in> set (eq_rows ?q)" using rows(1) by (cases "eq_rows ?q") auto
      then show ?thesis using later [of r] flag_boundary [OF s(1), of r] by (auto simp: boundary_active_def)
    qed (use assms(2) in simp)
    then obtain b where b: "eq_boundary ?q = Some b" by (auto simp: boundary_active_def)
    obtain x where x: "x \<in> eq_pending ?q" "x \<le> b" using open_ b by (auto simp: boundary_ready_def)
    have "x \<notin> row_seq ` set (eq_rows ?q)"
      using later flag_boundary [OF s(1)] b x(2) by fastforce
    then have o: "x \<in> owed ?q b" and w: "in_waiting i \<noteq> []"
      using x idle s(2) by (auto simp: owed_def accounted_def places_def)
    have "parked ?q" using rows(1) [OF w] later by (cases "eq_rows ?q") (auto simp: parked_def)
    then have "qsize ?q + int (card (owed ?q b)) \<le> maxsize"
      using s(3) b rows(2) [OF w] m by (simp add: capacity_ok_def Let_def)
    moreover have "0 < card (owed ?q b)" using o finite_owed [OF s(2)] by (auto simp: card_gt_0_iff)
    moreover have "maxsize \<le> qsize ?q"
    proof -
      obtain f where f: "f \<in> ?F" using w by (cases "in_waiting i") auto
      then have "eq_futures ?q f = FPending" using s(4) asleep unfolding wake_ok_def by blast
      then show ?thesis using crowded f by blast
    qed
    ultimately show False by simp
  qed
qed

text \<open>A queue of capacity one whose second producer waits.\<close>

definition crowded_intake :: "intake" where
  "crowded_intake = enqueue_event 0 undefined (enqueue_event 0 undefined (new_intake 1))"

lemma crowded_waiting: "in_waiting crowded_intake = [(0, (0, 2, undefined))]"
  by (simp add: crowded_intake_def queue_simps put_or_sleep_def put_attempt_def)

theorem intake_never_stalls_witness:
  "in_waiting crowded_intake = [(0, (0, 2, undefined))] \<and>
   (eq_futures (in_queue crowded_intake) 0 = FResolved \<or> \<not> queue_empty (in_queue crowded_intake) \<or>
    has_dequeued_work (in_queue crowded_intake) \<or> boundary_ready (in_queue crowded_intake))"
proof -
  have "intake_reachable 1 crowded_intake"
    unfolding crowded_intake_def
    by (rule intake_reachable.step [OF intake_reachable.step [OF intake_reachable.start intake_step.enqueue] intake_step.enqueue])
  from conjunct1 [OF conjunct2 [OF intake_never_stalls [OF this]]] show ?thesis by (simp add: crowded_waiting)
qed

end
