(* ===== verification/Candidate.thy ===== *)
theory Candidate
  imports Broker_Entry
begin

text \<open>
  How the orchestrator (\<open>backend/signal_arcade/orchestrator.py\<close>) prepares a baseline decision:
  \<open>_active_strategy_versions\<close>, \<open>_evaluate_baseline_with_size\<close> with its bounded search for the largest size
  that still enters, \<open>_prepare_baseline_decision\<close>, \<open>_configuration_fingerprint_for_mode\<close> and
  \<open>_should_record_decision\<close>. The digest of the canonical JSON text is a parameter.
\<close>

section \<open>Strategy versions\<close>

record strategy_versions =
  sv_baseline :: string
  sv_integrity :: string
  sv_sizing :: string

definition legacy_strategy :: strategy_versions where
  "legacy_strategy = \<lparr> sv_baseline = LEGACY_BASELINE_VERSION, sv_integrity = LEGACY_INTEGRITY_POLICY_VERSION,
                       sv_sizing = LEGACY_SIZING_POLICY_VERSION \<rparr>"

definition strategy_fingerprint_payload :: strategy_versions where
  "strategy_fingerprint_payload = \<lparr> sv_baseline = BASELINE_VERSION, sv_integrity = INTEGRITY_POLICY_VERSION,
                                    sv_sizing = SIZING_POLICY_VERSION \<rparr>"

definition active_strategy_versions :: "broker \<Rightarrow> strategy_versions" where
  "active_strategy_versions b =
     (case bk_season_profile b of
        None \<Rightarrow> legacy_strategy
      | Some p \<Rightarrow> \<lparr> sv_baseline = sp_baseline_version p, sv_integrity = sp_integrity_policy_version p,
                    sv_sizing = sp_sizing_policy_version p \<rparr>)"

text \<open>The settings that the fingerprint of a decision's configuration covers beside those of the broker.\<close>

record run_config =
  rc_decision_cooldown_seconds :: int
  rc_demo_mode :: bool
  rc_provider_plans :: json

definition strategy_json :: "strategy_versions \<Rightarrow> json" where
  "strategy_json v = JObj [(''baseline_version'', JStr (sv_baseline v)),
     (''integrity_policy_version'', JStr (sv_integrity v)), (''sizing_policy_version'', JStr (sv_sizing v))]"

definition configuration_payload ::
  "config \<Rightarrow> run_config \<Rightarrow> risk_mode \<Rightarrow> strategy_versions \<Rightarrow> (string \<times> json) list" where
  "configuration_payload cfg rc mode v =
     [(''learning_evidence_schema'', JStr ''stream-integrity-v6''),
      (''risk_mode'', JStr (risk_mode_value mode)),
      (''demo_mode'', JBool (rc_demo_mode rc)),
      (''fees'', JObj [(''pump_bps'', JInt (cf_pump_fee_bps cfg)),
                      (''network_lamports'', JInt (cf_network_fee_lamports cfg)),
                      (''priority_lamports'', JInt (cf_priority_fee_lamports cfg))]),
      (''latency'', JObj [(''entry_ms'', JInt (cf_entry_latency_ms cfg)), (''exit_ms'', JInt (cf_exit_latency_ms cfg))]),
      (''decision_cooldown_seconds'', JInt (rc_decision_cooldown_seconds rc)),
      (''provider_plans'', rc_provider_plans rc)] @
     (if v \<noteq> legacy_strategy then [(''strategy'', strategy_json v)] else [])"

definition configuration_fingerprint_for_mode ::
  "((string \<times> json) list \<Rightarrow> string) \<Rightarrow> config \<Rightarrow> run_config \<Rightarrow> risk_mode \<Rightarrow> strategy_versions option \<Rightarrow> string" where
  "configuration_fingerprint_for_mode digest cfg rc mode versions =
     take 16 (digest (configuration_payload cfg rc mode
       (case versions of None \<Rightarrow> strategy_fingerprint_payload | Some v \<Rightarrow> v)))"

section \<open>The size of an entry\<close>

text \<open>One evaluation of the decision engine; it draws an identifier and a clock reading.\<close>

definition evaluate_size ::
  "ctx \<Rightarrow> feature_snapshot \<Rightarrow> risk_mode \<Rightarrow> risk_limits \<Rightarrow> string \<Rightarrow> pyfloat \<Rightarrow> decision brk" where
  "evaluate_size cx f mode limits version size_sol =
     bnd (on_db (fresh_uuid (cx_env cx))) (\<lambda>did.
     bnd (on_db (wall_now (cx_env cx))) (\<lambda>created.
     lift (evaluate (fill_engine cx) f mode (Some size_sol) (Some limits) (Some version) did created)))"

definition SIZE_SENSITIVE :: "string list" where
  "SIZE_SENSITIVE = [''estimated_price_impact_above_limit'', ''heuristic_net_edge_below_minimum'']"

text \<open>Enlarging the reference size lost the entry, and only for reasons of size.\<close>

definition lost_to_size :: "pyfloat \<Rightarrow> pyfloat \<Rightarrow> decision \<Rightarrow> decision \<Rightarrow> bool" where
  "lost_to_size selected reference_size reference candidate \<longleftrightarrow>
     (let new_blockers = filter (\<lambda>x. x \<notin> set (de_blockers reference)) (de_blockers candidate) in
      reference_size < selected \<and> de_action reference = Enter \<and> de_action candidate \<noteq> Enter \<and>
      new_blockers \<noteq> [] \<and> list_all (\<lambda>x. x \<in> set SIZE_SENSITIVE) new_blockers)"

fun size_search ::
  "(pyfloat \<Rightarrow> decision brk) \<Rightarrow> nat \<Rightarrow> pyfloat \<Rightarrow> pyfloat \<Rightarrow> decision \<Rightarrow> (pyfloat \<times> decision) brk" where
  "size_search ev 0 low high candidate = ret (low, candidate)"
| "size_search ev (Suc n) low high candidate =
     (let midpoint = fdiv (fadd low high) 2 in
      bnd (ev midpoint) (\<lambda>tested.
        if de_action tested = Enter then size_search ev n midpoint high tested
        else size_search ev n low midpoint candidate))"

definition trimmed_sizing :: "sizing_assessment \<Rightarrow> pyfloat \<Rightarrow> bool \<Rightarrow> sizing_assessment" where
  "trimmed_sizing sizing selected trimmed =
     sizing\<lparr> sa_selected_size_sol := selected,
       sa_account_allocation_fraction :=
         clamp01 (fdiv (fmul (sa_account_allocation_fraction sizing) selected)
                       (max (sa_selected_size_sol sizing) (lit 1 1000000))),
       sa_constraints :=
         (if trimmed \<and> ''cost_aware_edge_cap'' \<notin> set (sa_constraints sizing)
          then sa_constraints sizing @ [''cost_aware_edge_cap''] else sa_constraints sizing) \<rparr>"

definition sized_decision :: "pyfloat \<Rightarrow> sizing_assessment \<Rightarrow> decision \<Rightarrow> decision" where
  "sized_decision selected sizing d =
     d\<lparr> de_planned_order_size_sol := Some selected,
        de_sizing_assessment := Some (trimmed_sizing sizing selected (selected < sa_selected_size_sol sizing)) \<rparr>"

definition select_size ::
  "(pyfloat \<Rightarrow> decision brk) \<Rightarrow> pyfloat \<Rightarrow> pyfloat \<Rightarrow> decision \<Rightarrow> (pyfloat \<times> decision) brk" where
  "select_size ev selected reference_size reference =
     bnd (ev selected) (\<lambda>candidate.
       if lost_to_size selected reference_size reference candidate
       then size_search ev 6 reference_size selected reference
       else ret (selected, candidate))"

definition evaluate_baseline_with_size ::
  "ctx \<Rightarrow> feature_snapshot \<Rightarrow> risk_mode \<Rightarrow> pyfloat \<Rightarrow> decimal option \<Rightarrow> decision brk" where
  "evaluate_baseline_with_size cx f mode reference_size price =
     bnd (gets id) (\<lambda>b.
     let strategy = active_strategy_versions b;
         ev = evaluate_size cx f mode (risk_limits_of b (Some mode)) (sv_baseline strategy)
     in bnd (ev reference_size) (\<lambda>reference.
        if sv_sizing strategy \<noteq> SIZING_POLICY_VERSION then ret reference
        else bnd (plan_entry_size cx reference price) (\<lambda>sizing.
             bnd (select_size ev (sa_selected_size_sol sizing) reference_size reference) (\<lambda>(selected, candidate).
             ret (sized_decision selected sizing candidate)))))"

definition prepare_baseline_decision ::
  "ctx \<Rightarrow> (strategy_versions \<Rightarrow> string) \<Rightarrow> feature_snapshot \<Rightarrow> risk_mode \<Rightarrow> decimal option
   \<Rightarrow> (decision \<times> bool) brk" where
  "prepare_baseline_decision cx fingerprint f mode price =
     bnd (planned_order_size_sol cx mode price) (\<lambda>planned.
     bnd (evaluate_baseline_with_size cx f mode planned price) (\<lambda>sized.
     bnd (gets id) (\<lambda>b.
     let d = sized\<lparr> de_season_id := bk_season_id b,
                    de_season_profile_fingerprint := map_option sp_profile_fingerprint (bk_season_profile b),
                    de_configuration_fingerprint := Some (fingerprint (active_strategy_versions b)) \<rparr>
     in if de_action d \<noteq> Enter then ret (d, False)
        else bnd (entry_blocker cx d price) (\<lambda>blocker. ret (d, blocker = None)))))"

section \<open>Recording decisions\<close>

definition should_record_decision :: "(string, decision) pydict \<Rightarrow> decision \<Rightarrow> bool" where
  "should_record_decision recorded d \<longleftrightarrow>
     de_action d = Enter \<or>
     (case map_of recorded (de_mint d) of
        None \<Rightarrow> True
      | Some previous \<Rightarrow>
          de_action previous \<noteq> de_action d \<or> de_blockers previous \<noteq> de_blockers d \<or>
          de_model_version previous \<noteq> de_model_version d \<or>
          5 \<le> \<bar>sc_composite (de_score previous) - sc_composite (de_score d)\<bar> \<or>
          300 \<le> total_seconds (de_created_at d - de_created_at previous))"

end
