(* ===== verification/Advisors.thy ===== *)
theory Advisors
  imports Broker_Entry
begin

text \<open>
  What may change a baseline decision on its way to the broker: \<open>LearningEngine.assess\<close> with
  \<open>_assess_active_skills\<close> (\<open>backend/signal_arcade/intelligence/learning.py\<close>) and the guarded critic
  \<open>AiDecisionLab.assess_guarded\<close> (\<open>ai_lab.py\<close>). The trained models, the qualification of an artifact, the
  cached policy origin, the critic's verdict and pydantic's JSON dump of a receipt are parameters; which skill
  is in force, what it may do to the decision, and the receipt it leaves are the code's.
\<close>

section \<open>Features\<close>

type_synonym features = "(string \<times> pyfloat) list"

definition INTEGRITY_FEATURE_NAMES :: "string list" where
  "INTEGRITY_FEATURE_NAMES =
     [''single_trade_wallet_ratio'', ''round_trip_wallet_ratio'', ''round_trip_volume_ratio'',
      ''net_quote_flow_ratio'', ''side_alternation_ratio'', ''quantized_amount_repeat_ratio'',
      ''slot_concentration_hhi'', ''price_direction_consistency'', ''microtrade_count_ratio'',
      ''meaningful_volume_ratio'', ''meaningful_wallet_ratio'', ''median_trade_quote_sol'',
      ''price_path_efficiency'', ''rapid_price_reversal_ratio'', ''trade_density_5m'']"

text \<open>A usable metric of the snapshot, or nothing.\<close>

definition integrity_feature :: "feature_snapshot \<Rightarrow> string \<Rightarrow> pyfloat option" where
  "integrity_feature f name =
     (case map_of (fs_values f) name of
        None \<Rightarrow> None
      | Some item \<Rightarrow>
          (case dv_value item of
             None \<Rightarrow> None
           | Some v \<Rightarrow>
               if is_bool_scalar v \<or> dv_missing_reason item \<noteq> None then None
               else map_option clamp01 (float_of_scalar v)))"

fun all_some :: "'a option list \<Rightarrow> 'a list option" where
  "all_some [] = Some []"
| "all_some (x # xs) = (case x of None \<Rightarrow> None | Some a \<Rightarrow> map_option ((#) a) (all_some xs))"

record skill_artifact =
  sk_version :: string
  sk_skill :: challenger_skill
  sk_risk_mode :: risk_mode
  sk_configuration_fingerprint :: string
  sk_baseline_version :: string
  sk_validation_rmse :: pyfloat \<comment> \<open>\<open>float(metrics.get("validation_rmse") or 0.0)\<close>\<close>

record skill_state =
  ss_active_version :: "string option"
  ss_suspended_version :: "string option"
  ss_active_dependencies :: "(string \<times> string) list"

text \<open>The earlier single model of entries.\<close>

record learning_model =
  lm_version :: string
  lm_risk_mode :: risk_mode
  lm_configuration_fingerprint :: "string option"
  lm_qualified :: bool
  lm_validation_rmse :: pyfloat

record evaluation_receipt = sizing_receipt +
  rc_evaluated_at :: time
  rc_prediction :: "pyfloat option"
  rc_conservative_value :: "pyfloat option"

record models =
  mo_log1p :: "pyfloat \<Rightarrow> pyfloat" \<comment> \<open>\<open>math.log1p\<close>\<close>
  mo_log :: "int \<Rightarrow> pyfloat" \<comment> \<open>\<open>math.log\<close>\<close>
  mo_predict :: "skill_artifact \<Rightarrow> features \<Rightarrow> pyfloat option"
  mo_in_support :: "skill_artifact \<Rightarrow> features \<Rightarrow> bool"
  mo_eligible :: "skill_artifact \<Rightarrow> bool"
  mo_support_evidence :: "skill_artifact \<Rightarrow> features \<Rightarrow> bool \<Rightarrow> (string \<times> scalar option) list"
  mo_policy_origin :: "decision \<Rightarrow> (string \<times> scalar option) list"
  mo_dump_receipt :: "evaluation_receipt \<Rightarrow> json"
  mo_shape_valid :: "learning_model \<Rightarrow> bool"
  mo_model_predict :: "learning_model \<Rightarrow> features \<Rightarrow> pyfloat"
  mo_model_support :: "learning_model \<Rightarrow> features \<Rightarrow> bool"
  mo_validation_current :: "learning_model \<Rightarrow> bool"

record learner =
  ln_mode_active :: bool
  ln_active_skill_versions :: "(string, string) pydict"
  ln_skill_artifacts :: "(string, skill_artifact) pydict"
  ln_skill_states :: "(challenger_skill, skill_state) pydict" \<comment> \<open>those of the current cohort\<close>
  ln_models :: "learning_model list"
  ln_active_model :: "learning_model option"

definition feature_vector :: "models \<Rightarrow> decision \<Rightarrow> features option" where
  "feature_vector mo d =
     (let f = de_feature_snapshot d;
          reserve_sol = max 0 (fs_number f ''virtual_quote_reserve_sol'' 0)
      in map_option (\<lambda>integrity.
           [(''opportunity'', sc_opportunity (de_score d)),
            (''danger'', sc_danger (de_score d)),
            (''execution'', sc_execution (de_score d)),
            (''confidence'', sc_confidence (de_score d)),
            (''buy_ratio'', clamp01 (fs_number f ''buy_ratio_5m'' 0)),
            (''wallet_breadth'', clamp01 (fdiv (fs_number f ''unique_wallets_5m'' 0) 30)),
            (''concentration'', clamp01 (fs_number f ''wallet_volume_hhi'' 1)),
            (''repetition'', clamp01 (fs_number f ''repeated_amount_ratio'' 0)),
            (''coordination'', clamp01 (fs_number f ''same_slot_ratio'' 0)),
            (''curve_progress'', clamp01 (fs_number f ''curve_progress'' 0)),
            (''momentum'', clamp (- 1) 1 (fs_number f ''momentum_1m'' 0)),
            (''drawdown'', clamp01 (fs_number f ''drawdown_5m'' 0)),
            (''reserve_depth'', clamp01 (fdiv (mo_log1p mo reserve_sol) (mo_log mo 1001)))] @
           zip INTEGRITY_FEATURE_NAMES integrity)
         (all_some (map (integrity_feature f) INTEGRITY_FEATURE_NAMES)))"

section \<open>Skills in force\<close>

fun skill_value :: "challenger_skill \<Rightarrow> string" where
  "skill_value SkEntry = ''entry''"
| "skill_value SkManipulation = ''manipulation''"
| "skill_value SkSizing = ''sizing''"
| "skill_value SkExit = ''exit''"

text \<open>
  The artifact that may act on this decision. The test for an unavailable exit artifact is left out: it
  follows a test that the skill is one of the three others.
\<close>

definition artifact_in_force :: "models \<Rightarrow> learner \<Rightarrow> decision \<Rightarrow> challenger_skill \<Rightarrow> skill_artifact option" where
  "artifact_in_force mo lr d skill =
     (let version = (case map_of (ln_active_skill_versions lr) (skill_value skill) of None \<Rightarrow> [] | Some v \<Rightarrow> v) in
      case (map_of (ln_skill_artifacts lr) version, map_of (ln_skill_states lr) skill) of
        (Some artifact, Some state) \<Rightarrow>
          if sk_skill artifact = skill \<and> ss_active_version state = Some (sk_version artifact) \<and>
             ss_suspended_version state \<noteq> Some (sk_version artifact) \<and>
             list_all (\<lambda>(dependency, v). map_of (ln_active_skill_versions lr) dependency = Some v)
               (ss_active_dependencies state) \<and>
             sk_risk_mode artifact = de_risk_mode d \<and>
             Some (sk_configuration_fingerprint artifact) = de_configuration_fingerprint d \<and>
             sk_baseline_version artifact = baseline_of d \<and> mo_eligible mo artifact
          then Some artifact else None
      | _ \<Rightarrow> None)"

section \<open>Assessment\<close>

definition SIZING_MULTIPLIERS :: "pyfloat list" where
  "SIZING_MULTIPLIERS = [lit 1 2, 1, lit 3 2, 2]"

text \<open>\<open>min(SIZING_MULTIPLIERS, key=lambda c: (abs(c - value), c))\<close>.\<close>

definition nearer :: "pyfloat \<Rightarrow> pyfloat \<Rightarrow> pyfloat \<Rightarrow> pyfloat" where
  "nearer value candidate best =
     (let c = \<bar>fsub candidate value\<bar>; b = \<bar>fsub best value\<bar> in
      if c < b \<or> c = b \<and> candidate < best then candidate else best)"

definition nearest_size_multiplier :: "pyfloat \<Rightarrow> pyfloat" where
  "nearest_size_multiplier value = fold (nearer value) (tl SIZING_MULTIPLIERS) (hd SIZING_MULTIPLIERS)"

text \<open>\<open>f"{multiplier:g}"\<close> of the multipliers.\<close>

definition size_trial_key :: "pyfloat \<Rightarrow> string" where
  "size_trial_key m = (case map_of MULTIPLIERS m of None \<Rightarrow> ''1'' | Some text \<Rightarrow> text)"

record assessing =
  as_action :: decision_action
  as_planned_size :: "pyfloat option"
  as_reasons :: "string list"
  as_blockers :: "string list"
  as_applied_versions :: "string list"
  as_assessments :: "(string, json) pydict"
  as_legacy :: "learning_assessment option"

text \<open>The ranges that \<open>LearningAssessment\<close> and \<open>ChallengerEvaluationReceipt\<close> declare.\<close>

definition assessment_fields_ok :: "learning_assessment \<Rightarrow> bool" where
  "assessment_fields_ok a \<longleftrightarrow>
     - 1 \<le> la_predicted_net_return a \<and> la_predicted_net_return a \<le> 10 \<and>
     - 1 \<le> la_conservative_net_return a \<and> la_conservative_net_return a \<le> 10 \<and> 0 \<le> la_validation_rmse a"

definition value_in_receipt_range :: "pyfloat option \<Rightarrow> bool" where
  "value_in_receipt_range x = (case x of None \<Rightarrow> True | Some v \<Rightarrow> - 10 \<le> v \<and> v \<le> 10)"

definition value_or_zero :: "pyfloat option \<Rightarrow> pyfloat" where
  "value_or_zero x = (case x of None \<Rightarrow> 0 | Some v \<Rightarrow> v)"

definition conservative_value :: "skill_artifact \<Rightarrow> pyfloat option \<Rightarrow> pyfloat option" where
  "conservative_value artifact prediction = map_option (\<lambda>p. fsub p (sk_validation_rmse artifact)) prediction"

text \<open>The dictionary display \<open>{**a, **b}\<close>: a later key replaces an earlier one in place.\<close>

definition merged :: "('k, 'v) pydict \<Rightarrow> ('k, 'v) pydict \<Rightarrow> ('k, 'v) pydict" where
  "merged a b = fold (\<lambda>(k, v) d. AList.update k v d) b a"

definition skill_receipt ::
  "models \<Rightarrow> decision \<Rightarrow> skill_artifact \<Rightarrow> features \<Rightarrow> pyfloat option \<Rightarrow> string \<Rightarrow> bool \<Rightarrow> bool
   \<Rightarrow> (string \<times> scalar option) list \<Rightarrow> evaluation_receipt result" where
  "skill_receipt mo d artifact features prediction proposed applied actionable extra =
     (let supported = mo_in_support mo artifact features;
          conservative = conservative_value artifact prediction
      in if value_in_receipt_range prediction \<and> value_in_receipt_range conservative
         then Inr \<lparr> sz_artifact_version = sk_version artifact, sz_skill = sk_skill artifact,
                    sz_in_distribution = supported, sz_proposed_action = proposed,
                    sz_baseline_actionable = actionable,
                    sz_parameters =
                      merged (merged (merged [(''applied'', Some (SBool applied))]
                        (mo_support_evidence mo artifact features supported)) (mo_policy_origin mo d)) extra,
                    rc_evaluated_at = de_created_at d, rc_prediction = prediction,
                    rc_conservative_value = conservative \<rparr>
         else Inl (ValueError ''invalid challenger receipt''))"

definition record_receipt :: "models \<Rightarrow> challenger_skill \<Rightarrow> bool \<Rightarrow> evaluation_receipt \<Rightarrow> assessing \<Rightarrow> assessing" where
  "record_receipt mo skill applied r a =
     a\<lparr> as_assessments := AList.update (skill_value skill) (mo_dump_receipt mo r) (as_assessments a),
        as_applied_versions :=
          (if applied then as_applied_versions a @ [sz_artifact_version r] else as_applied_versions a) \<rparr>"

definition legacy_assessment :: "skill_artifact \<Rightarrow> pyfloat option \<Rightarrow> bool \<Rightarrow> bool \<Rightarrow> string \<Rightarrow> learning_assessment" where
  "legacy_assessment artifact prediction supported applied proposed =
     \<lparr> la_model_version = sk_version artifact,
       la_predicted_net_return = value_or_zero prediction,
       la_conservative_net_return = value_or_zero (conservative_value artifact prediction),
       la_validation_rmse = sk_validation_rmse artifact, la_applied = applied,
       la_verdict = (if \<not> supported then ''out_of_distribution''
                     else if proposed = ''support'' then ''supports_entry'' else ''caution'') \<rparr>"

text \<open>The entry and the manipulation skill: they can only veto.\<close>

definition assess_veto_skill ::
  "models \<Rightarrow> decision \<Rightarrow> bool \<Rightarrow> features \<Rightarrow> challenger_skill \<Rightarrow> skill_artifact \<Rightarrow> assessing \<Rightarrow> assessing result" where
  "assess_veto_skill mo d actionable features skill artifact a =
     (let prediction = mo_predict mo artifact features;
          supported = mo_in_support mo artifact features;
          proposed = (case conservative_value artifact prediction of
                        Some c \<Rightarrow> if supported \<and> 0 < c then ''support'' else ''veto''
                      | None \<Rightarrow> ''veto'');
          applied = (as_action a = Enter \<and> actionable \<and> supported);
          legacy = legacy_assessment artifact prediction supported applied proposed
      in if skill = SkEntry \<and> \<not> assessment_fields_ok legacy then Inl (ValueError ''invalid learning assessment'')
         else
           let a1 = (if skill = SkEntry then a\<lparr> as_legacy := Some legacy \<rparr> else a);
               a2 = (if applied \<and> proposed = ''veto''
                     then a1\<lparr> as_action := Pass,
                              as_blockers := as_blockers a1 @ [''challenger_'' @ skill_value skill @ ''_veto''],
                              as_reasons := as_reasons a1 @
                                [''The qualified Challenger '' @ skill_value skill @ '' skill preserved cash''] \<rparr>
                     else if applied
                     then a1\<lparr> as_reasons := as_reasons a1 @
                                [''The qualified Challenger '' @ skill_value skill @ '' skill agreed''] \<rparr>
                     else a1)
           in rbind (skill_receipt mo d artifact features prediction proposed applied actionable [])
                (\<lambda>r. Inr (record_receipt mo skill applied r a2)))"

text \<open>The sizing skill: a multiplier of the planned size, larger than one only on clean evidence inside the cap.\<close>

definition selected_multiplier :: "decision \<Rightarrow> pyfloat option \<Rightarrow> pyfloat option \<Rightarrow> bool \<Rightarrow> pyfloat \<times> string" where
  "selected_multiplier d planned prediction supported =
     (let selected = (case prediction of Some p \<Rightarrow> if supported then nearest_size_multiplier p else 1 | None \<Rightarrow> 1) in
      if 1 < selected \<and> (case de_integrity_assessment d of None \<Rightarrow> True | Some i \<Rightarrow> ia_state i \<noteq> Clean)
        then (1, ''baseline_integrity_guard'')
      else if 1 < selected \<and>
              (case (planned, Option.bind (de_sizing_assessment d) sa_maximum_size_sol) of
                 (Some size_sol, Some largest) \<Rightarrow> fadd largest (lit 1 1000000000) < fmul size_sol selected
               | _ \<Rightarrow> False)
        then (1, ''baseline_capacity_guard'')
      else (selected, size_trial_key selected))"

definition assess_sizing_skill ::
  "models \<Rightarrow> decision \<Rightarrow> bool \<Rightarrow> features \<Rightarrow> skill_artifact \<Rightarrow> assessing \<Rightarrow> assessing result" where
  "assess_sizing_skill mo d actionable features artifact a =
     (let prediction = mo_predict mo artifact features;
          supported = mo_in_support mo artifact features
      in case selected_multiplier d (as_planned_size a) prediction supported of
        (selected, proposed) \<Rightarrow>
          let applied = (as_action a = Enter \<and> actionable \<and> supported \<and> as_planned_size a \<noteq> None \<and> selected \<noteq> 1);
              a1 = (if applied
                    then a\<lparr> as_planned_size := map_option (\<lambda>size_sol. fmul size_sol selected) (as_planned_size a),
                            as_reasons := as_reasons a @
                              [''The qualified Challenger sizing skill selected '' @ size_trial_key selected @ ''x''] \<rparr>
                    else a)
          in rbind (skill_receipt mo d artifact features prediction proposed applied actionable
                      [(''selected_multiplier'', Some (SFloat selected)),
                       (''baseline_size_sol'', Some (SFloat (value_or_zero (de_planned_order_size_sol d))))])
               (\<lambda>r. Inr (record_receipt mo SkSizing applied r a1)))"

definition assess_skill ::
  "models \<Rightarrow> learner \<Rightarrow> decision \<Rightarrow> bool \<Rightarrow> features \<Rightarrow> challenger_skill \<Rightarrow> assessing \<Rightarrow> assessing result" where
  "assess_skill mo lr d actionable features skill a =
     (case artifact_in_force mo lr d skill of
        None \<Rightarrow> Inr a
      | Some artifact \<Rightarrow>
          if skill = SkSizing then assess_sizing_skill mo d actionable features artifact a
          else assess_veto_skill mo d actionable features skill artifact a)"

definition unassessed :: "decision \<Rightarrow> assessing" where
  "unassessed d = \<lparr> as_action = de_action d, as_planned_size = de_planned_order_size_sol d,
     as_reasons = de_reasons d, as_blockers = de_blockers d, as_applied_versions = [], as_assessments = [],
     as_legacy = None \<rparr>"

text \<open>\<open>"+".join((model_version, *applied_versions))\<close>.\<close>

definition joined_version :: "string \<Rightarrow> string list \<Rightarrow> string" where
  "joined_version version applied = version @ concat (map ((#) CHR ''+'') applied)"

definition assessed_decision :: "decision \<Rightarrow> assessing \<Rightarrow> decision" where
  "assessed_decision d a =
     d\<lparr> de_action := as_action a, de_reasons := as_reasons a, de_blockers := as_blockers a,
        de_planned_order_size_sol := as_planned_size a,
        de_model_version := joined_version (de_model_version d) (as_applied_versions a),
        de_learning_assessment := as_legacy a, de_challenger_assessments := as_assessments a \<rparr>"

definition assess_active_skills :: "models \<Rightarrow> learner \<Rightarrow> decision \<Rightarrow> bool \<Rightarrow> decision result" where
  "assess_active_skills mo lr d actionable =
     (case feature_vector mo d of
        None \<Rightarrow> Inr d
      | Some features \<Rightarrow>
          rbind (assess_skill mo lr d actionable features SkEntry (unassessed d)) (\<lambda>a1.
          rbind (assess_skill mo lr d actionable features SkManipulation a1) (\<lambda>a2.
          rbind (assess_skill mo lr d actionable features SkSizing a2) (\<lambda>a3.
          Inr (assessed_decision d a3)))))"

section \<open>The single model\<close>

definition LEARNER_VERSION_PREFIX :: string where
  "LEARNER_VERSION_PREFIX = ''learner-v6-''"

definition latest_model_for_context :: "learner \<Rightarrow> risk_mode \<Rightarrow> string option \<Rightarrow> learning_model option" where
  "latest_model_for_context lr mode fingerprint =
     find (\<lambda>m. starts_with LEARNER_VERSION_PREFIX (lm_version m) \<and> lm_risk_mode m = mode \<and>
               lm_configuration_fingerprint m = fingerprint) (rev (ln_models lr))"

definition model_assessment :: "learning_model \<Rightarrow> pyfloat \<Rightarrow> pyfloat \<Rightarrow> bool \<Rightarrow> bool \<Rightarrow> learning_assessment" where
  "model_assessment m prediction conservative in_distribution applied =
     \<lparr> la_model_version = lm_version m, la_predicted_net_return = prediction,
       la_conservative_net_return = conservative, la_validation_rmse = lm_validation_rmse m,
       la_applied = applied,
       la_verdict = (if \<not> in_distribution then ''out_of_distribution''
                     else if 0 < conservative then ''supports_entry'' else ''caution'') \<rparr>"

definition apply_model :: "learning_model \<Rightarrow> pyfloat \<Rightarrow> decision \<Rightarrow> decision" where
  "apply_model m conservative d =
     (if conservative \<le> 0
      then d\<lparr> de_model_version := de_model_version d @ ''+'' @ lm_version m, de_action := Pass,
              de_blockers := de_blockers d @ [''learner_conservative_return_not_positive''],
              de_reasons := de_reasons d @
                [''The proven learner preserved cash because its conservative outcome was not positive''] \<rparr>
      else d\<lparr> de_model_version := de_model_version d @ ''+'' @ lm_version m,
              de_reasons := de_reasons d @ [''The proven learner also supports this baseline entry''] \<rparr>)"

definition assess_model :: "models \<Rightarrow> learner \<Rightarrow> decision \<Rightarrow> bool \<Rightarrow> bool \<Rightarrow> decision result" where
  "assess_model mo lr d live actionable =
     (case (if ln_mode_active lr then ln_active_model lr
            else latest_model_for_context lr (de_risk_mode d) (de_configuration_fingerprint d)) of
        None \<Rightarrow> Inr d
      | Some m \<Rightarrow>
          if \<not> live \<or> \<not> mo_shape_valid mo m then Inr d
          else (case feature_vector mo d of
                  None \<Rightarrow> Inr d
                | Some features \<Rightarrow>
                    let prediction = mo_model_predict mo m features;
                        conservative = clamp (- 1) 10 (fsub prediction (lm_validation_rmse m));
                        in_distribution = mo_model_support mo m features;
                        applied = (ln_mode_active lr \<and>
                          (case ln_active_model lr of
                             None \<Rightarrow> False | Some active \<Rightarrow> lm_qualified active \<and> mo_validation_current mo active) \<and>
                          lm_risk_mode m = de_risk_mode d \<and>
                          lm_configuration_fingerprint m = de_configuration_fingerprint d \<and>
                          in_distribution \<and> de_action d = Enter \<and> actionable);
                        assessment = model_assessment m prediction conservative in_distribution applied;
                        d1 = d\<lparr> de_learning_assessment := Some assessment \<rparr>
                    in if \<not> assessment_fields_ok assessment then Inl (ValueError ''invalid learning assessment'')
                       else Inr (if applied then apply_model m conservative d1 else d1)))"

definition assess :: "models \<Rightarrow> learner \<Rightarrow> decision \<Rightarrow> bool \<Rightarrow> bool \<Rightarrow> decision result" where
  "assess mo lr d live actionable =
     (if live \<and> ln_mode_active lr \<and> ln_active_skill_versions lr \<noteq> [] then assess_active_skills mo lr d actionable
      else assess_model mo lr d live actionable)"

section \<open>The guarded critic\<close>

text \<open>
  The verdict of the local model: valid, a veto, of high confidence; \<open>None\<close> when no assessment was made.
\<close>

record critic_verdict =
  cv_valid :: bool
  cv_veto :: bool
  cv_high_confidence :: bool

record critic =
  cr_paused :: bool
  cr_guarded :: bool
  cr_qualified :: bool
  cr_judge :: "decision \<Rightarrow> critic_verdict option"

definition PROMPT_VERSION :: string where
  "PROMPT_VERSION = ''ai-critic-v4''"

definition assess_guarded :: "critic \<Rightarrow> decision \<Rightarrow> decision" where
  "assess_guarded cr d =
     (if cr_paused cr \<or> \<not> cr_guarded cr \<or> de_action d \<noteq> Enter \<or> \<not> cr_qualified cr then d
      else (case cr_judge cr d of
              None \<Rightarrow> d
            | Some v \<Rightarrow>
                if cv_valid v \<and> cv_veto v \<and> cv_high_confidence v
                then d\<lparr> de_action := Pass,
                        de_blockers := de_blockers d @ [''qualified_ai_critic_veto''],
                        de_reasons := de_reasons d @
                          [''The qualified local AI critic preserved cash using cited saved evidence''],
                        de_model_version := de_model_version d @ ''+'' @ PROMPT_VERSION \<rparr>
                else d))"

end
