(* ===== verification/Market_State.thy ===== *)
theory Market_State
  imports Market_Event
begin

text \<open>
  \<open>TokenState\<close> (\<open>backend/signal_arcade/intelligence/features.py\<close>): the live market state of one
  token, and the calls that change it. \<open>TokenState.apply\<close> is \<open>token_apply\<close>, the composition of one
  function per paragraph of the method; the refreshes of \<open>FeatureEngine\<close> are functions of the one
  token they look up. The record extends \<open>token_state\<close>, the part that the broker reads.
\<close>

section \<open>State\<close>

record trade_observation =
  tr_received_at :: time
  tr_slot :: int
  tr_side :: side
  tr_user :: string
  tr_token_units :: int
  tr_quote_lamports :: int
  tr_price_sol :: pyfloat
  tr_signature :: string
  tr_venue :: string

type_synonym stream_metric = "pyfloat option \<times> pyfloat \<times> string option"
type_synonym activity_metric = "scalar option \<times> pyfloat \<times> string option"

record rolling_metrics =
  rm_computed_at :: time
  rm_venue :: string
  rm_trades_1m :: "trade_observation list"
  rm_trades_5m :: "trade_observation list"
  rm_buys_1m :: int
  rm_buys_5m :: int
  rm_buy_ratio :: pyfloat
  rm_users :: "string list"
  rm_wallet_volume_hhi :: pyfloat
  rm_repeated_amount_ratio :: pyfloat
  rm_same_slot_ratio :: pyfloat
  rm_integrity :: "(string \<times> stream_metric) list"
  rm_activity :: "(string \<times> activity_metric) list option"
  rm_window_span_seconds :: pyfloat
  rm_buffer_saturated :: bool
  rm_momentum_1m :: pyfloat
  rm_momentum_5m :: pyfloat
  rm_drawdown_5m :: pyfloat
  rm_volume_5m_sol :: pyfloat

record live_token = token_state +
  lt_name :: string
  lt_symbol :: string
  lt_identity_source :: string
  lt_uri :: string
  lt_creator :: string
  lt_route_verified :: bool
  lt_token_program :: string
  lt_created_at :: "time option"
  lt_last_event_id :: "string option"
  lt_last_slot :: int
  lt_reserve_audit :: "json option"
  lt_initial_real_token_reserves :: int
  lt_token_total_supply :: int
  lt_complete :: bool
  lt_trades :: "trade_observation list"
  lt_last_evicted_trade :: "trade_observation option"
  lt_rolling_trade_metrics :: "rolling_metrics option"
  lt_sources :: "string list"
  lt_enrichment :: "(string, json) pydict"
  lt_enrichment_times :: "(string, time) pydict"

definition SOL_IN_LAMPORTS :: int where "SOL_IN_LAMPORTS = 1000000000"
definition PUMP_TOKEN_DECIMALS :: int where "PUMP_TOKEN_DECIMALS = 1000000"
definition WRAPPED_SOL_MINT :: string where
  "WRAPPED_SOL_MINT = ''So11111111111111111111111111111111111111112''"
definition NATIVE_SOL_MINT :: string where
  "NATIVE_SOL_MINT = ''11111111111111111111111111111111''"
definition SPL_TOKEN_PROGRAM :: string where
  "SPL_TOKEN_PROGRAM = ''TokenkegQfeZyiNwAJbNbGKPFXCWuBvf9Ss623VQ5DA''"
definition TOKEN_2022_PROGRAM :: string where
  "TOKEN_2022_PROGRAM = ''TokenzQdBNbLqP5VEhdkAS6EPFLC1PHnBqCXEpPxuEb''"

definition TRADE_BUFFER :: nat where "TRADE_BUFFER = 5000"

text \<open>\<open>TokenState(mint=mint)\<close>: every other field has its default.\<close>

definition new_token :: "string \<Rightarrow> live_token" where
  "new_token mint =
     \<lparr> ts_mint = mint, ts_venue = ''pump_curve'', ts_curve_address = [], ts_pool_address = [],
       ts_pool_base_token_account = [], ts_pool_quote_token_account = [], ts_quote_mint = WRAPPED_SOL_MINT,
       ts_last_event_at = None, ts_last_reserve_at = None, ts_last_reserve_slot = 0, ts_reserve_source = [],
       ts_reserve_fee_components = None, ts_reserve_lp_fee_bps = 0, ts_last_reserve_event_id = None,
       ts_last_reserve_signature = None, ts_virtual_token_reserves = 0, ts_virtual_quote_reserves = 0,
       ts_real_token_reserves = 0, ts_real_quote_reserves = None, ts_fee_bps = 0,
       lt_name = ''Unknown token'', lt_symbol = ''?'', lt_identity_source = ''unavailable'', lt_uri = [],
       lt_creator = [], lt_route_verified = False, lt_token_program = [], lt_created_at = None,
       lt_last_event_id = None, lt_last_slot = 0, lt_reserve_audit = None,
       lt_initial_real_token_reserves = 0, lt_token_total_supply = 0, lt_complete = False,
       lt_trades = [], lt_last_evicted_trade = None, lt_rolling_trade_metrics = None,
       lt_sources = [], lt_enrichment = [], lt_enrichment_times = [] \<rparr>"

section \<open>\<open>TokenState.apply\<close>\<close>

definition event_slot :: "market_event \<Rightarrow> int" where
  "event_slot ev = (case me_slot ev of None \<Rightarrow> 0 | Some n \<Rightarrow> n)"

definition later_of :: "time option \<Rightarrow> time \<Rightarrow> time" where
  "later_of prior eff = (case prior of None \<Rightarrow> eff | Some t \<Rightarrow> max t eff)"

text \<open>A monotonic effective timestamp, should a host clock be corrected backwards.\<close>

definition effective_at :: "market_event \<Rightarrow> live_token \<Rightarrow> time" where
  "effective_at ev st = later_of (ts_last_reserve_at st) (later_of (ts_last_event_at st) (me_received_at ev))"

definition RESERVE_KEYS :: "string list" where
  "RESERVE_KEYS =
     [''virtual_token_reserves'', ''virtualTokenReserves'', ''virtual_sol_reserves'', ''virtualSolReserves'',
      ''virtual_quote_reserves'', ''virtualQuoteReserves'', ''pool_base_token_reserves'',
      ''poolBaseTokenReserves'', ''pool_base_amount'', ''poolBaseAmount'', ''base_reserves_after'',
      ''baseReservesAfter'', ''pool_quote_token_reserves'', ''poolQuoteTokenReserves'',
      ''pool_quote_amount'', ''poolQuoteAmount'', ''real_quote_reserves_after'', ''realQuoteReservesAfter'']"

definition reserve_observed :: "market_event \<Rightarrow> bool" where
  "reserve_observed ev \<longleftrightarrow> list_ex (\<lambda>key. 0 < payload_number (me_payload ev) [key] 0) RESERVE_KEYS"

text \<open>An event of the AMM program, by its source or by the name of its log.\<close>

definition event_is_amm :: "platform \<Rightarrow> market_event \<Rightarrow> bool" where
  "event_is_amm pl ev \<longleftrightarrow>
     contains ''pAMMBay6'' (me_source ev) \<or>
     py_lower (case map_of (me_payload ev) ''event_name'' of None \<Rightarrow> [] | Some v \<Rightarrow> py_str pl v)
       \<in> set [''buyevent'', ''sellevent'', ''createpoolevent'']"

text \<open>The route of a token that trades on a verified AMM pool.\<close>

definition route_pinned :: "live_token \<Rightarrow> bool" where
  "route_pinned st \<longleftrightarrow> ts_venue st = ''pump_swap'' \<and> lt_route_verified st"

definition route_regression :: "platform \<Rightarrow> market_event \<Rightarrow> live_token \<Rightarrow> bool" where
  "route_regression pl ev st \<longleftrightarrow> route_pinned st \<and> \<not> event_is_amm pl ev"

definition note_event :: "market_event \<Rightarrow> live_token \<Rightarrow> live_token" where
  "note_event ev st = st\<lparr>
     ts_last_event_at := (if me_kind ev \<noteq> EvMarket then Some (effective_at ev st) else ts_last_event_at st),
     lt_last_event_id := (if me_kind ev \<noteq> EvMarket then Some (me_event_id ev) else lt_last_event_id st),
     lt_reserve_audit := (if reserve_observed ev then None else lt_reserve_audit st),
     ts_reserve_fee_components := (if reserve_observed ev then None else ts_reserve_fee_components st),
     ts_reserve_lp_fee_bps := (if reserve_observed ev then 0 else ts_reserve_lp_fee_bps st),
     lt_last_slot := max (lt_last_slot st) (event_slot ev),
     lt_sources := List.insert (me_source ev) (lt_sources st) \<rparr>"

definition payload_text :: "market_event \<Rightarrow> string list \<Rightarrow> string option" where
  "payload_text ev keys = json_str (payload_value (me_payload ev) keys)"

definition note_metadata :: "market_event \<Rightarrow> live_token \<Rightarrow> live_token" where
  "note_metadata ev st = st\<lparr>
     ts_curve_address :=
       (case payload_text ev [''bonding_curve'', ''bondingCurve''] of
          Some curve \<Rightarrow> if 30 \<le> length curve \<and> length curve \<le> 50 then curve else ts_curve_address st
        | None \<Rightarrow> ts_curve_address st),
     ts_quote_mint :=
       (case payload_text ev [''quote_mint'', ''quoteMint''] of
          Some q \<Rightarrow> if route_pinned st then ts_quote_mint st else q
        | None \<Rightarrow> ts_quote_mint st),
     lt_token_program :=
       (case payload_text ev [''token_program'', ''tokenProgram''] of Some p \<Rightarrow> p | None \<Rightarrow> lt_token_program st),
     lt_creator :=
       (case payload_text ev [''new_coin_creator'', ''newCoinCreator'', ''new_creator'', ''newCreator'',
                              ''coin_creator'', ''coinCreator'', ''creator''] of
          Some c \<Rightarrow> c | None \<Rightarrow> lt_creator st) \<rparr>"

text \<open>\<open>str(_value(payload, keys, default=dflt))\<close>.\<close>

definition value_str :: "platform \<Rightarrow> market_event \<Rightarrow> string list \<Rightarrow> string \<Rightarrow> string" where
  "value_str pl ev keys dflt =
     (case payload_value (me_payload ev) keys of None \<Rightarrow> dflt | Some v \<Rightarrow> py_str pl v)"

text \<open>\<open>datetime.fromtimestamp(n, UTC)\<close>: the last representable second is the end of the year 9999.\<close>

definition from_timestamp :: "int \<Rightarrow> time result" where
  "from_timestamp n = (if n \<le> 253402300799 then Inr (n * 1000000) else Inl OutOfRange)"

definition note_identity :: "platform \<Rightarrow> market_event \<Rightarrow> live_token \<Rightarrow> live_token" where
  "note_identity pl ev st =
     (let name = bounded_display_text (payload_value (me_payload ev) [''name'']) 100;
          symbol = bounded_display_text (payload_value (me_payload ev) [''symbol'']) 30
      in st\<lparr>
        lt_name := (case name of Some n \<Rightarrow> n | None \<Rightarrow> lt_name st),
        lt_symbol := (case symbol of Some s \<Rightarrow> s | None \<Rightarrow> lt_symbol st),
        lt_identity_source :=
          (if name \<noteq> None \<or> symbol \<noteq> None then ''pump_create_event'' else lt_identity_source st),
        lt_uri := take 500 (value_str pl ev [''uri''] []),
        lt_creator := value_str pl ev [''coin_creator'', ''coinCreator'', ''creator'', ''user''] [] \<rparr>)"

definition creation_time :: "market_event \<Rightarrow> time \<Rightarrow> time result" where
  "creation_time ev eff =
     (let timestamp = payload_number (me_payload ev) [''timestamp''] 0 in
      if 1500000000 < timestamp then from_timestamp timestamp else Inr eff)"

definition note_supply :: "market_event \<Rightarrow> time \<Rightarrow> live_token \<Rightarrow> live_token" where
  "note_supply ev created st = st\<lparr>
     lt_created_at := Some created,
     lt_token_total_supply :=
       payload_number (me_payload ev) [''token_total_supply'', ''tokenTotalSupply''] (lt_token_total_supply st) \<rparr>"

text \<open>The branch for a creation: only the conversion of its timestamp can raise.\<close>

definition note_creation :: "platform \<Rightarrow> market_event \<Rightarrow> time \<Rightarrow> (live_token, unit) act" where
  "note_creation pl ev eff =
     seq (modify (note_identity pl ev))
         (bnd (lift (creation_time ev eff)) (\<lambda>created. modify (note_supply ev created)))"

definition note_completion :: "market_event \<Rightarrow> live_token \<Rightarrow> live_token" where
  "note_completion ev st =
     st\<lparr> lt_complete := (lt_complete st \<or> me_kind ev = event_kind.EvComplete \<or> me_kind ev = EvMigrate) \<rparr>"

definition POOL_BASE_KEYS :: "string list" where
  "POOL_BASE_KEYS =
     [''pool_base_token_reserves'', ''poolBaseTokenReserves'', ''pool_base_amount'', ''poolBaseAmount'',
      ''base_reserves_after'', ''baseReservesAfter'']"

definition POOL_QUOTE_KEYS :: "string list" where
  "POOL_QUOTE_KEYS =
     [''pool_quote_token_reserves'', ''poolQuoteTokenReserves'', ''pool_quote_amount'', ''poolQuoteAmount'',
      ''real_quote_reserves_after'', ''realQuoteReservesAfter'']"

definition new_pool :: "market_event \<Rightarrow> live_token \<Rightarrow> string option" where
  "new_pool ev st =
     (case payload_text ev [''pool''] of
        Some pool \<Rightarrow> if pool \<noteq> ts_pool_address st then Some pool else None
      | None \<Rightarrow> None)"

text \<open>A pool that differs from the known one loses the verification and brings its own quote.\<close>

definition note_pool :: "market_event \<Rightarrow> live_token \<Rightarrow> live_token" where
  "note_pool ev st = st\<lparr>
     ts_venue := ''pump_swap'',
     ts_pool_address := (case new_pool ev st of Some pool \<Rightarrow> pool | None \<Rightarrow> ts_pool_address st),
     lt_route_verified := (new_pool ev st = None \<and> lt_route_verified st),
     ts_quote_mint :=
       (case payload_text ev [''quote_mint'', ''quoteMint''] of
          Some q \<Rightarrow> if new_pool ev st \<noteq> None then q else ts_quote_mint st
        | None \<Rightarrow> ts_quote_mint st) \<rparr>"

definition note_pool_reserves :: "market_event \<Rightarrow> live_token \<Rightarrow> live_token" where
  "note_pool_reserves ev st =
     (let base = payload_number (me_payload ev) POOL_BASE_KEYS 0;
          quote = payload_number (me_payload ev) POOL_QUOTE_KEYS 0;
          virtual = payload_number (me_payload ev) [''virtual_quote_reserves'', ''virtualQuoteReserves''] 0
      in st\<lparr>
        ts_virtual_token_reserves := (if 0 < base then base else ts_virtual_token_reserves st),
        ts_real_token_reserves := (if 0 < base then base else ts_real_token_reserves st),
        lt_initial_real_token_reserves :=
          (if 0 < base \<and> lt_initial_real_token_reserves st = 0 then base
           else lt_initial_real_token_reserves st),
        ts_virtual_quote_reserves :=
          (if 0 < quote then max 1 (quote + virtual) else ts_virtual_quote_reserves st),
        ts_real_quote_reserves :=
          (if payload_value (me_payload ev) POOL_QUOTE_KEYS \<noteq> None \<and> 0 \<le> quote then Some quote
           else ts_real_quote_reserves st) \<rparr>)"

definition observed_fee_bps :: "platform \<Rightarrow> market_event \<Rightarrow> int" where
  "observed_fee_bps pl ev =
     sum_list (map (\<lambda>keys. payload_number (me_payload ev) keys 0)
       (if event_is_amm pl ev
        then [[''lp_fee_basis_points'', ''lpFeeBasisPoints''],
              [''protocol_fee_basis_points'', ''protocolFeeBasisPoints''],
              [''coin_creator_fee_basis_points'', ''coinCreatorFeeBasisPoints'']]
        else [[''fee_basis_points'', ''feeBasisPoints''],
              [''creator_fee_basis_points'', ''creatorFeeBasisPoints'']]))"

definition note_fees :: "platform \<Rightarrow> market_event \<Rightarrow> live_token \<Rightarrow> live_token" where
  "note_fees pl ev st = st\<lparr>
     ts_fee_bps :=
       (if 0 < observed_fee_bps pl ev \<and> observed_fee_bps pl ev \<le> 5000 then observed_fee_bps pl ev
        else ts_fee_bps st) \<rparr>"

definition REAL_QUOTE_KEYS :: "string list" where
  "REAL_QUOTE_KEYS = [''real_quote_reserves'', ''realQuoteReserves'', ''real_sol_reserves'', ''realSolReserves'']"

definition note_curve_reserves :: "market_event \<Rightarrow> live_token \<Rightarrow> live_token" where
  "note_curve_reserves ev st =
     (let real_quote = payload_number (me_payload ev) REAL_QUOTE_KEYS (- 1) in
      st\<lparr>
        ts_virtual_token_reserves :=
          payload_number (me_payload ev) [''virtual_token_reserves'', ''virtualTokenReserves'']
            (ts_virtual_token_reserves st),
        ts_virtual_quote_reserves :=
          payload_number (me_payload ev)
            [''virtual_sol_reserves'', ''virtualSolReserves'', ''virtual_quote_reserves'', ''virtualQuoteReserves'']
            (ts_virtual_quote_reserves st),
        ts_real_quote_reserves :=
          (if payload_value (me_payload ev) REAL_QUOTE_KEYS \<noteq> None \<and> 0 \<le> real_quote then Some real_quote
           else ts_real_quote_reserves st) \<rparr>)"

definition note_real_tokens :: "market_event \<Rightarrow> live_token \<Rightarrow> live_token" where
  "note_real_tokens ev st =
     st\<lparr> ts_real_token_reserves :=
       payload_number (me_payload ev) [''real_token_reserves'', ''realTokenReserves''] (ts_real_token_reserves st) \<rparr>"

definition note_initial_tokens :: "live_token \<Rightarrow> live_token" where
  "note_initial_tokens st =
     st\<lparr> lt_initial_real_token_reserves :=
       (if lt_initial_real_token_reserves st = 0 \<and> 0 < ts_real_token_reserves st
        then ts_real_token_reserves st else lt_initial_real_token_reserves st) \<rparr>"

text \<open>The provenance of the reserves that paper execution prices against.\<close>

definition note_provenance :: "market_event \<Rightarrow> time \<Rightarrow> live_token \<Rightarrow> live_token" where
  "note_provenance ev eff st =
     (if reserve_observed ev \<and> 0 < ts_virtual_token_reserves st \<and> 0 < ts_virtual_quote_reserves st then
        st\<lparr> ts_last_reserve_at := Some (later_of (ts_last_reserve_at st) eff),
            ts_last_reserve_slot := max (ts_last_reserve_slot st) (event_slot ev),
            ts_reserve_source := me_source ev,
            ts_last_reserve_event_id := Some (me_event_id ev),
            ts_last_reserve_signature := me_signature ev \<rparr>
      else st)"

definition price_sol :: "live_token \<Rightarrow> pyfloat" where
  "price_sol st =
     (if ts_virtual_token_reserves st \<le> 0 \<or> ts_virtual_quote_reserves st \<le> 0 then 0
      else fdiv (true_div (ts_virtual_quote_reserves st) SOL_IN_LAMPORTS)
                (true_div (ts_virtual_token_reserves st) PUMP_TOKEN_DECIMALS))"

text \<open>\<open>_apply_trade\<close>: the observation, and the bounded five-minute window that it enters.\<close>

definition trade_side :: "platform \<Rightarrow> market_event \<Rightarrow> side" where
  "trade_side pl ev =
     (let event_name = py_lower (case map_of (me_payload ev) ''event_name'' of
                                   None \<Rightarrow> [] | Some v \<Rightarrow> if json_truthy v then py_str pl v else []);
          is_buy = (case payload_value (me_payload ev) [''is_buy'', ''isBuy''] of
                      None \<Rightarrow> contains ''buy'' event_name | Some v \<Rightarrow> json_truthy v)
      in if is_buy then Buy else Sell)"

definition observation :: "platform \<Rightarrow> market_event \<Rightarrow> time \<Rightarrow> live_token \<Rightarrow> trade_observation" where
  "observation pl ev eff st =
     (let side = trade_side pl ev;
          token_units = payload_number (me_payload ev)
            [''token_amount'', ''tokenAmount'', if side = Buy then ''base_amount_out'' else ''base_amount_in'',
             if side = Buy then ''baseAmountOut'' else ''baseAmountIn''] 0;
          quote_lamports = payload_number (me_payload ev)
            [''sol_amount'', ''solAmount'', if side = Buy then ''quote_amount_in'' else ''quote_amount_out'',
             if side = Buy then ''quoteAmountIn'' else ''quoteAmountOut''] 0;
          price = (if 0 < token_units \<and> 0 < quote_lamports
                   then fdiv (true_div quote_lamports SOL_IN_LAMPORTS) (true_div token_units PUMP_TOKEN_DECIMALS)
                   else price_sol st)
      in \<lparr> tr_received_at = eff, tr_slot = event_slot ev, tr_side = side,
           tr_user = value_str pl ev [''user''] ''unknown'', tr_token_units = max 0 token_units,
           tr_quote_lamports = max 0 quote_lamports, tr_price_sol = max 0 price,
           tr_signature = (case me_signature ev of None \<Rightarrow> [] | Some s \<Rightarrow> s), tr_venue = ts_venue st \<rparr>)"

definition FIVE_MINUTES :: time where "FIVE_MINUTES = 300 * 1000000"

definition drop_expired :: "time \<Rightarrow> trade_observation list \<Rightarrow> trade_observation list" where
  "drop_expired eff trades = dropWhile (\<lambda>t. tr_received_at t < eff - FIVE_MINUTES) trades"

text \<open>Appending to a full \<open>deque\<close> drops its first entry, which becomes the eviction marker.\<close>

definition push_trade :: "trade_observation \<Rightarrow> live_token \<Rightarrow> live_token" where
  "push_trade t st =
     (let kept = drop_expired (tr_received_at t) (lt_trades st) in
      st\<lparr> lt_last_evicted_trade :=
            (if TRADE_BUFFER \<le> length kept then Some (hd kept) else lt_last_evicted_trade st),
          lt_trades := (if TRADE_BUFFER \<le> length kept then tl kept else kept) @ [t] \<rparr>)"

definition market_stage :: "platform \<Rightarrow> market_event \<Rightarrow> live_token \<Rightarrow> live_token" where
  "market_stage pl ev st =
     (let amm = event_is_amm pl ev;
          regression = route_regression pl ev st;
          s1 = note_completion ev st;
          s2 = (if amm then note_pool_reserves ev (note_pool ev s1) else s1);
          s3 = (if regression then s2 else note_fees pl ev s2);
          s4 = (if \<not> amm \<and> \<not> regression then note_curve_reserves ev s3 else s3);
          s5 = (if regression then s4 else note_real_tokens ev s4)
      in note_initial_tokens s5)"

definition record_trade :: "platform \<Rightarrow> market_event \<Rightarrow> time \<Rightarrow> live_token \<Rightarrow> live_token" where
  "record_trade pl ev eff st =
     (if me_kind ev = EvTrade then push_trade (observation pl ev eff st) st else st)"

text \<open>Everything before the trade, in the order of the method; \<open>eff\<close> is computed first.\<close>

definition token_apply :: "platform \<Rightarrow> market_event \<Rightarrow> (live_token, unit) act" where
  "token_apply pl ev =
     bnd (gets (effective_at ev)) (\<lambda>eff.
     seq (modify (\<lambda>st. note_metadata ev (note_event ev st)))
    (seq (when_do (me_kind ev = EvCreate) (note_creation pl ev eff))
    (bnd (gets (route_regression pl ev)) (\<lambda>regression.
     seq (modify (market_stage pl ev))
         (when_do (\<not> regression)
            (modify (\<lambda>st. record_trade pl ev eff (note_provenance ev eff st))))))))"

end
