(* ===== verification/Features.thy ===== *)
theory Features
  imports Market_State "HOL-Library.Product_Lexorder"
begin

text \<open>
  The measurements on the five-minute trade window: \<open>_rolling_trade_metrics\<close>,
  \<open>_stream_integrity_metrics\<close>, \<open>_momentum\<close>, \<open>_drawdown\<close> and \<open>_amount_bucket\<close> of
  \<open>backend/signal_arcade/intelligence/features.py\<close>, and \<open>activity_metrics\<close> of
  \<open>intelligence/activity.py\<close>. A \<open>Counter\<close> or \<open>defaultdict(int)\<close> is the tally \<open>tally\<close>, in order of
  first occurrence, a set a list without duplicates. \<open>x ** 2\<close> is one rounded product.
\<close>

section \<open>Helpers\<close>

text \<open>\<open>d[key] += amount\<close> for each row, from an empty \<open>defaultdict(int)\<close>.\<close>

definition bump :: "'k \<times> int \<Rightarrow> ('k, int) pydict \<Rightarrow> ('k, int) pydict" where
  "bump row d = AList.update (fst row) ((case map_of d (fst row) of None \<Rightarrow> 0 | Some n \<Rightarrow> n) + snd row) d"

definition tally :: "('k \<times> int) list \<Rightarrow> ('k, int) pydict" where
  "tally rows = fold bump rows []"

definition counter :: "'k list \<Rightarrow> ('k, int) pydict" where
  "counter xs = tally (map (\<lambda>x. (x, 1)) xs)"

text \<open>\<open>max(values, default=0)\<close> of counts, \<open>sum(p(x) for x in xs)\<close> of booleans.\<close>

definition max_count :: "('k, int) pydict \<Rightarrow> int" where
  "max_count d = fold max (values_of d) 0"

definition count_if :: "('a \<Rightarrow> bool) \<Rightarrow> 'a list \<Rightarrow> int" where
  "count_if p xs = int (length (filter p xs))"

abbreviation len :: "'a list \<Rightarrow> int" where
  "len xs \<equiv> int (length xs)"

text \<open>\<open>n / d if xs else None\<close>.\<close>

definition ratio_or_none :: "int \<Rightarrow> int \<Rightarrow> pyfloat option" where
  "ratio_or_none n d = (if 0 < d then Some (true_div n d) else None)"

definition square_shares :: "int list \<Rightarrow> int \<Rightarrow> pyfloat" where
  "square_shares xs whole = py_sum (map (\<lambda>n. fmul (true_div n whole) (true_div n whole)) xs)"

fun pairs :: "'a list \<Rightarrow> ('a \<times> 'a) list" where
  "pairs (a # b # xs) = (a, b) # pairs (b # xs)"
| "pairs xs = []"

section \<open>Price path\<close>

definition positive_prices :: "trade_observation list \<Rightarrow> pyfloat list" where
  "positive_prices trades = filter (\<lambda>p. 0 < p) (map tr_price_sol trades)"

definition momentum :: "trade_observation list \<Rightarrow> pyfloat" where
  "momentum trades =
     (let prices = positive_prices trades in
      if length prices < 2 then 0
      else max (- 1) (min 10 (fsub (fdiv (last prices) (hd prices)) 1)))"

definition drawdown :: "trade_observation list \<Rightarrow> pyfloat" where
  "drawdown trades =
     (case positive_prices trades of
        [] \<Rightarrow> 0
      | p # ps \<Rightarrow>
          (let peak = fold max ps p in
           if peak \<le> 0 then 0 else min 1 (max 0 (fsub 1 (fdiv (last (p # ps)) peak)))))"

text \<open>Two significant digits of an amount; \<open>math.log10\<close> is a parameter.\<close>

definition amount_bucket :: "platform \<Rightarrow> int \<Rightarrow> int" where
  "amount_bucket pl n =
     (if n \<le> 0 then 0
      else (let width = 10 ^ nat (max 0 (\<lfloor>pl_log10 pl n\<rfloor> - 1)) in py_round (true_div n width) * width))"

section \<open>Structure of the trade stream\<close>

definition INTEGRITY_KEYS :: "string list" where
  "INTEGRITY_KEYS =
     [''single_trade_wallet_ratio'', ''round_trip_wallet_ratio'', ''round_trip_volume_ratio'',
      ''net_quote_flow_ratio'', ''side_alternation_ratio'', ''quantized_amount_repeat_ratio'',
      ''slot_concentration_hhi'', ''price_direction_consistency'', ''multi_trade_signature_ratio'',
      ''microtrade_count_ratio'', ''meaningful_volume_ratio'', ''meaningful_wallet_ratio'',
      ''median_trade_quote_sol'', ''price_path_efficiency'', ''rapid_price_reversal_ratio'',
      ''known_wallet_trade_coverage'', ''signed_trade_coverage'']"

text \<open>The inner \<open>metric\<close>: a value only above the minimum quality, both clamped.\<close>

definition metric :: "pyfloat option \<Rightarrow> pyfloat \<Rightarrow> string \<Rightarrow> pyfloat \<Rightarrow> stream_metric" where
  "metric v quality reason minimum_quality =
     (case v of
        None \<Rightarrow> (None, clamp01 quality, Some reason)
      | Some x \<Rightarrow>
          if quality < minimum_quality then (None, clamp01 quality, Some reason)
          else (Some (clamp01 x), clamp01 quality, None))"

definition known_wallet :: "string \<Rightarrow> bool" where
  "known_wallet user \<longleftrightarrow> user \<noteq> [] \<and> user \<noteq> ''unknown''"

definition known_trades :: "trade_observation list \<Rightarrow> trade_observation list" where
  "known_trades trades = filter (\<lambda>t. known_wallet (tr_user t)) trades"

definition valued_trades :: "trade_observation list \<Rightarrow> trade_observation list" where
  "valued_trades trades = filter (\<lambda>t. 0 < tr_quote_lamports t) trades"

definition quote_sum :: "trade_observation list \<Rightarrow> int" where
  "quote_sum trades = sum_list (map tr_quote_lamports trades)"

text \<open>The wallets that both bought and sold.\<close>

definition round_trip_wallets :: "trade_observation list \<Rightarrow> string list" where
  "round_trip_wallets trades =
     filter (\<lambda>user. \<exists>t \<in> set trades. tr_user t = user \<and> tr_side t = Buy)
      (filter (\<lambda>user. \<exists>t \<in> set trades. tr_user t = user \<and> tr_side t = Sell)
        (unique (map tr_user trades)))"

definition single_trade_ratio :: "trade_observation list \<Rightarrow> pyfloat option" where
  "single_trade_ratio trades =
     (let counts = values_of (counter (map tr_user (known_trades trades)))
      in ratio_or_none (count_if (\<lambda>n. n = 1) counts) (len counts))"

definition round_trip_ratio :: "trade_observation list \<Rightarrow> pyfloat option" where
  "round_trip_ratio trades =
     (let known = known_trades trades
      in ratio_or_none (len (round_trip_wallets known)) (len (counter (map tr_user known))))"

definition round_trip_volume_ratio :: "trade_observation list \<Rightarrow> pyfloat option" where
  "round_trip_volume_ratio trades =
     (let known = known_trades trades; valued = valued_trades known
      in ratio_or_none
           (quote_sum (filter (\<lambda>t. tr_user t \<in> set (round_trip_wallets known)) valued)) (quote_sum valued))"

definition signed_quote :: "trade_observation \<Rightarrow> int" where
  "signed_quote t = (if tr_side t = Buy then tr_quote_lamports t else - tr_quote_lamports t)"

definition net_flow_ratio :: "trade_observation list \<Rightarrow> pyfloat option" where
  "net_flow_ratio trades =
     (let valued = valued_trades trades
      in ratio_or_none \<bar>sum_list (map signed_quote valued)\<bar> (quote_sum valued))"

definition quantized_ratio :: "platform \<Rightarrow> trade_observation list \<Rightarrow> pyfloat option" where
  "quantized_ratio pl trades =
     (let valued = valued_trades trades
      in ratio_or_none
           (max_count (counter (map (\<lambda>t. amount_bucket pl (tr_quote_lamports t)) valued))) (len valued))"

definition microtrade_lamports :: int where "microtrade_lamports = 3000000"
definition meaningful_lamports :: int where "meaningful_lamports = 10000000"

text \<open>The median of the amounts, over \<open>SOL_IN_LAMPORTS\<close>: an integer, or the half of a sum.\<close>

definition median_quote_sol :: "trade_observation list \<Rightarrow> pyfloat option" where
  "median_quote_sol trades =
     (let amounts = sort (map tr_quote_lamports (valued_trades trades)); n = length amounts in
      if n = 0 then None
      else if odd n then Some (true_div (amounts ! (n div 2)) SOL_IN_LAMPORTS)
      else Some (fdiv (true_div (amounts ! (n div 2 - 1) + amounts ! (n div 2)) 2) (of_int SOL_IN_LAMPORTS)))"

definition microtrade_ratio :: "trade_observation list \<Rightarrow> pyfloat option" where
  "microtrade_ratio trades =
     (let valued = valued_trades trades
      in ratio_or_none (count_if (\<lambda>t. tr_quote_lamports t \<le> microtrade_lamports) valued) (len valued))"

definition meaningful_volume_ratio :: "trade_observation list \<Rightarrow> pyfloat option" where
  "meaningful_volume_ratio trades =
     (let valued = valued_trades trades
      in ratio_or_none (quote_sum (filter (\<lambda>t. meaningful_lamports \<le> tr_quote_lamports t) valued))
           (quote_sum valued))"

definition meaningful_wallet_ratio :: "trade_observation list \<Rightarrow> pyfloat option" where
  "meaningful_wallet_ratio trades =
     (let wallet_quote = values_of (tally (map (\<lambda>t. (tr_user t, tr_quote_lamports t))
                           (valued_trades (known_trades trades))))
      in ratio_or_none (count_if (\<lambda>n. meaningful_lamports \<le> n) wallet_quote) (len wallet_quote))"

definition ordered_trades :: "trade_observation list \<Rightarrow> trade_observation list" where
  "ordered_trades trades = sort_key (\<lambda>t. (tr_received_at t, tr_slot t)) trades"

definition alternation_ratio :: "trade_observation list \<Rightarrow> pyfloat option" where
  "alternation_ratio trades =
     (let steps = pairs (ordered_trades trades)
      in ratio_or_none (count_if (\<lambda>(left, right). tr_side left \<noteq> tr_side right) steps) (len trades - 1))"

definition known_slots :: "trade_observation list \<Rightarrow> int list" where
  "known_slots trades = filter (\<lambda>n. 0 < n) (map tr_slot trades)"

definition slot_hhi :: "trade_observation list \<Rightarrow> pyfloat option" where
  "slot_hhi trades =
     (let slots = known_slots trades
      in if slots = [] then None else Some (square_shares (values_of (counter slots)) (len slots)))"

definition price_moves :: "pyfloat list \<Rightarrow> pyfloat list" where
  "price_moves prices = map (\<lambda>(left, right). fsub right left) (filter (\<lambda>(left, right). right \<noteq> left) (pairs prices))"

definition direction_consistency :: "pyfloat list \<Rightarrow> pyfloat option" where
  "direction_consistency prices =
     (let moves = price_moves prices in
      if moves \<noteq> [] then
        Some (true_div (max (count_if (\<lambda>m. 0 < m) moves) (count_if (\<lambda>m. m < 0) moves)) (len moves))
      else if 2 \<le> length prices then Some 0 else None)"

definition path_efficiency :: "pyfloat list \<Rightarrow> pyfloat option" where
  "path_efficiency prices =
     (let travel = py_sum (map abs (price_moves prices)) in
      if 2 \<le> length prices \<and> 0 < travel then Some (fdiv \<bar>fsub (last prices) (hd prices)\<bar> travel) else None)"

definition reversal_ratio :: "pyfloat list \<Rightarrow> pyfloat option" where
  "reversal_ratio prices =
     (let signs = map (\<lambda>m. if 0 < m then 1 else - 1 :: int) (price_moves prices)
      in ratio_or_none (count_if (\<lambda>(left, right). left \<noteq> right) (pairs signs)) (len signs - 1))"

definition signatures :: "trade_observation list \<Rightarrow> string list" where
  "signatures trades = filter (\<lambda>s. s \<noteq> []) (map tr_signature trades)"

definition bundled_ratio :: "trade_observation list \<Rightarrow> pyfloat option" where
  "bundled_ratio trades =
     (let signed = signatures trades
      in ratio_or_none (sum_list (filter (\<lambda>n. 1 < n) (values_of (counter signed)))) (len signed))"

definition coverage :: "'a list \<Rightarrow> trade_observation list \<Rightarrow> pyfloat" where
  "coverage part trades = true_div (len part) (len trades)"

definition stream_integrity_metrics ::
  "platform \<Rightarrow> trade_observation list \<Rightarrow> (string \<times> stream_metric) list" where
  "stream_integrity_metrics pl trades =
     (if trades = [] then map (\<lambda>key. (key, None, 0, Some ''insufficient_trade_evidence'')) INTEGRITY_KEYS
      else
        let wallet_coverage = coverage (known_trades trades) trades;
            amount_coverage = coverage (valued_trades trades) trades;
            slot_coverage = coverage (known_slots trades) trades;
            prices = positive_prices (ordered_trades trades);
            price_coverage = coverage prices trades;
            signature_coverage = coverage (signatures trades) trades;
            minimum = lit 8 10;
            wallet_reason = ''wallet_identity_unavailable'';
            amount_reason = ''trade_amount_unavailable'';
            both_reason = ''wallet_or_trade_amount_unavailable'';
            price_reason = ''price_path_unavailable'';
            median = median_quote_sol trades
        in [(''single_trade_wallet_ratio'', metric (single_trade_ratio trades) wallet_coverage wallet_reason minimum),
            (''round_trip_wallet_ratio'', metric (round_trip_ratio trades) wallet_coverage wallet_reason minimum),
            (''round_trip_volume_ratio'',
               metric (round_trip_volume_ratio trades) (min wallet_coverage amount_coverage) both_reason minimum),
            (''net_quote_flow_ratio'', metric (net_flow_ratio trades) amount_coverage amount_reason minimum),
            (''side_alternation_ratio'', metric (alternation_ratio trades) 1 ''insufficient_trade_sequence'' 0),
            (''quantized_amount_repeat_ratio'', metric (quantized_ratio pl trades) amount_coverage amount_reason minimum),
            (''slot_concentration_hhi'', metric (slot_hhi trades) slot_coverage ''slot_evidence_unavailable'' minimum),
            (''price_direction_consistency'', metric (direction_consistency prices) price_coverage price_reason minimum),
            (''multi_trade_signature_ratio'',
               metric (bundled_ratio trades) signature_coverage ''signature_evidence_unavailable'' minimum),
            (''microtrade_count_ratio'', metric (microtrade_ratio trades) amount_coverage amount_reason minimum),
            (''meaningful_volume_ratio'', metric (meaningful_volume_ratio trades) amount_coverage amount_reason minimum),
            (''meaningful_wallet_ratio'',
               metric (meaningful_wallet_ratio trades) (min wallet_coverage amount_coverage) both_reason minimum),
            (''median_trade_quote_sol'',
               (median, amount_coverage,
                if median \<noteq> None \<and> minimum \<le> amount_coverage then None else Some amount_reason)),
            (''price_path_efficiency'', metric (path_efficiency prices) price_coverage price_reason minimum),
            (''rapid_price_reversal_ratio'', metric (reversal_ratio prices) price_coverage price_reason minimum),
            (''known_wallet_trade_coverage'', (Some wallet_coverage, 1, None)),
            (''signed_trade_coverage'', (Some signature_coverage, 1, None))])"

section \<open>Activity\<close>

definition ACTIVITY_UNITS :: "(string \<times> string) list" where
  "ACTIVITY_UNITS =
     [(''buy_quote_volume_ratio_5m'', ''fraction''), (''signed_net_quote_flow_ratio_5m'', ''fraction''),
      (''meaningful_trade_count_1m'', ''count''), (''meaningful_trade_count_5m'', ''count''),
      (''meaningful_trade_wallet_count_5m'', ''count''), (''net_buy_wallet_count_5m'', ''count''),
      (''trade_amount_coverage_5m'', ''fraction'')]"

definition MEANINGFUL_QUOTE_LAMPORTS :: int where "MEANINGFUL_QUOTE_LAMPORTS = 10000000"

definition activity_metric_of :: "scalar \<Rightarrow> pyfloat \<Rightarrow> string \<Rightarrow> activity_metric" where
  "activity_metric_of v quality reason = (if quality = 1 then (Some v, quality, None) else (None, quality, Some reason))"

definition activity_metrics ::
  "trade_observation list \<Rightarrow> time \<Rightarrow> (string \<times> activity_metric) list" where
  "activity_metrics trades now =
     (if trades = [] then map (\<lambda>(key, unit_name). (key, None, 0, Some ''insufficient_trade_evidence'')) ACTIVITY_UNITS
      else
        let valued = valued_trades trades;
            gross = quote_sum valued;
            buys = quote_sum (filter (\<lambda>t. tr_side t = Buy) valued);
            wallet_net = values_of (tally (map (\<lambda>t. (tr_user t, signed_quote t)) (known_trades valued)));
            meaningful = filter (\<lambda>t. MEANINGFUL_QUOTE_LAMPORTS \<le> tr_quote_lamports t) valued;
            amount_quality = coverage valued trades;
            wallet_quality = min amount_quality (coverage (known_trades trades) trades);
            amount_reason = ''trade_amount_unavailable'';
            both_reason = ''wallet_or_trade_amount_unavailable''
        in [(''trade_amount_coverage_5m'', (Some (SFloat amount_quality), 1, None)),
            (''buy_quote_volume_ratio_5m'',
               activity_metric_of (SFloat (if gross \<noteq> 0 then true_div buys gross else 0)) amount_quality amount_reason),
            (''signed_net_quote_flow_ratio_5m'',
               activity_metric_of (SFloat (if gross \<noteq> 0 then true_div (2 * buys - gross) gross else 0))
                 amount_quality amount_reason),
            (''meaningful_trade_count_1m'',
               activity_metric_of (SInt (count_if (\<lambda>t. total_seconds (now - tr_received_at t) \<le> 60) meaningful))
                 amount_quality amount_reason),
            (''meaningful_trade_count_5m'', activity_metric_of (SInt (len meaningful)) amount_quality amount_reason),
            (''meaningful_trade_wallet_count_5m'',
               activity_metric_of (SInt (len (unique (map tr_user (known_trades meaningful))))) wallet_quality both_reason),
            (''net_buy_wallet_count_5m'',
               activity_metric_of (SInt (count_if (\<lambda>n. MEANINGFUL_QUOTE_LAMPORTS \<le> n) wallet_net))
                 wallet_quality both_reason)])"

section \<open>The rolling window\<close>

definition trade_in_window :: "time \<Rightarrow> string \<Rightarrow> trade_observation \<Rightarrow> bool" where
  "trade_in_window now venue t \<longleftrightarrow>
     tr_venue t = venue \<and> 0 \<le> total_seconds (now - tr_received_at t) \<and> total_seconds (now - tr_received_at t) \<le> 300"

definition buffer_saturated :: "time \<Rightarrow> live_token \<Rightarrow> bool" where
  "buffer_saturated now st =
     (case lt_last_evicted_trade st of None \<Rightarrow> False | Some t \<Rightarrow> trade_in_window now (ts_venue st) t)"

definition window_metrics :: "platform \<Rightarrow> live_token \<Rightarrow> time \<Rightarrow> rolling_metrics" where
  "window_metrics pl st now =
     (let trades_5m = filter (trade_in_window now (ts_venue st)) (lt_trades st);
          trades_1m = filter (\<lambda>t. total_seconds (now - tr_received_at t) \<le> 60) trades_5m;
          buys_5m = count_if (\<lambda>t. tr_side t = Buy) trades_5m;
          wallet_volume = values_of (tally (map (\<lambda>t. (tr_user t, tr_quote_lamports t)) trades_5m));
          total_volume = sum_list wallet_volume;
          amounts = counter (filter (\<lambda>n. 0 < n) (map tr_quote_lamports trades_5m));
          slots = counter (known_slots trades_5m)
      in \<lparr> rm_computed_at = now, rm_venue = ts_venue st, rm_trades_1m = trades_1m, rm_trades_5m = trades_5m,
           rm_buys_1m = count_if (\<lambda>t. tr_side t = Buy) trades_1m, rm_buys_5m = buys_5m,
           rm_buy_ratio = (if trades_5m \<noteq> [] then true_div buys_5m (len trades_5m) else 0),
           rm_users = unique (filter (\<lambda>u. u \<noteq> ''unknown'') (map tr_user trades_5m)),
           rm_wallet_volume_hhi =
             (if 0 < total_volume then square_shares wallet_volume total_volume else 1),
           rm_repeated_amount_ratio =
             (if trades_5m \<noteq> [] then true_div (max_count amounts) (len trades_5m) else 0),
           rm_same_slot_ratio =
             (if trades_5m \<noteq> [] then true_div (max_count slots) (len trades_5m) else 0),
           rm_integrity = stream_integrity_metrics pl trades_5m, rm_activity = None,
           rm_window_span_seconds =
             (if 1 < length trades_5m
              then max 0 (total_seconds (tr_received_at (last trades_5m) - tr_received_at (hd trades_5m))) else 0),
           rm_buffer_saturated = buffer_saturated now st,
           rm_momentum_1m = momentum trades_1m, rm_momentum_5m = momentum trades_5m,
           rm_drawdown_5m = drawdown trades_5m,
           rm_volume_5m_sol = true_div total_volume SOL_IN_LAMPORTS \<rparr>)"

text \<open>The cached window is used for less than a second, on the same venue only.\<close>

definition cached_metrics :: "live_token \<Rightarrow> time \<Rightarrow> rolling_metrics option" where
  "cached_metrics st now =
     (case lt_rolling_trade_metrics st of
        None \<Rightarrow> None
      | Some r \<Rightarrow>
          if rm_venue r = ts_venue st \<and> 0 \<le> total_seconds (now - rm_computed_at r) \<and>
             total_seconds (now - rm_computed_at r) < 1
          then Some r else None)"

definition rolling_trade_metrics :: "platform \<Rightarrow> live_token \<Rightarrow> time \<Rightarrow> rolling_metrics" where
  "rolling_trade_metrics pl st now =
     (case cached_metrics st now of Some r \<Rightarrow> r | None \<Rightarrow> window_metrics pl st now)"

end
