(* ===== verification/Market_Snapshot.thy ===== *)
theory Market_Snapshot
  imports Features
begin

text \<open>
  \<open>FeatureEngine._snapshot_state\<close> (\<open>backend/signal_arcade/intelligence/features.py\<close>): the feature
  snapshot of a token, which every decision is made on. The calls of the inner \<open>put\<close> are the list
  \<open>snapshot_puts\<close>, in the order of the method; \<open>put_value\<close> is its body. Building a \<open>DataValue\<close> or a
  \<open>FeatureSnapshot\<close> checks the declared ranges and raises outside them.
\<close>

section \<open>Ages\<close>

definition last_event :: "live_token \<Rightarrow> time \<Rightarrow> time" where
  "last_event st now =
     (case ts_last_event_at st of Some t \<Rightarrow> t
      | None \<Rightarrow> (case lt_created_at st of Some t \<Rightarrow> t | None \<Rightarrow> now))"

text \<open>\<open>max(0.0, (now - t).total_seconds())\<close>.\<close>

definition age_of :: "time \<Rightarrow> time \<Rightarrow> pyfloat" where
  "age_of now t = max 0 (total_seconds (now - t))"

definition freshness :: "live_token \<Rightarrow> time \<Rightarrow> pyfloat" where
  "freshness st now = age_of now (last_event st now)"

definition reserve_at :: "live_token \<Rightarrow> time \<Rightarrow> time" where
  "reserve_at st now = (case ts_last_reserve_at st of Some t \<Rightarrow> t | None \<Rightarrow> last_event st now)"

definition reserve_freshness :: "live_token \<Rightarrow> time \<Rightarrow> pyfloat" where
  "reserve_freshness st now = age_of now (reserve_at st now)"

definition token_age :: "live_token \<Rightarrow> time \<Rightarrow> pyfloat" where
  "token_age st now =
     age_of now (case lt_created_at st of Some t \<Rightarrow> t | None \<Rightarrow> last_event st now)"

text \<open>\<open>dex_age\<close>: \<open>None\<close> is infinity.\<close>

definition dex_age :: "live_token \<Rightarrow> time \<Rightarrow> pyfloat option" where
  "dex_age st now = map_option (age_of now) (map_of (lt_enrichment_times st) ''dexscreener'')"

definition mint_safety_age :: "live_token \<Rightarrow> time \<Rightarrow> pyfloat" where
  "mint_safety_age st now =
     (case map_of (lt_enrichment_times st) ''solana_rpc'' of Some t \<Rightarrow> age_of now t | None \<Rightarrow> freshness st now)"

section \<open>Safety flags\<close>

text \<open>\<open>d.get(key)\<close>, with \<open>None\<close> for a null.\<close>

definition json_get :: "(string, json) pydict \<Rightarrow> string \<Rightarrow> json option" where
  "json_get d key = (case map_of d key of Some JNull \<Rightarrow> None | r \<Rightarrow> r)"

definition mint_safety :: "live_token \<Rightarrow> json option" where
  "mint_safety st = json_get (lt_enrichment st) ''mint_safety''"

definition safety_fields :: "live_token \<Rightarrow> (string, json) pydict option" where
  "safety_fields st = (case mint_safety st of Some (JObj fs) \<Rightarrow> Some fs | _ \<Rightarrow> None)"

definition live_source :: "live_token \<Rightarrow> bool" where
  "live_source st \<longleftrightarrow> list_ex (starts_with ''solana:'') (lt_sources st)"

definition flag_if :: "bool \<Rightarrow> string \<Rightarrow> string list" where
  "flag_if b flag = (if b then [flag] else [])"

definition route_flags :: "live_token \<Rightarrow> string list" where
  "route_flags st =
     (if ts_venue st = ''pump_swap'' then
        if \<not> lt_route_verified st then [''pumpswap_route_unverified'']
        else flag_if (ts_quote_mint st \<noteq> WRAPPED_SOL_MINT) ''unsupported_quote_mint_v1''
      else flag_if (ts_quote_mint st \<notin> set [WRAPPED_SOL_MINT, NATIVE_SOL_MINT]) ''unsupported_quote_mint_v1'')"

definition mint_flags :: "live_token \<Rightarrow> string list" where
  "mint_flags st =
     (if live_source st \<and> mint_safety st = None then [''mint_safety_unverified'']
      else case safety_fields st of
        None \<Rightarrow> []
      | Some fs \<Rightarrow>
          flag_if (\<not> (case map_of fs ''safe'' of None \<Rightarrow> False | Some v \<Rightarrow> json_truthy v))
            ''mint_account_failed_safety_checks'')"

definition creator_sells :: "live_token \<Rightarrow> rolling_metrics \<Rightarrow> int" where
  "creator_sells st r = count_if (\<lambda>t. tr_side t = Sell \<and> tr_user t = lt_creator st) (rm_trades_5m r)"

definition hard_flags_of :: "int \<Rightarrow> live_token \<Rightarrow> time \<Rightarrow> bool \<Rightarrow> rolling_metrics \<Rightarrow> string list" where
  "hard_flags_of stale_seconds st now position_mark r =
     flag_if (ts_virtual_token_reserves st \<le> 0 \<or> ts_virtual_quote_reserves st \<le> 0) ''missing_curve_reserves'' @
     flag_if (of_int stale_seconds < (if position_mark then reserve_freshness st now else freshness st now))
       ''stale_market_data'' @
     flag_if (lt_complete st \<and> ts_venue st = ''pump_curve'') ''curve_complete_route_unconfirmed'' @
     flag_if (creator_sells st r \<noteq> 0) ''creator_sold_recently'' @
     route_flags st @
     flag_if (lt_token_program st \<noteq> [] \<and> lt_token_program st \<notin> set [SPL_TOKEN_PROGRAM, TOKEN_2022_PROGRAM])
       ''unsupported_token_program'' @
     mint_flags st"

section \<open>Values\<close>

record put =
  pt_key :: string
  pt_value :: "json option"
  pt_unit :: string
  pt_quality :: pyfloat
  pt_source_list :: "string list option"
  pt_item_freshness :: "pyfloat option"
  pt_item_as_of :: "time option"
  pt_missing_reason :: "string option"

abbreviation plain_put :: "string \<Rightarrow> json option \<Rightarrow> string \<Rightarrow> put" where
  "plain_put key v unit_name \<equiv>
     \<lparr> pt_key = key, pt_value = v, pt_unit = unit_name, pt_quality = 1, pt_source_list = None,
       pt_item_freshness = None, pt_item_as_of = None, pt_missing_reason = None \<rparr>"

abbreviation jint :: "int \<Rightarrow> json option" where "jint n \<equiv> Some (JInt n)"
abbreviation jfloat :: "pyfloat \<Rightarrow> json option" where "jfloat x \<equiv> Some (JFloat x)"

definition rolling_keys :: "rolling_metrics \<Rightarrow> string list" where
  "rolling_keys r =
     [''trade_count_1m'', ''trade_count_5m'', ''buys_1m'', ''buys_5m'', ''sells_5m'', ''buy_ratio_5m'',
      ''unique_wallets_5m'', ''wallet_volume_hhi'', ''repeated_amount_ratio'', ''same_slot_ratio'',
      ''known_wallet_trade_coverage'', ''signed_trade_coverage'', ''trade_window_span_seconds'',
      ''trade_buffer_saturated'', ''trade_density_5m'', ''median_trade_quote_sol'', ''creator_sells_5m'',
      ''momentum_1m'', ''momentum_5m'', ''drawdown_5m'', ''volume_5m_sol''] @
     map fst (rm_integrity r) @ map fst ACTIVITY_UNITS"

definition known_sources :: "live_token \<Rightarrow> string list" where
  "known_sources st = (case sorted_set (lt_sources st) of [] \<Rightarrow> [''unknown''] | xs \<Rightarrow> xs)"

definition reserve_sources :: "live_token \<Rightarrow> string list option" where
  "reserve_sources st = (if ts_reserve_source st \<noteq> [] then Some [ts_reserve_source st] else None)"

definition reserve_put :: "string \<Rightarrow> json option \<Rightarrow> string \<Rightarrow> live_token \<Rightarrow> time \<Rightarrow> put" where
  "reserve_put key v unit_name st now =
     (plain_put key v unit_name)\<lparr> pt_source_list := reserve_sources st,
       pt_item_freshness := Some (reserve_freshness st now), pt_item_as_of := Some (reserve_at st now) \<rparr>"

definition metric_put :: "string \<Rightarrow> string \<Rightarrow> stream_metric \<Rightarrow> put" where
  "metric_put key unit_name m =
     (case m of (v, quality, reason) \<Rightarrow>
        (plain_put key (map_option JFloat v) unit_name)\<lparr> pt_quality := quality, pt_missing_reason := reason \<rparr>)"

text \<open>The metrics of a window have every key (\<open>window_integrity_keys\<close>).\<close>

definition integrity_at :: "rolling_metrics \<Rightarrow> string \<Rightarrow> stream_metric" where
  "integrity_at r key = (case map_of (rm_integrity r) key of Some m \<Rightarrow> m | None \<Rightarrow> (None, 0, None))"

fun json_of_scalar :: "scalar \<Rightarrow> json" where
  "json_of_scalar (SFloat x) = JFloat x"
| "json_of_scalar (SInt n) = JInt n"
| "json_of_scalar (SStr s) = JStr s"
| "json_of_scalar (SBool b) = JBool b"

definition with_activity :: "bool \<Rightarrow> rolling_metrics \<Rightarrow> rolling_metrics" where
  "with_activity include_activity r =
     (if include_activity \<and> rm_activity r = None
      then r\<lparr> rm_activity := Some (activity_metrics (rm_trades_5m r) (rm_computed_at r)) \<rparr> else r)"

definition activity_put :: "live_token \<Rightarrow> (string \<times> activity_metric) list \<Rightarrow> string \<times> string \<Rightarrow> put" where
  "activity_put st metrics key_unit =
     (let (v, quality, reason) =
            (if ts_quote_mint st \<notin> set [NATIVE_SOL_MINT, WRAPPED_SOL_MINT]
             then (None, 0, Some ''unsupported_quote_mint'')
             else case map_of metrics (fst key_unit) of Some m \<Rightarrow> m | None \<Rightarrow> (None, 0, None))
      in (plain_put (fst key_unit) (map_option json_of_scalar v) (snd key_unit))
           \<lparr> pt_quality := quality, pt_missing_reason := reason \<rparr>)"

definition market_puts :: "live_token \<Rightarrow> time \<Rightarrow> rolling_metrics \<Rightarrow> put list" where
  "market_puts st now r =
     [plain_put ''age_seconds'' (jfloat (token_age st now)) ''seconds'',
      plain_put ''market_freshness'' (jfloat (freshness st now)) ''seconds'',
      reserve_put ''reserve_freshness'' (jfloat (reserve_freshness st now)) ''seconds'' st now,
      plain_put ''trade_count_1m'' (jint (len (rm_trades_1m r))) ''count'',
      plain_put ''trade_count_5m'' (jint (len (rm_trades_5m r))) ''count'',
      plain_put ''buys_1m'' (jint (rm_buys_1m r)) ''count'',
      plain_put ''buys_5m'' (jint (rm_buys_5m r)) ''count'',
      plain_put ''sells_5m'' (jint (len (rm_trades_5m r) - rm_buys_5m r)) ''count'',
      plain_put ''buy_ratio_5m'' (jfloat (rm_buy_ratio r)) ''fraction'']"

definition activity_puts :: "live_token \<Rightarrow> bool \<Rightarrow> rolling_metrics \<Rightarrow> put list" where
  "activity_puts st include_activity r =
     (if include_activity
      then map (activity_put st (case rm_activity r of Some m \<Rightarrow> m | None \<Rightarrow> [])) ACTIVITY_UNITS else [])"

text \<open>Saturation is also looked up in the token itself, for a cached window.\<close>

definition integrity_puts :: "live_token \<Rightarrow> time \<Rightarrow> rolling_metrics \<Rightarrow> put list" where
  "integrity_puts st now r =
     [plain_put ''unique_wallets_5m'' (jint (len (rm_users r))) ''count'',
      plain_put ''wallet_volume_hhi'' (jfloat (rm_wallet_volume_hhi r)) ''fraction'',
      plain_put ''repeated_amount_ratio'' (jfloat (rm_repeated_amount_ratio r)) ''fraction'',
      plain_put ''same_slot_ratio'' (jfloat (rm_same_slot_ratio r)) ''fraction''] @
     map (\<lambda>key. metric_put key ''fraction'' (integrity_at r key))
       [''single_trade_wallet_ratio'', ''round_trip_wallet_ratio'', ''round_trip_volume_ratio'',
        ''net_quote_flow_ratio'', ''side_alternation_ratio'', ''quantized_amount_repeat_ratio'',
        ''slot_concentration_hhi'', ''price_direction_consistency'', ''multi_trade_signature_ratio'',
        ''microtrade_count_ratio'', ''meaningful_volume_ratio'', ''meaningful_wallet_ratio'',
        ''price_path_efficiency'', ''rapid_price_reversal_ratio''] @
     [plain_put ''known_wallet_trade_coverage''
        (map_option JFloat (fst (integrity_at r ''known_wallet_trade_coverage''))) ''fraction'',
      plain_put ''signed_trade_coverage''
        (map_option JFloat (fst (integrity_at r ''signed_trade_coverage''))) ''fraction'',
      plain_put ''trade_window_span_seconds'' (jfloat (rm_window_span_seconds r)) ''seconds'',
      plain_put ''trade_buffer_saturated''
        (Some (JBool (rm_buffer_saturated r \<or> buffer_saturated now st))) ''boolean'',
      plain_put ''trade_density_5m'' (jfloat (min 1 (true_div (len (rm_trades_5m r)) 3600))) ''fraction'',
      metric_put ''median_trade_quote_sol'' ''SOL'' (integrity_at r ''median_trade_quote_sol'')]"

definition curve_progress :: "live_token \<Rightarrow> pyfloat" where
  "curve_progress st =
     min 1 (max 0
       (if 0 < lt_initial_real_token_reserves st \<and> 0 \<le> ts_real_token_reserves st
        then fsub 1 (true_div (ts_real_token_reserves st) (lt_initial_real_token_reserves st)) else 0))"

definition identity_sources :: "live_token \<Rightarrow> string list option" where
  "identity_sources st =
     (if lt_identity_source st = ''pump_create_event'' then Some [''solana:pump_create_event'']
      else if lt_identity_source st = ''dexscreener'' then Some [''dexscreener'']
      else if lt_identity_source st = ''pump_create_event+dexscreener''
        then Some [''solana:pump_create_event'', ''dexscreener'']
      else None)"

definition identity_put :: "live_token \<Rightarrow> put" where
  "identity_put st =
     (plain_put ''identity_source'' (Some (JStr (lt_identity_source st))) ''label'')
       \<lparr> pt_quality :=
           (if lt_identity_source st = ''pump_create_event'' then 1
            else if lt_identity_source st \<in> set [''dexscreener'', ''pump_create_event+dexscreener'']
              then lit 6 10 else 0),
         pt_source_list := identity_sources st,
         pt_missing_reason :=
           (if lt_identity_source st = ''unavailable'' then Some ''name_and_symbol_not_observed'' else None) \<rparr>"

definition safety_put :: "live_token \<Rightarrow> time \<Rightarrow> put" where
  "safety_put st now =
     \<lparr> pt_key = ''mint_safety_verified'',
       pt_value = (case safety_fields st of Some fs \<Rightarrow> json_get fs ''safe'' | None \<Rightarrow> None),
       pt_unit = ''boolean'', pt_quality = (if safety_fields st \<noteq> None then 1 else 0),
       pt_source_list = Some [''solana_rpc''], pt_item_freshness = Some (mint_safety_age st now),
       pt_item_as_of = map_of (lt_enrichment_times st) ''solana_rpc'',
       pt_missing_reason = (if safety_fields st \<noteq> None then None else Some ''not_checked_yet'') \<rparr>"

definition route_puts :: "live_token \<Rightarrow> time \<Rightarrow> rolling_metrics \<Rightarrow> put list" where
  "route_puts st now r =
     [plain_put ''creator_sells_5m'' (jint (creator_sells st r)) ''count'',
      plain_put ''curve_progress'' (jfloat (curve_progress st)) ''fraction'',
      plain_put ''momentum_1m'' (jfloat (rm_momentum_1m r)) ''fraction'',
      plain_put ''momentum_5m'' (jfloat (rm_momentum_5m r)) ''fraction'',
      plain_put ''drawdown_5m'' (jfloat (rm_drawdown_5m r)) ''fraction'',
      plain_put ''volume_5m_sol'' (jfloat (rm_volume_5m_sol r)) ''SOL'',
      reserve_put ''virtual_quote_reserve_sol''
        (jfloat (true_div (ts_virtual_quote_reserves st) SOL_IN_LAMPORTS)) ''SOL'' st now,
      reserve_put ''price_sol'' (jfloat (price_sol st)) ''SOL/token'' st now,
      identity_put st,
      (plain_put ''observed_fee_bps'' (if ts_fee_bps st \<noteq> 0 then jint (ts_fee_bps st) else None) ''basis_points'')
        \<lparr> pt_missing_reason := (if ts_fee_bps st \<noteq> 0 then None else Some ''not_observed_yet'') \<rparr>,
      plain_put ''complete'' (Some (JBool (lt_complete st))) ''boolean'',
      plain_put ''quote_mint'' (Some (JStr (ts_quote_mint st))) ''address'',
      safety_put st now]"

definition dex_put :: "live_token \<Rightarrow> time \<Rightarrow> string \<times> string \<Rightarrow> put" where
  "dex_put st now key_unit =
     (let v = json_get (lt_enrichment st) (fst key_unit);
          stale = (v \<noteq> None \<and> (case dex_age st now of None \<Rightarrow> True | Some a \<Rightarrow> 120 < a))
      in \<lparr> pt_key = fst key_unit, pt_value = v, pt_unit = snd key_unit,
           pt_quality = (if v \<noteq> None \<and> \<not> stale then lit 8 10 else 0),
           pt_source_list = Some [''dexscreener''],
           pt_item_freshness = Some (case dex_age st now of None \<Rightarrow> freshness st now | Some a \<Rightarrow> a),
           pt_item_as_of = map_of (lt_enrichment_times st) ''dexscreener'',
           pt_missing_reason =
             (if stale then Some ''stale_enrichment'' else if v \<noteq> None then None
              else Some ''not_enriched_or_unavailable'') \<rparr>)"

definition DEX_UNITS :: "(string \<times> string) list" where
  "DEX_UNITS =
     [(''liquidity_usd'', ''USD''), (''volume_5m_usd'', ''USD''), (''market_cap_usd'', ''USD''),
      (''price_usd'', ''USD/token''), (''price_native'', ''SOL/token''), (''sol_usd_price'', ''USD/SOL'')]"

definition snapshot_puts :: "live_token \<Rightarrow> time \<Rightarrow> bool \<Rightarrow> rolling_metrics \<Rightarrow> put list" where
  "snapshot_puts st now include_activity r =
     market_puts st now r @ activity_puts st include_activity r @ integrity_puts st now r @
     route_puts st now r @ map (dex_put st now) DEX_UNITS"

text \<open>The value types of \<open>DataValue.value\<close>; a list or an object is a validation error.\<close>

fun scalar_of_json :: "platform \<Rightarrow> json \<Rightarrow> scalar option result" where
  "scalar_of_json pl JNull = Inr None"
| "scalar_of_json pl (JBool b) = Inr (Some (SBool b))"
| "scalar_of_json pl (JInt n) = Inr (Some (SInt n))"
| "scalar_of_json pl (JFloat x) = Inr (Some (SFloat x))"
| "scalar_of_json pl (JStr s) = Inr (Some (SStr s))"
| "scalar_of_json pl (JTime t) = Inr (Some (SStr (pl_text pl (JTime t))))"
| "scalar_of_json pl (JList xs) = Inl (ValueError ''DataValue'')"
| "scalar_of_json pl (JObj fs) = Inl (ValueError ''DataValue'')"

definition data_value_ok :: "data_value \<Rightarrow> bool" where
  "data_value_ok d \<longleftrightarrow> 0 \<le> dv_freshness_seconds d \<and> 0 \<le> dv_quality d \<and> dv_quality d \<le> 1"

definition raw_data_value :: "live_token \<Rightarrow> time \<Rightarrow> rolling_metrics \<Rightarrow> put \<Rightarrow> scalar option \<Rightarrow> data_value" where
  "raw_data_value st now r p v =
     (let rolling = (pt_key p \<in> set (rolling_keys r)) in
      \<lparr> dv_value = v, dv_unit = pt_unit p,
        dv_as_of = (case pt_item_as_of p of Some t \<Rightarrow> t
                    | None \<Rightarrow> if rolling then rm_computed_at r else last_event st now),
        dv_sources = (case pt_source_list p of Some xs \<Rightarrow> xs | None \<Rightarrow> known_sources st),
        dv_freshness_seconds =
          (case pt_item_freshness p of Some x \<Rightarrow> x
           | None \<Rightarrow> if rolling then age_of now (rm_computed_at r) else freshness st now),
        dv_quality = clamp01 (pt_quality p), dv_missing_reason = pt_missing_reason p \<rparr>)"

definition data_value_of :: "platform \<Rightarrow> live_token \<Rightarrow> time \<Rightarrow> rolling_metrics \<Rightarrow> put \<Rightarrow> data_value result" where
  "data_value_of pl st now r p =
     rbind (case pt_value p of None \<Rightarrow> Inr None | Some v \<Rightarrow> scalar_of_json pl v) (\<lambda>v.
       (let d = raw_data_value st now r p v in
        if data_value_ok d then Inr d else Inl (ValueError ''DataValue'')))"

definition put_value ::
  "platform \<Rightarrow> live_token \<Rightarrow> time \<Rightarrow> rolling_metrics \<Rightarrow> string list option \<Rightarrow> put \<Rightarrow>
   (string, data_value) pydict \<Rightarrow> (string, data_value) pydict result" where
  "put_value pl st now r value_names p d =
     (case value_names of
        Some names \<Rightarrow> if pt_key p \<notin> set names then Inr d
                      else rbind (data_value_of pl st now r p) (\<lambda>v. Inr (AList.update (pt_key p) v d))
      | None \<Rightarrow> rbind (data_value_of pl st now r p) (\<lambda>v. Inr (AList.update (pt_key p) v d)))"

primrec put_all ::
  "platform \<Rightarrow> live_token \<Rightarrow> time \<Rightarrow> rolling_metrics \<Rightarrow> string list option \<Rightarrow> put list \<Rightarrow>
   (string, data_value) pydict \<Rightarrow> (string, data_value) pydict result" where
  "put_all pl st now r value_names [] d = Inr d"
| "put_all pl st now r value_names (p # ps) d =
     rbind (put_value pl st now r value_names p d) (\<lambda>d'. put_all pl st now r value_names ps d')"

section \<open>The snapshot\<close>

definition snapshot_confidence :: "int \<Rightarrow> live_token \<Rightarrow> time \<Rightarrow> rolling_metrics \<Rightarrow> pyfloat result" where
  "snapshot_confidence stale_seconds st now r =
     (if stale_seconds = 0 then Inl ZeroDivisionError
      else
        let event_score = min 1 (true_div (len (rm_trades_5m r)) 30);
            wallet_score = min 1 (true_div (len (rm_users r)) 15);
            freshness_score = max 0 (fsub 1 (fdiv (freshness st now) (of_int stale_seconds)));
            reserve_score = (if 0 < ts_virtual_quote_reserves st then 1 else 0)
        in Inr (clamp01 (wsum [(lit 30 100, event_score), (lit 20 100, wallet_score),
                               (lit 30 100, freshness_score), (lit 20 100, reserve_score)])))"

definition snapshot_state ::
  "platform \<Rightarrow> int \<Rightarrow> time \<Rightarrow> bool \<Rightarrow> bool \<Rightarrow> string list option \<Rightarrow> (live_token, feature_snapshot) act" where
  "snapshot_state pl stale_seconds now position_mark include_activity value_names st =
     (let r = with_activity include_activity (rolling_trade_metrics pl st now);
          flags = hard_flags_of stale_seconds st now position_mark r
      in (rbind (put_all pl st now r value_names (snapshot_puts st now include_activity r) []) (\<lambda>values.
          rbind (snapshot_confidence stale_seconds st now r) (\<lambda>confidence.
            Inr \<lparr> fs_mint = ts_mint st, fs_symbol = lt_symbol st, fs_name = lt_name st, fs_venue = ts_venue st,
                  fs_computed_at = now, fs_values = values, fs_data_confidence = confidence,
                  fs_hard_flags = flags \<rparr>)),
          st\<lparr> lt_rolling_trade_metrics := Some r \<rparr>))"

end
