(* ===== verification/Market_Engine.thy ===== *)
theory Market_Engine
  imports Market_Snapshot
begin

text \<open>
  \<open>FeatureEngine\<close> (\<open>backend/signal_arcade/intelligence/features.py\<close>): the tokens by mint, and every
  call of the class. A call that changes one token is the function of that token
  (\<open>token_event\<close>, \<open>confirm_route\<close>, \<open>refresh_curve\<close>, \<open>apply_watchdog\<close>, \<open>refresh_pool\<close>,
  \<open>enrich\<close>), looked up by \<open>on_token\<close>. The lock of the class makes each call one step. The Python
  object is shared with its holders; here a call returns the token's new state.
\<close>

section \<open>Calls on one token\<close>

text \<open>A trade of another program cannot touch a verified AMM route.\<close>

definition token_event :: "platform \<Rightarrow> market_event \<Rightarrow> (live_token, unit) act" where
  "token_event pl ev =
     bnd (gets (\<lambda>st. me_kind ev = EvTrade \<and> route_pinned st \<and> \<not> event_is_amm pl ev)) (\<lambda>skip.
       when_do (\<not> skip) (token_apply pl ev))"

definition enrich :: "(string, json) pydict \<Rightarrow> time \<Rightarrow> string \<Rightarrow> live_token \<Rightarrow> live_token" where
  "enrich data ts source st =
     (let st = st\<lparr> lt_enrichment := fold (\<lambda>(k, v). AList.update k v) data (lt_enrichment st),
                   lt_enrichment_times := AList.update source ts (lt_enrichment_times st) \<rparr>;
          name = bounded_display_text (map_of data ''base_token_name'') 100;
          symbol = bounded_display_text (map_of data ''base_token_symbol'') 30;
          new_name = (lt_name st = ''Unknown token'' \<and> name \<noteq> None);
          new_symbol = (lt_symbol st = ''?'' \<and> symbol \<noteq> None)
      in if source \<noteq> ''dexscreener'' then st
         else st\<lparr> lt_name := (case name of Some n \<Rightarrow> if new_name then n else lt_name st | None \<Rightarrow> lt_name st),
                  lt_symbol :=
                    (case symbol of Some s \<Rightarrow> if new_symbol then s else lt_symbol st | None \<Rightarrow> lt_symbol st),
                  lt_identity_source :=
                    (if new_name \<or> new_symbol then
                       if lt_identity_source st = ''unavailable'' then ''dexscreener''
                       else ''pump_create_event+dexscreener''
                     else lt_identity_source st) \<rparr>)"

definition confirm_route :: "string \<Rightarrow> string \<Rightarrow> string \<Rightarrow> string \<Rightarrow> live_token \<Rightarrow> bool \<times> live_token" where
  "confirm_route pool_address quote_mint base_account quote_account st =
     (if ts_venue st \<noteq> ''pump_swap'' \<or> pool_address = [] \<or> ts_pool_address st \<noteq> pool_address then (False, st)
      else (True, st\<lparr>
        ts_quote_mint := quote_mint,
        ts_pool_base_token_account := (if base_account \<noteq> [] then base_account else ts_pool_base_token_account st),
        ts_pool_quote_token_account :=
          (if quote_account \<noteq> [] then quote_account else ts_pool_quote_token_account st),
        lt_route_verified := True \<rparr>))"

text \<open>The slot guard of the two refreshes: not behind any event, and past the last reserves.\<close>

definition slot_refused :: "int \<Rightarrow> live_token \<Rightarrow> bool" where
  "slot_refused slot st \<longleftrightarrow>
     slot < max (lt_last_slot st) (ts_last_reserve_slot st) \<or>
     (0 < ts_last_reserve_slot st \<and> slot \<le> ts_last_reserve_slot st)"

definition WATCHDOG_SOURCE :: string where
  "WATCHDOG_SOURCE = ''solana_rpc:position_watchdog''"

definition stamp_refresh :: "int \<Rightarrow> time \<Rightarrow> string \<Rightarrow> live_token \<Rightarrow> live_token" where
  "stamp_refresh slot ts observation_id st = st\<lparr>
     ts_last_reserve_at := Some (later_of (ts_last_reserve_at st) ts),
     ts_last_reserve_slot := slot,
     ts_reserve_source := WATCHDOG_SOURCE,
     ts_last_reserve_event_id := Some observation_id,
     ts_last_reserve_signature := None \<rparr>"

definition refresh_curve ::
  "string \<Rightarrow> (string, json) pydict \<Rightarrow> int \<Rightarrow> time \<Rightarrow> string \<Rightarrow> live_token \<Rightarrow> bool \<times> live_token" where
  "refresh_curve curve_address account slot ts observation_id st =
     (let virtual_token = payload_number account [''virtual_token_reserves''] 0;
          virtual_quote = payload_number account [''virtual_quote_reserves'', ''virtual_sol_reserves''] 0;
          real_token = payload_number account [''real_token_reserves''] 0;
          real_quote = payload_number account [''real_quote_reserves'', ''real_sol_reserves''] (- 1)
      in if ts_venue st \<noteq> ''pump_curve'' \<or> curve_address = [] \<or> ts_curve_address st \<noteq> curve_address \<or>
            observation_id = [] \<or> slot_refused slot st then (False, st)
         else if virtual_token \<le> 0 \<or> virtual_quote \<le> 0 \<or> real_token < 0 then (False, st)
         else if (case json_str (map_of account ''quote_mint'') of
                    Some q \<Rightarrow> q \<noteq> ts_quote_mint st | None \<Rightarrow> False) then (False, st)
         else (True, stamp_refresh slot ts observation_id (st\<lparr>
           ts_virtual_token_reserves := virtual_token,
           ts_virtual_quote_reserves := virtual_quote,
           ts_real_token_reserves := real_token,
           ts_real_quote_reserves := (if 0 \<le> real_quote then Some real_quote else ts_real_quote_reserves st),
           lt_token_total_supply :=
             max (lt_token_total_supply st) (payload_number account [''token_total_supply''] 0),
           lt_complete :=
             (case map_of account ''complete'' of Some v \<Rightarrow> json_truthy v | None \<Rightarrow> lt_complete st) \<rparr>)))"

definition same_route :: "live_token \<Rightarrow> live_token \<Rightarrow> bool" where
  "same_route snap st \<longleftrightarrow>
     ts_venue st = ts_venue snap \<and> ts_curve_address st = ts_curve_address snap \<and>
     ts_pool_address st = ts_pool_address snap \<and>
     ts_pool_base_token_account st = ts_pool_base_token_account snap \<and>
     ts_pool_quote_token_account st = ts_pool_quote_token_account snap"

text \<open>Every validated reserve field at once, also of a route that is verified to be empty.\<close>

definition apply_watchdog :: "live_token \<Rightarrow> live_token \<Rightarrow> bool \<times> live_token" where
  "apply_watchdog snap st =
     (if \<not> same_route snap st \<or> ts_last_reserve_slot snap < lt_last_slot st \<or>
         ts_last_reserve_slot snap \<le> ts_last_reserve_slot st \<or> lt_reserve_audit snap = None
      then (False, st)
      else (True, st\<lparr>
        ts_virtual_token_reserves := ts_virtual_token_reserves snap,
        ts_virtual_quote_reserves := ts_virtual_quote_reserves snap,
        ts_real_token_reserves := ts_real_token_reserves snap,
        ts_real_quote_reserves := ts_real_quote_reserves snap,
        ts_quote_mint := ts_quote_mint snap,
        lt_route_verified := lt_route_verified snap,
        ts_fee_bps := ts_fee_bps snap,
        ts_reserve_fee_components := ts_reserve_fee_components snap,
        ts_reserve_lp_fee_bps := ts_reserve_lp_fee_bps snap,
        lt_reserve_audit := lt_reserve_audit snap,
        ts_last_reserve_at := ts_last_reserve_at snap,
        ts_last_reserve_slot := ts_last_reserve_slot snap,
        ts_reserve_source := WATCHDOG_SOURCE,
        ts_last_reserve_event_id :=
          Some (''solana-rpc:'' @ str_of_int (ts_last_reserve_slot snap) @ '':'' @ ts_mint snap),
        ts_last_reserve_signature := None \<rparr>))"

definition refresh_pool ::
  "string \<Rightarrow> string \<Rightarrow> string \<Rightarrow> int \<Rightarrow> int \<Rightarrow> int \<Rightarrow> int \<Rightarrow> time \<Rightarrow> string \<Rightarrow> live_token \<Rightarrow> bool \<times> live_token" where
  "refresh_pool pool_address base_account quote_account base_amount quote_amount virtual_quote slot ts
     observation_id st =
     (if ts_venue st \<noteq> ''pump_swap'' \<or> \<not> lt_route_verified st \<or> ts_pool_address st \<noteq> pool_address \<or>
         ts_pool_base_token_account st \<noteq> base_account \<or> ts_pool_quote_token_account st \<noteq> quote_account \<or>
         observation_id = [] \<or> slot_refused slot st \<or>
         base_amount \<le> 0 \<or> quote_amount < 0 \<or> virtual_quote < 0
      then (False, st)
      else (True, stamp_refresh slot ts observation_id (st\<lparr>
        ts_virtual_token_reserves := base_amount,
        ts_real_token_reserves := base_amount,
        ts_virtual_quote_reserves := max 1 (quote_amount + virtual_quote),
        ts_real_quote_reserves := Some quote_amount,
        lt_initial_real_token_reserves :=
          (if lt_initial_real_token_reserves st = 0 then base_amount else lt_initial_real_token_reserves st) \<rparr>)))"

section \<open>The engine\<close>

record engine =
  en_tokens :: "(string, live_token) pydict"
  en_stale_market_seconds :: int

definition new_engine :: "int \<Rightarrow> engine" where
  "new_engine stale_seconds = \<lparr> en_tokens = [], en_stale_market_seconds = stale_seconds \<rparr>"

definition put_token :: "string \<Rightarrow> live_token \<Rightarrow> engine \<Rightarrow> engine" where
  "put_token mint st en = en\<lparr> en_tokens := AList.update mint st (en_tokens en) \<rparr>"

text \<open>Run a call on the token of a mint; an unknown mint gives the default result.\<close>

definition on_token :: "string \<Rightarrow> 'a \<Rightarrow> (live_token, 'a) act \<Rightarrow> (engine, 'a) act" where
  "on_token mint dflt m en =
     (case map_of (en_tokens en) mint of
        None \<Rightarrow> (Inr dflt, en)
      | Some st \<Rightarrow> (case m st of (r, st') \<Rightarrow> (r, put_token mint st' en)))"

definition flip_call :: "(live_token \<Rightarrow> bool \<times> live_token) \<Rightarrow> (live_token, bool) act" where
  "flip_call f st = (case f st of (b, st') \<Rightarrow> (Inr b, st'))"

definition engine_apply :: "platform \<Rightarrow> market_event \<Rightarrow> (engine, live_token option) act" where
  "engine_apply pl ev en =
     (case me_mint ev of
        None \<Rightarrow> (Inr None, en)
      | Some mint \<Rightarrow>
          if mint = [] then (Inr None, en)
          else
            (let st = (case map_of (en_tokens en) mint of Some st \<Rightarrow> st | None \<Rightarrow> new_token mint)
             in case token_event pl ev st of
                  (Inl e, st') \<Rightarrow> (Inl e, put_token mint st' en)
                | (Inr _, st') \<Rightarrow> (Inr (Some st'), put_token mint st' en)))"

definition add_enrichment :: "string \<Rightarrow> (string, json) pydict \<Rightarrow> time option \<Rightarrow> string \<Rightarrow> time \<Rightarrow> (engine, unit) act" where
  "add_enrichment mint data ts source now =
     on_token mint () (modify (enrich data (case ts of Some t \<Rightarrow> t | None \<Rightarrow> now) source))"

definition inactive :: "time \<Rightarrow> string set \<Rightarrow> string \<times> live_token \<Rightarrow> bool" where
  "inactive before keep_mints row \<longleftrightarrow>
     fst row \<notin> keep_mints \<and> (case ts_last_event_at (snd row) of None \<Rightarrow> False | Some t \<Rightarrow> t < before)"

definition prune :: "time \<Rightarrow> string set \<Rightarrow> (engine, int) act" where
  "prune before keep_mints en =
     (let stale = map fst (filter (inactive before keep_mints) (en_tokens en))
      in (Inr (len stale), en\<lparr> en_tokens := fold AList.delete stale (en_tokens en) \<rparr>))"

definition confirm_pumpswap_route :: "string \<Rightarrow> string \<Rightarrow> string \<Rightarrow> string \<Rightarrow> string \<Rightarrow> (engine, bool) act" where
  "confirm_pumpswap_route mint pool_address quote_mint base_account quote_account =
     on_token mint False (flip_call (confirm_route pool_address quote_mint base_account quote_account))"

definition refresh_pump_curve ::
  "string \<Rightarrow> string \<Rightarrow> (string, json) pydict \<Rightarrow> int \<Rightarrow> time \<Rightarrow> string \<Rightarrow> (engine, bool) act" where
  "refresh_pump_curve mint curve_address account slot ts observation_id =
     on_token mint False (flip_call (refresh_curve curve_address account slot ts observation_id))"

definition apply_validated_watchdog_snapshot :: "live_token \<Rightarrow> (engine, bool) act" where
  "apply_validated_watchdog_snapshot snap = on_token (ts_mint snap) False (flip_call (apply_watchdog snap))"

definition refresh_pumpswap_reserves ::
  "string \<Rightarrow> string \<Rightarrow> string \<Rightarrow> string \<Rightarrow> int \<Rightarrow> int \<Rightarrow> int \<Rightarrow> int \<Rightarrow> time \<Rightarrow> string \<Rightarrow> (engine, bool) act" where
  "refresh_pumpswap_reserves mint pool_address base_account quote_account base_amount quote_amount virtual_quote
     slot ts observation_id =
     on_token mint False (flip_call
       (refresh_pool pool_address base_account quote_account base_amount quote_amount virtual_quote slot ts
          observation_id))"

definition some_result :: "('s, 'a) act \<Rightarrow> ('s, 'a option) act" where
  "some_result m = bnd m (\<lambda>x. ret (Some x))"

definition engine_snapshot :: "platform \<Rightarrow> string \<Rightarrow> time \<Rightarrow> bool \<Rightarrow> (engine, feature_snapshot option) act" where
  "engine_snapshot pl mint now include_activity en =
     on_token mint None
       (some_result (snapshot_state pl (en_stale_market_seconds en) now False include_activity None)) en"

definition position_snapshot :: "platform \<Rightarrow> string \<Rightarrow> time \<Rightarrow> (engine, feature_snapshot option) act" where
  "position_snapshot pl mint now en =
     on_token mint None (some_result (snapshot_state pl (en_stale_market_seconds en) now True False None)) en"

text \<open>The most recent tokens first, equal times in insertion order; \<open>datetime.min\<close> is \<open>oldest\<close>.\<close>

definition oldest :: time where "oldest = - 62135596800 * 1000000"

definition activity_time :: "live_token \<Rightarrow> time" where
  "activity_time st =
     (case ts_last_event_at st of Some t \<Rightarrow> t | None \<Rightarrow> (case lt_created_at st of Some t \<Rightarrow> t | None \<Rightarrow> oldest))"

definition listed_mints :: "nat \<Rightarrow> engine \<Rightarrow> string list" where
  "listed_mints limit en = take limit (map fst (sort_key (\<lambda>row. - activity_time (snd row)) (en_tokens en)))"

definition list_snapshots ::
  "platform \<Rightarrow> nat \<Rightarrow> string list option \<Rightarrow> time \<Rightarrow> (engine, feature_snapshot list) act" where
  "list_snapshots pl limit value_names now en =
     collect (listed_mints limit en) (\<lambda>mint.
       on_token mint None
         (some_result (snapshot_state pl (en_stale_market_seconds en) now False False value_names))) en"

section \<open>Runs\<close>

text \<open>
  What can happen to one token, and the history of its recorded trades, which the token itself
  keeps only in part. A snapshot is taken at a time that is not before the last event of the token, as
  \<open>observed_at\<close> of \<open>Orchestrator._handle_persisted_event\<close> is.
\<close>

definition observed_trades :: "platform \<Rightarrow> market_event \<Rightarrow> live_token \<Rightarrow> trade_observation list" where
  "observed_trades pl ev st =
     (case token_event pl ev st of
        (Inl e, st') \<Rightarrow> []
      | (Inr _, st') \<Rightarrow>
          if me_kind ev = EvTrade \<and> \<not> route_regression pl ev st then [last (lt_trades st')] else [])"

inductive token_run :: "platform \<Rightarrow> string \<Rightarrow> trade_observation list \<Rightarrow> live_token \<Rightarrow> bool"
  for pl :: platform and mint :: string where
  start: "token_run pl mint [] (new_token mint)"
| event: "token_run pl mint hist st \<Longrightarrow>
    token_run pl mint (hist @ observed_trades pl ev st) (snd (token_event pl ev st))"
| enriched: "token_run pl mint hist st \<Longrightarrow> token_run pl mint hist (enrich data ts source st)"
| confirmed: "token_run pl mint hist st \<Longrightarrow> token_run pl mint hist (snd (confirm_route pool q ba qa st))"
| curve: "token_run pl mint hist st \<Longrightarrow> token_run pl mint hist (snd (refresh_curve c account slot ts oid st))"
| watchdog: "token_run pl mint hist st \<Longrightarrow> token_run pl mint hist (snd (apply_watchdog snap st))"
| pool: "token_run pl mint hist st \<Longrightarrow>
    token_run pl mint hist (snd (refresh_pool pa ba qa base q vq slot ts oid st))"
| viewed: "token_run pl mint hist st \<Longrightarrow> \<forall>l. ts_last_event_at st = Some l \<longrightarrow> l \<le> now \<Longrightarrow>
    token_run pl mint hist (snd (snapshot_state pl stale_seconds now position_mark include_activity names st))"

text \<open>A sequence of events on one token.\<close>

definition token_events :: "platform \<Rightarrow> market_event list \<Rightarrow> live_token \<Rightarrow> live_token" where
  "token_events pl evs st = fold (\<lambda>ev st. snd (token_event pl ev st)) evs st"

section \<open>Sample data\<close>

definition sample_platform :: platform where
  "sample_platform = \<lparr> pl_log10 = (\<lambda>_. 0), pl_text = (\<lambda>_. []) \<rparr>"

definition sample_trade :: market_event where
  "sample_trade =
     \<lparr> me_event_id = ''e'', me_source = ''solana:logs'', me_kind = EvTrade, me_mint = Some ''m'',
       me_signature = Some ''s'', me_slot = Some 7, me_block_time = None, me_received_at = 1000000,
       me_schema_version = 1,
       me_payload = [(''is_buy'', JBool True), (''token_amount'', JInt 1000000), (''sol_amount'', JInt 20000000),
         (''user'', JStr ''u''), (''virtual_token_reserves'', JInt 1000000000),
         (''virtual_sol_reserves'', JInt 30000000000)] \<rparr>"

end
