(* ===== verification/Feed.thy ===== *)
theory Feed
  imports Market_Engine
begin

text \<open>
  How the orchestrator (\<open>backend/signal_arcade/orchestrator.py\<close>) feeds stored events to the market state:
  \<open>_accept_event_order\<close> keeps each token causal, \<open>_event_regresses_verified_route\<close> drops late curve
  trades, \<open>_mark_integrity_stream_gap\<close>, \<open>_note_integrity_mint_gap\<close> and
  \<open>_integrity_learning_window_complete\<close> keep account of the moments at which evidence was lost, and the
  decision path of \<open>_handle_persisted_event\<close> attaches the verdict to the snapshot. An \<open>OrderedDict\<close> is an
  association list in its order. Diagnostic counters, incidents and the recent-activity rings are left out.
\<close>

section \<open>State\<close>

record feed =
  fd_engine :: engine
  fd_order :: "(string, int \<times> int) pydict"
  fd_source_boundary :: int
  fd_stream_gap_at :: "time option"
  fd_mint_gap_at :: "(string, time) pydict"
  fd_max_gap_mints :: int
  fd_last_reconnects :: int
  fd_stream_was_healthy :: bool
  fd_demo_mode :: bool
  fd_reordered_events :: int
  fd_route_regression_events :: int

text \<open>What the decision path reads of \<open>SolanaProvider.health()\<close>; \<open>ph_last_error\<close> is its truth value.\<close>

record provider_health =
  ph_reconnects :: int
  ph_connected :: bool
  ph_last_error :: bool

definition PUMP_PROGRAM :: string where
  "PUMP_PROGRAM = ''6EF8rrecthR5Dkzon8Nwu78hRvfCKubJ14M5uBEwF6P''"

definition CLEAN_WINDOW :: time where "CLEAN_WINDOW = 5 * 60 * 1000000"

section \<open>Continuity\<close>

definition mark_stream_gap :: "time \<Rightarrow> feed \<Rightarrow> feed" where
  "mark_stream_gap observed_at fd = fd\<lparr> fd_stream_gap_at := Some observed_at, fd_mint_gap_at := [] \<rparr>"

text \<open>Entries are in the order of their times, so the expired ones are in front.\<close>

definition expire_gaps :: "time \<Rightarrow> (string, time) pydict \<Rightarrow> (string, time) pydict" where
  "expire_gaps observed_at gaps = dropWhile (\<lambda>(mint, t). t \<le> observed_at - CLEAN_WINDOW) gaps"

definition note_mint_gap :: "string option \<Rightarrow> time \<Rightarrow> feed \<Rightarrow> feed" where
  "note_mint_gap mint observed_at fd =
     (case mint of
        None \<Rightarrow> mark_stream_gap observed_at fd
      | Some m \<Rightarrow>
          if m = [] then mark_stream_gap observed_at fd
          else
            (let gaps = expire_gaps observed_at (fd_mint_gap_at fd) in
             if m \<notin> fst ` set gaps \<and> fd_max_gap_mints fd \<le> len gaps
             then mark_stream_gap observed_at (fd\<lparr> fd_mint_gap_at := gaps \<rparr>)
             else fd\<lparr> fd_mint_gap_at := AList.delete m gaps @ [(m, observed_at)] \<rparr>))"

text \<open>The front of \<open>_integrity_learning_window_complete\<close>: the health of the live stream.\<close>

definition stream_healthy :: "provider_health \<Rightarrow> bool" where
  "stream_healthy h \<longleftrightarrow> ph_connected h \<and> \<not> ph_last_error h"

definition note_reconnects :: "provider_health \<Rightarrow> feed \<Rightarrow> feed" where
  "note_reconnects h fd =
     (if fd_last_reconnects fd < ph_reconnects h
      then fd\<lparr> fd_last_reconnects := ph_reconnects h, fd_stream_was_healthy := False \<rparr> else fd)"

definition check_stream :: "provider_health \<Rightarrow> time \<Rightarrow> feed \<Rightarrow> bool \<times> feed" where
  "check_stream h decision_at fd =
     (if fd_demo_mode fd then (True, fd)
      else
        let fd1 = note_reconnects h fd in
        if \<not> stream_healthy h then (False, fd1\<lparr> fd_stream_was_healthy := False \<rparr>)
        else
          let fd2 = (if \<not> fd_stream_was_healthy fd1
                     then mark_stream_gap decision_at (fd1\<lparr> fd_stream_was_healthy := True \<rparr>) else fd1)
          in (fd_stream_gap_at fd2 \<noteq> None, fd2))"

text \<open>The rest: neither a stream gap nor a gap of this token inside the clean window.\<close>

definition recent_gap :: "time \<Rightarrow> time option \<Rightarrow> bool" where
  "recent_gap decision_at gap =
     (case gap of None \<Rightarrow> False | Some t \<Rightarrow> total_seconds (decision_at - t) < 300)"

definition gaps_clear :: "string \<Rightarrow> time \<Rightarrow> feed \<Rightarrow> bool \<times> feed" where
  "gaps_clear mint decision_at fd =
     (if recent_gap decision_at (fd_stream_gap_at fd) then (False, fd)
      else
        (case map_of (fd_mint_gap_at fd) mint of
           None \<Rightarrow> (True, fd)
         | Some t \<Rightarrow>
             if total_seconds (decision_at - t) < 300 then (False, fd)
             else (True, fd\<lparr> fd_mint_gap_at := AList.delete mint (fd_mint_gap_at fd) \<rparr>)))"

definition window_clean :: "provider_health \<Rightarrow> string \<Rightarrow> time \<Rightarrow> feed \<Rightarrow> bool \<times> feed" where
  "window_clean h mint decision_at fd =
     (case check_stream h decision_at fd of
        (ok, fd') \<Rightarrow> if ok then gaps_clear mint decision_at fd' else (False, fd'))"

section \<open>Order\<close>

text \<open>What is known of a token's position in the stream: its cursor, or newer market state.\<close>

definition order_cursor :: "string \<Rightarrow> feed \<Rightarrow> int \<times> int" where
  "order_cursor mint fd =
     (case (case map_of (fd_order fd) mint of None \<Rightarrow> (0, 0) | Some c \<Rightarrow> c) of (cursor_slot, cursor_sequence) \<Rightarrow>
      (let state_slot = (case map_of (en_tokens (fd_engine fd)) mint of
                           None \<Rightarrow> 0 | Some st \<Rightarrow> max (lt_last_slot st) (ts_last_reserve_slot st))
       in if cursor_slot < state_slot then (state_slot, 0) else (cursor_slot, cursor_sequence)))"

definition state_boundary :: "string \<Rightarrow> feed \<Rightarrow> time option" where
  "state_boundary mint fd =
     (case map_of (en_tokens (fd_engine fd)) mint of
        None \<Rightarrow> None
      | Some st \<Rightarrow>
          (case ts_last_event_at st of
             None \<Rightarrow> ts_last_reserve_at st
           | Some t \<Rightarrow> Some (later_of (ts_last_reserve_at st) t)))"

definition out_of_order :: "string \<Rightarrow> market_event \<Rightarrow> int \<Rightarrow> feed \<Rightarrow> bool" where
  "out_of_order mint ev sequence fd \<longleftrightarrow>
     (case order_cursor mint fd of (last_slot, last_sequence) \<Rightarrow>
        (0 < event_slot ev \<and> 0 < last_slot \<and> event_slot ev < last_slot) \<or>
        ((event_slot ev = 0 \<or> last_slot = 0 \<or> event_slot ev = last_slot) \<and>
         (sequence \<le> last_sequence \<or>
          (case state_boundary mint fd of None \<Rightarrow> False | Some t \<Rightarrow> me_received_at ev < t))))"

definition accept_event_order :: "market_event \<Rightarrow> int \<Rightarrow> time \<Rightarrow> feed \<Rightarrow> bool \<times> feed" where
  "accept_event_order ev sequence now fd =
     (case me_mint ev of
        None \<Rightarrow> (True, fd)
      | Some mint \<Rightarrow>
          if mint = [] then (True, fd)
          else if out_of_order mint ev sequence fd then
            (False, note_mint_gap (Some mint) now (fd\<lparr> fd_reordered_events := fd_reordered_events fd + 1 \<rparr>))
          else
            (True, fd\<lparr> fd_order := AList.update mint
                         (max (event_slot ev) (fst (order_cursor mint fd)), sequence) (fd_order fd) \<rparr>))"

definition advance_event_order_boundary :: "string \<Rightarrow> int \<Rightarrow> int \<Rightarrow> feed \<Rightarrow> feed" where
  "advance_event_order_boundary mint slot sequence fd =
     (case (case map_of (fd_order fd) mint of None \<Rightarrow> (0, 0) | Some c \<Rightarrow> c) of (cursor_slot, cursor_sequence) \<Rightarrow>
        if cursor_slot < slot then fd\<lparr> fd_order := AList.update mint (slot, sequence) (fd_order fd) \<rparr>
        else if slot = cursor_slot
          then fd\<lparr> fd_order := AList.update mint (slot, max sequence cursor_sequence) (fd_order fd) \<rparr>
        else fd)"

definition event_regresses_verified_route :: "market_event \<Rightarrow> feed \<Rightarrow> bool" where
  "event_regresses_verified_route ev fd \<longleftrightarrow>
     me_kind ev = EvTrade \<and>
     (case me_mint ev of
        None \<Rightarrow> False
      | Some mint \<Rightarrow>
          mint \<noteq> [] \<and>
          (case map_of (en_tokens (fd_engine fd)) mint of
             None \<Rightarrow> False
           | Some st \<Rightarrow> route_pinned st \<and> me_source ev = ''solana:'' @ PUMP_PROGRAM))"

section \<open>The decision path\<close>

text \<open>
  \<open>_handle_persisted_event\<close> up to the updated market state, with the time \<open>observed_at\<close> that everything
  after it uses.
\<close>

definition observed_time :: "market_event \<Rightarrow> live_token \<Rightarrow> time" where
  "observed_time ev st = later_of (ts_last_reserve_at st) (later_of (ts_last_event_at st) (me_received_at ev))"

definition on_engine :: "(engine, 'a) act \<Rightarrow> (feed, 'a) act" where
  "on_engine m = zoom fd_engine (\<lambda>en fd. fd\<lparr> fd_engine := en \<rparr>) m"

definition persisted_event ::
  "platform \<Rightarrow> market_event \<Rightarrow> int \<Rightarrow> time \<Rightarrow> (feed, (live_token \<times> time) option) act" where
  "persisted_event pl ev sequence now fd =
     (if sequence \<le> fd_source_boundary fd then (Inr None, fd)
      else if event_regresses_verified_route ev fd
        then (Inr None, fd\<lparr> fd_route_regression_events := fd_route_regression_events fd + 1 \<rparr>)
      else case accept_event_order ev sequence now fd of
        (False, fd') \<Rightarrow> (Inr None, fd')
      | (True, fd') \<Rightarrow>
          (case on_engine (engine_apply pl ev) fd' of
             (Inl e, fd'') \<Rightarrow> (Inl e, fd'')
           | (Inr None, fd'') \<Rightarrow> (Inr None, fd'')
           | (Inr (Some st), fd'') \<Rightarrow> (Inr (Some (st, observed_time ev st)), fd'')))"

text \<open>The \<open>DataValue\<close> that carries the verdict on the window.\<close>

definition continuity_value :: "bool \<Rightarrow> time \<Rightarrow> data_value" where
  "continuity_value clean observed_at =
     \<lparr> dv_value = Some (SBool clean), dv_unit = ''boolean'', dv_as_of = observed_at,
       dv_sources = [''event_pipeline''], dv_freshness_seconds = 0, dv_quality = 1,
       dv_missing_reason = (if clean then None else Some ''complete_five_minute_window_unavailable'') \<rparr>"

definition buffer_flag :: "feature_snapshot \<Rightarrow> bool" where
  "buffer_flag f =
     (case map_of (fs_values f) ''trade_buffer_saturated'' of
        None \<Rightarrow> False | Some v \<Rightarrow> dv_value v = Some (SBool True))"

definition decision_snapshot ::
  "platform \<Rightarrow> provider_health \<Rightarrow> string \<Rightarrow> time \<Rightarrow> bool \<Rightarrow> (feed, feature_snapshot option) act" where
  "decision_snapshot pl h mint observed_at include_activity =
     bnd (on_engine (engine_snapshot pl mint observed_at include_activity)) (\<lambda>r.
       case r of
         None \<Rightarrow> ret None
       | Some f \<Rightarrow>
           (\<lambda>fd. case window_clean h mint observed_at fd of
              (clean, fd') \<Rightarrow>
                (Inr (Some (f\<lparr> fs_values := AList.update ''integrity_window_complete''
                   (continuity_value (clean \<and> \<not> buffer_flag f) observed_at) (fs_values f) \<rparr>)), fd')))"

section \<open>Runs\<close>

text \<open>
  The calls that move the account of lost evidence, with the log of what was lost (\<open>None\<close> for the whole
  stream) and the latest time that a call has used.
\<close>

inductive gap_run :: "(string option \<times> time) list \<Rightarrow> time \<Rightarrow> feed \<Rightarrow> bool" where
  start: "fd_mint_gap_at fd = [] \<Longrightarrow> fd_stream_gap_at fd = None \<Longrightarrow> gap_run [] clock fd"
| stream: "gap_run lost clock fd \<Longrightarrow> clock \<le> t \<Longrightarrow> gap_run ((None, t) # lost) t (mark_stream_gap t fd)"
| token: "gap_run lost clock fd \<Longrightarrow> clock \<le> t \<Longrightarrow> gap_run ((mint, t) # lost) t (note_mint_gap mint t fd)"
| decided: "gap_run lost clock fd \<Longrightarrow> clock \<le> t \<Longrightarrow> window_clean h mint t fd = (clean, fd') \<Longrightarrow>
    gap_run (if fd_stream_gap_at fd' = Some t then (None, t) # lost else lost) t fd'"
| other: "gap_run lost clock fd \<Longrightarrow> fd_stream_gap_at fd' = fd_stream_gap_at fd \<Longrightarrow>
    fd_mint_gap_at fd' = fd_mint_gap_at fd \<Longrightarrow> gap_run lost clock fd'"

end
