(* ===== verification/Worker.thy ===== *)
theory Worker
  imports Candidate Advisors Feed Broker_Trade
begin

text \<open>
  How the orchestrator (\<open>backend/signal_arcade/orchestrator.py\<close>) handles one stored market event:
  \<open>_handle_persisted_event\<close> applies it to the market state, lets the broker mark and trade what it holds, and
  decides on an entry when the token is a candidate. Evidence collection of the learner and of the critic,
  the diagnostics and the message bus are left out; the state of the learner and the critic, the waiting line
  and the clock are arguments of the event.
\<close>

section \<open>State\<close>

record season_operation =
  so_running :: bool
  so_profile_transition :: bool
  so_end_now :: bool
  so_manual_deadline :: "time option"
  so_manual_started_at :: "time option"

record worker =
  wk_feed :: feed
  wk_broker :: broker
  wk_last_decision_at :: "(string, time) pydict"
  wk_last_recorded :: "(string, decision) pydict"
  wk_running :: bool
  wk_maintenance_requested :: bool
  wk_operation :: "season_operation option"
  wk_risk_mode :: risk_mode
  wk_auto_eligible_since :: "time option"
  wk_auto_paused_since :: "time option"
  wk_auto_last_observed_at :: "time option"

text \<open>What stays the same from event to event, and what an event finds.\<close>

record wiring =
  su_platform :: platform
  su_ctx :: ctx
  su_config :: run_config
  su_digest :: "(string \<times> json) list \<Rightarrow> string"
  su_decimal :: "pyfloat \<Rightarrow> decimal" \<comment> \<open>\<open>Decimal(str(x))\<close>\<close>

record circumstances =
  ci_health :: provider_health
  ci_wall :: time
  ci_queue_size :: int
  ci_queue_capacity :: int
  ci_models :: models
  ci_learner :: learner
  ci_critic :: critic
  ci_exit_timing :: "risk_mode \<Rightarrow> position option \<Rightarrow> int option \<times> (string \<times> string) list option"
  ci_exit_plan :: "decision \<Rightarrow> json option"

record outcome =
  oc_decision :: "decision option"
  oc_order :: "paper_order option"
  oc_receipts :: "fill_receipt list"

definition on_feed :: "(feed, 'a) act \<Rightarrow> (worker, 'a) act" where
  "on_feed m = zoom wk_feed (\<lambda>fd w. w\<lparr> wk_feed := fd \<rparr>) m"

definition on_broker :: "'a brk \<Rightarrow> (worker, 'a) act" where
  "on_broker m = zoom wk_broker (\<lambda>b w. w\<lparr> wk_broker := b \<rparr>) m"

section \<open>Profile transitions\<close>

definition profile_transition_active :: "season_operation option \<Rightarrow> bool" where
  "profile_transition_active operation =
     (case operation of None \<Rightarrow> False | Some op \<Rightarrow> so_running op \<and> so_profile_transition op)"

definition MANUAL_SETTLEMENT :: time where "MANUAL_SETTLEMENT = 90 * 1000000"

definition manual_profile_settlement_deadline :: "season_operation \<Rightarrow> time \<Rightarrow> time" where
  "manual_profile_settlement_deadline op now =
     (let started = (case so_manual_started_at op of
                       Some t \<Rightarrow> Some t
                     | None \<Rightarrow> map_option (\<lambda>deadline. deadline - MANUAL_SETTLEMENT) (so_manual_deadline op));
          manual_started_at = min (case started of Some t \<Rightarrow> t | None \<Rightarrow> now) now;
          maximum_deadline = manual_started_at + MANUAL_SETTLEMENT
      in case so_manual_deadline op of Some deadline \<Rightarrow> min deadline maximum_deadline | None \<Rightarrow> maximum_deadline)"

definition profile_transition_exit_management_active :: "season_operation option \<Rightarrow> time \<Rightarrow> bool" where
  "profile_transition_exit_management_active operation now =
     (case operation of
        None \<Rightarrow> False
      | Some op \<Rightarrow>
          profile_transition_active operation \<and>
          (\<not> so_end_now op \<or> now < manual_profile_settlement_deadline op now))"

section \<open>Reading the circumstances\<close>

definition candidate_decision_cooldown_seconds :: "run_config \<Rightarrow> int \<Rightarrow> int \<Rightarrow> int" where
  "candidate_decision_cooldown_seconds rc used capacity =
     (let utilization = (if capacity \<noteq> 0 then true_div used capacity else 0) in
      if lit 9 10 \<le> utilization then max (rc_decision_cooldown_seconds rc) 30
      else if lit 3 4 \<le> utilization then max (rc_decision_cooldown_seconds rc) 15
      else rc_decision_cooldown_seconds rc)"

definition sol_usd_price_of :: "bool \<Rightarrow> feature_snapshot \<Rightarrow> pyfloat option" where
  "sol_usd_price_of demo f =
     (if demo then Some 150
      else
        (case map_of (fs_values f) ''sol_usd_price'' of
           None \<Rightarrow> None
         | Some item \<Rightarrow>
             (case dv_value item of
                None \<Rightarrow> None
              | Some v \<Rightarrow>
                  if dv_quality item \<le> 0 \<or> 120 < dv_freshness_seconds item then None
                  else (case float_of_scalar v of
                          None \<Rightarrow> None
                        | Some rate \<Rightarrow> if 0 < rate \<and> rate < 1000000 then Some rate else None))))"

text \<open>The verdict of the feed on the five-minute window, as the snapshot carries it.\<close>

definition window_verdict :: "feature_snapshot \<Rightarrow> bool" where
  "window_verdict f =
     (case map_of (fs_values f) ''integrity_window_complete'' of
        None \<Rightarrow> False | Some v \<Rightarrow> dv_value v = Some (SBool True))"

definition broker_tracked :: "string \<Rightarrow> broker \<Rightarrow> bool" where
  "broker_tracked mint b \<longleftrightarrow> mint \<in> fst ` set (bk_positions b) \<or> has_pending_for b mint None"

definition entry_candidate :: "string \<Rightarrow> broker \<Rightarrow> bool" where
  "entry_candidate mint b \<longleftrightarrow>
     mint \<notin> fst ` set (bk_positions b) \<and> mint \<notin> set (bk_traded_mints b) \<and> \<not> has_pending_for b mint None"

definition cooled_down :: "run_config \<Rightarrow> circumstances \<Rightarrow> string \<Rightarrow> time \<Rightarrow> worker \<Rightarrow> bool" where
  "cooled_down rc ci mint observed_at w =
     (case map_of (wk_last_decision_at w) mint of
        None \<Rightarrow> True
      | Some previous \<Rightarrow>
          float_of_int (candidate_decision_cooldown_seconds rc (ci_queue_size ci) (ci_queue_capacity ci))
            \<le> total_seconds (observed_at - previous))"

definition should_evaluate :: "run_config \<Rightarrow> circumstances \<Rightarrow> event_kind \<Rightarrow> string \<Rightarrow> time \<Rightarrow> worker \<Rightarrow> bool" where
  "should_evaluate rc ci kind mint observed_at w \<longleftrightarrow>
     wk_running w \<and> \<not> profile_transition_active (wk_operation w) \<and> \<not> wk_maintenance_requested w \<and>
     entry_candidate mint (wk_broker w) \<and> cooled_down rc ci mint observed_at w \<and>
     kind \<in> {EvCreate, EvTrade, event_kind.EvComplete}"

section \<open>The broker's part\<close>

definition market_update ::
  "wiring \<Rightarrow> circumstances \<Rightarrow> market_event \<Rightarrow> live_token \<Rightarrow> feature_snapshot \<Rightarrow> time \<Rightarrow> decimal option
   \<Rightarrow> (worker, fill_receipt list) act" where
  "market_update su ci ev st f observed_at price =
     bnd (gets id) (\<lambda>w.
     let is_trade = (me_kind ev = EvTrade); mint = ts_mint st; b = wk_broker w; cx = su_ctx su;
         state = token_state.truncate st
     in if (wk_running w \<or> profile_transition_exit_management_active (wk_operation w) (ci_wall ci)) \<and>
           is_trade \<and> broker_tracked mint b
        then case ci_exit_timing ci (wk_risk_mode w) (map_of (bk_positions b) mint) of
               (soft, participant) \<Rightarrow>
                 on_broker (on_market_state cx state f (me_kind ev) (me_event_id ev) observed_at (wk_risk_mode w)
                   price soft participant)
        else if \<not> wk_running w \<and> is_trade \<and> mint \<in> fst ` set (bk_positions b)
        then seq (on_broker (observe_market_state cx state f observed_at price)) (ret [])
        else ret [])"

definition iso_json :: "time option \<Rightarrow> json" where
  "iso_json t = (case t of None \<Rightarrow> JNull | Some x \<Rightarrow> JTime x)"

definition set_auto_new_season_clock ::
  "ctx \<Rightarrow> time option \<Rightarrow> time option \<Rightarrow> time option \<Rightarrow> (worker, unit) act" where
  "set_auto_new_season_clock cx eligible paused last_observed =
     bnd (gets id) (\<lambda>w.
     if wk_auto_eligible_since w = eligible \<and> wk_auto_paused_since w = paused \<and>
        wk_auto_last_observed_at w = last_observed
     then ret ()
     else seq (on_broker (on_db (set_settings (cx_env cx)
                 [(''auto_new_season_eligible_since'', iso_json eligible),
                  (''auto_new_season_paused_since'', iso_json paused),
                  (''auto_new_season_last_observed_at'', iso_json last_observed)])))
              (modify (\<lambda>w. w\<lparr> wk_auto_eligible_since := eligible, wk_auto_paused_since := paused,
                              wk_auto_last_observed_at := last_observed \<rparr>)))"

definition note_recovery :: "ctx \<Rightarrow> fill_receipt list \<Rightarrow> (worker, unit) act" where
  "note_recovery cx receipts =
     bnd (gets id) (\<lambda>w.
       when_do (wk_auto_eligible_since w \<noteq> None \<and> list_ex (\<lambda>r. fr_side r = Sell) receipts)
         (set_auto_new_season_clock cx None None None))"

section \<open>The decision\<close>

definition fingerprint_of :: "wiring \<Rightarrow> risk_mode \<Rightarrow> strategy_versions \<Rightarrow> string" where
  "fingerprint_of su mode versions =
     configuration_fingerprint_for_mode (su_digest su) (cx_cfg (su_ctx su)) (su_config su) mode (Some versions)"

definition advise :: "circumstances \<Rightarrow> bool \<Rightarrow> bool \<Rightarrow> bool \<Rightarrow> decision \<Rightarrow> decision result" where
  "advise ci demo eligible actionable baseline =
     rbind (assess (ci_models ci) (ci_learner ci) baseline (\<not> demo \<and> eligible) actionable) (\<lambda>d.
     Inr (if actionable \<and> eligible then assess_guarded (ci_critic ci) d else d))"

definition convertible :: "quote_currency \<Rightarrow> decimal option \<Rightarrow> decision \<Rightarrow> decision" where
  "convertible currency price d =
     (if de_action d = Enter \<and> currency = USDC \<and> price = None
      then d\<lparr> de_action := Abstain, de_blockers := de_blockers d @ [''fresh_sol_usdc_conversion_unavailable''] \<rparr>
      else d)"

definition submit_entry ::
  "wiring \<Rightarrow> circumstances \<Rightarrow> decimal option \<Rightarrow> decision \<Rightarrow> (worker, decision \<times> paper_order option) act" where
  "submit_entry su ci price d =
     (if de_action d \<noteq> Enter then ret (d, None)
      else bnd (on_broker (submit_decision_with_reason (su_ctx su) d price (ci_exit_plan ci d))) (\<lambda>(order, blocker).
           ret (case blocker of
                  None \<Rightarrow> (d, order)
                | Some reason \<Rightarrow>
                    if reason = [] then (d, order)
                    else (d\<lparr> de_action := Pass, de_blockers := de_blockers d @ [reason] \<rparr>, order))))"

definition record_decision :: "ctx \<Rightarrow> string \<Rightarrow> time \<Rightarrow> decision \<Rightarrow> (worker, unit) act" where
  "record_decision cx mint observed_at d =
     bnd (gets id) (\<lambda>w.
     seq (when_do (should_record_decision (wk_last_recorded w) d)
            (seq (on_broker (on_db (save_decision (cx_env cx) d)))
                 (modify (\<lambda>w. w\<lparr> wk_last_recorded := AList.update mint d (wk_last_recorded w) \<rparr>))))
         (modify (\<lambda>w. w\<lparr> wk_last_decision_at := AList.update mint observed_at (wk_last_decision_at w) \<rparr>)))"

definition decide ::
  "wiring \<Rightarrow> circumstances \<Rightarrow> live_token \<Rightarrow> feature_snapshot \<Rightarrow> time \<Rightarrow> decimal option
   \<Rightarrow> (worker, decision \<times> paper_order option) act" where
  "decide su ci st f observed_at price =
     bnd (gets id) (\<lambda>w.
     bnd (on_broker (prepare_baseline_decision (su_ctx su) (fingerprint_of su (wk_risk_mode w)) f (wk_risk_mode w) price))
       (\<lambda>(baseline, actionable).
     bnd (lift (advise ci (fd_demo_mode (wk_feed w)) (window_verdict f) actionable baseline)) (\<lambda>advised_decision.
     bnd (gets (\<lambda>w. bk_quote_currency (wk_broker w))) (\<lambda>currency.
     bnd (submit_entry su ci price (convertible currency price advised_decision)) (\<lambda>(d, order).
     seq (record_decision (su_ctx su) (ts_mint st) observed_at d) (ret (d, order)))))))"

section \<open>The event\<close>

text \<open>Before the snapshot: \<open>None\<close> when the event was not for us; after it, the work that the event causes.\<close>

definition handle_market ::
  "wiring \<Rightarrow> circumstances \<Rightarrow> market_event \<Rightarrow> live_token \<Rightarrow> time \<Rightarrow> (worker, outcome) act" where
  "handle_market su ci ev st observed_at =
     bnd (gets id) (\<lambda>w.
     let mint = ts_mint st;
         evaluating = should_evaluate (su_config su) ci (me_kind ev) mint observed_at w;
         nothing = \<lparr> oc_decision = None, oc_order = None, oc_receipts = [] \<rparr>
     in if \<not> broker_tracked mint (wk_broker w) \<and> \<not> evaluating then ret nothing
        else bnd (on_feed (decision_snapshot (su_platform su) (ci_health ci) mint observed_at evaluating)) (\<lambda>snap.
             case snap of
               None \<Rightarrow> ret nothing
             | Some f \<Rightarrow>
                 let price = map_option (su_decimal su) (sol_usd_price_of (fd_demo_mode (wk_feed w)) f) in
                 bnd (market_update su ci ev st f observed_at price) (\<lambda>receipts.
                 seq (note_recovery (su_ctx su) receipts)
                 (if evaluating
                  then bnd (decide su ci st f observed_at price) (\<lambda>(d, order).
                       ret \<lparr> oc_decision = Some d, oc_order = order, oc_receipts = receipts \<rparr>)
                  else ret \<lparr> oc_decision = None, oc_order = None, oc_receipts = receipts \<rparr>))))"

definition handle_event :: "wiring \<Rightarrow> circumstances \<Rightarrow> market_event \<Rightarrow> int \<Rightarrow> (worker, outcome option) act" where
  "handle_event su ci ev sequence =
     bnd (on_feed (persisted_event (su_platform su) ev sequence (ci_wall ci))) (\<lambda>r.
       case r of
         None \<Rightarrow> ret None
       | Some (st, observed_at) \<Rightarrow> some_result (handle_market su ci ev st observed_at))"

end
