(* ===== verification/Candidate_Laws.thy ===== *)
theory Candidate_Laws
  imports Candidate Broker_Runs
begin

text \<open>
  The laws of the candidate path: the planned size of an entry was itself evaluated, lies in the bracket of the
  search and is close to the first refused size.
\<close>

section \<open>Floats\<close>

lemma rnd64_grid: "\<exists>m e. \<bar>m\<bar> < 2 ^ 53 \<and> rnd64 x = of_int m * 2 powi e"
proof -
  have pos: "\<exists>m e. \<bar>m\<bar> < 2 ^ 53 \<and> rnd64 y = of_int m * 2 powi e" if y: "0 < y" for y
  proof -
    define e where "e = sig_exp 2 y + 1 - 53"
    define m where "m = round_half_even (y / 2 powi e)"
    have r: "rnd64 y = of_int m * 2 powi e" using y by (simp add: rnd_def m_def e_def Let_def)
    have "0 < rnd64 y" using y by simp
    moreover have "0 < (2 :: rat) powi e" by simp
    ultimately have m0: "0 < m" unfolding r by (auto simp: zero_less_mult_iff)
    have "rnd64 y \<le> 2 powi (e + 53)" using rnd_pos_bounds [of 2 53 y] y by (simp add: e_def add.commute)
    also have "\<dots> = of_int (2 ^ 53) * 2 powi e" by (simp add: power_int_add)
    finally have "m \<le> 2 ^ 53" unfolding r by simp
    then consider "m < 2 ^ 53" | "m = 2 ^ 53" by linarith
    then show ?thesis
    proof cases
      case 1
      then show ?thesis using m0 r by (intro exI [of _ m] exI [of _ e]) simp
    next
      case 2
      then have "rnd64 y = of_int 1 * 2 powi (e + 53)" using r by (simp add: power_int_add)
      then show ?thesis by (intro exI [of _ 1] exI [of _ "e + 53"]) simp
    qed
  qed
  consider "x = 0" | "0 < x" | "0 < - x" by linarith
  then show ?thesis
  proof cases
    case 1
    then show ?thesis by (intro exI [of _ 0] exI [of _ 0]) simp
  next
    case 2
    then show ?thesis by (rule pos)
  next
    case 3
    then obtain m e where "\<bar>m\<bar> < 2 ^ 53" "- rnd64 x = of_int m * 2 powi e" using pos [of "- x"] by (auto simp: rnd_uminus)
    then have "\<bar>- m\<bar> < 2 ^ 53" "rnd64 x = of_int (- m) * 2 powi e" by simp_all
    then show ?thesis by blast
  qed
qed

lemma rnd64_on_grid: "\<bar>m\<bar> < 2 ^ 53 \<Longrightarrow> rnd64 (of_int m * 2 powi e) = of_int m * 2 powi e"
  using rnd_exact [of 2 m 53 e] by simp

lemma rnd64_idem [simp]: "rnd64 (rnd64 x) = rnd64 x"
  using rnd64_grid [of x] rnd64_on_grid by auto

lemma rnd64_double: "rnd64 x = x \<Longrightarrow> rnd64 (2 * x) = 2 * x"
proof -
  assume x: "rnd64 x = x"
  obtain m e where m: "\<bar>m\<bar> < 2 ^ 53" "x = of_int m * 2 powi e" using rnd64_grid [of x] x by auto
  then have "2 * x = of_int m * 2 powi (e + 1)" by (simp add: power_int_add)
  then show ?thesis using rnd64_on_grid [OF m(1)] by metis
qed

lemma rnd64_half: "rnd64 x = x \<Longrightarrow> rnd64 (x / 2) = x / 2"
proof -
  assume x: "rnd64 x = x"
  obtain m e where m: "\<bar>m\<bar> < 2 ^ 53" "x = of_int m * 2 powi e" using rnd64_grid [of x] x by auto
  then have "x / 2 = of_int m * 2 powi (e - 1)" by (simp add: power_int_diff)
  then show ?thesis using rnd64_on_grid [OF m(1)] by metis
qed

lemma rnd64_error:
  assumes "0 < x"
  shows "\<bar>rnd64 x - x\<bar> \<le> x / 2 ^ 53"
proof -
  define q :: rat where "q = 2 powi (sig_exp 2 x + 1 - 53)"
  have q: "0 < q" by (simp add: q_def)
  have r: "rnd64 x = of_int (round_half_even (x / q)) * q" using assms by (simp add: rnd_def q_def Let_def)
  have "\<bar>of_int (round_half_even (x / q)) - x / q\<bar> \<le> 1 / 2" by (rule round_half_even_near)
  then have "\<bar>of_int (round_half_even (x / q)) - x / q\<bar> * q \<le> 1 / 2 * q" using q by (intro mult_right_mono) simp_all
  also have "\<bar>of_int (round_half_even (x / q)) - x / q\<bar> * q = \<bar>rnd64 x - x\<bar>"
  proof -
    have "\<bar>of_int (round_half_even (x / q)) - x / q\<bar> * q = \<bar>(of_int (round_half_even (x / q)) - x / q) * q\<bar>"
      using q by (simp add: abs_mult)
    then show ?thesis using q by (simp add: r left_diff_distrib)
  qed
  also have "1 / 2 * q = 2 powi sig_exp 2 x / 2 ^ 53" by (simp add: q_def power_int_add power_int_diff)
  also have "\<dots> \<le> x / 2 ^ 53" using sig_exp_bounds [of 2 x] assms by (intro divide_right_mono) simp_all
  finally show ?thesis .
qed

text \<open>The midpoint of two floats is a float between them, half way up to rounding.\<close>

lemma midpoint:
  assumes "rnd64 low = low" "rnd64 high = high" "0 < low" "low \<le> high"
  defines "mid \<equiv> fdiv (fadd low high) 2"
  shows "rnd64 mid = mid" "low \<le> mid" "mid \<le> high" "\<bar>mid - (low + high) / 2\<bar> \<le> high / 2 ^ 53"
proof -
  define y where "y = rnd64 (low + high)"
  have y: "rnd64 y = y" by (simp add: y_def)
  then have mid: "mid = y / 2" using rnd64_half [OF y] by (simp add: mid_def fdiv_def fadd_def y_def)
  show "rnd64 mid = mid" by (simp add: mid_def fdiv_def)
  have "2 * low \<le> y" "y \<le> 2 * high"
    using rnd64_mono [of "2 * low" "low + high"] rnd64_mono [of "low + high" "2 * high"] assms(4)
      rnd64_double [OF assms(1)] rnd64_double [OF assms(2)] by (simp_all add: y_def)
  then show "low \<le> mid" "mid \<le> high" by (simp_all add: mid)
  have "\<bar>y - (low + high)\<bar> \<le> (low + high) / 2 ^ 53" using rnd64_error [of "low + high"] assms(3,4) by (simp add: y_def)
  also have "\<dots> \<le> 2 * high / 2 ^ 53" using assms(4) by (intro divide_right_mono) simp_all
  finally have "\<bar>y - (low + high)\<bar> / 2 \<le> (2 * high / 2 ^ 53) / 2" by (intro divide_right_mono) simp_all
  then show "\<bar>mid - (low + high) / 2\<bar> \<le> high / 2 ^ 53" by (simp add: mid abs_if field_simps split: if_splits)
qed

section \<open>The search\<close>

definition evaluated ::
  "ctx \<Rightarrow> feature_snapshot \<Rightarrow> risk_mode \<Rightarrow> risk_limits \<Rightarrow> string \<Rightarrow> pyfloat \<Rightarrow> decision \<Rightarrow> bool" where
  "evaluated cx f mode limits version size_sol d \<longleftrightarrow>
     (\<exists>did created. evaluate (fill_engine cx) f mode (Some size_sol) (Some limits) (Some version) did created = Inr d)"

lemma evaluate_sizeD: "evaluate_size cx f mode limits version s b = (Inr d, b') \<Longrightarrow> evaluated cx f mode limits version s d"
  by (auto simp: evaluate_size_def evaluated_def bnd_def lift_def split: prod.splits sum.splits)

lemma size_search_result:
  assumes "size_search ev n low high c b = (Inr (s, d), b')"
    and "rnd64 low = low" "rnd64 high = high" "0 < low" "low \<le> high"
    and ev: "\<And>x d b b'. ev x b = (Inr d, b') \<Longrightarrow> P x d"
    and "P low c" "de_action c = Enter" "P high c'" "de_action c' \<noteq> Enter"
  shows "low \<le> s \<and> s \<le> high \<and> P s d \<and> de_action d = Enter \<and>
    (\<exists>h c'. s \<le> h \<and> h \<le> high \<and> P h c' \<and> de_action c' \<noteq> Enter \<and>
      h - s \<le> (high - low) / 2 ^ n + (2 - 2 / 2 ^ n) * (high / 2 ^ 53))"
  using assms(1-5,7-10)
proof (induction n arbitrary: low high c c' b)
  case 0
  then show ?case by (auto simp: ret_def)
next
  case (Suc n)
  define mid where "mid = fdiv (fadd low high) 2"
  note m = midpoint [OF Suc.prems(2-5), folded mid_def]
  have half: "w / 2 ^ n + (2 - 2 / 2 ^ n) * (h / 2 ^ 53) \<le> (high - low) / 2 ^ Suc n + (2 - 2 / 2 ^ Suc n) * (high / 2 ^ 53)"
    if "w \<le> (high - low) / 2 + high / 2 ^ 53" "h \<le> high" for w h :: rat
  proof -
    have "w / 2 ^ n \<le> ((high - low) / 2 + high / 2 ^ 53) / 2 ^ n" using that(1) by (intro divide_right_mono) simp_all
    moreover have "(2 - 2 / 2 ^ n) * (h / 2 ^ 53) \<le> (2 - 2 / 2 ^ n) * (high / 2 ^ 53)"
    proof (intro mult_left_mono divide_right_mono that(2))
      have "(1 :: rat) \<le> 2 ^ n" by simp
      then show "0 \<le> (2 - 2 / 2 ^ n :: rat)" by (simp add: field_simps)
    qed simp
    moreover have split: "((high - low) / 2 + e) / 2 ^ n = (high - low) / 2 ^ Suc n + e / 2 ^ n"
      "(2 - 2 / 2 ^ n) * e + e / 2 ^ n = (2 - 2 / 2 ^ Suc n) * e" for e :: rat
      by (simp_all add: add_divide_distrib algebra_simps)
    ultimately show ?thesis using split [of "high / 2 ^ 53"] by linarith
  qed
  obtain t b1 where t: "ev mid b = (Inr t, b1)"
    and rest: "(if de_action t = Enter then size_search ev n mid high t b1 else size_search ev n low mid c b1) = (Inr (s, d), b')"
    using Suc.prems(1) by (auto simp: bnd_def mid_def [symmetric] Let_def split: prod.splits sum.splits if_splits)
  note p = ev [OF t]
  show ?case
  proof (cases "de_action t = Enter")
    case True
    from Suc.IH [of mid high t b1 c'] Suc.prems m p rest True
    have r: "mid \<le> s \<and> s \<le> high \<and> P s d \<and> de_action d = Enter \<and>
      (\<exists>h c'. s \<le> h \<and> h \<le> high \<and> P h c' \<and> de_action c' \<noteq> Enter \<and>
        h - s \<le> (high - mid) / 2 ^ n + (2 - 2 / 2 ^ n) * (high / 2 ^ 53))" by simp
    moreover have "high - mid \<le> (high - low) / 2 + high / 2 ^ 53" using m(4) by (simp add: abs_if field_simps split: if_splits)
    ultimately show ?thesis using half [of "high - mid" high] m(2) by (meson order_trans order_refl)
  next
    case False
    from Suc.IH [of low mid c b1 t] Suc.prems m p rest False
    have r: "low \<le> s \<and> s \<le> mid \<and> P s d \<and> de_action d = Enter \<and>
      (\<exists>h c'. s \<le> h \<and> h \<le> mid \<and> P h c' \<and> de_action c' \<noteq> Enter \<and>
        h - s \<le> (mid - low) / 2 ^ n + (2 - 2 / 2 ^ n) * (mid / 2 ^ 53))" by simp
    moreover have "mid - low \<le> (high - low) / 2 + high / 2 ^ 53" using m(4) by (simp add: abs_if field_simps split: if_splits)
    ultimately show ?thesis using half [of "mid - low" mid] m(3) by (meson order_trans)
  qed
qed

section \<open>The planned size\<close>

lemma fdiv_by_self: "rnd64 (fdiv x y) = fdiv x y" "rnd64 (true_div m n) = true_div m n" "rnd64 (lit m n) = lit m n"
  by (simp_all add: fdiv_def true_div_def lit_def)

lemma bounded_size_float:
  "bounded_entry_size_sol cx b d desired price p = Inr (sel, largest, cs) \<Longrightarrow> rnd64 sel = sel"
  by (auto simp: bounded_entry_size_sol_def Let_def rbind_eq_Inr fdiv_by_self)

lemma sizing_selected:
  assumes "sizing_from_portfolio cx b d price p = Inr sizing"
  shows "\<exists>sel. sa_selected_size_sol sizing = max MIN_SIZE_SOL sel \<and> rnd64 sel = sel"
proof -
  define base where "base = planned_size_from_portfolio b (risk_limits_of b (Some (de_risk_mode d))) p price"
  obtain desired reasons where dr: "desired_size b d (risk_limits_of b (Some (de_risk_mode d))) p price base = (desired, reasons)"
    by fastforce
  obtain sel largest cs where "bounded_entry_size_sol cx b d desired price p = Inr (sel, largest, cs)"
      "sa_selected_size_sol sizing = max MIN_SIZE_SOL sel"
    using assms unfolding sizing_from_portfolio_def Let_def base_def [symmetric] dr prod.case rbind_eq_Inr
    by (elim exE conjE) (simp split: prod.splits if_splits, fastforce)
  then show ?thesis using bounded_size_float by blast
qed

lemma plan_size_InrD:
  assumes "plan_entry_size cx d price b = (Inr sizing, b')"
  shows "rnd64 (sa_selected_size_sol sizing) = sa_selected_size_sol sizing" "0 < sa_selected_size_sol sizing"
proof -
  obtain p b1 where r: "sizing_from_portfolio cx b1 d price p = Inr sizing"
    using assms by (auto simp: plan_entry_size_def bnd_def gets_def lift_def split: prod.splits sum.splits)
  have "rnd64 MIN_SIZE_SOL = MIN_SIZE_SOL" "0 < MIN_SIZE_SOL"
    by (simp_all add: MIN_SIZE_SOL_def fdiv_by_self) (simp add: lit_def)
  then show "rnd64 (sa_selected_size_sol sizing) = sa_selected_size_sol sizing" "0 < sa_selected_size_sol sizing"
    using sizing_selected [OF r] by (auto simp: max_def)
qed

text \<open>What an entry says about the size it was evaluated at.\<close>

lemma entered_size:
  assumes "evaluated cx f mode l v s d" and "de_action d = Enter" and "s \<noteq> 0"
  shows "price_impact f s \<le> rl_max_price_impact l \<and> rl_min_net_edge_index l \<le> sc_net_edge_index (de_score d)"
proof -
  obtain did created where run: "evaluate (fill_engine cx) f mode (Some s) (Some l) (Some v) did created = Inr d"
    using assms(1) unfolding evaluated_def by blast
  obtain blockers danger edge where
    d: "de_action d = decide_action f (blockers @ limit_blockers f l danger (price_impact f s) edge)"
       "sc_net_edge_index (de_score d) = edge"
    using run assms(3) by (auto simp: evaluate_def Let_def rbind_eq_Inr append_assoc [symmetric]
        simp del: append_assoc split: if_splits)
  have "limit_blockers f l danger (price_impact f s) edge = []"
    using assms(2) unfolding d(1) decide_enter by simp
  from limit_gates [OF this] show ?thesis by (simp add: d(2))
qed

definition close_refusal ::
  "ctx \<Rightarrow> feature_snapshot \<Rightarrow> risk_mode \<Rightarrow> risk_limits \<Rightarrow> string \<Rightarrow> pyfloat \<Rightarrow> pyfloat \<Rightarrow> pyfloat \<Rightarrow> bool" where
  "close_refusal cx f mode l v low high s \<longleftrightarrow>
     (\<exists>refused c. s \<le> refused \<and> refused \<le> high \<and> evaluated cx f mode l v refused c \<and> de_action c \<noteq> Enter \<and>
        refused - s \<le> (high - low) / 64 + high / 2 ^ 52)"

lemma select_size_InrD:
  assumes run: "select_size (evaluate_size cx f mode l v) high low reference b = (Inr (s, c), b')"
    and floats: "rnd64 low = low" "rnd64 high = high" "0 < low" "0 < high"
    and ref: "evaluated cx f mode l v low reference"
  shows "0 < s \<and> evaluated cx f mode l v s c \<and>
    (s = high \<or> low \<le> s \<and> s \<le> high \<and> de_action c = Enter \<and> close_refusal cx f mode l v low high s)"
proof -
  let ?P = "evaluated cx f mode l v"
  obtain d b1 where d: "evaluate_size cx f mode l v high b = (Inr d, b1)"
    and rest: "(if lost_to_size high low reference d
      then size_search (evaluate_size cx f mode l v) 6 low high reference b1 else (Inr (high, d), b1)) = (Inr (s, c), b')"
    using run by (auto simp: select_size_def bnd_def ret_def split: prod.splits sum.splits if_splits)
  note p = evaluate_sizeD [OF d]
  show ?thesis
  proof (cases "lost_to_size high low reference d")
    case True
    then have lost: "low < high" "de_action reference = Enter" "de_action d \<noteq> Enter"
      by (auto simp: lost_to_size_def Let_def)
    from size_search_result [of "evaluate_size cx f mode l v" 6 low high reference b1 s c b' ?P d] True rest floats lost ref p
    have r: "low \<le> s \<and> s \<le> high \<and> ?P s c \<and> de_action c = Enter \<and>
      (\<exists>h c'. s \<le> h \<and> h \<le> high \<and> ?P h c' \<and> de_action c' \<noteq> Enter \<and>
        h - s \<le> (high - low) / 2 ^ 6 + (2 - 2 / 2 ^ 6) * (high / 2 ^ 53))"
      using evaluate_sizeD by (simp add: order_less_imp_le)
    moreover have "(high - low) / 2 ^ 6 + (2 - 2 / 2 ^ 6) * (high / 2 ^ 53) \<le> (high - low) / 64 + high / 2 ^ 52"
      using floats(4) by simp
    ultimately have "close_refusal cx f mode l v low high s" unfolding close_refusal_def by (meson order_trans)
    then show ?thesis using r floats(3) by auto
  next
    case False
    then show ?thesis using rest p floats(4) by simp
  qed
qed

section \<open>The candidate path returns\<close>

lemma evaluate_size_total:
  assumes "v \<in> set SUPPORTED_BASELINE_VERSIONS"
  shows "\<exists>d. evaluate_size cx f mode l v s b =
    (Inr d, b\<lparr> bk_store := (bk_store b)\<lparr> st_clock := st_clock (bk_store b) + 1, st_fresh := st_fresh (bk_store b) + 1 \<rparr> \<rparr>) \<and>
    de_risk_mode d = mode"
proof -
  have ne: "v \<noteq> []" using assms by (auto simp: version_defs SUPPORTED_BASELINE_VERSIONS_def)
  obtain i where "engine_integrity f v = Inr i" by (rule engine_integrity_total [OF assms, of f])
  then have "\<exists>d. evaluate (fill_engine cx) f mode (Some s) (Some l) (Some v) did created = Inr d \<and> de_risk_mode d = mode"
    for did created using assms ne by (simp add: evaluate_def Let_def)
  then obtain d where "evaluate (fill_engine cx) f mode (Some s) (Some l) (Some v)
      (en_uuid (cx_env cx) (st_fresh (bk_store b))) (en_wall (cx_env cx) (st_clock (bk_store b))) = Inr d \<and> de_risk_mode d = mode"
    by blast
  then show ?thesis
    by (simp add: evaluate_size_def on_db_def zoom_def fresh_uuid_def wall_now_def seq_def bnd_def gets_def modify_def
        ret_def lift_def)
qed

lemma size_search_total:
  assumes "\<And>x b. \<exists>d b'. ev x b = (Inr d, b')"
  shows "\<exists>r b'. size_search ev n low high c b = (Inr r, b')"
proof (induction n arbitrary: low high c b)
  case (Suc n)
  obtain t b1 where "ev (fdiv (fadd low high) 2) b = (Inr t, b1)" using assms by blast
  then show ?case using Suc.IH by (simp add: bnd_def Let_def)
qed (simp add: ret_def)

lemma select_size_total:
  assumes "\<And>x b. \<exists>d b'. ev x b = (Inr d, b')"
  shows "\<exists>r b'. select_size ev high low reference b = (Inr r, b')"
proof -
  obtain t b1 where "ev high b = (Inr t, b1)" using assms by blast
  then show ?thesis using size_search_total [OF assms] by (simp add: select_size_def bnd_def ret_def)
qed

section \<open>Properties\<close>

text \<open>C11: The size that a candidate plans was itself evaluated. Under the sizing policy the returned decision is the
  engine's decision at exactly the planned size, with only the size and its assessment filled in. The size is
  the one the sizing step chose, or, if that one lost the entry to its cost, one between it and the reference at
  which the engine enters, and no farther below a size that the engine refuses than a sixty-fourth of the
  bracket, rounding included. So an entry respects the impact and edge limits at the size it will order.\<close>

theorem planned_size_was_evaluated:
  assumes "evaluate_baseline_with_size cx f mode reference_size price b = (Inr d, b')"
    and "rnd64 reference_size = reference_size" and "0 < reference_size"
    and "sv_sizing (active_strategy_versions b) = SIZING_POLICY_VERSION"
  shows "\<exists>s sizing c. d = sized_decision s sizing c \<and>
    evaluated cx f mode (risk_limits_of b (Some mode)) (sv_baseline (active_strategy_versions b)) s c \<and>
    (s = sa_selected_size_sol sizing \<or>
     reference_size \<le> s \<and> s \<le> sa_selected_size_sol sizing \<and> de_action c = Enter \<and>
     close_refusal cx f mode (risk_limits_of b (Some mode)) (sv_baseline (active_strategy_versions b))
       reference_size (sa_selected_size_sol sizing) s) \<and>
    (de_action d = Enter \<longrightarrow> price_impact f s \<le> rl_max_price_impact (risk_limits_of b (Some mode)) \<and>
       rl_min_net_edge_index (risk_limits_of b (Some mode)) \<le> sc_net_edge_index (de_score d))"
proof -
  let ?ev = "evaluate_size cx f mode (risk_limits_of b (Some mode)) (sv_baseline (active_strategy_versions b))"
  obtain reference b1 sizing b2 s c where r: "?ev reference_size b = (Inr reference, b1)"
      "plan_entry_size cx reference price b1 = (Inr sizing, b2)"
      "select_size ?ev (sa_selected_size_sol sizing) reference_size reference b2 = (Inr (s, c), b')"
      "d = sized_decision s sizing c"
    using assms(1,4)
    by (auto simp: evaluate_baseline_with_size_def bnd_def gets_def ret_def Let_def split: prod.splits sum.splits if_splits)
  note sel = select_size_InrD [OF r(3) assms(2) plan_size_InrD(1) [OF r(2)] assms(3) plan_size_InrD(2) [OF r(2)]
      evaluate_sizeD [OF r(1)]]
  have "de_action d = de_action c" "sc_net_edge_index (de_score d) = sc_net_edge_index (de_score c)"
    by (simp_all add: r(4) sized_decision_def)
  then show ?thesis
    using sel entered_size [of cx f mode _ _ s c] by (intro exI [of _ s] exI [of _ sizing] exI [of _ c] conjI r(4)) auto
qed

definition sized_broker :: broker where
  "sized_broker = new_broker\<lparr> bk_season_profile := Some
     \<lparr> sp_schema_version = 1, sp_provenance = ''canonical'', sp_risk_mode = Safe, sp_risk_policy_version = ''v'',
       sp_baseline_version = BASELINE_VERSION, sp_integrity_policy_version = INTEGRITY_POLICY_VERSION,
       sp_sizing_policy_version = SIZING_POLICY_VERSION, sp_risk_limits = RISK_LIMITS Safe,
       sp_drawdown_policy = \<lparr> dp_kind = DrawdownDefault, dp_custom_threshold_bps = None \<rparr>,
       sp_effective_drawdown_bps = None, sp_profile_fingerprint = ''p'', sp_learning_fingerprint = None,
       sp_locked_at = None \<rparr> \<rparr>"

lemma sized_snapshot:
  "case snapshot sample_ctx (Some Safe) True
     (sized_broker\<lparr> bk_store := (bk_store sized_broker)\<lparr> st_clock := 1, st_fresh := 1 \<rparr> \<rparr>) of
     (Inl e, b) \<Rightarrow> False
   | (Inr p, b) \<Rightarrow> bk_pending b = [] \<and> bk_initialized b = False \<and> 0 < rl_order_size_sol (risk_limits_of b (Some Safe))"
  by code_simp

lemma sizing_returns:
  assumes "bk_pending b = []" "\<not> bk_initialized b" "0 < rl_order_size_sol (risk_limits_of b (Some (de_risk_mode d)))"
  shows "\<exists>a. sizing_from_portfolio cx b d price p = Inr a"
proof -
  have "reserved_sum cx (bk_quote_currency b) price (pending_buys b) = Inr 0"
    using assms(1) by (simp add: pending_buys_def reserved_sum_def)
  then have bounded: "\<exists>r. bounded_entry_size_sol cx b d x price p = Inr r" for x
    by (simp add: bounded_entry_size_sol_def Let_def)
  define base where "base = planned_size_from_portfolio b (risk_limits_of b (Some (de_risk_mode d))) p price"
  have base: "0 < base" using assms(2,3) by (simp add: base_def planned_size_from_portfolio_def)
  obtain desired reasons where dr: "desired_size b d (risk_limits_of b (Some (de_risk_mode d))) p price base = (desired, reasons)"
    by fastforce
  obtain sel largest cs where r: "bounded_entry_size_sol cx b d desired price p = Inr (sel, largest, cs)"
    using bounded [of desired] by auto
  have min: "0 < max MIN_SIZE_SOL x" for x by (simp add: MIN_SIZE_SOL_def lit_def less_max_iff_disj)
  show ?thesis
    unfolding sizing_from_portfolio_def Let_def base_def [symmetric] dr prod.case r rbind_simps
    by (simp add: sizing_fields_ok_def base min)
qed

theorem planned_size_was_evaluated_witness:
  "\<exists>d b' s sizing c. evaluate_baseline_with_size sample_ctx quiet_features Safe 1 None sized_broker = (Inr d, b') \<and>
     d = sized_decision s sizing c \<and> evaluated sample_ctx quiet_features Safe (RISK_LIMITS Safe) BASELINE_VERSION s c"
proof -
  let ?b1 = "sized_broker\<lparr> bk_store := (bk_store sized_broker)\<lparr> st_clock := 1, st_fresh := 1 \<rparr> \<rparr>"
  define ev where "ev = evaluate_size sample_ctx quiet_features Safe (RISK_LIMITS Safe) BASELINE_VERSION"
  have v: "BASELINE_VERSION \<in> set SUPPORTED_BASELINE_VERSIONS" by (simp add: SUPPORTED_BASELINE_VERSIONS_def)
  have sized: "active_strategy_versions sized_broker = strategy_fingerprint_payload"
    "risk_limits_of sized_broker (Some Safe) = RISK_LIMITS Safe"
    by (simp_all add: active_strategy_versions_def strategy_fingerprint_payload_def sized_broker_def risk_limits_of_def
        selected_mode_def)
  have ev: "\<exists>d. ev x b = (Inr d, b\<lparr> bk_store := (bk_store b)\<lparr> st_clock := st_clock (bk_store b) + 1,
      st_fresh := st_fresh (bk_store b) + 1 \<rparr> \<rparr>) \<and> de_risk_mode d = Safe" for x b
    unfolding ev_def by (rule evaluate_size_total [OF v])
  have "st_clock (bk_store sized_broker) = 0" "st_fresh (bk_store sized_broker) = 0"
    by (simp_all add: sized_broker_def new_broker_def empty_store_def)
  then obtain reference where ref: "ev 1 sized_broker = (Inr reference, ?b1)" "de_risk_mode reference = Safe"
    using ev [of 1 sized_broker] by auto
  obtain p b2 where snap: "snapshot sample_ctx (Some Safe) True ?b1 = (Inr p, b2)" "bk_pending b2 = []" "\<not> bk_initialized b2"
      "0 < rl_order_size_sol (risk_limits_of b2 (Some Safe))"
    using sized_snapshot by (auto split: prod.splits sum.splits)
  then obtain sizing where plan: "plan_entry_size sample_ctx reference None ?b1 = (Inr sizing, b2)"
    using sizing_returns [of b2 reference sample_ctx None p] ref(2)
    by (auto simp: plan_entry_size_def bnd_def gets_def lift_def)
  obtain s c b3 where sel: "select_size ev (sa_selected_size_sol sizing) 1 reference b2 = (Inr (s, c), b3)"
    using select_size_total [of ev] ev by (metis surj_pair)
  have run: "evaluate_baseline_with_size sample_ctx quiet_features Safe 1 None sized_broker = (Inr (sized_decision s sizing c), b3)"
    using ref(1) plan sel
    by (simp add: evaluate_baseline_with_size_def Let_def sized strategy_fingerprint_payload_def ev_def bnd_def gets_def ret_def)
  have "sv_sizing (active_strategy_versions sized_broker) = SIZING_POLICY_VERSION"
    "sv_baseline (active_strategy_versions sized_broker) = BASELINE_VERSION"
    by (simp_all add: sized strategy_fingerprint_payload_def)
  from planned_size_was_evaluated [OF run _ _ this(1)] this run show ?thesis unfolding sized by auto
qed

end
