(* ===== verification/Advisors_Laws.thy ===== *)
theory Advisors_Laws
  imports Advisors
begin

text \<open>
  The laws of the advisors: they only ever veto or resize, a resized entry passes the broker's check of its
  receipt, and the range check that a strongly negative prediction of the entry skill fails.
\<close>

section \<open>Effects of one skill\<close>

text \<open>What the assessment may have done to the decision so far.\<close>

definition tame :: "decision \<Rightarrow> assessing \<Rightarrow> bool" where
  "tame d a \<longleftrightarrow>
     (as_action a = de_action d \<or> as_action a = Pass \<and> de_action d = Enter) \<and>
     (\<exists>more. as_blockers a = de_blockers d @ more)"

lemma tame_unassessed: "tame d (unassessed d)"
  by (simp add: tame_def unassessed_def)

lemma record_receipt_sel [simp]:
  "as_action (record_receipt mo skill applied r a) = as_action a"
  "as_planned_size (record_receipt mo skill applied r a) = as_planned_size a"
  "as_blockers (record_receipt mo skill applied r a) = as_blockers a"
  "as_reasons (record_receipt mo skill applied r a) = as_reasons a"
  "as_assessments (record_receipt mo skill applied r a) =
     AList.update (skill_value skill) (mo_dump_receipt mo r) (as_assessments a)"
  "as_applied_versions (record_receipt mo skill applied r a) =
     (if applied then as_applied_versions a @ [sz_artifact_version r] else as_applied_versions a)"
  by (simp_all add: record_receipt_def)

lemma skill_receipt_InrD:
  assumes "skill_receipt mo d artifact fs p proposed applied actionable extra = Inr r"
  shows "sz_artifact_version r = sk_version artifact" "sz_skill r = sk_skill artifact"
    "sz_in_distribution r = mo_in_support mo artifact fs" "sz_proposed_action r = proposed"
    "sz_baseline_actionable r = actionable"
    "sz_parameters r = merged (merged (merged [(''applied'', Some (SBool applied))]
       (mo_support_evidence mo artifact fs (mo_in_support mo artifact fs))) (mo_policy_origin mo d)) extra"
  using assms by (auto simp: skill_receipt_def Let_def split: if_splits)

lemma veto_skill:
  assumes "assess_veto_skill mo d actionable fs skill artifact a = Inr a'" and "tame d a"
  shows "tame d a' \<and> as_planned_size a' = as_planned_size a \<and>
    (\<exists>payload. as_assessments a' = AList.update (skill_value skill) payload (as_assessments a)) \<and>
    set (as_applied_versions a') \<subseteq> insert (sk_version artifact) (set (as_applied_versions a))"
proof -
  obtain a2 r applied where r: "a' = record_receipt mo skill applied r a2" "sz_artifact_version r = sk_version artifact"
      "as_planned_size a2 = as_planned_size a" "as_assessments a2 = as_assessments a"
      "as_applied_versions a2 = as_applied_versions a"
      "as_action a2 = as_action a \<and> as_blockers a2 = as_blockers a \<or>
       as_action a = Enter \<and> as_action a2 = Pass \<and> (\<exists>b. as_blockers a2 = as_blockers a @ [b])"
    using assms(1) unfolding assess_veto_skill_def Let_def
    by (auto simp: rbind_eq_Inr dest: skill_receipt_InrD split: if_splits)
  then show ?thesis using assms(2) by (auto simp: tame_def)
qed

definition sized_by :: "decision \<Rightarrow> bool \<Rightarrow> pyfloat \<Rightarrow> pyfloat \<Rightarrow> bool" where
  "sized_by d actionable size_sol m \<longleftrightarrow>
     m \<in> set SIZING_MULTIPLIERS \<and> m \<noteq> 1 \<and> de_action d = Enter \<and> actionable \<and>
     (1 < m \<longrightarrow> (\<exists>i. de_integrity_assessment d = Some i \<and> ia_state i = Clean) \<and>
        (\<forall>sizing largest. de_sizing_assessment d = Some sizing \<and> sa_maximum_size_sol sizing = Some largest \<longrightarrow>
           fmul size_sol m \<le> fadd largest (lit 1 1000000000)))"

lemma nearer_choice: "nearer v a b = a \<or> nearer v a b = b"
  by (simp add: nearer_def Let_def)

lemma nearest_in: "nearest_size_multiplier v \<in> set SIZING_MULTIPLIERS"
proof -
  have "fold (nearer v) xs b \<in> insert b (set xs)" for xs b
  proof (induction xs arbitrary: b)
    case (Cons x xs)
    have "fold (nearer v) (x # xs) b = fold (nearer v) xs (nearer v x b)" by simp
    then show ?case using nearer_choice [of v x b] Cons.IH [of "nearer v x b"] by (metis insert_iff list.simps(15))
  qed simp
  from this [of "tl SIZING_MULTIPLIERS" "hd SIZING_MULTIPLIERS"]
  show ?thesis by (auto simp: nearest_size_multiplier_def SIZING_MULTIPLIERS_def)
qed

lemma selected_in:
  assumes "selected_multiplier d planned p supported = (m, proposed)"
  shows "m \<in> set SIZING_MULTIPLIERS \<and> (m \<noteq> 1 \<longrightarrow> proposed = size_trial_key m) \<and>
    (1 < m \<longrightarrow> (\<exists>i. de_integrity_assessment d = Some i \<and> ia_state i = Clean) \<and>
       (\<forall>size_sol sizing largest. planned = Some size_sol \<and> de_sizing_assessment d = Some sizing \<and>
          sa_maximum_size_sol sizing = Some largest \<longrightarrow> fmul size_sol m \<le> fadd largest (lit 1 1000000000)))"
proof -
  have "1 \<in> set SIZING_MULTIPLIERS" by (simp add: SIZING_MULTIPLIERS_def)
  then show ?thesis
    using assms nearest_in unfolding selected_multiplier_def Let_def
    by (cases p) (auto split: if_splits option.splits simp: not_less)
qed

lemma sizing_skill:
  assumes "assess_sizing_skill mo d actionable fs artifact a = Inr a'" and "tame d a"
    and "as_planned_size a = de_planned_order_size_sol d"
  shows "\<exists>applied m r proposed. a' = record_receipt mo SkSizing applied r
      (a\<lparr> as_planned_size := as_planned_size a', as_reasons := as_reasons a' \<rparr>) \<and>
    skill_receipt mo d artifact fs (mo_predict mo artifact fs) proposed applied actionable
      [(''selected_multiplier'', Some (SFloat m)),
       (''baseline_size_sol'', Some (SFloat (value_or_zero (de_planned_order_size_sol d))))] = Inr r \<and>
    (if applied then \<exists>size_sol. de_planned_order_size_sol d = Some size_sol \<and>
        as_planned_size a' = Some (fmul size_sol m) \<and> sized_by d actionable size_sol m \<and>
        mo_in_support mo artifact fs \<and> proposed = size_trial_key m
     else as_planned_size a' = de_planned_order_size_sol d)"
proof -
  obtain m proposed where mp: "selected_multiplier d (as_planned_size a) (mo_predict mo artifact fs) (mo_in_support mo artifact fs) = (m, proposed)"
    by fastforce
  define applied where "applied \<longleftrightarrow> as_action a = Enter \<and> actionable \<and> mo_in_support mo artifact fs \<and> as_planned_size a \<noteq> None \<and> m \<noteq> 1"
  define a1 where "a1 = (if applied then a\<lparr> as_planned_size := map_option (\<lambda>size_sol. fmul size_sol m) (as_planned_size a),
     as_reasons := as_reasons a @ [''The qualified Challenger sizing skill selected '' @ size_trial_key m @ ''x''] \<rparr> else a)"
  obtain r where r: "skill_receipt mo d artifact fs (mo_predict mo artifact fs) proposed applied actionable
      [(''selected_multiplier'', Some (SFloat m)),
       (''baseline_size_sol'', Some (SFloat (value_or_zero (de_planned_order_size_sol d))))] = Inr r"
      "a' = record_receipt mo SkSizing applied r a1"
    using assms(1) unfolding assess_sizing_skill_def Let_def mp prod.case applied_def [symmetric] a1_def rbind_eq_Inr
    by (elim exE conjE) (rule that, assumption, simp add: a1_def)
  have a1: "a1 = a\<lparr> as_planned_size := as_planned_size a1, as_reasons := as_reasons a1 \<rparr>"
    by (simp add: a1_def)
  have a': "a' = record_receipt mo SkSizing applied r (a\<lparr> as_planned_size := as_planned_size a', as_reasons := as_reasons a' \<rparr>)"
    unfolding r(2) record_receipt_sel using a1 by simp
  have "if applied then \<exists>size_sol. de_planned_order_size_sol d = Some size_sol \<and>
        as_planned_size a' = Some (fmul size_sol m) \<and> sized_by d actionable size_sol m \<and>
        mo_in_support mo artifact fs \<and> proposed = size_trial_key m
     else as_planned_size a' = de_planned_order_size_sol d"
  proof (cases applied)
    case True
    then obtain s where s: "de_planned_order_size_sol d = Some s" "as_action a = Enter" "actionable" "m \<noteq> 1"
        "mo_in_support mo artifact fs"
      using assms(3) by (auto simp: applied_def)
    then have "de_action d = Enter" using assms(2) by (auto simp: tame_def)
    then have "sized_by d actionable s m" "proposed = size_trial_key m"
      using selected_in [OF mp] s assms(3) unfolding sized_by_def by simp_all blast
    then show ?thesis using s assms(3) True by (simp add: r(2) a1_def)
  next
    case False
    then show ?thesis using assms(3) by (simp add: r(2) a1_def)
  qed
  then show ?thesis by (intro exI conjI) (rule a', rule r(1))
qed

lemma in_force_artifact: "artifact_in_force mo lr d skill = Some artifact \<Longrightarrow>
    artifact \<in> snd ` set (ln_skill_artifacts lr) \<and> sk_skill artifact = skill"
  by (auto simp: artifact_in_force_def Let_def split: option.splits if_splits dest: map_of_SomeD intro: rev_image_eqI)

text \<open>A step of one of the two veto skills.\<close>

definition quiet_step :: "learner \<Rightarrow> decision \<Rightarrow> assessing \<Rightarrow> assessing \<Rightarrow> bool" where
  "quiet_step lr d a a' \<longleftrightarrow> tame d a' \<and> as_planned_size a' = as_planned_size a \<and>
     (map_of (as_assessments a') ''sizing'' = map_of (as_assessments a) ''sizing'') \<and>
     set (as_applied_versions a') \<subseteq> sk_version ` snd ` set (ln_skill_artifacts lr) \<union> set (as_applied_versions a)"

lemma veto_step:
  assumes "assess_skill mo lr d actionable fs skill a = Inr a'" and "tame d a" and "skill \<noteq> SkSizing"
  shows "quiet_step lr d a a'"
proof (cases "artifact_in_force mo lr d skill")
  case None
  then show ?thesis using assms by (auto simp: assess_skill_def quiet_step_def)
next
  case (Some artifact)
  then have "assess_veto_skill mo d actionable fs skill artifact a = Inr a'"
    using assms by (simp add: assess_skill_def)
  note run = this
  have "skill_value skill \<noteq> ''sizing''" using assms(3) by (cases skill) simp_all
  then show ?thesis
    using veto_skill [OF run assms(2)] in_force_artifact [OF Some] unfolding quiet_step_def
    by (auto simp: update_conv' intro: rev_image_eqI)
qed

text \<open>The whole assessment of the active skills.\<close>

lemma skills_InrD:
  assumes "assess_active_skills mo lr d actionable = Inr d'"
  shows "d' = d \<or> (\<exists>fs a2 a3. tame d a2 \<and> as_planned_size a2 = de_planned_order_size_sol d \<and>
    map_of (as_assessments a2) ''sizing'' = None \<and>
    set (as_applied_versions a2) \<subseteq> sk_version ` snd ` set (ln_skill_artifacts lr) \<and>
    assess_skill mo lr d actionable fs SkSizing a2 = Inr a3 \<and> d' = assessed_decision d a3)"
proof (cases "feature_vector mo d")
  case None
  then show ?thesis using assms by (simp add: assess_active_skills_def)
next
  case (Some fs)
  obtain a1 a2 a3 where a: "assess_skill mo lr d actionable fs SkEntry (unassessed d) = Inr a1"
      "assess_skill mo lr d actionable fs SkManipulation a1 = Inr a2"
      "assess_skill mo lr d actionable fs SkSizing a2 = Inr a3" "d' = assessed_decision d a3"
    using assms by (auto simp: assess_active_skills_def Some rbind_eq_Inr)
  have q1: "quiet_step lr d (unassessed d) a1" by (rule veto_step [OF a(1) tame_unassessed]) simp
  then have "tame d a1" by (simp add: quiet_step_def)
  then have q2: "quiet_step lr d a1 a2" by (intro veto_step [OF a(2)]) simp_all
  show ?thesis
    using q1 q2 a(3,4) unfolding quiet_step_def
    by (intro disjI2 exI [of _ fs] exI [of _ a2] exI [of _ a3]) (auto simp: unassessed_def)
qed

definition advised :: "decision \<Rightarrow> decision \<Rightarrow> bool" where
  "advised d d' \<longleftrightarrow>
     d' = d\<lparr> de_action := de_action d', de_reasons := de_reasons d', de_blockers := de_blockers d',
            de_planned_order_size_sol := de_planned_order_size_sol d', de_model_version := de_model_version d',
            de_learning_assessment := de_learning_assessment d',
            de_challenger_assessments := de_challenger_assessments d' \<rparr> \<and>
     (de_action d' = de_action d \<or> de_action d' = Pass \<and> de_action d = Enter) \<and>
     (\<exists>more. de_blockers d' = de_blockers d @ more)"

lemma advised_refl: "advised d d"
  by (simp add: advised_def)

lemma skills_advise:
  assumes "assess_active_skills mo lr d actionable = Inr d'"
  shows "advised d d' \<and> (de_planned_order_size_sol d' = de_planned_order_size_sol d \<or>
    (\<exists>s m. de_planned_order_size_sol d = Some s \<and> de_planned_order_size_sol d' = Some (fmul s m) \<and> sized_by d actionable s m))"
  using skills_InrD [OF assms]
proof (elim disjE exE conjE)
  assume "d' = d" then show ?thesis by (simp add: advised_refl)
next
  fix fs a2 a3
  assume t: "tame d a2" "as_planned_size a2 = de_planned_order_size_sol d"
    and s: "assess_skill mo lr d actionable fs SkSizing a2 = Inr a3" and d': "d' = assessed_decision d a3"
  have adv: "advised d d'" if "tame d a3" using that by (auto simp: d' advised_def assessed_decision_def tame_def)
  show ?thesis
  proof (cases "artifact_in_force mo lr d SkSizing")
    case None
    then show ?thesis using s t adv by (auto simp: assess_skill_def d' assessed_decision_def)
  next
    case (Some artifact)
    then have "assess_sizing_skill mo d actionable fs artifact a2 = Inr a3" using s by (simp add: assess_skill_def)
    from sizing_skill [OF this t] show ?thesis
    proof (elim exE conjE)
      fix applied m r proposed
      assume r: "a3 = record_receipt mo SkSizing applied r (a2\<lparr> as_planned_size := as_planned_size a3, as_reasons := as_reasons a3 \<rparr>)"
        and p: "if applied then \<exists>size_sol. de_planned_order_size_sol d = Some size_sol \<and>
            as_planned_size a3 = Some (fmul size_sol m) \<and> sized_by d actionable size_sol m \<and>
            mo_in_support mo artifact fs \<and> proposed = size_trial_key m
          else as_planned_size a3 = de_planned_order_size_sol d"
      have "as_action a3 = as_action a2" "as_blockers a3 = as_blockers a2" by (subst r, simp)+
      then have "tame d a3" using t by (simp add: tame_def)
      then show ?thesis using adv p by (auto simp: d' assessed_decision_def split: if_splits)
    qed
  qed
qed

lemma model_advises:
  "assess_model mo lr d live actionable = Inr d' \<Longrightarrow>
   advised d d' \<and> de_planned_order_size_sol d' = de_planned_order_size_sol d \<and>
   de_challenger_assessments d' = de_challenger_assessments d"
  by (auto simp: assess_model_def Let_def apply_model_def advised_def split: option.splits if_splits)

lemma assess_advises:
  assumes "assess mo lr d live actionable = Inr d'"
  shows "advised d d' \<and> (de_planned_order_size_sol d' = de_planned_order_size_sol d \<or>
    (\<exists>s m. de_planned_order_size_sol d = Some s \<and> de_planned_order_size_sol d' = Some (fmul s m) \<and> sized_by d actionable s m))"
  using assms skills_advise model_advises by (fastforce simp: assess_def split: if_splits)

lemma guarded_advises:
  "advised d (assess_guarded cr d) \<and> de_planned_order_size_sol (assess_guarded cr d) = de_planned_order_size_sol d \<and>
   de_challenger_assessments (assess_guarded cr d) = de_challenger_assessments d"
  by (auto simp: assess_guarded_def advised_def split: option.splits)

lemma advised_trans:
  assumes "advised a b" and "advised b c"
  shows "advised a c"
proof -
  have b: "b = a\<lparr> de_action := de_action b, de_reasons := de_reasons b, de_blockers := de_blockers b,
            de_planned_order_size_sol := de_planned_order_size_sol b, de_model_version := de_model_version b,
            de_learning_assessment := de_learning_assessment b,
            de_challenger_assessments := de_challenger_assessments b \<rparr>"
    and c: "c = b\<lparr> de_action := de_action c, de_reasons := de_reasons c, de_blockers := de_blockers c,
            de_planned_order_size_sol := de_planned_order_size_sol c, de_model_version := de_model_version c,
            de_learning_assessment := de_learning_assessment c,
            de_challenger_assessments := de_challenger_assessments c \<rparr>"
    using assms by (simp_all add: advised_def)
  have "c = a\<lparr> de_action := de_action c, de_reasons := de_reasons c, de_blockers := de_blockers c,
            de_planned_order_size_sol := de_planned_order_size_sol c, de_model_version := de_model_version c,
            de_learning_assessment := de_learning_assessment c,
            de_challenger_assessments := de_challenger_assessments c \<rparr>"
    by (subst c, subst b) simp
  then show ?thesis using assms unfolding advised_def by auto
qed

section \<open>The receipt of a resized entry\<close>

lemma split_on_plain: "c \<notin> set s \<Longrightarrow> split_on c s = [s]"
  by (induction s) auto

lemma split_on_append: "c \<notin> set s \<Longrightarrow> split_on c (s @ c # t) = s # split_on c t"
  by (induction s) auto

lemma split_joined:
  assumes "CHR ''+'' \<notin> set version" and "\<forall>v \<in> set applied. CHR ''+'' \<notin> set v"
  shows "split_on CHR ''+'' (joined_version version applied) = version # applied"
  using assms
proof (induction applied arbitrary: version)
  case Nil
  then show ?case by (simp add: joined_version_def split_on_plain)
next
  case (Cons v applied)
  have "joined_version version (v # applied) = version @ CHR ''+'' # joined_version v applied"
    by (simp add: joined_version_def)
  then show ?case using Cons by (simp add: split_on_append)
qed

lemma merged_lookup: "map_of (merged a b) k = (map_of a ++ map_of (rev b)) k"
proof -
  have "map_of (fold (\<lambda>(k, v) d. AList.update k v d) b a) = map_of a ++ map_of (rev b)"
    by (induction b arbitrary: a) (auto simp: update_conv' map_add_def fun_eq_iff split: option.splits)
  then show ?thesis by (simp add: merged_def)
qed

lemma merged_other: "k \<notin> fst ` set b \<Longrightarrow> map_of (merged a b) k = map_of a k"
  unfolding merged_lookup by (simp add: map_add_dom_app_simps(3) dom_map_of_conv_image_fst)

definition applied_key_free :: "models \<Rightarrow> bool" where
  "applied_key_free mo \<longleftrightarrow>
     (\<forall>artifact fs b. ''applied'' \<notin> fst ` set (mo_support_evidence mo artifact fs b)) \<and>
     (\<forall>d. ''applied'' \<notin> fst ` set (mo_policy_origin mo d))"

lemma sizing_receipt_parameters:
  assumes r: "skill_receipt mo d artifact fs p proposed applied actionable
      [(''selected_multiplier'', Some (SFloat m)), (''baseline_size_sol'', Some (SFloat base))] = Inr r"
    and free: "applied_key_free mo"
  shows "parameter (sizing_receipt.truncate r) ''applied'' = Some (SBool applied)"
    "scalar_number (parameter (sizing_receipt.truncate r) ''selected_multiplier'') = Some m"
    "scalar_number (parameter (sizing_receipt.truncate r) ''baseline_size_sol'') = Some base"
  using free unfolding parameter_def sizing_receipt.truncate_def
  by (simp_all add: skill_receipt_InrD(6) [OF r] applied_key_free_def merged_other)
     (simp_all add: merged_lookup)

lemma multiplier_key: "m \<in> set SIZING_MULTIPLIERS \<Longrightarrow> m \<noteq> 1 \<Longrightarrow>
    m \<in> set (map fst MULTIPLIERS) \<and> map_of MULTIPLIERS m = Some (size_trial_key m)"
proof -
  have "lit 1 2 = 1 / 2" "lit 3 2 = 3 / 2" by code_simp+
  then show "m \<in> set SIZING_MULTIPLIERS \<Longrightarrow> m \<noteq> 1 \<Longrightarrow>
    m \<in> set (map fst MULTIPLIERS) \<and> map_of MULTIPLIERS m = Some (size_trial_key m)"
    by (auto simp: SIZING_MULTIPLIERS_def MULTIPLIERS_def size_trial_key_def)
qed

lemma receipt_accepts:
  assumes r: "skill_receipt mo d artifact fs p (size_trial_key m) True True
      [(''selected_multiplier'', Some (SFloat m)), (''baseline_size_sol'', Some (SFloat (sa_selected_size_sol sizing)))] = Inr r"
    and free: "applied_key_free mo" and m: "m \<in> set SIZING_MULTIPLIERS" "m \<noteq> 1" and sup: "mo_in_support mo artifact fs"
    and v: "sk_version artifact \<in> set (tl (split_on CHR ''+'' (de_model_version d')))"
  shows "receipt_multiplier d' sizing (sizing_receipt.truncate r) = Some m"
proof -
  have "\<not> lit 1 1000000000 < \<bar>fsub (sa_selected_size_sol sizing) (sa_selected_size_sol sizing)\<bar>"
    by (simp add: fsub_def lit_def not_less)
  then show ?thesis
    using multiplier_key [OF m] sizing_receipt_parameters [OF r free] skill_receipt_InrD [OF r] sup v
    by (simp add: receipt_multiplier_def sizing_receipt.truncate_def)
qed

text \<open>What one reads of a receipt is what was written.\<close>

definition receipts_read_back :: "env \<Rightarrow> models \<Rightarrow> bool" where
  "receipts_read_back env mo \<longleftrightarrow>
     (\<forall>r. mo_dump_receipt mo r \<noteq> JNull \<and> en_parse_receipt env (mo_dump_receipt mo r) = Some (sizing_receipt.truncate r))"

lemma skills_receipt:
  assumes run: "assess_active_skills mo lr d actionable = Inr d'"
    and laws: "receipts_read_back env mo" "applied_key_free mo"
    and d: "de_planned_order_size_sol d = Some (sa_selected_size_sol sizing)" "de_integrity_assessment d = Some integrity"
      "de_challenger_assessments d = []" "CHR ''+'' \<notin> set (de_model_version d)"
    and versions: "\<forall>v \<in> sk_version ` snd ` set (ln_skill_artifacts lr). CHR ''+'' \<notin> set v"
  shows "\<exists>p. de_planned_order_size_sol d' = Some p \<and> expected_size env d' sizing integrity = Inr p"
  using skills_InrD [OF run]
proof (elim disjE exE conjE)
  assume "d' = d" then show ?thesis using d by (simp add: expected_size_def)
next
  fix fs a2 a3
  assume t: "tame d a2" "as_planned_size a2 = de_planned_order_size_sol d"
    and no: "map_of (as_assessments a2) ''sizing'' = None"
    and vs: "set (as_applied_versions a2) \<subseteq> sk_version ` snd ` set (ln_skill_artifacts lr)"
    and s: "assess_skill mo lr d actionable fs SkSizing a2 = Inr a3" and d': "d' = assessed_decision d a3"
  show ?thesis
  proof (cases "artifact_in_force mo lr d SkSizing")
    case None
    then show ?thesis using s t d no by (simp add: assess_skill_def d' assessed_decision_def expected_size_def)
  next
    case (Some artifact)
    then have "assess_sizing_skill mo d actionable fs artifact a2 = Inr a3" using s by (simp add: assess_skill_def)
    from sizing_skill [OF this t] show ?thesis
    proof (elim exE conjE)
      fix applied m r proposed
      assume a3: "a3 = record_receipt mo SkSizing applied r (a2\<lparr> as_planned_size := as_planned_size a3, as_reasons := as_reasons a3 \<rparr>)"
        and r: "skill_receipt mo d artifact fs (mo_predict mo artifact fs) proposed applied actionable
          [(''selected_multiplier'', Some (SFloat m)),
           (''baseline_size_sol'', Some (SFloat (value_or_zero (de_planned_order_size_sol d))))] = Inr r"
        and p: "if applied then \<exists>size_sol. de_planned_order_size_sol d = Some size_sol \<and>
            as_planned_size a3 = Some (fmul size_sol m) \<and> sized_by d actionable size_sol m \<and>
            mo_in_support mo artifact fs \<and> proposed = size_trial_key m
          else as_planned_size a3 = de_planned_order_size_sol d"
      have r': "skill_receipt mo d artifact fs (mo_predict mo artifact fs) proposed applied actionable
          [(''selected_multiplier'', Some (SFloat m)), (''baseline_size_sol'', Some (SFloat (sa_selected_size_sol sizing)))] = Inr r"
        using r d(1) by (simp add: value_or_zero_def)
      have "as_assessments a3 = AList.update ''sizing'' (mo_dump_receipt mo r) (as_assessments a2)" by (subst a3) simp
      then have payload: "map_of (de_challenger_assessments d') ''sizing'' = Some (mo_dump_receipt mo r)"
        by (simp add: d' assessed_decision_def update_conv')
      have read: "expected_size env d' sizing integrity =
        (if sz_skill r \<noteq> SkSizing then Inl ''challenger_sizing_receipt_invalid''
         else if parameter (sizing_receipt.truncate r) ''applied'' \<noteq> Some (SBool True) then Inr (sa_selected_size_sol sizing)
         else (case receipt_multiplier d' sizing (sizing_receipt.truncate r) of
                 None \<Rightarrow> Inl ''challenger_sizing_receipt_invalid''
               | Some m \<Rightarrow> if 1 < m \<and> ia_state integrity \<noteq> Clean then Inl ''challenger_sizing_integrity_guard_failed''
                           else Inr (fmul (sa_selected_size_sol sizing) m)))"
      proof -
        have "mo_dump_receipt mo r \<noteq> JNull" "en_parse_receipt env (mo_dump_receipt mo r) = Some (sizing_receipt.truncate r)"
          using laws(1) unfolding receipts_read_back_def by blast+
        moreover have "sz_skill (sizing_receipt.truncate r) = sz_skill r" by (simp add: sizing_receipt.truncate_def)
        ultimately show ?thesis
          using payload unfolding expected_size_def by (cases "mo_dump_receipt mo r") simp_all
      qed
      have skill: "sz_skill r = SkSizing" using skill_receipt_InrD(2) [OF r] in_force_artifact [OF Some] by simp
      show ?thesis
      proof (cases applied)
        case True
        then obtain s where m: "as_planned_size a3 = Some (fmul (sa_selected_size_sol sizing) m)"
            "sized_by d actionable s m" "mo_in_support mo artifact fs" "proposed = size_trial_key m"
          using p d(1) by auto
        then have act: actionable "m \<in> set SIZING_MULTIPLIERS" "m \<noteq> 1" "1 < m \<longrightarrow> ia_state integrity = Clean"
          using d(2) by (auto simp: sized_by_def)
        have "as_applied_versions a3 = as_applied_versions a2 @ [sk_version artifact]"
          by (subst a3) (simp add: True skill_receipt_InrD(1) [OF r])
        moreover have "\<forall>v \<in> set (as_applied_versions a2 @ [sk_version artifact]). CHR ''+'' \<notin> set v"
          using vs versions in_force_artifact [OF Some] by auto
        ultimately have "sk_version artifact \<in> set (tl (split_on CHR ''+'' (de_model_version d')))"
          using split_joined [OF d(4)] by (simp add: d' assessed_decision_def)
        from receipt_accepts [OF _ laws(2) act(2,3) m(3) this, of d "mo_predict mo artifact fs" sizing r] r' True m(4) act(1)
        have "receipt_multiplier d' sizing (sizing_receipt.truncate r) = Some m" by simp
        then show ?thesis
          using read skill sizing_receipt_parameters(1) [OF r' laws(2)] True act(4) m(1)
          by (simp add: d' assessed_decision_def)
      next
        case False
        then show ?thesis
          using read skill sizing_receipt_parameters(1) [OF r' laws(2)] p d(1)
          by (simp add: d' assessed_decision_def)
      qed
    qed
  qed
qed

section \<open>Properties\<close>

text \<open>C6: The Challenger's skills, the earlier single model and the guarded critic can only veto an entry or resize
  it. Whatever they are and predict, the decision that comes back differs from the engine's only in its action,
  blockers, reasons, planned size and provenance; its action is the engine's or a veto of its entry; no blocker
  is dropped; and a changed size is the planned one times one of the fixed multipliers, larger only on clean
  integrity evidence and within the account's maximum.\<close>

theorem advisors_only_veto_or_resize:
  assumes "assess mo lr d live actionable = Inr d1" and "d' = assess_guarded cr d1"
  shows "d' = d\<lparr> de_action := de_action d', de_reasons := de_reasons d', de_blockers := de_blockers d',
            de_planned_order_size_sol := de_planned_order_size_sol d', de_model_version := de_model_version d',
            de_learning_assessment := de_learning_assessment d',
            de_challenger_assessments := de_challenger_assessments d' \<rparr> \<and>
    (de_action d' = de_action d \<or> de_action d' = Pass \<and> de_action d = Enter) \<and>
    (\<exists>more. de_blockers d' = de_blockers d @ more) \<and>
    (de_planned_order_size_sol d' = de_planned_order_size_sol d \<or>
     (\<exists>s m. de_planned_order_size_sol d = Some s \<and> de_planned_order_size_sol d' = Some (fmul s m) \<and>
        sized_by d actionable s m))"
  using advised_trans [OF conjunct1 [OF assess_advises [OF assms(1)]] conjunct1 [OF guarded_advises [of d1 cr]]]
    assess_advises [OF assms(1)] guarded_advises [of d1 cr]
  unfolding advised_def assms(2) by simp

text \<open>Concrete models: a dump that can be read back, and a sizing skill that asks for twice the size.\<close>

fun param_json :: "scalar option \<Rightarrow> json" where
  "param_json None = JNull"
| "param_json (Some (SFloat x)) = JFloat x"
| "param_json (Some (SInt n)) = JInt n"
| "param_json (Some (SStr s)) = JStr s"
| "param_json (Some (SBool b)) = JBool b"

fun json_param :: "json \<Rightarrow> scalar option" where
  "json_param (JFloat x) = Some (SFloat x)"
| "json_param (JInt n) = Some (SInt n)"
| "json_param (JStr s) = Some (SStr s)"
| "json_param (JBool b) = Some (SBool b)"
| "json_param _ = None"

definition skill_of :: "string \<Rightarrow> challenger_skill" where
  "skill_of s = (if s = ''entry'' then SkEntry else if s = ''manipulation'' then SkManipulation
     else if s = ''sizing'' then SkSizing else SkExit)"

definition dump_receipt :: "evaluation_receipt \<Rightarrow> json" where
  "dump_receipt r = JList [JStr (sz_artifact_version r), JStr (skill_value (sz_skill r)), JBool (sz_in_distribution r),
     JStr (sz_proposed_action r), JBool (sz_baseline_actionable r),
     JObj (map (\<lambda>(k, x). (k, param_json x)) (sz_parameters r))]"

definition text_in :: "json \<Rightarrow> string" where "text_in j = (case j of JStr s \<Rightarrow> s | _ \<Rightarrow> [])"
definition flag_in :: "json \<Rightarrow> bool" where "flag_in j = (case j of JBool b \<Rightarrow> b | _ \<Rightarrow> False)"
definition fields_in :: "json \<Rightarrow> (string \<times> json) list" where "fields_in j = (case j of JObj fs \<Rightarrow> fs | _ \<Rightarrow> [])"

definition parse_receipt :: "json \<Rightarrow> sizing_receipt option" where
  "parse_receipt j =
     (case j of
        JList xs \<Rightarrow>
          if length xs = 6
          then Some \<lparr> sz_artifact_version = text_in (xs ! 0), sz_skill = skill_of (text_in (xs ! 1)),
                 sz_in_distribution = flag_in (xs ! 2), sz_proposed_action = text_in (xs ! 3),
                 sz_baseline_actionable = flag_in (xs ! 4),
                 sz_parameters = map (\<lambda>(k, x). (k, json_param x)) (fields_in (xs ! 5)) \<rparr>
          else None
      | _ \<Rightarrow> None)"

lemma json_param_inverse [simp]: "json_param (param_json x) = x"
  by (cases x rule: param_json.cases) simp_all

lemma skill_of_value [simp]: "skill_of (skill_value s) = s"
  by (cases s) (simp_all add: skill_of_def)

definition doubling_models :: models where
  "doubling_models = \<lparr> mo_log1p = id, mo_log = of_int, mo_predict = (\<lambda>artifact fs. Some (if sk_skill artifact = SkSizing then 2 else - 1)),
     mo_in_support = (\<lambda>_ _. True), mo_eligible = (\<lambda>_. True), mo_support_evidence = (\<lambda>_ _ _. []),
     mo_policy_origin = (\<lambda>_. []), mo_dump_receipt = dump_receipt, mo_shape_valid = (\<lambda>_. True),
     mo_model_predict = (\<lambda>_ _. 0), mo_model_support = (\<lambda>_ _. True), mo_validation_current = (\<lambda>_. True) \<rparr>"

definition sample_artifact :: "string \<Rightarrow> challenger_skill \<Rightarrow> skill_artifact" where
  "sample_artifact version skill = \<lparr> sk_version = version, sk_skill = skill, sk_risk_mode = Safe,
     sk_configuration_fingerprint = ''c'', sk_baseline_version = BASELINE_VERSION, sk_validation_rmse = lit 3 10 \<rparr>"

definition sample_learner :: "challenger_skill \<Rightarrow> learner" where
  "sample_learner skill = \<lparr> ln_mode_active = True, ln_active_skill_versions = [(skill_value skill, ''s1'')],
     ln_skill_artifacts = [(''s1'', sample_artifact ''s1'' skill)],
     ln_skill_states = [(skill, \<lparr> ss_active_version = Some ''s1'', ss_suspended_version = None, ss_active_dependencies = [] \<rparr>)],
     ln_models = [], ln_active_model = None \<rparr>"

definition clean_assessment :: integrity_assessment where
  "clean_assessment = \<lparr> ia_policy_version = INTEGRITY_POLICY_VERSION, ia_state = Clean, ia_score = 0, ia_coverage = 1,
     ia_sample_count = 30, ia_category_count = 0, ia_categories = [], ia_evidence = [] \<rparr>"

definition sample_sizing :: sizing_assessment where
  "sample_sizing = \<lparr> sa_policy_version = SIZING_POLICY_VERSION, sa_base_size_sol = 1, sa_desired_size_sol = 1,
     sa_selected_size_sol = 1, sa_maximum_size_sol = Some 4, sa_account_allocation_fraction = 0,
     sa_constraints = [], sa_reasons = [] \<rparr>"

definition clean_entry :: decision where
  "clean_entry = \<lparr> de_decision_id = ''d'', de_mint = ''m'', de_symbol = ''M'', de_created_at = 0, de_action = Enter,
     de_risk_mode = Safe,
     de_score = \<lparr> sc_opportunity = 1, sc_danger = 0, sc_execution = 1, sc_confidence = 1, sc_net_edge_index = 1, sc_composite = 100 \<rparr>,
     de_reasons = [], de_blockers = [],
     de_feature_snapshot = quiet_features\<lparr> fs_values := map (\<lambda>name. (name,
       \<lparr> dv_value = Some (SFloat 0), dv_unit = ''ratio'', dv_as_of = 0, dv_sources = [], dv_freshness_seconds = 0,
         dv_quality = 1, dv_missing_reason = None \<rparr>)) INTEGRITY_FEATURE_NAMES \<rparr>,
     de_model_version = BASELINE_VERSION, de_planned_order_size_sol = Some 1,
     de_integrity_assessment = Some clean_assessment, de_sizing_assessment = Some sample_sizing,
     de_learning_assessment = None, de_challenger_assessments = [], de_season_id = None,
     de_season_profile_fingerprint = None, de_configuration_fingerprint = Some ''c'' \<rparr>"

lemma doubled: "\<exists>d'. assess doubling_models (sample_learner SkSizing) clean_entry True True = Inr d' \<and>
    de_planned_order_size_sol d' = Some 2 \<and> de_action d' = Enter"
proof -
  have "case assess doubling_models (sample_learner SkSizing) clean_entry True True of
      Inl e \<Rightarrow> False | Inr d' \<Rightarrow> de_planned_order_size_sol d' = Some 2 \<and> de_action d' = Enter" by code_simp
  then show ?thesis by (auto split: sum.splits)
qed

definition vetoing_critic :: critic where
  "vetoing_critic = \<lparr> cr_paused = False, cr_guarded = True, cr_qualified = True,
     cr_judge = (\<lambda>_. Some \<lparr> cv_valid = True, cv_veto = True, cv_high_confidence = True \<rparr>) \<rparr>"

theorem advisors_only_veto_or_resize_witness:
  "\<exists>d'. de_action (assess_guarded vetoing_critic d') = Pass \<and>
     assess doubling_models (sample_learner SkSizing) clean_entry True True = Inr d' \<and>
     (de_planned_order_size_sol d' = Some 1 \<or>
      (\<exists>m. de_planned_order_size_sol d' = Some (fmul 1 m) \<and> sized_by clean_entry True 1 m))"
proof -
  obtain d' where d': "assess doubling_models (sample_learner SkSizing) clean_entry True True = Inr d'" "de_action d' = Enter"
    using doubled by blast
  have "de_planned_order_size_sol clean_entry = Some 1" by (simp add: clean_entry_def)
  moreover have "de_action (assess_guarded vetoing_critic d') = Pass"
    "de_planned_order_size_sol (assess_guarded vetoing_critic d') = de_planned_order_size_sol d'"
    using d'(2) by (simp_all add: assess_guarded_def vetoing_critic_def)
  ultimately show ?thesis
    using advisors_only_veto_or_resize [OF d'(1) refl, of vetoing_critic] d'(1) by auto
qed

text \<open>C38: A size that the Challenger writes passes the broker's check of it. If the planned size of the engine's
  decision is the one of its sizing assessment, then, whatever the skills do, the size that the broker derives
  from the assessment and the sizing receipt is exactly the size that the assessed decision plans, provided that
  receipts are read back as written, that no evidence overwrites the flag \<open>applied\<close> and that version names are
  free of the separator.\<close>

theorem resized_entry_passes_receipt_check:
  assumes "assess mo lr d live actionable = Inr d'"
    and "receipts_read_back env mo" and "applied_key_free mo"
    and "de_planned_order_size_sol d = Some (sa_selected_size_sol sizing)" and "de_integrity_assessment d = Some integrity"
    and "de_challenger_assessments d = []" and "CHR ''+'' \<notin> set (de_model_version d)"
    and "\<forall>v \<in> sk_version ` snd ` set (ln_skill_artifacts lr). CHR ''+'' \<notin> set v"
  shows "\<exists>p. de_planned_order_size_sol d' = Some p \<and> expected_size env d' sizing integrity = Inr p"
proof (cases "live \<and> ln_mode_active lr \<and> ln_active_skill_versions lr \<noteq> []")
  case True
  then have "assess_active_skills mo lr d actionable = Inr d'" using assms(1) by (simp add: assess_def)
  then show ?thesis by (rule skills_receipt) (use assms in simp_all)
next
  case False
  then have "assess_model mo lr d live actionable = Inr d'" using assms(1) by (auto simp: assess_def)
  from model_advises [OF this] show ?thesis using assms(4,6) by (simp add: expected_size_def)
qed

definition reading_env :: env where
  "reading_env = \<lparr> en_wall = int, en_uuid = (\<lambda>n. replicate n CHR ''u''), en_utc_offset = (\<lambda>_. 0), en_sha256 = id,
     en_profile_digest = (\<lambda>_. []), en_parse_receipt = parse_receipt \<rparr>"

theorem resized_entry_passes_receipt_check_witness:
  "\<exists>d'. assess doubling_models (sample_learner SkSizing) clean_entry True True = Inr d' \<and>
     de_planned_order_size_sol d' = Some 2 \<and> expected_size reading_env d' sample_sizing clean_assessment = Inr 2"
proof -
  obtain d' where d': "assess doubling_models (sample_learner SkSizing) clean_entry True True = Inr d'"
      "de_planned_order_size_sol d' = Some 2" using doubled by blast
  have laws: "receipts_read_back reading_env doubling_models" "applied_key_free doubling_models"
    by (simp_all add: receipts_read_back_def applied_key_free_def reading_env_def doubling_models_def dump_receipt_def
        parse_receipt_def text_in_def flag_in_def fields_in_def sizing_receipt.truncate_def comp_def case_prod_beta)
  have d: "de_planned_order_size_sol clean_entry = Some (sa_selected_size_sol sample_sizing)"
    "de_integrity_assessment clean_entry = Some clean_assessment" "de_challenger_assessments clean_entry = []"
    "CHR ''+'' \<notin> set (de_model_version clean_entry)"
    "\<forall>v \<in> sk_version ` snd ` set (ln_skill_artifacts (sample_learner SkSizing)). CHR ''+'' \<notin> set v"
    by (simp_all add: clean_entry_def sample_sizing_def sample_learner_def sample_artifact_def BASELINE_VERSION_def)
  from resized_entry_passes_receipt_check [OF d'(1) laws d] d' show ?thesis by auto
qed

text \<open>C39: A strongly negative prediction of the active entry skill raises instead of vetoing. The conservative value,
  prediction minus validation error, goes into an assessment that declares it at least minus one, and unlike the
  earlier model's it is not clamped; so whenever it is below minus one, the whole assessment of the decision
  fails with a validation error, whatever the decision and the other skills say.\<close>

theorem strongly_negative_entry_prediction_raises:
  assumes "artifact_in_force mo lr d SkEntry = Some artifact" and "feature_vector mo d = Some fs"
    and "mo_predict mo artifact fs = Some prediction" and "fsub prediction (sk_validation_rmse artifact) < - 1"
  shows "assess_active_skills mo lr d actionable = Inl (ValueError ''invalid learning assessment'')"
  using assms
  by (simp add: assess_active_skills_def assess_skill_def assess_veto_skill_def legacy_assessment_def
      assessment_fields_ok_def conservative_value_def value_or_zero_def Let_def not_le)

theorem strongly_negative_entry_prediction_raises_witness:
  "assess_active_skills doubling_models (sample_learner SkEntry) clean_entry True =
     Inl (ValueError ''invalid learning assessment'')"
proof -
  have force: "artifact_in_force doubling_models (sample_learner SkEntry) clean_entry SkEntry = Some (sample_artifact ''s1'' SkEntry)"
    by code_simp
  have "feature_vector doubling_models clean_entry \<noteq> None" by code_simp
  then obtain fs where fs: "feature_vector doubling_models clean_entry = Some fs" by blast
  have "fsub (- 1) (sk_validation_rmse (sample_artifact ''s1'' SkEntry)) < - 1" by code_simp
  then show ?thesis
    by (intro strongly_negative_entry_prediction_raises [OF force fs, of "- 1"])
       (simp_all add: doubling_models_def sample_artifact_def)
qed

end
