(* ===== verification/Market_Laws.thy ===== *)
theory Market_Laws
  imports Market_Engine Decision
begin

text \<open>
  The laws of the market state: what the trade window holds of a token's history, what an event
  may change of a verified route, how the refreshes order reserve evidence, and when a snapshot
  exists.
\<close>

section \<open>Applying an event\<close>

lemmas stage_defs =
  note_event_def note_metadata_def note_identity_def note_supply_def note_completion_def note_pool_def
  note_pool_reserves_def note_fees_def note_curve_reserves_def note_real_tokens_def note_initial_tokens_def
  note_provenance_def

definition noted :: "market_event \<Rightarrow> live_token \<Rightarrow> live_token" where
  "noted ev st = note_metadata ev (note_event ev st)"

definition finished :: "platform \<Rightarrow> market_event \<Rightarrow> live_token \<Rightarrow> live_token \<Rightarrow> live_token" where
  "finished pl ev st mid =
     (if route_regression pl ev st then market_stage pl ev mid
      else record_trade pl ev (effective_at ev st) (note_provenance ev (effective_at ev st) (market_stage pl ev mid)))"

definition created_stage :: "platform \<Rightarrow> market_event \<Rightarrow> live_token \<Rightarrow> time \<Rightarrow> live_token" where
  "created_stage pl ev st c = note_supply ev c (note_identity pl ev (noted ev st))"

lemma pinned_noted [simp]:
  "route_pinned (noted ev st) = route_pinned st"
  "route_pinned (note_identity pl ev st) = route_pinned st"
  "route_pinned (note_supply ev c st) = route_pinned st"
  by (simp_all add: route_pinned_def noted_def stage_defs Let_def)

lemma token_apply_run:
  "token_apply pl ev st =
     (if me_kind ev = EvCreate then
        (case creation_time ev (effective_at ev st) of
           Inl e \<Rightarrow> (Inl e, note_identity pl ev (noted ev st))
         | Inr c \<Rightarrow> (Inr (), finished pl ev st (created_stage pl ev st c)))
      else (Inr (), finished pl ev st (noted ev st)))"
  by (simp add: token_apply_def act_simps when_do_def noted_def [symmetric] note_creation_def finished_def
      created_stage_def route_regression_def bnd_def seq_def split: sum.split)

lemma token_event_run:
  "token_event pl ev st =
     (if me_kind ev = EvTrade \<and> route_regression pl ev st then (Inr (), st) else token_apply pl ev st)"
  by (simp add: token_event_def act_simps when_do_def route_regression_def)

text \<open>The cases of an event: nothing, an impossible creation time, or every stage.\<close>

definition mid_of :: "platform \<Rightarrow> market_event \<Rightarrow> live_token \<Rightarrow> live_token \<Rightarrow> bool" where
  "mid_of pl ev st mid \<longleftrightarrow> mid = noted ev st \<or> (\<exists>c. mid = created_stage pl ev st c)"

lemma token_event_cases:
  assumes "token_event pl ev st = (r, st')"
  obtains (skipped) "me_kind ev = EvTrade" "route_regression pl ev st" "r = Inr ()" "st' = st"
  | (bad_time) e where "me_kind ev = EvCreate" "r = Inl e" "st' = note_identity pl ev (noted ev st)"
  | (whole) mid where "r = Inr ()" "me_kind ev = EvTrade \<Longrightarrow> \<not> route_regression pl ev st"
      "mid_of pl ev st mid" "st' = finished pl ev st mid"
  using assms unfolding token_event_run token_apply_run mid_of_def
  by (auto split: if_splits sum.splits)

lemma effective_at_ge: "ts_last_event_at st = Some l \<Longrightarrow> l \<le> effective_at ev st"
  by (auto simp: effective_at_def later_of_def split: option.splits)

lemma noted_fields:
  "lt_trades (noted ev st) = lt_trades st"
  "lt_last_evicted_trade (noted ev st) = lt_last_evicted_trade st"
  "lt_rolling_trade_metrics (noted ev st) = lt_rolling_trade_metrics st"
  "ts_venue (noted ev st) = ts_venue st"
  "lt_route_verified (noted ev st) = lt_route_verified st"
  "ts_pool_address (noted ev st) = ts_pool_address st"
  "ts_last_event_at (noted ev st) =
     (if me_kind ev \<noteq> EvMarket then Some (effective_at ev st) else ts_last_event_at st)"
  "ts_last_reserve_at (noted ev st) = ts_last_reserve_at st"
  "ts_last_reserve_slot (noted ev st) = ts_last_reserve_slot st"
  "lt_last_slot (noted ev st) = max (lt_last_slot st) (event_slot ev)"
  "route_pinned st \<Longrightarrow> ts_quote_mint (noted ev st) = ts_quote_mint st"
  by (simp_all add: noted_def note_event_def note_metadata_def route_pinned_def split: option.split)

lemma identity_fields:
  "lt_trades (note_identity pl ev st) = lt_trades st"
  "lt_last_evicted_trade (note_identity pl ev st) = lt_last_evicted_trade st"
  "lt_rolling_trade_metrics (note_identity pl ev st) = lt_rolling_trade_metrics st"
  "token_state.truncate (note_identity pl ev st) = token_state.truncate st"
  "lt_route_verified (note_identity pl ev st) = lt_route_verified st"
  "lt_last_slot (note_identity pl ev st) = lt_last_slot st"
  by (simp_all add: note_identity_def Let_def token_state.truncate_def)

lemma supply_fields:
  "lt_trades (note_supply ev c st) = lt_trades st"
  "lt_last_evicted_trade (note_supply ev c st) = lt_last_evicted_trade st"
  "lt_rolling_trade_metrics (note_supply ev c st) = lt_rolling_trade_metrics st"
  "token_state.truncate (note_supply ev c st) = token_state.truncate st"
  "lt_route_verified (note_supply ev c st) = lt_route_verified st"
  "lt_last_slot (note_supply ev c st) = lt_last_slot st"
  by (simp_all add: note_supply_def token_state.truncate_def)

lemma truncate_fields:
  assumes "token_state.truncate a = token_state.truncate b"
  shows "ts_venue a = ts_venue b" "ts_pool_address a = ts_pool_address b" "ts_quote_mint a = ts_quote_mint b"
    "ts_last_event_at a = ts_last_event_at b" "ts_last_reserve_at a = ts_last_reserve_at b"
    "ts_last_reserve_slot a = ts_last_reserve_slot b"
  using assms by (simp_all add: token_state.truncate_def)

lemma mid_truncate:
  "mid_of pl ev st mid \<Longrightarrow> token_state.truncate mid = token_state.truncate (noted ev st)"
  unfolding mid_of_def created_stage_def by (elim disjE exE) (simp_all add: identity_fields supply_fields)

lemma mid_fields:
  assumes "mid_of pl ev st mid"
  shows "lt_trades mid = lt_trades st" "lt_last_evicted_trade mid = lt_last_evicted_trade st"
    "lt_rolling_trade_metrics mid = lt_rolling_trade_metrics st" "lt_route_verified mid = lt_route_verified st"
    "lt_last_slot mid = max (lt_last_slot st) (event_slot ev)"
    "ts_venue mid = ts_venue st" "ts_pool_address mid = ts_pool_address st"
    "ts_last_event_at mid = (if me_kind ev \<noteq> EvMarket then Some (effective_at ev st) else ts_last_event_at st)"
    "ts_last_reserve_at mid = ts_last_reserve_at st" "ts_last_reserve_slot mid = ts_last_reserve_slot st"
    "route_pinned st \<Longrightarrow> ts_quote_mint mid = ts_quote_mint st"
    "route_pinned mid = route_pinned st"
  using assms truncate_fields [OF mid_truncate [OF assms]]
  by (auto simp: mid_of_def created_stage_def noted_fields identity_fields supply_fields)

text \<open>The stages after the metadata keep the window; only they change venue, pool and reserves.\<close>

lemma market_stage_window:
  "lt_trades (market_stage pl ev st) = lt_trades st"
  "lt_last_evicted_trade (market_stage pl ev st) = lt_last_evicted_trade st"
  "lt_rolling_trade_metrics (market_stage pl ev st) = lt_rolling_trade_metrics st"
  "ts_last_event_at (market_stage pl ev st) = ts_last_event_at st"
  "lt_last_slot (market_stage pl ev st) = lt_last_slot st"
  "ts_last_reserve_slot (market_stage pl ev st) = ts_last_reserve_slot st"
  "ts_last_reserve_at (market_stage pl ev st) = ts_last_reserve_at st"
  by (simp_all add: market_stage_def Let_def stage_defs)

lemma market_stage_venue:
  "ts_venue (market_stage pl ev st) = (if event_is_amm pl ev then ''pump_swap'' else ts_venue st)"
  by (simp add: market_stage_def Let_def stage_defs)

lemma note_provenance_window:
  "lt_trades (note_provenance ev eff st) = lt_trades st"
  "lt_last_evicted_trade (note_provenance ev eff st) = lt_last_evicted_trade st"
  "lt_rolling_trade_metrics (note_provenance ev eff st) = lt_rolling_trade_metrics st"
  "ts_last_event_at (note_provenance ev eff st) = ts_last_event_at st"
  "ts_venue (note_provenance ev eff st) = ts_venue st"
  "lt_last_slot (note_provenance ev eff st) = lt_last_slot st"
  "ts_last_reserve_slot st \<le> ts_last_reserve_slot (note_provenance ev eff st)"
  by (simp_all add: note_provenance_def)

lemma record_trade_fields:
  "ts_last_event_at (record_trade pl ev eff st) = ts_last_event_at st"
  "ts_venue (record_trade pl ev eff st) = ts_venue st"
  "lt_last_slot (record_trade pl ev eff st) = lt_last_slot st"
  "ts_last_reserve_slot (record_trade pl ev eff st) = ts_last_reserve_slot st"
  "lt_rolling_trade_metrics (record_trade pl ev eff st) = lt_rolling_trade_metrics st"
  by (simp_all add: record_trade_def push_trade_def Let_def)

section \<open>The trade window and the history\<close>

text \<open>Comparing seconds with five minutes is comparing microseconds.\<close>

lemma total_seconds_le_300: "total_seconds d \<le> 300 \<longleftrightarrow> d \<le> FIVE_MINUTES"
proof
  show "total_seconds d \<le> 300" if "d \<le> FIVE_MINUTES"
    using total_seconds_mono [OF that] total_seconds_of_seconds [of 300] by (simp add: FIVE_MINUTES_def)
  show "d \<le> FIVE_MINUTES" if le: "total_seconds d \<le> 300"
  proof (rule ccontr)
    assume "\<not> d \<le> FIVE_MINUTES"
    then have "total_seconds (FIVE_MINUTES + 1) \<le> total_seconds d" by (intro total_seconds_mono) simp
    moreover have "300 < total_seconds (FIVE_MINUTES + 1)" by code_simp
    ultimately show False using le by simp
  qed
qed

lemma total_seconds_ge_0: "0 \<le> total_seconds d \<longleftrightarrow> 0 \<le> d"
  using total_seconds_pos_iff [of "- d"] total_seconds_nonneg [of d]
  by (simp add: total_seconds_def true_div_def rnd_uminus not_less [symmetric])

lemma trade_in_window_iff:
  "trade_in_window now venue t \<longleftrightarrow>
     tr_venue t = venue \<and> tr_received_at t \<le> now \<and> now - FIVE_MINUTES \<le> tr_received_at t"
  unfolding trade_in_window_def total_seconds_le_300 total_seconds_ge_0 by auto

text \<open>
  The order of the history: times do not decrease, and no curve trade follows a pool trade. A trade
  that has left the window is expired, or is not newer than the last one evicted.
\<close>

definition older :: "trade_observation \<Rightarrow> trade_observation \<Rightarrow> bool" where
  "older t e \<longleftrightarrow> tr_received_at t \<le> tr_received_at e \<and> (tr_venue e = ''pump_curve'' \<longrightarrow> tr_venue t = ''pump_curve'')"

definition gone_ok :: "live_token \<Rightarrow> trade_observation \<Rightarrow> bool" where
  "gone_ok st t \<longleftrightarrow>
     (\<exists>l. ts_last_event_at st = Some l \<and> tr_received_at t < l - FIVE_MINUTES) \<or>
     (\<exists>e. lt_last_evicted_trade st = Some e \<and> older t e)"

definition trade_ok :: "live_token \<Rightarrow> trade_observation \<Rightarrow> bool" where
  "trade_ok st t \<longleftrightarrow>
     (\<exists>l. ts_last_event_at st = Some l \<and> tr_received_at t \<le> l) \<and>
     tr_venue t \<in> {''pump_curve'', ''pump_swap''} \<and>
     (ts_venue st = ''pump_curve'' \<longrightarrow> tr_venue t = ''pump_curve'')"

definition window_inv :: "trade_observation list \<Rightarrow> live_token \<Rightarrow> bool" where
  "window_inv hist st \<longleftrightarrow>
     (\<exists>gone. hist = gone @ lt_trades st \<and> list_all (gone_ok st) gone) \<and>
     sorted_wrt older hist \<and> list_all (trade_ok st) hist \<and>
     ts_venue st \<in> {''pump_curve'', ''pump_swap''} \<and>
     (\<forall>e. lt_last_evicted_trade st = Some e \<longrightarrow> e \<in> set hist) \<and>
     length (lt_trades st) \<le> TRADE_BUFFER"

text \<open>What every call but a trade does to the fields of the invariant.\<close>

definition window_grows :: "live_token \<Rightarrow> live_token \<Rightarrow> bool" where
  "window_grows st st' \<longleftrightarrow>
     lt_trades st' = lt_trades st \<and> lt_last_evicted_trade st' = lt_last_evicted_trade st \<and>
     (ts_venue st' = ts_venue st \<or> ts_venue st' = ''pump_swap'') \<and>
     (ts_last_event_at st' = ts_last_event_at st \<or>
      (\<exists>l'. ts_last_event_at st' = Some l' \<and> (\<forall>l. ts_last_event_at st = Some l \<longrightarrow> l \<le> l')))"

lemma gone_ok_grows: "window_grows st st' \<Longrightarrow> gone_ok st t \<Longrightarrow> gone_ok st' t"
  unfolding gone_ok_def window_grows_def by fastforce

lemma trade_ok_grows: "window_grows st st' \<Longrightarrow> trade_ok st t \<Longrightarrow> trade_ok st' t"
  unfolding trade_ok_def window_grows_def by fastforce

lemma window_inv_grows:
  assumes "window_inv hist st" and grows: "window_grows st st'"
  shows "window_inv hist st'"
proof -
  obtain gone where gone: "hist = gone @ lt_trades st" "list_all (gone_ok st) gone"
    using assms(1) by (auto simp: window_inv_def)
  have "list_all (gone_ok st') gone" using gone(2) gone_ok_grows [OF grows] by (simp add: list_all_iff)
  moreover have "list_all (trade_ok st') hist"
    using assms(1) trade_ok_grows [OF grows] by (simp add: window_inv_def list_all_iff)
  ultimately show ?thesis using assms(1) grows gone(1) by (auto simp: window_inv_def window_grows_def)
qed

lemma dropWhile_split:
  obtains gone where "xs = gone @ dropWhile P xs" and "list_all P gone"
  using set_takeWhileD [of _ P xs] by (auto intro!: that [of "takeWhile P xs"] simp: list_all_iff)

text \<open>A trade enters the window.\<close>

lemma window_inv_push:
  assumes inv: "window_inv hist st"
    and now: "ts_last_event_at st = Some (tr_received_at t)" and venue: "tr_venue t = ts_venue st"
  shows "window_inv (hist @ [t]) (push_trade t st)"
proof -
  obtain gone where gone: "hist = gone @ lt_trades st" "list_all (gone_ok st) gone"
    using inv by (auto simp: window_inv_def)
  define kept where "kept = drop_expired (tr_received_at t) (lt_trades st)"
  obtain expired where ex: "lt_trades st = expired @ kept"
      "list_all (\<lambda>x. tr_received_at x < tr_received_at t - FIVE_MINUTES) expired"
    unfolding kept_def drop_expired_def by (rule dropWhile_split)
  define st' where "st' = push_trade t st"
  have st': "st' = st\<lparr> lt_last_evicted_trade :=
            (if TRADE_BUFFER \<le> length kept then Some (hd kept) else lt_last_evicted_trade st),
          lt_trades := (if TRADE_BUFFER \<le> length kept then tl kept else kept) @ [t] \<rparr>"
    by (simp add: st'_def push_trade_def Let_def kept_def)
  have sorted: "sorted_wrt older hist" and ok: "list_all (trade_ok st) hist"
    and len: "length (lt_trades st) \<le> TRADE_BUFFER"
    using inv by (simp_all add: window_inv_def)
  have hist: "hist = gone @ expired @ kept" using gone(1) ex(1) by simp
  have "older x t" if "x \<in> set hist" for x
    using ok that now venue by (auto simp: list_all_iff trade_ok_def older_def)
  then have sorted': "sorted_wrt older (hist @ [t])" using sorted by (simp add: sorted_wrt_append)
  have same: "ts_last_event_at st' = ts_last_event_at st" "ts_venue st' = ts_venue st" by (simp_all add: st')
  have ok': "list_all (trade_ok st') (hist @ [t])"
    using ok inv now venue by (auto simp: list_all_iff trade_ok_def same window_inv_def)
  have expired_ok: "gone_ok st' x" if "x \<in> set expired" for x
    using ex(2) that now by (auto simp: gone_ok_def same list_all_iff)
  show ?thesis
  proof (cases "TRADE_BUFFER \<le> length kept")
    case True
    then obtain e rest where kept: "kept = e # rest"
      by (cases kept) (simp_all add: TRADE_BUFFER_def)
    have tr: "lt_trades st' = rest @ [t]" "lt_last_evicted_trade st' = Some e" using True by (simp_all add: st' kept)
    have "older x e" if "x \<in> set gone" for x
      using sorted that by (auto simp: hist kept sorted_wrt_append)
    then have "list_all (gone_ok st') (gone @ expired @ [e])"
      using expired_ok by (auto simp: list_all_iff gone_ok_def tr older_def)
    moreover have "hist @ [t] = (gone @ expired @ [e]) @ lt_trades st'" by (simp add: tr hist kept)
    moreover have "length rest < TRADE_BUFFER" using len ex(1) by (simp add: kept)
    ultimately show ?thesis
      using sorted' ok' inv unfolding window_inv_def st'_def [symmetric]
      by (intro conjI exI [of _ "gone @ expired @ [e]"]) (simp_all add: tr same hist kept)
  next
    case False
    have tr: "lt_trades st' = kept @ [t]" "lt_last_evicted_trade st' = lt_last_evicted_trade st"
      using False by (simp_all add: st')
    have "list_all (gone_ok st') (gone @ expired)"
      using expired_ok gone(2) by (auto simp: list_all_iff gone_ok_def tr same)
    moreover have "hist @ [t] = (gone @ expired) @ lt_trades st'" by (simp add: tr hist)
    ultimately show ?thesis
      using sorted' ok' inv False unfolding window_inv_def st'_def [symmetric]
      by (intro conjI exI [of _ "gone @ expired"]) (simp_all add: tr same)
  qed
qed

lemma observation_fields [simp]:
  "tr_received_at (observation pl ev eff st) = eff"
  "tr_venue (observation pl ev eff st) = ts_venue st"
  by (simp_all add: observation_def Let_def)

lemma last_push [simp]: "last (lt_trades (push_trade t st)) = t"
  by (simp add: push_trade_def Let_def)

lemma same_window_grows:
  "lt_trades st' = lt_trades st \<Longrightarrow> lt_last_evicted_trade st' = lt_last_evicted_trade st \<Longrightarrow>
   ts_venue st' = ts_venue st \<Longrightarrow> ts_last_event_at st' = ts_last_event_at st \<Longrightarrow> window_grows st st'"
  by (simp add: window_grows_def)

lemma noted_grows: "window_grows st (noted ev st)"
  using effective_at_ge [of st _ ev] by (auto simp: window_grows_def noted_fields)

lemma window_inv_event:
  assumes inv: "window_inv hist st" and run: "token_event pl ev st = (r, st')"
  shows "window_inv (hist @ observed_trades pl ev st) st'"
  using run
proof (cases rule: token_event_cases)
  case skipped
  then show ?thesis using inv by (simp add: observed_trades_def run)
next
  case (bad_time e)
  have "window_grows st st'"
    using noted_grows [of st ev] truncate_fields [OF identity_fields(4) [of pl ev "noted ev st"]]
    by (simp add: window_grows_def bad_time(3) identity_fields)
  then show ?thesis using inv bad_time by (simp add: observed_trades_def run window_inv_grows)
next
  case (whole mid)
  define s where "s = (if route_regression pl ev st then market_stage pl ev mid
    else note_provenance ev (effective_at ev st) (market_stage pl ev mid))"
  note mid = mid_fields [OF whole(3)]
  have grows: "window_grows st s"
    using effective_at_ge [of st _ ev]
    by (auto simp: window_grows_def s_def market_stage_window market_stage_venue note_provenance_window mid)
  show ?thesis
  proof (cases "me_kind ev = EvTrade \<and> \<not> route_regression pl ev st")
    case True
    then have st': "st' = push_trade (observation pl ev (effective_at ev st) s) s"
      by (simp add: whole(4) finished_def s_def record_trade_def)
    have "ts_last_event_at s = Some (effective_at ev st)"
      using True by (simp add: s_def market_stage_window note_provenance_window mid)
    then have "window_inv (hist @ [observation pl ev (effective_at ev st) s]) st'"
      unfolding st' by (intro window_inv_push window_inv_grows [OF inv grows]) simp_all
    then show ?thesis using True whole(1) by (simp add: observed_trades_def run st')
  next
    case False
    then have "st' = s" using whole(2) by (auto simp: whole(4) finished_def s_def record_trade_def)
    then show ?thesis using False window_inv_grows [OF inv grows] by (auto simp: observed_trades_def run whole(1))
  qed
qed

lemma window_inv_new: "window_inv [] (new_token mint)"
  by (simp add: window_inv_def new_token_def)

lemma refresh_window:
  "window_grows st (enrich data ts source st)"
  "window_grows st (snd (confirm_route pa qm ba qa st))"
  "window_grows st (snd (refresh_curve ca account slot ts oid st))"
  "window_grows st (snd (apply_watchdog snap st))"
  "window_grows st (snd (refresh_pool pa ba qa base q vq slot ts oid st))"
  "window_grows st (snd (snapshot_state pl stale now pm act names st))"
  by (rule same_window_grows;
      simp add: enrich_def confirm_route_def refresh_curve_def apply_watchdog_def refresh_pool_def
        stamp_refresh_def snapshot_state_def Let_def)+

lemma window_inv_run: "token_run pl mint hist st \<Longrightarrow> window_inv hist st"
proof (induction rule: token_run.induct)
  case start
  then show ?case by (rule window_inv_new)
next
  case (event hist st ev)
  then show ?case using window_inv_event [of hist st pl ev] by (cases "token_event pl ev st") simp
qed (auto intro: window_inv_grows refresh_window)

lemma window_complete:
  assumes inv: "window_inv hist st" and clock: "\<And>l. ts_last_event_at st = Some l \<Longrightarrow> l \<le> now"
    and whole: "\<not> buffer_saturated now st"
  shows "filter (trade_in_window now (ts_venue st)) (lt_trades st) =
         filter (trade_in_window now (ts_venue st)) hist"
proof -
  obtain gone where gone: "hist = gone @ lt_trades st" "list_all (gone_ok st) gone"
    using inv by (auto simp: window_inv_def)
  have "\<not> trade_in_window now (ts_venue st) t" if t: "t \<in> set gone" for t
  proof
    assume win: "trade_in_window now (ts_venue st) t"
    have "gone_ok st t" using gone(2) t by (simp add: list_all_iff)
    then consider (expired) l where "ts_last_event_at st = Some l" "tr_received_at t < l - FIVE_MINUTES"
      | (evicted) e where "lt_last_evicted_trade st = Some e" "older t e"
      by (auto simp: gone_ok_def)
    then show False
    proof cases
      case expired
      then show False using win clock [OF expired(1)] by (simp add: trade_in_window_iff)
    next
      case evicted
      have "e \<in> set hist" using inv evicted(1) by (simp add: window_inv_def)
      then have ok: "trade_ok st e" using inv by (simp add: window_inv_def list_all_iff)
      then have "tr_received_at e \<le> now" using clock by (fastforce simp: trade_ok_def)
      moreover have "tr_venue e = ts_venue st"
        using ok evicted(2) win inv by (auto simp: trade_ok_def older_def trade_in_window_iff window_inv_def)
      ultimately have "trade_in_window now (ts_venue st) e"
        using evicted(2) win by (simp add: trade_in_window_iff older_def)
      then show False using whole evicted(1) by (simp add: buffer_saturated_def)
    qed
  qed
  then show ?thesis by (simp add: gone(1) filter_empty_conv)
qed

section \<open>The cached window\<close>

definition cache_ok :: "trade_observation list \<Rightarrow> live_token \<Rightarrow> bool" where
  "cache_ok hist st \<longleftrightarrow>
     (\<forall>r. lt_rolling_trade_metrics st = Some r \<longrightarrow> rm_buffer_saturated r \<or>
        (\<exists>seen recent. hist = seen @ recent \<and>
           rm_trades_5m r = filter (trade_in_window (rm_computed_at r) (rm_venue r)) seen))"

lemma cache_ok_append: "cache_ok hist st \<Longrightarrow> lt_rolling_trade_metrics st' = lt_rolling_trade_metrics st \<Longrightarrow>
    cache_ok (hist @ extra) st'"
  unfolding cache_ok_def by (metis append_assoc)

lemma cache_ok_same: "cache_ok hist st \<Longrightarrow> lt_rolling_trade_metrics st' = lt_rolling_trade_metrics st \<Longrightarrow>
    cache_ok hist st'"
  by (simp add: cache_ok_def)

lemma event_keeps_cache:
  assumes "token_event pl ev st = (r, st')"
  shows "lt_rolling_trade_metrics st' = lt_rolling_trade_metrics st"
  using assms
proof (cases rule: token_event_cases)
  case (whole mid)
  then show ?thesis
    using mid_fields(3) [OF whole(3)]
    by (simp add: finished_def market_stage_window note_provenance_window record_trade_fields)
qed (simp_all add: identity_fields noted_fields)

lemma refresh_cache:
  "lt_rolling_trade_metrics (enrich data ts source st) = lt_rolling_trade_metrics st"
  "lt_rolling_trade_metrics (snd (confirm_route pa qm ba qa st)) = lt_rolling_trade_metrics st"
  "lt_rolling_trade_metrics (snd (refresh_curve ca account slot ts oid st)) = lt_rolling_trade_metrics st"
  "lt_rolling_trade_metrics (snd (apply_watchdog snap st)) = lt_rolling_trade_metrics st"
  "lt_rolling_trade_metrics (snd (refresh_pool pa ba qa base q vq slot ts oid st)) = lt_rolling_trade_metrics st"
  by (simp_all add: enrich_def confirm_route_def refresh_curve_def apply_watchdog_def refresh_pool_def
      stamp_refresh_def Let_def)

lemma with_activity_fields [simp]:
  "rm_trades_5m (with_activity b r) = rm_trades_5m r"
  "rm_computed_at (with_activity b r) = rm_computed_at r"
  "rm_venue (with_activity b r) = rm_venue r"
  "rm_buffer_saturated (with_activity b r) = rm_buffer_saturated r"
  by (simp_all add: with_activity_def)

lemma window_metrics_fields [simp]:
  "rm_trades_5m (window_metrics pl st now) = filter (trade_in_window now (ts_venue st)) (lt_trades st)"
  "rm_computed_at (window_metrics pl st now) = now"
  "rm_venue (window_metrics pl st now) = ts_venue st"
  "rm_buffer_saturated (window_metrics pl st now) = buffer_saturated now st"
  by (simp_all add: window_metrics_def Let_def)

lemma rolling_cases:
  obtains (cached) "lt_rolling_trade_metrics st = Some (rolling_trade_metrics pl st now)"
      "rm_venue (rolling_trade_metrics pl st now) = ts_venue st"
      "0 \<le> now - rm_computed_at (rolling_trade_metrics pl st now)"
      "total_seconds (now - rm_computed_at (rolling_trade_metrics pl st now)) < 1"
  | (fresh) "rolling_trade_metrics pl st now = window_metrics pl st now"
proof (cases "cached_metrics st now")
  case None
  then show ?thesis by (intro that(2)) (simp add: rolling_trade_metrics_def)
next
  case (Some r)
  then have "lt_rolling_trade_metrics st = Some r \<and> rm_venue r = ts_venue st \<and>
      0 \<le> now - rm_computed_at r \<and> total_seconds (now - rm_computed_at r) < 1"
    by (simp add: cached_metrics_def total_seconds_ge_0 split: option.splits if_splits)
  moreover have "rolling_trade_metrics pl st now = r" using Some by (simp add: rolling_trade_metrics_def)
  ultimately show ?thesis by (intro that(1)) simp_all
qed

text \<open>What a snapshot measures: the history up to a moment less than a second ago, or exactly.\<close>

lemma rolling_complete:
  assumes inv: "window_inv hist st" and cache: "cache_ok hist st"
    and clock: "\<And>l. ts_last_event_at st = Some l \<Longrightarrow> l \<le> now"
    and r: "r = rolling_trade_metrics pl st now" and whole: "\<not> rm_buffer_saturated r"
  shows "\<exists>seen recent. hist = seen @ recent \<and>
     rm_trades_5m r = filter (trade_in_window (rm_computed_at r) (ts_venue st)) seen \<and>
     (rm_computed_at r = now \<and> recent = [] \<or>
      rm_computed_at r \<le> now \<and> total_seconds (now - rm_computed_at r) < 1)"
proof (cases rule: rolling_cases [of st pl now])
  case cached
  then show ?thesis using cache whole unfolding r [symmetric] cache_ok_def by fastforce
next
  case fresh
  then show ?thesis using window_complete [OF inv clock] whole unfolding r by auto
qed

lemma cache_ok_run: "token_run pl mint hist st \<Longrightarrow> cache_ok hist st"
proof (induction rule: token_run.induct)
  case start
  then show ?case by (simp add: cache_ok_def new_token_def)
next
  case (event hist st ev)
  then show ?case
    using cache_ok_append event_keeps_cache by (cases "token_event pl ev st") fastforce
next
  case (viewed hist st now stale_seconds pm act names)
  define r where "r = rolling_trade_metrics pl st now"
  have venue: "rm_venue r = ts_venue st"
    by (cases rule: rolling_cases [of st pl now]) (simp_all add: r_def)
  have "rm_buffer_saturated r \<or> (\<exists>seen recent. hist = seen @ recent \<and>
     rm_trades_5m r = filter (trade_in_window (rm_computed_at r) (ts_venue st)) seen)"
    using rolling_complete [OF window_inv_run [OF viewed.hyps(1)] viewed.IH _ r_def] viewed.hyps(2) by blast
  then show ?case by (simp add: cache_ok_def snapshot_state_def Let_def r_def [symmetric] venue)
qed (auto intro: cache_ok_same simp: refresh_cache)

section \<open>Verified routes\<close>

lemma new_pool_complete [simp]: "new_pool ev (st\<lparr> lt_complete := b \<rparr>) = new_pool ev st"
  by (simp add: new_pool_def split: option.split)

lemma market_stage_route:
  "lt_route_verified (market_stage pl ev mid) =
     (if event_is_amm pl ev then new_pool ev mid = None \<and> lt_route_verified mid else lt_route_verified mid)"
  "ts_pool_address (market_stage pl ev mid) =
     (if event_is_amm pl ev then (case new_pool ev mid of Some p \<Rightarrow> p | None \<Rightarrow> ts_pool_address mid)
      else ts_pool_address mid)"
  "ts_quote_mint (market_stage pl ev mid) =
     (if event_is_amm pl ev \<and> new_pool ev mid \<noteq> None
      then (case payload_text ev [''quote_mint'', ''quoteMint''] of Some q \<Rightarrow> q | None \<Rightarrow> ts_quote_mint mid)
      else ts_quote_mint mid)"
  by (simp_all add: market_stage_def Let_def stage_defs cong: if_cong option.case_cong) (simp split: option.split)

lemma tail_route:
  "lt_route_verified (record_trade pl ev eff (note_provenance ev eff st)) = lt_route_verified st"
  "ts_pool_address (record_trade pl ev eff (note_provenance ev eff st)) = ts_pool_address st"
  "ts_quote_mint (record_trade pl ev eff (note_provenance ev eff st)) = ts_quote_mint st"
  by (simp_all add: record_trade_def push_trade_def Let_def note_provenance_def)

lemma finished_route:
  "lt_route_verified (finished pl ev st mid) = lt_route_verified (market_stage pl ev mid)"
  "ts_pool_address (finished pl ev st mid) = ts_pool_address (market_stage pl ev mid)"
  "ts_quote_mint (finished pl ev st mid) = ts_quote_mint (market_stage pl ev mid)"
  by (simp_all add: finished_def tail_route)

lemma finished_venue:
  "ts_venue (finished pl ev st mid) = (if event_is_amm pl ev then ''pump_swap'' else ts_venue mid)"
  by (simp add: finished_def market_stage_venue note_provenance_window record_trade_fields)

lemma event_route:
  assumes run: "token_event pl ev st = (r, st')" and verified: "lt_route_verified st'"
  shows "lt_route_verified st \<and> ts_pool_address st' = ts_pool_address st \<and>
     (ts_venue st = ''pump_swap'' \<longrightarrow> ts_venue st' = ''pump_swap'' \<and> ts_quote_mint st' = ts_quote_mint st)"
  using run
proof (cases rule: token_event_cases)
  case skipped
  then show ?thesis using verified by simp
next
  case (bad_time e)
  have "route_pinned st \<Longrightarrow> ts_quote_mint st' = ts_quote_mint st"
    using truncate_fields [OF identity_fields(4) [of pl ev "noted ev st"]] by (simp add: bad_time(3) noted_fields)
  then show ?thesis
    using verified truncate_fields [OF identity_fields(4) [of pl ev "noted ev st"]]
    by (simp add: bad_time(3) noted_fields identity_fields route_pinned_def)
next
  case (whole mid)
  note mid = mid_fields [OF whole(3)]
  have v: "lt_route_verified st" and np: "new_pool ev mid = None \<or> \<not> event_is_amm pl ev"
    using verified by (auto simp: whole(4) finished_route market_stage_route mid split: if_splits)
  have "ts_pool_address st' = ts_pool_address st"
    using np by (auto simp: whole(4) finished_route market_stage_route mid)
  then show ?thesis
    using v np mid(11)
    by (auto simp: whole(4) finished_venue finished_route market_stage_route mid route_pinned_def)
qed

lemma token_events_simps [simp]:
  "token_events pl [] st = st"
  "token_events pl (ev # evs) st = token_events pl evs (snd (token_event pl ev st))"
  by (simp_all add: token_events_def)

lemma events_route:
  "lt_route_verified (token_events pl evs st) \<Longrightarrow>
   lt_route_verified st \<and> ts_pool_address (token_events pl evs st) = ts_pool_address st \<and>
   (ts_venue st = ''pump_swap'' \<longrightarrow> ts_quote_mint (token_events pl evs st) = ts_quote_mint st)"
proof (induction evs arbitrary: st)
  case (Cons ev evs)
  show ?case
    using Cons.IH [of "snd (token_event pl ev st)"] Cons.prems
      event_route [of pl ev st "fst (token_event pl ev st)" "snd (token_event pl ev st)"] by simp
qed simp

text \<open>
  The market state that orders are priced against, and the trades. Left out are the last event time, the
  address of the old curve and the fee breakdown, which a foreign reserve report resets.
\<close>

definition execution_view where
  "execution_view st =
     (ts_venue st, ts_pool_address st, ts_pool_base_token_account st, ts_pool_quote_token_account st,
      ts_quote_mint st, (ts_last_reserve_at st, ts_last_reserve_slot st, ts_reserve_source st,
      ts_last_reserve_event_id st, ts_last_reserve_signature st),
      (ts_virtual_token_reserves st, ts_virtual_quote_reserves st, ts_real_token_reserves st,
       ts_real_quote_reserves st, ts_fee_bps st), lt_trades st, lt_route_verified st)"

lemma foreign_event:
  assumes pinned: "route_pinned st" and foreign: "\<not> event_is_amm pl ev"
    and run: "token_event pl ev st = (r, st')"
  shows "execution_view st' = execution_view st"
proof -
  have noted: "execution_view (noted ev st) = execution_view st"
    using pinned
    by (simp add: execution_view_def noted_fields) (simp add: noted_def note_event_def note_metadata_def)
  have keep: "execution_view (note_identity pl ev s) = execution_view s"
      "execution_view (note_supply ev c s) = execution_view s" for s c
    by (simp_all add: execution_view_def note_identity_def note_supply_def Let_def)
  have regression: "route_regression pl ev st" using pinned foreign by (simp add: route_regression_def)
  have stage: "execution_view (market_stage pl ev mid) = execution_view mid" if "route_pinned mid" for mid
    using that foreign
    by (simp add: execution_view_def market_stage_def Let_def route_regression_def note_completion_def
        note_initial_tokens_def)
  from run show ?thesis
  proof (cases rule: token_event_cases)
    case skipped
    then show ?thesis by simp
  next
    case (bad_time e)
    then show ?thesis by (simp add: keep noted)
  next
    case (whole mid)
    have "execution_view mid = execution_view st"
      using whole(3) by (auto simp: mid_of_def created_stage_def keep noted)
    moreover have "st' = market_stage pl ev mid" using regression by (simp add: whole(4) finished_def)
    ultimately show ?thesis using stage [of mid] mid_fields(12) [OF whole(3)] pinned by simp
  qed
qed

lemma foreign_events:
  assumes "\<forall>ev \<in> set evs. \<not> event_is_amm pl ev"
  shows "route_pinned st \<Longrightarrow> execution_view (token_events pl evs st) = execution_view st"
  using assms
proof (induction evs arbitrary: st)
  case (Cons ev evs)
  have view: "execution_view (snd (token_event pl ev st)) = execution_view st"
    using foreign_event [of st pl ev "fst (token_event pl ev st)" "snd (token_event pl ev st)"] Cons.prems by simp
  then have "route_pinned (snd (token_event pl ev st))"
    using Cons.prems(1) by (simp add: execution_view_def route_pinned_def)
  then show ?case using Cons.IH Cons.prems view by simp
qed simp

section \<open>Snapshots\<close>

fun is_tree :: "json \<Rightarrow> bool" where
  "is_tree (JList xs) = True"
| "is_tree (JObj fs) = True"
| "is_tree v = False"

definition flat :: "json option \<Rightarrow> bool" where
  "flat v = (case v of None \<Rightarrow> True | Some x \<Rightarrow> \<not> is_tree x)"

lemma flat_simps [simp]: "flat None" "flat (Some x) \<longleftrightarrow> \<not> is_tree x"
  by (simp_all add: flat_def)

text \<open>The enrichment that a snapshot shows consists of single values.\<close>

definition enrichment_ok :: "live_token \<Rightarrow> bool" where
  "enrichment_ok st \<longleftrightarrow>
     list_all (\<lambda>(key, unit_name). flat (json_get (lt_enrichment st) key)) DEX_UNITS \<and>
     (case safety_fields st of None \<Rightarrow> True | Some fs \<Rightarrow> flat (json_get fs ''safe''))"

definition put_ok :: "put \<Rightarrow> bool" where
  "put_ok p \<longleftrightarrow> flat (pt_value p) \<and> (\<forall>x. pt_item_freshness p = Some x \<longrightarrow> 0 \<le> x)"

lemma age_of_nonneg [simp]: "0 \<le> age_of now t"
  by (simp add: age_of_def)

lemma freshness_nonneg [simp]: "0 \<le> freshness st now" "0 \<le> reserve_freshness st now" "0 \<le> mint_safety_age st now"
  by (simp_all add: freshness_def reserve_freshness_def mint_safety_age_def split: option.split)

lemma flat_floats [simp]: "flat (map_option JFloat v)"
  by (cases v) simp_all

lemma flat_scalars [simp]: "flat (map_option json_of_scalar v)"
proof (cases v)
  case (Some x)
  then show ?thesis by (cases x) simp_all
qed simp

lemma metric_put_ok [simp]: "put_ok (metric_put key unit_name m)"
  by (simp add: metric_put_def put_ok_def split: prod.split)

lemma activity_put_ok [simp]: "put_ok (activity_put st ms ku)"
  by (simp add: activity_put_def put_ok_def Let_def split: prod.split)

lemma snapshot_puts_ok:
  assumes "enrichment_ok st"
  shows "list_all put_ok (snapshot_puts st now act r)"
proof -
  have "list_all put_ok (market_puts st now r)"
    by (simp add: market_puts_def put_ok_def reserve_put_def)
  moreover have "list_all put_ok (activity_puts st act r)"
    by (auto simp: activity_puts_def list_all_iff)
  moreover have "list_all put_ok (integrity_puts st now r)"
    by (simp add: integrity_puts_def) (simp add: put_ok_def)
  moreover have "put_ok (safety_put st now)"
    using assms by (auto simp: safety_put_def put_ok_def enrichment_ok_def split: option.splits)
  then have "list_all put_ok (route_puts st now r)"
    by (simp add: route_puts_def) (simp add: put_ok_def reserve_put_def identity_put_def)
  moreover have "put_ok (dex_put st now ku)" if "ku \<in> set DEX_UNITS" for ku
    using assms that by (auto simp: dex_put_def put_ok_def Let_def enrichment_ok_def list_all_iff dex_age_def split: option.split)
  then have "list_all put_ok (map (dex_put st now) DEX_UNITS)" by (simp add: list_all_iff)
  ultimately show ?thesis by (simp add: snapshot_puts_def)
qed

lemma flat_scalar: "\<not> is_tree v \<Longrightarrow> \<exists>x. scalar_of_json pl v = Inr x"
  by (cases v) simp_all

lemma put_ok_value:
  assumes "put_ok p"
  obtains d v where "data_value_of pl st now r p = Inr d" "data_value_ok d" "d = raw_data_value st now r p v"
    "(case pt_value p of None \<Rightarrow> Inr None | Some v \<Rightarrow> scalar_of_json pl v) = Inr v"
proof -
  obtain x where x: "(case pt_value p of None \<Rightarrow> Inr None | Some v \<Rightarrow> scalar_of_json pl v) = Inr x"
    using assms flat_scalar [of _ pl] by (cases "pt_value p") (auto simp: put_ok_def)
  have "data_value_ok (raw_data_value st now r p x)"
    using assms by (simp add: raw_data_value_def Let_def data_value_ok_def put_ok_def split: option.split)
  then show ?thesis by (intro that [OF _ _ refl x]) (simp_all add: data_value_of_def x Let_def)
qed

text \<open>The keys that a snapshot writes: all, or the ones asked for.\<close>

definition wanted :: "string list option \<Rightarrow> string \<Rightarrow> bool" where
  "wanted value_names key \<longleftrightarrow> (case value_names of None \<Rightarrow> True | Some names \<Rightarrow> key \<in> set names)"

lemma put_value_alt:
  "put_value pl st now r names p d =
     (if wanted names (pt_key p)
      then rbind (data_value_of pl st now r p) (\<lambda>v. Inr (AList.update (pt_key p) v d)) else Inr d)"
  by (simp add: put_value_def wanted_def split: option.split)

definition values_ok :: "(string, data_value) pydict \<Rightarrow> bool" where
  "values_ok d \<longleftrightarrow> dict_ok d \<and> (\<forall>k v. map_of d k = Some v \<longrightarrow> data_value_ok v)"

lemma put_all_ok:
  assumes "list_all put_ok ps" and "values_ok d"
  obtains d' where "put_all pl st now r names ps d = Inr d'" "values_ok d'"
    "dom (map_of d') = dom (map_of d) \<union> {k \<in> set (map pt_key ps). wanted names k}"
proof -
  have "\<exists>d'. put_all pl st now r names ps d = Inr d' \<and> values_ok d' \<and>
      dom (map_of d') = dom (map_of d) \<union> {k \<in> set (map pt_key ps). wanted names k}"
    using assms
  proof (induction ps arbitrary: d)
    case (Cons p ps)
    obtain v where v: "data_value_of pl st now r p = Inr v" "data_value_ok v"
      using put_ok_value Cons.prems(1) by (metis list.pred_inject(2))
    define d1 where "d1 = (if wanted names (pt_key p) then AList.update (pt_key p) v d else d)"
    have step: "put_value pl st now r names p d = Inr d1" by (simp add: put_value_alt v d1_def)
    have "values_ok d1"
      using Cons.prems(2) v(2)
      by (simp add: d1_def values_ok_def update_conv' distinct_update del: map_of_eq_Some_iff)
    moreover have "dom (map_of d1) = dom (map_of d) \<union> (if wanted names (pt_key p) then {pt_key p} else {})"
      by (auto simp: d1_def update_conv')
    ultimately show ?case using Cons.IH [of d1] Cons.prems(1) step by (auto split: if_splits)
  qed simp
  then show thesis using that by blast
qed

lemma put_all_other:
  "put_all pl st now r names ps d = Inr d' \<Longrightarrow> k \<notin> set (map pt_key ps) \<Longrightarrow> map_of d' k = map_of d k"
proof (induction ps arbitrary: d)
  case (Cons p ps)
  obtain d1 where d1: "put_value pl st now r names p d = Inr d1" "put_all pl st now r names ps d1 = Inr d'"
    using Cons.prems(1) by (auto simp: rbind_eq_Inr)
  have "map_of d1 k = map_of d k"
    using d1(1) Cons.prems(2) by (auto simp: put_value_alt rbind_eq_Inr update_conv' split: if_splits)
  then show ?case using Cons.IH [OF d1(2)] Cons.prems(2) by simp
qed simp

lemma put_all_at:
  "put_all pl st now r names ps d = Inr d' \<Longrightarrow> distinct (map pt_key ps) \<Longrightarrow> p \<in> set ps \<Longrightarrow> wanted names (pt_key p) \<Longrightarrow>
   \<exists>v. data_value_of pl st now r p = Inr v \<and> map_of d' (pt_key p) = Some v"
proof (induction ps arbitrary: d)
  case (Cons q ps)
  obtain d1 where d1: "put_value pl st now r names q d = Inr d1" "put_all pl st now r names ps d1 = Inr d'"
    using Cons.prems(1) by (auto simp: rbind_eq_Inr)
  show ?case
  proof (cases "p = q")
    case True
    then obtain v where "data_value_of pl st now r p = Inr v" "map_of d1 (pt_key p) = Some v"
      using d1(1) Cons.prems(4) by (auto simp: put_value_alt rbind_eq_Inr update_conv')
    then show ?thesis using put_all_other [OF d1(2), of "pt_key p"] Cons.prems(2) True by simp
  next
    case False
    then show ?thesis using Cons.IH [OF d1(2)] Cons.prems by simp
  qed
qed simp

text \<open>The keys of a snapshot.\<close>

definition snapshot_keys :: "bool \<Rightarrow> string list" where
  "snapshot_keys act =
     [''age_seconds'', ''market_freshness'', ''reserve_freshness'', ''trade_count_1m'', ''trade_count_5m'',
      ''buys_1m'', ''buys_5m'', ''sells_5m'', ''buy_ratio_5m''] @
     (if act then map fst ACTIVITY_UNITS else []) @
     [''unique_wallets_5m'', ''wallet_volume_hhi'', ''repeated_amount_ratio'', ''same_slot_ratio'',
      ''single_trade_wallet_ratio'', ''round_trip_wallet_ratio'', ''round_trip_volume_ratio'',
      ''net_quote_flow_ratio'', ''side_alternation_ratio'', ''quantized_amount_repeat_ratio'',
      ''slot_concentration_hhi'', ''price_direction_consistency'', ''multi_trade_signature_ratio'',
      ''microtrade_count_ratio'', ''meaningful_volume_ratio'', ''meaningful_wallet_ratio'',
      ''price_path_efficiency'', ''rapid_price_reversal_ratio'', ''known_wallet_trade_coverage'',
      ''signed_trade_coverage'', ''trade_window_span_seconds'', ''trade_buffer_saturated'', ''trade_density_5m'',
      ''median_trade_quote_sol'', ''creator_sells_5m'', ''curve_progress'', ''momentum_1m'', ''momentum_5m'',
      ''drawdown_5m'', ''volume_5m_sol'', ''virtual_quote_reserve_sol'', ''price_sol'', ''identity_source'',
      ''observed_fee_bps'', ''complete'', ''quote_mint'', ''mint_safety_verified''] @ map fst DEX_UNITS"

lemma metric_put_key [simp]: "pt_key (metric_put key u m) = key"
  by (simp add: metric_put_def split: prod.split)

lemma activity_put_key [simp]: "pt_key (activity_put st ms ku) = fst ku"
  by (simp add: activity_put_def Let_def split: prod.split)

lemma dex_put_key [simp]: "pt_key (dex_put st now ku) = fst ku"
  by (simp add: dex_put_def Let_def)

lemma snapshot_puts_keys: "map pt_key (snapshot_puts st now act r) = snapshot_keys act"
  by (simp add: snapshot_puts_def snapshot_keys_def market_puts_def activity_puts_def integrity_puts_def
      route_puts_def reserve_put_def identity_put_def safety_put_def comp_def)

lemma distinct_snapshot_keys: "distinct (snapshot_keys act)"
proof (cases act)
  case True
  have "distinct (snapshot_keys True)" by code_simp
  then show ?thesis using True by simp
next
  case False
  have "distinct (snapshot_keys False)" by code_simp
  then show ?thesis using False by simp
qed

lemma snapshot_result:
  assumes "stale \<noteq> 0" and "enrichment_ok st"
  obtains f where "fst (snapshot_state pl stale now pm act names st) = Inr f"
    "put_all pl st now (with_activity act (rolling_trade_metrics pl st now)) names
       (snapshot_puts st now act (with_activity act (rolling_trade_metrics pl st now))) [] = Inr (fs_values f)"
    "values_ok (fs_values f)" "fst ` set (fs_values f) = {k \<in> set (snapshot_keys act). wanted names k}"
    "0 \<le> fs_data_confidence f" "fs_data_confidence f \<le> 1"
    "fs_hard_flags f = hard_flags_of stale st now pm (with_activity act (rolling_trade_metrics pl st now))"
proof -
  define r where "r = with_activity act (rolling_trade_metrics pl st now)"
  obtain d where d: "put_all pl st now r names (snapshot_puts st now act r) [] = Inr d" "values_ok d"
      "dom (map_of d) = {k \<in> set (snapshot_keys act). wanted names k}"
    using put_all_ok [OF snapshot_puts_ok [OF assms(2)], of "[]" pl st now r names now act r]
    by (auto simp: values_ok_def snapshot_puts_keys)
  obtain c where c: "snapshot_confidence stale st now r = Inr c" "0 \<le> c" "c \<le> 1"
    using assms(1) by (simp add: snapshot_confidence_def Let_def)
  show thesis
    by (rule that [of "\<lparr> fs_mint = ts_mint st, fs_symbol = lt_symbol st, fs_name = lt_name st, fs_venue = ts_venue st,
                  fs_computed_at = now, fs_values = d, fs_data_confidence = c,
                  fs_hard_flags = hard_flags_of stale st now pm r \<rparr>"])
       (use d c in \<open>simp_all add: snapshot_state_def Let_def r_def [symmetric] dom_map_of_conv_image_fst\<close>)
qed

section \<open>Integrity metrics\<close>

definition unit_range :: "pyfloat \<Rightarrow> bool" where
  "unit_range x \<longleftrightarrow> 0 \<le> x \<and> x \<le> 1"

definition metric_ok :: "stream_metric \<Rightarrow> bool" where
  "metric_ok m \<longleftrightarrow>
     (case m of (v, quality, reason) \<Rightarrow>
        unit_range quality \<and> (\<forall>x. v = Some x \<longrightarrow> unit_range x \<and> reason = None) \<and> (v = None \<longrightarrow> reason \<noteq> None))"

lemma metric_ok_metric [simp]: "metric_ok (metric v quality reason minimum)"
  by (simp add: metric_ok_def metric_def unit_range_def split: option.split)

lemma true_div_share: "0 \<le> n \<Longrightarrow> n \<le> d \<Longrightarrow> unit_range (true_div n d)"
  by (cases "d = 0") (simp_all add: unit_range_def true_div_def divide_le_eq)

lemma coverage_range:
  assumes "length part \<le> length trades"
  shows "unit_range (coverage part trades)"
  using assms by (simp add: coverage_def true_div_share)

lemma coverage_known [simp]: "unit_range (coverage (known_trades trades) trades)"
  and coverage_valued [simp]: "unit_range (coverage (valued_trades trades) trades)"
  and coverage_signed [simp]: "unit_range (coverage (signatures trades) trades)"
  by (rule coverage_range; simp add: known_trades_def valued_trades_def signatures_def length_filter_le
      order_trans [OF length_filter_le])+

lemma median_nonneg: "median_quote_sol trades = Some x \<Longrightarrow> 0 < x"
proof -
  define xs where "xs = sort (map tr_quote_lamports (valued_trades trades))"
  have pos: "0 < xs ! i" if "i < length xs" for i
    using nth_mem [OF that] by (auto simp: xs_def valued_trades_def)
  show "0 < x" if "median_quote_sol trades = Some x"
  proof (cases "odd (length xs)")
    case True
    then have "length xs div 2 < length xs" by (cases "length xs") simp_all
    then have "0 < true_div (xs ! (length xs div 2)) SOL_IN_LAMPORTS"
      using pos by (intro true_div_pos) (simp_all add: SOL_IN_LAMPORTS_def)
    then show ?thesis
      using that True by (auto simp: median_quote_sol_def Let_def xs_def [symmetric] split: if_splits)
  next
    case False
    have "xs \<noteq> []" using that by (auto simp: median_quote_sol_def Let_def xs_def [symmetric])
    then have "0 < length xs" by simp
    then have lt: "length xs div 2 < length xs" "length xs div 2 - 1 < length xs" "length xs \<noteq> 0"
      by (simp_all add: less_imp_diff_less)
    have "0 < true_div (xs ! (length xs div 2 - 1) + xs ! (length xs div 2)) 2"
      using pos lt by (intro true_div_pos add_pos_pos) simp_all
    then show ?thesis
      using that False lt by (simp add: median_quote_sol_def Let_def xs_def [symmetric] SOL_IN_LAMPORTS_def fdiv_def) (metis rnd64_pos divide_pos_pos zero_less_numeral)
  qed
qed

section \<open>Refreshes\<close>

lemma update_same: "map_of d k = Some v \<Longrightarrow> AList.update k v d = d"
  by (induction d) (auto split: if_splits)

lemma slot_accepted:
  "\<not> slot_refused slot st \<Longrightarrow> lt_last_slot st \<le> slot \<and> ts_last_reserve_slot st \<le> slot \<and>
     (0 < ts_last_reserve_slot st \<longrightarrow> ts_last_reserve_slot st < slot)"
  by (auto simp: slot_refused_def)

definition refreshed :: "live_token \<Rightarrow> live_token \<Rightarrow> bool" where
  "refreshed st st' \<longleftrightarrow>
     lt_last_slot st \<le> ts_last_reserve_slot st' \<and> ts_last_reserve_slot st \<le> ts_last_reserve_slot st' \<and>
     (0 < ts_last_reserve_slot st \<longrightarrow> ts_last_reserve_slot st < ts_last_reserve_slot st') \<and>
     ts_venue st' = ts_venue st \<and> ts_pool_address st' = ts_pool_address st \<and>
     ts_curve_address st' = ts_curve_address st \<and> lt_trades st' = lt_trades st \<and>
     ts_reserve_source st' = WATCHDOG_SOURCE"

lemma refresh_curve_result:
  "refresh_curve c account slot ts oid st = (b, st') \<Longrightarrow>
     if b then refreshed st st' \<and> 0 < ts_virtual_token_reserves st' \<and> 0 < ts_virtual_quote_reserves st' else st' = st"
  using slot_accepted [of slot st]
  by (auto simp: refresh_curve_def Let_def refreshed_def stamp_refresh_def split: if_splits)

lemma refresh_pool_result:
  "refresh_pool pa ba qa base q vq slot ts oid st = (b, st') \<Longrightarrow>
     if b then refreshed st st' \<and> 0 < ts_virtual_token_reserves st' \<and> 0 < ts_virtual_quote_reserves st' else st' = st"
  using slot_accepted [of slot st]
  by (auto simp: refresh_pool_def Let_def refreshed_def stamp_refresh_def split: if_splits)

lemma apply_watchdog_result:
  "apply_watchdog snap st = (b, st') \<Longrightarrow>
     if b then refreshed st st' \<and> lt_reserve_audit st' \<noteq> None else st' = st"
  by (auto simp: apply_watchdog_def refreshed_def split: if_splits)

text \<open>The three refreshes of the position watchdog, as calls of the engine.\<close>

datatype refresh =
    Curve_Refresh string string "(string, json) pydict" int time string
  | Pool_Refresh string string string string int int int int time string
  | Snapshot_Refresh live_token

fun refresh_mint :: "refresh \<Rightarrow> string" where
  "refresh_mint (Curve_Refresh mint c account slot ts oid) = mint"
| "refresh_mint (Pool_Refresh mint pa ba qa base q vq slot ts oid) = mint"
| "refresh_mint (Snapshot_Refresh snap) = ts_mint snap"

fun run_refresh :: "refresh \<Rightarrow> (engine, bool) act" where
  "run_refresh (Curve_Refresh mint c account slot ts oid) = refresh_pump_curve mint c account slot ts oid"
| "run_refresh (Pool_Refresh mint pa ba qa base q vq slot ts oid) =
     refresh_pumpswap_reserves mint pa ba qa base q vq slot ts oid"
| "run_refresh (Snapshot_Refresh snap) = apply_validated_watchdog_snapshot snap"

fun refresh_token :: "refresh \<Rightarrow> live_token \<Rightarrow> bool \<times> live_token" where
  "refresh_token (Curve_Refresh mint c account slot ts oid) = refresh_curve c account slot ts oid"
| "refresh_token (Pool_Refresh mint pa ba qa base q vq slot ts oid) = refresh_pool pa ba qa base q vq slot ts oid"
| "refresh_token (Snapshot_Refresh snap) = apply_watchdog snap"

lemma run_refresh_alt: "run_refresh call = on_token (refresh_mint call) False (flip_call (refresh_token call))"
  by (cases call)
     (simp_all add: refresh_pump_curve_def refresh_pumpswap_reserves_def apply_validated_watchdog_snapshot_def)

lemma refresh_token_result:
  "refresh_token call st = (b, st') \<Longrightarrow> if b then refreshed st st' else st' = st"
  using refresh_curve_result refresh_pool_result apply_watchdog_result
  by (cases call) (fastforce split: if_splits)+

section \<open>Properties\<close>

text \<open>C30: What a snapshot of a token measures is its history. Along every run of a token (events, enrichment,
  route confirmations, refreshes, earlier snapshots) the bounded buffer never holds more than 5,000 trades;
  and unless the window reports saturation, its trades are exactly those of the whole history that were
  recorded up to a moment at most a second before, on the current venue and within five minutes.\<close>

theorem window_is_recent_history:
  assumes "token_run pl mint hist st" and "\<forall>l. ts_last_event_at st = Some l \<longrightarrow> l \<le> now"
  shows "length (lt_trades st) \<le> TRADE_BUFFER \<and>
    (let r = rolling_trade_metrics pl st now in
       rm_buffer_saturated r \<or>
       (\<exists>seen recent. hist = seen @ recent \<and>
          rm_trades_5m r = filter (trade_in_window (rm_computed_at r) (ts_venue st)) seen \<and>
          (rm_computed_at r = now \<and> recent = [] \<or>
           rm_computed_at r \<le> now \<and> total_seconds (now - rm_computed_at r) < 1)))"
proof
  have inv: "window_inv hist st" using assms(1) by (rule window_inv_run)
  then show "length (lt_trades st) \<le> TRADE_BUFFER" by (simp add: window_inv_def)
  show "let r = rolling_trade_metrics pl st now in
       rm_buffer_saturated r \<or>
       (\<exists>seen recent. hist = seen @ recent \<and>
          rm_trades_5m r = filter (trade_in_window (rm_computed_at r) (ts_venue st)) seen \<and>
          (rm_computed_at r = now \<and> recent = [] \<or>
           rm_computed_at r \<le> now \<and> total_seconds (now - rm_computed_at r) < 1))"
    unfolding Let_def
    using rolling_complete [OF inv cache_ok_run [OF assms(1)] _ refl, of now pl] assms(2) by blast
qed

definition sample_token :: live_token where
  "sample_token = snd (token_event sample_platform sample_trade (new_token ''m''))"

lemma sample_token_run:
  "token_run sample_platform ''m'' ([] @ observed_trades sample_platform sample_trade (new_token ''m'')) sample_token"
  unfolding sample_token_def by (intro token_run.event token_run.start)

theorem window_is_recent_history_witness:
  "\<exists>seen recent. observed_trades sample_platform sample_trade (new_token ''m'') = seen @ recent \<and>
     rm_trades_5m (rolling_trade_metrics sample_platform sample_token 2000000) =
       filter (trade_in_window (rm_computed_at (rolling_trade_metrics sample_platform sample_token 2000000))
         (ts_venue sample_token)) seen"
proof -
  have "ts_last_event_at sample_token = Some 1000000" by code_simp
  moreover have "\<not> rm_buffer_saturated (rolling_trade_metrics sample_platform sample_token 2000000)" by code_simp
  ultimately show ?thesis
    using window_is_recent_history [OF sample_token_run, of 2000000] unfolding Let_def by auto
qed


definition pinned_token :: live_token where
  "pinned_token = (new_token ''m'')\<lparr> ts_venue := ''pump_swap'', ts_pool_address := ''p'', lt_route_verified := True,
     ts_virtual_token_reserves := 500, ts_virtual_quote_reserves := 700 \<rparr>"


text \<open>C32: Watchdog refreshes are atomic and ordered. Each returns whether it applied. A refused one leaves
  the whole engine as it was; an applied one changes one token only, keeps its route and trades, is not behind
  any event of the token, and moves the slot of its reserve evidence forward (strictly, once there is any).\<close>

theorem refreshes_are_ordered:
  "\<exists>b en'. run_refresh call en = (Inr b, en') \<and> (\<not> b \<longrightarrow> en' = en) \<and>
     (b \<longrightarrow> (\<exists>st st'. map_of (en_tokens en) (refresh_mint call) = Some st \<and>
        map_of (en_tokens en') (refresh_mint call) = Some st' \<and> refreshed st st' \<and>
        (\<forall>m. m \<noteq> refresh_mint call \<longrightarrow> map_of (en_tokens en') m = map_of (en_tokens en) m)))"
proof (cases "map_of (en_tokens en) (refresh_mint call)")
  case None
  then show ?thesis by (intro exI [of _ False] exI [of _ en]) (simp add: run_refresh_alt on_token_def)
next
  case (Some st)
  obtain b st' where r: "refresh_token call st = (b, st')" by fastforce
  have run: "run_refresh call en = (Inr b, put_token (refresh_mint call) st' en)"
    by (simp add: run_refresh_alt on_token_def Some flip_call_def r)
  have "put_token (refresh_mint call) st en = en" by (simp add: put_token_def update_same [OF Some])
  then show ?thesis
    using refresh_token_result [OF r] Some unfolding run
    by (cases b) (auto simp: put_token_def update_conv')
qed

definition sample_engine_state :: engine where
  "sample_engine_state = \<lparr> en_tokens = [(''m'', sample_token)], en_stale_market_seconds = 20 \<rparr>"

definition sample_refresh :: refresh where
  "sample_refresh = Snapshot_Refresh (sample_token\<lparr> ts_last_reserve_slot := 9, lt_reserve_audit := Some (JObj []) \<rparr>)"

theorem refreshes_are_ordered_witness:
  "\<exists>en' st'. run_refresh sample_refresh sample_engine_state = (Inr True, en') \<and>
     map_of (en_tokens en') ''m'' = Some st' \<and> refreshed sample_token st'"
proof -
  have b: "(case run_refresh sample_refresh sample_engine_state of (Inr b, en) \<Rightarrow> b | _ \<Rightarrow> False)" by code_simp
  have m: "refresh_mint sample_refresh = ''m''" by code_simp
  have st: "map_of (en_tokens sample_engine_state) ''m'' = Some sample_token" by (simp add: sample_engine_state_def)
  show ?thesis
    using refreshes_are_ordered [of sample_refresh sample_engine_state] b st unfolding m by force
qed

text \<open>C33: Every snapshot of a token whose enrichment holds single values exists and has its declared type: the
  requested keys exactly, every freshness and quality and the confidence in range.\<close>

theorem snapshot_well_formed:
  assumes "stale_seconds \<noteq> 0" and "enrichment_ok st"
  shows "\<exists>f. fst (snapshot_state pl stale_seconds now position_mark include_activity names st) = Inr f \<and>
     dict_ok (fs_values f) \<and>
     fst ` set (fs_values f) = {k \<in> set (snapshot_keys include_activity). wanted names k} \<and>
     (\<forall>k v. map_of (fs_values f) k = Some v \<longrightarrow> data_value_ok v) \<and>
     0 \<le> fs_data_confidence f \<and> fs_data_confidence f \<le> 1"
proof -
  obtain f where f: "fst (snapshot_state pl stale_seconds now position_mark include_activity names st) = Inr f"
      "values_ok (fs_values f)" "fst ` set (fs_values f) = {k \<in> set (snapshot_keys include_activity). wanted names k}"
      "0 \<le> fs_data_confidence f" "fs_data_confidence f \<le> 1"
    by (rule snapshot_result [OF assms, of pl now position_mark include_activity names])
  show ?thesis
    using f(2) unfolding values_ok_def by (intro exI [of _ f] conjI f(1,3-5)) (elim conjE, assumption)+
qed

theorem snapshot_well_formed_witness:
  "\<exists>f. fst (snapshot_state sample_platform 20 2000000 False True None sample_token) = Inr f \<and>
     0 \<le> fs_data_confidence f \<and> fs_data_confidence f \<le> 1"
proof -
  have "enrichment_ok sample_token" by code_simp
  then show ?thesis using snapshot_well_formed [of 20 sample_token sample_platform 2000000 False True None] by auto
qed

text \<open>C34: The structure metrics of a window always have the same keys; every share is in the unit interval, its
  quality too, and a metric that the evidence does not carry is absent with a reason instead of zero.\<close>

theorem integrity_metrics_well_formed:
  "map fst (stream_integrity_metrics pl trades) = INTEGRITY_KEYS \<and>
   (\<forall>(key, m) \<in> set (stream_integrity_metrics pl trades).
      unit_range (fst (snd m)) \<and>
      (if key = ''median_trade_quote_sol''
       then \<forall>x. fst m = Some x \<longrightarrow> 0 < x
       else metric_ok m))"
proof (cases "trades = []")
  case True
  then show ?thesis
    by (simp add: stream_integrity_metrics_def INTEGRITY_KEYS_def metric_ok_def unit_range_def)
next
  case False
  have one: "unit_range 1" by (simp add: unit_range_def)
  have q: "unit_range (fst (snd (metric v quality reason minimum)))" for v quality reason minimum
    using metric_ok_metric [of v quality reason minimum] unfolding metric_ok_def
    by (cases "metric v quality reason minimum") simp
  show ?thesis
    using False median_nonneg [of trades]
    by (simp add: stream_integrity_metrics_def INTEGRITY_KEYS_def Let_def q one metric_ok_def [of "(Some _, 1, None)"])
qed

theorem integrity_metrics_well_formed_witness:
  "\<exists>m. (''net_quote_flow_ratio'', m) \<in> set (stream_integrity_metrics sample_platform (lt_trades sample_token)) \<and> metric_ok m"
proof -
  define ms where "ms = stream_integrity_metrics sample_platform (lt_trades sample_token)"
  have all: "map fst ms = INTEGRITY_KEYS"
      "\<forall>(key, m) \<in> set ms. unit_range (fst (snd m)) \<and>
         (if key = ''median_trade_quote_sol'' then \<forall>x. fst m = Some x \<longrightarrow> 0 < x else metric_ok m)"
    using integrity_metrics_well_formed [of sample_platform "lt_trades sample_token"] unfolding ms_def by blast+
  have "''net_quote_flow_ratio'' \<in> fst ` set ms" unfolding set_map [symmetric] all(1) by code_simp
  then obtain m where m: "(''net_quote_flow_ratio'', m) \<in> set ms" by force
  then have "metric_ok m" using all(2) by fastforce
  then show ?thesis using m unfolding ms_def by blast
qed

end
