(* ===== verification/Feed_Laws.thy ===== *)
theory Feed_Laws
  imports Feed Market_Laws
begin

text \<open>
  The laws of the feed: accepted events move a token's cursor forward, a clean verdict means that no loss of
  evidence was noted inside the window, and an entry decision rests on live, complete and verified evidence.
\<close>

section \<open>Lost evidence\<close>

lemma total_seconds_less_300: "\<not> total_seconds d < 300 \<longleftrightarrow> CLEAN_WINDOW \<le> d"
proof
  show "\<not> total_seconds d < 300" if "CLEAN_WINDOW \<le> d"
    using total_seconds_mono [OF that] total_seconds_of_seconds [of 300] by (simp add: CLEAN_WINDOW_def)
  show "CLEAN_WINDOW \<le> d" if ge: "\<not> total_seconds d < 300"
  proof (rule ccontr)
    assume "\<not> CLEAN_WINDOW \<le> d"
    then have "total_seconds d \<le> total_seconds (CLEAN_WINDOW - 1)" by (intro total_seconds_mono) simp
    moreover have "total_seconds (CLEAN_WINDOW - 1) < 300" by code_simp
    ultimately show False using ge by simp
  qed
qed

text \<open>A loss is still accounted for: by the stream's boundary, by the token's, or because it is too old to matter.\<close>

definition accounted_loss :: "feed \<Rightarrow> time \<Rightarrow> string option \<Rightarrow> time \<Rightarrow> bool" where
  "accounted_loss fd clock mint t \<longleftrightarrow>
     (\<exists>g. fd_stream_gap_at fd = Some g \<and> t \<le> g) \<or>
     (\<exists>m. mint = Some m \<and> m \<noteq> [] \<and>
        (t \<le> clock - CLEAN_WINDOW \<or> (\<exists>g. map_of (fd_mint_gap_at fd) m = Some g \<and> t \<le> g)))"

definition gap_inv :: "(string option \<times> time) list \<Rightarrow> time \<Rightarrow> feed \<Rightarrow> bool" where
  "gap_inv lost clock fd \<longleftrightarrow>
     (\<forall>(mint, t) \<in> set lost. t \<le> clock \<and> accounted_loss fd clock mint t) \<and>
     (\<forall>g. fd_stream_gap_at fd = Some g \<longrightarrow> g \<le> clock) \<and>
     dict_ok (fd_mint_gap_at fd) \<and> (\<forall>(m, g) \<in> set (fd_mint_gap_at fd). g \<le> clock)"

lemma gap_inv_later:
  assumes "gap_inv lost clock fd" and "clock \<le> t"
  shows "gap_inv lost t fd"
proof -
  have "accounted_loss fd t mint x" if "accounted_loss fd clock mint x" for mint x
    using that assms(2) unfolding accounted_loss_def by fastforce
  then show ?thesis using assms unfolding gap_inv_def by fastforce
qed

lemma gap_inv_mark:
  assumes "gap_inv lost t fd"
  shows "gap_inv ((mint, t) # lost) t (mark_stream_gap t fd')"
  using assms by (auto simp: gap_inv_def accounted_loss_def mark_stream_gap_def)

lemma expire_lookup:
  assumes "dict_ok gaps" and "map_of gaps m = Some g" and "t - CLEAN_WINDOW < g"
  shows "map_of (expire_gaps t gaps) m = Some g"
  using assms by (induction gaps) (auto simp: expire_gaps_def split: if_splits)

lemma expire_set: "set (expire_gaps t gaps) \<subseteq> set gaps" and expire_dict: "dict_ok gaps \<Longrightarrow> dict_ok (expire_gaps t gaps)"
  by (induction gaps) (auto simp: expire_gaps_def)

lemma gap_inv_note:
  assumes inv: "gap_inv lost t fd"
  shows "gap_inv ((mint, t) # lost) t (note_mint_gap mint t fd)"
proof (cases "mint = None \<or> mint = Some []")
  case True
  then show ?thesis using gap_inv_mark [OF inv] by (auto simp: note_mint_gap_def)
next
  case False
  then obtain m where m: "mint = Some m" "m \<noteq> []" by auto
  define gaps where "gaps = expire_gaps t (fd_mint_gap_at fd)"
  show ?thesis
  proof (cases "m \<notin> fst ` set gaps \<and> fd_max_gap_mints fd \<le> len gaps")
    case True
    then have "note_mint_gap mint t fd = mark_stream_gap t (fd\<lparr> fd_mint_gap_at := gaps \<rparr>)"
      using m by (simp add: note_mint_gap_def Let_def gaps_def)
    then show ?thesis using gap_inv_mark [OF inv] by simp
  next
    case False
    define fd' where "fd' = fd\<lparr> fd_mint_gap_at := AList.delete m gaps @ [(m, t)] \<rparr>"
    have fd': "note_mint_gap mint t fd = fd'"
      using False m by (simp add: note_mint_gap_def Let_def gaps_def fd'_def split del: if_split cong: if_cong)
        (simp add: if_not_P)
    have ok: "dict_ok (fd_mint_gap_at fd)" using inv by (simp add: gap_inv_def)
    have dgaps: "dict_ok gaps" using expire_dict [OF ok] by (simp add: gaps_def)
    have look: "map_of (fd_mint_gap_at fd') k = (if k = m then Some t else map_of gaps k)" for k
      by (simp add: fd'_def map_add_def delete_conv' map_of_append split: option.split)
    have acc: "accounted_loss fd' t mo x" if old: "accounted_loss fd t mo x" and le: "x \<le> t" for mo x
    proof (cases "\<exists>g. fd_stream_gap_at fd = Some g \<and> x \<le> g")
      case True
      then show ?thesis by (simp add: accounted_loss_def fd'_def)
    next
      case no: False
      then obtain k where k: "mo = Some k" "k \<noteq> []"
          "x \<le> t - CLEAN_WINDOW \<or> (\<exists>g. map_of (fd_mint_gap_at fd) k = Some g \<and> x \<le> g)"
        using old by (auto simp: accounted_loss_def)
      have "x \<le> t - CLEAN_WINDOW \<or> (\<exists>g. map_of (fd_mint_gap_at fd') k = Some g \<and> x \<le> g)"
      proof (rule disjE [OF k(3)])
        assume "\<exists>g. map_of (fd_mint_gap_at fd) k = Some g \<and> x \<le> g"
        then obtain g where g: "map_of (fd_mint_gap_at fd) k = Some g" "x \<le> g" by blast
        show ?thesis
        proof (cases "k = m \<or> g \<le> t - CLEAN_WINDOW")
          case True
          then show ?thesis using g(2) le by (auto simp: look)
        next
          case False
          then have "map_of gaps k = Some g" unfolding gaps_def by (intro expire_lookup [OF ok g(1)]) simp
          then show ?thesis using False g(2) by (auto simp: look)
        qed
      qed blast
      then show ?thesis using k(1,2) by (auto simp: accounted_loss_def)
    qed
    have "accounted_loss fd' t mint t" using m look by (auto simp: accounted_loss_def)
    moreover have "dict_ok (fd_mint_gap_at fd')"
      using dgaps distinct_delete [OF dgaps, of m] by (auto simp: fd'_def AList.delete_eq)
    moreover have "\<forall>(k, g) \<in> set (fd_mint_gap_at fd'). g \<le> t"
      using inv expire_set [of t "fd_mint_gap_at fd"] by (auto simp: fd'_def gap_inv_def gaps_def AList.delete_eq)
    moreover have "fd_stream_gap_at fd' = fd_stream_gap_at fd" by (simp add: fd'_def)
    ultimately show ?thesis using inv acc unfolding fd' gap_inv_def by fastforce
  qed
qed

lemma gap_inv_same:
  "gap_inv lost t fd \<Longrightarrow> fd_stream_gap_at fd' = fd_stream_gap_at fd \<Longrightarrow> fd_mint_gap_at fd' = fd_mint_gap_at fd \<Longrightarrow>
   gap_inv lost t fd'"
  by (simp add: gap_inv_def accounted_loss_def del: map_of_eq_Some_iff)

lemma check_stream_cases:
  assumes "check_stream h t fd = (ok, fd')"
  obtains (kept) "fd_stream_gap_at fd' = fd_stream_gap_at fd" "fd_mint_gap_at fd' = fd_mint_gap_at fd"
  | (marked) fd0 where "fd' = mark_stream_gap t fd0"
  using assms
  by (auto simp: check_stream_def note_reconnects_def Let_def split: if_splits)

lemma gaps_clear_inv:
  assumes inv: "gap_inv lost t fd" and run: "gaps_clear mint t fd = (clean, fd')"
  shows "gap_inv lost t fd'"
proof (cases "map_of (fd_mint_gap_at fd) mint")
  case None
  then show ?thesis using inv run by (auto simp: gaps_clear_def split: if_splits)
next
  case (Some g)
  have "accounted_loss fd' t mo x" if "accounted_loss fd t mo x" for mo x
    using that run Some
    by (auto simp: gaps_clear_def accounted_loss_def total_seconds_less_300 delete_conv' split: if_splits)
  moreover have "set (AList.delete mint (fd_mint_gap_at fd)) \<subseteq> set (fd_mint_gap_at fd)"
    by (auto simp: AList.delete_eq)
  ultimately show ?thesis
    using inv run Some by (auto simp: gaps_clear_def gap_inv_def distinct_delete split: if_splits)
qed

lemma window_clean_inv:
  assumes inv: "gap_inv lost t fd" and run: "window_clean h mint t fd = (clean, fd')"
  shows "gap_inv (if fd_stream_gap_at fd' = Some t then (None, t) # lost else lost) t fd'"
proof -
  obtain ok fd1 where c: "check_stream h t fd = (ok, fd1)" by fastforce
  have mid: "gap_inv lost t fd1"
    using c
  proof (cases rule: check_stream_cases)
    case kept
    then show ?thesis using gap_inv_same [OF inv] by blast
  next
    case (marked fd0)
    then show ?thesis using gap_inv_mark [OF inv, of None fd0] by (auto simp: gap_inv_def)
  qed
  have "gap_inv lost t fd'"
    using run c gaps_clear_inv [OF mid] mid by (auto simp: window_clean_def split: if_splits)
  then show ?thesis by (auto simp: gap_inv_def accounted_loss_def)
qed

lemma gap_run_inv: "gap_run lost clock fd \<Longrightarrow> gap_inv lost clock fd"
proof (induction rule: gap_run.induct)
  case (start fd clock)
  then show ?case by (simp add: gap_inv_def)
next
  case (stream lost clock fd t)
  then show ?case using gap_inv_mark gap_inv_later by blast
next
  case (token lost clock fd t mint)
  then show ?case using gap_inv_note gap_inv_later by blast
next
  case (decided lost clock fd t h mint clean fd')
  then show ?case using window_clean_inv gap_inv_later by blast
next
  case (other lost clock fd fd')
  then show ?case using gap_inv_same by blast
qed

lemma gaps_clear_loss:
  assumes inv: "gap_inv lost t fd" and clear: "gaps_clear mint t fd = (True, fd')"
    and loss: "(mo, x) \<in> set lost" and which: "mo = None \<or> mo = Some [] \<or> mo = Some mint"
  shows "x \<le> t - CLEAN_WINDOW"
proof -
  have acc: "accounted_loss fd t mo x" using inv loss by (auto simp: gap_inv_def)
  have stream: "g \<le> t - CLEAN_WINDOW" if "fd_stream_gap_at fd = Some g" for g
    using clear that total_seconds_less_300 [of "t - g"] by (auto simp: gaps_clear_def recent_gap_def split: if_splits)
  have own: "g \<le> t - CLEAN_WINDOW" if "map_of (fd_mint_gap_at fd) mint = Some g" for g
    using clear that total_seconds_less_300 [of "t - g"] by (auto simp: gaps_clear_def split: if_splits)
  show ?thesis using acc which stream own unfolding accounted_loss_def by (metis order_trans option.distinct(1) option.inject)
qed

lemma window_clean_loss:
  assumes inv: "gap_inv lost t fd" and clean: "window_clean h mint t fd = (True, fd')"
    and loss: "(mo, x) \<in> set lost" and which: "mo = None \<or> mo = Some [] \<or> mo = Some mint"
  shows "x \<le> t - CLEAN_WINDOW"
proof -
  obtain fd1 where c: "check_stream h t fd = (True, fd1)" "gaps_clear mint t fd1 = (True, fd')"
    using clean by (auto simp: window_clean_def split: prod.splits if_splits)
  from c(1) show ?thesis
  proof (cases rule: check_stream_cases)
    case kept
    then show ?thesis using gaps_clear_loss [OF gap_inv_same [OF inv] c(2) loss which] by blast
  next
    case (marked fd0)
    then have "gap_inv lost t fd1" using gap_inv_mark [OF inv, of None fd0] by (auto simp: gap_inv_def)
    then show ?thesis by (rule gaps_clear_loss [OF _ c(2) loss which])
  qed
qed

text \<open>A clean verdict needs a healthy live stream.\<close>

lemma window_clean_healthy:
  "window_clean h mint t fd = (True, fd') \<Longrightarrow> fd_demo_mode fd \<or> stream_healthy h"
  by (auto simp: window_clean_def check_stream_def Let_def split: if_splits prod.splits)

section \<open>Order\<close>

definition before :: "int \<times> int \<Rightarrow> int \<times> int \<Rightarrow> bool" where
  "before a b \<longleftrightarrow> fst a < fst b \<or> (fst a = fst b \<and> snd a < snd b)"

lemma accepted_cursor:
  assumes run: "accept_event_order ev sq now fd = (True, fd')" and mint: "me_mint ev = Some mint" "mint \<noteq> []"
  shows "order_cursor mint fd' = (max (event_slot ev) (fst (order_cursor mint fd)), sq)"
proof -
  obtain ls lq where c: "order_cursor mint fd = (ls, lq)" by fastforce
  have fd': "fd' = fd\<lparr> fd_order := AList.update mint (max (event_slot ev) ls, sq) (fd_order fd) \<rparr>"
    using run mint by (auto simp: accept_event_order_def c split: if_splits)
  show ?thesis
    using c by (auto simp: order_cursor_def fd' update_conv' Let_def split: if_splits prod.splits option.splits)
qed

lemma accepted_order:
  assumes run: "accept_event_order ev sq now fd = (True, fd')" and mint: "me_mint ev = Some mint" "mint \<noteq> []"
    and slot: "0 \<le> event_slot ev"
  shows "before (order_cursor mint fd) (order_cursor mint fd') \<and>
    (event_slot ev = 0 \<or> fst (order_cursor mint fd) \<le> event_slot ev) \<and> fd_engine fd' = fd_engine fd"
proof -
  obtain ls lq where c: "order_cursor mint fd = (ls, lq)" by fastforce
  have ok: "\<not> out_of_order mint ev sq fd" and fd': "fd' = fd\<lparr> fd_order := AList.update mint
      (max (event_slot ev) ls, sq) (fd_order fd) \<rparr>"
    using run mint by (auto simp: accept_event_order_def c split: if_splits)
  have "order_cursor mint fd' = (max (event_slot ev) ls, sq)" using accepted_cursor [OF run mint] by (simp add: c)
  moreover have "before (ls, lq) (max (event_slot ev) ls, sq)"
    using ok slot by (auto simp: out_of_order_def c before_def max_def)
  moreover have "event_slot ev = 0 \<or> ls \<le> event_slot ev"
    using ok slot by (auto simp: out_of_order_def c)
  ultimately show ?thesis by (simp add: c fd')
qed

lemma accepted_once:
  assumes run: "accept_event_order ev sq now fd = (True, fd')" and mint: "me_mint ev = Some mint" "mint \<noteq> []"
    and slot: "0 \<le> event_slot ev"
    and again: "me_mint ev' = Some mint" "0 \<le> event_slot ev'" "event_slot ev' \<le> event_slot ev" "sq' \<le> sq"
  shows "\<not> fst (accept_event_order ev' sq' now' fd')"
proof -
  have "order_cursor mint fd' = (max (event_slot ev) (fst (order_cursor mint fd)), sq)"
    by (rule accepted_cursor [OF run mint])
  then have "out_of_order mint ev' sq' fd'" using again slot by (auto simp: out_of_order_def)
  then show ?thesis using again(1) mint(2) by (simp add: accept_event_order_def)
qed

text \<open>A rejected event is a loss of evidence of its token.\<close>

lemma note_gap_dirty:
  assumes "m \<noteq> []" and "t - now < CLEAN_WINDOW"
  shows "\<not> fst (gaps_clear m t (note_mint_gap (Some m) now fd))"
proof -
  have recent: "total_seconds (t - now) < 300" using assms(2) total_seconds_less_300 [of "t - now"] by auto
  have last: "map_of (AList.delete m gaps @ [(m, now)]) m = Some now" for gaps
    by (simp add: map_of_append map_add_def delete_conv')
  show ?thesis
    using recent last assms(1)
    by (simp add: note_mint_gap_def Let_def mark_stream_gap_def gaps_clear_def recent_gap_def)
qed

section \<open>Entries\<close>

lemma entry_gates:
  assumes v: "v \<in> set SUPPORTED_BASELINE_VERSIONS"
    and d: "evaluate eng f mode planned limits (Some v) did created = Inr d" and enter: "de_action d = Enter"
  shows "fs_hard_flags f = [] \<and> 8 \<le> fs_number f ''trade_count_5m'' 0 \<and>
    5 \<le> fs_number f ''unique_wallets_5m'' 0 \<and> (v = BASELINE_VERSION \<longrightarrow> integrity_window_complete f)"
proof -
  define l where "l = (case limits of None \<Rightarrow> RISK_LIMITS mode | Some l \<Rightarrow> l)"
  have ne: "v \<noteq> []" using v by (auto simp: version_defs SUPPORTED_BASELINE_VERSIONS_def)
  obtain i where i: "engine_integrity f v = Inr i" by (rule engine_integrity_total [OF v, of f])
  have current: "\<exists>a. i = Some a" if "v = BASELINE_VERSION"
  proof -
    obtain a where "assess_market_integrity f INTEGRITY_POLICY_VERSION = Inr a"
      by (rule assess_market_integrity_Inr [of INTEGRITY_POLICY_VERSION f]) simp_all
    then show ?thesis using i that by (auto simp: engine_integrity_current)
  qed
  obtain danger impact edge where
    a: "de_action d = decide_action f ((fs_hard_flags f @ integrity_blockers f v i) @
          limit_blockers f l danger impact edge)"
    using d ne i v by (auto simp: evaluate_def Let_def l_def)
  have nil: "(fs_hard_flags f @ integrity_blockers f v i) @ limit_blockers f l danger impact edge = []"
    using enter unfolding a decide_enter .
  then show ?thesis
    using limit_gates [of f l danger impact edge] integrity_gates [of f] current by auto
qed

text \<open>Reading the snapshot of the decision path.\<close>

lemma snapshot_InrD:
  assumes "fst (snapshot_state pl stale now pm act names st) = Inr f"
  shows "put_all pl st now (with_activity act (rolling_trade_metrics pl st now)) names
       (snapshot_puts st now act (with_activity act (rolling_trade_metrics pl st now))) [] = Inr (fs_values f)"
    "fs_hard_flags f = hard_flags_of stale st now pm (with_activity act (rolling_trade_metrics pl st now))"
  using assms by (auto simp: snapshot_state_def Let_def rbind_eq_Inr)

lemma snapshot_value:
  assumes "fst (snapshot_state pl stale now pm act None st) = Inr f"
    and "p \<in> set (snapshot_puts st now act (with_activity act (rolling_trade_metrics pl st now)))"
    and "pt_value p = Some j" and "scalar_of_json pl j = Inr (Some x)"
  shows "\<exists>v. map_of (fs_values f) (pt_key p) = Some v \<and> dv_value v = Some x"
proof -
  have "distinct (map pt_key (snapshot_puts st now act (with_activity act (rolling_trade_metrics pl st now))))"
    unfolding snapshot_puts_keys by (rule distinct_snapshot_keys)
  from put_all_at [OF snapshot_InrD(1) [OF assms(1)] this assms(2)]
  obtain v where "data_value_of pl st now (with_activity act (rolling_trade_metrics pl st now)) p = Inr v"
      "map_of (fs_values f) (pt_key p) = Some v" by (auto simp: wanted_def)
  then show ?thesis
    using assms(3,4) by (auto simp: data_value_of_def raw_data_value_def Let_def split: if_splits)
qed

lemma snapshot_counts:
  assumes "fst (snapshot_state pl stale now pm act None st) = Inr f"
  defines "r \<equiv> with_activity act (rolling_trade_metrics pl st now)"
  shows "\<exists>v. map_of (fs_values f) ''trade_count_5m'' = Some v \<and> dv_value v = Some (SInt (len (rm_trades_5m r)))"
    "\<exists>v. map_of (fs_values f) ''unique_wallets_5m'' = Some v \<and> dv_value v = Some (SInt (len (rm_users r)))"
    "\<exists>v. map_of (fs_values f) ''trade_buffer_saturated'' = Some v \<and>
       dv_value v = Some (SBool (rm_buffer_saturated r \<or> buffer_saturated now st))"
  using snapshot_value [OF assms(1), of "plain_put ''trade_count_5m'' (jint (len (rm_trades_5m r))) ''count''"]
    snapshot_value [OF assms(1), of "plain_put ''unique_wallets_5m'' (jint (len (rm_users r))) ''count''"]
    snapshot_value [OF assms(1), of "plain_put ''trade_buffer_saturated''
        (Some (JBool (rm_buffer_saturated r \<or> buffer_saturated now st))) ''boolean''"]
  unfolding r_def by (simp_all add: snapshot_puts_def market_puts_def integrity_puts_def)

lemma count_at_least:
  assumes "map_of (fs_values f) key = Some v" and "dv_value v = Some (SInt n)" and "of_int k \<le> fs_number f key 0"
    and "\<bar>k\<bar> < 2 ^ 50"
  shows "k \<le> n"
proof (rule ccontr)
  assume "\<not> k \<le> n"
  then have "rnd64 (of_int n) \<le> of_int (k - 1)" using assms(4) by (intro rnd64_le_of_int) simp_all
  moreover have "fs_number f key 0 = rnd64 (of_int n)"
    by (simp add: fs_number_def assms(1,2) is_bool_scalar_def float_of_scalar_def float_of_int_def)
  ultimately show False using assms(3) by simp
qed

text \<open>The wallets of a window, also of a cached one.\<close>

definition users_ok :: "rolling_metrics \<Rightarrow> bool" where
  "users_ok r \<longleftrightarrow> rm_users r = unique (filter (\<lambda>u. u \<noteq> ''unknown'') (map tr_user (rm_trades_5m r)))"

lemma users_card: "users_ok r \<Longrightarrow> length (rm_users r) \<le> card (tr_user ` set (rm_trades_5m r))"
proof -
  assume ok: "users_ok r"
  have "length (rm_users r) = card (set (rm_users r))"
    using ok distinct_card [OF distinct_unique] unfolding users_ok_def by metis
  also have "\<dots> \<le> card (tr_user ` set (rm_trades_5m r))"
    using ok by (intro card_mono) (auto simp: users_ok_def)
  finally show ?thesis .
qed

lemma users_ok_window: "users_ok (window_metrics pl st now)"
  by (simp add: users_ok_def window_metrics_def Let_def)

lemma with_activity_users [simp]: "rm_users (with_activity b r) = rm_users r"
  by (simp add: with_activity_def)

lemma users_cached: "token_run pl mint hist st \<Longrightarrow> lt_rolling_trade_metrics st = Some r \<Longrightarrow> users_ok r"
proof (induction arbitrary: r rule: token_run.induct)
  case start
  then show ?case by (simp add: new_token_def)
next
  case (event hist st ev)
  then show ?case using event_keeps_cache by (cases "token_event pl ev st") fastforce
next
  case (viewed hist st now stale_seconds pm act names)
  have "users_ok (rolling_trade_metrics pl st now)"
    using viewed.IH users_ok_window by (cases rule: rolling_cases [of st pl now]) auto
  then show ?case using viewed.prems by (auto simp: snapshot_state_def Let_def users_ok_def)
qed (simp_all add: refresh_cache)

lemma rolling_users: "token_run pl mint hist st \<Longrightarrow> users_ok (rolling_trade_metrics pl st now)"
  using users_cached users_ok_window by (cases rule: rolling_cases [of st pl now]) auto

lemma flag_if_Nil [simp]: "flag_if b x = [] \<longleftrightarrow> \<not> b"
  by (simp add: flag_if_def)

text \<open>What the absence of hard flags says of the token.\<close>

definition live_market :: "int \<Rightarrow> live_token \<Rightarrow> time \<Rightarrow> bool" where
  "live_market stale_seconds st now \<longleftrightarrow>
     0 < ts_virtual_token_reserves st \<and> 0 < ts_virtual_quote_reserves st \<and>
     freshness st now \<le> of_int stale_seconds \<and>
     (ts_venue st = ''pump_swap'' \<longrightarrow> lt_route_verified st \<and> ts_quote_mint st = WRAPPED_SOL_MINT) \<and>
     (ts_venue st = ''pump_curve'' \<longrightarrow> \<not> lt_complete st) \<and>
     (live_source st \<longrightarrow> mint_safety st \<noteq> None) \<and>
     (\<forall>fs. safety_fields st = Some fs \<longrightarrow> (\<exists>v. map_of fs ''safe'' = Some v \<and> json_truthy v))"

lemma no_flags:
  assumes "hard_flags_of stale st now False r = []"
  shows "live_market stale st now \<and> creator_sells st r = 0"
proof -
  have mint: "(live_source st \<longrightarrow> mint_safety st \<noteq> None) \<and>
      (\<forall>fs. safety_fields st = Some fs \<longrightarrow> (\<exists>v. map_of fs ''safe'' = Some v \<and> json_truthy v))"
    if "mint_flags st = []"
    using that by (auto simp: mint_flags_def safety_fields_def split: if_splits option.splits json.splits)
  have route: "ts_venue st = ''pump_swap'' \<longrightarrow> lt_route_verified st \<and> ts_quote_mint st = WRAPPED_SOL_MINT"
    if "route_flags st = []"
    using that by (auto simp: route_flags_def split: if_splits)
  show ?thesis using assms mint route by (auto simp: hard_flags_of_def live_market_def)
qed

lemma zoom_run: "on_engine m fd = (case m (fd_engine fd) of (r, en) \<Rightarrow> (r, fd\<lparr> fd_engine := en \<rparr>))"
  by (simp add: on_engine_def zoom_def)

lemma decision_snapshot_InrD:
  assumes run: "decision_snapshot pl h mint now act fd = (Inr (Some f), fd')"
    and st: "map_of (en_tokens (fd_engine fd)) mint = Some st"
  obtains f0 fd1 clean where
    "fst (snapshot_state pl (en_stale_market_seconds (fd_engine fd)) now False act None st) = Inr f0"
    "fd_stream_gap_at fd1 = fd_stream_gap_at fd" "fd_mint_gap_at fd1 = fd_mint_gap_at fd"
    "window_clean h mint now fd1 = (clean, fd')"
    "f = f0\<lparr> fs_values := AList.update ''integrity_window_complete''
       (continuity_value (clean \<and> \<not> buffer_flag f0) now) (fs_values f0) \<rparr>"
proof -
  obtain x s' where s: "snapshot_state pl (en_stale_market_seconds (fd_engine fd)) now False act None st = (x, s')"
    by fastforce
  show thesis
    using run
    by (cases x)
       (auto simp: decision_snapshot_def bnd_def zoom_run engine_snapshot_def on_token_def st some_result_def s ret_def
          split: prod.splits intro: that [of _ "fd\<lparr> fd_engine := put_token mint s' (fd_engine fd) \<rparr>"])
qed

definition decision_window :: "platform \<Rightarrow> bool \<Rightarrow> live_token \<Rightarrow> time \<Rightarrow> trade_observation list" where
  "decision_window pl act st now = rm_trades_5m (with_activity act (rolling_trade_metrics pl st now))"

text \<open>The trades that an entry is based on: enough of them, from enough wallets, and no sale by the creator.\<close>

definition tradable :: "live_token \<Rightarrow> trade_observation list \<Rightarrow> bool" where
  "tradable st trades \<longleftrightarrow>
     8 \<le> length trades \<and> 5 \<le> card (tr_user ` set trades) \<and>
     list_all (\<lambda>t. tr_side t = Sell \<longrightarrow> tr_user t \<noteq> lt_creator st) trades"

text \<open>They are the complete recent history, up to a moment less than a second ago.\<close>

definition complete_window :: "trade_observation list \<Rightarrow> live_token \<Rightarrow> time \<Rightarrow> trade_observation list \<Rightarrow> bool" where
  "complete_window hist st now trades \<longleftrightarrow>
     (\<exists>seen recent upto. hist = seen @ recent \<and> upto \<le> now \<and> total_seconds (now - upto) < 1 \<and>
        trades = filter (trade_in_window upto (ts_venue st)) seen)"

lemma rolling_window_complete:
  assumes hist: "token_run pl mint hist st" and clock: "\<forall>l. ts_last_event_at st = Some l \<longrightarrow> l \<le> now"
    and whole: "\<not> rm_buffer_saturated (rolling_trade_metrics pl st now)"
  shows "complete_window hist st now (rm_trades_5m (rolling_trade_metrics pl st now))"
proof -
  have zero: "total_seconds 0 < 1" by code_simp
  obtain seen recent where c: "hist = seen @ recent"
      "rm_trades_5m (rolling_trade_metrics pl st now) =
         filter (trade_in_window (rm_computed_at (rolling_trade_metrics pl st now)) (ts_venue st)) seen"
      "rm_computed_at (rolling_trade_metrics pl st now) = now \<and> recent = [] \<or>
       rm_computed_at (rolling_trade_metrics pl st now) \<le> now \<and>
       total_seconds (now - rm_computed_at (rolling_trade_metrics pl st now)) < 1"
    using rolling_complete [OF window_inv_run [OF hist] cache_ok_run [OF hist] _ refl whole] clock by blast
  then show ?thesis
    using zero unfolding complete_window_def
    by (intro exI [of _ seen] exI [of _ recent] exI [of _ "rm_computed_at (rolling_trade_metrics pl st now)"]) auto
qed

lemma entry_evidence:
  assumes hist: "token_run pl mint hist st"
    and clock: "\<forall>l. ts_last_event_at st = Some l \<longrightarrow> l \<le> now"
    and lost: "gap_inv lost now fd"
    and st: "map_of (en_tokens (fd_engine fd)) mint = Some st"
    and snap: "decision_snapshot pl h mint now act fd = (Inr (Some f), fd')"
    and v: "v \<in> set SUPPORTED_BASELINE_VERSIONS"
    and d: "evaluate eng f mode planned limits (Some v) did created = Inr d" and enter: "de_action d = Enter"
  shows "live_market (en_stale_market_seconds (fd_engine fd)) st now \<and>
    tradable st (decision_window pl act st now) \<and>
    (v = BASELINE_VERSION \<longrightarrow>
       complete_window hist st now (decision_window pl act st now) \<and>
       (\<forall>(m, x) \<in> set lost. m = None \<or> m = Some [] \<or> m = Some mint \<longrightarrow> x \<le> now - CLEAN_WINDOW))"
proof -
  define stale where "stale = en_stale_market_seconds (fd_engine fd)"
  obtain f0 fd1 clean where f0: "fst (snapshot_state pl stale now False act None st) = Inr f0"
      "fd_stream_gap_at fd1 = fd_stream_gap_at fd" "fd_mint_gap_at fd1 = fd_mint_gap_at fd"
      "window_clean h mint now fd1 = (clean, fd')"
      "f = f0\<lparr> fs_values := AList.update ''integrity_window_complete''
       (continuity_value (clean \<and> \<not> buffer_flag f0) now) (fs_values f0) \<rparr>"
    unfolding stale_def by (rule decision_snapshot_InrD [OF snap st])
  define r where "r = with_activity act (rolling_trade_metrics pl st now)"
  have dw: "decision_window pl act st now = rm_trades_5m r" by (simp add: decision_window_def r_def)
  note gates = entry_gates [OF v d enter]
  have other: "map_of (fs_values f) k = map_of (fs_values f0) k" if "k \<noteq> ''integrity_window_complete''" for k
    using that by (simp add: f0(5) update_conv')
  obtain tc where tc: "map_of (fs_values f) ''trade_count_5m'' = Some tc"
      "dv_value tc = Some (SInt (len (rm_trades_5m r)))"
    using snapshot_counts(1) [OF f0(1)] other [of "''trade_count_5m''"] by (auto simp: r_def)
  obtain uw where uw: "map_of (fs_values f) ''unique_wallets_5m'' = Some uw"
      "dv_value uw = Some (SInt (len (rm_users r)))"
    using snapshot_counts(2) [OF f0(1)] other [of "''unique_wallets_5m''"] by (auto simp: r_def)
  have n: "8 \<le> len (rm_trades_5m r)" "5 \<le> len (rm_users r)"
    using count_at_least [OF tc, of 8] count_at_least [OF uw, of 5] gates by simp_all
  have "users_ok r" using rolling_users [OF hist, of now] by (simp add: r_def users_ok_def)
  then have users: "length (rm_users r) \<le> card (tr_user ` set (rm_trades_5m r))" by (rule users_card)
  have flags: "live_market stale st now" "creator_sells st r = 0"
    using no_flags [of stale st now r] snapshot_InrD(2) [OF f0(1)] gates by (simp_all add: f0(5) r_def)
  then have "tradable st (rm_trades_5m r)"
    using n users by (auto simp: tradable_def list_all_iff creator_sells_def count_if_def filter_empty_conv)
  moreover have "complete_window hist st now (rm_trades_5m r) \<and> clean" if "v = BASELINE_VERSION"
  proof -
    have whole: "integrity_window_complete f" using gates that by simp
    obtain sat where sat: "map_of (fs_values f) ''trade_buffer_saturated'' = Some sat"
        "dv_value sat = Some (SBool (rm_buffer_saturated r \<or> buffer_saturated now st))"
      using snapshot_counts(3) [OF f0(1)] other [of "''trade_buffer_saturated''"] by (auto simp: r_def)
    then have "\<not> rm_buffer_saturated r" and clean: clean
      using whole by (auto simp: integrity_window_complete_def Let_def is_true_def f0(5) update_conv'
          continuity_value_def split: if_splits)
    then have "complete_window hist st now (rm_trades_5m r)"
      using rolling_window_complete [OF hist clock] by (simp add: r_def)
    then show ?thesis using clean by blast
  qed
  moreover have "\<forall>(m, x) \<in> set lost. m = None \<or> m = Some [] \<or> m = Some mint \<longrightarrow> x \<le> now - CLEAN_WINDOW" if "clean"
    using window_clean_loss [OF gap_inv_same [OF lost f0(2,3)], of h mint fd'] f0(4) that by (auto simp: case_prod_beta)
  ultimately show ?thesis using flags(1) unfolding stale_def dw by blast
qed

section \<open>Properties\<close>

text \<open>C37: Events of a token are taken in causal order and at most once. An accepted event is not behind the slot of
  the token's evidence, moves its (slot, sequence) cursor strictly forward and touches no market state by
  itself; afterwards every event that is neither newer in the queue nor in a later slot is refused. A refused
  event dirties the token's evidence window for five minutes.\<close>

theorem accepted_events_are_causal:
  assumes "accept_event_order ev sequence now fd = (accepted, fd')"
    and "me_mint ev = Some mint" and "mint \<noteq> []" and "0 \<le> event_slot ev"
  shows "if accepted then
      before (order_cursor mint fd) (order_cursor mint fd') \<and> fd_engine fd' = fd_engine fd \<and>
      (event_slot ev = 0 \<or> fst (order_cursor mint fd) \<le> event_slot ev) \<and>
      (\<forall>ev' sequence' now'. me_mint ev' = Some mint \<and> 0 \<le> event_slot ev' \<and> event_slot ev' \<le> event_slot ev \<and>
         sequence' \<le> sequence \<longrightarrow> \<not> fst (accept_event_order ev' sequence' now' fd'))
    else (\<forall>t. t - now < CLEAN_WINDOW \<longrightarrow> \<not> fst (gaps_clear mint t fd'))"
proof (cases accepted)
  case True
  then have run: "accept_event_order ev sequence now fd = (True, fd')" using assms(1) by simp
  have "\<not> fst (accept_event_order ev' sequence' now' fd')"
    if "me_mint ev' = Some mint" "0 \<le> event_slot ev'" "event_slot ev' \<le> event_slot ev" "sequence' \<le> sequence"
    for ev' sequence' now'
    by (rule accepted_once [OF run assms(2-4) that])
  then show ?thesis using accepted_order [OF run assms(2-4)] True by simp
next
  case False
  then show ?thesis
    using assms note_gap_dirty [OF assms(3), of _ now] by (auto simp: accept_event_order_def split: if_splits)
qed

definition slot_event :: "int \<Rightarrow> market_event" where
  "slot_event n = sample_trade\<lparr> me_slot := Some n \<rparr>"

definition idle_feed :: "live_token \<Rightarrow> feed" where
  "idle_feed st = \<lparr> fd_engine = \<lparr> en_tokens = [(''m'', st)], en_stale_market_seconds = 20 \<rparr>, fd_order = [],
     fd_source_boundary = 0, fd_stream_gap_at = None, fd_mint_gap_at = [], fd_max_gap_mints = 10000,
     fd_last_reconnects = 0, fd_stream_was_healthy = True, fd_demo_mode = True, fd_reordered_events = 0,
     fd_route_regression_events = 0 \<rparr>"

theorem accepted_events_are_causal_witness:
  "\<exists>fd'. accept_event_order (slot_event 9) 3 0 (idle_feed sample_token) = (True, fd') \<and>
     before (order_cursor ''m'' (idle_feed sample_token)) (order_cursor ''m'' fd') \<and>
     \<not> fst (accept_event_order (slot_event 9) 3 0 fd')"
proof -
  define r where "r = accept_event_order (slot_event 9) 3 0 (idle_feed sample_token)"
  have ok: "fst r" unfolding r_def by code_simp
  have run: "accept_event_order (slot_event 9) 3 0 (idle_feed sample_token) = (True, snd r)"
    using ok unfolding r_def by (metis prod.collapse)
  have ev: "me_mint (slot_event 9) = Some ''m''" "(''m'' :: string) \<noteq> []" "0 \<le> event_slot (slot_event 9)"
    by (simp_all add: slot_event_def sample_trade_def event_slot_def)
  show ?thesis
    using accepted_events_are_causal [OF run ev] ev run unfolding if_True by blast
qed

text \<open>C36: A clean verdict on the five-minute window is never given while a loss of evidence lies in it. Along every
  run of the continuity account whose clock does not go back, if the window of a token is called clean, then
  the stream is healthy (or the demo feed runs), and every loss noted so far for the whole stream, for an
  unidentified token or for this token is at least five minutes old, although entries are forgotten, replaced
  and collapsed into a stream-wide boundary in between.\<close>

theorem clean_window_lost_nothing:
  assumes "gap_run lost clock fd" and "clock \<le> t" and "window_clean h mint t fd = (True, fd')"
  shows "(fd_demo_mode fd \<or> stream_healthy h) \<and>
    (\<forall>(m, x) \<in> set lost. m = None \<or> m = Some [] \<or> m = Some mint \<longrightarrow> x \<le> t - CLEAN_WINDOW)"
  using window_clean_healthy [OF assms(3)]
    window_clean_loss [OF gap_inv_later [OF gap_run_inv [OF assms(1)] assms(2)] assms(3)]
  by (auto simp: case_prod_beta)

definition gap_feed :: feed where
  "gap_feed = note_mint_gap (Some ''m'') 5 (idle_feed sample_token)"

theorem clean_window_lost_nothing_witness:
  "\<exists>fd'. window_clean \<lparr> ph_reconnects = 0, ph_connected = True, ph_last_error = False \<rparr> ''m'' 300000005 gap_feed = (True, fd') \<and>
     (5 :: int) \<le> 300000005 - CLEAN_WINDOW"
proof -
  define h where "h = \<lparr> ph_reconnects = 0, ph_connected = True, ph_last_error = False \<rparr>"
  have run: "gap_run [(Some ''m'', 5)] 5 gap_feed"
    unfolding gap_feed_def
    by (rule gap_run.token [OF gap_run.start [of _ 5]]) (simp_all add: idle_feed_def)
  have "fst (window_clean h ''m'' 300000005 gap_feed)" unfolding h_def by code_simp
  then obtain fd' where w: "window_clean h ''m'' 300000005 gap_feed = (True, fd')" by (metis prod.collapse)
  show ?thesis
    using clean_window_lost_nothing [OF run _ w] w unfolding h_def by auto
qed


text \<open>A concrete entry: a young token with eight trades of eight wallets.\<close>

definition young_event :: "event_kind \<Rightarrow> nat \<Rightarrow> market_event" where
  "young_event kind n =
     \<lparr> me_event_id = [char_of n], me_source = ''replay'', me_kind = kind, me_mint = Some ''m'', me_signature = None,
       me_slot = Some (int n), me_block_time = None, me_received_at = int n * 2000000, me_schema_version = 1,
       me_payload = [(''is_buy'', JBool True), (''token_amount'', JInt 1000000), (''sol_amount'', JInt 20000000),
         (''user'', JStr [char_of (65 + n)]), (''virtual_token_reserves'', JInt 900000),
         (''virtual_sol_reserves'', JInt 30000)] \<rparr>"

definition young_trade :: "nat \<Rightarrow> trade_observation" where
  "young_trade n =
     \<lparr> tr_received_at = int n * 2000000, tr_slot = int n, tr_side = Buy, tr_user = [char_of (65 + n)],
       tr_token_units = 1000000, tr_quote_lamports = 20000000, tr_price_sol = lit 2 100, tr_signature = [],
       tr_venue = ''pump_curve'' \<rparr>"

definition young_state :: "nat \<Rightarrow> live_token" where
  "young_state n = (new_token ''m'')
     \<lparr> ts_last_event_at := Some (int n * 2000000), ts_last_reserve_at := Some (int n * 2000000),
       ts_last_reserve_slot := int n, ts_reserve_source := ''replay'',
       ts_last_reserve_event_id := Some [char_of n],
       ts_virtual_token_reserves := 900000, ts_virtual_quote_reserves := 30000,
       lt_creator := ''A'', lt_created_at := Some 0, lt_last_event_id := Some [char_of n], lt_last_slot := int n,
       lt_trades := map young_trade [1..<Suc n], lt_sources := [''replay''] \<rparr>"

lemma young_start: "snd (token_event sample_platform (young_event EvCreate 0) (new_token ''m'')) = young_state 0"
  by code_simp

lemma young_steps_1:
  "snd (token_event sample_platform (young_event EvTrade 1) (young_state 0)) = young_state 1 \<and>
   snd (token_event sample_platform (young_event EvTrade 2) (young_state 1)) = young_state 2"
  by code_simp

lemma young_steps_2:
  "snd (token_event sample_platform (young_event EvTrade 3) (young_state 2)) = young_state 3 \<and>
   snd (token_event sample_platform (young_event EvTrade 4) (young_state 3)) = young_state 4"
  by code_simp

lemma young_steps_3:
  "snd (token_event sample_platform (young_event EvTrade 5) (young_state 4)) = young_state 5 \<and>
   snd (token_event sample_platform (young_event EvTrade 6) (young_state 5)) = young_state 6"
  by code_simp

lemma young_steps_4:
  "snd (token_event sample_platform (young_event EvTrade 7) (young_state 6)) = young_state 7 \<and>
   snd (token_event sample_platform (young_event EvTrade 8) (young_state 7)) = young_state 8"
  by code_simp

lemmas young_steps = young_steps_1 young_steps_2 young_steps_3 young_steps_4

definition young_token :: live_token where
  "young_token =
     token_events sample_platform (young_event EvCreate 0 # map (young_event EvTrade) [1..<9]) (new_token ''m'')"

lemma young_token: "young_token = young_state 8"
proof -
  have "[1..<9::nat] = [1, 2, 3, 4, 5, 6, 7, 8]" by code_simp
  then show ?thesis
    by (simp only: young_token_def token_events_simps list.map young_start young_steps)
qed

lemma token_run_events: "token_run pl mint hist st \<Longrightarrow> \<exists>hist'. token_run pl mint hist' (token_events pl evs st)"
proof (induction evs arbitrary: hist st)
  case (Cons ev evs)
  from Cons.IH [OF token_run.event [OF Cons.prems, of ev]] show ?case by simp
qed auto

lemma young_run: "\<exists>hist. token_run sample_platform ''m'' hist young_token"
  unfolding young_token_def by (rule token_run_events [OF token_run.start])

text \<open>The facts of the token that the decision depends on.\<close>

lemma young_facts8:
  "(ts_last_event_at (young_state 8) = Some 16000000) \<and>
   (lt_rolling_trade_metrics (young_state 8) = None) \<and>
   (enrichment_ok (young_state 8)) \<and>
   (token_age (young_state 8) 20000000 = 20) \<and>
   (length (filter (trade_in_window 20000000 (ts_venue (young_state 8))) (lt_trades (young_state 8))) = 8) \<and>
   (length (unique (filter (\<lambda>u. u \<noteq> ''unknown'')
     (map tr_user (filter (trade_in_window 20000000 (ts_venue (young_state 8))) (lt_trades (young_state 8)))))) = 8)"
  by code_simp

lemma young_flags8:
  "(ts_virtual_token_reserves (young_state 8) = 900000) \<and>
   (ts_virtual_quote_reserves (young_state 8) = 30000) \<and>
   (freshness (young_state 8) 20000000 = 4) \<and>
   (lt_complete (young_state 8) = False) \<and>
   (route_flags (young_state 8) = []) \<and>
   (lt_token_program (young_state 8) = []) \<and>
   (mint_flags (young_state 8) = []) \<and>
   (list_all (\<lambda>t. tr_side t = Buy) (lt_trades (young_state 8)))"
  by code_simp

lemmas young_facts = young_facts8 [folded young_token]
lemmas young_flags = young_flags8 [folded young_token]

lemma young_hard_flags: "hard_flags_of 20 young_token 20000000 False (rolling_trade_metrics sample_platform young_token 20000000) = []"
proof -
  have "rolling_trade_metrics sample_platform young_token 20000000 = window_metrics sample_platform young_token 20000000"
    by (simp add: rolling_trade_metrics_def cached_metrics_def young_facts)
  moreover have "creator_sells young_token (window_metrics sample_platform young_token 20000000) = 0"
    using young_flags by (auto simp: creator_sells_def count_if_def list_all_iff filter_empty_conv)
  ultimately show ?thesis by (simp add: hard_flags_of_def young_flags)
qed

text \<open>A decision without blockers is an entry.\<close>

lemma no_limit_blockers:
  assumes "d \<le> rl_max_danger l" "i \<le> rl_max_price_impact l" "rl_min_net_edge_index l \<le> n"
    "rl_min_confidence l \<le> fs_data_confidence f" "15 \<le> fs_number f ''age_seconds'' 0"
    "8 \<le> fs_number f ''trade_count_5m'' 0" "5 \<le> fs_number f ''unique_wallets_5m'' 0"
  shows "limit_blockers f l d i n = []"
  using assms by (simp add: limit_blockers_def not_less)

lemma legacy_entry:
  assumes "fs_hard_flags f = []" "0 \<le> fs_data_confidence f" "15 \<le> fs_number f ''age_seconds'' 0"
    "8 \<le> fs_number f ''trade_count_5m'' 0" "5 \<le> fs_number f ''unique_wallets_5m'' 0"
  shows "\<exists>l d. evaluate eng f Aggressive (Some 1) (Some l) (Some LEGACY_BASELINE_VERSION) did created = Inr d \<and>
    de_action d = Enter"
proof -
  define danger where "danger = danger_score f None"
  define impact where "impact = price_impact f 1"
  define edge where "edge = net_edge_index eng f 1 (opportunity_score f LEGACY_BASELINE_VERSION) danger impact"
  define l where "l = (RISK_LIMITS Aggressive)\<lparr> rl_max_danger := danger, rl_max_price_impact := impact,
    rl_min_confidence := 0, rl_min_net_edge_index := edge \<rparr>"
  have nil: "limit_blockers f l danger impact edge = []"
    by (rule no_limit_blockers) (use assms in \<open>simp_all add: l_def\<close>)
  have "decide_action f ([] @ limit_blockers f l danger impact edge) = Enter"
    unfolding decide_enter using nil by simp
  moreover have "LEGACY_BASELINE_VERSION \<in> set SUPPORTED_BASELINE_VERSIONS" "LEGACY_BASELINE_VERSION \<noteq> []"
    "engine_integrity f LEGACY_BASELINE_VERSION = Inr None"
    by (auto simp: SUPPORTED_BASELINE_VERSIONS_def version_defs engine_integrity_def)
  ultimately have "\<exists>d. evaluate eng f Aggressive (Some 1) (Some l) (Some LEGACY_BASELINE_VERSION) did created = Inr d \<and>
      de_action d = Enter"
    using assms(1) nil
    by (simp add: evaluate_def Let_def integrity_blockers_def danger_def [symmetric] impact_def [symmetric]
          edge_def [symmetric])
  then show ?thesis by blast
qed

lemma decision_snapshot_demo:
  assumes "map_of (en_tokens (fd_engine fd)) mint = Some st"
    and "fst (snapshot_state pl (en_stale_market_seconds (fd_engine fd)) now False act None st) = Inr f0"
  shows "\<exists>c fd'. decision_snapshot pl h mint now act fd = (Inr (Some (f0\<lparr> fs_values :=
      AList.update ''integrity_window_complete'' (continuity_value c now) (fs_values f0) \<rparr>)), fd')"
  using assms
  by (cases "snapshot_state pl (en_stale_market_seconds (fd_engine fd)) now False act None st")
     (auto simp: decision_snapshot_def bnd_def zoom_run engine_snapshot_def on_token_def some_result_def ret_def
        split: prod.splits)

lemma fs_number_at:
  "map_of (fs_values f) key = Some v \<Longrightarrow> dv_value v = Some (SInt n) \<Longrightarrow> fs_number f key 0 = rnd64 (of_int n)"
  "map_of (fs_values f) key = Some v \<Longrightarrow> dv_value v = Some (SFloat x) \<Longrightarrow> fs_number f key 0 = x"
  by (simp_all add: fs_number_def is_bool_scalar_def float_of_scalar_def float_of_int_def)


text \<open>C40: The account of losses relies on a clock that does not go back. Losses are noted at the wall clock, decisions
  are taken at the time of the event. Once a loss of another token is noted five minutes after the loss of a
  token, the earlier loss is forgotten at every decision time, also at one that lies within five minutes of it
  and at which it had blocked the window before.\<close>

theorem later_loss_forgets_earlier:
  assumes "fd_mint_gap_at fd = [(mint, x)]" and "other \<noteq> mint" and "other \<noteq> []" and "x \<le> y - CLEAN_WINDOW"
    and "0 < fd_max_gap_mints fd" and "\<not> recent_gap t (fd_stream_gap_at fd)"
  shows "fst (gaps_clear mint t (note_mint_gap (Some other) y fd)) \<and>
    (total_seconds (t - x) < 300 \<longrightarrow> \<not> fst (gaps_clear mint t fd))"
  using assms by (simp add: note_mint_gap_def expire_gaps_def gaps_clear_def Let_def)

theorem later_loss_forgets_earlier_witness:
  "fst (gaps_clear ''m'' 280000000 (note_mint_gap (Some ''n'') 300000000 (note_mint_gap (Some ''m'') 0 (idle_feed sample_token)))) \<and>
   \<not> fst (gaps_clear ''m'' 280000000 (note_mint_gap (Some ''m'') 0 (idle_feed sample_token)))"
proof -
  define fd where "fd = note_mint_gap (Some ''m'') 0 (idle_feed sample_token)"
  have fd: "fd_mint_gap_at fd = [(''m'', 0)]" "0 < fd_max_gap_mints fd" "fd_stream_gap_at fd = None"
    by (simp_all add: fd_def note_mint_gap_def expire_gaps_def idle_feed_def)
  have "total_seconds (280000000 - 0) < 300" "(0 :: int) \<le> 300000000 - CLEAN_WINDOW" by code_simp+
  then show ?thesis
    using later_loss_forgets_earlier [OF fd(1), of "''n''" 300000000 280000000] fd
    unfolding fd_def [symmetric] by (simp add: recent_gap_def)
qed

end
