(* ===== verification/Worker_Example.thy ===== *)
theory Worker_Example
  imports Broker_Laws Worker Candidate_Laws Advisors_Laws Feed_Laws
begin

text \<open>
  A concrete event that ends in an order: the eighth trade of a young token reaches a worker whose broker is
  funded and runs the legacy strategy. The run goes through every stage of the handler, and the laws of the
  handler are applied to it.
\<close>

section \<open>The broker\<close>

text \<open>A funded broker under the legacy strategy, whose limits are the aggressive ones with some gates set freely.\<close>

definition free_limits :: "pyfloat \<Rightarrow> pyfloat \<Rightarrow> pyfloat \<Rightarrow> risk_limits" where
  "free_limits danger impact edge = (RISK_LIMITS Aggressive)\<lparr> rl_max_danger := danger, rl_max_price_impact := impact,
     rl_min_confidence := 0, rl_min_net_edge_index := edge \<rparr>"

definition funded_tables :: tables where
  "funded_tables = empty_tables\<lparr>
     tb_settings := [(''equity_peak_basis'', JStr EQUITY_PEAK_BASIS), (''peak_equity_lamports'', JInt 1000000000000)],
     tb_ledger := [\<lparr> le_tx_id = ''t'', le_created_at = 0, le_account = ''cash'', le_debit = 1000000000000,
                     le_credit = 0, le_memo = '''' \<rparr>] \<rparr>"

definition funded_broker :: "risk_limits \<Rightarrow> nat \<Rightarrow> nat \<Rightarrow> broker" where
  "funded_broker l c n = new_broker\<lparr>
     bk_store := \<lparr> st_tables = funded_tables, st_strategy_cache = None, st_clock = c, st_fresh = n \<rparr>,
     bk_initialized := True, bk_starting_lamports := 1000000000000,
     bk_season_profile := Some
     \<lparr> sp_schema_version = 1, sp_provenance = ''canonical'', sp_risk_mode = Aggressive, sp_risk_policy_version = ''v'',
       sp_baseline_version = LEGACY_BASELINE_VERSION, sp_integrity_policy_version = ''i'',
       sp_sizing_policy_version = ''legacy'', sp_risk_limits = l,
       sp_drawdown_policy = \<lparr> dp_kind = DrawdownDefault, dp_custom_threshold_bps = None \<rparr>,
       sp_effective_drawdown_bps = None, sp_profile_fingerprint = ''p'', sp_learning_fingerprint = None,
       sp_locked_at = None \<rparr> \<rparr>"

lemma funded_sel:
  "bk_initialized (funded_broker l c n)" "bk_starting_lamports (funded_broker l c n) = 1000000000000"
  "bk_positions (funded_broker l c n) = []" "bk_pending (funded_broker l c n) = []"
  "bk_traded_mints (funded_broker l c n) = []" "bk_quote_currency (funded_broker l c n) = SOL"
  "bk_season_id (funded_broker l c n) = None"
  "bk_store (funded_broker l c n) = \<lparr> st_tables = funded_tables, st_strategy_cache = None, st_clock = c, st_fresh = n \<rparr>"
  "(funded_broker l c n)\<lparr> bk_store := \<lparr> st_tables = funded_tables, st_strategy_cache = None, st_clock = c', st_fresh = n' \<rparr> \<rparr> =
     funded_broker l c' n'"
  "risk_limits_of (funded_broker l c n) (Some Aggressive) = l"
  "drawdown_limit_fraction (funded_broker l c n) (Some Aggressive) = None"
  "cash_lamports (funded_broker l c n) = 1000000000000"
  by (simp_all add: funded_broker_def new_broker_def risk_limits_of_def selected_mode_def drawdown_limit_fraction_def
      cash_lamports_def ledger_balance_def funded_tables_def empty_tables_def)

definition funded_portfolio :: "risk_limits \<Rightarrow> nat \<Rightarrow> nat \<Rightarrow> portfolio_snapshot" where
  "funded_portfolio l c n =
     portfolio_of sample_ctx (Some Aggressive) (int c * 1000000) (funded_broker l (Suc c) n) 1000000000000 0"

lemma funded_equity: "executable_equity sample_ctx now (funded_broker l c n) = 1000000000000"
  by (simp add: executable_equity_def funded_sel observed_positions_def active_positions_def sum_int_def)

lemma funded_snapshot:
  "snapshot sample_ctx (Some Aggressive) True (funded_broker l c n) =
     (Inr (funded_portfolio l c n), funded_broker l (Suc c) n)"
proof -
  have ok: "portfolio_fields_ok (funded_portfolio l c n)"
    unfolding funded_portfolio_def by (rule empty_portfolio_ok) (simp_all add: funded_sel)
  have wall: "on_db (wall_now (cx_env sample_ctx)) (funded_broker l c n) = (Inr (int c * 1000000), funded_broker l (Suc c) n)"
    by (simp add: on_db_def zoom_def wall_now_def seq_def bnd_def gets_def modify_def ret_def funded_sel)
       (simp add: sample_ctx_def)
  have peak: "previous_peak sample_ctx True e (funded_broker l c n) = (Inr 1000000000000, funded_broker l c n)" for e c
    by (simp add: previous_peak_def bnd_def gets_def lift_def funded_sel funded_tables_def empty_tables_def get_setting_def
        setting_int_def)
  have realized: "setting_int (tables_of (funded_broker l c n)) ''realized_pnl_lamports'' 0 = Inr 0" for c
    by (simp add: funded_sel setting_int_def get_setting_def funded_tables_def empty_tables_def)
  show ?thesis
    by (simp add: snapshot_def bnd_def wall peak gets_def seq_def when_do_def funded_equity ret_def lift_def guard_def Let_def
        realized funded_portfolio_def [symmetric] ok)
qed

lemma funded_portfolio:
  "pf_equity_lamports (funded_portfolio l c n) = 1000000000000" "pf_cash_lamports (funded_portfolio l c n) = 1000000000000"
  "pf_positions (funded_portfolio l c n) = []" "pf_realized_pnl_lamports (funded_portfolio l c n) = 0"
  by (simp_all add: funded_portfolio_def portfolio_of_def Let_def funded_equity funded_sel observed_positions_def)

definition funded_size :: pyfloat where
  "funded_size = planned_size_from_portfolio (funded_broker (RISK_LIMITS Aggressive) 0 0) (RISK_LIMITS Aggressive)
     (funded_portfolio (RISK_LIMITS Aggressive) 0 0) None"

lemma free_limits_sel:
  "rl_order_size_sol (free_limits x y z) = rl_order_size_sol (RISK_LIMITS Aggressive)"
  "rl_max_exposure_fraction (free_limits x y z) = rl_max_exposure_fraction (RISK_LIMITS Aggressive)"
  "rl_max_open_positions (free_limits x y z) = rl_max_open_positions (RISK_LIMITS Aggressive)"
  by (simp_all add: free_limits_def del: RISK_LIMITS.simps)

lemma planned_size_cong:
  "bk_initialized b \<Longrightarrow> 0 < bk_starting_lamports b \<Longrightarrow>
   planned_size_from_portfolio b l p price =
     (case sol_lamports_from_account_minor (bk_quote_currency b) (per_position_cap l (pf_equity_lamports p)) price of
        Inl e \<Rightarrow> rl_order_size_sol l
      | Inr cap \<Rightarrow> true_div (max 1 (min (py_int (fmul (fmul (rl_order_size_sol l) lamports_f)
          (growth_factor (realized_bankroll b p) (bk_starting_lamports b)))) cap)) LAMPORTS_PER_SOL)"
  by (simp add: planned_size_from_portfolio_def Let_def)

lemma funded_bankroll: "realized_bankroll (funded_broker l c n) (funded_portfolio l' c' n') = 1000000000000"
  by (simp add: realized_bankroll_def funded_sel funded_portfolio)

lemma funded_planned:
  "planned_order_size_sol sample_ctx Aggressive price (funded_broker (free_limits x y z) c n) =
     (Inr funded_size, funded_broker (free_limits x y z) (Suc c) n)"
proof -
  have "planned_size_from_portfolio (funded_broker l c n) (free_limits x y z) (funded_portfolio l c' n) price = funded_size" for l c'
    unfolding funded_size_def
    by (simp add: planned_size_cong funded_sel funded_portfolio funded_bankroll per_position_cap_def free_limits_sel
        sol_lamports_from_account_minor_def del: RISK_LIMITS.simps)
  then show ?thesis by (simp add: planned_order_size_sol_def bnd_def gets_def ret_def funded_sel funded_snapshot)
qed

lemma funded_size_value:
  "funded_size = true_div (max 1 (min (py_int (fmul (fmul (rl_order_size_sol (RISK_LIMITS Aggressive)) lamports_f)
     (growth_factor 1000000000000 1000000000000))) (per_position_cap (RISK_LIMITS Aggressive) 1000000000000))) LAMPORTS_PER_SOL"
  unfolding funded_size_def
  by (simp add: planned_size_cong funded_sel funded_portfolio funded_bankroll sol_lamports_from_account_minor_def max_def
      del: RISK_LIMITS.simps)

lemma funded_growth: "growth_factor 1000000000000 1000000000000 = 1 \<and>
  per_position_cap (RISK_LIMITS Aggressive) 1000000000000 = 33333333333 \<and>
  py_int (fmul (fmul (rl_order_size_sol (RISK_LIMITS Aggressive)) lamports_f) 1) = 50000000"
  by code_simp

lemma funded_amounts: "sol_lamports (true_div 50000000 LAMPORTS_PER_SOL) = 50000000 \<and> true_div 50000000 LAMPORTS_PER_SOL \<noteq> 0 \<and>
  exposure_maximum (RISK_LIMITS Aggressive) 1000000000000 = 200000000000 \<and> network_fee sample_ctx = 30000"
  by code_simp

lemma funded_size_fits:
  "funded_size \<noteq> 0 \<and> sol_lamports funded_size = 50000000 \<and> network_fee sample_ctx = 30000 \<and>
   exposure_maximum (RISK_LIMITS Aggressive) 1000000000000 = 200000000000"
proof -
  have "funded_size = true_div 50000000 LAMPORTS_PER_SOL"
    unfolding funded_size_value conjunct1 [OF funded_growth] conjunct2 [OF conjunct2 [OF funded_growth]]
      conjunct1 [OF conjunct2 [OF funded_growth]] by simp
  then show ?thesis using funded_amounts by simp
qed

lemma funded_gate:
  assumes "de_planned_order_size_sol d = Some funded_size" and "de_risk_mode d = Aggressive"
  shows "portfolio_gate sample_ctx (funded_broker (free_limits x y z) c n) d price (funded_portfolio (free_limits x y z) c' n') =
    Inr (Inr (sol_lamports funded_size, sol_lamports funded_size + network_fee sample_ctx))"
proof -
  have "0 < rl_max_open_positions (free_limits x y z)" unfolding free_limits_sel by simp
  moreover have "exposure_maximum (free_limits x y z) e = exposure_maximum (RISK_LIMITS Aggressive) e" for e
    by (simp add: exposure_maximum_def free_limits_def)
  ultimately show ?thesis
    using funded_size_fits
    by (simp add: portfolio_gate_def Let_def assms capacity_positions_def funded_portfolio funded_sel pending_buys_def
        account_minor_from_sol_def reserved_sum_def sum_int_def)
qed

lemma legacy_receipt: "de_model_version d = LEGACY_BASELINE_VERSION \<Longrightarrow> entry_strategy_receipt_blocker env d = Inr None"
proof -
  assume v: "de_model_version d = LEGACY_BASELINE_VERSION"
  have "hd (split_on CHR ''+'' LEGACY_BASELINE_VERSION) = LEGACY_BASELINE_VERSION" by code_simp
  then show ?thesis by (simp add: entry_strategy_receipt_blocker_def Let_def baseline_of_def v)
qed

text \<open>A legacy entry of the planned size passes the gate.\<close>

definition legacy_order :: "decision \<Rightarrow> bool" where
  "legacy_order d \<longleftrightarrow> de_action d = Enter \<and> de_risk_mode d = Aggressive \<and> de_planned_order_size_sol d = Some funded_size \<and>
     de_model_version d = LEGACY_BASELINE_VERSION \<and> de_season_id d = None"

lemma funded_assessment:
  assumes "legacy_order d"
  shows "entry_assessment sample_ctx d price (funded_broker (free_limits x y z) c n) =
    (Inr (Inr (sol_lamports funded_size, sol_lamports funded_size + network_fee sample_ctx)),
     funded_broker (free_limits x y z) (Suc c) n)"
  using assms unfolding legacy_order_def
  by (simp add: entry_assessment_def bnd_def gets_def ret_def lift_def legacy_receipt funded_sel has_pending_for_def
      funded_snapshot funded_gate)

lemma legacy_entry_free:
  assumes "fs_hard_flags f = []" "0 \<le> fs_data_confidence f" "15 \<le> fs_number f ''age_seconds'' 0"
    "8 \<le> fs_number f ''trade_count_5m'' 0" "5 \<le> fs_number f ''unique_wallets_5m'' 0"
  shows "\<exists>x y z. \<forall>did created. \<exists>d.
    evaluate eng f Aggressive (Some funded_size) (Some (free_limits x y z)) (Some LEGACY_BASELINE_VERSION) did created = Inr d \<and>
    legacy_order d"
proof -
  define danger where "danger = danger_score f None"
  define impact where "impact = price_impact f funded_size"
  define edge where "edge = net_edge_index eng f funded_size (opportunity_score f LEGACY_BASELINE_VERSION) danger impact"
  define l where "l = free_limits danger impact edge"
  have nil: "limit_blockers f l danger impact edge = []"
    by (rule no_limit_blockers) (use assms in \<open>simp_all add: l_def free_limits_def\<close>)
  have "decide_action f ([] @ limit_blockers f l danger impact edge) = Enter"
    unfolding decide_enter using nil by simp
  moreover have "LEGACY_BASELINE_VERSION \<in> set SUPPORTED_BASELINE_VERSIONS" "LEGACY_BASELINE_VERSION \<noteq> []"
    "engine_integrity f LEGACY_BASELINE_VERSION = Inr None"
    by (auto simp: SUPPORTED_BASELINE_VERSIONS_def version_defs engine_integrity_def)
  ultimately have "\<exists>d. evaluate eng f Aggressive (Some funded_size) (Some l) (Some LEGACY_BASELINE_VERSION) did created = Inr d \<and>
      legacy_order d" for did created
    using assms(1) nil funded_size_fits
    by (simp add: evaluate_def Let_def integrity_blockers_def danger_def [symmetric] impact_def [symmetric]
          edge_def [symmetric] legacy_order_def)
  then show ?thesis unfolding l_def by blast
qed

lemma funded_prepare:
  assumes "\<forall>did created. \<exists>d. evaluate (fill_engine sample_ctx) f Aggressive (Some funded_size) (Some (free_limits x y z))
     (Some LEGACY_BASELINE_VERSION) did created = Inr d \<and> legacy_order d"
  shows "\<exists>d. prepare_baseline_decision sample_ctx fp f Aggressive price (funded_broker (free_limits x y z) c n) =
      (Inr (d, True), funded_broker (free_limits x y z) (c + 3) (Suc n)) \<and> legacy_order d"
proof -
  let ?b = "funded_broker (free_limits x y z)"
  obtain d0 where d0: "evaluate (fill_engine sample_ctx) f Aggressive (Some funded_size) (Some (free_limits x y z))
     (Some LEGACY_BASELINE_VERSION) (en_uuid (cx_env sample_ctx) n) (en_wall (cx_env sample_ctx) (Suc c)) = Inr d0" "legacy_order d0"
    using assms by blast
  have strategy: "sv_baseline (active_strategy_versions (?b c n)) = LEGACY_BASELINE_VERSION"
    "sv_sizing (active_strategy_versions (?b c n)) \<noteq> SIZING_POLICY_VERSION" for c n
    by (simp_all add: active_strategy_versions_def funded_broker_def SIZING_POLICY_VERSION_def)
  have ev: "evaluate_size sample_ctx f Aggressive (free_limits x y z) LEGACY_BASELINE_VERSION funded_size (?b (Suc c) n) =
      (Inr d0, ?b (Suc (Suc c)) (Suc n))"
    using d0(1)
    by (simp add: evaluate_size_def on_db_def zoom_def fresh_uuid_def wall_now_def seq_def bnd_def gets_def modify_def
        ret_def lift_def funded_sel)
  have sized: "evaluate_baseline_with_size sample_ctx f Aggressive funded_size price (?b (Suc c) n) =
      (Inr d0, ?b (Suc (Suc c)) (Suc n))"
    using ev by (simp add: evaluate_baseline_with_size_def Let_def strategy bnd_def gets_def ret_def funded_sel)
  define d where "d = d0\<lparr> de_season_id := bk_season_id (?b (Suc (Suc c)) (Suc n)),
      de_season_profile_fingerprint := map_option sp_profile_fingerprint (bk_season_profile (?b (Suc (Suc c)) (Suc n))),
      de_configuration_fingerprint := Some (fp (active_strategy_versions (?b (Suc (Suc c)) (Suc n)))) \<rparr>"
  have d: "legacy_order d" using d0(2) by (simp add: legacy_order_def d_def funded_sel)
  then have gate: "entry_blocker sample_ctx d price (?b (Suc (Suc c)) (Suc n)) = (Inr None, ?b (Suc (Suc (Suc c))) (Suc n))"
    by (simp add: entry_blocker_def bnd_def ret_def funded_assessment)
  have "de_action d0 = Enter" using d0(2) by (simp add: legacy_order_def)
  then have "prepare_baseline_decision sample_ctx fp f Aggressive price (?b c n) = (Inr (d, True), ?b (Suc (Suc (Suc c))) (Suc n))"
    using gate
    by (simp add: prepare_baseline_decision_def bnd_def gets_def ret_def funded_planned sized Let_def d_def [symmetric])
  then show ?thesis using d by (auto simp: eval_nat_numeral)
qed

lemma save_plain: "de_season_id d = None \<Longrightarrow> \<exists>s'. save_decision env d s = (Inr (), s') \<and> tb_episodes (st_tables s') = tb_episodes (st_tables s)"
  by (simp add: save_decision_def db_txn_def txn_def bnd_def of_tables_def gets_def seq_def on_tables_def modify_def ret_def
      remember_tracked_def when_do_def)

lemma save_order_plain: "tb_episodes (st_tables s) = [] \<Longrightarrow> \<exists>s'. save_order order s = (Inr (), s')"
  by (simp add: save_order_def db_txn_def txn_def bnd_def of_tables_def gets_def seq_def on_tables_def modify_def ret_def
      policy_episode_def put_order_def)

lemma funded_submit:
  assumes "legacy_order d"
  shows "\<exists>order b'. submit_decision_with_reason sample_ctx d price plan (funded_broker (free_limits x y z) c n) = (Inr (Some order, None), b')"
proof -
  let ?b = "funded_broker (free_limits x y z)"
  let ?o = "buy_order sample_ctx d (en_uuid (cx_env sample_ctx) n) 50000000 50030000 plan"
  have fresh: "on_db (fresh_uuid (cx_env sample_ctx)) (?b (Suc c) n) = (Inr (en_uuid (cx_env sample_ctx) n), ?b (Suc c) (Suc n))"
    by (simp add: on_db_def zoom_def fresh_uuid_def seq_def bnd_def gets_def modify_def ret_def funded_sel)
  have ok: "order_fields_ok ?o" using funded_size_fits by (simp add: order_fields_ok_def buy_order_def)
  have "de_season_id d = None" using assms by (simp add: legacy_order_def)
  from save_plain [OF this, of "cx_env sample_ctx" "bk_store (?b (Suc c) (Suc n))"]
  obtain s1 where s1: "save_decision (cx_env sample_ctx) d (bk_store (?b (Suc c) (Suc n))) = (Inr (), s1)"
      "tb_episodes (st_tables s1) = []"
    by (auto simp: funded_sel funded_tables_def empty_tables_def)
  obtain s2 where s2: "save_order ?o s1 = (Inr (), s2)" using save_order_plain [OF s1(2)] by blast
  show ?thesis
    using funded_size_fits s2 ok
    by (simp add: submit_decision_with_reason_def bnd_def funded_assessment [OF assms] fresh Let_def seq_def guard_def ok
        on_db_def [of "save_decision e d" for e] on_db_def [of "save_order q" for q] zoom_def s1 s2 add_pending_def set_pending_def
        modify_def ret_def)
qed

section \<open>The event\<close>

text \<open>The eighth trade of the young token arrives.\<close>

lemma young_age:
  "(ts_last_event_at (young_state 8) = Some 16000000) \<and>
   (lt_rolling_trade_metrics (young_state 8) = None) \<and>
   (enrichment_ok (young_state 8)) \<and>
   (token_age (young_state 8) 16000000 = 16) \<and>
   (length (filter (trade_in_window 16000000 (ts_venue (young_state 8))) (lt_trades (young_state 8))) = 8) \<and>
   (length (unique (filter (\<lambda>u. u \<noteq> ''unknown'')
     (map tr_user (filter (trade_in_window 16000000 (ts_venue (young_state 8))) (lt_trades (young_state 8)))))) = 8)"
  by code_simp

lemma young_fresh: "freshness (young_state 8) 16000000 = 0 \<and> ts_last_reserve_at (young_state 8) = Some 16000000 \<and>
    ts_mint (young_state 8) = ''m'' \<and> route_pinned (young_state 7) = False"
  by code_simp

lemma young_taken: "fst (token_event sample_platform (young_event EvTrade 8) (young_state 7)) = Inr ()"
  by code_simp

definition young_feed :: feed where
  "young_feed = (idle_feed (young_state 8))\<lparr> fd_order := [(''m'', (8, 1))] \<rparr>"

lemma young_persisted:
  "persisted_event sample_platform (young_event EvTrade 8) 1 16000000 (idle_feed (young_state 7)) =
     (Inr (Some (young_state 8, 16000000)), young_feed)"
proof -
  have step: "token_event sample_platform (young_event EvTrade 8) (young_state 7) = (Inr (), young_state 8)"
    using young_taken young_steps_4 by (cases "token_event sample_platform (young_event EvTrade 8) (young_state 7)") simp
  have mint: "me_mint (young_event EvTrade 8) = Some ''m''" by (simp add: young_event_def)
  have slots: "lt_last_slot (young_state 7) = 7" "ts_last_reserve_slot (young_state 7) = 7"
    by (simp_all add: young_state_def)
  have order: "accept_event_order (young_event EvTrade 8) 1 16000000 (idle_feed (young_state 7)) =
      (True, (idle_feed (young_state 7))\<lparr> fd_order := [(''m'', (8, 1))] \<rparr>)"
    using slots by (simp add: accept_event_order_def young_event_def idle_feed_def out_of_order_def order_cursor_def event_slot_def)
  have apply_it: "on_engine (engine_apply sample_platform (young_event EvTrade 8)) ((idle_feed (young_state 7))\<lparr> fd_order := [(''m'', (8, 1))] \<rparr>) =
      (Inr (Some (young_state 8)), young_feed)"
    by (simp add: zoom_run engine_apply_def mint step idle_feed_def put_token_def young_feed_def)
  have route: "\<not> event_regresses_verified_route (young_event EvTrade 8) (idle_feed (young_state 7))"
    using young_fresh by (simp add: event_regresses_verified_route_def mint idle_feed_def)
  have "observed_time (young_event EvTrade 8) (young_state 8) = 16000000"
    using young_fresh young_age by (simp add: observed_time_def later_of_def young_event_def)
  then show ?thesis using route by (simp add: persisted_event_def order apply_it) (simp add: idle_feed_def)
qed

lemma young_snapshot:
  "\<exists>f fd' x y z. decision_snapshot sample_platform h ''m'' 16000000 True young_feed = (Inr (Some f), fd') \<and>
     (\<forall>did created. \<exists>d. evaluate eng f Aggressive (Some funded_size) (Some (free_limits x y z))
        (Some LEGACY_BASELINE_VERSION) did created = Inr d \<and> legacy_order d)"
proof -
  define r where "r = with_activity True (rolling_trade_metrics sample_platform (young_state 8) 16000000)"
  have r: "r = with_activity True (window_metrics sample_platform (young_state 8) 16000000)"
    using young_age by (simp add: r_def rolling_trade_metrics_def cached_metrics_def)
  have st: "map_of (en_tokens (fd_engine young_feed)) ''m'' = Some (young_state 8)"
    "en_stale_market_seconds (fd_engine young_feed) = 20" by (simp_all add: young_feed_def idle_feed_def)
  obtain f0 where f0: "fst (snapshot_state sample_platform 20 16000000 False True None (young_state 8)) = Inr f0"
      "0 \<le> fs_data_confidence f0"
      "fs_hard_flags f0 = hard_flags_of 20 (young_state 8) 16000000 False r"
    by (rule snapshot_result [of 20 "young_state 8" sample_platform 16000000 False True None]) (simp_all add: young_age r_def)
  obtain c fd' where s: "decision_snapshot sample_platform h ''m'' 16000000 True young_feed =
      (Inr (Some (f0\<lparr> fs_values := AList.update ''integrity_window_complete'' (continuity_value c 16000000) (fs_values f0) \<rparr>)), fd')"
    using decision_snapshot_demo [OF st(1), unfolded st(2), OF f0(1)] by blast
  define f where "f = f0\<lparr> fs_values := AList.update ''integrity_window_complete'' (continuity_value c 16000000) (fs_values f0) \<rparr>"
  have other: "map_of (fs_values f) k = map_of (fs_values f0) k" if "k \<noteq> ''integrity_window_complete''" for k
    using that by (simp add: f_def update_conv')
  have n: "len (rm_trades_5m r) = 8" "len (rm_users r) = 8"
    using young_age by (simp_all add: r with_activity_def window_metrics_def Let_def)
  have "creator_sells (young_state 8) r = 0"
    using young_flags8 by (auto simp: r with_activity_def window_metrics_def creator_sells_def count_if_def list_all_iff
        filter_empty_conv Let_def)
  then have flags: "fs_hard_flags f = []"
    using young_flags8 young_fresh by (simp add: f_def f0(3) hard_flags_of_def)
  obtain a where a: "map_of (fs_values f) ''age_seconds'' = Some a" "dv_value a = Some (SFloat 16)"
    using snapshot_value [OF f0(1), where j = "JFloat 16" and x = "SFloat 16" and
        p = "plain_put ''age_seconds'' (jfloat (token_age (young_state 8) 16000000)) ''seconds''"]
      other [of "''age_seconds''"] young_age
    by (auto simp: snapshot_puts_def market_puts_def)
  obtain t where t: "map_of (fs_values f) ''trade_count_5m'' = Some t" "dv_value t = Some (SInt 8)"
    using snapshot_counts(1) [OF f0(1), folded r_def] other [of "''trade_count_5m''"] by (auto simp: n)
  obtain u where u: "map_of (fs_values f) ''unique_wallets_5m'' = Some u" "dv_value u = Some (SInt 8)"
    using snapshot_counts(2) [OF f0(1), folded r_def] other [of "''unique_wallets_5m''"] by (auto simp: n)
  have eight: "rnd64 (of_int 8) = 8" by code_simp
  have "0 \<le> fs_data_confidence f" using f0(2) by (simp add: f_def)
  from legacy_entry_free [OF flags this, of eng] s [folded f_def]
  show ?thesis using fs_number_at(2) [OF a] fs_number_at(1) [OF t] fs_number_at(1) [OF u] by (simp add: eight)
qed

section \<open>The worker\<close>

definition plain_models :: models where
  "plain_models = \<lparr> mo_log1p = id, mo_log = float_of_int, mo_predict = (\<lambda>_ _. None), mo_in_support = (\<lambda>_ _. False),
     mo_eligible = (\<lambda>_. False), mo_support_evidence = (\<lambda>_ _ _. []), mo_policy_origin = (\<lambda>_. []),
     mo_dump_receipt = (\<lambda>_. JNull), mo_shape_valid = (\<lambda>_. False), mo_model_predict = (\<lambda>_ _. 0),
     mo_model_support = (\<lambda>_ _. False), mo_validation_current = (\<lambda>_. False) \<rparr>"

definition quiet_circumstances :: circumstances where
  "quiet_circumstances =
     \<lparr> ci_health = \<lparr> ph_reconnects = 0, ph_connected = True, ph_last_error = False \<rparr>, ci_wall = 16000000,
       ci_queue_size = 0, ci_queue_capacity = 100, ci_models = plain_models,
       ci_learner = \<lparr> ln_mode_active = False, ln_active_skill_versions = [], ln_skill_artifacts = [], ln_skill_states = [],
         ln_models = [], ln_active_model = None \<rparr>,
       ci_critic = \<lparr> cr_paused = True, cr_guarded = False, cr_qualified = False, cr_judge = (\<lambda>_. None) \<rparr>,
       ci_exit_timing = (\<lambda>_ _. (None, None)), ci_exit_plan = (\<lambda>_. None) \<rparr>"

definition plain_wiring :: wiring where
  "plain_wiring =
     \<lparr> su_platform = sample_platform, su_ctx = sample_ctx,
       su_config = \<lparr> rc_decision_cooldown_seconds = 10, rc_demo_mode = True, rc_provider_plans = JNull \<rparr>,
       su_digest = (\<lambda>_. ''f''), su_decimal = id \<rparr>"

definition idle_worker :: "feed \<Rightarrow> broker \<Rightarrow> worker" where
  "idle_worker fd b =
     \<lparr> wk_feed = fd, wk_broker = b, wk_last_decision_at = [], wk_last_recorded = [], wk_running = True,
       wk_maintenance_requested = False, wk_operation = None, wk_risk_mode = Aggressive, wk_auto_eligible_since = None,
       wk_auto_paused_since = None, wk_auto_last_observed_at = None \<rparr>"

lemma plain_advise: "advise quiet_circumstances demo eligible actionable d = Inr d"
  by (simp add: advise_def quiet_circumstances_def assess_def assess_model_def assess_guarded_def latest_model_for_context_def)

lemma record_returns:
  assumes "de_season_id d = None"
  shows "\<exists>w'. record_decision cx mint t d w = (Inr (), w')"
proof -
  obtain s' where "save_decision (cx_env cx) d (bk_store (wk_broker w)) = (Inr (), s')" using save_plain [OF assms] by blast
  then show ?thesis
    by (simp add: record_decision_def bnd_def gets_def seq_def when_do_def on_broker_def on_db_def zoom_def modify_def ret_def)
qed

lemma funded_decide:
  assumes "\<forall>did created. \<exists>d. evaluate (fill_engine sample_ctx) f Aggressive (Some funded_size) (Some (free_limits x y z))
     (Some LEGACY_BASELINE_VERSION) did created = Inr d \<and> legacy_order d"
  shows "\<exists>d order w'. decide plain_wiring quiet_circumstances st f now price (idle_worker fd (funded_broker (free_limits x y z) 0 0)) =
    (Inr (d, Some order), w')"
proof -
  let ?b = "funded_broker (free_limits x y z)"
  have su: "su_ctx plain_wiring = sample_ctx" by (simp add: plain_wiring_def)
  have w: "wk_risk_mode (idle_worker fd b) = Aggressive" "wk_broker (idle_worker fd b) = b"
    "(idle_worker fd b)\<lparr> wk_broker := b' \<rparr> = idle_worker fd b'" for b b' by (simp_all add: idle_worker_def)
  obtain d where d: "prepare_baseline_decision sample_ctx (fingerprint_of plain_wiring Aggressive) f Aggressive price (?b 0 0) =
      (Inr (d, True), ?b (0 + 3) (Suc 0))" "legacy_order d"
    using funded_prepare [OF assms] by blast
  have prep: "on_broker (prepare_baseline_decision sample_ctx (fingerprint_of plain_wiring Aggressive) f Aggressive price)
      (idle_worker fd (?b 0 0)) = (Inr (d, True), idle_worker fd (?b 3 (Suc 0)))"
    using d(1) by (simp add: on_broker_def zoom_def w)
  obtain order b' where o: "submit_decision_with_reason sample_ctx d price (ci_exit_plan quiet_circumstances d) (?b 3 (Suc 0)) = (Inr (Some order, None), b')"
    using funded_submit [OF d(2)] by blast
  have sub: "submit_entry plain_wiring quiet_circumstances price d (idle_worker fd (?b 3 (Suc 0))) = (Inr (d, Some order), idle_worker fd b')"
    using d(2) o by (simp add: legacy_order_def submit_entry_def bnd_def ret_def on_broker_def zoom_def w su)
  have conv: "convertible SOL price d = d" by (simp add: convertible_def)
  have "de_season_id d = None" using d(2) by (simp add: legacy_order_def)
  then obtain w' where rec: "record_decision sample_ctx (ts_mint st) now d (idle_worker fd b') = (Inr (), w')"
    using record_returns by blast
  have "decide plain_wiring quiet_circumstances st f now price (idle_worker fd (?b 0 0)) = (Inr (d, Some order), w')"
    unfolding decide_def
    by (simp add: bnd_def gets_def lift_def plain_advise w su prep sub conv rec seq_def ret_def funded_sel)
  then show ?thesis by blast
qed

lemma funded_event:
  obtains x y z out order w' where
    "handle_event plain_wiring quiet_circumstances (young_event EvTrade 8) 1
       (idle_worker (idle_feed (young_state 7)) (funded_broker (free_limits x y z) 0 0)) = (Inr (Some out), w')"
    "oc_order out = Some order"
proof -
  let ?h = "ci_health quiet_circumstances"
  obtain f fd' x y z where f: "decision_snapshot sample_platform ?h ''m'' 16000000 True young_feed = (Inr (Some f), fd')"
      "\<forall>did created. \<exists>d. evaluate (fill_engine sample_ctx) f Aggressive (Some funded_size) (Some (free_limits x y z))
        (Some LEGACY_BASELINE_VERSION) did created = Inr d \<and> legacy_order d"
    using young_snapshot by blast
  let ?b = "funded_broker (free_limits x y z) 0 0"
  have su: "su_platform plain_wiring = sample_platform" "su_ctx plain_wiring = sample_ctx" by (simp_all add: plain_wiring_def)
  have w: "wk_broker (idle_worker fd b) = b" "wk_feed (idle_worker fd b) = fd" "(idle_worker fd b)\<lparr> wk_feed := fd2 \<rparr> = idle_worker fd2 b"
    "wk_running (idle_worker fd b)" "wk_auto_eligible_since (idle_worker fd b) = None" for fd b fd2
    by (simp_all add: idle_worker_def)
  have pers: "on_feed (persisted_event sample_platform (young_event EvTrade 8) 1 (ci_wall quiet_circumstances)) (idle_worker (idle_feed (young_state 7)) ?b) =
      (Inr (Some (young_state 8, 16000000)), idle_worker young_feed ?b)"
    using young_persisted by (simp add: on_feed_def zoom_def w quiet_circumstances_def)
  have mint: "ts_mint (young_state 8) = ''m''" using young_fresh by simp
  have eval: "should_evaluate (su_config plain_wiring) quiet_circumstances (me_kind (young_event EvTrade 8)) ''m'' 16000000 (idle_worker young_feed ?b)"
    by (simp add: should_evaluate_def idle_worker_def profile_transition_active_def entry_candidate_def funded_sel has_pending_for_def
        cooled_down_def young_event_def)
  have snap: "on_feed (decision_snapshot sample_platform ?h ''m'' 16000000 True) (idle_worker young_feed ?b) = (Inr (Some f), idle_worker fd' ?b)"
    using f(1) by (simp add: on_feed_def zoom_def w)
  have update: "market_update plain_wiring quiet_circumstances (young_event EvTrade 8) (young_state 8) f 16000000 price (idle_worker fd' ?b) =
      (Inr [], idle_worker fd' ?b)" for price
    by (simp add: market_update_def bnd_def gets_def Let_def mint broker_tracked_def w funded_sel has_pending_for_def ret_def)
  have clear: "note_recovery sample_ctx [] (idle_worker fd' ?b) = (Inr (), idle_worker fd' ?b)"
    by (simp add: note_recovery_def bnd_def gets_def when_do_def ret_def)
  obtain d order w' where dec: "decide plain_wiring quiet_circumstances (young_state 8) f 16000000
      (map_option (su_decimal plain_wiring) (sol_usd_price_of (fd_demo_mode young_feed) f)) (idle_worker fd' ?b) = (Inr (d, Some order), w')"
    using funded_decide [OF f(2)] by blast
  have market: "handle_market plain_wiring quiet_circumstances (young_event EvTrade 8) (young_state 8) 16000000 (idle_worker young_feed ?b) =
      (Inr \<lparr> oc_decision = Some d, oc_order = Some order, oc_receipts = [] \<rparr>, w')"
    unfolding handle_market_def bnd_run id_apply Let_def mint
    by (simp add: bnd_def gets_def eval snap su w update clear dec seq_def ret_def)
  have "handle_event plain_wiring quiet_circumstances (young_event EvTrade 8) 1 (idle_worker (idle_feed (young_state 7)) ?b) =
      (Inr (Some \<lparr> oc_decision = Some d, oc_order = Some order, oc_receipts = [] \<rparr>), w')"
    by (simp add: handle_event_def bnd_def su pers some_result_def market ret_def)
  then show thesis by (rule that) simp
qed

end
