(* ===== verification/Worker_Laws.thy ===== *)
theory Worker_Laws
  imports Worker_Example
begin

text \<open>
  The laws of the event handler: it keeps the books, and an order comes only from an evaluated entry on live,
  complete and verified evidence, for a token that is neither held, pending nor traded.
\<close>

section \<open>Books\<close>

lemma keeps_on_broker: "keeps P m \<Longrightarrow> keeps (\<lambda>w. P (wk_broker w)) (on_broker m)"
  unfolding on_broker_def by (rule keeps_zoom [where Q = P]) simp_all

lemma keeps_on_feed: "keeps (\<lambda>w. P (wk_broker w)) (on_feed m)"
  unfolding on_feed_def by (rule keeps_zoom [where Q = "\<lambda>_. True"]) (simp_all add: keeps_def)

lemma keeps_aside: "(\<And>w. wk_broker (u w) = wk_broker w) \<Longrightarrow> keeps (\<lambda>w. P (wk_broker w)) (modify u)"
  by (rule keeps_modify) simp

lemma quiet_set_settings:
  "''starting_lamports'' \<notin> fst ` set items \<Longrightarrow> ''realized_pnl_lamports'' \<notin> fst ` set items \<Longrightarrow>
   quiet (on_db (set_settings env items))"
proof -
  assume keys: "''starting_lamports'' \<notin> fst ` set items" "''realized_pnl_lamports'' \<notin> fst ` set items"
  have other: "map_of (fold (\<lambda>(k, v) d. AList.update k v d) items d) key = map_of d key" if "key \<notin> fst ` set items" for d key
    using that by (induction items arbitrary: d) (auto simp: update_conv')
  show ?thesis
    by (rule quiet_on_db, rule wp_set_settings) (simp add: view_of_def setting_num_def other keys fun_eq_iff)
qed

lemma quiet_prepare: "quiet (prepare_baseline_decision cx fingerprint f mode price)"
proof -
  have ev: "quiet (evaluate_size cx f mode l v s)" for l v s
    unfolding evaluate_size_def by (intro quiet_rules quiet_fresh_uuid quiet_wall_now)
  have search: "quiet (size_search ev n low high c)" if "\<And>x. quiet (ev x)" for ev n low high c
    using that by (induction ev n low high c rule: size_search.induct) (auto simp: Let_def intro!: quiet_rules)
  have sel: "quiet (select_size (evaluate_size cx f mode l v) high low reference)" for l v high low reference
    unfolding select_size_def by (intro quiet_rules ev search)
  have base: "quiet (evaluate_baseline_with_size cx f mode s price)" for s
    unfolding evaluate_baseline_with_size_def Let_def by (intro quiet_rules quiet_reads ev sel)
  show ?thesis
    unfolding prepare_baseline_decision_def Let_def by (intro quiet_rules quiet_entry quiet_reads base)
qed

lemma keeps_handle:
  "keeps (\<lambda>w. lawful a (wk_broker w)) (handle_event su ci ev sequence)"
proof -
  let ?P = "\<lambda>w. lawful a (wk_broker w)"
  have clock: "keeps ?P (set_auto_new_season_clock cx e p o')" for cx e p o'
    unfolding set_auto_new_season_clock_def
    by (intro keeps_rules keeps_on_broker keeps_aside quiet_lawful quiet_set_settings) simp_all
  have recovery: "keeps ?P (note_recovery cx receipts)" for cx receipts
    unfolding note_recovery_def by (intro keeps_rules clock)
  have update: "keeps ?P (market_update su ci ev st f t price)" for ev st f t price
    unfolding market_update_def by (intro keeps_rules keeps_on_broker keeps_market)
  have submit: "keeps ?P (submit_entry su ci price d)" for price d
    unfolding submit_entry_def by (intro keeps_rules keeps_on_broker quiet_lawful quiet_entry)
  have rec: "keeps ?P (record_decision cx mint t d)" for cx mint t d
    unfolding record_decision_def
    by (intro keeps_rules keeps_on_broker keeps_aside quiet_lawful quiet_off_books off_books_save_decision) simp_all
  have dec: "keeps ?P (decide su ci st f t price)" for st f t price
    unfolding decide_def by (intro keeps_rules keeps_on_broker quiet_lawful quiet_prepare submit rec)
  have market: "keeps ?P (handle_market su ci ev st t)" for ev st t
    unfolding handle_market_def by (intro keeps_rules keeps_on_feed update recovery dec)
  show ?thesis
    unfolding handle_event_def some_result_def by (intro keeps_rules keeps_on_feed market)
qed

text \<open>
  Runs of the worker: events, each in its own circumstances and returning or raising, other calls of the broker,
  and whatever else leaves the broker alone.
\<close>

inductive worker_run :: "wiring \<Rightarrow> broker \<Rightarrow> worker \<Rightarrow> bool" for su b0 where
  start: "wk_broker w = b0 \<Longrightarrow> worker_run su b0 w"
| event: "worker_run su b0 w \<Longrightarrow> handle_event su ci ev sequence w = (r, w') \<Longrightarrow> worker_run su b0 w'"
| broker: "worker_run su b0 w \<Longrightarrow> broker_step (su_ctx su) (wk_broker w) b \<Longrightarrow> worker_run su b0 (w\<lparr> wk_broker := b \<rparr>)"
| other: "worker_run su b0 w \<Longrightarrow> wk_broker w' = wk_broker w \<Longrightarrow> worker_run su b0 w'"

lemma worker_lawful: "worker_run su b0 w \<Longrightarrow> lawful a b0 \<Longrightarrow> lawful a (wk_broker w)"
proof (induction rule: worker_run.induct)
  case (event w ci ev sequence r w')
  then show ?case using keepsD [OF keeps_handle] by metis
qed (auto simp: broker_step_def dest: call_lawful)

section \<open>Where an order comes from\<close>

lemma evaluated_version:
  assumes "evaluated cx f mode l v s c"
  obtains v' did created where "v' \<in> set SUPPORTED_BASELINE_VERSIONS" "de_model_version c = v'" "de_mint c = fs_mint f"
    "evaluate (fill_engine cx) f mode (Some s) (Some l) (Some v') did created = Inr c"
proof -
  obtain did created where run: "evaluate (fill_engine cx) f mode (Some s) (Some l) (Some v) did created = Inr c"
    using assms unfolding evaluated_def by blast
  define v' where "v' = (if v = [] then BASELINE_VERSION else v)"
  have ne: "BASELINE_VERSION \<noteq> []" by (simp add: BASELINE_VERSION_def)
  have "evaluate (fill_engine cx) f mode (Some s) (Some l) (Some v') did created = Inr c"
    using run ne by (cases "v = []") (simp_all add: evaluate_def v'_def)
  moreover have "v' \<in> set SUPPORTED_BASELINE_VERSIONS \<and> de_model_version c = v' \<and> de_mint c = fs_mint f"
    using calculation unfolding evaluate_def Let_def option.case
    by (cases "v' = []") (auto simp: rbind_eq_Inr v'_def ne split: if_splits)
  ultimately show thesis using that by blast
qed

lemma size_search_from:
  assumes "size_search ev n low high c b = (Inr (s, d), b')" and "\<And>x d b b'. ev x b = (Inr d, b') \<Longrightarrow> P d" and "P c"
  shows "P d"
  using assms(1,3)
proof (induction n arbitrary: low high c b)
  case 0
  then show ?case by (simp add: ret_def)
next
  case (Suc n)
  obtain t b1 where t: "ev (fdiv (fadd low high) 2) b = (Inr t, b1)"
    and rest: "(if de_action t = Enter then size_search ev n (fdiv (fadd low high) 2) high t b1
      else size_search ev n low (fdiv (fadd low high) 2) c b1) = (Inr (s, d), b')"
    using Suc.prems(1) by (auto simp: bnd_def Let_def split: prod.splits sum.splits if_splits)
  show ?case using rest Suc.IH assms(2) [OF t] Suc.prems(2) by (auto split: if_splits)
qed

definition from_engine :: "ctx \<Rightarrow> feature_snapshot \<Rightarrow> risk_mode \<Rightarrow> decision \<Rightarrow> bool" where
  "from_engine cx f mode d \<longleftrightarrow>
     (\<exists>l v s c. evaluated cx f mode l v s c \<and> de_action d = de_action c \<and> de_model_version d = de_model_version c \<and>
        de_mint d = de_mint c)"

lemma engine_from: "evaluate_size cx f mode l v s b = (Inr c, b') \<Longrightarrow> from_engine cx f mode c"
  unfolding from_engine_def using evaluate_sizeD by blast

lemma baseline_from:
  assumes "evaluate_baseline_with_size cx f mode reference_size price b = (Inr d, b')"
  shows "from_engine cx f mode d"
proof -
  let ?ev = "evaluate_size cx f mode (risk_limits_of b (Some mode)) (sv_baseline (active_strategy_versions b))"
  obtain reference b1 where ref: "?ev reference_size b = (Inr reference, b1)"
    and rest: "(if sv_sizing (active_strategy_versions b) \<noteq> SIZING_POLICY_VERSION then ret reference
        else bnd (plan_entry_size cx reference price) (\<lambda>sizing.
             bnd (select_size ?ev (sa_selected_size_sol sizing) reference_size reference) (\<lambda>(selected, candidate).
             ret (sized_decision selected sizing candidate)))) b1 = (Inr d, b')"
    using assms unfolding evaluate_baseline_with_size_def Let_def bnd_run id_apply
    by (rule bnd_InrE) (rule that)
  show ?thesis
  proof (cases "sv_sizing (active_strategy_versions b) \<noteq> SIZING_POLICY_VERSION")
    case True
    then show ?thesis using rest engine_from [OF ref] by (simp add: ret_def)
  next
    case False
    obtain sizing b2 s c where sel: "select_size ?ev (sa_selected_size_sol sizing) reference_size reference b2 = (Inr (s, c), b')"
        "d = sized_decision s sizing c"
      using rest False by (auto simp: bnd_def ret_def split: prod.splits sum.splits)
    obtain t b3 where t: "?ev (sa_selected_size_sol sizing) b2 = (Inr t, b3)"
      and pick: "(if lost_to_size (sa_selected_size_sol sizing) reference_size reference t
        then size_search ?ev 6 reference_size (sa_selected_size_sol sizing) reference b3
        else (Inr (sa_selected_size_sol sizing, t), b3)) = (Inr (s, c), b')"
      using sel(1) by (auto simp: select_size_def bnd_def ret_def split: prod.splits sum.splits if_splits)
    have "from_engine cx f mode c"
      using pick engine_from [OF t] size_search_from [where P = "from_engine cx f mode", OF _ engine_from engine_from [OF ref]]
      by (auto split: if_splits)
    then show ?thesis by (simp add: sel(2) sized_decision_def from_engine_def)
  qed
qed

lemma prepared_from:
  assumes "prepare_baseline_decision cx fingerprint f mode price b = (Inr (d, actionable), b')"
  shows "from_engine cx f mode d"
proof -
  obtain planned b1 sized b2 where s: "evaluate_baseline_with_size cx f mode planned price b1 = (Inr sized, b2)"
      "de_action d = de_action sized" "de_model_version d = de_model_version sized" "de_mint d = de_mint sized"
    using assms by (auto simp: prepare_baseline_decision_def bnd_def gets_def ret_def Let_def split: prod.splits sum.splits if_splits)
  from baseline_from [OF s(1)] show ?thesis using s(2-4) by (simp add: from_engine_def)
qed

text \<open>The provenance of a decision only grows behind a separator.\<close>

definition extended_version :: "string \<Rightarrow> string \<Rightarrow> bool" where
  "extended_version v v' \<longleftrightarrow> v' = v \<or> (\<exists>t. v' = v @ CHR ''+'' # t)"

lemma extended_joined: "extended_version v (joined_version v applied)"
  by (cases applied) (auto simp: extended_version_def joined_version_def)

lemma extended_trans: "extended_version a b \<Longrightarrow> extended_version b c \<Longrightarrow> extended_version a c"
  by (auto simp: extended_version_def)

lemma assess_version: "assess mo lr d live actionable = Inr d' \<Longrightarrow> extended_version (de_model_version d) (de_model_version d')"
proof -
  assume run: "assess mo lr d live actionable = Inr d'"
  show ?thesis
  proof (cases "live \<and> ln_mode_active lr \<and> ln_active_skill_versions lr \<noteq> []")
    case True
    then have "assess_active_skills mo lr d actionable = Inr d'" using run by (simp add: assess_def)
    from skills_InrD [OF this] show ?thesis
      by (auto simp: assessed_decision_def extended_joined extended_version_def [of _ "de_model_version d"])
  next
    case False
    then have "assess_model mo lr d live actionable = Inr d'" using run by (auto simp: assess_def)
    then show ?thesis
      by (auto simp: assess_model_def Let_def apply_model_def extended_version_def split: option.splits if_splits)
  qed
qed

lemma guarded_version: "extended_version (de_model_version d) (de_model_version (assess_guarded cr d))"
  by (auto simp: assess_guarded_def extended_version_def split: option.splits)

lemma advise_result:
  assumes "advise ci demo eligible actionable baseline = Inr d"
  shows "advised baseline d \<and> extended_version (de_model_version baseline) (de_model_version d)"
proof -
  obtain d1 where d1: "assess (ci_models ci) (ci_learner ci) baseline (\<not> demo \<and> eligible) actionable = Inr d1"
    and d: "d = (if actionable \<and> eligible then assess_guarded (ci_critic ci) d1 else d1)"
    using assms by (auto simp: advise_def rbind_eq_Inr)
  have "advised baseline d1" "extended_version (de_model_version baseline) (de_model_version d1)"
    using assess_advises [OF d1] assess_version [OF d1] by blast+
  then show ?thesis
    unfolding d using guarded_advises [of d1 "ci_critic ci"] guarded_version [of d1 "ci_critic ci"]
    by (auto intro: advised_trans extended_trans)
qed

lemma base_of_extended: "extended_version v (de_model_version d) \<Longrightarrow> CHR ''+'' \<notin> set v \<Longrightarrow> baseline_of d = v"
  by (auto simp: extended_version_def baseline_of_def split_on_plain split_on_append)

lemma submit_order:
  assumes "submit_entry su ci price d w = (Inr (d', Some order), w')"
  shows "d' = d \<and> de_action d = Enter \<and> po_side order = Buy \<and> po_mint order = de_mint d \<and>
    po_decision_id order = Some (de_decision_id d)"
  using assms
  by (auto simp: submit_entry_def submit_decision_with_reason_def on_broker_def zoom_def bnd_def seq_def ret_def buy_order_def
      Let_def split: if_splits prod.splits sum.splits option.splits)

lemma decide_order:
  assumes "decide su ci st f now price w = (Inr (d, Some order), w')"
  shows "de_action d = Enter \<and> po_side order = Buy \<and> po_mint order = fs_mint f \<and>
    po_decision_id order = Some (de_decision_id d) \<and>
    (\<exists>l s c did created. baseline_of d \<in> set SUPPORTED_BASELINE_VERSIONS \<and> de_action c = Enter \<and>
       evaluate (fill_engine (su_ctx su)) f (wk_risk_mode w) (Some s) (Some l) (Some (baseline_of d)) did created = Inr c)"
proof -
  obtain baseline actionable b1 ad d1 w1 w2 where r:
      "prepare_baseline_decision (su_ctx su) (fingerprint_of su (wk_risk_mode w)) f (wk_risk_mode w) price (wk_broker w) =
         (Inr (baseline, actionable), b1)"
      "advise ci (fd_demo_mode (wk_feed w)) (window_verdict f) actionable baseline = Inr ad"
      "submit_entry su ci price (convertible (bk_quote_currency b1) price ad) w1 = (Inr (d, Some order), w2)"
    using assms unfolding decide_def
    by (auto simp: bnd_def gets_def on_broker_def zoom_def lift_def seq_def ret_def split: prod.splits sum.splits)
  note sub = submit_order [OF r(3)]
  have ad: "de_action ad = Enter" "d = ad" using sub by (auto simp: convertible_def split: if_splits)
  note adv = advise_result [OF r(2)]
  obtain l v s c where c: "evaluated (su_ctx su) f (wk_risk_mode w) l v s c" "de_action baseline = de_action c"
      "de_model_version baseline = de_model_version c" "de_mint baseline = de_mint c"
    using prepared_from [OF r(1)] unfolding from_engine_def by blast
  obtain v' did created where v': "v' \<in> set SUPPORTED_BASELINE_VERSIONS" "de_model_version c = v'" "de_mint c = fs_mint f"
      "evaluate (fill_engine (su_ctx su)) f (wk_risk_mode w) (Some s) (Some l) (Some v') did created = Inr c"
    by (rule evaluated_version [OF c(1)])
  have "CHR ''+'' \<notin> set v'" using v'(1) by (auto simp: SUPPORTED_BASELINE_VERSIONS_def version_defs)
  then have "baseline_of d = v'" using base_of_extended adv c(3) v'(2) ad(2) by metis
  moreover have "de_action c = Enter" using adv ad(1) c(2) unfolding advised_def by auto
  moreover have "de_mint ad = de_mint baseline"
    using arg_cong [where f = de_mint, OF conjunct1 [OF conjunct1 [OF adv, unfolded advised_def]]] by simp
  moreover have "po_side order = Buy \<and> po_mint order = de_mint ad \<and> po_decision_id order = Some (de_decision_id d)"
    using sub by (auto simp: convertible_def split: if_splits)
  ultimately show ?thesis
    using ad c(4) v' by (intro conjI exI [of _ l] exI [of _ s] exI [of _ c] exI [of _ did] exI [of _ created]) auto
qed

text \<open>The event that led to an order.\<close>

lemma handle_order:
  assumes run: "handle_event su ci ev sequence w = (Inr (Some out), w')" and order: "oc_order out = Some order"
    and taken: "persisted_event (su_platform su) ev sequence (ci_wall ci) (wk_feed w) = (Inr (Some (st, now)), fd)"
  shows "\<exists>d f fd' w1 price. oc_decision out = Some d \<and>
    should_evaluate (su_config su) ci (me_kind ev) (ts_mint st) now (w\<lparr> wk_feed := fd \<rparr>) \<and>
    decision_snapshot (su_platform su) (ci_health ci) (ts_mint st) now True fd = (Inr (Some f), fd') \<and>
    decide su ci st f now price w1 = (Inr (d, Some order), w')"
proof -
  have m: "handle_market su ci ev st now (w\<lparr> wk_feed := fd \<rparr>) = (Inr out, w')"
    using run taken
    by (auto simp: handle_event_def on_feed_def zoom_def bnd_def some_result_def ret_def split: prod.splits sum.splits)
  have feed_sel: "wk_feed (w\<lparr> wk_feed := fd \<rparr>) = fd" by simp
  define evaluating where "evaluating = should_evaluate (su_config su) ci (me_kind ev) (ts_mint st) now (w\<lparr> wk_feed := fd \<rparr>)"
  define go where "go f = bnd (market_update su ci ev st f now (map_option (su_decimal su) (sol_usd_price_of (fd_demo_mode fd) f)))
       (\<lambda>receipts. seq (note_recovery (su_ctx su) receipts)
         (if evaluating
          then bnd (decide su ci st f now (map_option (su_decimal su) (sol_usd_price_of (fd_demo_mode fd) f))) (\<lambda>(d, order).
               ret \<lparr> oc_decision = Some d, oc_order = order, oc_receipts = receipts \<rparr>)
          else ret \<lparr> oc_decision = None, oc_order = None, oc_receipts = receipts \<rparr>))" for f
  have "bnd (on_feed (decision_snapshot (su_platform su) (ci_health ci) (ts_mint st) now evaluating))
     (\<lambda>snap. case snap of None \<Rightarrow> ret \<lparr> oc_decision = None, oc_order = None, oc_receipts = [] \<rparr> | Some f \<Rightarrow> go f)
     (w\<lparr> wk_feed := fd \<rparr>) = (Inr out, w')"
    using m order unfolding handle_market_def Let_def bnd_run id_apply feed_sel evaluating_def [symmetric] go_def
    by (auto simp: ret_def split: if_splits)
  then obtain snap w1 where s1: "on_feed (decision_snapshot (su_platform su) (ci_health ci) (ts_mint st) now evaluating) (w\<lparr> wk_feed := fd \<rparr>) = (Inr snap, w1)"
      "(case snap of None \<Rightarrow> ret \<lparr> oc_decision = None, oc_order = None, oc_receipts = [] \<rparr> | Some f \<Rightarrow> go f) w1 = (Inr out, w')"
    by (rule bnd_InrE)
  then obtain f where snap: "snap = Some f" using order by (cases snap) (auto simp: ret_def)
  obtain fd' where f: "decision_snapshot (su_platform su) (ci_health ci) (ts_mint st) now evaluating fd = (Inr (Some f), fd')"
    using s1(1) unfolding snap by (auto simp: on_feed_def zoom_def split: prod.splits)
  have rest: "go f w1 = (Inr out, w')" using s1(2) by (simp add: snap)
  obtain receipts w2 where rest2: "seq (note_recovery (su_ctx su) receipts)
         (if evaluating
          then bnd (decide su ci st f now (map_option (su_decimal su) (sol_usd_price_of (fd_demo_mode fd) f))) (\<lambda>(d, order).
               ret \<lparr> oc_decision = Some d, oc_order = order, oc_receipts = receipts \<rparr>)
          else ret \<lparr> oc_decision = None, oc_order = None, oc_receipts = receipts \<rparr>) w2 = (Inr out, w')"
    using rest unfolding go_def by (rule bnd_InrE)
  obtain x w3 where rest3: "(if evaluating
          then bnd (decide su ci st f now (map_option (su_decimal su) (sol_usd_price_of (fd_demo_mode fd) f))) (\<lambda>(d, order).
               ret \<lparr> oc_decision = Some d, oc_order = order, oc_receipts = receipts \<rparr>)
          else ret \<lparr> oc_decision = None, oc_order = None, oc_receipts = receipts \<rparr>) w3 = (Inr out, w')"
    using rest2 unfolding seq_def by (rule bnd_InrE)
  have ev: evaluating using rest3 order by (auto simp: ret_def split: if_splits)
  then obtain d where "decide su ci st f now (map_option (su_decimal su) (sol_usd_price_of (fd_demo_mode fd) f)) w3 = (Inr (d, Some order), w')"
      "oc_decision out = Some d"
    using rest3 order by (auto simp: bnd_def ret_def split: prod.splits sum.splits)
  then show ?thesis using f ev unfolding evaluating_def by auto
qed

lemma persisted_token:
  assumes "persisted_event pl ev sequence now_wall fd0 = (Inr (Some (st, now)), fd)" and "me_mint ev = Some mint"
  shows "map_of (en_tokens (fd_engine fd)) mint = Some st \<and> (\<forall>l. ts_last_event_at st = Some l \<longrightarrow> l \<le> now)"
proof -
  obtain fd1 where r: "on_engine (engine_apply pl ev) fd1 = (Inr (Some st), fd)" "now = observed_time ev st"
    using assms(1) by (auto simp: persisted_event_def split: if_splits prod.splits bool.splits sum.splits option.splits)
  have "map_of (en_tokens (fd_engine fd)) mint = Some st"
    using r(1) assms(2)
    by (auto simp: zoom_run engine_apply_def put_token_def update_conv' Let_def split: prod.splits if_splits sum.splits)
  moreover have "l \<le> now" if "ts_last_event_at st = Some l" for l
    using that unfolding r(2) observed_time_def later_of_def by (auto split: option.splits)
  ultimately show ?thesis by blast
qed

lemma decision_snapshot_mint:
  assumes "decision_snapshot pl h mint now act fd = (Inr (Some f), fd')" and "map_of (en_tokens (fd_engine fd)) mint = Some st"
  shows "fs_mint f = ts_mint st"
proof -
  obtain f0 fd1 clean where f0: "fst (snapshot_state pl (en_stale_market_seconds (fd_engine fd)) now False act None st) = Inr f0"
      "f = f0\<lparr> fs_values := AList.update ''integrity_window_complete''
         (continuity_value (clean \<and> \<not> buffer_flag f0) now) (fs_values f0) \<rparr>"
    by (rule decision_snapshot_InrD [OF assms])
  have "fs_mint f0 = ts_mint st" using f0(1) by (auto simp: snapshot_state_def Let_def rbind_eq_Inr)
  then show ?thesis by (simp add: f0(2))
qed

section \<open>Properties\<close>

text \<open>C3: The books stay balanced while the application trades. From a new database, along every run in which the
  orchestrator handles market events, returning or raising, whatever the learner, the critic and the provider
  say, and in which the broker's other operations and restarts come in between: debits equal credits, the cash is
  not negative and together with the cost of what is held equals the bankroll plus the realized result, every
  inventory account carries the book value of its position, and the whole run is one of the abstract account.\<close>

theorem handled_events_keep_books:
  assumes "load cx' empty_store = (Inr b0, s0)" and "worker_run su b0 w"
  shows "sum_list (map le_debit (tb_ledger (tables_of (wk_broker w)))) =
      sum_list (map le_credit (tb_ledger (tables_of (wk_broker w)))) \<and>
    0 \<le> cash_lamports (wk_broker w) \<and>
    (\<forall>m. ledger_balance (tables_of (wk_broker w)) (inventory_account m) =
       (case map_of (bk_positions (wk_broker w)) m of None \<Rightarrow> 0 | Some p \<Rightarrow> ps_book_value_lamports p)) \<and>
    (\<exists>starting realized. setting_int (tables_of (wk_broker w)) ''starting_lamports'' 0 = Inr starting \<and>
       setting_int (tables_of (wk_broker w)) ''realized_pnl_lamports'' 0 = Inr realized \<and>
       cash_lamports (wk_broker w) + sum ps_entry_cost_lamports (set (values_of (bk_positions (wk_broker w)))) =
         starting + realized) \<and>
    account_step\<^sup>*\<^sup>* (account_of b0) (account_of (wk_broker w))"
proof -
  have "b0 = new_broker" using assms(1) by (simp add: load_empty)
  then have law: "lawful (account_of b0) (wk_broker w)"
    using worker_lawful [OF assms(2)] lawful_refl new_books_sound by blast
  from books_soundD [OF lawful_sound [OF law]] law show ?thesis by (simp add: lawful_def)
qed

definition idle_liquid_worker :: worker where
  "idle_liquid_worker = idle_worker (idle_feed (young_state 7)) new_broker"

theorem handled_events_keep_books_witness:
  "\<exists>r w'. handle_event plain_wiring quiet_circumstances (young_event EvTrade 8) 1 idle_liquid_worker = (r, w') \<and>
     0 \<le> cash_lamports (wk_broker w')"
proof -
  obtain r w' where run: "handle_event plain_wiring quiet_circumstances (young_event EvTrade 8) 1 idle_liquid_worker = (r, w')"
    by fastforce
  have "worker_run plain_wiring new_broker idle_liquid_worker"
    by (rule worker_run.start) (simp add: idle_liquid_worker_def idle_worker_def)
  from handled_events_keep_books [OF load_empty worker_run.event [OF this run]] run show ?thesis by blast
qed



end
