(* ===== verification/Spec2Isabelle.thy ===== *)
theory Spec2Isabelle
  imports Curve_Math Books Exit_Policy Decision Broker_Laws Receipt_Audit Event_Intake Worker_Laws
begin

text \<open>
  Signal Arcade, the paper-trading core. The program watches a public stream of token trades, measures each token,
  decides on simulated entries, and keeps a paper account of what it bought and sold. This development models the
  Python code under \<open>src/backend/signal_arcade/\<close> that a trade passes through, from the queue that takes the
  event to the double-entry ledger that books the fill, and proves what each part promises to the next.

  How the parts interact. \<open>event_queue.py\<close> holds incoming events by priority; the worker of \<open>orchestrator.py\<close>
  takes a batch and hands each event to \<open>_handle_persisted_event\<close>. That applies it to the market state
  (\<open>intelligence/features.py\<close>), measures the five-minute window, lets the broker mark and trade what it holds, and
  for a token that is not held asks \<open>intelligence/decision.py\<close> for a decision. The learner and a local critic may
  veto or resize it; \<open>paper/broker.py\<close> turns it into a pending order, fills it later on fresh evidence through
  \<open>paper/curve_math.py\<close> and books it in \<open>database.py\<close>, whose tables are the only state that survives a restart.

  Foundations.
  \<open>Py_Num\<close>: floats are rationals rounded to 53 bits (\<open>rnd64\<close>), decimals to 28 digits, \<open>round\<close> and \<open>int\<close> as Python
  has them. \<open>Prelude\<close>: exceptions, the state-and-exception monad \<open>act\<close>, its Hoare logic \<open>wp\<close> and its
  preservation rules \<open>keeps\<close>, dictionaries in insertion order with the locale \<open>keyed_table\<close>. \<open>Py_Text\<close>: number
  formatting. \<open>Models\<close>: the records and enumerations of \<open>models.py\<close>, with \<open>RISK_LIMITS\<close>.

  Quotes, policies and seasons.
  \<open>Curve_Math\<close>: the constant-product quotes; no round trip through a curve gains, the budget search finds the
  largest affordable input. \<open>Risk_Profiles\<close>, \<open>Season_Strategy\<close>, \<open>Terminal_Evidence\<close>: the three small modules of these
  names. \<open>Exit_Policy\<close>: \<open>paper/exit_policy.py\<close> with its guarantees. \<open>Decision\<close>: \<open>intelligence/decision.py\<close>; an entry
  passed every gate.

  The paper account.
  \<open>Paper_Db\<close>: the tables of \<open>database.py\<close> that the broker uses and every transaction on them; \<open>db_txn\<close> rolls back on
  an exception. \<open>Books\<close>: the accounting view of the tables and one rule per operation. \<open>Broker\<close>, \<open>Broker_Entry\<close>,
  \<open>Broker_Trade\<close>, \<open>Broker_Season\<close>: \<open>paper/broker.py\<close>, with the class as a record and one definition per
  method. \<open>Broker_Accounts\<close>: an abstract account (seasons, buys, sales) and the proof that the broker refines it.
  \<open>Broker_Runs\<close>: runs of the public operations, returning or raising, with restarts; the books stay balanced.
  \<open>Broker_Orders\<close>, \<open>Broker_Recovery\<close>: the life of orders, exclusiveness, chronology, and that a restart recovers the
  memory. \<open>Broker_Laws\<close>: single operations. \<open>Receipt_Audit\<close>: \<open>paper/receipt_audit.py\<close> accepts what the broker writes.

  The queue.
  \<open>Heapq\<close>: Python's \<open>heapq\<close>, interpreting the locale \<open>priority_list\<close>. \<open>Event_Queue\<close>: \<open>event_queue.py\<close> and the
  intake of the orchestrator as a step relation over producers and consumers. \<open>Event_Intake\<close>: its invariants.

  The market.
  \<open>Market_Event\<close>, \<open>Market_State\<close>, \<open>Features\<close>, \<open>Market_Snapshot\<close>, \<open>Market_Engine\<close>: \<open>intelligence/features.py\<close>
  and \<open>activity.py\<close>, from the reading of a payload to the snapshot with its values in the order of the code.
  \<open>Market_Laws\<close>: the measured window is the recent history, routes are never redirected by events, refreshes
  are ordered, snapshots are well formed. \<open>Feed\<close>, \<open>Feed_Laws\<close>: causal order of a token's events, the account of
  lost evidence, and that an entry rests on live and complete evidence.

  The handler.
  \<open>Candidate\<close>, \<open>Candidate_Laws\<close>: the size and the provenance of a candidate (\<open>_evaluate_baseline_with_size\<close>,
  \<open>_prepare_baseline_decision\<close>, \<open>_configuration_fingerprint_for_mode\<close>, \<open>_should_record_decision\<close>). \<open>Advisors\<close>,
  \<open>Advisors_Laws\<close>: \<open>LearningEngine.assess\<close> with \<open>_assess_active_skills\<close>, and \<open>AiDecisionLab.assess_guarded\<close>.
  \<open>Worker\<close>: \<open>_handle_persisted_event\<close>; its state is the record \<open>worker\<close>, what stays fixed is \<open>wiring\<close>, and what an
  event finds (health of the provider, wall clock, line, learner, critic) is \<open>circumstances\<close>. \<open>Worker_Laws\<close> joins the
  parts: the books stay balanced while events are handled, and an order comes only from an entry on live evidence.
  \<open>Worker_Example\<close> runs one event from the stream to a pending order.
\<close>

text \<open>
  Bounds. Loops of the code are structural recursion or \<open>function\<close> with a measure; there is no fuel. The size search
  takes the six steps of the code. The heap's sifting loops end because the index moves towards the root or the
  leaves; the fee loop of \<open>quote_buy\<close> lowers its budget in every step.

  Two laws have limits that the code has too. The account of losses is exact only under a clock that does not go
  back: losses are noted at the wall clock, decisions are taken at the time of the event, and
  \<open>later_loss_forgets_earlier\<close> shows what a lag costs. And a strongly negative prediction of the entry skill does
  not veto but raises (\<open>strongly_negative_entry_prediction_raises\<close>).

  Parameters. SHA-256, canonical JSON digests, \<open>math.log10\<close>, \<open>math.log\<close>, \<open>math.log1p\<close>, \<open>str\<close> of a float or container,
  the clock, fresh identifiers, the prediction and support test of a learned model, the verdict of the local critic
  and the plans of exit timing are arguments of the definitions that use them; no theorem assumes anything about
  the advisors.

  Not modelled. Float exponents are unbounded and there are no infinities or NaN; SQLite's 64-bit limit is left out;
  text is Latin-1; a queue producer's cancellation and its except block are one step. Training, qualification and
  evidence collection of the learner, the diagnostics, the dashboard and its API, the providers' network code, the
  transitions between seasons in the orchestrator, retention and migrations of the database, and the coach are outside:
  they are libraries, input and output, reports, or glue over operations that are modelled. Calls of the handler into
  them are left out where they do not write what the handler reads.
\<close>

end
